(* ===== verification/Prelude.thy ===== *)
theory Prelude
  imports "HOL-Library.Multiset"
begin

text \<open>
  Shared vocabulary of the development: the collections of rewrite rules the component
  theories fill, JavaScript strings as character lists with the two conversions the indexer
  uses everywhere (\<open>toLowerCase\<close> and the decimal rendering of numbers), object literals as
  maps, and generic lemmas on lists.
\<close>

section \<open>Collections\<close>

named_theorems store_simps
  \<open>what an entity table holds after a write\<close>

named_theorems row_simps
  \<open>fields of the rows a constructor function builds\<close>

section \<open>Strings\<close>

text \<open>
  \<open>value.toLowerCase()\<close> on the ASCII strings the repository handles (hexadecimal addresses,
  pool identifiers, token labels): the letters A to Z move up by 32 and every other character
  stays.
\<close>

type_synonym address = string

definition lower_char :: "char \<Rightarrow> char" where
  "lower_char c = (if 65 \<le> (of_char c :: nat) \<and> (of_char c :: nat) \<le> 90
     then char_of ((of_char c :: nat) + 32) else c)"

definition toLowerCase :: "string \<Rightarrow> string" where
  "toLowerCase s = map lower_char s"

lemma of_char_lower_char:
  "(of_char (lower_char c) :: nat) =
     (if 65 \<le> (of_char c :: nat) \<and> (of_char c :: nat) \<le> 90 then of_char c + 32 else of_char c)"
  by (simp add: lower_char_def)

lemma lower_char_idem [simp]: "lower_char (lower_char c) = lower_char c"
proof -
  have "\<not> (65 \<le> (of_char (lower_char c) :: nat) \<and> (of_char (lower_char c) :: nat) \<le> 90)"
    by (simp add: of_char_lower_char)
  then show ?thesis by (simp only: lower_char_def [of "lower_char c"] if_False)
qed

lemma toLowerCase_idem [simp]: "toLowerCase (toLowerCase s) = toLowerCase s"
  by (simp add: toLowerCase_def comp_def)

lemma toLowerCase_append [simp]: "toLowerCase (s @ t) = toLowerCase s @ toLowerCase t"
  by (simp add: toLowerCase_def)

lemma lower_char_dash [simp]: "lower_char c = CHR ''-'' \<longleftrightarrow> c = CHR ''-''"
proof
  assume "lower_char c = CHR ''-''"
  then have eq: "(of_char (lower_char c) :: nat) = of_char (CHR ''-'')" by simp
  have "(of_char c :: nat) = of_char (CHR ''-'')"
    using eq by (simp add: of_char_lower_char split: if_splits)
  then show "c = CHR ''-''" by (simp only: of_char_eq_iff)
qed (simp add: lower_char_def)

lemma dash_toLowerCase [simp]: "CHR ''-'' \<in> set (toLowerCase s) \<longleftrightarrow> CHR ''-'' \<in> set s"
proof (induction s)
  case (Cons c s)
  have "CHR ''-'' = lower_char c \<longleftrightarrow> CHR ''-'' = c"
    using lower_char_dash [of c] by metis
  with Cons show ?case by (simp add: toLowerCase_def)
qed (simp add: toLowerCase_def)

lemma char_of_letters:
  "char_of (97 :: nat) = CHR ''a''" "char_of (98 :: nat) = CHR ''b''"
  "char_of (99 :: nat) = CHR ''c''" "char_of (100 :: nat) = CHR ''d''"
  "char_of (101 :: nat) = CHR ''e''" "char_of (102 :: nat) = CHR ''f''"
  "char_of (103 :: nat) = CHR ''g''" "char_of (104 :: nat) = CHR ''h''"
  "char_of (105 :: nat) = CHR ''i''" "char_of (106 :: nat) = CHR ''j''"
  "char_of (107 :: nat) = CHR ''k''" "char_of (108 :: nat) = CHR ''l''"
  "char_of (109 :: nat) = CHR ''m''" "char_of (110 :: nat) = CHR ''n''"
  "char_of (111 :: nat) = CHR ''o''" "char_of (112 :: nat) = CHR ''p''"
  "char_of (113 :: nat) = CHR ''q''" "char_of (114 :: nat) = CHR ''r''"
  "char_of (115 :: nat) = CHR ''s''" "char_of (116 :: nat) = CHR ''t''"
  "char_of (117 :: nat) = CHR ''u''" "char_of (118 :: nat) = CHR ''v''"
  "char_of (119 :: nat) = CHR ''w''" "char_of (120 :: nat) = CHR ''x''"
  "char_of (121 :: nat) = CHR ''y''" "char_of (122 :: nat) = CHR ''z''"
  by (simp_all add: char_of_def bit_0)

lemmas addr_eval = toLowerCase_def lower_char_def char_of_letters

text \<open>\<open>trim\<close> removes white space at both ends (here: the ASCII characters that count as such).\<close>

definition isSpace :: "char \<Rightarrow> bool" where
  "isSpace c \<longleftrightarrow> (of_char c :: nat) \<in> {9, 10, 11, 12, 13, 32}"

definition trim :: "string \<Rightarrow> string" where
  "trim s = rev (dropWhile isSpace (rev (dropWhile isSpace s)))"

text \<open>\<open>split\<close> at a character.\<close>

fun splitOn :: "char \<Rightarrow> string \<Rightarrow> string list" where
  "splitOn sep [] = [[]]"
| "splitOn sep (c # cs) = (if c = sep then [] # splitOn sep cs
     else (case splitOn sep cs of p # ps \<Rightarrow> (c # p) # ps | [] \<Rightarrow> [[c]]))"

text \<open>\<open>join\<close> with a separator.\<close>

fun joinWith :: "string \<Rightarrow> string list \<Rightarrow> string" where
  "joinWith sep [] = ''''"
| "joinWith sep [x] = x"
| "joinWith sep (x # y # ys) = x @ sep @ joinWith sep (y # ys)"

lemma splitOn_one: "sep \<notin> set s \<Longrightarrow> splitOn sep s = [s]"
  by (induction s) auto

lemma splitOn_part: "sep \<notin> set s \<Longrightarrow> splitOn sep (s @ sep # t) = s # splitOn sep t"
  by (induction s) auto

text \<open>Joining three fields with a separator that none of them holds loses nothing.\<close>

lemma split_at_separator:
  assumes "c \<notin> set xs" "c \<notin> set ys" "xs @ c # s = ys @ c # t"
  shows "xs = ys \<and> s = t"
  using assms
proof (induction xs arbitrary: ys)
  case Nil
  then show ?case by (cases ys) auto
next
  case (Cons x xs)
  then show ?case by (cases ys) auto
qed

section \<open>Decimal rendering of natural numbers\<close>

text \<open>
  Template literals and \<open>toString()\<close> print a non-negative integer in base 10;
  \<open>BigInt(s)\<close> reads it back. \<open>str_nat\<close> is that reading on digit strings.
\<close>

definition digit_char :: "nat \<Rightarrow> char" where
  "digit_char d = char_of (48 + d)"

definition char_digit :: "char \<Rightarrow> nat" where
  "char_digit c = of_char c - 48"

fun nat_str :: "nat \<Rightarrow> string" where
  "nat_str n = (if n < 10 then [digit_char n] else nat_str (n div 10) @ [digit_char (n mod 10)])"

declare nat_str.simps [simp del]

definition str_nat :: "string \<Rightarrow> nat" where
  "str_nat s = foldl (\<lambda>acc c. 10 * acc + char_digit c) 0 s"

lemma char_digit_digit_char [simp]: "d < 10 \<Longrightarrow> char_digit (digit_char d) = d"
  by (simp add: char_digit_def digit_char_def)

lemma digit_char_neq_dash [simp]: "d < 10 \<Longrightarrow> digit_char d \<noteq> CHR ''-''"
proof
  assume d: "d < 10" and eq: "digit_char d = CHR ''-''"
  from eq have "(of_char (digit_char d) :: nat) = of_char (CHR ''-'')" by simp
  with d show False by (simp add: digit_char_def)
qed

lemma str_nat_nat_str [simp]: "str_nat (nat_str n) = n"
proof (induction n rule: nat_str.induct)
  case (1 n)
  show ?case
  proof (cases "n < 10")
    case True
    then show ?thesis by (simp add: nat_str.simps [of n] str_nat_def)
  next
    case False
    with 1 have "str_nat (nat_str (n div 10)) = n div 10" by simp
    with False show ?thesis
      by (simp add: nat_str.simps [of n] str_nat_def mult_div_mod_eq)
  qed
qed

lemma nat_str_inject [simp]: "nat_str m = nat_str n \<longleftrightarrow> m = n"
  by (metis str_nat_nat_str)

lemma dash_nat_str [simp]: "CHR ''-'' \<notin> set (nat_str n)"
proof (induction n rule: nat_str.induct)
  case (1 n)
  then show ?case
    by (simp add: nat_str.simps [of n] eq_commute [of "CHR ''-''"])
qed

lemma slash_nat_str [simp]: "CHR ''/'' \<notin> set (nat_str n)"
proof (induction n rule: nat_str.induct)
  case (1 n)
  have digit: "digit_char d \<noteq> CHR ''/''" if "d < 10" for d
  proof
    assume "digit_char d = CHR ''/''"
    then have "(of_char (digit_char d) :: nat) = of_char (CHR ''/'')" by simp
    with that show False by (simp add: digit_char_def)
  qed
  show ?case using 1 digit
    by (subst nat_str.simps) (auto dest: sym)
qed

section \<open>Object literals, optional fields and lists\<close>

text \<open>
  A \<open>Record<string, V>\<close> written as an object literal: where a key is written twice, the later
  entry wins.
\<close>

definition object_literal :: "(string \<times> 'v) list \<Rightarrow> string \<rightharpoonup> 'v" where
  "object_literal kvs = map_of (rev kvs)"

text \<open>\<open>value ?? fallback\<close>.\<close>

definition nullish :: "'a option \<Rightarrow> 'a \<Rightarrow> 'a" where
  "nullish x d = (case x of None \<Rightarrow> d | Some v \<Rightarrow> v)"

lemma nullish_simps [simp]: "nullish None d = d" "nullish (Some v) d = v"
  by (simp_all add: nullish_def)

lemma find_SomeD: "List.find P xs = Some x \<Longrightarrow> x \<in> set xs \<and> P x"
  by (auto simp: find_Some_iff)

lemma sum_list_filter_partition:
  fixes f :: "'a \<Rightarrow> 'b :: comm_monoid_add"
  shows "sum_list (map f xs) =
    sum_list (map f (filter P xs)) + sum_list (map f (filter (\<lambda>x. \<not> P x) xs))"
  by (induction xs) (simp_all add: ac_simps)

lemma foldl_plus_sum_list:
  fixes f :: "'a \<Rightarrow> 'b :: comm_monoid_add"
  shows "foldl (\<lambda>acc x. acc + f x) a xs = a + sum_list (map f xs)"
  by (induction xs arbitrary: a) (simp_all add: ac_simps)

section \<open>Tallies\<close>

text \<open>
  A tally keeps a total per key, and posting an event moves each total by the event's effect
  on that key. Whatever the provider stores, after a run of events every total is the old one
  plus the effects, so the order of the events does not matter.
\<close>

locale tally =
  fixes total :: "'s \<Rightarrow> 'k \<Rightarrow> 'v :: comm_monoid_add"
    and post :: "'s \<Rightarrow> 'e \<Rightarrow> 's"
    and effect :: "'e \<Rightarrow> 'k \<Rightarrow> 'v"
  assumes total_post: "total (post s e) k = total s k + effect e k"
begin

lemma total_run: "total (foldl post s es) k = total s k + sum_list (map (\<lambda>e. effect e k) es)"
  by (induction es arbitrary: s) (simp_all add: total_post ac_simps)

lemma total_run_perm:
  assumes "mset es = mset es'"
  shows "total (foldl post s es) k = total (foldl post s es') k"
proof -
  have "sum_list (map f es) = sum_list (map f es')" for f :: "'e \<Rightarrow> 'v"
    using assms by (metis mset_map sum_mset_sum_list)
  then show ?thesis by (simp add: total_run)
qed

lemma total_run_untouched:
  "\<forall>e \<in> set es. effect e k = 0 \<Longrightarrow> total (foldl post s es) k = total s k"
  by (simp add: total_run cong: map_cong)

end

text \<open>
  A clamped tally replaces a negative total by zero at every change. Its totals are never
  negative once they start that way, never below the plain sum of the changes, and equal to it
  as long as no intermediate sum is negative.
\<close>

definition clamp_add :: "int \<Rightarrow> int \<Rightarrow> int" where
  "clamp_add v d = (if v + d < 0 then 0 else v + d)"

lemma foldl_clamp_nonneg: "0 \<le> v \<Longrightarrow> 0 \<le> foldl clamp_add v ds"
  by (induction ds arbitrary: v) (simp_all add: clamp_add_def)

lemma foldl_clamp_mono: "v \<le> w \<Longrightarrow> foldl clamp_add v ds \<le> foldl clamp_add w ds"
  by (induction ds arbitrary: v w) (simp_all add: clamp_add_def)

lemma foldl_clamp_ge_sum: "v + sum_list ds \<le> foldl clamp_add v ds"
proof (induction ds arbitrary: v)
  case (Cons d ds)
  have "v + d \<le> clamp_add v d" by (simp add: clamp_add_def)
  then show ?case using Cons [of "clamp_add v d"] by simp
qed simp

lemma foldl_clamp_exact:
  "(\<forall>n \<le> length ds. 0 \<le> v + sum_list (take n ds)) \<Longrightarrow> foldl clamp_add v ds = v + sum_list ds"
proof (induction ds arbitrary: v)
  case (Cons d ds)
  have "0 \<le> v + d" using Cons.prems [rule_format, of 1] by simp
  then have c: "clamp_add v d = v + d" by (simp add: clamp_add_def)
  have "\<forall>n \<le> length ds. 0 \<le> (v + d) + sum_list (take n ds)"
    using Cons.prems by (metis (no_types, lifting) Suc_le_mono add.assoc length_Cons
      sum_list.Cons take_Suc_Cons)
  then show ?case using Cons.IH [of "v + d"] c by simp
qed simp

locale clamped_tally =
  fixes total :: "'s \<Rightarrow> 'k \<Rightarrow> int"
    and post :: "'s \<Rightarrow> 'e \<Rightarrow> 's"
    and deltas :: "'e \<Rightarrow> 'k \<Rightarrow> int list"
  assumes total_post: "total (post s e) k = foldl clamp_add (total s k) (deltas e k)"
begin

lemma total_run:
  "total (foldl post s es) k = foldl clamp_add (total s k) (concat (map (\<lambda>e. deltas e k) es))"
  by (induction es arbitrary: s) (simp_all add: total_post)

lemma total_run_nonneg: "0 \<le> total s k \<Longrightarrow> 0 \<le> total (foldl post s es) k"
  by (simp add: total_run foldl_clamp_nonneg)

lemma total_run_ge:
  "total s k + sum_list (concat (map (\<lambda>e. deltas e k) es)) \<le> total (foldl post s es) k"
  by (simp add: total_run foldl_clamp_ge_sum)

lemma total_run_exact:
  assumes "\<forall>n \<le> length (concat (map (\<lambda>e. deltas e k) es)).
    0 \<le> total s k + sum_list (take n (concat (map (\<lambda>e. deltas e k) es)))"
  shows "total (foldl post s es) k = total s k + sum_list (concat (map (\<lambda>e. deltas e k) es))"
  using foldl_clamp_exact [OF assms] by (simp only: total_run)

end

text \<open>
  A latest-value table keeps, per key, what the last event about that key said. Events may be
  about no key at all (the handler ignores them).
\<close>

locale latest_value =
  fixes latest :: "'s \<Rightarrow> 'k \<Rightarrow> 'v option"
    and post :: "'s \<Rightarrow> 'e \<Rightarrow> 's"
    and about :: "'e \<Rightarrow> 'k option"
    and says :: "'e \<Rightarrow> 'v"
  assumes latest_post: "latest (post s e) k = (if about e = Some k then Some (says e) else latest s k)"
begin

lemma latest_run:
  "latest (foldl post s es) k = (case List.find (\<lambda>e. about e = Some k) (rev es) of
     None \<Rightarrow> latest s k | Some e \<Rightarrow> Some (says e))"
  by (induction es rule: rev_induct) (simp_all add: latest_post)

lemma latest_run_ignored:
  "\<forall>e \<in> set es. about e \<noteq> Some k \<Longrightarrow> latest (foldl post s es) k = latest s k"
  by (induction es rule: rev_induct) (simp_all add: latest_post)

end

lemma sum_list_if_filter:
  fixes f :: "'a \<Rightarrow> 'b :: comm_monoid_add"
  shows "sum_list (map (\<lambda>x. if P x then f x else 0) xs) = sum_list (map f (filter P xs))"
  by (induction xs) simp_all

end
