(* ===== verification/Bignumber.thy ===== *)
theory Bignumber
  imports Prelude Complex_Main
begin

text \<open>
  Decimal numbers. The indexer computes prices, balances and supplies with bignumber.js, a
  third-party package. Its values are the exact decimal numbers plus the two infinities and
  NaN (the signed zero is identified with zero: the code only compares with \<open>eq\<close>, \<open>gt\<close>,
  \<open>lte\<close> and prints, and none of these separates the two zeros). Sums, products and
  comparisons are exact. Division and \<open>toString(10)\<close> round to \<open>DECIMAL_PLACES\<close> places; that
  rounding is the parameter \<open>rnd\<close> of every definition that divides or prints, and the locale
  \<open>decimal_rounding\<close> states what the documentation promises of it. \<open>round20\<close> is the
  documented default (20 places, halves away from zero) and interprets the locale.
\<close>

section \<open>Values and exact arithmetic\<close>

datatype bignumber = Fin rat | PosInf | NegInf | NaN

instantiation bignumber :: "{zero, one, plus, times, uminus, minus}"
begin

definition zero_bignumber :: bignumber where "0 = Fin 0"

definition one_bignumber :: bignumber where "1 = Fin 1"

fun plus_bignumber :: "bignumber \<Rightarrow> bignumber \<Rightarrow> bignumber" where
  "Fin a + Fin b = Fin (a + b)"
| "NaN + y = NaN"
| "x + NaN = NaN"
| "PosInf + NegInf = NaN"
| "NegInf + PosInf = NaN"
| "PosInf + y = PosInf"
| "x + PosInf = PosInf"
| "NegInf + y = NegInf"
| "x + NegInf = NegInf"

fun uminus_bignumber :: "bignumber \<Rightarrow> bignumber" where
  "- Fin a = Fin (- a)"
| "- PosInf = NegInf"
| "- NegInf = PosInf"
| "- NaN = NaN"

definition minus_bignumber :: "bignumber \<Rightarrow> bignumber \<Rightarrow> bignumber" where
  "x - y = x + (- y)" for x y :: bignumber

definition signed_inf :: "rat \<Rightarrow> bignumber" where
  "signed_inf q = (if q > 0 then PosInf else if q < 0 then NegInf else NaN)"

fun times_bignumber :: "bignumber \<Rightarrow> bignumber \<Rightarrow> bignumber" where
  "Fin a * Fin b = Fin (a * b)"
| "NaN * y = NaN"
| "x * NaN = NaN"
| "PosInf * Fin b = signed_inf b"
| "NegInf * Fin b = signed_inf (- b)"
| "Fin a * PosInf = signed_inf a"
| "Fin a * NegInf = signed_inf (- a)"
| "PosInf * PosInf = PosInf"
| "PosInf * NegInf = NegInf"
| "NegInf * PosInf = NegInf"
| "NegInf * NegInf = PosInf"

instance ..

end

instance bignumber :: comm_monoid_add
proof
  fix x y z :: bignumber
  show "x + y + z = x + (y + z)"
    by (cases x; cases y; cases z) simp_all
  show "x + y = y + x"
    by (cases x; cases y) simp_all
  show "0 + x = x"
    by (cases x) (simp_all add: zero_bignumber_def)
qed

lemma bn_zero [simp]: "(0 :: bignumber) = Fin 0"
  by (rule zero_bignumber_def)

lemma bn_one [simp]: "(1 :: bignumber) = Fin 1"
  by (rule one_bignumber_def)

lemma Fin_minus [simp]: "Fin a - Fin b = Fin (a - b)"
  by (simp add: minus_bignumber_def)

lemma bn_mult_commute: "x * y = y * (x :: bignumber)"
  by (cases x; cases y) (simp_all add: signed_inf_def)

lemma Fin_add_0 [simp]: "Fin 0 + x = x" "x + Fin 0 = x"
  by (metis add_0 bn_zero) (metis add_0_right bn_zero)

lemma Fin_mult_1 [simp]: "Fin 1 * x = x" "x * Fin 1 = x"
  by (cases x; simp add: signed_inf_def)+

section \<open>Comparisons\<close>

text \<open>\<open>a.gt(b)\<close> and \<open>a.lte(b)\<close>; with NaN every comparison is false. \<open>a.eq(ZERO)\<close> is
  \<open>a = Fin 0\<close>, and it is also what \<open>a.isZero()\<close> computes.\<close>

fun bn_gt :: "bignumber \<Rightarrow> bignumber \<Rightarrow> bool" where
  "bn_gt (Fin a) (Fin b) = (a > b)"
| "bn_gt NaN y = False"
| "bn_gt x NaN = False"
| "bn_gt NegInf y = False"
| "bn_gt x PosInf = False"
| "bn_gt PosInf y = True"
| "bn_gt x NegInf = True"

definition bn_lte :: "bignumber \<Rightarrow> bignumber \<Rightarrow> bool" where
  "bn_lte x y \<longleftrightarrow> x \<noteq> NaN \<and> y \<noteq> NaN \<and> \<not> bn_gt x y"

lemma bn_gt_irrefl [simp]: "\<not> bn_gt x x"
  by (cases x) simp_all

lemma bn_gt_trans: "bn_gt x y \<Longrightarrow> bn_gt y z \<Longrightarrow> bn_gt x z"
  by (cases x; cases y; cases z) simp_all

lemma bn_not_gt_trans:
  "y \<noteq> NaN \<Longrightarrow> \<not> bn_gt x y \<Longrightarrow> \<not> bn_gt y z \<Longrightarrow> \<not> bn_gt x z"
  by (cases x; cases y; cases z) simp_all

lemma bn_gt_not_gt: "bn_gt x y \<Longrightarrow> \<not> bn_gt y x"
  by (cases x; cases y) simp_all

section \<open>Division and printing\<close>

type_synonym rounding = "rat \<Rightarrow> rat"

fun bn_div :: "rounding \<Rightarrow> bignumber \<Rightarrow> bignumber \<Rightarrow> bignumber" where
  "bn_div rnd (Fin a) (Fin b) = (if b = 0 then signed_inf a else Fin (rnd (a / b)))"
| "bn_div rnd NaN y = NaN"
| "bn_div rnd x NaN = NaN"
| "bn_div rnd PosInf (Fin b) = (if b < 0 then NegInf else PosInf)"
| "bn_div rnd NegInf (Fin b) = (if b < 0 then PosInf else NegInf)"
| "bn_div rnd (Fin a) y = Fin 0"
| "bn_div rnd x y = NaN"

text \<open>
  \<open>value.toString(10)\<close> as the number the printed string denotes: rounded to
  \<open>DECIMAL_PLACES\<close>. Decimal strings of rows are represented by the number they denote, so
  \<open>new BigNumber(row.value)\<close> and \<open>new BigDecimal(row.value)\<close> are the identity.
\<close>

fun bn_print :: "rounding \<Rightarrow> bignumber \<Rightarrow> bignumber" where
  "bn_print rnd (Fin a) = Fin (rnd a)"
| "bn_print rnd x = x"

definition is_fin :: "bignumber \<Rightarrow> bool" where
  "is_fin x \<longleftrightarrow> (\<exists>q. x = Fin q)"

lemma is_fin_simps [simp]:
  "is_fin (Fin q)" "\<not> is_fin PosInf" "\<not> is_fin NegInf" "\<not> is_fin NaN"
  by (simp_all add: is_fin_def)

lemma is_fin_arith [simp, intro]:
  "is_fin x \<Longrightarrow> is_fin y \<Longrightarrow> is_fin (x + y)"
  "is_fin x \<Longrightarrow> is_fin y \<Longrightarrow> is_fin (x * y)"
  "is_fin x \<Longrightarrow> is_fin y \<Longrightarrow> is_fin (x - y)"
  "is_fin x \<Longrightarrow> is_fin y \<Longrightarrow> y \<noteq> Fin 0 \<Longrightarrow> is_fin (bn_div rnd x y)"
  "is_fin x \<Longrightarrow> is_fin (bn_print rnd x)"
  by (cases x; cases y; simp)+

lemma bn_sum_Fin: "sum_list (map (\<lambda>x. Fin (f x)) xs) = Fin (sum_list (map f xs))"
  by (induction xs) simp_all

section \<open>What the documentation promises of the rounding\<close>

text \<open>
  \<open>10^-20\<close> is the unit in the last place at the default \<open>DECIMAL_PLACES\<close>. The indexer never
  configures the package, so the default holds.
\<close>

definition ulp20 :: rat where
  "ulp20 = 1 / 10 ^ 20"

locale decimal_rounding =
  fixes rnd :: "rat \<Rightarrow> rat"
  assumes rnd_near: "\<bar>rnd q - q\<bar> \<le> ulp20 / 2"
    and rnd_grid: "q = of_int k * ulp20 \<Longrightarrow> rnd q = q"
    and rnd_odd: "rnd (- q) = - rnd q"
    and rnd_mono: "p \<le> q \<Longrightarrow> rnd p \<le> rnd q"
begin

lemma rnd_int [simp]: "rnd (of_int k) = of_int k"
  by (rule rnd_grid [of _ "k * 10 ^ 20"]) (simp add: ulp20_def)

lemma rnd_numeral [simp]: "rnd (numeral n) = numeral n" "rnd (- numeral n) = - numeral n"
  using rnd_int [of "numeral n"] rnd_int [of "- numeral n"] by simp_all

lemma rnd_0 [simp]: "rnd 0 = 0"
  using rnd_int [of 0] by simp

lemma rnd_1 [simp]: "rnd 1 = 1"
  using rnd_int [of 1] by simp

lemma rnd_nonneg: "0 \<le> q \<Longrightarrow> 0 \<le> rnd q"
  using rnd_mono [of 0 q] by simp

lemma rnd_le_1: "q \<le> 1 \<Longrightarrow> rnd q \<le> 1"
  using rnd_mono [of q 1] by simp

lemma print_minus: "bn_print rnd (x * Fin (- 1)) = - bn_print rnd x"
  by (cases x) (simp_all add: rnd_odd signed_inf_def)

lemma rnd_twice: "\<bar>rnd (rnd q) - q\<bar> \<le> ulp20"
  using rnd_near [of q] rnd_near [of "rnd q"] by linarith

lemma rnd_error_le: "\<bar>rnd q - q\<bar> \<le> ulp20"
  using rnd_near [of q] by (simp add: ulp20_def)

end

definition round20 :: "rat \<Rightarrow> rat" where
  "round20 q = (if q < 0 then - of_int \<lfloor>- q * 10 ^ 20 + 1 / 2\<rfloor> / 10 ^ 20
     else of_int \<lfloor>q * 10 ^ 20 + 1 / 2\<rfloor> / 10 ^ 20)"

lemma round20_near_nonneg:
  assumes "0 \<le> q"
  shows "\<bar>of_int \<lfloor>q * 10 ^ 20 + 1 / 2\<rfloor> / 10 ^ 20 - q\<bar> \<le> ulp20 / 2"
proof -
  let ?x = "q * 10 ^ 20"
  have "of_int \<lfloor>?x + 1 / 2\<rfloor> \<le> ?x + 1 / 2" "?x + 1 / 2 < of_int \<lfloor>?x + 1 / 2\<rfloor> + 1"
    by linarith+
  then have "\<bar>of_int \<lfloor>?x + 1 / 2\<rfloor> - ?x\<bar> \<le> 1 / 2" by linarith
  then have "\<bar>(of_int \<lfloor>?x + 1 / 2\<rfloor> - ?x) / 10 ^ 20\<bar> \<le> (1 / 2) / 10 ^ 20"
    by (simp add: abs_divide)
  then show ?thesis by (simp add: ulp20_def diff_divide_distrib)
qed

lemma round20_grid_nonneg:
  fixes k :: int
  shows "of_int \<lfloor>(of_int k :: rat) + 1 / 2\<rfloor> = (of_int k :: rat)"
  by (simp add: floor_unique)

interpretation bn20: decimal_rounding round20
proof unfold_locales
  fix q p :: rat and k :: int
  show "\<bar>round20 q - q\<bar> \<le> ulp20 / 2"
  proof (cases "q < 0")
    case True
    then show ?thesis
      using round20_near_nonneg [of "- q"]
        abs_minus_cancel [of "of_int \<lfloor>- q * 10 ^ 20 + 1 / 2\<rfloor> / 10 ^ 20 + q"]
      by (simp add: round20_def)
  next
    case False
    then show ?thesis
      using round20_near_nonneg [of q] by (simp add: round20_def)
  qed
  show "q = of_int k * ulp20 \<Longrightarrow> round20 q = q"
    using round20_grid_nonneg [of k] round20_grid_nonneg [of "- k"]
    by (simp add: round20_def ulp20_def)
  show "round20 (- q) = - round20 q"
    by (cases q "0 :: rat" rule: linorder_cases)
      (simp_all add: round20_def floor_eq_iff)
  show "p \<le> q \<Longrightarrow> round20 p \<le> round20 q"
  proof -
    assume le: "p \<le> q"
    have mono: "of_int \<lfloor>a * 10 ^ 20 + 1 / 2\<rfloor> / 10 ^ 20
        \<le> (of_int \<lfloor>b * 10 ^ 20 + 1 / 2\<rfloor> / 10 ^ 20 :: rat)" if "a \<le> b" for a b :: rat
      using that by (intro divide_right_mono) (simp_all add: floor_mono)
    have pos: "0 \<le> round20 b" if "0 \<le> b" for b
      using that by (simp add: round20_def)
    have neg: "round20 b \<le> 0" if "b < 0" for b
      using that by (simp add: round20_def)
    consider "q < 0" | "p < 0" "0 \<le> q" | "0 \<le> p" by linarith
    then show ?thesis
    proof cases
      case 1
      then show ?thesis using le mono [of "- q" "- p"] by (simp add: round20_def)
    next
      case 2
      then show ?thesis using neg [of p] pos [of q] by linarith
    next
      case 3
      then show ?thesis using le mono [of p q] by (simp add: round20_def)
    qed
  qed
qed

end
