(* ===== verification/Calendar.thy ===== *)
theory Calendar
  imports Prelude
begin

text \<open>
  The part of JavaScript's \<open>Date\<close> the repository uses, on UTC midnights: a day is the number
  of days since 1970-01-01, and the conversions between days and calendar dates follow the
  language specification (day-from-year in closed form, the year and the month found by
  search). \<open>iso_day\<close> is \<open>toISOString().slice(0, 10)\<close>. The lemmas show that the two
  conversions are inverse to each other on every day and every calendar date.
\<close>

section \<open>Years\<close>

definition leap_year :: "int \<Rightarrow> bool" where
  "leap_year y \<longleftrightarrow> (4 dvd y \<and> \<not> 100 dvd y) \<or> 400 dvd y"

definition day_from_year :: "int \<Rightarrow> int" where
  "day_from_year y = 365 * (y - 1970) + (y - 1969) div 4 - (y - 1901) div 100 + (y - 1601) div 400"

definition year_length :: "int \<Rightarrow> nat" where
  "year_length y = (if leap_year y then 366 else 365)"

lemma div_step:
  fixes z n :: int
  assumes "0 < n"
  shows "(z + 1) div n = z div n + (if n dvd z + 1 then 1 else 0)"
proof (cases "n dvd z + 1")
  case True
  then obtain k where k: "z + 1 = n * k" by (rule dvdE)
  have "z div n = k - 1"
    by (rule int_div_pos_eq [of _ _ _ "n - 1"]) (use k assms in \<open>auto simp: algebra_simps\<close>)
  then show ?thesis using True k assms by simp
next
  case False
  have nz: "(z + 1) mod n \<noteq> 0" using False by (simp add: dvd_eq_mod_eq_0)
  have lt: "z mod n + 1 < n"
  proof (rule ccontr)
    assume "\<not> z mod n + 1 < n"
    then have "z mod n = n - 1" using pos_mod_bound [OF assms, of z] by linarith
    then have "z + 1 = n * (z div n) + n" using mult_div_mod_eq [of n z] by linarith
    then have "n dvd z + 1" by simp
    then show False using False by contradiction
  qed
  have "(z + 1) div n = z div n"
    by (rule int_div_pos_eq [of _ _ _ "z mod n + 1"])
      (use lt assms pos_mod_sign [OF assms, of z] in \<open>auto simp: mult_div_mod_eq\<close>)
  then show ?thesis using False by simp
qed

lemma day_from_year_Suc: "day_from_year (y + 1) = day_from_year y + int (year_length y)"
proof -
  have d: "4 dvd y - 1969 + 1 \<longleftrightarrow> 4 dvd y" "100 dvd y - 1901 + 1 \<longleftrightarrow> 100 dvd y"
    "400 dvd y - 1601 + 1 \<longleftrightarrow> 400 dvd y"
    using dvd_diff_right_iff [of 4 1968 y] dvd_diff_right_iff [of 100 1900 y]
      dvd_diff_right_iff [of 400 1600 y] by (simp_all add: dvd_diff_left_iff)
  have i: "100 dvd y \<Longrightarrow> 4 dvd y" "400 dvd y \<Longrightarrow> 100 dvd y"
    using dvd_trans [of 4 100 y] dvd_trans [of 100 400 y] by simp_all
  show ?thesis
    using div_step [of 4 "y - 1969"] div_step [of 100 "y - 1901"] div_step [of 400 "y - 1601"] d i
    by (auto simp: day_from_year_def year_length_def leap_year_def)
qed

lemma day_from_year_less [simp]: "day_from_year y < day_from_year (y + 1)"
  by (simp add: day_from_year_Suc year_length_def)

lemma day_from_year_strict: "y < z \<Longrightarrow> day_from_year y < day_from_year z"
proof (induction "nat (z - y)" arbitrary: z)
  case (Suc k)
  show ?case
  proof (cases "y = z - 1")
    case True
    then show ?thesis using day_from_year_less [of y] by simp
  next
    case False
    with Suc have "day_from_year y < day_from_year (z - 1)" by simp
    also have "\<dots> < day_from_year z" using day_from_year_less [of "z - 1"] by simp
    finally show ?thesis .
  qed
qed simp

lemma day_from_year_mono: "y \<le> z \<Longrightarrow> day_from_year y \<le> day_from_year z"
  using day_from_year_strict [of y z] by (cases "y = z") simp_all

text \<open>The year of a day: the largest year that starts on or before it, found upwards from an
  estimate that is never too late.\<close>

function year_search :: "int \<Rightarrow> int \<Rightarrow> int" where
  "year_search y n = (if day_from_year (y + 1) \<le> n then year_search (y + 1) n else y)"
  by pat_completeness auto
termination
  by (relation "measure (\<lambda>(y, n). nat (n - day_from_year y))")
    (auto intro: less_le_trans [OF day_from_year_less])

declare year_search.simps [simp del]

definition year_estimate :: "int \<Rightarrow> int" where
  "year_estimate n = 1970 + (if n < 0 then n div 365 else n div 366)"

definition year_of_day :: "int \<Rightarrow> int" where
  "year_of_day n = year_search (year_estimate n) n"

lemma day_from_year_bounds:
  "0 \<le> k \<Longrightarrow> day_from_year (1970 + k) \<le> 366 * k"
  "k \<le> 0 \<Longrightarrow> day_from_year (1970 + k) \<le> 365 * k"
proof -
  have up: "day_from_year (1970 + int m) \<le> 366 * int m" for m
  proof (induction m)
    case (Suc m)
    then show ?case using day_from_year_Suc [of "1970 + int m"]
      by (simp add: year_length_def ac_simps split: if_splits)
  qed (simp add: day_from_year_def)
  have down: "day_from_year (1970 - int m) \<le> - (365 * int m)" for m
  proof (induction m)
    case (Suc m)
    then show ?case using day_from_year_Suc [of "1970 - int m - 1"]
      by (simp add: year_length_def algebra_simps split: if_splits)
  qed (simp add: day_from_year_def)
  show "0 \<le> k \<Longrightarrow> day_from_year (1970 + k) \<le> 366 * k" using up [of "nat k"] by simp
  show "k \<le> 0 \<Longrightarrow> day_from_year (1970 + k) \<le> 365 * k" using down [of "nat (- k)"] by simp
qed

lemma year_estimate_early: "day_from_year (year_estimate n) \<le> n"
proof (cases "n < 0")
  case True
  then have "n div 365 \<le> 0" by (simp add: div_nonpos_pos_le0)
  then have "day_from_year (1970 + n div 365) \<le> 365 * (n div 365)"
    by (rule day_from_year_bounds(2))
  also have "\<dots> \<le> n" using mult_div_mod_eq [of 365 n] pos_mod_sign [of 365 n] by linarith
  finally show ?thesis using True by (simp add: year_estimate_def)
next
  case False
  then have "0 \<le> n div 366" by simp
  then have "day_from_year (1970 + n div 366) \<le> 366 * (n div 366)"
    by (rule day_from_year_bounds(1))
  also have "\<dots> \<le> n" using mult_div_mod_eq [of 366 n] pos_mod_sign [of 366 n] by linarith
  finally show ?thesis using False by (simp add: year_estimate_def)
qed

lemma year_search_bounds:
  assumes "day_from_year y \<le> n"
  shows "day_from_year (year_search y n) \<le> n \<and> n < day_from_year (year_search y n + 1)"
  using assms
proof (induction y n rule: year_search.induct)
  case (1 y n)
  then show ?case
    by (cases "day_from_year (y + 1) \<le> n") (simp_all add: year_search.simps [of y n])
qed

lemma year_of_day_bounds:
  "day_from_year (year_of_day n) \<le> n" "n < day_from_year (year_of_day n + 1)"
  using year_search_bounds [OF year_estimate_early] by (simp_all add: year_of_day_def)

lemma year_of_day_unique:
  assumes "day_from_year y \<le> n" "n < day_from_year (y + 1)"
  shows "year_of_day n = y"
proof (rule ccontr)
  assume "year_of_day n \<noteq> y"
  then consider "year_of_day n + 1 \<le> y" | "y + 1 \<le> year_of_day n" by linarith
  then show False
  proof cases
    case 1
    then show False
      using day_from_year_mono [OF 1] year_of_day_bounds(2) [of n] assms by linarith
  next
    case 2
    then show False
      using day_from_year_mono [OF 2] year_of_day_bounds(1) [of n] assms by linarith
  qed
qed

section \<open>Months\<close>

definition month_lengths :: "int \<Rightarrow> nat list" where
  "month_lengths y = [31, if leap_year y then 29 else 28, 31, 30, 31, 30, 31, 31, 30, 31, 30, 31]"

text \<open>Months count from 0 here, as in \<open>getUTCMonth()\<close> and \<open>Date.UTC\<close>.\<close>

fun split_month :: "nat \<Rightarrow> nat \<Rightarrow> nat list \<Rightarrow> nat \<times> nat" where
  "split_month k m [] = (m, k)"
| "split_month k m (l # ls) = (if k < l then (m, k) else split_month (k - l) (m + 1) ls)"

lemma split_month_in:
  "i < length ls \<Longrightarrow> d < ls ! i \<Longrightarrow> split_month (sum_list (take i ls) + d) m ls = (m + i, d)"
proof (induction ls arbitrary: i m)
  case (Cons l ls)
  then show ?case by (cases i) simp_all
qed simp

lemma split_month_out:
  "k < sum_list ls \<Longrightarrow> split_month k m ls = (i, d) \<Longrightarrow>
     m \<le> i \<and> i < m + length ls \<and> d < ls ! (i - m) \<and> k = sum_list (take (i - m) ls) + d"
proof (induction ls arbitrary: k m)
  case (Cons l ls)
  show ?case
  proof (cases "k < l")
    case False
    with Cons.prems have "m + 1 \<le> i \<and> i < m + 1 + length ls \<and> d < ls ! (i - (m + 1))
        \<and> k - l = sum_list (take (i - (m + 1)) ls) + d"
      by (intro Cons.IH) auto
    moreover from this have "Suc m \<le> i" by simp
    then have "i - m = Suc (i - (m + 1))" by arith
    ultimately show ?thesis using False by auto
  qed (use Cons.prems in auto)
qed simp

lemma length_month_lengths [simp]: "length (month_lengths y) = 12"
  by (simp add: month_lengths_def)

lemma sum_month_lengths [simp]: "sum_list (month_lengths y) = year_length y"
  by (simp add: month_lengths_def year_length_def)

lemma month_lengths_range: "m < 12 \<Longrightarrow> 28 \<le> month_lengths y ! m \<and> month_lengths y ! m \<le> 31"
  by (auto simp: month_lengths_def nth_Cons' numeral_eq_Suc less_Suc_eq)

section \<open>Days and calendar dates\<close>

text \<open>\<open>Date.UTC(y, m, d)\<close> for a month in range; a day beyond the month runs over.\<close>

definition days_of_civil :: "int \<Rightarrow> nat \<Rightarrow> nat \<Rightarrow> int" where
  "days_of_civil y m d =
     day_from_year y + int (sum_list (take m (month_lengths y))) + int d - 1"

definition civil_of_days :: "int \<Rightarrow> int \<times> nat \<times> nat" where
  "civil_of_days n = (let y = year_of_day n;
     (m, d) = split_month (nat (n - day_from_year y)) 0 (month_lengths y) in (y, m, d + 1))"

definition valid_civil :: "int \<Rightarrow> nat \<Rightarrow> nat \<Rightarrow> bool" where
  "valid_civil y m d \<longleftrightarrow> m < 12 \<and> 1 \<le> d \<and> d \<le> month_lengths y ! m"

lemma sum_take_less:
  fixes ls :: "nat list"
  assumes "i < length ls" "d < ls ! i"
  shows "sum_list (take i ls) + d < sum_list ls"
proof -
  have "sum_list ls = sum_list (take i ls) + sum_list (drop i ls)"
    by (metis append_take_drop_id sum_list_append)
  moreover have "drop i ls = ls ! i # drop (Suc i) ls"
    using assms by (simp add: Cons_nth_drop_Suc)
  ultimately show ?thesis using assms by simp
qed

lemma civil_of_days_of_civil:
  assumes "valid_civil y m d"
  shows "civil_of_days (days_of_civil y m d) = (y, m, d)"
proof -
  let ?k = "sum_list (take m (month_lengths y)) + (d - 1)"
  have n: "days_of_civil y m d = day_from_year y + int ?k"
    using assms by (simp add: days_of_civil_def valid_civil_def of_nat_diff)
  have "d - 1 < month_lengths y ! m" using assms by (auto simp: valid_civil_def)
  then have "?k < year_length y"
    using sum_take_less [of m "month_lengths y" "d - 1"] assms by (simp add: valid_civil_def)
  then have y: "year_of_day (days_of_civil y m d) = y"
    by (intro year_of_day_unique) (simp_all only: n day_from_year_Suc of_nat_less_iff
        add_less_cancel_left le_add_same_cancel1 of_nat_0_le_iff)
  have "split_month ?k 0 (month_lengths y) = (0 + m, d - 1)"
    using assms by (intro split_month_in) (auto simp: valid_civil_def)
  moreover have "nat (days_of_civil y m d - day_from_year y) = ?k" by (simp add: n)
  moreover have "d - 1 + 1 = d" using assms by (auto simp: valid_civil_def)
  ultimately show ?thesis by (simp only: civil_of_days_def y Let_def prod.case add_0)
qed

lemma days_of_civil_of_days:
  assumes "civil_of_days n = (y, m, d)"
  shows "valid_civil y m d \<and> days_of_civil y m d = n \<and> y = year_of_day n"
proof -
  obtain i e where sp: "split_month (nat (n - day_from_year (year_of_day n))) 0
      (month_lengths (year_of_day n)) = (i, e)" by fastforce
  have eq: "y = year_of_day n" "m = i" "d = e + 1"
    using assms sp by (auto simp: civil_of_days_def Let_def)
  have k: "nat (n - day_from_year y) < sum_list (month_lengths y)"
    using year_of_day_bounds [of n] day_from_year_Suc [of y] eq by simp
  have "0 \<le> i \<and> i < 0 + length (month_lengths y) \<and> e < month_lengths y ! (i - 0)
      \<and> nat (n - day_from_year y) = sum_list (take (i - 0) (month_lengths y)) + e"
    using sp k eq by (intro split_month_out) auto
  then show ?thesis
    using eq year_of_day_bounds(1) [of n] by (auto simp: valid_civil_def days_of_civil_def)
qed

section \<open>ISO dates\<close>

definition pad0 :: "nat \<Rightarrow> string \<Rightarrow> string" where
  "pad0 w s = replicate (w - length s) (CHR ''0'') @ s"

text \<open>\<open>toISOString().slice(0, 10)\<close>: four digits for the years 0 to 9999, a sign and six digits
  for the others.\<close>

definition iso_year :: "int \<Rightarrow> string" where
  "iso_year y = (if 0 \<le> y \<and> y \<le> 9999 then pad0 4 (nat_str (nat y))
     else (if y < 0 then CHR ''-'' else CHR ''+'') # pad0 6 (nat_str (nat \<bar>y\<bar>)))"

definition iso_civil :: "int \<Rightarrow> nat \<Rightarrow> nat \<Rightarrow> string" where
  "iso_civil y m d = iso_year y @ ''-'' @ pad0 2 (nat_str (m + 1)) @ ''-'' @ pad0 2 (nat_str d)"

definition iso_day :: "int \<Rightarrow> string" where
  "iso_day n = (case civil_of_days n of (y, m, d) \<Rightarrow> take 10 (iso_civil y m d))"

text \<open>Reading the fields of a ten-character date.\<close>

definition is_digit :: "char \<Rightarrow> bool" where
  "is_digit c \<longleftrightarrow> 48 \<le> (of_char c :: nat) \<and> (of_char c :: nat) \<le> 57"

definition date_pattern :: "string \<Rightarrow> bool" where
  "date_pattern s \<longleftrightarrow> length s = 10 \<and> list_all is_digit (take 4 s) \<and> s ! 4 = CHR ''-'' \<and>
     list_all is_digit (take 2 (drop 5 s)) \<and> s ! 7 = CHR ''-'' \<and> list_all is_digit (drop 8 s)"

definition date_fields :: "string \<Rightarrow> nat \<times> nat \<times> nat" where
  "date_fields s = (str_nat (take 4 s), str_nat (take 2 (drop 5 s)), str_nat (drop 8 s))"

end
