(* ===== verification/Types.thy ===== *)
theory Types
  imports Bignumber Calendar
begin

text \<open>
  The data the indexer works on (\<open>snapshot/types.ts\<close>) and its shared helpers
  (\<open>snapshot/math.ts\<close>). Optional fields are options; decimal strings are the numbers they
  denote; block numbers, timestamps, chain ids and decimals are natural numbers; raw token
  amounts are integers. Field names carry a prefix per record type because record selectors
  are global.
\<close>

section \<open>Rows\<close>

record token_record =
  tr_id :: string
  tr_chainId :: nat
  tr_blockchain :: string
  tr_block :: nat
  tr_timestamp :: nat
  tr_date :: string
  tr_token :: string
  tr_tokenAddress :: string
  tr_source :: string
  tr_sourceAddress :: string
  tr_rate :: bignumber
  tr_balance :: bignumber
  tr_multiplier :: bignumber
  tr_value :: bignumber
  tr_valueExcludingOhm :: bignumber
  tr_category :: string
  tr_isLiquid :: bool
  tr_isBluechip :: bool

record token_supply =
  ts_id :: string
  ts_chainId :: nat
  ts_blockchain :: string
  ts_block :: nat
  ts_timestamp :: nat
  ts_date :: string
  ts_token :: string
  ts_tokenAddress :: string
  ts_pool :: "string option"
  ts_poolAddress :: "string option"
  ts_source :: "string option"
  ts_sourceAddress :: "string option"
  ts_type :: string
  ts_balance :: bignumber
  ts_supplyBalance :: bignumber

record snapshot =
  tokenRecords :: "token_record list"
  tokenSupplies :: "token_supply list"

record tracked_balance =
  tb_tokenAddress :: string
  tb_walletAddress :: string
  tb_balance :: int

section \<open>Configuration\<close>

record token_definition =
  td_address :: string
  td_category :: string
  td_isLiquid :: bool
  td_isBluechip :: bool
  td_decimals :: nat
  td_multiplier :: "rat option"
  td_isLiability :: "bool option"
  td_startBlock :: "nat option"
  td_nonStandardBalance :: "bool option"

record base_price_feed =
  pf_address :: string
  pf_startBlock :: "nat option"

datatype clearinghouse_kind = Clearinghouse | Monocooler

record cooler_clearinghouse =
  ch_address :: string
  ch_kind :: clearinghouse_kind
  ch_name :: string
  ch_receivableToken :: string
  ch_priceToken :: "string option"
  ch_startBlock :: "nat option"

record located_contract =
  lc_address :: string
  lc_startBlock :: nat

record migration_offset =
  mo_migrationContract :: string
  mo_sOhmAddress :: string
  mo_offsetOhm :: rat
  mo_startBlock :: nat
  mo_endBlock :: nat

datatype convert_via = Gohm_Index | Direct

record ohm_equivalent =
  oe_tokenAddress :: string
  oe_decimals :: nat
  oe_startBlock :: nat
  oe_convertVia :: convert_via

record staking_contracts =
  sc_v1 :: string
  sc_v2 :: string
  sc_v2StartBlock :: nat
  sc_v3 :: string
  sc_v3StartBlock :: nat

text \<open>The tagged union \<open>LiquidityHandler\<close>, one constructor per \<open>kind\<close>.\<close>

datatype liquidity_handler =
  Stable (lh_id: string) (lh_tokens: "string list") (lh_startBlock: "nat option")
| Remap (lh_id: string) (lh_tokens: "string list") (lh_target: string)
    (lh_startBlock: "nat option")
| Chainlink (lh_id: string) (lh_tokens: "string list") (lh_decimals: nat)
    (lh_startBlock: "nat option")
| Gohm (lh_id: string) (lh_tokens: "string list") (lh_ohmToken: string)
    (lh_startBlock: "nat option")
| Erc4626 (lh_id: string) (lh_tokens: "string list") (lh_underlying: string) (lh_decimals: nat)
    (lh_underlyingDecimals: nat) (lh_startBlock: "nat option")
| Curve (lh_id: string) (lh_tokens: "string list") (lh_lpToken: string) (lh_coins: "string list")
    (lh_coinDecimals: "nat list") (lh_startBlock: "nat option")
| FraxSwap (lh_id: string) (lh_tokens: "string list") (lh_token0: string) (lh_token1: string)
    (lh_decimals0: nat) (lh_decimals1: nat) (lh_startBlock: "nat option")
| Univ2 (lh_id: string) (lh_tokens: "string list") (lh_startBlock: "nat option")
| Univ3 (lh_id: string) (lh_tokens: "string list") (lh_startBlock: "nat option")
| Univ3Quoter (lh_id: string) (lh_quoter: string) (lh_tokens: "string list")
    (lh_startBlock: "nat option")
| Balancer (lh_id: string) (lh_vault: string) (lh_tokens: "string list")
    (lh_startBlock: "nat option")
| Kodiak (lh_id: string) (lh_pool: string) (lh_quoter: string) (lh_rewardVault: "string option")
    (lh_tokens: "string list") (lh_startBlock: "nat option")

record chain_config =
  cc_chainId :: nat
  cc_blockchain :: string
  cc_startBlock :: nat
  cc_tokens :: "token_definition list"
  cc_names :: "string \<rightharpoonup> string"
  cc_abbreviations :: "string \<rightharpoonup> string"
  cc_protocolAddresses :: "string list"
  cc_circulatingSupplyWallets :: "string list"
  cc_treasuryBlacklist :: "string \<rightharpoonup> string list"
  cc_basePriceFeeds :: "string \<rightharpoonup> base_price_feed"
  cc_ohmToken :: string
  cc_ohmStartBlock :: "nat option"
  cc_nativeToken :: "string option"
  cc_coolerClearinghouses :: "cooler_clearinghouse list option"
  cc_blvRegistry :: "located_contract option"
  cc_bondManager :: "located_contract option"
  cc_migrationOffset :: "migration_offset option"
  cc_treasuryOhmEquivalents :: "ohm_equivalent list option"
  cc_stakingContracts :: "staking_contracts option"
  cc_univ3PositionManager :: "located_contract option"
  cc_liquidityHandlers :: "liquidity_handler list"
  cc_ownedLiquidityHandlers :: "liquidity_handler list"

definition ETHEREUM_ID :: nat where "ETHEREUM_ID = 1"
definition ARBITRUM_ID :: nat where "ARBITRUM_ID = 42161"
definition POLYGON_ID :: nat where "POLYGON_ID = 137"
definition FANTOM_ID :: nat where "FANTOM_ID = 250"
definition BASE_ID :: nat where "BASE_ID = 8453"
definition BERACHAIN_ID :: nat where "BERACHAIN_ID = 80094"

lemmas chain_ids = ETHEREUM_ID_def ARBITRUM_ID_def POLYGON_ID_def FANTOM_ID_def BASE_ID_def
  BERACHAIN_ID_def

section \<open>Helpers of math.ts\<close>

definition ZERO :: bignumber where "ZERO = Fin 0"
definition ONE :: bignumber where "ONE = Fin 1"

text \<open>\<open>toFixed()\<close> prints every digit and \<open>BigDecimal\<close> keeps them: the value is unchanged.\<close>

definition toBigDecimal :: "bignumber \<Rightarrow> bignumber" where
  "toBigDecimal value = value"

definition addr :: "string \<Rightarrow> string" where
  "addr value = toLowerCase value"

definition same :: "string \<Rightarrow> string \<Rightarrow> bool" where
  "same left right \<longleftrightarrow> addr left = addr right"

definition token :: "string \<Rightarrow> string \<Rightarrow> bool \<Rightarrow> bool \<Rightarrow> rat option \<Rightarrow> nat option \<Rightarrow> nat option \<Rightarrow>
    bool option \<Rightarrow> bool option \<Rightarrow> token_definition" where
  "token address category liquid bluechip multiplier startBlock decimals liability nonStandard =
     \<lparr> td_address = addr address, td_category = category, td_isLiquid = liquid,
       td_isBluechip = bluechip, td_decimals = nullish decimals 18, td_multiplier = multiplier,
       td_isLiability = liability, td_startBlock = startBlock,
       td_nonStandardBalance = nonStandard \<rparr>"

definition getTokenDecimals :: "token_definition list \<Rightarrow> string \<Rightarrow> nat \<Rightarrow> nat" where
  "getTokenDecimals tokens address fallback =
     (case List.find (\<lambda>value. td_address value = addr address) tokens of
        None \<Rightarrow> fallback | Some d \<Rightarrow> td_decimals d)"

definition feed :: "string \<Rightarrow> nat option \<Rightarrow> base_price_feed" where
  "feed address startBlock = \<lparr> pf_address = addr address, pf_startBlock = startBlock \<rparr>"

definition toDecimal :: "rounding \<Rightarrow> int \<Rightarrow> nat \<Rightarrow> bignumber" where
  "toDecimal rnd value decimals = bn_div rnd (Fin (of_int value)) (Fin (10 ^ decimals))"

definition isoDate :: "nat \<Rightarrow> string" where
  "isoDate timestamp = iso_day (int (timestamp div 86400))"

definition is_hex :: "char \<Rightarrow> bool" where
  "is_hex c \<longleftrightarrow> is_digit c \<or> (let n = of_char c :: nat in (65 \<le> n \<and> n \<le> 70) \<or> (97 \<le> n \<and> n \<le> 102))"

definition bytes32 :: "string \<Rightarrow> string + string" where
  "bytes32 value = (if length value = 66 \<and> take 2 value = ''0x'' \<and> list_all is_hex (drop 2 value)
     then Inr (toLowerCase value) else Inl (''Invalid bytes32 value: '' @ value))"

definition matches :: "liquidity_handler \<Rightarrow> string \<Rightarrow> bool" where
  "matches handler tokenAddress \<longleftrightarrow> (\<exists>value \<in> set (lh_tokens handler). same value tokenAddress)"

definition isActive :: "nat option \<Rightarrow> nat \<Rightarrow> bool" where
  "isActive startBlock blockNumber =
     (case startBlock of None \<Rightarrow> True | Some b \<Rightarrow> b \<le> blockNumber)"

section \<open>Facts on the helpers\<close>

lemma addr_idem [simp]: "addr (addr x) = addr x"
  by (simp add: addr_def)

lemma same_refl [simp]: "same x x"
  by (simp add: same_def)

lemma same_addr [simp]: "same (addr x) y = same x y" "same x (addr y) = same x y"
  by (simp_all add: same_def)

lemma same_sym: "same x y \<Longrightarrow> same y x"
  by (simp add: same_def)

lemma same_trans: "same x y \<Longrightarrow> same y z \<Longrightarrow> same x z"
  by (simp add: same_def)

lemma matches_same: "same x y \<Longrightarrow> matches handler x = matches handler y"
  by (simp add: matches_def same_def)

lemma dash_addr [simp]: "CHR ''-'' \<in> set (addr s) \<longleftrightarrow> CHR ''-'' \<in> set s"
  by (simp add: addr_def)

lemma bytes32_ok:
  "bytes32 v = Inr w \<Longrightarrow> length w = 66 \<and> w = toLowerCase v"
  by (auto simp: bytes32_def toLowerCase_def split: if_splits)

lemma isActive_mono: "isActive s b \<Longrightarrow> b \<le> b' \<Longrightarrow> isActive s b'"
  by (auto simp: isActive_def split: option.splits)

lemma toDecimal_Fin: "toDecimal rnd v d = Fin (rnd (of_int v / 10 ^ d))"
  by (simp add: toDecimal_def)

lemma is_fin_toDecimal [simp]: "is_fin (toDecimal rnd v d)"
  by (simp add: toDecimal_Fin)

section \<open>A configuration with nothing in it\<close>

text \<open>The concrete inputs below are built from this configuration by record updates.\<close>

definition blank_config :: chain_config where
  "blank_config = \<lparr> cc_chainId = 1, cc_blockchain = ''chain'', cc_startBlock = 0, cc_tokens = [],
     cc_names = Map.empty, cc_abbreviations = Map.empty, cc_protocolAddresses = [],
     cc_circulatingSupplyWallets = [], cc_treasuryBlacklist = Map.empty,
     cc_basePriceFeeds = Map.empty, cc_ohmToken = ''0x64'', cc_ohmStartBlock = None,
     cc_nativeToken = None, cc_coolerClearinghouses = None, cc_blvRegistry = None,
     cc_bondManager = None, cc_migrationOffset = None, cc_treasuryOhmEquivalents = None,
     cc_stakingContracts = None, cc_univ3PositionManager = None, cc_liquidityHandlers = [],
     cc_ownedLiquidityHandlers = [] \<rparr>"

end
