(* ===== verification/Records.thy ===== *)
theory Records
  imports Types
begin

text \<open>
  Row construction and configuration lookups (\<open>snapshot/records.ts\<close>).
\<close>

section \<open>Lookups\<close>

definition getTokenDefinition :: "chain_config \<Rightarrow> string \<Rightarrow> token_definition option" where
  "getTokenDefinition config tokenAddress =
     List.find (\<lambda>value. same (td_address value) tokenAddress) (cc_tokens config)"

definition getWalletAddressesForContract :: "chain_config \<Rightarrow> string \<Rightarrow> string list" where
  "getWalletAddressesForContract config contractAddress =
     (let blacklist = nullish (cc_treasuryBlacklist config (addr contractAddress)) [] in
      filter (\<lambda>address. \<not> list_ex (\<lambda>blocked. same blocked address) blacklist)
        (cc_protocolAddresses config))"

definition getContractName :: "chain_config \<Rightarrow> string \<Rightarrow> string" where
  "getContractName config contractAddress =
     (let lower = addr contractAddress;
          name = nullish (cc_names config lower) lower;
          abbreviation = (case cc_abbreviations config lower of
              None \<Rightarrow> ''''
            | Some value \<Rightarrow> if value \<noteq> '''' \<and> toLowerCase value \<noteq> toLowerCase name
                then '' ('' @ value @ '')'' else '''')
      in name @ abbreviation)"

section \<open>Rows\<close>

definition createTokenRecord :: "rounding \<Rightarrow> chain_config \<Rightarrow> nat \<Rightarrow> string \<Rightarrow> string \<Rightarrow> string \<Rightarrow>
    string \<Rightarrow> bignumber \<Rightarrow> bignumber \<Rightarrow> nat \<Rightarrow> bignumber option \<Rightarrow> string option \<Rightarrow> token_record" where
  "createTokenRecord rnd config timestamp tokenName tokenAddress sourceName sourceAddress rate
     balance blockNumber nonOhmMultiplier category =
     (let date = isoDate timestamp;
          def = getTokenDefinition config tokenAddress;
          multiplier = nullish nonOhmMultiplier
            (Fin (nullish (Option.bind def td_multiplier) 1));
          baseValue = balance * rate;
          isLiability = nullish (Option.bind def td_isLiability) False;
          value = (if isLiability then baseValue * Fin (- 1) else baseValue);
          valueExcludingOhm = (if isLiability then baseValue * multiplier * Fin (- 1)
            else baseValue * multiplier)
      in \<lparr> tr_id = date @ ''/'' @ nat_str (cc_chainId config) @ ''/'' @ nat_str blockNumber @ ''/'' @
             sourceName @ ''/'' @ tokenName,
           tr_chainId = cc_chainId config, tr_blockchain = cc_blockchain config,
           tr_block = blockNumber, tr_timestamp = timestamp, tr_date = date,
           tr_token = tokenName, tr_tokenAddress = tokenAddress, tr_source = sourceName,
           tr_sourceAddress = sourceAddress, tr_rate = bn_print rnd rate,
           tr_balance = bn_print rnd balance, tr_multiplier = bn_print rnd multiplier,
           tr_value = bn_print rnd value, tr_valueExcludingOhm = bn_print rnd valueExcludingOhm,
           tr_category = nullish category
             (nullish (map_option td_category def) ''Unknown''),
           tr_isLiquid = nullish (map_option td_isLiquid def) True,
           tr_isBluechip = nullish (map_option td_isBluechip def) False \<rparr>)"

definition createTokenSupply :: "rounding \<Rightarrow> chain_config \<Rightarrow> nat \<Rightarrow> string \<Rightarrow> string \<Rightarrow>
    string option \<Rightarrow> string option \<Rightarrow> string option \<Rightarrow> string option \<Rightarrow> string \<Rightarrow> bignumber \<Rightarrow> nat \<Rightarrow>
    int \<Rightarrow> token_supply" where
  "createTokenSupply rnd config timestamp tokenName tokenAddress poolName poolAddress sourceName
     sourceAddress type balance blockNumber multiplier =
     (let date = isoDate timestamp in
      \<lparr> ts_id = date @ ''/'' @ nat_str (cc_chainId config) @ ''/'' @ nat_str blockNumber @ ''/'' @
          tokenName @ ''/'' @ type @ ''/'' @ nullish poolName ''Unknown Pool'' @ ''/'' @
          nullish sourceName '''',
        ts_chainId = cc_chainId config, ts_blockchain = cc_blockchain config,
        ts_block = blockNumber, ts_timestamp = timestamp, ts_date = date,
        ts_token = tokenName, ts_tokenAddress = tokenAddress, ts_pool = poolName,
        ts_poolAddress = poolAddress, ts_source = sourceName, ts_sourceAddress = sourceAddress,
        ts_type = type, ts_balance = bn_print rnd balance,
        ts_supplyBalance = bn_print rnd (balance * Fin (of_int multiplier)) \<rparr>)"

lemma createTokenSupply_fields [row_simps]:
  fixes rnd config timestamp tokenName tokenAddress poolName poolAddress sourceName sourceAddress
    type balance b m
  defines "row \<equiv> createTokenSupply rnd config timestamp tokenName tokenAddress poolName poolAddress
    sourceName sourceAddress type balance b m"
  shows "ts_chainId row = cc_chainId config" "ts_block row = b" "ts_date row = isoDate timestamp"
    "ts_tokenAddress row = tokenAddress" "ts_type row = type" "ts_poolAddress row = poolAddress"
    "ts_sourceAddress row = sourceAddress" "ts_balance row = bn_print rnd balance"
    "ts_supplyBalance row = bn_print rnd (balance * Fin (of_int m))"
  by (simp_all add: row_def createTokenSupply_def Let_def)

lemma createTokenRecord_fields [row_simps]:
  fixes rnd config timestamp tokenName tokenAddress sourceName sourceAddress rate balance b
    multiplier category
  defines "row \<equiv> createTokenRecord rnd config timestamp tokenName tokenAddress sourceName
    sourceAddress rate balance b multiplier category"
  shows "tr_chainId row = cc_chainId config" "tr_block row = b" "tr_date row = isoDate timestamp"
    "tr_tokenAddress row = tokenAddress" "tr_sourceAddress row = sourceAddress"
    "tr_rate row = bn_print rnd rate" "tr_balance row = bn_print rnd balance"
    "tr_category row = nullish category
       (nullish (map_option td_category (getTokenDefinition config tokenAddress)) ''Unknown'')"
    "tr_isLiquid row = nullish (map_option td_isLiquid (getTokenDefinition config tokenAddress)) True"
  by (simp_all add: row_def createTokenRecord_def Let_def)

section \<open>Correctness\<close>

lemma getTokenDefinition_sound:
  "getTokenDefinition config a = Some d \<Longrightarrow> d \<in> set (cc_tokens config) \<and> same (td_address d) a"
  by (auto simp: getTokenDefinition_def dest: find_SomeD)

lemma getTokenDefinition_same: "same a b \<Longrightarrow> getTokenDefinition config a = getTokenDefinition config b"
  by (simp add: getTokenDefinition_def same_def)

lemma wallets_iff:
  "w \<in> set (getWalletAddressesForContract config a) \<longleftrightarrow> w \<in> set (cc_protocolAddresses config) \<and>
     (\<forall>blocked \<in> set (nullish (cc_treasuryBlacklist config (addr a)) []). \<not> same blocked w)"
  by (auto simp: getWalletAddressesForContract_def list_ex_iff)

end
