(* ===== verification/Entities.thy ===== *)
theory Entities
  imports Records "HOL-Library.AList"
begin

text \<open>
  The entity store the event handlers write and the snapshot reads (\<open>schema.graphql\<close>, accessed
  as \<open>context.<Entity>.get / set / getWhere\<close>). Each entity type is a table from ids to rows,
  kept in insertion order; \<open>set\<close> replaces the row of the same id in place. The order in which
  the library returns the rows of \<open>getWhere\<close> is not documented: tables return them in
  insertion order, and no property below depends on it.
\<close>

section \<open>Tables\<close>

type_synonym 'e table = "(string \<times> 'e) list"

definition tget :: "'e table \<Rightarrow> string \<Rightarrow> 'e option" where
  "tget t k = map_of t k"

definition tset :: "string \<Rightarrow> 'e \<Rightarrow> 'e table \<Rightarrow> 'e table" where
  "tset k e t = AList.update k e t"

definition getWhere :: "('e \<Rightarrow> bool) \<Rightarrow> 'e table \<Rightarrow> 'e list" where
  "getWhere P t = filter P (map snd t)"

lemma tget_tset [simp, store_simps]: "tget (tset k e t) k' = (if k' = k then Some e else tget t k')"
  by (simp add: tget_def tset_def update_conv')

lemma tget_Nil [simp]: "tget [] k = None"
  by (simp add: tget_def)

lemma getWhere_iff: "e \<in> set (getWhere P t) \<longleftrightarrow> P e \<and> (\<exists>k. (k, e) \<in> set t)"
  by (force simp: getWhere_def)

section \<open>Rows of the event-derived state\<close>

record TokenBalance =
  TokenBalance_id :: string
  TokenBalance_chainId :: nat
  TokenBalance_tokenAddress :: string
  TokenBalance_walletAddress :: string
  TokenBalance_balance :: int
  TokenBalance_updatedAtBlock :: nat

record TokenBalanceUpdate =
  TokenBalanceUpdate_id :: string
  TokenBalanceUpdate_chainId :: nat
  TokenBalanceUpdate_tokenAddress :: string
  TokenBalanceUpdate_walletAddress :: string
  TokenBalanceUpdate_delta :: int
  TokenBalanceUpdate_balance :: int
  TokenBalanceUpdate_block :: nat
  TokenBalanceUpdate_timestamp :: nat

record BackfillSentinel =
  BackfillSentinel_id :: string
  BackfillSentinel_chainId :: nat
  BackfillSentinel_seededAtBlock :: nat
  BackfillSentinel_firedAtBlock :: nat
  BackfillSentinel_seeded :: nat
  BackfillSentinel_skipped :: nat

record Erc20Supply =
  Erc20Supply_id :: string
  Erc20Supply_chainId :: nat
  Erc20Supply_tokenAddress :: string
  Erc20Supply_totalSupply :: int
  Erc20Supply_updatedAtBlock :: nat

record Erc20SupplyUpdate =
  Erc20SupplyUpdate_id :: string
  Erc20SupplyUpdate_chainId :: nat
  Erc20SupplyUpdate_tokenAddress :: string
  Erc20SupplyUpdate_delta :: int
  Erc20SupplyUpdate_totalSupply :: int
  Erc20SupplyUpdate_block :: nat
  Erc20SupplyUpdate_timestamp :: nat

record LenderAmo =
  LenderAmo_id :: string
  LenderAmo_chainId :: nat
  LenderAmo_amoAddress :: string
  LenderAmo_active :: bool
  LenderAmo_deployedOhm :: int
  LenderAmo_updatedAtBlock :: nat

record JonesStakingPosition =
  JonesStakingPosition_id :: string
  JonesStakingPosition_chainId :: nat
  JonesStakingPosition_poolId :: nat
  JonesStakingPosition_walletAddress :: string
  JonesStakingPosition_amount :: int
  JonesStakingPosition_updatedAtBlock :: nat

record TreasureDeposit =
  TreasureDeposit_id :: string
  TreasureDeposit_chainId :: nat
  TreasureDeposit_walletAddress :: string
  TreasureDeposit_depositId :: nat
  TreasureDeposit_amount :: int
  TreasureDeposit_updatedAtBlock :: nat

record Univ2PoolState =
  Univ2PoolState_id :: string
  Univ2PoolState_chainId :: nat
  Univ2PoolState_poolAddress :: string
  Univ2PoolState_reserve0 :: int
  Univ2PoolState_reserve1 :: int
  Univ2PoolState_updatedAtBlock :: nat

record Univ2PoolUpdate =
  Univ2PoolUpdate_id :: string
  Univ2PoolUpdate_chainId :: nat
  Univ2PoolUpdate_poolAddress :: string
  Univ2PoolUpdate_reserve0 :: int
  Univ2PoolUpdate_reserve1 :: int
  Univ2PoolUpdate_block :: nat
  Univ2PoolUpdate_timestamp :: nat

record Univ3PoolState =
  Univ3PoolState_id :: string
  Univ3PoolState_chainId :: nat
  Univ3PoolState_poolAddress :: string
  Univ3PoolState_sqrtPriceX96 :: int
  Univ3PoolState_tick :: int
  Univ3PoolState_liquidity :: int
  Univ3PoolState_updatedAtBlock :: nat

record Univ3PoolUpdate =
  Univ3PoolUpdate_id :: string
  Univ3PoolUpdate_chainId :: nat
  Univ3PoolUpdate_poolAddress :: string
  Univ3PoolUpdate_sqrtPriceX96 :: int
  Univ3PoolUpdate_tick :: int
  Univ3PoolUpdate_liquidity :: int
  Univ3PoolUpdate_block :: nat
  Univ3PoolUpdate_timestamp :: nat

record BalancerPoolState =
  BalancerPoolState_id :: string
  BalancerPoolState_chainId :: nat
  BalancerPoolState_poolId :: string
  BalancerPoolState_tokens :: "string list"
  BalancerPoolState_balances :: "int list"
  BalancerPoolState_updatedAtBlock :: nat

record BalancerPoolUpdate =
  BalancerPoolUpdate_id :: string
  BalancerPoolUpdate_chainId :: nat
  BalancerPoolUpdate_poolId :: string
  BalancerPoolUpdate_tokens :: "string list"
  BalancerPoolUpdate_balances :: "int list"
  BalancerPoolUpdate_block :: nat
  BalancerPoolUpdate_timestamp :: nat

record KodiakPool =
  KodiakPool_id :: string
  KodiakPool_chainId :: nat
  KodiakPool_kodiakLpAddress :: string
  KodiakPool_underlyingPoolAddress :: string
  KodiakPool_updatedAtBlock :: nat

record NativeBalanceState =
  NativeBalanceState_id :: string
  NativeBalanceState_chainId :: nat
  NativeBalanceState_walletAddress :: string
  NativeBalanceState_balance :: int
  NativeBalanceState_updatedAtBlock :: nat

record OhmIndexState =
  OhmIndexState_id :: string
  OhmIndexState_chainId :: nat
  OhmIndexState_sOhmAddress :: string
  OhmIndexState_index :: int
  OhmIndexState_epoch :: int
  OhmIndexState_updatedAtBlock :: nat
  OhmIndexState_updatedAtTimestamp :: nat

record OhmIndexUpdate =
  OhmIndexUpdate_id :: string
  OhmIndexUpdate_chainId :: nat
  OhmIndexUpdate_sOhmAddress :: string
  OhmIndexUpdate_index :: int
  OhmIndexUpdate_epoch :: int
  OhmIndexUpdate_block :: nat
  OhmIndexUpdate_timestamp :: nat

record GnosisAuctionRoot =
  GnosisAuctionRoot_id :: string
  GnosisAuctionRoot_chainId :: nat
  GnosisAuctionRoot_markets :: "nat list"

record GnosisAuction =
  GnosisAuction_id :: string
  GnosisAuction_chainId :: nat
  GnosisAuction_marketId :: nat
  GnosisAuction_auctionOpenTimestamp :: nat
  GnosisAuction_payoutCapacity :: bignumber
  GnosisAuction_termSeconds :: nat
  GnosisAuction_bidQuantity :: "bignumber option"
  GnosisAuction_auctionCloseTimestamp :: "nat option"

record BophadesModule =
  BophadesModule_id :: string
  BophadesModule_chainId :: nat
  BophadesModule_keycode :: string
  BophadesModule_moduleAddress :: string
  BophadesModule_installedAtBlock :: nat
  BophadesModule_installedAtTimestamp :: nat

section \<open>The store\<close>

record store =
  st_TokenBalance :: "TokenBalance table"
  st_TokenBalanceUpdate :: "TokenBalanceUpdate table"
  st_BackfillSentinel :: "BackfillSentinel table"
  st_Erc20Supply :: "Erc20Supply table"
  st_Erc20SupplyUpdate :: "Erc20SupplyUpdate table"
  st_LenderAmo :: "LenderAmo table"
  st_JonesStakingPosition :: "JonesStakingPosition table"
  st_TreasureDeposit :: "TreasureDeposit table"
  st_Univ2PoolState :: "Univ2PoolState table"
  st_Univ2PoolUpdate :: "Univ2PoolUpdate table"
  st_Univ3PoolState :: "Univ3PoolState table"
  st_Univ3PoolUpdate :: "Univ3PoolUpdate table"
  st_BalancerPoolState :: "BalancerPoolState table"
  st_BalancerPoolUpdate :: "BalancerPoolUpdate table"
  st_KodiakPool :: "KodiakPool table"
  st_NativeBalanceState :: "NativeBalanceState table"
  st_OhmIndexState :: "OhmIndexState table"
  st_OhmIndexUpdate :: "OhmIndexUpdate table"
  st_GnosisAuctionRoot :: "GnosisAuctionRoot table"
  st_GnosisAuction :: "GnosisAuction table"
  st_BophadesModule :: "BophadesModule table"

definition empty_store :: store where
  "empty_store = \<lparr> st_TokenBalance = [], st_TokenBalanceUpdate = [], st_BackfillSentinel = [],
     st_Erc20Supply = [], st_Erc20SupplyUpdate = [], st_LenderAmo = [],
     st_JonesStakingPosition = [], st_TreasureDeposit = [], st_Univ2PoolState = [],
     st_Univ2PoolUpdate = [], st_Univ3PoolState = [], st_Univ3PoolUpdate = [],
     st_BalancerPoolState = [], st_BalancerPoolUpdate = [], st_KodiakPool = [],
     st_NativeBalanceState = [], st_OhmIndexState = [], st_OhmIndexUpdate = [],
     st_GnosisAuctionRoot = [], st_GnosisAuction = [], st_BophadesModule = [] \<rparr>"

section \<open>Ids\<close>

text \<open>The template literals that build the ids; addresses hold no dash, so the fields can be
  read back.\<close>

definition id2 :: "nat \<Rightarrow> string \<Rightarrow> string" where
  "id2 chainId a = nat_str chainId @ ''-'' @ a"

definition id3 :: "nat \<Rightarrow> string \<Rightarrow> string \<Rightarrow> string" where
  "id3 chainId a b = nat_str chainId @ ''-'' @ a @ ''-'' @ b"

definition id4 :: "nat \<Rightarrow> string \<Rightarrow> nat \<Rightarrow> nat \<Rightarrow> string" where
  "id4 chainId a block logIndex =
     nat_str chainId @ ''-'' @ a @ ''-'' @ nat_str block @ ''-'' @ nat_str logIndex"

definition id5 :: "nat \<Rightarrow> string \<Rightarrow> string \<Rightarrow> nat \<Rightarrow> nat \<Rightarrow> string" where
  "id5 chainId a b block logIndex = nat_str chainId @ ''-'' @ a @ ''-'' @ b @ ''-'' @
     nat_str block @ ''-'' @ nat_str logIndex"

lemma id2_inject [simp]: "id2 c a = id2 c' a' \<longleftrightarrow> c = c' \<and> a = a'"
proof
  assume "id2 c a = id2 c' a'"
  then have "nat_str c @ CHR ''-'' # a = nat_str c' @ CHR ''-'' # a'" by (simp add: id2_def)
  from split_at_separator [OF _ _ this] show "c = c' \<and> a = a'" by simp
qed simp

lemma id3_inject:
  assumes "CHR ''-'' \<notin> set a" "CHR ''-'' \<notin> set a'"
  shows "id3 c a b = id3 c' a' b' \<longleftrightarrow> c = c' \<and> a = a' \<and> b = b'"
proof
  assume "id3 c a b = id3 c' a' b'"
  then have "id2 c (a @ CHR ''-'' # b) = id2 c' (a' @ CHR ''-'' # b')"
    by (simp add: id3_def id2_def)
  then have "c = c'" "a @ CHR ''-'' # b = a' @ CHR ''-'' # b'" by simp_all
  with split_at_separator [OF assms this(2)] show "c = c' \<and> a = a' \<and> b = b'" by simp
qed simp

lemma id4_inject:
  assumes "CHR ''-'' \<notin> set a" "CHR ''-'' \<notin> set a'"
  shows "id4 c a b l = id4 c' a' b' l' \<longleftrightarrow> c = c' \<and> a = a' \<and> b = b' \<and> l = l'"
proof -
  have "id4 c a b l = id3 c a (id2 b (nat_str l))" for c a b l
    by (simp add: id4_def id3_def id2_def)
  then show ?thesis using id3_inject [OF assms] by simp
qed

lemma id5_inject:
  assumes "CHR ''-'' \<notin> set a" "CHR ''-'' \<notin> set a'" "CHR ''-'' \<notin> set b" "CHR ''-'' \<notin> set b'"
  shows "id5 c a b n l = id5 c' a' b' n' l' \<longleftrightarrow> c = c' \<and> a = a' \<and> b = b' \<and> n = n' \<and> l = l'"
proof -
  have eq: "id5 c a b n l = id3 c a (b @ CHR ''-'' # id2 n (nat_str l))" for c a b n l
    by (simp add: id5_def id3_def id2_def)
  have "b @ CHR ''-'' # id2 n (nat_str l) = b' @ CHR ''-'' # id2 n' (nat_str l') \<longleftrightarrow>
      b = b' \<and> n = n' \<and> l = l'"
    by (metis split_at_separator [OF assms(3,4)] id2_inject nat_str_inject)
  then show ?thesis using id3_inject [OF assms(1,2)] eq by simp
qed

end
