(* ===== verification/Ledger.thy ===== *)
theory Ledger
  imports Entities
begin

text \<open>
  The event-driven ledger: balances of the protocol wallets, total supplies and the OHM the
  lending AMOs deployed (\<open>handlers/Erc20Transfers.ts\<close>, \<open>handlers/Lender.ts\<close>), and the one-shot
  seeding of the balances held before the indexed window
  (\<open>handlers/BackfillTokenBalances.ts\<close>). The chain configurations are the parameter \<open>cfgs\<close>.
\<close>

type_synonym configs = "nat \<Rightarrow> chain_config option"

definition ZERO_ADDRESS :: string where
  "ZERO_ADDRESS = ''0x0000000000000000000000000000000000000000''"

definition treasuryWalletsForChain :: "configs \<Rightarrow> nat \<Rightarrow> string list" where
  "treasuryWalletsForChain cfgs chainId =
     (case cfgs chainId of None \<Rightarrow> [] | Some config \<Rightarrow> cc_protocolAddresses config)"

definition tokenBalanceId :: "nat \<Rightarrow> string \<Rightarrow> string \<Rightarrow> string" where
  "tokenBalanceId chainId tokenAddress walletAddress =
     id3 chainId (addr tokenAddress) (addr walletAddress)"

definition erc20SupplyId :: "nat \<Rightarrow> string \<Rightarrow> string" where
  "erc20SupplyId chainId tokenAddress = id2 chainId (addr tokenAddress)"

section \<open>Primitive updates\<close>

record event_meta =
  em_block :: nat
  em_timestamp :: nat
  em_logIndex :: nat

definition balanceAt :: "store \<Rightarrow> string \<Rightarrow> int" where
  "balanceAt s key = (case tget (st_TokenBalance s) key of None \<Rightarrow> 0 | Some e \<Rightarrow> TokenBalance_balance e)"

definition supplyAt :: "store \<Rightarrow> string \<Rightarrow> int" where
  "supplyAt s key = (case tget (st_Erc20Supply s) key of None \<Rightarrow> 0 | Some e \<Rightarrow> Erc20Supply_totalSupply e)"

definition applyTransferToWalletBalance ::
  "nat \<Rightarrow> string \<Rightarrow> string \<Rightarrow> int \<Rightarrow> event_meta \<Rightarrow> store \<Rightarrow> store" where
  "applyTransferToWalletBalance chainId tokenAddress walletAddress delta meta s =
     (let key = tokenBalanceId chainId tokenAddress walletAddress;
          next = balanceAt s key + delta;
          tokenLower = addr tokenAddress;
          walletLower = addr walletAddress;
          updateId = id5 chainId tokenLower walletLower (em_block meta) (em_logIndex meta)
      in s \<lparr> st_TokenBalanceUpdate := tset updateId
               \<lparr> TokenBalanceUpdate_id = updateId, TokenBalanceUpdate_chainId = chainId,
                 TokenBalanceUpdate_tokenAddress = tokenLower,
                 TokenBalanceUpdate_walletAddress = walletLower,
                 TokenBalanceUpdate_delta = delta, TokenBalanceUpdate_balance = next,
                 TokenBalanceUpdate_block = em_block meta,
                 TokenBalanceUpdate_timestamp = em_timestamp meta \<rparr> (st_TokenBalanceUpdate s),
             st_TokenBalance := tset key
               \<lparr> TokenBalance_id = key, TokenBalance_chainId = chainId,
                 TokenBalance_tokenAddress = tokenLower,
                 TokenBalance_walletAddress = walletLower, TokenBalance_balance = next,
                 TokenBalance_updatedAtBlock = em_block meta \<rparr> (st_TokenBalance s) \<rparr>)"

definition applyDeployedOhmDelta :: "nat \<Rightarrow> string \<Rightarrow> int \<Rightarrow> nat \<Rightarrow> store \<Rightarrow> store" where
  "applyDeployedOhmDelta chainId amoAddress delta blockNumber s =
     (let key = id2 chainId (addr amoAddress) in
      case tget (st_LenderAmo s) key of
        None \<Rightarrow> s
      | Some existing \<Rightarrow>
          (let next = LenderAmo_deployedOhm existing + delta in
           s \<lparr> st_LenderAmo := tset (LenderAmo_id existing)
                (existing \<lparr> LenderAmo_deployedOhm := (if next < 0 then 0 else next),
                   LenderAmo_updatedAtBlock := blockNumber \<rparr>) (st_LenderAmo s) \<rparr>))"

definition applyMintBurnToSupply :: "nat \<Rightarrow> string \<Rightarrow> int \<Rightarrow> event_meta \<Rightarrow> store \<Rightarrow> store" where
  "applyMintBurnToSupply chainId tokenAddress delta meta s =
     (let key = erc20SupplyId chainId tokenAddress;
          nextRaw = supplyAt s key + delta;
          next = (if nextRaw < 0 then 0 else nextRaw);
          tokenLower = addr tokenAddress;
          updateId = id4 chainId tokenLower (em_block meta) (em_logIndex meta)
      in s \<lparr> st_Erc20SupplyUpdate := tset updateId
               \<lparr> Erc20SupplyUpdate_id = updateId, Erc20SupplyUpdate_chainId = chainId,
                 Erc20SupplyUpdate_tokenAddress = tokenLower, Erc20SupplyUpdate_delta = delta,
                 Erc20SupplyUpdate_totalSupply = next, Erc20SupplyUpdate_block = em_block meta,
                 Erc20SupplyUpdate_timestamp = em_timestamp meta \<rparr> (st_Erc20SupplyUpdate s),
             st_Erc20Supply := tset key
               \<lparr> Erc20Supply_id = key, Erc20Supply_chainId = chainId,
                 Erc20Supply_tokenAddress = tokenLower, Erc20Supply_totalSupply = next,
                 Erc20Supply_updatedAtBlock = em_block meta \<rparr> (st_Erc20Supply s) \<rparr>)"

section \<open>Transfer handlers\<close>

record transfer_event =
  te_chainId :: nat
  te_srcAddress :: string
  te_logIndex :: nat
  te_block :: nat
  te_timestamp :: nat
  te_from :: string
  te_to :: string
  te_value :: int

definition transferMeta :: "transfer_event \<Rightarrow> event_meta" where
  "transferMeta e =
     \<lparr> em_block = te_block e, em_timestamp = te_timestamp e, em_logIndex = te_logIndex e \<rparr>"

definition handleTreasuryTransfer :: "configs \<Rightarrow> transfer_event \<Rightarrow> store \<Rightarrow> store" where
  "handleTreasuryTransfer cfgs e s =
     (let wallets = set (treasuryWalletsForChain cfgs (te_chainId e));
          from = addr (te_from e); to = addr (te_to e); value = te_value e;
          token = addr (te_srcAddress e); meta = transferMeta e;
          s1 = (if from \<in> wallets
            then applyTransferToWalletBalance (te_chainId e) token from (- value) meta s else s)
      in if to \<in> wallets
         then applyTransferToWalletBalance (te_chainId e) token to value meta s1 else s1)"

definition handleOhmTransfer :: "configs \<Rightarrow> transfer_event \<Rightarrow> store \<Rightarrow> store" where
  "handleOhmTransfer cfgs e s =
     (let wallets = set (treasuryWalletsForChain cfgs (te_chainId e));
          from = addr (te_from e); to = addr (te_to e); value = te_value e;
          token = addr (te_srcAddress e); meta = transferMeta e;
          s1 = (if from = ZERO_ADDRESS
            then applyDeployedOhmDelta (te_chainId e) to value (te_block e)
                   (applyMintBurnToSupply (te_chainId e) token value meta s)
            else if from \<in> wallets
            then applyTransferToWalletBalance (te_chainId e) token from (- value) meta s else s)
      in if to = ZERO_ADDRESS
         then applyDeployedOhmDelta (te_chainId e) from (- value) (te_block e)
                (applyMintBurnToSupply (te_chainId e) token (- value) meta s1)
         else if to \<in> wallets
         then applyTransferToWalletBalance (te_chainId e) token to value meta s1 else s1)"

definition handleLpTransfer :: "configs \<Rightarrow> transfer_event \<Rightarrow> store \<Rightarrow> store" where
  "handleLpTransfer cfgs e s =
     (let wallets = set (treasuryWalletsForChain cfgs (te_chainId e));
          from = addr (te_from e); to = addr (te_to e); value = te_value e;
          token = addr (te_srcAddress e); meta = transferMeta e;
          s1 = (if from = ZERO_ADDRESS
            then applyMintBurnToSupply (te_chainId e) token value meta s
            else if from \<in> wallets
            then applyTransferToWalletBalance (te_chainId e) token from (- value) meta s else s)
      in if to = ZERO_ADDRESS
         then applyMintBurnToSupply (te_chainId e) token (- value) meta s1
         else if to \<in> wallets
         then applyTransferToWalletBalance (te_chainId e) token to value meta s1 else s1)"

section \<open>Balance changes without a Transfer\<close>

text \<open>The deposits and withdrawals of wrapped native tokens (\<open>dst / src\<close>, \<open>wad\<close>), of ERC4626
  vaults (\<open>owner\<close>, \<open>shares\<close>) and of staking-reward vaults (\<open>user\<close>, \<open>amount\<close>).\<close>

record account_event =
  ae_chainId :: nat
  ae_srcAddress :: string
  ae_logIndex :: nat
  ae_block :: nat
  ae_timestamp :: nat
  ae_account :: string
  ae_amount :: int

definition accountMeta :: "account_event \<Rightarrow> event_meta" where
  "accountMeta e =
     \<lparr> em_block = ae_block e, em_timestamp = ae_timestamp e, em_logIndex = ae_logIndex e \<rparr>"

definition handleWrapped9Deposit :: "configs \<Rightarrow> account_event \<Rightarrow> store \<Rightarrow> store" where
  "handleWrapped9Deposit cfgs e s = (let dst = addr (ae_account e) in
     if dst \<notin> set (treasuryWalletsForChain cfgs (ae_chainId e)) then s
     else applyTransferToWalletBalance (ae_chainId e) (addr (ae_srcAddress e)) dst (ae_amount e)
       (accountMeta e) s)"

definition handleWrapped9Withdrawal :: "configs \<Rightarrow> account_event \<Rightarrow> store \<Rightarrow> store" where
  "handleWrapped9Withdrawal cfgs e s = (let src = addr (ae_account e) in
     if src \<notin> set (treasuryWalletsForChain cfgs (ae_chainId e)) then s
     else applyTransferToWalletBalance (ae_chainId e) (addr (ae_srcAddress e)) src (- ae_amount e)
       (accountMeta e) s)"

definition handleErc4626Deposit :: "configs \<Rightarrow> account_event \<Rightarrow> store \<Rightarrow> store" where
  "handleErc4626Deposit cfgs e s = (let owner = addr (ae_account e) in
     if owner \<notin> set (treasuryWalletsForChain cfgs (ae_chainId e)) then s
     else applyTransferToWalletBalance (ae_chainId e) (addr (ae_srcAddress e)) owner (ae_amount e)
       (accountMeta e) s)"

definition handleErc4626Withdraw :: "configs \<Rightarrow> account_event \<Rightarrow> store \<Rightarrow> store" where
  "handleErc4626Withdraw cfgs e s = (let owner = addr (ae_account e) in
     if owner \<notin> set (treasuryWalletsForChain cfgs (ae_chainId e)) then s
     else applyTransferToWalletBalance (ae_chainId e) (addr (ae_srcAddress e)) owner
       (- ae_amount e) (accountMeta e) s)"

definition handleStakingRewardsStaked :: "configs \<Rightarrow> account_event \<Rightarrow> store \<Rightarrow> store" where
  "handleStakingRewardsStaked cfgs e s = (let user = addr (ae_account e) in
     if user \<notin> set (treasuryWalletsForChain cfgs (ae_chainId e)) then s
     else applyTransferToWalletBalance (ae_chainId e) (addr (ae_srcAddress e)) user (ae_amount e)
       (accountMeta e) s)"

definition handleStakingRewardsWithdrawn :: "configs \<Rightarrow> account_event \<Rightarrow> store \<Rightarrow> store" where
  "handleStakingRewardsWithdrawn cfgs e s = (let user = addr (ae_account e) in
     if user \<notin> set (treasuryWalletsForChain cfgs (ae_chainId e)) then s
     else applyTransferToWalletBalance (ae_chainId e) (addr (ae_srcAddress e)) user (- ae_amount e)
       (accountMeta e) s)"

section \<open>Lender membership\<close>

definition lenderAmoId :: "nat \<Rightarrow> string \<Rightarrow> string" where
  "lenderAmoId chainId amoAddress = id2 chainId (addr amoAddress)"

definition setAmo :: "bool \<Rightarrow> nat \<Rightarrow> string \<Rightarrow> nat \<Rightarrow> store \<Rightarrow> store" where
  "setAmo active chainId amo blockNumber s =
     (let amoAddress = addr amo; key = lenderAmoId chainId amoAddress in
      s \<lparr> st_LenderAmo := tset key
           \<lparr> LenderAmo_id = key, LenderAmo_chainId = chainId, LenderAmo_amoAddress = amoAddress,
             LenderAmo_active = active,
             LenderAmo_deployedOhm = (case tget (st_LenderAmo s) key of None \<Rightarrow> 0
               | Some existing \<Rightarrow> LenderAmo_deployedOhm existing),
             LenderAmo_updatedAtBlock = blockNumber \<rparr> (st_LenderAmo s) \<rparr>)"

definition handleAMOAdded :: "nat \<Rightarrow> string \<Rightarrow> nat \<Rightarrow> store \<Rightarrow> store" where
  "handleAMOAdded chainId amo blockNumber s = setAmo True chainId amo blockNumber s"

definition handleAMORemoved :: "nat \<Rightarrow> string \<Rightarrow> nat \<Rightarrow> store \<Rightarrow> store" where
  "handleAMORemoved chainId amo blockNumber s = setAmo False chainId amo blockNumber s"

section \<open>The event stream of the ledger\<close>

datatype ledger_event =
  Treasury_Transfer transfer_event
| Ohm_Transfer transfer_event
| Lp_Transfer transfer_event
| Wrapped9_Deposit account_event
| Wrapped9_Withdrawal account_event
| Erc4626_Deposit account_event
| Erc4626_Withdraw account_event
| Staking_Staked account_event
| Staking_Withdrawn account_event
| AMO_Added nat string nat
| AMO_Removed nat string nat

fun handleLedgerEvent :: "configs \<Rightarrow> store \<Rightarrow> ledger_event \<Rightarrow> store" where
  "handleLedgerEvent cfgs s (Treasury_Transfer e) = handleTreasuryTransfer cfgs e s"
| "handleLedgerEvent cfgs s (Ohm_Transfer e) = handleOhmTransfer cfgs e s"
| "handleLedgerEvent cfgs s (Lp_Transfer e) = handleLpTransfer cfgs e s"
| "handleLedgerEvent cfgs s (Wrapped9_Deposit e) = handleWrapped9Deposit cfgs e s"
| "handleLedgerEvent cfgs s (Wrapped9_Withdrawal e) = handleWrapped9Withdrawal cfgs e s"
| "handleLedgerEvent cfgs s (Erc4626_Deposit e) = handleErc4626Deposit cfgs e s"
| "handleLedgerEvent cfgs s (Erc4626_Withdraw e) = handleErc4626Withdraw cfgs e s"
| "handleLedgerEvent cfgs s (Staking_Staked e) = handleStakingRewardsStaked cfgs e s"
| "handleLedgerEvent cfgs s (Staking_Withdrawn e) = handleStakingRewardsWithdrawn cfgs e s"
| "handleLedgerEvent cfgs s (AMO_Added c a b) = handleAMOAdded c a b s"
| "handleLedgerEvent cfgs s (AMO_Removed c a b) = handleAMORemoved c a b s"

section \<open>What one event does to a balance and to a supply\<close>

lemma tokenBalanceId_addr [simp]:
  "tokenBalanceId c (addr t) w = tokenBalanceId c t w" "tokenBalanceId c t (addr w) = tokenBalanceId c t w"
  by (simp_all add: tokenBalanceId_def)

lemma erc20SupplyId_addr [simp]: "erc20SupplyId c (addr t) = erc20SupplyId c t"
  by (simp add: erc20SupplyId_def)

lemma erc20SupplyId_inject [simp]: "erc20SupplyId c t = erc20SupplyId c' t' \<longleftrightarrow> c = c' \<and> same t t'"
  by (simp add: erc20SupplyId_def same_def)

lemma tokenBalanceId_inject:
  assumes "CHR ''-'' \<notin> set t" "CHR ''-'' \<notin> set t'"
  shows "tokenBalanceId c t w = tokenBalanceId c' t' w' \<longleftrightarrow> c = c' \<and> same t t' \<and> same w w'"
  using assms by (simp add: tokenBalanceId_def same_def id3_inject)

lemma balanceAt_steps [store_simps]:
  "balanceAt (applyTransferToWalletBalance c t w d m s) k =
     balanceAt s k + (if k = tokenBalanceId c t w then d else 0)"
  "balanceAt (applyMintBurnToSupply c t d m s) k = balanceAt s k"
  "balanceAt (applyDeployedOhmDelta c a d b s) k = balanceAt s k"
  "balanceAt (setAmo f c a b s) k = balanceAt s k"
  by (simp_all add: balanceAt_def applyTransferToWalletBalance_def applyMintBurnToSupply_def
      applyDeployedOhmDelta_def setAmo_def Let_def split: option.splits)

lemma supplyAt_steps [store_simps]:
  "supplyAt (applyMintBurnToSupply c t d m s) k =
     (if k = erc20SupplyId c t then clamp_add (supplyAt s k) d else supplyAt s k)"
  "supplyAt (applyTransferToWalletBalance c t w d m s) k = supplyAt s k"
  "supplyAt (applyDeployedOhmDelta c a d b s) k = supplyAt s k"
  "supplyAt (setAmo f c a b s) k = supplyAt s k"
  by (simp_all add: supplyAt_def applyTransferToWalletBalance_def applyMintBurnToSupply_def
      applyDeployedOhmDelta_def setAmo_def Let_def clamp_add_def split: option.splits)

text \<open>The signed change an event makes to the balance row of an id. A mint or a burn of OHM or
  of an LP token leaves the zero address out.\<close>

definition transferEffect :: "string set \<Rightarrow> transfer_event \<Rightarrow> string \<Rightarrow> int" where
  "transferEffect wallets e k =
     (if addr (te_to e) \<in> wallets \<and> k = tokenBalanceId (te_chainId e) (te_srcAddress e) (te_to e)
      then te_value e else 0) -
     (if addr (te_from e) \<in> wallets \<and> k = tokenBalanceId (te_chainId e) (te_srcAddress e) (te_from e)
      then te_value e else 0)"

definition accountEffect :: "string set \<Rightarrow> account_event \<Rightarrow> string \<Rightarrow> int" where
  "accountEffect wallets e k =
     (if addr (ae_account e) \<in> wallets \<and>
         k = tokenBalanceId (ae_chainId e) (ae_srcAddress e) (ae_account e)
      then ae_amount e else 0)"

fun balanceEffect :: "configs \<Rightarrow> ledger_event \<Rightarrow> string \<Rightarrow> int" where
  "balanceEffect cfgs (Treasury_Transfer e) k =
     transferEffect (set (treasuryWalletsForChain cfgs (te_chainId e))) e k"
| "balanceEffect cfgs (Ohm_Transfer e) k =
     transferEffect (set (treasuryWalletsForChain cfgs (te_chainId e)) - {ZERO_ADDRESS}) e k"
| "balanceEffect cfgs (Lp_Transfer e) k =
     transferEffect (set (treasuryWalletsForChain cfgs (te_chainId e)) - {ZERO_ADDRESS}) e k"
| "balanceEffect cfgs (Wrapped9_Deposit e) k =
     accountEffect (set (treasuryWalletsForChain cfgs (ae_chainId e))) e k"
| "balanceEffect cfgs (Wrapped9_Withdrawal e) k =
     - accountEffect (set (treasuryWalletsForChain cfgs (ae_chainId e))) e k"
| "balanceEffect cfgs (Erc4626_Deposit e) k =
     accountEffect (set (treasuryWalletsForChain cfgs (ae_chainId e))) e k"
| "balanceEffect cfgs (Erc4626_Withdraw e) k =
     - accountEffect (set (treasuryWalletsForChain cfgs (ae_chainId e))) e k"
| "balanceEffect cfgs (Staking_Staked e) k =
     accountEffect (set (treasuryWalletsForChain cfgs (ae_chainId e))) e k"
| "balanceEffect cfgs (Staking_Withdrawn e) k =
     - accountEffect (set (treasuryWalletsForChain cfgs (ae_chainId e))) e k"
| "balanceEffect cfgs (AMO_Added c a b) k = 0"
| "balanceEffect cfgs (AMO_Removed c a b) k = 0"

definition mintBurnDeltas :: "transfer_event \<Rightarrow> string \<Rightarrow> int list" where
  "mintBurnDeltas e k = (if k = erc20SupplyId (te_chainId e) (te_srcAddress e)
     then (if addr (te_from e) = ZERO_ADDRESS then [te_value e] else []) @
          (if addr (te_to e) = ZERO_ADDRESS then [- te_value e] else [])
     else [])"

fun supplyDeltas :: "ledger_event \<Rightarrow> string \<Rightarrow> int list" where
  "supplyDeltas (Ohm_Transfer e) k = mintBurnDeltas e k"
| "supplyDeltas (Lp_Transfer e) k = mintBurnDeltas e k"
| "supplyDeltas _ k = []"

lemmas ledger_handlers = handleTreasuryTransfer_def handleOhmTransfer_def handleLpTransfer_def
  handleWrapped9Deposit_def handleWrapped9Withdrawal_def handleErc4626Deposit_def
  handleErc4626Withdraw_def handleStakingRewardsStaked_def handleStakingRewardsWithdrawn_def
  handleAMOAdded_def handleAMORemoved_def

interpretation balances: tally balanceAt "handleLedgerEvent cfgs" "balanceEffect cfgs" for cfgs
proof
  fix s ev k
  show "balanceAt (handleLedgerEvent cfgs s ev) k = balanceAt s k + balanceEffect cfgs ev k"
    by (cases ev)
      (simp_all add: ledger_handlers Let_def store_simps transferEffect_def accountEffect_def)
qed

interpretation supplies: clamped_tally supplyAt "handleLedgerEvent cfgs" supplyDeltas for cfgs
proof
  fix s ev k
  show "supplyAt (handleLedgerEvent cfgs s ev) k = foldl clamp_add (supplyAt s k) (supplyDeltas ev k)"
    by (cases ev) (simp_all add: ledger_handlers Let_def store_simps mintBurnDeltas_def)
qed

section \<open>Balances and supplies over a run of events\<close>

definition balanceOf :: "store \<Rightarrow> nat \<Rightarrow> string \<Rightarrow> string \<Rightarrow> int" where
  "balanceOf s c t w = balanceAt s (tokenBalanceId c t w)"

fun sourceOf :: "ledger_event \<Rightarrow> string" where
  "sourceOf (Treasury_Transfer e) = te_srcAddress e"
| "sourceOf (Ohm_Transfer e) = te_srcAddress e"
| "sourceOf (Lp_Transfer e) = te_srcAddress e"
| "sourceOf (Wrapped9_Deposit e) = ae_srcAddress e"
| "sourceOf (Wrapped9_Withdrawal e) = ae_srcAddress e"
| "sourceOf (Erc4626_Deposit e) = ae_srcAddress e"
| "sourceOf (Erc4626_Withdraw e) = ae_srcAddress e"
| "sourceOf (Staking_Staked e) = ae_srcAddress e"
| "sourceOf (Staking_Withdrawn e) = ae_srcAddress e"
| "sourceOf (AMO_Added c a b) = a"
| "sourceOf (AMO_Removed c a b) = a"

definition concerns :: "nat \<Rightarrow> string \<Rightarrow> string \<Rightarrow> nat \<Rightarrow> string \<Rightarrow> string \<Rightarrow> bool" where
  "concerns c t w c' t' w' \<longleftrightarrow> c' = c \<and> same t' t \<and> same w' w"

text \<open>The amounts an event moves to and from a wallet, read off the chain: no mention of the
  ledger, of ids or of the set of tracked wallets.\<close>

fun received :: "nat \<Rightarrow> string \<Rightarrow> string \<Rightarrow> ledger_event \<Rightarrow> int" where
  "received c t w (Treasury_Transfer e) =
     (if concerns c t w (te_chainId e) (te_srcAddress e) (te_to e) then te_value e else 0)"
| "received c t w (Ohm_Transfer e) =
     (if concerns c t w (te_chainId e) (te_srcAddress e) (te_to e) then te_value e else 0)"
| "received c t w (Lp_Transfer e) =
     (if concerns c t w (te_chainId e) (te_srcAddress e) (te_to e) then te_value e else 0)"
| "received c t w (Wrapped9_Deposit e) =
     (if concerns c t w (ae_chainId e) (ae_srcAddress e) (ae_account e) then ae_amount e else 0)"
| "received c t w (Erc4626_Deposit e) =
     (if concerns c t w (ae_chainId e) (ae_srcAddress e) (ae_account e) then ae_amount e else 0)"
| "received c t w (Staking_Staked e) =
     (if concerns c t w (ae_chainId e) (ae_srcAddress e) (ae_account e) then ae_amount e else 0)"
| "received c t w _ = 0"

fun sent :: "nat \<Rightarrow> string \<Rightarrow> string \<Rightarrow> ledger_event \<Rightarrow> int" where
  "sent c t w (Treasury_Transfer e) =
     (if concerns c t w (te_chainId e) (te_srcAddress e) (te_from e) then te_value e else 0)"
| "sent c t w (Ohm_Transfer e) =
     (if concerns c t w (te_chainId e) (te_srcAddress e) (te_from e) then te_value e else 0)"
| "sent c t w (Lp_Transfer e) =
     (if concerns c t w (te_chainId e) (te_srcAddress e) (te_from e) then te_value e else 0)"
| "sent c t w (Wrapped9_Withdrawal e) =
     (if concerns c t w (ae_chainId e) (ae_srcAddress e) (ae_account e) then ae_amount e else 0)"
| "sent c t w (Erc4626_Withdraw e) =
     (if concerns c t w (ae_chainId e) (ae_srcAddress e) (ae_account e) then ae_amount e else 0)"
| "sent c t w (Staking_Withdrawn e) =
     (if concerns c t w (ae_chainId e) (ae_srcAddress e) (ae_account e) then ae_amount e else 0)"
| "sent c t w _ = 0"

lemma concerns_wallet:
  "concerns c t w c' t' w' \<Longrightarrow> addr w \<in> W \<Longrightarrow> addr w' \<in> W"
  by (simp add: concerns_def same_def)

lemma balanceEffect_tracked:
  assumes w: "addr w \<in> set (treasuryWalletsForChain cfgs c)" "addr w \<noteq> ZERO_ADDRESS"
    and dash: "CHR ''-'' \<notin> set t" "CHR ''-'' \<notin> set (sourceOf ev)"
  shows "balanceEffect cfgs ev (tokenBalanceId c t w) = received c t w ev - sent c t w ev"
proof -
  have key: "tokenBalanceId c t w = tokenBalanceId c' (sourceOf ev) w' \<longleftrightarrow>
      concerns c t w c' (sourceOf ev) w'" for c' w'
    using tokenBalanceId_inject [OF dash] by (auto simp: concerns_def same_def)
  show ?thesis
    using w key by (cases ev)
      (auto simp: transferEffect_def accountEffect_def concerns_def same_def)
qed

lemma sum_list_diff:
  fixes f g :: "'a \<Rightarrow> int"
  shows "(\<Sum>x\<leftarrow>xs. f x - g x) = (\<Sum>x\<leftarrow>xs. f x) - (\<Sum>x\<leftarrow>xs. g x)"
  by (induction xs) simp_all

text \<open>The balance of a tracked wallet after a run of events.\<close>

lemma balanceOf_run:
  assumes "addr w \<in> set (treasuryWalletsForChain cfgs c)" "addr w \<noteq> ZERO_ADDRESS"
    and "CHR ''-'' \<notin> set t" "\<forall>ev \<in> set evs. CHR ''-'' \<notin> set (sourceOf ev)"
  shows "balanceOf (foldl (handleLedgerEvent cfgs) s evs) c t w =
    balanceOf s c t w + (\<Sum>ev\<leftarrow>evs. received c t w ev) - (\<Sum>ev\<leftarrow>evs. sent c t w ev)"
proof -
  have "(\<Sum>ev\<leftarrow>evs. balanceEffect cfgs ev (tokenBalanceId c t w)) =
      (\<Sum>ev\<leftarrow>evs. received c t w ev - sent c t w ev)"
    using assms by (intro arg_cong [of _ _ sum_list] map_cong) (simp_all add: balanceEffect_tracked)
  then show ?thesis by (simp add: balanceOf_def balances.total_run sum_list_diff)
qed

text \<open>
  C3: the ledger is right. After any interleaving of the ledger's events, the balance row of a
  tracked wallet holds the balance it had plus everything the wallet received minus everything
  it sent, whatever other wallets, tokens and chains the events touch.
\<close>

theorem ledger_balance:
  assumes "addr w \<in> set (treasuryWalletsForChain cfgs c)" "addr w \<noteq> ZERO_ADDRESS"
    and "CHR ''-'' \<notin> set t" "\<forall>ev \<in> set evs. CHR ''-'' \<notin> set (sourceOf ev)"
  shows "balanceOf (foldl (handleLedgerEvent cfgs) s evs) c t w =
    balanceOf s c t w + (\<Sum>ev\<leftarrow>evs. received c t w ev) - (\<Sum>ev\<leftarrow>evs. sent c t w ev)"
  using assms by (rule balanceOf_run)

text \<open>
  C19: total supplies. The supply row of a token never goes negative, is never below the supply
  it started from plus all mints minus all burns, and equals it whenever no prefix of the mints
  and burns is negative.
\<close>

theorem ledger_supply:
  assumes "0 \<le> supplyAt s k"
  shows "0 \<le> supplyAt (foldl (handleLedgerEvent cfgs) s evs) k
    \<and> supplyAt s k + sum_list (concat (map (\<lambda>ev. supplyDeltas ev k) evs))
        \<le> supplyAt (foldl (handleLedgerEvent cfgs) s evs) k
    \<and> ((\<forall>n \<le> length (concat (map (\<lambda>ev. supplyDeltas ev k) evs)).
          0 \<le> supplyAt s k + sum_list (take n (concat (map (\<lambda>ev. supplyDeltas ev k) evs)))) \<longrightarrow>
        supplyAt (foldl (handleLedgerEvent cfgs) s evs) k =
          supplyAt s k + sum_list (concat (map (\<lambda>ev. supplyDeltas ev k) evs)))"
  using supplies.total_run_nonneg [OF assms] supplies.total_run_ge supplies.total_run_exact by blast

text \<open>
  A transfer of a protocol wallet to itself leaves the balance unchanged, but the audit row
  it writes does not say so: the debit row and the credit row share one id, so the surviving
  row of \<open>TokenBalanceUpdate\<close> claims a change of \<open>+value\<close>.
\<close>

theorem self_transfer:
  assumes "addr (te_to e) = addr (te_from e)"
    "addr (te_from e) \<in> set (treasuryWalletsForChain cfgs (te_chainId e))"
  shows "balanceAt (handleTreasuryTransfer cfgs e s) k = balanceAt s k
    \<and> map_option TokenBalanceUpdate_delta (tget (st_TokenBalanceUpdate (handleTreasuryTransfer cfgs e s))
        (id5 (te_chainId e) (addr (te_srcAddress e)) (addr (te_from e)) (te_block e) (te_logIndex e)))
      = Some (te_value e)"
  using assms
  by (simp add: handleTreasuryTransfer_def Let_def store_simps tokenBalanceId_def same_def)
    (simp add: applyTransferToWalletBalance_def Let_def transferMeta_def)

text \<open>
  The OHM a lending AMO deployed is counted only once the AMO is registered: a mint to a
  registered AMO adds to its total, while a mint that arrives before \<open>AMOAdded\<close> is dropped, so
  the AMO starts from zero.
\<close>

definition deployedAt :: "store \<Rightarrow> string \<Rightarrow> int" where
  "deployedAt s k = (case tget (st_LenderAmo s) k of None \<Rightarrow> 0 | Some a \<Rightarrow> LenderAmo_deployedOhm a)"

lemma amo_steps [store_simps]:
  "st_LenderAmo (applyTransferToWalletBalance c t w d m s) = st_LenderAmo s"
  "st_LenderAmo (applyMintBurnToSupply c t d m s) = st_LenderAmo s"
  by (simp_all add: applyTransferToWalletBalance_def applyMintBurnToSupply_def Let_def)

theorem amo_registration_order:
  assumes "addr (te_from mint) = ZERO_ADDRESS" "addr (te_to mint) = addr amo"
    "addr amo \<noteq> ZERO_ADDRESS" "0 \<le> te_value mint"
    "tget (st_LenderAmo s) (lenderAmoId (te_chainId mint) amo) = None"
  shows "deployedAt (foldl (handleLedgerEvent cfgs) s
      [AMO_Added (te_chainId mint) amo b, Ohm_Transfer mint]) (lenderAmoId (te_chainId mint) amo)
      = te_value mint
    \<and> deployedAt (foldl (handleLedgerEvent cfgs) s
      [Ohm_Transfer mint, AMO_Added (te_chainId mint) amo b]) (lenderAmoId (te_chainId mint) amo)
      = 0"
  using assms
  by (simp add: ledger_handlers Let_def deployedAt_def setAmo_def lenderAmoId_def
      applyDeployedOhmDelta_def amo_steps)

section \<open>Concrete runs\<close>

definition sample_ledger_configs :: configs where
  "sample_ledger_configs c = (if c = 1
     then Some (blank_config \<lparr> cc_protocolAddresses := [''0xa1'', ''0xa2''] \<rparr>) else None)"

definition sample_transfer :: "string \<Rightarrow> string \<Rightarrow> int \<Rightarrow> transfer_event" where
  "sample_transfer from to value = \<lparr> te_chainId = 1, te_srcAddress = ''0xt1'', te_logIndex = 3,
     te_block = 100, te_timestamp = 0, te_from = from, te_to = to, te_value = value \<rparr>"

lemmas sample_ledger_eval = sample_ledger_configs_def treasuryWalletsForChain_def
  sample_transfer_def blank_config_def addr_def addr_eval ZERO_ADDRESS_def

theorem ledger_balance_witness:
  "balanceOf (foldl (handleLedgerEvent sample_ledger_configs) empty_store
     [Treasury_Transfer (sample_transfer ''0xb1'' ''0xA1'' 10),
      Lp_Transfer (sample_transfer ''0xa1'' ''0xb2'' 3)]) 1 ''0xT1'' ''0xa1'' = 7"
  by (subst ledger_balance)
    (simp_all add: sample_ledger_eval concerns_def same_def balanceOf_def balanceAt_def
      empty_store_def)

theorem ledger_supply_witness:
  "0 \<le> supplyAt (foldl (handleLedgerEvent sample_ledger_configs) empty_store
     [Lp_Transfer (sample_transfer ''0xb1'' ZERO_ADDRESS 10)]) (erc20SupplyId 1 ''0xt1'')"
  using ledger_supply [of empty_store "erc20SupplyId 1 ''0xt1''" sample_ledger_configs
    "[Lp_Transfer (sample_transfer ''0xb1'' ZERO_ADDRESS 10)]"]
  by (simp only: supplyAt_def empty_store_def store.simps tget_Nil option.case)

theorem self_transfer_witness:
  "balanceAt (handleTreasuryTransfer sample_ledger_configs (sample_transfer ''0xa1'' ''0xA1'' 5)
     empty_store) (tokenBalanceId 1 ''0xb1'' ''0xa1'')
   = balanceAt empty_store (tokenBalanceId 1 ''0xb1'' ''0xa1'')"
  using self_transfer [of "sample_transfer ''0xa1'' ''0xA1'' 5" sample_ledger_configs empty_store
    "tokenBalanceId 1 ''0xb1'' ''0xa1''"]
  by (simp add: sample_ledger_eval)

theorem amo_registration_order_witness:
  "deployedAt (foldl (handleLedgerEvent sample_ledger_configs) empty_store
      [Ohm_Transfer (sample_transfer ZERO_ADDRESS ''0xc1'' 9), AMO_Added 1 ''0xC1'' 100])
      (lenderAmoId 1 ''0xC1'') = 0"
  using amo_registration_order [of "sample_transfer ZERO_ADDRESS ''0xc1'' 9" "''0xC1''" empty_store
    sample_ledger_configs 100]
  by (simp add: sample_ledger_eval empty_store_def)

section \<open>Event filters\<close>

text \<open>
  The \<open>where\<close> filters passed to the event source: a list of alternatives, each one a parameter
  and the values it may take; \<open>None\<close> is \<open>false\<close> (deliver nothing). An event is delivered when
  one alternative holds; addresses are compared as bytes, so the letter case does not matter.
\<close>

type_synonym event_filter = "(string \<times> string list) list option"

definition delivered :: "event_filter \<Rightarrow> (string \<rightharpoonup> string) \<Rightarrow> bool" where
  "delivered flt params = (case flt of None \<Rightarrow> False
     | Some alternatives \<Rightarrow> (\<exists>(p, values) \<in> set alternatives. \<exists>v \<in> set values.
         case params p of None \<Rightarrow> False | Some a \<Rightarrow> same v a))"

definition buildTreasuryTransferWhere :: "configs \<Rightarrow> nat \<Rightarrow> event_filter" where
  "buildTreasuryTransferWhere cfgs chain = (let wallets = treasuryWalletsForChain cfgs chain in
     if wallets = [] then None else Some [(''from'', wallets), (''to'', wallets)])"

definition buildOhmTransferWhere :: "configs \<Rightarrow> nat \<Rightarrow> event_filter" where
  "buildOhmTransferWhere cfgs chain = (let wallets = treasuryWalletsForChain cfgs chain in
     if wallets = [] then None else Some [(''from'', wallets), (''to'', wallets),
       (''from'', [ZERO_ADDRESS]), (''to'', [ZERO_ADDRESS])])"

definition buildLpTransferWhere :: "configs \<Rightarrow> nat \<Rightarrow> event_filter" where
  "buildLpTransferWhere cfgs chain = (let wallets = treasuryWalletsForChain cfgs chain in
     if wallets = [] then None else Some [(''from'', wallets), (''to'', wallets),
       (''from'', [ZERO_ADDRESS]), (''to'', [ZERO_ADDRESS])])"

definition buildWrapped9DepositWhere :: "configs \<Rightarrow> nat \<Rightarrow> event_filter" where
  "buildWrapped9DepositWhere cfgs chain = (let wallets = treasuryWalletsForChain cfgs chain in
     if wallets = [] then None else Some [(''dst'', wallets)])"

definition buildWrapped9WithdrawalWhere :: "configs \<Rightarrow> nat \<Rightarrow> event_filter" where
  "buildWrapped9WithdrawalWhere cfgs chain = (let wallets = treasuryWalletsForChain cfgs chain in
     if wallets = [] then None else Some [(''src'', wallets)])"

definition buildErc4626DepositWhere :: "configs \<Rightarrow> nat \<Rightarrow> event_filter" where
  "buildErc4626DepositWhere cfgs chain = (let wallets = treasuryWalletsForChain cfgs chain in
     if wallets = [] then None else Some [(''owner'', wallets)])"

definition buildErc4626WithdrawWhere :: "configs \<Rightarrow> nat \<Rightarrow> event_filter" where
  "buildErc4626WithdrawWhere cfgs chain = (let wallets = treasuryWalletsForChain cfgs chain in
     if wallets = [] then None else Some [(''owner'', wallets)])"

definition buildStakingRewardsWhere :: "configs \<Rightarrow> nat \<Rightarrow> event_filter" where
  "buildStakingRewardsWhere cfgs chain = (let wallets = treasuryWalletsForChain cfgs chain in
     if wallets = [] then None else Some [(''user'', wallets)])"

text \<open>The filter each handler is registered with, and the parameters of the event it sees.\<close>

definition transferParams :: "transfer_event \<Rightarrow> string \<rightharpoonup> string" where
  "transferParams e = [''from'' \<mapsto> te_from e, ''to'' \<mapsto> te_to e]"

fun eventDelivered :: "configs \<Rightarrow> ledger_event \<Rightarrow> bool" where
  "eventDelivered cfgs (Treasury_Transfer e) =
     delivered (buildTreasuryTransferWhere cfgs (te_chainId e)) (transferParams e)"
| "eventDelivered cfgs (Ohm_Transfer e) =
     delivered (buildOhmTransferWhere cfgs (te_chainId e)) (transferParams e)"
| "eventDelivered cfgs (Lp_Transfer e) =
     delivered (buildLpTransferWhere cfgs (te_chainId e)) (transferParams e)"
| "eventDelivered cfgs (Wrapped9_Deposit e) =
     delivered (buildWrapped9DepositWhere cfgs (ae_chainId e)) [''dst'' \<mapsto> ae_account e]"
| "eventDelivered cfgs (Wrapped9_Withdrawal e) =
     delivered (buildWrapped9WithdrawalWhere cfgs (ae_chainId e)) [''src'' \<mapsto> ae_account e]"
| "eventDelivered cfgs (Erc4626_Deposit e) =
     delivered (buildErc4626DepositWhere cfgs (ae_chainId e)) [''owner'' \<mapsto> ae_account e]"
| "eventDelivered cfgs (Erc4626_Withdraw e) =
     delivered (buildErc4626WithdrawWhere cfgs (ae_chainId e)) [''owner'' \<mapsto> ae_account e]"
| "eventDelivered cfgs (Staking_Staked e) =
     delivered (buildStakingRewardsWhere cfgs (ae_chainId e)) [''user'' \<mapsto> ae_account e]"
| "eventDelivered cfgs (Staking_Withdrawn e) =
     delivered (buildStakingRewardsWhere cfgs (ae_chainId e)) [''user'' \<mapsto> ae_account e]"
| "eventDelivered cfgs (AMO_Added c a b) = True"
| "eventDelivered cfgs (AMO_Removed c a b) = True"

lemmas filter_defs = buildTreasuryTransferWhere_def buildOhmTransferWhere_def
  buildLpTransferWhere_def buildWrapped9DepositWhere_def buildWrapped9WithdrawalWhere_def
  buildErc4626DepositWhere_def buildErc4626WithdrawWhere_def buildStakingRewardsWhere_def

lemma delivered_pair:
  "\<not> delivered (if W = [] then None else Some [(p, W), (q, W)]) params \<Longrightarrow> params p = Some a \<Longrightarrow>
     params q = Some b \<Longrightarrow> addr a \<notin> set W \<and> addr b \<notin> set W"
  by (auto simp: delivered_def same_def split: if_splits)

lemma delivered_single:
  "\<not> delivered (if W = [] then None else Some [(p, W)]) params \<Longrightarrow> params p = Some a \<Longrightarrow>
     addr a \<notin> set W"
  by (auto simp: delivered_def same_def split: if_splits)

lemma delivered_quad:
  assumes "\<not> delivered (if W = [] then None else Some [(p, W), (q, W), (p, [z]), (q, [z])]) params"
    and "params p = Some a" "params q = Some b" "W \<noteq> []"
  shows "addr a \<notin> set W \<and> addr b \<notin> set W \<and> addr a \<noteq> z \<and> addr b \<noteq> z"
  using assms by (auto simp: delivered_def same_def split: if_splits)

text \<open>
  C20: the event filters lose nothing. On a chain with tracked wallets, an event the filter of
  its handler does not deliver would not have changed the store at all.
\<close>

theorem filters_complete:
  assumes "\<not> eventDelivered cfgs ev" "\<forall>c config. cfgs c = Some config \<longrightarrow> cc_protocolAddresses config \<noteq> []"
    and "\<forall>e. ev = Ohm_Transfer e \<or> ev = Lp_Transfer e \<longrightarrow> cfgs (te_chainId e) \<noteq> None"
  shows "handleLedgerEvent cfgs s ev = s"
proof -
  have ne: "treasuryWalletsForChain cfgs c \<noteq> []" if "cfgs c \<noteq> None" for c
    using that assms(2) by (auto simp: treasuryWalletsForChain_def)
  have p: "addr (te_from e) \<notin> set (treasuryWalletsForChain cfgs (te_chainId e))
      \<and> addr (te_to e) \<notin> set (treasuryWalletsForChain cfgs (te_chainId e))"
    if "ev = Treasury_Transfer e" for e
    using assms(1) that delivered_pair [of _ "''from''" "''to''" "transferParams e"]
    by (simp add: filter_defs Let_def transferParams_def)
  have q: "addr (te_from e) \<notin> set (treasuryWalletsForChain cfgs (te_chainId e))
      \<and> addr (te_to e) \<notin> set (treasuryWalletsForChain cfgs (te_chainId e))
      \<and> addr (te_from e) \<noteq> ZERO_ADDRESS \<and> addr (te_to e) \<noteq> ZERO_ADDRESS"
    if "ev = Ohm_Transfer e \<or> ev = Lp_Transfer e" for e
    using assms(1) that ne [of "te_chainId e"] assms(3)
      delivered_quad [of "treasuryWalletsForChain cfgs (te_chainId e)" "''from''" "''to''"
        ZERO_ADDRESS "transferParams e"]
    by (auto simp: filter_defs Let_def transferParams_def)
  show ?thesis
  proof (cases ev)
    case (Treasury_Transfer e)
    then show ?thesis using p [of e] by (simp add: handleTreasuryTransfer_def Let_def)
  next
    case (Ohm_Transfer e)
    then show ?thesis using q [of e] by (simp add: handleOhmTransfer_def Let_def)
  next
    case (Lp_Transfer e)
    then show ?thesis using q [of e] by (simp add: handleLpTransfer_def Let_def)
  qed (use assms(1) in \<open>auto simp: ledger_handlers filter_defs Let_def dest: delivered_single\<close>)
qed

theorem filters_complete_witness:
  "handleLedgerEvent sample_ledger_configs empty_store
     (Treasury_Transfer (sample_transfer ''0xb1'' ''0xb2'' 10)) = empty_store"
  by (rule filters_complete)
    (auto simp: sample_ledger_eval delivered_def filter_defs transferParams_def Let_def same_def
      split: if_splits)

end
