(* ===== verification/Pool_Events.thy ===== *)
theory Pool_Events
  imports Ledger
begin

text \<open>
  Handlers that keep the state of pools, staking positions, the rebase index and the kernel
  modules up to date: \<open>Univ2Pools.ts\<close>, \<open>Univ3Pools.ts\<close>, \<open>SOhmV3.ts\<close>, \<open>BophadesKernel.ts\<close>,
  \<open>KodiakLps.ts\<close>, \<open>Staking.ts\<close> (all under \<open>handlers/\<close>). Chain reads the handlers make through
  effects are parameters.
\<close>

record event_at =
  ev_chainId :: nat
  ev_srcAddress :: string
  ev_logIndex :: nat
  ev_block :: nat
  ev_timestamp :: nat

section \<open>Uniswap V2 reserves\<close>

record sync_event = event_at +
  sy_reserve0 :: int
  sy_reserve1 :: int

definition univ2PoolStateId :: "nat \<Rightarrow> string \<Rightarrow> string" where
  "univ2PoolStateId chainId poolAddress = id2 chainId (addr poolAddress)"

definition handleSync :: "store \<Rightarrow> sync_event \<Rightarrow> store" where
  "handleSync s e =
     (let poolAddress = addr (ev_srcAddress e);
          updateId = id4 (ev_chainId e) poolAddress (ev_block e) (ev_logIndex e);
          key = univ2PoolStateId (ev_chainId e) poolAddress
      in s \<lparr> st_Univ2PoolUpdate := tset updateId
               \<lparr> Univ2PoolUpdate_id = updateId, Univ2PoolUpdate_chainId = ev_chainId e,
                 Univ2PoolUpdate_poolAddress = poolAddress,
                 Univ2PoolUpdate_reserve0 = sy_reserve0 e, Univ2PoolUpdate_reserve1 = sy_reserve1 e,
                 Univ2PoolUpdate_block = ev_block e, Univ2PoolUpdate_timestamp = ev_timestamp e \<rparr>
               (st_Univ2PoolUpdate s),
             st_Univ2PoolState := tset key
               \<lparr> Univ2PoolState_id = key, Univ2PoolState_chainId = ev_chainId e,
                 Univ2PoolState_poolAddress = poolAddress,
                 Univ2PoolState_reserve0 = sy_reserve0 e, Univ2PoolState_reserve1 = sy_reserve1 e,
                 Univ2PoolState_updatedAtBlock = ev_block e \<rparr> (st_Univ2PoolState s) \<rparr>)"

section \<open>Uniswap V3 spot state\<close>

record univ3_set_args =
  u3_chainId :: nat
  u3_poolAddress :: string
  u3_block :: nat
  u3_timestamp :: nat
  u3_logIndex :: nat
  u3_sqrtPriceX96 :: int
  u3_tick :: int
  u3_liquidity :: int

definition univ3PoolStateId :: "nat \<Rightarrow> string \<Rightarrow> string" where
  "univ3PoolStateId chainId poolAddress = id2 chainId (addr poolAddress)"

definition setUniv3State :: "univ3_set_args \<Rightarrow> store \<Rightarrow> store" where
  "setUniv3State a s =
     (let updateId = id4 (u3_chainId a) (u3_poolAddress a) (u3_block a) (u3_logIndex a);
          key = univ3PoolStateId (u3_chainId a) (u3_poolAddress a)
      in s \<lparr> st_Univ3PoolUpdate := tset updateId
               \<lparr> Univ3PoolUpdate_id = updateId, Univ3PoolUpdate_chainId = u3_chainId a,
                 Univ3PoolUpdate_poolAddress = u3_poolAddress a,
                 Univ3PoolUpdate_sqrtPriceX96 = u3_sqrtPriceX96 a,
                 Univ3PoolUpdate_tick = u3_tick a, Univ3PoolUpdate_liquidity = u3_liquidity a,
                 Univ3PoolUpdate_block = u3_block a, Univ3PoolUpdate_timestamp = u3_timestamp a \<rparr>
               (st_Univ3PoolUpdate s),
             st_Univ3PoolState := tset key
               \<lparr> Univ3PoolState_id = key, Univ3PoolState_chainId = u3_chainId a,
                 Univ3PoolState_poolAddress = u3_poolAddress a,
                 Univ3PoolState_sqrtPriceX96 = u3_sqrtPriceX96 a,
                 Univ3PoolState_tick = u3_tick a, Univ3PoolState_liquidity = u3_liquidity a,
                 Univ3PoolState_updatedAtBlock = u3_block a \<rparr> (st_Univ3PoolState s) \<rparr>)"

datatype univ3_event =
  Initialize (u3e_at: event_at) (u3e_sqrtPriceX96: int) (u3e_tick: int)
| Univ3_Swap (u3e_at: event_at) (u3e_sqrtPriceX96: int) (u3e_tick: int) (u3e_liq: int)

definition univ3Args :: "event_at \<Rightarrow> int \<Rightarrow> int \<Rightarrow> int \<Rightarrow> univ3_set_args" where
  "univ3Args e sqrtPriceX96 tick liquidity =
     \<lparr> u3_chainId = ev_chainId e, u3_poolAddress = addr (ev_srcAddress e), u3_block = ev_block e,
       u3_timestamp = ev_timestamp e, u3_logIndex = ev_logIndex e, u3_sqrtPriceX96 = sqrtPriceX96,
       u3_tick = tick, u3_liquidity = liquidity \<rparr>"

fun handleUniv3 :: "store \<Rightarrow> univ3_event \<Rightarrow> store" where
  "handleUniv3 s (Initialize e sqrtPriceX96 tick) = setUniv3State (univ3Args e sqrtPriceX96 tick 0) s"
| "handleUniv3 s (Univ3_Swap e sqrtPriceX96 tick liquidity) =
     setUniv3State (univ3Args e sqrtPriceX96 tick liquidity) s"

section \<open>The sOHM rebase index\<close>

record rebase_event = event_at +
  lr_epoch :: int
  lr_rebase :: int
  lr_index :: int

definition isGohmHandlerFor :: "string \<Rightarrow> liquidity_handler \<Rightarrow> bool" where
  "isGohmHandlerFor sOhmAddress entry =
     (case entry of Gohm i _ _ _ \<Rightarrow> addr i = sOhmAddress | _ \<Rightarrow> False)"

definition applyLogRebase :: "configs \<Rightarrow> store \<Rightarrow> rebase_event \<Rightarrow> store" where
  "applyLogRebase cfgs s e =
     (case cfgs (ev_chainId e) of
        None \<Rightarrow> s
      | Some chainConfig \<Rightarrow>
          (let sOhmAddress = addr (ev_srcAddress e) in
           case List.find (isGohmHandlerFor sOhmAddress) (cc_liquidityHandlers chainConfig) of
             None \<Rightarrow> s
           | Some _ \<Rightarrow>
               (let updateId = id4 (ev_chainId e) sOhmAddress (ev_block e) (ev_logIndex e);
                    key = id2 (ev_chainId e) sOhmAddress
                in s \<lparr> st_OhmIndexUpdate := tset updateId
                         \<lparr> OhmIndexUpdate_id = updateId, OhmIndexUpdate_chainId = ev_chainId e,
                           OhmIndexUpdate_sOhmAddress = sOhmAddress,
                           OhmIndexUpdate_index = lr_index e, OhmIndexUpdate_epoch = lr_epoch e,
                           OhmIndexUpdate_block = ev_block e,
                           OhmIndexUpdate_timestamp = ev_timestamp e \<rparr> (st_OhmIndexUpdate s),
                       st_OhmIndexState := tset key
                         \<lparr> OhmIndexState_id = key, OhmIndexState_chainId = ev_chainId e,
                           OhmIndexState_sOhmAddress = sOhmAddress,
                           OhmIndexState_index = lr_index e, OhmIndexState_epoch = lr_epoch e,
                           OhmIndexState_updatedAtBlock = ev_block e,
                           OhmIndexState_updatedAtTimestamp = ev_timestamp e \<rparr>
                         (st_OhmIndexState s) \<rparr>)))"

section \<open>Bophades modules\<close>

record kernel_event = event_at +
  ke_action :: nat
  ke_target :: string

definition ACTION_INSTALL_MODULE :: nat where "ACTION_INSTALL_MODULE = 0"
definition ACTION_UPGRADE_MODULE :: nat where "ACTION_UPGRADE_MODULE = 1"

definition applyKernelActionExecuted ::
  "(nat \<Rightarrow> string \<Rightarrow> string) \<Rightarrow> store \<Rightarrow> kernel_event \<Rightarrow> store" where
  "applyKernelActionExecuted resolveKeycode s e =
     (if ke_action e \<noteq> ACTION_INSTALL_MODULE \<and> ke_action e \<noteq> ACTION_UPGRADE_MODULE then s
      else (let moduleAddress = addr (ke_target e);
                keycode = resolveKeycode (ev_chainId e) moduleAddress;
                key = id2 (ev_chainId e) keycode
            in if keycode = '''' then s
               else s \<lparr> st_BophadesModule := tset key
                 \<lparr> BophadesModule_id = key, BophadesModule_chainId = ev_chainId e,
                   BophadesModule_keycode = keycode, BophadesModule_moduleAddress = moduleAddress,
                   BophadesModule_installedAtBlock = ev_block e,
                   BophadesModule_installedAtTimestamp = ev_timestamp e \<rparr>
                 (st_BophadesModule s) \<rparr>))"

section \<open>Kodiak pools\<close>

text \<open>The Transfer handler of a Kodiak LP token: the ledger step, then the mapping to the
  underlying pool, written once. The second function is what the dynamic registration adds.\<close>

definition handleKodiakTransfer ::
  "configs \<Rightarrow> (nat \<Rightarrow> string \<Rightarrow> string) \<Rightarrow> store \<Rightarrow> transfer_event \<Rightarrow> store" where
  "handleKodiakTransfer cfgs resolveUnderlying s0 e =
     (let s = handleLpTransfer cfgs e s0;
          kodiakLp = addr (te_srcAddress e);
          key = id2 (te_chainId e) kodiakLp
      in case tget (st_KodiakPool s) key of
           Some _ \<Rightarrow> s
         | None \<Rightarrow> s \<lparr> st_KodiakPool := tset key
             \<lparr> KodiakPool_id = key, KodiakPool_chainId = te_chainId e,
               KodiakPool_kodiakLpAddress = kodiakLp,
               KodiakPool_underlyingPoolAddress = addr (resolveUnderlying (te_chainId e) kodiakLp),
               KodiakPool_updatedAtBlock = te_block e \<rparr> (st_KodiakPool s) \<rparr>)"

definition kodiakContractRegister ::
  "configs \<Rightarrow> (string \<Rightarrow> nat \<Rightarrow> string) \<Rightarrow> transfer_event \<Rightarrow> string option" where
  "kodiakContractRegister cfgs readPool e = (case cfgs (te_chainId e) of None \<Rightarrow> None
     | Some _ \<Rightarrow> Some (addr (readPool (te_srcAddress e) (te_block e))))"

section \<open>Staking positions on Arbitrum\<close>

definition jonesPositionId :: "nat \<Rightarrow> nat \<Rightarrow> string \<Rightarrow> string" where
  "jonesPositionId chainId poolId walletAddress = id3 chainId (nat_str poolId) (addr walletAddress)"

definition treasureDepositId :: "nat \<Rightarrow> string \<Rightarrow> nat \<Rightarrow> string" where
  "treasureDepositId chainId walletAddress depositId =
     id3 chainId (addr walletAddress) (nat_str depositId)"

definition jonesAt :: "store \<Rightarrow> string \<Rightarrow> int" where
  "jonesAt s key = (case tget (st_JonesStakingPosition s) key of None \<Rightarrow> 0
     | Some e \<Rightarrow> JonesStakingPosition_amount e)"

definition treasureAt :: "store \<Rightarrow> string \<Rightarrow> int" where
  "treasureAt s key = (case tget (st_TreasureDeposit s) key of None \<Rightarrow> 0
     | Some e \<Rightarrow> TreasureDeposit_amount e)"

definition applyJonesDelta :: "nat \<Rightarrow> nat \<Rightarrow> string \<Rightarrow> int \<Rightarrow> nat \<Rightarrow> store \<Rightarrow> store" where
  "applyJonesDelta chainId poolId user delta blockNumber s =
     (let key = jonesPositionId chainId poolId user; next = jonesAt s key + delta in
      s \<lparr> st_JonesStakingPosition := tset key
           \<lparr> JonesStakingPosition_id = key, JonesStakingPosition_chainId = chainId,
             JonesStakingPosition_poolId = poolId, JonesStakingPosition_walletAddress = addr user,
             JonesStakingPosition_amount = (if next < 0 then 0 else next),
             JonesStakingPosition_updatedAtBlock = blockNumber \<rparr>
           (st_JonesStakingPosition s) \<rparr>)"

definition applyTreasureDelta :: "nat \<Rightarrow> string \<Rightarrow> nat \<Rightarrow> int \<Rightarrow> nat \<Rightarrow> store \<Rightarrow> store" where
  "applyTreasureDelta chainId user depositId delta blockNumber s =
     (let key = treasureDepositId chainId user depositId; next = treasureAt s key + delta in
      s \<lparr> st_TreasureDeposit := tset key
           \<lparr> TreasureDeposit_id = key, TreasureDeposit_chainId = chainId,
             TreasureDeposit_walletAddress = addr user, TreasureDeposit_depositId = depositId,
             TreasureDeposit_amount = (if next < 0 then 0 else next),
             TreasureDeposit_updatedAtBlock = blockNumber \<rparr> (st_TreasureDeposit s) \<rparr>)"

datatype staking_event =
  Jones_Deposit nat nat string int nat
| Jones_Withdraw nat nat string int nat
| Jones_EmergencyWithdraw nat nat string int nat
| Treasure_Deposit nat string nat int nat
| Treasure_Withdraw nat string nat int nat

fun handleStaking :: "store \<Rightarrow> staking_event \<Rightarrow> store" where
  "handleStaking s (Jones_Deposit c pid user amount b) = applyJonesDelta c pid user amount b s"
| "handleStaking s (Jones_Withdraw c pid user amount b) = applyJonesDelta c pid user (- amount) b s"
| "handleStaking s (Jones_EmergencyWithdraw c pid user amount b) =
     applyJonesDelta c pid user (- amount) b s"
| "handleStaking s (Treasure_Deposit c user i amount b) = applyTreasureDelta c user i amount b s"
| "handleStaking s (Treasure_Withdraw c user i amount b) = applyTreasureDelta c user i (- amount) b s"

section \<open>Interfaces\<close>

interpretation univ2_reserves: latest_value
  "\<lambda>s k. map_option (\<lambda>p. (Univ2PoolState_reserve0 p, Univ2PoolState_reserve1 p))
     (tget (st_Univ2PoolState s) k)"
  handleSync "\<lambda>e. Some (univ2PoolStateId (ev_chainId e) (ev_srcAddress e))"
  "\<lambda>e. (sy_reserve0 e, sy_reserve1 e)"
  by unfold_locales (auto simp: handleSync_def Let_def univ2PoolStateId_def)

definition univ3Says :: "univ3_event \<Rightarrow> int \<times> int \<times> int" where
  "univ3Says ev = (case ev of Initialize e p t \<Rightarrow> (p, t, 0) | Univ3_Swap e p t l \<Rightarrow> (p, t, l))"

interpretation univ3_spot: latest_value
  "\<lambda>s k. map_option (\<lambda>p. (Univ3PoolState_sqrtPriceX96 p, Univ3PoolState_tick p,
     Univ3PoolState_liquidity p)) (tget (st_Univ3PoolState s) k)"
  handleUniv3 "\<lambda>ev. Some (univ3PoolStateId (ev_chainId (u3e_at ev)) (ev_srcAddress (u3e_at ev)))"
  univ3Says
proof
  fix s ev k
  show "map_option (\<lambda>p. (Univ3PoolState_sqrtPriceX96 p, Univ3PoolState_tick p,
      Univ3PoolState_liquidity p)) (tget (st_Univ3PoolState (handleUniv3 s ev)) k) =
    (if Some (univ3PoolStateId (ev_chainId (u3e_at ev)) (ev_srcAddress (u3e_at ev))) = Some k
     then Some (univ3Says ev)
     else map_option (\<lambda>p. (Univ3PoolState_sqrtPriceX96 p, Univ3PoolState_tick p,
       Univ3PoolState_liquidity p)) (tget (st_Univ3PoolState s) k))"
    by (cases ev) (auto simp: setUniv3State_def univ3Args_def Let_def univ3PoolStateId_def
        univ3Says_def)
qed

definition indexTracked :: "configs \<Rightarrow> nat \<Rightarrow> string \<Rightarrow> bool" where
  "indexTracked cfgs c a = (case cfgs c of None \<Rightarrow> False
     | Some config \<Rightarrow> list_ex (isGohmHandlerFor (addr a)) (cc_liquidityHandlers config))"

interpretation ohm_index: latest_value
  "\<lambda>s k. map_option OhmIndexState_index (tget (st_OhmIndexState s) k)"
  "applyLogRebase cfgs"
  "\<lambda>e. if indexTracked cfgs (ev_chainId e) (ev_srcAddress e)
     then Some (id2 (ev_chainId e) (addr (ev_srcAddress e))) else None"
  lr_index for cfgs
  by unfold_locales
    (auto simp: applyLogRebase_def indexTracked_def Let_def list_ex_iff find_None_iff
      split: option.splits dest: find_SomeD)

interpretation kernel_modules: latest_value
  "\<lambda>s k. map_option BophadesModule_moduleAddress (tget (st_BophadesModule s) k)"
  "applyKernelActionExecuted keycodeOf"
  "\<lambda>e. if ke_action e \<le> 1 \<and> keycodeOf (ev_chainId e) (addr (ke_target e)) \<noteq> ''''
     then Some (id2 (ev_chainId e) (keycodeOf (ev_chainId e) (addr (ke_target e)))) else None"
  "\<lambda>e. addr (ke_target e)" for keycodeOf
  by unfold_locales
    (auto simp: applyKernelActionExecuted_def Let_def ACTION_INSTALL_MODULE_def
      ACTION_UPGRADE_MODULE_def)

fun jonesDeltas :: "staking_event \<Rightarrow> string \<Rightarrow> int list" where
  "jonesDeltas (Jones_Deposit c pid user amount b) k =
     (if k = jonesPositionId c pid user then [amount] else [])"
| "jonesDeltas (Jones_Withdraw c pid user amount b) k =
     (if k = jonesPositionId c pid user then [- amount] else [])"
| "jonesDeltas (Jones_EmergencyWithdraw c pid user amount b) k =
     (if k = jonesPositionId c pid user then [- amount] else [])"
| "jonesDeltas _ k = []"

fun treasureDeltas :: "staking_event \<Rightarrow> string \<Rightarrow> int list" where
  "treasureDeltas (Treasure_Deposit c user i amount b) k =
     (if k = treasureDepositId c user i then [amount] else [])"
| "treasureDeltas (Treasure_Withdraw c user i amount b) k =
     (if k = treasureDepositId c user i then [- amount] else [])"
| "treasureDeltas _ k = []"

interpretation jones_positions: clamped_tally jonesAt handleStaking jonesDeltas
proof
  fix s ev k
  show "jonesAt (handleStaking s ev) k = foldl clamp_add (jonesAt s k) (jonesDeltas ev k)"
    by (cases ev) (simp_all add: applyJonesDelta_def applyTreasureDelta_def Let_def jonesAt_def
        clamp_add_def)
qed

interpretation treasure_deposits: clamped_tally treasureAt handleStaking treasureDeltas
proof
  fix s ev k
  show "treasureAt (handleStaking s ev) k = foldl clamp_add (treasureAt s k) (treasureDeltas ev k)"
    by (cases ev) (simp_all add: applyJonesDelta_def applyTreasureDelta_def Let_def treasureAt_def
        clamp_add_def)
qed

section \<open>Properties\<close>

text \<open>The last event of a run about a given pool.\<close>

definition lastAbout :: "('e \<Rightarrow> bool) \<Rightarrow> 'e list \<Rightarrow> 'e option" where
  "lastAbout P es = List.find P (rev es)"

text \<open>
  The pool tables always hold what the pool said last: after any run of events of any
  pools on any chains, the reserves of a V2 pool are those of its last \<open>Sync\<close>, and price, tick
  and liquidity of a V3 pool are those of its last \<open>Initialize\<close> (with zero liquidity) or \<open>Swap\<close>;
  a pool no event was about keeps its row.
\<close>

theorem pool_tables_hold_last_event:
  "map_option (\<lambda>p. (Univ2PoolState_reserve0 p, Univ2PoolState_reserve1 p))
     (tget (st_Univ2PoolState (foldl handleSync s syncs)) (univ2PoolStateId c pool)) =
   (case lastAbout (\<lambda>e. ev_chainId e = c \<and> same (ev_srcAddress e) pool) syncs of
      None \<Rightarrow> map_option (\<lambda>p. (Univ2PoolState_reserve0 p, Univ2PoolState_reserve1 p))
        (tget (st_Univ2PoolState s) (univ2PoolStateId c pool))
    | Some e \<Rightarrow> Some (sy_reserve0 e, sy_reserve1 e))
   \<and> map_option (\<lambda>p. (Univ3PoolState_sqrtPriceX96 p, Univ3PoolState_tick p, Univ3PoolState_liquidity p))
     (tget (st_Univ3PoolState (foldl handleUniv3 s' swaps)) (univ3PoolStateId c pool)) =
   (case lastAbout (\<lambda>e. ev_chainId (u3e_at e) = c \<and> same (ev_srcAddress (u3e_at e)) pool) swaps of
      None \<Rightarrow> map_option (\<lambda>p. (Univ3PoolState_sqrtPriceX96 p, Univ3PoolState_tick p,
          Univ3PoolState_liquidity p)) (tget (st_Univ3PoolState s') (univ3PoolStateId c pool))
    | Some e \<Rightarrow> Some (univ3Says e))"
  using univ2_reserves.latest_run [of s syncs "univ2PoolStateId c pool"]
    univ3_spot.latest_run [of s' swaps "univ3PoolStateId c pool"]
  by (simp add: lastAbout_def univ2PoolStateId_def univ3PoolStateId_def same_def)

text \<open>
  The rebase index follows the configured staking contract only: the index row of a
  contract that some \<open>gohm\<close> handler of the chain names holds the index of its last \<open>LogRebase\<close>,
  and events of any other contract leave the whole store unchanged.
\<close>

theorem rebase_index_follows_configured:
  "(indexTracked cfgs c a \<longrightarrow>
      map_option OhmIndexState_index
        (tget (st_OhmIndexState (foldl (applyLogRebase cfgs) s es)) (id2 c (addr a))) =
      (case lastAbout (\<lambda>e. ev_chainId e = c \<and> same (ev_srcAddress e) a) es of
         None \<Rightarrow> map_option OhmIndexState_index (tget (st_OhmIndexState s) (id2 c (addr a)))
       | Some e \<Rightarrow> Some (lr_index e)))
   \<and> (\<not> indexTracked cfgs (ev_chainId e) (ev_srcAddress e) \<longrightarrow> applyLogRebase cfgs s e = s)"
proof -
  have key: "(if indexTracked cfgs (ev_chainId e) (ev_srcAddress e)
      then Some (id2 (ev_chainId e) (addr (ev_srcAddress e))) else None) = Some (id2 c (addr a)) \<longleftrightarrow>
      ev_chainId e = c \<and> same (ev_srcAddress e) a" if "indexTracked cfgs c a" for e :: rebase_event
    using that by (auto simp: same_def indexTracked_def split: option.splits)
  have ignored: "applyLogRebase cfgs s e = s"
    if untracked: "\<not> indexTracked cfgs (ev_chainId e) (ev_srcAddress e)" for e
  proof (cases "cfgs (ev_chainId e)")
    case (Some config)
    then have "List.find (isGohmHandlerFor (addr (ev_srcAddress e))) (cc_liquidityHandlers config)
        = None"
      using untracked by (simp add: indexTracked_def find_None_iff list_ex_iff)
    with Some show ?thesis by (simp add: applyLogRebase_def Let_def)
  qed (simp add: applyLogRebase_def)
  have "map_option OhmIndexState_index
        (tget (st_OhmIndexState (foldl (applyLogRebase cfgs) s es)) (id2 c (addr a))) =
      (case lastAbout (\<lambda>e. ev_chainId e = c \<and> same (ev_srcAddress e) a) es of
         None \<Rightarrow> map_option OhmIndexState_index (tget (st_OhmIndexState s) (id2 c (addr a)))
       | Some e \<Rightarrow> Some (lr_index e))" if "indexTracked cfgs c a"
    unfolding lastAbout_def key [OF that, symmetric] by (rule ohm_index.latest_run)
  then show ?thesis using ignored by simp
qed

text \<open>
  Staking positions never go negative, and are exactly deposits minus withdrawals as long
  as no withdrawal exceeds what is there.
\<close>

theorem staking_positions_clamped:
  assumes "0 \<le> jonesAt s j" "0 \<le> treasureAt s t"
  shows "0 \<le> jonesAt (foldl handleStaking s es) j \<and> 0 \<le> treasureAt (foldl handleStaking s es) t
    \<and> ((\<forall>n \<le> length (concat (map (\<lambda>e. jonesDeltas e j) es)).
          0 \<le> jonesAt s j + sum_list (take n (concat (map (\<lambda>e. jonesDeltas e j) es)))) \<longrightarrow>
        jonesAt (foldl handleStaking s es) j =
          jonesAt s j + sum_list (concat (map (\<lambda>e. jonesDeltas e j) es)))
    \<and> ((\<forall>n \<le> length (concat (map (\<lambda>e. treasureDeltas e t) es)).
          0 \<le> treasureAt s t + sum_list (take n (concat (map (\<lambda>e. treasureDeltas e t) es)))) \<longrightarrow>
        treasureAt (foldl handleStaking s es) t =
          treasureAt s t + sum_list (concat (map (\<lambda>e. treasureDeltas e t) es)))"
  using jones_positions.total_run_nonneg [OF assms(1)] jones_positions.total_run_exact
    treasure_deposits.total_run_nonneg [OF assms(2)] treasure_deposits.total_run_exact
  by blast

section \<open>Concrete runs\<close>

definition sample_at :: event_at where
  "sample_at = \<lparr> ev_chainId = 1, ev_srcAddress = ''0xP1'', ev_logIndex = 0, ev_block = 5,
     ev_timestamp = 0 \<rparr>"

definition sample_index_configs :: configs where
  "sample_index_configs c = (if c = 1 then Some (blank_config \<lparr> cc_liquidityHandlers :=
     [Gohm ''0xP1'' [''0xg1''] ''0x64'' None] \<rparr>) else None)"

theorem rebase_index_witness:
  "map_option OhmIndexState_index (tget (st_OhmIndexState
     (foldl (applyLogRebase sample_index_configs) empty_store
        [event_at.extend sample_at (rebase_event.fields 1 2 99)])) (id2 1 ''0xp1'')) = Some 99"
proof -
  have "indexTracked sample_index_configs 1 ''0xp1''"
    by (simp add: indexTracked_def sample_index_configs_def blank_config_def isGohmHandlerFor_def
        addr_def addr_eval)
  then show ?thesis
    using rebase_index_follows_configured [of sample_index_configs 1 "''0xp1''" empty_store
      "[event_at.extend sample_at (rebase_event.fields 1 2 99)]"]
    by (simp add: lastAbout_def sample_at_def event_at.defs rebase_event.defs same_def addr_def
        addr_eval)
qed

theorem staking_positions_witness:
  "jonesAt (foldl handleStaking empty_store
     [Jones_Deposit 42161 0 ''0xA1'' 10 1, Jones_Withdraw 42161 0 ''0xa1'' 4 2])
     (jonesPositionId 42161 0 ''0xa1'') = 6"
proof -
  have a: "jonesAt empty_store j = 0" "treasureAt empty_store t = 0" for j t
    by (simp_all add: jonesAt_def treasureAt_def empty_store_def)
  have k: "jonesPositionId 42161 0 ''0xA1'' = jonesPositionId 42161 0 ''0xa1''"
    by (simp add: jonesPositionId_def addr_def addr_eval)
  have p: "\<forall>n \<le> 2. 0 \<le> sum_list (take n [10, - 4 :: int])"
    by (simp add: le_Suc_eq numeral_2_eq_2 numeral_eq_Suc)
  show ?thesis
    using staking_positions_clamped [of empty_store "jonesPositionId 42161 0 ''0xa1''" "''''"
      "[Jones_Deposit 42161 0 ''0xA1'' 10 1, Jones_Withdraw 42161 0 ''0xa1'' 4 2]"] p
    by (simp add: a k)
qed

end
