(* ===== verification/Balancer_Events.thy ===== *)
theory Balancer_Events
  imports Pool_Events
begin

text \<open>
  Balancer pool balances (\<open>handlers/BalancerPools.ts\<close>). The seed read of the vault is the
  parameter \<open>seedPool\<close> (chain, vault, pool id, block). Adding to an array entry that does not
  exist mixes a bigint with \<open>undefined\<close>, which throws: the handlers return \<open>None\<close> there.
\<close>

section \<open>Handlers\<close>

definition setBalancerPoolBoth :: "BalancerPoolState \<Rightarrow> event_meta \<Rightarrow> store \<Rightarrow> store" where
  "setBalancerPoolBoth state meta s =
     (let updateId = id4 (BalancerPoolState_chainId state) (BalancerPoolState_poolId state)
            (em_block meta) (em_logIndex meta)
      in s \<lparr> st_BalancerPoolUpdate := tset updateId
               \<lparr> BalancerPoolUpdate_id = updateId,
                 BalancerPoolUpdate_chainId = BalancerPoolState_chainId state,
                 BalancerPoolUpdate_poolId = BalancerPoolState_poolId state,
                 BalancerPoolUpdate_tokens = BalancerPoolState_tokens state,
                 BalancerPoolUpdate_balances = BalancerPoolState_balances state,
                 BalancerPoolUpdate_block = em_block meta,
                 BalancerPoolUpdate_timestamp = em_timestamp meta \<rparr> (st_BalancerPoolUpdate s),
             st_BalancerPoolState := tset (BalancerPoolState_id state) state
               (st_BalancerPoolState s) \<rparr>)"

definition poolIdsForChain :: "configs \<Rightarrow> nat \<Rightarrow> string list" where
  "poolIdsForChain cfgs chainId = (case cfgs chainId of None \<Rightarrow> []
     | Some config \<Rightarrow> map lh_id (filter is_Balancer (cc_liquidityHandlers config)))"

definition buildBalancerPoolIdWhere :: "configs \<Rightarrow> nat \<Rightarrow> event_filter" where
  "buildBalancerPoolIdWhere cfgs chain = (let poolIds = poolIdsForChain cfgs chain in
     if poolIds = [] then None else Some [(''poolId'', poolIds)])"

definition balancerPoolStateId :: "nat \<Rightarrow> string \<Rightarrow> string" where
  "balancerPoolStateId chainId poolId = id2 chainId (toLowerCase poolId)"

type_synonym pool_seeder = "nat \<Rightarrow> string \<Rightarrow> string \<Rightarrow> nat \<Rightarrow> string list \<times> int list"

definition ensurePoolState :: "pool_seeder \<Rightarrow> nat \<Rightarrow> string \<Rightarrow> string \<Rightarrow> event_meta \<Rightarrow> store \<Rightarrow>
    (BalancerPoolState \<times> bool) \<times> store" where
  "ensurePoolState seedPool chainId vault poolId meta s =
     (let key = balancerPoolStateId chainId poolId in
      case tget (st_BalancerPoolState s) key of
        Some existing \<Rightarrow> ((existing, False), s)
      | None \<Rightarrow>
          (let (tokens, balances) =
                 seedPool chainId (addr vault) (toLowerCase poolId) (em_block meta);
               state = \<lparr> BalancerPoolState_id = key, BalancerPoolState_chainId = chainId,
                 BalancerPoolState_poolId = toLowerCase poolId,
                 BalancerPoolState_tokens = tokens, BalancerPoolState_balances = balances,
                 BalancerPoolState_updatedAtBlock = em_block meta \<rparr>
           in ((state, True), setBalancerPoolBoth state meta s)))"

fun findIndex :: "('a \<Rightarrow> bool) \<Rightarrow> 'a list \<Rightarrow> nat option" where
  "findIndex P [] = None"
| "findIndex P (x # xs) = (if P x then Some 0 else map_option Suc (findIndex P xs))"

definition indexOfToken :: "string list \<Rightarrow> string \<Rightarrow> nat option" where
  "indexOfToken tokens target =
     (let lower = toLowerCase target in findIndex (\<lambda>value. toLowerCase value = lower) tokens)"

record registered_event = event_at +
  tr_poolId :: string
  tr_tokens :: "string list"

record balance_changed_event = event_at +
  pb_poolId :: string
  pb_tokens :: "string list"
  pb_deltas :: "int list"
  pb_fees :: "int list"

record swap_event = event_at +
  sw_poolId :: string
  sw_tokenIn :: string
  sw_tokenOut :: string
  sw_amountIn :: int
  sw_amountOut :: int

definition eventMeta :: "('x) event_at_scheme \<Rightarrow> event_meta" where
  "eventMeta e =
     \<lparr> em_block = ev_block e, em_timestamp = ev_timestamp e, em_logIndex = ev_logIndex e \<rparr>"

definition handleTokensRegistered :: "registered_event \<Rightarrow> store \<Rightarrow> store option" where
  "handleTokensRegistered e s =
     (let poolId = toLowerCase (tr_poolId e);
          tokens = map addr (tr_tokens e);
          key = balancerPoolStateId (ev_chainId e) poolId
      in case tget (st_BalancerPoolState s) key of
           Some _ \<Rightarrow> Some s
         | None \<Rightarrow> Some (setBalancerPoolBoth
             \<lparr> BalancerPoolState_id = key, BalancerPoolState_chainId = ev_chainId e,
               BalancerPoolState_poolId = poolId, BalancerPoolState_tokens = tokens,
               BalancerPoolState_balances = map (\<lambda>_. 0) tokens,
               BalancerPoolState_updatedAtBlock = ev_block e \<rparr> (eventMeta e) s))"

text \<open>The loop \<open>balances[idx] = balances[idx] + deltas[i] - fees[i]\<close> over the event's tokens;
  \<open>i\<close> counts from the event's first token.\<close>

fun applyDeltas :: "string list \<Rightarrow> string list \<Rightarrow> nat \<Rightarrow> int list \<Rightarrow> int list \<Rightarrow> int list \<Rightarrow>
    int list option" where
  "applyDeltas poolTokens [] i deltas fees balances = Some balances"
| "applyDeltas poolTokens (t # ts) i deltas fees balances =
     (case indexOfToken poolTokens t of
        None \<Rightarrow> applyDeltas poolTokens ts (i + 1) deltas fees balances
      | Some idx \<Rightarrow>
          if idx < length balances \<and> i < length deltas \<and> i < length fees
          then applyDeltas poolTokens ts (i + 1) deltas fees
            (balances[idx := balances ! idx + deltas ! i - fees ! i])
          else None)"

definition handlePoolBalanceChanged ::
  "pool_seeder \<Rightarrow> balance_changed_event \<Rightarrow> store \<Rightarrow> store option" where
  "handlePoolBalanceChanged seedPool e s0 =
     (let ((state, isSeed), s) =
        ensurePoolState seedPool (ev_chainId e) (ev_srcAddress e) (pb_poolId e) (eventMeta e) s0
      in if isSeed then Some s
         else (case applyDeltas (BalancerPoolState_tokens state) (pb_tokens e) 0 (pb_deltas e)
             (pb_fees e) (BalancerPoolState_balances state) of
               None \<Rightarrow> None
             | Some balances \<Rightarrow> Some (setBalancerPoolBoth
                 (state \<lparr> BalancerPoolState_balances := balances,
                    BalancerPoolState_updatedAtBlock := ev_block e \<rparr>) (eventMeta e) s)))"

definition handleSwap :: "pool_seeder \<Rightarrow> swap_event \<Rightarrow> store \<Rightarrow> store option" where
  "handleSwap seedPool e s0 =
     (let ((state, isSeed), s) =
        ensurePoolState seedPool (ev_chainId e) (ev_srcAddress e) (sw_poolId e) (eventMeta e) s0
      in if isSeed then Some s
         else (case (indexOfToken (BalancerPoolState_tokens state) (sw_tokenIn e),
                     indexOfToken (BalancerPoolState_tokens state) (sw_tokenOut e)) of
             (Some idxIn, Some idxOut) \<Rightarrow>
               (let b0 = BalancerPoolState_balances state in
                if idxIn < length b0 \<and> idxOut < length b0
                then (let b1 = b0[idxIn := b0 ! idxIn + sw_amountIn e];
                          b2 = b1[idxOut := b1 ! idxOut - sw_amountOut e]
                      in Some (setBalancerPoolBoth
                        (state \<lparr> BalancerPoolState_balances := b2,
                           BalancerPoolState_updatedAtBlock := ev_block e \<rparr>) (eventMeta e) s))
                else None)
           | _ \<Rightarrow> Some s))"

datatype balancer_event =
  TokensRegistered registered_event
| PoolBalanceChanged balance_changed_event
| Balancer_Swap swap_event

fun handleBalancer :: "pool_seeder \<Rightarrow> store \<Rightarrow> balancer_event \<Rightarrow> store option" where
  "handleBalancer seedPool s (TokensRegistered e) = handleTokensRegistered e s"
| "handleBalancer seedPool s (PoolBalanceChanged e) = handlePoolBalanceChanged seedPool e s"
| "handleBalancer seedPool s (Balancer_Swap e) = handleSwap seedPool e s"

fun runBalancer :: "pool_seeder \<Rightarrow> store \<Rightarrow> balancer_event list \<Rightarrow> store option" where
  "runBalancer seedPool s [] = Some s"
| "runBalancer seedPool s (e # es) =
     (case handleBalancer seedPool s e of None \<Rightarrow> None | Some s' \<Rightarrow> runBalancer seedPool s' es)"

section \<open>Arrays stay parallel\<close>

definition parallelPools :: "store \<Rightarrow> bool" where
  "parallelPools s \<longleftrightarrow> (\<forall>k p. tget (st_BalancerPoolState s) k = Some p \<longrightarrow>
     BalancerPoolState_id p = k \<and>
     length (BalancerPoolState_tokens p) = length (BalancerPoolState_balances p))"

definition parallelSeeds :: "pool_seeder \<Rightarrow> bool" where
  "parallelSeeds seedPool \<longleftrightarrow> (\<forall>c v p b. length (fst (seedPool c v p b)) = length (snd (seedPool c v p b)))"

fun parallelEvent :: "balancer_event \<Rightarrow> bool" where
  "parallelEvent (PoolBalanceChanged e) \<longleftrightarrow>
     length (pb_deltas e) = length (pb_tokens e) \<and> length (pb_fees e) = length (pb_tokens e)"
| "parallelEvent _ \<longleftrightarrow> True"

lemma findIndex_Some: "findIndex P xs = Some i \<Longrightarrow> i < length xs \<and> P (xs ! i)"
  by (induction xs arbitrary: i) (auto split: if_splits)

lemma indexOfToken_less: "indexOfToken ts t = Some i \<Longrightarrow> i < length ts"
  by (auto simp: indexOfToken_def Let_def dest: findIndex_Some)

text \<open>What the loop adds to the entry \<open>j\<close>.\<close>

fun deltaFor :: "string list \<Rightarrow> nat \<Rightarrow> string list \<Rightarrow> nat \<Rightarrow> int list \<Rightarrow> int list \<Rightarrow> int" where
  "deltaFor poolTokens j [] i deltas fees = 0"
| "deltaFor poolTokens j (t # ts) i deltas fees =
     (if indexOfToken poolTokens t = Some j then deltas ! i - fees ! i else 0) +
     deltaFor poolTokens j ts (i + 1) deltas fees"

lemma applyDeltas_total:
  assumes "length balances = length poolTokens" "i + length ts \<le> length deltas"
    "i + length ts \<le> length fees"
  shows "\<exists>b. applyDeltas poolTokens ts i deltas fees balances = Some b \<and> length b = length balances
    \<and> (\<forall>j < length balances. b ! j = balances ! j + deltaFor poolTokens j ts i deltas fees)"
  using assms
proof (induction ts arbitrary: i balances)
  case (Cons t ts)
  show ?case
  proof (cases "indexOfToken poolTokens t")
    case None
    then show ?thesis using Cons.IH [of balances "i + 1"] Cons.prems by simp
  next
    case (Some idx)
    let ?b = "balances[idx := balances ! idx + deltas ! i - fees ! i]"
    have idx: "idx < length balances" using indexOfToken_less [OF Some] Cons.prems(1) by simp
    have "\<exists>b. applyDeltas poolTokens ts (i + 1) deltas fees ?b = Some b \<and> length b = length ?b
        \<and> (\<forall>j < length ?b. b ! j = ?b ! j + deltaFor poolTokens j ts (i + 1) deltas fees)"
      using Cons.prems by (intro Cons.IH) simp_all
    then show ?thesis using Some idx Cons.prems by (auto simp: nth_list_update)
  qed
qed simp

lemma setBalancerPoolBoth_get [store_simps]:
  "tget (st_BalancerPoolState (setBalancerPoolBoth p m s)) k =
     (if k = BalancerPoolState_id p then Some p else tget (st_BalancerPoolState s) k)"
  by (simp add: setBalancerPoolBoth_def Let_def)

lemma parallelPools_set:
  "parallelPools s \<Longrightarrow> length (BalancerPoolState_tokens p) = length (BalancerPoolState_balances p) \<Longrightarrow>
     parallelPools (setBalancerPoolBoth p m s)"
  by (simp add: parallelPools_def store_simps)

lemma ensurePoolState_cases:
  assumes "ensurePoolState seedPool c v pid m s = ((p, isSeed), s')"
  shows "(isSeed = False \<and> s' = s \<and> tget (st_BalancerPoolState s) (balancerPoolStateId c pid) = Some p) \<or>
    (isSeed = True \<and> tget (st_BalancerPoolState s) (balancerPoolStateId c pid) = None
      \<and> s' = setBalancerPoolBoth p m s \<and> BalancerPoolState_id p = balancerPoolStateId c pid
      \<and> (BalancerPoolState_tokens p, BalancerPoolState_balances p) =
          seedPool c (addr v) (toLowerCase pid) (em_block m))"
  using assms by (auto simp: ensurePoolState_def Let_def split: option.splits prod.splits)

text \<open>The movement an event makes on the entry \<open>j\<close> of a known pool.\<close>

definition samePool :: "nat \<Rightarrow> string \<Rightarrow> nat \<Rightarrow> string \<Rightarrow> bool" where
  "samePool c pid c' pid' \<longleftrightarrow> c' = c \<and> toLowerCase pid' = toLowerCase pid"

lemma samePool_id: "balancerPoolStateId c' pid' = balancerPoolStateId c pid \<longleftrightarrow> samePool c pid c' pid'"
  by (simp add: balancerPoolStateId_def samePool_def)

definition swapEffect :: "string list \<Rightarrow> nat \<Rightarrow> swap_event \<Rightarrow> int" where
  "swapEffect tokens j e =
     (case (indexOfToken tokens (sw_tokenIn e), indexOfToken tokens (sw_tokenOut e)) of
        (Some a, Some b) \<Rightarrow> (if a = j then sw_amountIn e else 0) - (if b = j then sw_amountOut e else 0)
      | _ \<Rightarrow> 0)"

fun poolEffect :: "nat \<Rightarrow> string \<Rightarrow> string list \<Rightarrow> nat \<Rightarrow> balancer_event \<Rightarrow> int" where
  "poolEffect c pid tokens j (TokensRegistered e) = 0"
| "poolEffect c pid tokens j (PoolBalanceChanged e) =
     (if samePool c pid (ev_chainId e) (pb_poolId e)
      then deltaFor tokens j (pb_tokens e) 0 (pb_deltas e) (pb_fees e) else 0)"
| "poolEffect c pid tokens j (Balancer_Swap e) =
     (if samePool c pid (ev_chainId e) (sw_poolId e) then swapEffect tokens j e else 0)"

definition poolView :: "store \<Rightarrow> nat \<Rightarrow> string \<Rightarrow> (string list \<times> int list) option" where
  "poolView s c pid = map_option (\<lambda>p. (BalancerPoolState_tokens p, BalancerPoolState_balances p))
     (tget (st_BalancerPoolState s) (balancerPoolStateId c pid))"

lemma poolView_set:
  "poolView (setBalancerPoolBoth p m s) c pid =
     (if BalancerPoolState_id p = balancerPoolStateId c pid
      then Some (BalancerPoolState_tokens p, BalancerPoolState_balances p) else poolView s c pid)"
  by (auto simp: poolView_def store_simps)

text \<open>One event on a store with parallel arrays: it never throws, keeps the arrays parallel,
  and moves each entry of each known pool by its effect.\<close>

definition goodStep :: "store \<Rightarrow> balancer_event \<Rightarrow> store option \<Rightarrow> bool" where
  "goodStep s ev r \<longleftrightarrow> (\<exists>s'. r = Some s' \<and> parallelPools s' \<and>
     (\<forall>c pid tokens balances. poolView s c pid = Some (tokens, balances) \<longrightarrow>
        (\<exists>b. poolView s' c pid = Some (tokens, b) \<and> length b = length balances \<and>
           (\<forall>j < length balances. b ! j = balances ! j + poolEffect c pid tokens j ev))))"

lemma goodStep_unchanged:
  assumes "parallelPools s" "\<forall>c pid tokens balances. poolView s c pid = Some (tokens, balances) \<longrightarrow>
    (\<forall>j < length balances. poolEffect c pid tokens j ev = 0)"
  shows "goodStep s ev (Some s)"
  using assms by (auto simp: goodStep_def)

lemma goodStep_new:
  assumes "parallelPools s" "tget (st_BalancerPoolState s) (BalancerPoolState_id p) = None"
    and "length (BalancerPoolState_tokens p) = length (BalancerPoolState_balances p)"
    and "\<forall>c pid tokens balances. poolView s c pid = Some (tokens, balances) \<longrightarrow>
      (\<forall>j < length balances. poolEffect c pid tokens j ev = 0)"
  shows "goodStep s ev (Some (setBalancerPoolBoth p m s))"
proof -
  have "poolView (setBalancerPoolBoth p m s) c pid = poolView s c pid"
    if "poolView s c pid \<noteq> None" for c pid
    using that assms(2) by (auto simp: poolView_set) (simp_all add: poolView_def)
  then show ?thesis using assms parallelPools_set by (fastforce simp: goodStep_def)
qed

lemma goodStep_update:
  assumes "parallelPools s" "poolView s c pid = Some (tokens, balances)"
    and p: "BalancerPoolState_id p = balancerPoolStateId c pid" "BalancerPoolState_tokens p = tokens"
      "BalancerPoolState_balances p = b" "length b = length balances"
    and eff: "\<forall>j < length balances. b ! j = balances ! j + poolEffect c pid tokens j ev"
    and only: "\<And>c' pid' ts j. \<not> samePool c pid c' pid' \<Longrightarrow> poolEffect c' pid' ts j ev = 0"
    and cong: "\<And>c' pid' ts j. samePool c pid c' pid' \<Longrightarrow>
      poolEffect c' pid' ts j ev = poolEffect c pid ts j ev"
  shows "goodStep s ev (Some (setBalancerPoolBoth p m s))"
proof -
  have len: "length tokens = length balances"
    using assms(1,2) by (auto simp: parallelPools_def poolView_def)
  have "parallelPools (setBalancerPoolBoth p m s)"
    using assms(1) p len by (intro parallelPools_set) simp_all
  moreover have "\<exists>b'. poolView (setBalancerPoolBoth p m s) c' pid' = Some (ts, b') \<and> length b' = length bs
      \<and> (\<forall>j < length bs. b' ! j = bs ! j + poolEffect c' pid' ts j ev)"
    if view: "poolView s c' pid' = Some (ts, bs)" for c' pid' ts bs
  proof (cases "samePool c pid c' pid'")
    case True
    then have key: "balancerPoolStateId c' pid' = balancerPoolStateId c pid" by (simp add: samePool_id)
    then have "ts = tokens" "bs = balances" using view assms(2) by (auto simp: poolView_def)
    then show ?thesis using key p eff cong [OF True] by (simp add: poolView_set)
  next
    case False
    then have "balancerPoolStateId c' pid' \<noteq> balancerPoolStateId c pid" by (simp add: samePool_id)
    then show ?thesis using view p only [OF False] by (simp add: poolView_set)
  qed
  ultimately show ?thesis by (auto simp: goodStep_def)
qed

lemma samePool_cong: "samePool c pid c' pid' \<Longrightarrow> samePool c' pid' x y = samePool c pid x y"
  by (auto simp: samePool_def)

lemma poolView_of_state:
  "tget (st_BalancerPoolState s) (balancerPoolStateId c pid) = Some p \<Longrightarrow>
     poolView s c pid = Some (BalancerPoolState_tokens p, BalancerPoolState_balances p)"
  by (simp add: poolView_def)

lemma poolView_fresh_effect:
  assumes "tget (st_BalancerPoolState s) (balancerPoolStateId c pid) = None"
    "poolView s c' pid' = Some v"
  shows "\<not> samePool c pid c' pid'" "\<not> samePool c' pid' c pid"
  using assms by (auto simp: poolView_def simp flip: samePool_id)

lemma parallelPools_len:
  assumes "parallelPools s" "tget (st_BalancerPoolState s) k = Some p"
  shows "BalancerPoolState_id p = k"
    "length (BalancerPoolState_balances p) = length (BalancerPoolState_tokens p)"
  using assms by (simp_all add: parallelPools_def)

lemma handleTokensRegistered_good:
  assumes "parallelPools s"
  shows "goodStep s (TokensRegistered e) (handleTokensRegistered e s)"
proof (cases "tget (st_BalancerPoolState s) (balancerPoolStateId (ev_chainId e) (toLowerCase (tr_poolId e)))")
  case None
  then show ?thesis using assms
    by (auto simp: handleTokensRegistered_def Let_def intro: goodStep_new)
next
  case (Some p)
  then show ?thesis using assms
    by (auto simp: handleTokensRegistered_def Let_def intro: goodStep_unchanged)
qed

lemma handlePoolBalanceChanged_good:
  assumes "parallelPools s" "parallelSeeds seedPool" "parallelEvent (PoolBalanceChanged e)"
  shows "goodStep s (PoolBalanceChanged e) (handlePoolBalanceChanged seedPool e s)"
proof -
  obtain p isSeed s' where en: "ensurePoolState seedPool (ev_chainId e) (ev_srcAddress e) (pb_poolId e)
      (eventMeta e) s = ((p, isSeed), s')" by (metis prod.collapse)
  from ensurePoolState_cases [OF en] show ?thesis
  proof
    assume known: "isSeed = False \<and> s' = s \<and>
      tget (st_BalancerPoolState s) (balancerPoolStateId (ev_chainId e) (pb_poolId e)) = Some p"
    note len = parallelPools_len [OF assms(1) known [THEN conjunct2, THEN conjunct2]]
    have "\<exists>b. applyDeltas (BalancerPoolState_tokens p) (pb_tokens e) 0 (pb_deltas e) (pb_fees e)
        (BalancerPoolState_balances p) = Some b \<and> length b = length (BalancerPoolState_balances p)
      \<and> (\<forall>j < length (BalancerPoolState_balances p). b ! j = BalancerPoolState_balances p ! j +
          deltaFor (BalancerPoolState_tokens p) j (pb_tokens e) 0 (pb_deltas e) (pb_fees e))"
      using len assms(3) by (intro applyDeltas_total) simp_all
    then obtain b where b: "applyDeltas (BalancerPoolState_tokens p) (pb_tokens e) 0 (pb_deltas e)
        (pb_fees e) (BalancerPoolState_balances p) = Some b"
      "length b = length (BalancerPoolState_balances p)"
      "\<forall>j < length (BalancerPoolState_balances p). b ! j = BalancerPoolState_balances p ! j +
          deltaFor (BalancerPoolState_tokens p) j (pb_tokens e) 0 (pb_deltas e) (pb_fees e)"
      by blast
    have "goodStep s (PoolBalanceChanged e) (Some (setBalancerPoolBoth
        (p \<lparr> BalancerPoolState_balances := b, BalancerPoolState_updatedAtBlock := ev_block e \<rparr>)
        (eventMeta e) s))"
      by (rule goodStep_update [OF assms(1)
            poolView_of_state [OF known [THEN conjunct2, THEN conjunct2]], where b = b])
        (use known b len in \<open>auto simp: samePool_cong samePool_def\<close>)
    then show ?thesis using known b by (simp add: handlePoolBalanceChanged_def en)
  next
    assume new: "isSeed = True \<and>
      tget (st_BalancerPoolState s) (balancerPoolStateId (ev_chainId e) (pb_poolId e)) = None
      \<and> s' = setBalancerPoolBoth p (eventMeta e) s
      \<and> BalancerPoolState_id p = balancerPoolStateId (ev_chainId e) (pb_poolId e)
      \<and> (BalancerPoolState_tokens p, BalancerPoolState_balances p) = seedPool (ev_chainId e)
          (addr (ev_srcAddress e)) (toLowerCase (pb_poolId e)) (em_block (eventMeta e))"
    then have "length (BalancerPoolState_tokens p) = length (BalancerPoolState_balances p)"
      using assms(2) by (metis fst_conv parallelSeeds_def snd_conv)
    then have "goodStep s (PoolBalanceChanged e) (Some s')"
      using new assms(1) poolView_fresh_effect(2) [of s "ev_chainId e" "pb_poolId e"]
      by (auto intro!: goodStep_new)
    then show ?thesis using new by (simp add: handlePoolBalanceChanged_def en)
  qed
qed

lemma handleSwap_good:
  assumes "parallelPools s" "parallelSeeds seedPool"
  shows "goodStep s (Balancer_Swap e) (handleSwap seedPool e s)"
proof -
  obtain p isSeed s' where en: "ensurePoolState seedPool (ev_chainId e) (ev_srcAddress e) (sw_poolId e)
      (eventMeta e) s = ((p, isSeed), s')" by (metis prod.collapse)
  from ensurePoolState_cases [OF en] show ?thesis
  proof
    assume known: "isSeed = False \<and> s' = s \<and>
      tget (st_BalancerPoolState s) (balancerPoolStateId (ev_chainId e) (sw_poolId e)) = Some p"
    note len = parallelPools_len [OF assms(1) known [THEN conjunct2, THEN conjunct2]]
    note view = poolView_of_state [OF known [THEN conjunct2, THEN conjunct2]]
    show ?thesis
    proof (cases "\<exists>a b. indexOfToken (BalancerPoolState_tokens p) (sw_tokenIn e) = Some a \<and>
        indexOfToken (BalancerPoolState_tokens p) (sw_tokenOut e) = Some b")
      case True
      then obtain a b where ab: "indexOfToken (BalancerPoolState_tokens p) (sw_tokenIn e) = Some a"
        "indexOfToken (BalancerPoolState_tokens p) (sw_tokenOut e) = Some b" by blast
      then have less: "a < length (BalancerPoolState_balances p)" "b < length (BalancerPoolState_balances p)"
        using indexOfToken_less len by force+
      let ?b1 = "(BalancerPoolState_balances p)[a := BalancerPoolState_balances p ! a + sw_amountIn e]"
      let ?b2 = "?b1[b := ?b1 ! b - sw_amountOut e]"
      have "goodStep s (Balancer_Swap e) (Some (setBalancerPoolBoth
          (p \<lparr> BalancerPoolState_balances := ?b2, BalancerPoolState_updatedAtBlock := ev_block e \<rparr>)
          (eventMeta e) s))"
        by (rule goodStep_update [OF assms(1) view, where b = "?b2"])
          (use ab less len in \<open>auto simp: samePool_cong samePool_def swapEffect_def nth_list_update\<close>)
      then show ?thesis using known ab less by (simp add: handleSwap_def en Let_def)
    next
      case False
      have "poolEffect c pid tokens j (Balancer_Swap e) = 0"
        if "poolView s c pid = Some (tokens, balances)" for c pid tokens balances j
      proof (cases "samePool c pid (ev_chainId e) (sw_poolId e)")
        case True
        then have "balancerPoolStateId c pid = balancerPoolStateId (ev_chainId e) (sw_poolId e)"
          by (simp add: samePool_id flip: samePool_id)
        then have "tokens = BalancerPoolState_tokens p" using that view by (auto simp: poolView_def)
        then show ?thesis using False by (auto simp: swapEffect_def split: option.splits)
      qed simp
      then have "goodStep s (Balancer_Swap e) (Some s)"
        by (intro goodStep_unchanged [OF assms(1)]) blast
      then show ?thesis using known False by (auto simp: handleSwap_def en Let_def split: option.splits)
    qed
  next
    assume new: "isSeed = True \<and>
      tget (st_BalancerPoolState s) (balancerPoolStateId (ev_chainId e) (sw_poolId e)) = None
      \<and> s' = setBalancerPoolBoth p (eventMeta e) s
      \<and> BalancerPoolState_id p = balancerPoolStateId (ev_chainId e) (sw_poolId e)
      \<and> (BalancerPoolState_tokens p, BalancerPoolState_balances p) = seedPool (ev_chainId e)
          (addr (ev_srcAddress e)) (toLowerCase (sw_poolId e)) (em_block (eventMeta e))"
    then have "length (BalancerPoolState_tokens p) = length (BalancerPoolState_balances p)"
      using assms(2) by (metis fst_conv parallelSeeds_def snd_conv)
    then have "goodStep s (Balancer_Swap e) (Some s')"
      using new assms(1) poolView_fresh_effect(2) [of s "ev_chainId e" "sw_poolId e"]
      by (auto intro!: goodStep_new)
    then show ?thesis using new by (simp add: handleSwap_def en)
  qed
qed

lemma handleBalancer_good:
  assumes "parallelPools s" "parallelSeeds seedPool" "parallelEvent ev"
  shows "goodStep s ev (handleBalancer seedPool s ev)"
  using assms handleTokensRegistered_good handlePoolBalanceChanged_good handleSwap_good
  by (cases ev) simp_all

section \<open>Properties\<close>

text \<open>
  C13: no run of vault events ever throws, and the two arrays of every pool row stay parallel,
  as long as the chain hands out parallel arrays (the vault read and the event arguments). A
  known pool keeps its token order, and each balance moves by exactly its deltas minus protocol
  fees, plus amounts swapped in, minus amounts swapped out, whatever happens to other pools.
\<close>

theorem balancer_run:
  assumes "parallelPools s" "parallelSeeds seedPool" "\<forall>ev \<in> set es. parallelEvent ev"
  shows "\<exists>s'. runBalancer seedPool s es = Some s' \<and> parallelPools s'
    \<and> (\<forall>c pid tokens balances. poolView s c pid = Some (tokens, balances) \<longrightarrow>
        (\<exists>b. poolView s' c pid = Some (tokens, b) \<and> length b = length balances \<and>
          (\<forall>j < length balances.
             b ! j = balances ! j + (\<Sum>ev\<leftarrow>es. poolEffect c pid tokens j ev))))"
  using assms(1,3)
proof (induction es arbitrary: s)
  case (Cons ev es)
  obtain s1 where s1: "handleBalancer seedPool s ev = Some s1" "parallelPools s1"
    "\<And>c pid tokens balances. poolView s c pid = Some (tokens, balances) \<Longrightarrow>
        \<exists>b. poolView s1 c pid = Some (tokens, b) \<and> length b = length balances \<and>
           (\<forall>j < length balances. b ! j = balances ! j + poolEffect c pid tokens j ev)"
    using handleBalancer_good [OF Cons.prems(1) assms(2), of ev] Cons.prems(2)
    unfolding goodStep_def by auto
  obtain s' where s': "runBalancer seedPool s1 es = Some s'" "parallelPools s'"
    "\<And>c pid tokens balances. poolView s1 c pid = Some (tokens, balances) \<Longrightarrow>
        \<exists>b. poolView s' c pid = Some (tokens, b) \<and> length b = length balances \<and>
          (\<forall>j < length balances. b ! j = balances ! j + (\<Sum>ev\<leftarrow>es. poolEffect c pid tokens j ev))"
    using Cons.IH [OF s1(2)] Cons.prems(2) by auto
  have "\<exists>b. poolView s' c pid = Some (tokens, b) \<and> length b = length balances \<and>
      (\<forall>j < length balances. b ! j = balances ! j + (\<Sum>ev\<leftarrow>ev # es. poolEffect c pid tokens j ev))"
    if view: "poolView s c pid = Some (tokens, balances)" for c pid tokens balances
  proof -
    obtain b1 where b1: "poolView s1 c pid = Some (tokens, b1)" "length b1 = length balances"
      "\<forall>j < length balances. b1 ! j = balances ! j + poolEffect c pid tokens j ev"
      using s1(3) [OF view] by blast
    then show ?thesis using s'(3) [OF b1(1)] by (auto simp: add.assoc)
  qed
  then show ?case using s1 s' by simp
qed auto


section \<open>Concrete runs\<close>

definition sample_seed :: pool_seeder where
  "sample_seed c v p b = ([''0xt1'', ''0xt2''], [100, 200])"

definition sample_change :: "int list \<Rightarrow> balance_changed_event" where
  "sample_change ds = event_at.extend sample_at
     (balance_changed_event.fields ''0xpool'' [''0xT1'', ''0xT2''] ds [1, 0])"

lemma sample_parallel: "parallelPools empty_store" "parallelSeeds sample_seed"
  by (simp_all add: parallelPools_def parallelSeeds_def empty_store_def sample_seed_def)

theorem balancer_run_witness:
  "\<exists>s'. runBalancer sample_seed empty_store
     [PoolBalanceChanged (sample_change [5, 7]), PoolBalanceChanged (sample_change [5, - 7])] = Some s'
   \<and> parallelPools s'"
  using balancer_run [OF sample_parallel, of "[PoolBalanceChanged (sample_change [5, 7]),
    PoolBalanceChanged (sample_change [5, - 7])]"]
  by (auto simp: sample_change_def event_at.defs balance_changed_event.defs)


end
