(* ===== verification/Pricing_Monad.thy ===== *)
theory Pricing_Monad
  imports Entities
begin

text \<open>
  The computations of the pricing code: they may throw, they share the cache of
  \<open>withPricingCache\<close> when one is open, and, because pools price each other recursively, they may
  fail to return. A computation maps the cache (or none) to a thrown message or a value and the
  cache left behind; \<open>None\<close> is running out of fuel. Awaits are sequential: every caller awaits
  each lookup before the next one, so the shared promise of the code is its settled value.
\<close>

section \<open>Results and the cache\<close>

record price_result =
  pr_price :: bignumber
  pr_liquidity :: bignumber

definition ZERO_RESULT :: price_result where
  "ZERO_RESULT = \<lparr> pr_price = ZERO, pr_liquidity = ZERO \<rparr>"

text \<open>
  The cache keys: \<open>JSON.stringify\<close> of an array of numbers, strings and nulls, all strings in
  lower case. Different arrays print differently, so a key is the array itself.
\<close>

datatype cache_key =
  Price_Key nat nat string "string option"
| TotalValue_Key nat nat string string "string list"
| UnitPrice_Key nat nat string string

datatype cached = CPrice price_result | CValue "bignumber option"

record pricing_store =
  ps_cache :: "cache_key \<rightharpoonup> cached"
  ps_inFlight :: "cache_key set"

type_synonym pstate = "pricing_store option"

type_synonym 'a pm = "pstate \<Rightarrow> ((string + 'a) \<times> pstate) option"

section \<open>Sequencing\<close>

definition preturn :: "'a \<Rightarrow> 'a pm" where
  "preturn x s = Some (Inr x, s)"

definition praise :: "string \<Rightarrow> 'a pm" where
  "praise e s = Some (Inl e, s)"

definition pbind :: "'a pm \<Rightarrow> ('a \<Rightarrow> 'b pm) \<Rightarrow> 'b pm" where
  "pbind m f s = (case m s of None \<Rightarrow> None
     | Some (Inl e, s') \<Rightarrow> Some (Inl e, s')
     | Some (Inr x, s') \<Rightarrow> f x s')"

definition pread :: "string + 'a \<Rightarrow> 'a pm" where
  "pread r = (case r of Inl e \<Rightarrow> praise e | Inr x \<Rightarrow> preturn x)"

text \<open>\<open>xs[i]\<close> used as a number: past the end it is \<open>undefined\<close> and the arithmetic throws.\<close>

definition pnth :: "'a list \<Rightarrow> nat \<Rightarrow> 'a pm" where
  "pnth xs i = (if i < length xs then preturn (xs ! i) else praise ''TypeError'')"

lemma pbind_simps [simp]:
  "pbind (preturn x) f = f x" "pbind (praise e) f = praise e"
  by (simp_all add: fun_eq_iff pbind_def preturn_def praise_def)

lemma pbind_assoc: "pbind (pbind m f) g = pbind m (\<lambda>x. pbind (f x) g)"
  by (simp add: fun_eq_iff pbind_def split: option.split sum.split prod.split)

lemma pbind_return [simp]: "pbind m preturn = m"
  by (simp add: fun_eq_iff pbind_def preturn_def split: option.split sum.split prod.split)

lemma pread_simps [simp]: "pread (Inr x) = preturn x" "pread (Inl e) = praise e"
  by (simp_all add: pread_def)

section \<open>The memoised lookup\<close>

text \<open>The case of a lookup that ends with no cache open cannot arise: no computation closes the
  cache it was started with.\<close>

text \<open>\<open>withPricingCache\<close> opens an empty cache for an operation; the cache is dropped at its end.\<close>

definition withPricingCache :: "'a pm \<Rightarrow> 'a pm" where
  "withPricingCache operation s = (case operation (Some \<lparr> ps_cache = Map.empty, ps_inFlight = {} \<rparr>) of
     None \<Rightarrow> None | Some (r, _) \<Rightarrow> Some (r, s))"

definition cachedPricingLookup :: "cache_key \<Rightarrow> ('a \<Rightarrow> cached) \<Rightarrow> (cached \<Rightarrow> 'a) \<Rightarrow> 'a pm \<Rightarrow> 'a \<Rightarrow> 'a pm" where
  "cachedPricingLookup key inject project lookup cycleFallback s =
     (case s of
        None \<Rightarrow> lookup None
      | Some st \<Rightarrow>
          if key \<in> ps_inFlight st then Some (Inr cycleFallback, s)
          else (case ps_cache st key of
              Some v \<Rightarrow> Some (Inr (project v), s)
            | None \<Rightarrow>
                (case lookup (Some (st \<lparr> ps_inFlight := insert key (ps_inFlight st) \<rparr>)) of
                   None \<Rightarrow> None
                 | Some (_, None) \<Rightarrow> None
                 | Some (Inl e, Some st') \<Rightarrow>
                     Some (Inl e, Some (st' \<lparr> ps_cache := (ps_cache st')(key := None),
                       ps_inFlight := ps_inFlight st' - {key} \<rparr>))
                 | Some (Inr v, Some st') \<Rightarrow>
                     Some (Inr v, Some (st' \<lparr> ps_cache := (ps_cache st')(key \<mapsto> inject v),
                       ps_inFlight := ps_inFlight st' - {key} \<rparr>)))))"

fun asPrice :: "cached \<Rightarrow> price_result" where
  "asPrice (CPrice p) = p"
| "asPrice (CValue v) = ZERO_RESULT"

fun asValue :: "cached \<Rightarrow> bignumber option" where
  "asValue (CValue v) = v"
| "asValue (CPrice p) = None"

section \<open>Computations that return\<close>

text \<open>
  \<open>returns F m\<close>: started with an open cache whose keys in flight are \<open>F\<close>, the computation
  returns (a value or a thrown error) and leaves the same keys in flight.
\<close>

definition returns :: "cache_key set \<Rightarrow> 'a pm \<Rightarrow> bool" where
  "returns F m \<longleftrightarrow> (\<forall>st. ps_inFlight st = F \<longrightarrow>
     (\<exists>r st'. m (Some st) = Some (r, Some st') \<and> ps_inFlight st' = F))"

named_theorems returns_intros

lemma returnsD:
  "returns F m \<Longrightarrow> ps_inFlight st = F \<Longrightarrow>
     \<exists>r st'. m (Some st) = Some (r, Some st') \<and> ps_inFlight st' = F"
  unfolding returns_def by blast

lemma returns_return [returns_intros]: "returns F (preturn x)"
  by (simp add: returns_def preturn_def)

lemma returns_raise [returns_intros]: "returns F (praise e)"
  by (simp add: returns_def praise_def)

lemma returns_read [returns_intros]: "returns F (pread r)"
  by (cases r) (simp_all add: returns_return returns_raise)

lemma returns_nth [returns_intros]: "returns F (pnth xs i)"
  by (simp add: pnth_def returns_return returns_raise)

lemma returns_bind [returns_intros]:
  assumes "returns F m" "\<And>x. returns F (f x)"
  shows "returns F (pbind m f)"
  unfolding returns_def
proof (intro allI impI)
  fix st :: pricing_store
  assume "ps_inFlight st = F"
  then obtain r st' where m: "m (Some st) = Some (r, Some st')" "ps_inFlight st' = F"
    using assms(1) by (auto simp: returns_def)
  show "\<exists>r st'. pbind m f (Some st) = Some (r, Some st') \<and> ps_inFlight st' = F"
  proof (cases r)
    case (Inl e)
    then show ?thesis using m by (auto simp: pbind_def)
  next
    case (Inr x)
    then show ?thesis using m assms(2) [of x] by (auto simp: pbind_def returns_def)
  qed
qed

lemma returns_if [returns_intros]:
  "(P \<Longrightarrow> returns F a) \<Longrightarrow> (\<not> P \<Longrightarrow> returns F b) \<Longrightarrow> returns F (if P then a else b)"
  by simp

lemma returns_case_option [returns_intros]:
  "(x = None \<Longrightarrow> returns F a) \<Longrightarrow> (\<And>y. x = Some y \<Longrightarrow> returns F (f y)) \<Longrightarrow>
     returns F (case x of None \<Rightarrow> a | Some y \<Rightarrow> f y)"
  by (cases x) simp_all

lemma returns_case_prod [returns_intros]:
  "(\<And>a b. x = (a, b) \<Longrightarrow> returns F (f a b)) \<Longrightarrow> returns F (case x of (a, b) \<Rightarrow> f a b)"
  by (cases x) simp

lemma returns_let [returns_intros]: "(\<And>x. x = v \<Longrightarrow> returns F (f x)) \<Longrightarrow> returns F (let x = v in f x)"
  by simp

lemma returns_cached:
  assumes "key \<notin> F \<Longrightarrow> returns (insert key F) lookup"
  shows "returns F (cachedPricingLookup key inject project lookup fallback)"
  unfolding returns_def
proof (intro allI impI)
  fix st :: pricing_store
  assume F: "ps_inFlight st = F"
  show "\<exists>r st'. cachedPricingLookup key inject project lookup fallback (Some st) = Some (r, Some st')
      \<and> ps_inFlight st' = F"
  proof (cases "key \<in> F \<or> ps_cache st key \<noteq> None")
    case True
    then show ?thesis using F by (auto simp: cachedPricingLookup_def)
  next
    case False
    then have "returns (insert key F) lookup" using assms by simp
    then obtain r st' where "lookup (Some (st \<lparr> ps_inFlight := insert key F \<rparr>)) = Some (r, Some st')"
      "ps_inFlight st' = insert key F"
      using returnsD [of "insert key F" lookup "st \<lparr> ps_inFlight := insert key F \<rparr>"] by auto
    then show ?thesis using False F
      by (cases r) (auto simp: cachedPricingLookup_def)
  qed
qed

section \<open>More fuel, same answer\<close>

text \<open>\<open>extends m m'\<close>: whenever \<open>m\<close> returns, \<open>m'\<close> returns the same.\<close>

definition extends :: "'a pm \<Rightarrow> 'a pm \<Rightarrow> bool" where
  "extends m m' \<longleftrightarrow> (\<forall>s r. m s = Some r \<longrightarrow> m' s = Some r)"

named_theorems extends_intros

lemma extendsD: "extends m m' \<Longrightarrow> m s = Some r \<Longrightarrow> m' s = Some r"
  unfolding extends_def by blast

lemma extends_refl [extends_intros]: "extends m m"
  by (simp add: extends_def)

lemma extends_bind [extends_intros]:
  assumes "extends m m'" "\<And>x. extends (f x) (f' x)"
  shows "extends (pbind m f) (pbind m' f')"
  unfolding extends_def
proof (intro allI impI)
  fix s r
  assume run: "pbind m f s = Some r"
  then obtain q where q: "m s = Some q" by (auto simp: pbind_def split: option.splits)
  then have "m' s = Some q" by (rule extendsD [OF assms(1)])
  then show "pbind m' f' s = Some r"
    using run q by (auto simp: pbind_def split: sum.splits prod.splits dest: extendsD [OF assms(2)])
qed

lemma extends_if [extends_intros]:
  "(P \<Longrightarrow> extends a a') \<Longrightarrow> (\<not> P \<Longrightarrow> extends b b') \<Longrightarrow> extends (if P then a else b) (if P then a' else b')"
  by simp

lemma extends_case_option [extends_intros]:
  "(x = None \<Longrightarrow> extends a a') \<Longrightarrow> (\<And>y. x = Some y \<Longrightarrow> extends (f y) (f' y)) \<Longrightarrow>
     extends (case x of None \<Rightarrow> a | Some y \<Rightarrow> f y) (case x of None \<Rightarrow> a' | Some y \<Rightarrow> f' y)"
  by (cases x) simp_all

lemma extends_case_prod [extends_intros]:
  "(\<And>a b. x = (a, b) \<Longrightarrow> extends (f a b) (f' a b)) \<Longrightarrow>
     extends (case x of (a, b) \<Rightarrow> f a b) (case x of (a, b) \<Rightarrow> f' a b)"
  by (cases x) simp

lemma extends_let [extends_intros]:
  "(\<And>x. x = v \<Longrightarrow> extends (f x) (f' x)) \<Longrightarrow> extends (let x = v in f x) (let x = v in f' x)"
  by simp

lemma extends_cached [extends_intros]:
  assumes "extends lookup lookup'"
  shows "extends (cachedPricingLookup key inject project lookup fallback)
    (cachedPricingLookup key inject project lookup' fallback)"
  unfolding extends_def
proof (intro allI impI)
  fix s r
  assume run: "cachedPricingLookup key inject project lookup fallback s = Some r"
  show "cachedPricingLookup key inject project lookup' fallback s = Some r"
  proof (cases s)
    case None
    then show ?thesis using run extendsD [OF assms] by (simp add: cachedPricingLookup_def)
  next
    case (Some st)
    show ?thesis
    proof (cases "key \<in> ps_inFlight st \<or> ps_cache st key \<noteq> None")
      case True
      then show ?thesis using run Some by (auto simp: cachedPricingLookup_def)
    next
      case False
      then obtain q where q: "lookup (Some (st \<lparr> ps_inFlight := insert key (ps_inFlight st) \<rparr>)) = Some q"
        using run Some by (auto simp: cachedPricingLookup_def split: option.splits)
      then have "lookup' (Some (st \<lparr> ps_inFlight := insert key (ps_inFlight st) \<rparr>)) = Some q"
        by (rule extendsD [OF assms])
      then show ?thesis using run False Some q by (simp add: cachedPricingLookup_def)
    qed
  qed
qed

end
