(* ===== verification/Pricing_Handlers.thy ===== *)
theory Pricing_Handlers
  imports Pricing_Monad Balancer_Events "HOL-Library.Char_ord" "HOL-Library.List_Lexorder"
begin

text \<open>
  The price handlers (\<open>pricing/stable, remap, chainlink, gohm, erc4626, curve, fraxswap, univ2,
  univ3, balancer, kodiak .ts\<close>): for each kind of handler its quote for a token, the total value
  of its pool, the value of one LP token and a wallet's share of a reserve. Recursive prices come
  from the parameter \<open>lookup\<close>; chain reads come from the environment. A quote is \<open>None\<close> where
  the code returns null.
\<close>

section \<open>What a handler can read\<close>

text \<open>A read may throw. \<open>pe_erc4626\<close> is \<open>None\<close> where the effect returns the empty string; zero
  stands for the strings \<open>"0"\<close> and \<open>""\<close> of a total supply or balance, which the code treats
  alike.\<close>

record pricing_env =
  pe_rnd :: rounding
  pe_config :: chain_config
  pe_store :: store
  pe_chainlink :: "nat \<Rightarrow> string \<Rightarrow> nat \<Rightarrow> string + int"
  pe_erc4626 :: "nat \<Rightarrow> string \<Rightarrow> nat \<Rightarrow> nat \<Rightarrow> string + int option"
  pe_curve :: "nat \<Rightarrow> string \<Rightarrow> string \<Rightarrow> nat \<Rightarrow> nat \<Rightarrow> string + (int list \<times> int)"
  pe_fraxswap :: "nat \<Rightarrow> string \<Rightarrow> nat \<Rightarrow> string + (int \<times> int \<times> int)"
  pe_weights :: "string \<Rightarrow> nat \<Rightarrow> string + int list"
  pe_decimals :: "string \<Rightarrow> nat \<Rightarrow> string + nat"
  pe_kodiakBalances :: "string \<Rightarrow> nat \<Rightarrow> string + (int \<times> int)"

type_synonym price_lookup = "string \<Rightarrow> nat \<Rightarrow> string option \<Rightarrow> price_result pm"

abbreviation pe_chain :: "pricing_env \<Rightarrow> nat" where
  "pe_chain env \<equiv> cc_chainId (pe_config env)"

abbreviation pe_tokenDecimals :: "pricing_env \<Rightarrow> string \<Rightarrow> nat" where
  "pe_tokenDecimals env t \<equiv> getTokenDecimals (cc_tokens (pe_config env)) t 18"

definition handlerActive :: "liquidity_handler \<Rightarrow> nat \<Rightarrow> bool" where
  "handlerActive h blockNumber = isActive (lh_startBlock h) blockNumber"

definition CHAINLINK_PRIORITY :: bignumber where "CHAINLINK_PRIORITY = Fin (10 ^ 30)"
definition GOHM_PRIORITY :: bignumber where "GOHM_PRIORITY = Fin (10 ^ 30)"
definition ERC4626_PRIORITY :: bignumber where "ERC4626_PRIORITY = Fin (10 ^ 30)"
definition SOHM_INDEX_DECIMALS :: nat where "SOHM_INDEX_DECIMALS = 9"

section \<open>Sources outside pools\<close>

definition stable_getPrice :: "liquidity_handler \<Rightarrow> nat \<Rightarrow> price_result option pm" where
  "stable_getPrice h b = preturn (if \<not> handlerActive h b then None
     else Some \<lparr> pr_price = ONE, pr_liquidity = ZERO \<rparr>)"

definition stable_getTotalValue :: "liquidity_handler \<Rightarrow> nat \<Rightarrow> bignumber option pm" where
  "stable_getTotalValue h b = preturn (if \<not> handlerActive h b then None else Some ONE)"

definition stable_getUnitPrice :: "liquidity_handler \<Rightarrow> nat \<Rightarrow> bignumber option pm" where
  "stable_getUnitPrice h b = preturn (if \<not> handlerActive h b then None else Some ONE)"

definition remap_getPrice ::
  "price_lookup \<Rightarrow> liquidity_handler \<Rightarrow> nat \<Rightarrow> price_result option pm" where
  "remap_getPrice lookup h b =
     (if \<not> handlerActive h b then preturn None
      else pbind (lookup (lh_target h) b (Some (lh_id h))) (\<lambda>result.
        preturn (if pr_price result = Fin 0 then None else Some result)))"

definition chainlink_getPrice ::
  "pricing_env \<Rightarrow> liquidity_handler \<Rightarrow> nat \<Rightarrow> price_result option pm" where
  "chainlink_getPrice env h b =
     (if \<not> handlerActive h b then preturn None
      else pbind (pread (pe_chainlink env (pe_chain env) (lh_id h) b)) (\<lambda>answer.
        preturn (if answer = 0 then None
          else Some \<lparr> pr_price = toDecimal (pe_rnd env) answer (lh_decimals h),
                      pr_liquidity = CHAINLINK_PRIORITY \<rparr>)))"

definition gohm_getPrice ::
  "pricing_env \<Rightarrow> price_lookup \<Rightarrow> liquidity_handler \<Rightarrow> nat \<Rightarrow> price_result option pm" where
  "gohm_getPrice env lookup h b =
     (if \<not> handlerActive h b then preturn None
      else (case tget (st_OhmIndexState (pe_store env)) (id2 (pe_chain env) (addr (lh_id h))) of
          None \<Rightarrow> preturn None
        | Some state \<Rightarrow>
            if OhmIndexState_index state = 0 then preturn None
            else pbind (lookup (lh_ohmToken h) b (Some (lh_id h))) (\<lambda>ohmResult.
              preturn (if pr_price ohmResult = Fin 0 then None
                else Some \<lparr> pr_price = pr_price ohmResult *
                       toDecimal (pe_rnd env) (OhmIndexState_index state) SOHM_INDEX_DECIMALS,
                     pr_liquidity = GOHM_PRIORITY \<rparr>))))"

definition erc4626_getPrice ::
  "pricing_env \<Rightarrow> price_lookup \<Rightarrow> liquidity_handler \<Rightarrow> nat \<Rightarrow> price_result option pm" where
  "erc4626_getPrice env lookup h b =
     (if \<not> handlerActive h b then preturn None
      else pbind (pread (pe_erc4626 env (pe_chain env) (addr (lh_id h)) (lh_decimals h) b)) (\<lambda>raw.
        case raw of None \<Rightarrow> preturn None
        | Some assets \<Rightarrow>
            (let sharesRatio = bn_div (pe_rnd env) (Fin (of_int assets))
                   (Fin (10 ^ lh_underlyingDecimals h))
             in pbind (lookup (lh_underlying h) b (Some (lh_id h))) (\<lambda>underlyingResult.
                  preturn (if pr_price underlyingResult = Fin 0 then None
                    else Some \<lparr> pr_price = pr_price underlyingResult * sharesRatio,
                                pr_liquidity = ERC4626_PRIORITY \<rparr>)))))"

section \<open>LP tokens valued by reserves\<close>

text \<open>The loop of \<open>curve.ts\<close> over the coins; \<open>i\<close> is the index of the next one.\<close>

fun curve_loop :: "pricing_env \<Rightarrow> price_lookup \<Rightarrow> liquidity_handler \<Rightarrow> nat \<Rightarrow> int list \<Rightarrow> nat \<Rightarrow>
    string list \<Rightarrow> bignumber \<Rightarrow> bignumber pm" where
  "curve_loop env lookup h b balances i [] poolValue = preturn poolValue"
| "curve_loop env lookup h b balances i (coin # coins) poolValue =
     (if length balances \<le> i \<or> balances ! i = 0
      then curve_loop env lookup h b balances (i + 1) coins poolValue
      else pbind (pnth (lh_coinDecimals h) i) (\<lambda>decimals.
        pbind (lookup coin b (Some (lh_id h))) (\<lambda>coinPrice.
          curve_loop env lookup h b balances (i + 1) coins
            (if pr_price coinPrice = Fin 0 then poolValue
             else poolValue + toDecimal (pe_rnd env) (balances ! i) decimals * pr_price coinPrice))))"

definition curve_getPrice ::
  "pricing_env \<Rightarrow> price_lookup \<Rightarrow> liquidity_handler \<Rightarrow> nat \<Rightarrow> price_result option pm" where
  "curve_getPrice env lookup h b =
     (if \<not> handlerActive h b then preturn None
      else pbind (pread (pe_curve env (pe_chain env) (addr (lh_id h)) (addr (lh_lpToken h))
          (length (lh_coins h)) b)) (\<lambda>(balances, totalSupply).
        if totalSupply = 0 then preturn None
        else pbind (curve_loop env lookup h b balances 0 (lh_coins h) ZERO) (\<lambda>poolValue.
          if poolValue = Fin 0 then preturn None
          else (let lpSupply = toDecimal (pe_rnd env) totalSupply 18 in
            preturn (if lpSupply = Fin 0 then None
              else Some \<lparr> pr_price = bn_div (pe_rnd env) poolValue lpSupply,
                          pr_liquidity = poolValue \<rparr>)))))"

definition fraxswap_getPrice ::
  "pricing_env \<Rightarrow> price_lookup \<Rightarrow> liquidity_handler \<Rightarrow> nat \<Rightarrow> price_result option pm" where
  "fraxswap_getPrice env lookup h b =
     (if \<not> handlerActive h b then preturn None
      else pbind (pread (pe_fraxswap env (pe_chain env) (addr (lh_id h)) b))
        (\<lambda>(raw0, raw1, totalSupply).
        if totalSupply = 0 then preturn None
        else (let reserve0 = toDecimal (pe_rnd env) raw0 (lh_decimals0 h);
                  reserve1 = toDecimal (pe_rnd env) raw1 (lh_decimals1 h) in
          pbind (lookup (lh_token0 h) b (Some (lh_id h))) (\<lambda>price0.
          pbind (lookup (lh_token1 h) b (Some (lh_id h))) (\<lambda>price1.
            if pr_price price0 = Fin 0 \<and> pr_price price1 = Fin 0 then preturn None
            else (let poolValue = reserve0 * pr_price price0 + reserve1 * pr_price price1 in
              if poolValue = Fin 0 then preturn None
              else (let lpSupply = toDecimal (pe_rnd env) totalSupply 18 in
                preturn (if lpSupply = Fin 0 then None
                  else Some \<lparr> pr_price = bn_div (pe_rnd env) poolValue lpSupply,
                              pr_liquidity = poolValue \<rparr>))))))))"

section \<open>Uniswap V2\<close>

text \<open>The two tokens in address order. With fewer than two tokens the code goes on with
  \<open>undefined\<close> and throws at its first use.\<close>

definition sortTokens :: "string list \<Rightarrow> (string \<times> string) pm" where
  "sortTokens tokens = (case sort (map addr tokens) of a # b # _ \<Rightarrow> preturn (a, b)
     | _ \<Rightarrow> praise ''TypeError'')"

text \<open>A handler that only needs the first of them.\<close>

definition firstToken :: "string list \<Rightarrow> string pm" where
  "firstToken tokens = (case sort (map addr tokens) of a # _ \<Rightarrow> preturn a
     | [] \<Rightarrow> praise ''TypeError'')"

definition univ2_getState :: "pricing_env \<Rightarrow> liquidity_handler \<Rightarrow> Univ2PoolState option" where
  "univ2_getState env h =
     tget (st_Univ2PoolState (pe_store env)) (id2 (pe_chain env) (addr (lh_id h)))"

definition supplyRow :: "pricing_env \<Rightarrow> string \<Rightarrow> Erc20Supply option" where
  "supplyRow env a = tget (st_Erc20Supply (pe_store env)) (id2 (pe_chain env) a)"

definition balanceRow :: "pricing_env \<Rightarrow> string \<Rightarrow> string \<Rightarrow> TokenBalance option" where
  "balanceRow env a wallet =
     tget (st_TokenBalance (pe_store env)) (id3 (pe_chain env) a (addr wallet))"

definition univ2_getPrice :: "pricing_env \<Rightarrow> price_lookup \<Rightarrow> liquidity_handler \<Rightarrow> string \<Rightarrow> nat \<Rightarrow>
    price_result option pm" where
  "univ2_getPrice env lookup h tokenAddress b =
     (if \<not> handlerActive h b then preturn None
      else (case univ2_getState env h of None \<Rightarrow> preturn None
        | Some state \<Rightarrow>
          pbind (sortTokens (lh_tokens h)) (\<lambda>(token0, token1).
            (let lookupIsToken0 = same tokenAddress token0;
                 secondaryToken = (if lookupIsToken0 then token1 else token0) in
             pbind (lookup secondaryToken b (Some (lh_id h))) (\<lambda>secondary.
               if pr_price secondary = Fin 0 then preturn None
               else (let reserve0 = toDecimal (pe_rnd env) (Univ2PoolState_reserve0 state)
                           (pe_tokenDecimals env token0);
                         reserve1 = toDecimal (pe_rnd env) (Univ2PoolState_reserve1 state)
                           (pe_tokenDecimals env token1) in
                 preturn (if reserve0 = Fin 0 \<or> reserve1 = Fin 0 then None
                   else Some \<lparr>
                     pr_price = (if lookupIsToken0 then bn_div (pe_rnd env) reserve1 reserve0
                       else bn_div (pe_rnd env) reserve0 reserve1) * pr_price secondary,
                     pr_liquidity = (if lookupIsToken0 then reserve1 else reserve0) *
                       pr_price secondary \<rparr>)))))))"

text \<open>The value loop of \<open>univ2.ts\<close>: a token on the exclusion list adds nothing and is not looked
  up.\<close>

definition isExcluded :: "string list \<Rightarrow> string \<Rightarrow> bool" where
  "isExcluded excludedTokens t = list_ex (\<lambda>excluded. same excluded t) excludedTokens"

fun univ2_loop :: "price_lookup \<Rightarrow> nat \<Rightarrow> string option \<Rightarrow> string list \<Rightarrow>
    (string \<times> bignumber) list \<Rightarrow> bignumber \<Rightarrow> bignumber pm" where
  "univ2_loop lookup b pool excluded [] acc = preturn acc"
| "univ2_loop lookup b pool excluded ((t, balance) # rest) acc =
     (if isExcluded excluded t then univ2_loop lookup b pool excluded rest acc
      else pbind (lookup t b pool) (\<lambda>result.
        univ2_loop lookup b pool excluded rest (acc + balance * pr_price result)))"

definition univ2_getTotalValue :: "pricing_env \<Rightarrow> price_lookup \<Rightarrow> liquidity_handler \<Rightarrow> string list \<Rightarrow>
    nat \<Rightarrow> bignumber option pm" where
  "univ2_getTotalValue env lookup h excludedTokens b =
     (if \<not> handlerActive h b then preturn None
      else (case univ2_getState env h of None \<Rightarrow> preturn None
        | Some state \<Rightarrow>
          pbind (sortTokens (lh_tokens h)) (\<lambda>(token0, token1).
            pbind (univ2_loop lookup b (Some (lh_id h)) excludedTokens
              [(token0, toDecimal (pe_rnd env) (Univ2PoolState_reserve0 state)
                  (pe_tokenDecimals env token0)),
               (token1, toDecimal (pe_rnd env) (Univ2PoolState_reserve1 state)
                  (pe_tokenDecimals env token1))] ZERO) (\<lambda>acc. preturn (Some acc)))))"

definition univ2_getUnitPrice ::
  "pricing_env \<Rightarrow> price_lookup \<Rightarrow> liquidity_handler \<Rightarrow> nat \<Rightarrow> bignumber option pm" where
  "univ2_getUnitPrice env lookup h b =
     (if \<not> handlerActive h b then preturn None
      else pbind (univ2_getTotalValue env lookup h [] b) (\<lambda>totalValue.
        preturn (case totalValue of None \<Rightarrow> None
        | Some v \<Rightarrow> (case supplyRow env (addr (lh_id h)) of None \<Rightarrow> None
          | Some e \<Rightarrow> (let supply = toDecimal (pe_rnd env) (Erc20Supply_totalSupply e)
                  (pe_tokenDecimals env (lh_id h)) in
              if supply = Fin 0 then None else Some (bn_div (pe_rnd env) v supply))))))"

definition univ2_getUnderlyingTokenBalance :: "pricing_env \<Rightarrow> liquidity_handler \<Rightarrow> string \<Rightarrow> string \<Rightarrow>
    nat \<Rightarrow> bignumber pm" where
  "univ2_getUnderlyingTokenBalance env h wallet tokenAddress b =
     (if \<not> handlerActive h b then preturn ZERO
      else (case (univ2_getState env h, supplyRow env (addr (lh_id h))) of
          (Some state, Some supplyEntity) \<Rightarrow>
            (let lpDecimals = pe_tokenDecimals env (lh_id h);
                 totalSupply = toDecimal (pe_rnd env) (Erc20Supply_totalSupply supplyEntity)
                   lpDecimals in
             if totalSupply = Fin 0 then preturn ZERO
             else (case balanceRow env (addr (lh_id h)) wallet of None \<Rightarrow> preturn ZERO
               | Some e \<Rightarrow>
                 if TokenBalance_balance e = 0 then preturn ZERO
                 else pbind (firstToken (lh_tokens h)) (\<lambda>token0.
                   (let walletBalance = toDecimal (pe_rnd env) (TokenBalance_balance e) lpDecimals;
                        reserve = toDecimal (pe_rnd env) (if same tokenAddress token0
                          then Univ2PoolState_reserve0 state else Univ2PoolState_reserve1 state)
                          (pe_tokenDecimals env tokenAddress)
                    in preturn (bn_div (pe_rnd env) (reserve * walletBalance) totalSupply)))))
        | _ \<Rightarrow> preturn ZERO))"

section \<open>Uniswap V3\<close>

definition univ3_priceToken0InToken1 :: "rounding \<Rightarrow> int \<Rightarrow> bignumber" where
  "univ3_priceToken0InToken1 rnd sqrtPriceX96 =
     bn_div rnd (Fin (of_int (sqrtPriceX96 ^ 2))) (Fin (2 ^ 192))"

definition univ3_applyDecimalAdjustment ::
  "rounding \<Rightarrow> bignumber \<Rightarrow> nat \<Rightarrow> nat \<Rightarrow> bool \<Rightarrow> bignumber" where
  "univ3_applyDecimalAdjustment rnd raw decimals0 decimals1 lookupIsToken0 =
     (let diff = (if lookupIsToken0 then int decimals0 - int decimals1
            else int decimals1 - int decimals0);
          factor = Fin (10 ^ nat \<bar>diff\<bar>);
          adjusted = (if diff < 0 then bn_div rnd ONE factor else factor)
      in if lookupIsToken0 then raw * adjusted else bn_div rnd adjusted raw)"

definition univ3_getPrice :: "pricing_env \<Rightarrow> price_lookup \<Rightarrow> liquidity_handler \<Rightarrow> string \<Rightarrow> nat \<Rightarrow>
    price_result option pm" where
  "univ3_getPrice env lookup h tokenAddress b =
     (if \<not> handlerActive h b then preturn None
      else (case tget (st_Univ3PoolState (pe_store env)) (id2 (pe_chain env) (addr (lh_id h))) of
          None \<Rightarrow> preturn None
        | Some state \<Rightarrow>
          if Univ3PoolState_sqrtPriceX96 state = 0 then preturn None
          else pbind (sortTokens (lh_tokens h)) (\<lambda>(token0, token1).
            (let lookupIsToken0 = same tokenAddress token0;
                 secondaryToken = (if lookupIsToken0 then token1 else token0) in
             pbind (lookup secondaryToken b (Some (lh_id h))) (\<lambda>secondary.
               preturn (if pr_price secondary = Fin 0 then None
                 else Some \<lparr> pr_price = univ3_applyDecimalAdjustment (pe_rnd env)
                     (univ3_priceToken0InToken1 (pe_rnd env) (Univ3PoolState_sqrtPriceX96 state))
                     (pe_tokenDecimals env token0) (pe_tokenDecimals env token1) lookupIsToken0 *
                       pr_price secondary,
                   pr_liquidity = Fin (of_int (Univ3PoolState_liquidity state)) \<rparr>))))))"

section \<open>Balancer\<close>

definition bptAddressFromPoolId :: "string \<Rightarrow> string" where
  "bptAddressFromPoolId poolId = ''0x'' @ toLowerCase (take 40 (drop 2 poolId))"

definition balancer_getState :: "pricing_env \<Rightarrow> liquidity_handler \<Rightarrow> BalancerPoolState option" where
  "balancer_getState env h =
     tget (st_BalancerPoolState (pe_store env)) (id2 (pe_chain env) (toLowerCase (lh_id h)))"

text \<open>The value loop of \<open>balancer.ts\<close>: tokens are looked up with no current pool.\<close>

fun balancer_valueLoop :: "pricing_env \<Rightarrow> price_lookup \<Rightarrow> nat \<Rightarrow> string list \<Rightarrow> int list \<Rightarrow> nat \<Rightarrow>
    string list \<Rightarrow> bignumber \<Rightarrow> bignumber pm" where
  "balancer_valueLoop env lookup b excluded balances i [] acc = preturn acc"
| "balancer_valueLoop env lookup b excluded balances i (t # ts) acc =
     (if isExcluded excluded t then balancer_valueLoop env lookup b excluded balances (i + 1) ts acc
      else pbind (pnth balances i) (\<lambda>raw.
        pbind (lookup t b None) (\<lambda>result.
          balancer_valueLoop env lookup b excluded balances (i + 1) ts
            (acc + toDecimal (pe_rnd env) raw (pe_tokenDecimals env t) * pr_price result))))"

definition balancer_getTotalValue :: "pricing_env \<Rightarrow> price_lookup \<Rightarrow> liquidity_handler \<Rightarrow>
    string list \<Rightarrow> nat \<Rightarrow> bignumber option pm" where
  "balancer_getTotalValue env lookup h excludedTokens b =
     (if \<not> handlerActive h b then preturn None
      else (case balancer_getState env h of None \<Rightarrow> preturn None
        | Some state \<Rightarrow> pbind (balancer_valueLoop env lookup b excludedTokens
            (BalancerPoolState_balances state) 0 (BalancerPoolState_tokens state) ZERO)
            (\<lambda>acc. preturn (Some acc))))"

text \<open>The spot price from the first other token of the pool that has a price and a reserve.\<close>

fun balancer_spotLoop :: "pricing_env \<Rightarrow> price_lookup \<Rightarrow> liquidity_handler \<Rightarrow> nat \<Rightarrow>
    BalancerPoolState \<Rightarrow> int list \<Rightarrow> nat \<Rightarrow> nat \<Rightarrow> nat \<Rightarrow> string list \<Rightarrow> price_result option pm" where
  "balancer_spotLoop env lookup h b state weights decimals lookupIndex i [] = preturn None"
| "balancer_spotLoop env lookup h b state weights decimals lookupIndex i (t # ts) =
     (if i = lookupIndex
      then balancer_spotLoop env lookup h b state weights decimals lookupIndex (i + 1) ts
      else pbind (lookup t b (Some (lh_id h))) (\<lambda>secondary.
        if pr_price secondary = Fin 0
        then balancer_spotLoop env lookup h b state weights decimals lookupIndex (i + 1) ts
        else pbind (pnth (BalancerPoolState_balances state) lookupIndex) (\<lambda>lookupRaw.
          pbind (pnth (BalancerPoolState_balances state) i) (\<lambda>secondaryRaw.
          (let rnd = pe_rnd env;
               lookupReserve = toDecimal rnd lookupRaw
                 (pe_tokenDecimals env (BalancerPoolState_tokens state ! lookupIndex));
               secondaryReserve = toDecimal rnd secondaryRaw (pe_tokenDecimals env t)
           in if lookupReserve = Fin 0 \<or> secondaryReserve = Fin 0
              then balancer_spotLoop env lookup h b state weights decimals lookupIndex (i + 1) ts
              else pbind (pnth weights lookupIndex) (\<lambda>wl. pbind (pnth weights i) (\<lambda>ws.
                (let lookupWeight = toDecimal rnd wl decimals;
                     secondaryWeight = toDecimal rnd ws decimals
                 in preturn (Some
                   \<lparr> pr_price = bn_div rnd (bn_div rnd secondaryReserve secondaryWeight)
                       (bn_div rnd lookupReserve lookupWeight) * pr_price secondary,
                     pr_liquidity = bn_div rnd (secondaryReserve * pr_price secondary)
                       secondaryWeight \<rparr>)))))))))"

definition balancer_getPrice :: "pricing_env \<Rightarrow> price_lookup \<Rightarrow> liquidity_handler \<Rightarrow> string \<Rightarrow> nat \<Rightarrow>
    price_result option pm" where
  "balancer_getPrice env lookup h tokenAddress b =
     (if \<not> handlerActive h b then preturn None
      else (case balancer_getState env h of None \<Rightarrow> preturn None
        | Some state \<Rightarrow>
          (let bpt = bptAddressFromPoolId (lh_id h) in
           if same tokenAddress bpt
           then pbind (balancer_getTotalValue env lookup h [] b) (\<lambda>totalValue.
             preturn (case totalValue of None \<Rightarrow> None
             | Some v \<Rightarrow> if v = Fin 0 then None
                 else (case supplyRow env bpt of None \<Rightarrow> None
                 | Some e \<Rightarrow> if Erc20Supply_totalSupply e = 0 then None
                     else (let supply = toDecimal (pe_rnd env) (Erc20Supply_totalSupply e)
                             (pe_tokenDecimals env bpt) in
                       if supply = Fin 0 then None
                       else Some \<lparr> pr_price = bn_div (pe_rnd env) v supply, pr_liquidity = v \<rparr>))))
           else pbind (pread (pe_weights env bpt b)) (\<lambda>weights.
             pbind (pread (pe_decimals env bpt b)) (\<lambda>decimals.
               (case findIndex (\<lambda>value. same value tokenAddress) (BalancerPoolState_tokens state) of
                  None \<Rightarrow> preturn None
                | Some lookupIndex \<Rightarrow> balancer_spotLoop env lookup h b state weights decimals
                    lookupIndex 0 (BalancerPoolState_tokens state)))))))"

definition balancer_getUnitPrice ::
  "pricing_env \<Rightarrow> price_lookup \<Rightarrow> liquidity_handler \<Rightarrow> nat \<Rightarrow> bignumber option pm" where
  "balancer_getUnitPrice env lookup h b =
     (if \<not> handlerActive h b then preturn None
      else pbind (balancer_getTotalValue env lookup h [] b) (\<lambda>totalValue.
        preturn (case totalValue of None \<Rightarrow> None
        | Some v \<Rightarrow> (let bpt = bptAddressFromPoolId (lh_id h) in
            case supplyRow env bpt of None \<Rightarrow> None
          | Some e \<Rightarrow> (let supply = toDecimal (pe_rnd env) (Erc20Supply_totalSupply e)
                  (pe_tokenDecimals env bpt) in
              if supply = Fin 0 then None else Some (bn_div (pe_rnd env) v supply))))))"

definition balancer_getUnderlyingTokenBalance :: "pricing_env \<Rightarrow> liquidity_handler \<Rightarrow> string \<Rightarrow>
    string \<Rightarrow> nat \<Rightarrow> bignumber pm" where
  "balancer_getUnderlyingTokenBalance env h wallet tokenAddress b =
     (if \<not> handlerActive h b then preturn ZERO
      else (let bpt = bptAddressFromPoolId (lh_id h) in
        case (balancer_getState env h, supplyRow env bpt) of
          (Some state, Some supplyEntity) \<Rightarrow>
            if Erc20Supply_totalSupply supplyEntity = 0 then preturn ZERO
            else (let bptDecimals = pe_tokenDecimals env bpt;
                      totalSupply = toDecimal (pe_rnd env) (Erc20Supply_totalSupply supplyEntity)
                        bptDecimals in
              case balanceRow env bpt wallet of None \<Rightarrow> preturn ZERO
            | Some e \<Rightarrow>
              if TokenBalance_balance e = 0 then preturn ZERO
              else (case findIndex (\<lambda>value. same value tokenAddress) (BalancerPoolState_tokens state) of
                  None \<Rightarrow> preturn ZERO
                | Some index \<Rightarrow> pbind (pnth (BalancerPoolState_balances state) index) (\<lambda>raw.
                    (let walletBalance = toDecimal (pe_rnd env) (TokenBalance_balance e) bptDecimals;
                         reserve = toDecimal (pe_rnd env) raw (pe_tokenDecimals env tokenAddress)
                     in preturn (bn_div (pe_rnd env) (reserve * walletBalance) totalSupply)))))
        | _ \<Rightarrow> preturn ZERO))"

section \<open>Kodiak\<close>

definition kodiak_priceToken0InToken1 :: "rounding \<Rightarrow> int \<Rightarrow> bignumber" where
  "kodiak_priceToken0InToken1 rnd sqrtPriceX96 =
     bn_div rnd (Fin (of_int (sqrtPriceX96 ^ 2))) (Fin (2 ^ 192))"

definition kodiak_applyDecimalAdjustment ::
  "rounding \<Rightarrow> bignumber \<Rightarrow> nat \<Rightarrow> nat \<Rightarrow> bool \<Rightarrow> bignumber" where
  "kodiak_applyDecimalAdjustment rnd raw decimals0 decimals1 lookupIsToken0 =
     (let diff = (if lookupIsToken0 then int decimals0 - int decimals1
            else int decimals1 - int decimals0);
          factor = Fin (10 ^ nat \<bar>diff\<bar>);
          decimalAdjustment = (if diff < 0 then bn_div rnd ONE factor else factor);
          rawTerm = (if lookupIsToken0 then raw else bn_div rnd ONE raw)
      in decimalAdjustment * rawTerm)"

definition kodiak_getUnderlyingState :: "pricing_env \<Rightarrow> liquidity_handler \<Rightarrow> Univ3PoolState option" where
  "kodiak_getUnderlyingState env h =
     (case tget (st_KodiakPool (pe_store env)) (id2 (pe_chain env) (addr (lh_pool h))) of
        None \<Rightarrow> None
      | Some mapping \<Rightarrow> tget (st_Univ3PoolState (pe_store env))
          (id2 (pe_chain env) (addr (KodiakPool_underlyingPoolAddress mapping))))"

definition kodiak_getPrice :: "pricing_env \<Rightarrow> price_lookup \<Rightarrow> liquidity_handler \<Rightarrow> string \<Rightarrow> nat \<Rightarrow>
    price_result option pm" where
  "kodiak_getPrice env lookup h tokenAddress b =
     (if \<not> handlerActive h b then preturn None
      else (case kodiak_getUnderlyingState env h of None \<Rightarrow> preturn None
        | Some state \<Rightarrow>
          if Univ3PoolState_sqrtPriceX96 state = 0 then preturn None
          else pbind (sortTokens (lh_tokens h)) (\<lambda>(token0, token1).
            (let lookupIsToken0 = same tokenAddress token0;
                 secondaryToken = (if lookupIsToken0 then token1 else token0) in
             pbind (lookup secondaryToken b (Some (lh_id h))) (\<lambda>secondary.
               preturn (if pr_price secondary = Fin 0 then None
                 else Some \<lparr> pr_price = kodiak_applyDecimalAdjustment (pe_rnd env)
                     (kodiak_priceToken0InToken1 (pe_rnd env) (Univ3PoolState_sqrtPriceX96 state))
                     (pe_tokenDecimals env token0) (pe_tokenDecimals env token1) lookupIsToken0 *
                       pr_price secondary,
                   pr_liquidity = Fin (of_int (Univ3PoolState_liquidity state)) \<rparr>))))))"

definition kodiak_getTotalValue :: "pricing_env \<Rightarrow> price_lookup \<Rightarrow> liquidity_handler \<Rightarrow>
    string list \<Rightarrow> nat \<Rightarrow> bignumber option pm" where
  "kodiak_getTotalValue env lookup h excludedTokens b =
     (if \<not> handlerActive h b then preturn None
      else pbind (sortTokens (lh_tokens h)) (\<lambda>(token0, token1).
        pbind (pread (pe_kodiakBalances env (lh_pool h) b)) (\<lambda>(raw0, raw1).
          (let reserve0 = toDecimal (pe_rnd env) raw0 (pe_tokenDecimals env token0);
               reserve1 = toDecimal (pe_rnd env) raw1 (pe_tokenDecimals env token1);
               excluded = map addr excludedTokens in
           pbind (if token0 \<in> set excluded then preturn ZERO
             else pbind (lookup token0 b (Some (lh_id h))) (\<lambda>lookup0.
               preturn (ZERO + reserve0 * pr_price lookup0))) (\<lambda>total0.
           pbind (if token1 \<in> set excluded then preturn total0
             else pbind (lookup token1 b (Some (lh_id h))) (\<lambda>lookup1.
               preturn (total0 + reserve1 * pr_price lookup1))) (\<lambda>total1.
             preturn (Some total1)))))))"

definition kodiak_getUnitPrice ::
  "pricing_env \<Rightarrow> price_lookup \<Rightarrow> liquidity_handler \<Rightarrow> nat \<Rightarrow> bignumber option pm" where
  "kodiak_getUnitPrice env lookup h b =
     (if \<not> handlerActive h b then preturn None
      else (case supplyRow env (addr (lh_pool h)) of None \<Rightarrow> preturn None
        | Some e \<Rightarrow>
          if Erc20Supply_totalSupply e = 0 then preturn None
          else (let totalSupply = toDecimal (pe_rnd env) (Erc20Supply_totalSupply e)
                  (pe_tokenDecimals env (lh_pool h)) in
            if totalSupply = Fin 0 then preturn None
            else pbind (kodiak_getTotalValue env lookup h [] b) (\<lambda>totalValue.
              preturn (case totalValue of None \<Rightarrow> None
              | Some v \<Rightarrow> if v = Fin 0 then None
                  else Some (bn_div (pe_rnd env) v totalSupply))))))"

definition kodiak_getUnderlyingTokenBalance :: "pricing_env \<Rightarrow> liquidity_handler \<Rightarrow> string \<Rightarrow>
    string \<Rightarrow> nat \<Rightarrow> bignumber pm" where
  "kodiak_getUnderlyingTokenBalance env h wallet tokenAddress b =
     (if \<not> handlerActive h b then preturn ZERO
      else (let lpDecimals = pe_tokenDecimals env (lh_pool h) in
        case supplyRow env (addr (lh_pool h)) of None \<Rightarrow> preturn ZERO
      | Some supplyEntity \<Rightarrow>
        if Erc20Supply_totalSupply supplyEntity = 0 then preturn ZERO
        else (let totalSupply = toDecimal (pe_rnd env) (Erc20Supply_totalSupply supplyEntity)
                lpDecimals in
          if totalSupply = Fin 0 then preturn ZERO
          else (case balanceRow env (addr (nullish (lh_rewardVault h) (lh_pool h))) wallet of
              None \<Rightarrow> preturn ZERO
            | Some e \<Rightarrow>
              if TokenBalance_balance e = 0 then preturn ZERO
              else pbind (pread (pe_kodiakBalances env (lh_pool h) b)) (\<lambda>(raw0, raw1).
                case sort (map addr (lh_tokens h)) of [] \<Rightarrow> preturn ZERO
                | token0 # _ \<Rightarrow>
                  (let walletBalance = toDecimal (pe_rnd env) (TokenBalance_balance e) lpDecimals;
                       reserve = toDecimal (pe_rnd env) (if same tokenAddress token0 then raw0 else raw1)
                         (pe_tokenDecimals env tokenAddress)
                   in preturn (bn_div (pe_rnd env) (reserve * walletBalance) totalSupply)))))))"

end
