(* ===== verification/Pricing.thy ===== *)
theory Pricing
  imports Pricing_Handlers
begin

text \<open>
  The pricing router (\<open>pricing/index.ts\<close>): dispatch on the kind of handler, the selection loop,
  the memoised and cycle-guarded lookups, and the three public functions built on them. The
  recursion runs on fuel, one unit per nested price lookup.
\<close>

section \<open>Dispatch\<close>

definition handler_getPrice :: "pricing_env \<Rightarrow> price_lookup \<Rightarrow> liquidity_handler \<Rightarrow> string \<Rightarrow> nat \<Rightarrow>
    price_result option pm" where
  "handler_getPrice env lookup h t b =
     (case h of
        Stable _ _ _ \<Rightarrow> stable_getPrice h b
      | Remap _ _ _ _ \<Rightarrow> remap_getPrice lookup h b
      | Chainlink _ _ _ _ \<Rightarrow> chainlink_getPrice env h b
      | Gohm _ _ _ _ \<Rightarrow> gohm_getPrice env lookup h b
      | Erc4626 _ _ _ _ _ _ \<Rightarrow> erc4626_getPrice env lookup h b
      | Curve _ _ _ _ _ _ \<Rightarrow> curve_getPrice env lookup h b
      | FraxSwap _ _ _ _ _ _ _ \<Rightarrow> fraxswap_getPrice env lookup h b
      | Univ2 _ _ _ \<Rightarrow> univ2_getPrice env lookup h t b
      | Univ3 _ _ _ \<Rightarrow> univ3_getPrice env lookup h t b
      | Univ3Quoter _ _ _ _ \<Rightarrow> univ3_getPrice env lookup h t b
      | Balancer _ _ _ _ \<Rightarrow> balancer_getPrice env lookup h t b
      | Kodiak _ _ _ _ _ _ \<Rightarrow> kodiak_getPrice env lookup h t b)"

definition handler_getTotalValue :: "pricing_env \<Rightarrow> price_lookup \<Rightarrow> liquidity_handler \<Rightarrow> string list \<Rightarrow>
    nat \<Rightarrow> bignumber option pm" where
  "handler_getTotalValue env lookup h excluded b =
     (case h of
        Stable _ _ _ \<Rightarrow> stable_getTotalValue h b
      | Univ2 _ _ _ \<Rightarrow> univ2_getTotalValue env lookup h excluded b
      | Balancer _ _ _ _ \<Rightarrow> balancer_getTotalValue env lookup h excluded b
      | Kodiak _ _ _ _ _ _ \<Rightarrow> kodiak_getTotalValue env lookup h excluded b
      | _ \<Rightarrow> preturn None)"

definition handler_getUnitPrice ::
  "pricing_env \<Rightarrow> price_lookup \<Rightarrow> liquidity_handler \<Rightarrow> nat \<Rightarrow> bignumber option pm" where
  "handler_getUnitPrice env lookup h b =
     (case h of
        Stable _ _ _ \<Rightarrow> stable_getUnitPrice h b
      | Univ2 _ _ _ \<Rightarrow> univ2_getUnitPrice env lookup h b
      | Balancer _ _ _ _ \<Rightarrow> balancer_getUnitPrice env lookup h b
      | Kodiak _ _ _ _ _ _ \<Rightarrow> kodiak_getUnitPrice env lookup h b
      | _ \<Rightarrow> preturn None)"

definition handler_getUnderlyingTokenBalance ::
  "pricing_env \<Rightarrow> liquidity_handler \<Rightarrow> string \<Rightarrow> string \<Rightarrow> nat \<Rightarrow> bignumber pm" where
  "handler_getUnderlyingTokenBalance env h wallet t b =
     (case h of
        Univ2 _ _ _ \<Rightarrow> univ2_getUnderlyingTokenBalance env h wallet t b
      | Balancer _ _ _ _ \<Rightarrow> balancer_getUnderlyingTokenBalance env h wallet t b
      | Kodiak _ _ _ _ _ _ \<Rightarrow> kodiak_getUnderlyingTokenBalance env h wallet t b
      | _ \<Rightarrow> preturn ZERO)"

section \<open>Selection\<close>

definition underlyingPool :: "liquidity_handler \<Rightarrow> string" where
  "underlyingPool h = (case h of
     Kodiak _ pool _ _ _ _ \<Rightarrow> if pool \<noteq> '''' then toLowerCase pool else toLowerCase (lh_id h)
   | _ \<Rightarrow> toLowerCase (lh_id h))"

definition hasSameTokenSet :: "liquidity_handler \<Rightarrow> liquidity_handler \<Rightarrow> bool" where
  "hasSameTokenSet left right \<longleftrightarrow>
     (if length (lh_tokens left) \<noteq> length (lh_tokens right) then False
      else sort (map toLowerCase (lh_tokens left)) = sort (map toLowerCase (lh_tokens right)))"

text \<open>The guards at the top of the loop body: active, prices the token, is not the pool the
  lookup comes from, and is not a different pool over the same tokens.\<close>

definition eligible :: "string \<Rightarrow> nat \<Rightarrow> string option \<Rightarrow> liquidity_handler option \<Rightarrow>
    liquidity_handler \<Rightarrow> bool" where
  "eligible t b currentPool currentPoolHandler h \<longleftrightarrow>
     handlerActive h b \<and> matches h t \<and> Some (lh_id h) \<noteq> currentPool \<and>
     (case currentPoolHandler of None \<Rightarrow> True
      | Some c \<Rightarrow> \<not> (hasSameTokenSet h c \<and> underlyingPool h \<noteq> underlyingPool c))"

definition selectQuote :: "price_result option \<Rightarrow> price_result option \<Rightarrow> price_result option" where
  "selectQuote selected result = (case result of None \<Rightarrow> selected
     | Some r \<Rightarrow> (case selected of None \<Rightarrow> Some r
         | Some s \<Rightarrow> if bn_gt (pr_liquidity s) (pr_liquidity r) then Some s else Some r))"

fun derive_loop :: "pricing_env \<Rightarrow> price_lookup \<Rightarrow> string \<Rightarrow> nat \<Rightarrow> string option \<Rightarrow>
    liquidity_handler option \<Rightarrow> price_result option \<Rightarrow> liquidity_handler list \<Rightarrow>
    price_result option pm" where
  "derive_loop env lookup t b currentPool currentHandler selected [] = preturn selected"
| "derive_loop env lookup t b currentPool currentHandler selected (h # hs) =
     (if \<not> eligible t b currentPool currentHandler h
      then derive_loop env lookup t b currentPool currentHandler selected hs
      else pbind (handler_getPrice env lookup h t b) (\<lambda>result.
        derive_loop env lookup t b currentPool currentHandler (selectQuote selected result) hs))"

definition derivePrice :: "pricing_env \<Rightarrow> price_lookup \<Rightarrow> string \<Rightarrow> nat \<Rightarrow> string option \<Rightarrow>
    price_result pm" where
  "derivePrice env lookup t b currentPool =
     (let config = pe_config env;
          def = List.find (\<lambda>value. td_address value = toLowerCase t) (cc_tokens config);
          currentHandler = (case currentPool of None \<Rightarrow> None
            | Some p \<Rightarrow> List.find (\<lambda>h. lh_id h = p) (cc_liquidityHandlers config))
      in if (case def of None \<Rightarrow> False | Some d \<Rightarrow> \<not> isActive (td_startBlock d) b)
         then preturn ZERO_RESULT
         else pbind (derive_loop env lookup t b currentPool currentHandler None
             (cc_liquidityHandlers config))
           (\<lambda>selected. preturn (nullish selected ZERO_RESULT)))"

section \<open>Public functions\<close>

definition priceKey :: "pricing_env \<Rightarrow> string \<Rightarrow> nat \<Rightarrow> string option \<Rightarrow> cache_key" where
  "priceKey env t b pool = Price_Key (pe_chain env) b (toLowerCase t) (map_option toLowerCase pool)"

fun getPrice :: "nat \<Rightarrow> pricing_env \<Rightarrow> price_lookup" where
  "getPrice 0 env t b currentPool = (\<lambda>s. None)"
| "getPrice (Suc fuel) env t b currentPool =
     cachedPricingLookup (priceKey env t b currentPool) CPrice asPrice
       (derivePrice env (getPrice fuel env) t b currentPool) ZERO_RESULT"

definition kindOf :: "liquidity_handler \<Rightarrow> string" where
  "kindOf h = (case h of
     Stable _ _ _ \<Rightarrow> ''stable'' | Remap _ _ _ _ \<Rightarrow> ''remap'' | Chainlink _ _ _ _ \<Rightarrow> ''chainlink''
   | Gohm _ _ _ _ \<Rightarrow> ''gohm'' | Erc4626 _ _ _ _ _ _ \<Rightarrow> ''erc4626'' | Curve _ _ _ _ _ _ \<Rightarrow> ''curve''
   | FraxSwap _ _ _ _ _ _ _ \<Rightarrow> ''fraxswap'' | Univ2 _ _ _ \<Rightarrow> ''univ2'' | Univ3 _ _ _ \<Rightarrow> ''univ3''
   | Univ3Quoter _ _ _ _ \<Rightarrow> ''univ3-quoter'' | Balancer _ _ _ _ \<Rightarrow> ''balancer''
   | Kodiak _ _ _ _ _ _ \<Rightarrow> ''kodiak'')"

definition getTotalValue :: "nat \<Rightarrow> pricing_env \<Rightarrow> liquidity_handler \<Rightarrow> string list \<Rightarrow> nat \<Rightarrow>
    bignumber option pm" where
  "getTotalValue fuel env h excludedTokens b =
     cachedPricingLookup
       (TotalValue_Key (pe_chain env) b (kindOf h) (toLowerCase (lh_id h))
         (sort (map toLowerCase excludedTokens)))
       CValue asValue (handler_getTotalValue env (getPrice fuel env) h excludedTokens b) None"

definition getUnitPrice :: "nat \<Rightarrow> pricing_env \<Rightarrow> liquidity_handler \<Rightarrow> nat \<Rightarrow> bignumber option pm" where
  "getUnitPrice fuel env h b =
     cachedPricingLookup (UnitPrice_Key (pe_chain env) b (kindOf h) (toLowerCase (lh_id h)))
       CValue asValue (handler_getUnitPrice env (getPrice fuel env) h b) None"

definition getUnderlyingTokenBalance ::
  "pricing_env \<Rightarrow> liquidity_handler \<Rightarrow> string \<Rightarrow> string \<Rightarrow> nat \<Rightarrow> bignumber pm" where
  "getUnderlyingTokenBalance env h wallet t b = handler_getUnderlyingTokenBalance env h wallet t b"

section \<open>What a handler looks up\<close>

text \<open>The pairs of token and current pool a handler may ask the router for.\<close>

definition handlerLookups :: "pricing_env \<Rightarrow> liquidity_handler \<Rightarrow> (string \<times> string option) set" where
  "handlerLookups env h = (case h of
     Stable _ _ _ \<Rightarrow> {}
   | Remap _ _ _ _ \<Rightarrow> {(lh_target h, Some (lh_id h))}
   | Chainlink _ _ _ _ \<Rightarrow> {}
   | Gohm _ _ _ _ \<Rightarrow> {(lh_ohmToken h, Some (lh_id h))}
   | Erc4626 _ _ _ _ _ _ \<Rightarrow> {(lh_underlying h, Some (lh_id h))}
   | Curve _ _ _ _ _ _ \<Rightarrow> (\<lambda>c. (c, Some (lh_id h))) ` set (lh_coins h)
   | FraxSwap _ _ _ _ _ _ _ \<Rightarrow> {(lh_token0 h, Some (lh_id h)), (lh_token1 h, Some (lh_id h))}
   | Balancer _ _ _ _ \<Rightarrow> (case balancer_getState env h of None \<Rightarrow> {}
       | Some state \<Rightarrow> set (BalancerPoolState_tokens state) \<times> {None, Some (lh_id h)})
   | _ \<Rightarrow> (\<lambda>t. (addr t, Some (lh_id h))) ` set (lh_tokens h))"

definition lookupsReturn :: "cache_key set \<Rightarrow> price_lookup \<Rightarrow> nat \<Rightarrow> (string \<times> string option) set \<Rightarrow> bool" where
  "lookupsReturn F lookup b L \<longleftrightarrow> (\<forall>(t, p) \<in> L. returns F (lookup t b p))"

lemma lookupsReturnD: "lookupsReturn F lookup b L \<Longrightarrow> (t, p) \<in> L \<Longrightarrow> returns F (lookup t b p)"
  by (auto simp: lookupsReturn_def)

lemma returns_sortTokens:
  assumes "\<And>t0 t1. t0 \<in> addr ` set ts \<Longrightarrow> t1 \<in> addr ` set ts \<Longrightarrow> returns F (f (t0, t1))"
  shows "returns F (pbind (sortTokens ts) f)"
proof (cases "\<exists>a b r. sort (map addr ts) = a # b # r")
  case True
  then obtain a b r where abr: "sort (map addr ts) = a # b # r" by blast
  then have "{a, b} \<subseteq> set (sort (map addr ts))" by auto
  then have "returns F (f (a, b))" by (intro assms) auto
  then show ?thesis using abr by (simp add: sortTokens_def)
next
  case False
  then have "sortTokens ts = praise ''TypeError''"
    by (auto simp: sortTokens_def split: list.splits)
  then show ?thesis by (simp add: returns_raise)
qed

lemma returns_curve_loop:
  assumes "\<forall>c \<in> set coins. returns F (lookup c b (Some (lh_id h)))"
  shows "returns F (curve_loop env lookup h b bal i coins acc)"
  using assms
  by (induction coins arbitrary: i acc) (auto intro!: returns_intros)

lemma returns_univ2_loop:
  assumes "\<forall>(t, _) \<in> set ps. returns F (lookup t b pool)"
  shows "returns F (univ2_loop lookup b pool ex ps acc)"
  using assms
  by (induction ps arbitrary: acc) (auto intro!: returns_intros)

lemma returns_balancer_valueLoop:
  assumes "\<forall>t \<in> set ts. returns F (lookup t b None)"
  shows "returns F (balancer_valueLoop env lookup b ex bal i ts acc)"
  using assms
  by (induction ts arbitrary: i acc) (auto intro!: returns_intros)

lemma returns_balancer_spotLoop:
  assumes "\<forall>t \<in> set ts. returns F (lookup t b (Some (lh_id h)))"
  shows "returns F (balancer_spotLoop env lookup h b st w d li i ts)"
  using assms
  by (induction ts arbitrary: i) (auto intro!: returns_intros simp: Let_def)

lemmas getPrice_defs = stable_getPrice_def remap_getPrice_def chainlink_getPrice_def
  gohm_getPrice_def erc4626_getPrice_def curve_getPrice_def fraxswap_getPrice_def
  univ2_getPrice_def univ3_getPrice_def balancer_getPrice_def kodiak_getPrice_def

lemma returns_balancer_getTotalValue:
  assumes "\<And>state. balancer_getState env h = Some state \<Longrightarrow>
    \<forall>t \<in> set (BalancerPoolState_tokens state). returns F (lookup t b None)"
  shows "returns F (balancer_getTotalValue env lookup h ex b)"
  unfolding balancer_getTotalValue_def
  by (intro returns_intros returns_balancer_valueLoop assms)

lemma returns_handler_getPrice:
  assumes L: "lookupsReturn F lookup b (handlerLookups env h)"
  shows "returns F (handler_getPrice env lookup h t b)"
proof (cases h)
  case (Curve i ts lp cs ds sb)
  then have "\<forall>c \<in> set (lh_coins h). returns F (lookup c b (Some (lh_id h)))"
    using L by (auto simp: lookupsReturn_def handlerLookups_def)
  then show ?thesis using Curve
    by (auto simp: handler_getPrice_def curve_getPrice_def
        intro!: returns_intros returns_curve_loop)
next
  case (Univ2 i ts sb)
  have "returns F (lookup t0 b (Some (lh_id h)))" if "t0 \<in> addr ` set (lh_tokens h)" for t0
    using that L Univ2 by (auto simp: lookupsReturn_def handlerLookups_def)
  then show ?thesis using Univ2
    by (auto simp: handler_getPrice_def univ2_getPrice_def Let_def
        intro!: returns_intros returns_sortTokens)
next
  case (Univ3 i ts sb)
  have "returns F (lookup t0 b (Some (lh_id h)))" if "t0 \<in> addr ` set (lh_tokens h)" for t0
    using that L Univ3 by (auto simp: lookupsReturn_def handlerLookups_def)
  then show ?thesis using Univ3
    by (auto simp: handler_getPrice_def univ3_getPrice_def Let_def
        intro!: returns_intros returns_sortTokens)
next
  case (Univ3Quoter i q ts sb)
  have "returns F (lookup t0 b (Some (lh_id h)))" if "t0 \<in> addr ` set (lh_tokens h)" for t0
    using that L Univ3Quoter by (auto simp: lookupsReturn_def handlerLookups_def)
  then show ?thesis using Univ3Quoter
    by (auto simp: handler_getPrice_def univ3_getPrice_def Let_def
        intro!: returns_intros returns_sortTokens)
next
  case (Balancer i v ts sb)
  have l: "\<forall>t \<in> set (BalancerPoolState_tokens state).
      returns F (lookup t b None) \<and> returns F (lookup t b (Some (lh_id h)))"
    if "balancer_getState env h = Some state" for state
    using that L Balancer by (auto simp: lookupsReturn_def handlerLookups_def)
  show ?thesis unfolding handler_getPrice_def Balancer liquidity_handler.case balancer_getPrice_def
    using l Balancer
    by (intro returns_intros returns_balancer_getTotalValue returns_balancer_spotLoop) auto
next
  case (Kodiak i p q rv ts sb)
  have "returns F (lookup t0 b (Some (lh_id h)))" if "t0 \<in> addr ` set (lh_tokens h)" for t0
    using that L Kodiak by (auto simp: lookupsReturn_def handlerLookups_def)
  then show ?thesis using Kodiak
    by (auto simp: handler_getPrice_def kodiak_getPrice_def Let_def
        intro!: returns_intros returns_sortTokens)
qed (use L in \<open>auto simp: handler_getPrice_def getPrice_defs lookupsReturn_def handlerLookups_def
      Let_def intro!: returns_intros\<close>)

lemma returns_handler_getTotalValue:
  assumes L: "lookupsReturn F lookup b (handlerLookups env h)"
  shows "returns F (handler_getTotalValue env lookup h ex b)"
proof (cases h)
  case (Univ2 i ts sb)
  have "returns F (lookup t0 b (Some (lh_id h)))" if "t0 \<in> addr ` set (lh_tokens h)" for t0
    using that L Univ2 by (auto simp: lookupsReturn_def handlerLookups_def)
  then show ?thesis using Univ2
    by (auto simp: handler_getTotalValue_def univ2_getTotalValue_def Let_def
        intro!: returns_intros returns_sortTokens returns_univ2_loop)
next
  case (Balancer i v ts sb)
  have l: "\<forall>t \<in> set (BalancerPoolState_tokens state). returns F (lookup t b None)"
    if "balancer_getState env h = Some state" for state
    using that L Balancer by (auto simp: lookupsReturn_def handlerLookups_def)
  then show ?thesis
    unfolding handler_getTotalValue_def Balancer liquidity_handler.case
    using Balancer by (intro returns_balancer_getTotalValue) simp
next
  case (Kodiak i p q rv ts sb)
  have "returns F (lookup t0 b (Some (lh_id h)))" if "t0 \<in> addr ` set (lh_tokens h)" for t0
    using that L Kodiak by (auto simp: lookupsReturn_def handlerLookups_def)
  then show ?thesis using Kodiak
    by (auto simp: handler_getTotalValue_def kodiak_getTotalValue_def Let_def
        intro!: returns_intros returns_sortTokens)
qed (auto simp: handler_getTotalValue_def stable_getTotalValue_def intro!: returns_intros)

lemma returns_handler_getUnitPrice:
  assumes L: "lookupsReturn F lookup b (handlerLookups env h)"
  shows "returns F (handler_getUnitPrice env lookup h b)"
proof (cases h)
  case (Univ2 i ts sb)
  then have "returns F (univ2_getTotalValue env lookup h [] b)"
    using returns_handler_getTotalValue [OF L, of "[]"] by (simp add: handler_getTotalValue_def)
  then show ?thesis using Univ2
    by (auto simp: handler_getUnitPrice_def univ2_getUnitPrice_def intro!: returns_intros)
next
  case (Balancer i v ts sb)
  then have "returns F (balancer_getTotalValue env lookup h [] b)"
    using returns_handler_getTotalValue [OF L, of "[]"] by (simp add: handler_getTotalValue_def)
  then show ?thesis using Balancer
    by (auto simp: handler_getUnitPrice_def balancer_getUnitPrice_def intro!: returns_intros)
next
  case (Kodiak i p q rv ts sb)
  then have "returns F (kodiak_getTotalValue env lookup h [] b)"
    using returns_handler_getTotalValue [OF L, of "[]"] by (simp add: handler_getTotalValue_def)
  then show ?thesis using Kodiak
    by (auto simp: handler_getUnitPrice_def kodiak_getUnitPrice_def Let_def intro!: returns_intros)
qed (auto simp: handler_getUnitPrice_def stable_getUnitPrice_def intro!: returns_intros)

section \<open>Termination with the cache open\<close>

definition knownLookups :: "pricing_env \<Rightarrow> (string \<times> string option) set" where
  "knownLookups env = (\<Union>h \<in> set (cc_liquidityHandlers (pe_config env)). handlerLookups env h)"

lemma finite_knownLookups: "finite (knownLookups env)"
  unfolding knownLookups_def
  by (intro finite_UN_I) (auto simp: handlerLookups_def split: liquidity_handler.splits option.splits)

lemma returns_derive_loop:
  assumes "\<And>h. h \<in> set hs \<Longrightarrow> returns F (handler_getPrice env lookup h t b)"
  shows "returns F (derive_loop env lookup t b cp ch selected hs)"
  using assms
proof (induction hs arbitrary: selected)
  case (Cons h hs)
  then have "returns F (handler_getPrice env lookup h t b)"
    "\<And>sel. returns F (derive_loop env lookup t b cp ch sel hs)" by auto
  then show ?case by (auto intro!: returns_bind)
qed (simp add: returns_return)

lemma returns_derivePrice:
  assumes "lookupsReturn F lookup b (knownLookups env)"
  shows "returns F (derivePrice env lookup t b cp)"
proof -
  have "returns F (handler_getPrice env lookup h t b)"
    if "h \<in> set (cc_liquidityHandlers (pe_config env))" for h
    using that assms by (intro returns_handler_getPrice) (auto simp: lookupsReturn_def knownLookups_def)
  then show ?thesis unfolding derivePrice_def Let_def
    by (intro returns_intros returns_derive_loop) auto
qed

text \<open>The keys of the prices that handlers can ask for; one of them goes in flight at every level
  of the recursion, so the recursion is never deeper than their number.\<close>

definition knownKeys :: "pricing_env \<Rightarrow> nat \<Rightarrow> cache_key set" where
  "knownKeys env b = (\<lambda>(t, p). priceKey env t b p) ` knownLookups env"

lemma finite_knownKeys: "finite (knownKeys env b)"
  by (simp add: knownKeys_def finite_knownLookups)

lemma returns_getPrice_known:
  assumes "card (knownKeys env b - F) < fuel" "priceKey env t b p \<in> knownKeys env b"
  shows "returns F (getPrice fuel env t b p)"
  using assms
proof (induction fuel arbitrary: F t p)
  case (Suc fuel)
  have "returns (insert (priceKey env t b p) F) (derivePrice env (getPrice fuel env) t b p)"
    if fresh: "priceKey env t b p \<notin> F"
  proof (rule returns_derivePrice)
    have "card (knownKeys env b - insert (priceKey env t b p) F) < card (knownKeys env b - F)"
      using Suc.prems(2) fresh finite_knownKeys by (intro psubset_card_mono) auto
    then have "card (knownKeys env b - insert (priceKey env t b p) F) < fuel"
      using Suc.prems(1) by linarith
    from Suc.IH [OF this] show "lookupsReturn (insert (priceKey env t b p) F) (getPrice fuel env) b
        (knownLookups env)"
      by (force simp: lookupsReturn_def knownKeys_def)
  qed
  then show ?case by (simp add: returns_cached)
qed simp

definition enoughFuel :: "pricing_env \<Rightarrow> nat \<Rightarrow> nat" where
  "enoughFuel env b = card (knownKeys env b) + 2"

lemma returns_known_lookups:
  "card (knownKeys env b) < fuel \<Longrightarrow> lookupsReturn F (getPrice fuel env) b (knownLookups env)"
  unfolding lookupsReturn_def
proof clarify
  fix t p
  assume fuel: "card (knownKeys env b) < fuel" and "(t, p) \<in> knownLookups env"
  then have "priceKey env t b p \<in> knownKeys env b" by (force simp: knownKeys_def)
  moreover have "card (knownKeys env b - F) \<le> card (knownKeys env b)"
    by (intro card_mono finite_knownKeys) auto
  ultimately show "returns F (getPrice fuel env t b p)"
    using fuel by (intro returns_getPrice_known) auto
qed

lemma returns_getPrice: "enoughFuel env b \<le> fuel \<Longrightarrow> returns F (getPrice fuel env t b p)"
proof (cases fuel)
  case (Suc n)
  assume "enoughFuel env b \<le> fuel"
  then have "card (knownKeys env b) < n" using Suc by (simp add: enoughFuel_def)
  then show ?thesis using Suc by (simp add: returns_cached returns_derivePrice returns_known_lookups)
qed (simp add: enoughFuel_def)

section \<open>More fuel never changes an answer\<close>

text \<open>The interface between the handlers and the router's lookup: all a handler may assume of a
  better lookup is that it agrees with the worse one wherever that one returns.\<close>

locale lookup_extension =
  fixes lookup lookup' :: price_lookup and b :: nat
  assumes sub: "extends (lookup t b p) (lookup' t b p)"
begin

lemma extends_curve_loop:
  "extends (curve_loop env lookup h b bal i coins acc) (curve_loop env lookup' h b bal i coins acc)"
  by (induction coins arbitrary: i acc) (auto intro!: extends_intros sub)

lemma extends_univ2_loop:
  "extends (univ2_loop lookup b pool ex ps acc) (univ2_loop lookup' b pool ex ps acc)"
  by (induction ps arbitrary: acc) (auto intro!: extends_intros sub)

lemma extends_balancer_valueLoop:
  "extends (balancer_valueLoop env lookup b ex bal i ts acc)
     (balancer_valueLoop env lookup' b ex bal i ts acc)"
  by (induction ts arbitrary: i acc) (auto intro!: extends_intros sub)

lemma extends_balancer_spotLoop:
  "extends (balancer_spotLoop env lookup h b st w d li i ts)
     (balancer_spotLoop env lookup' h b st w d li i ts)"
  by (induction ts arbitrary: i) (auto simp: Let_def intro!: extends_intros sub)

lemma extends_balancer_getTotalValue:
  "extends (balancer_getTotalValue env lookup h ex b) (balancer_getTotalValue env lookup' h ex b)"
  unfolding balancer_getTotalValue_def
  by (intro extends_intros extends_balancer_valueLoop)

lemma extends_handler_getPrice:
  "extends (handler_getPrice env lookup h t b) (handler_getPrice env lookup' h t b)"
  by (cases h)
    (simp_all only: handler_getPrice_def liquidity_handler.case getPrice_defs,
     (intro extends_intros extends_curve_loop extends_balancer_getTotalValue
        extends_balancer_spotLoop sub)+)

lemma extends_derivePrice:
  "extends (derivePrice env lookup t b cp) (derivePrice env lookup' t b cp)"
proof -
  have "extends (derive_loop env lookup t b cp ch sel hs) (derive_loop env lookup' t b cp ch sel hs)"
    for ch sel hs
    by (induction hs arbitrary: sel) (auto intro!: extends_intros extends_handler_getPrice)
  then show ?thesis unfolding derivePrice_def Let_def by (intro extends_intros)
qed

lemma extends_handler_getTotalValue:
  "extends (handler_getTotalValue env lookup h ex b) (handler_getTotalValue env lookup' h ex b)"
  by (cases h)
    (simp_all only: handler_getTotalValue_def liquidity_handler.case univ2_getTotalValue_def
        kodiak_getTotalValue_def,
     (intro extends_intros extends_univ2_loop extends_balancer_getTotalValue sub)+)

lemma extends_handler_getUnitPrice:
  "extends (handler_getUnitPrice env lookup h b) (handler_getUnitPrice env lookup' h b)"
  by (cases h)
    (simp_all only: handler_getUnitPrice_def liquidity_handler.case univ2_getUnitPrice_def
        balancer_getUnitPrice_def kodiak_getUnitPrice_def univ2_getTotalValue_def
        kodiak_getTotalValue_def,
     (intro extends_intros extends_univ2_loop extends_balancer_getTotalValue sub)+)

end

lemma extends_getPrice: "fuel \<le> fuel' \<Longrightarrow> extends (getPrice fuel env t b p) (getPrice fuel' env t b p)"
proof (induction fuel arbitrary: fuel' t p)
  case (Suc fuel)
  then obtain n where n: "fuel' = Suc n" "fuel \<le> n" by (cases fuel') auto
  then have "extends (getPrice fuel env t' b p') (getPrice n env t' b p')" for t' p'
    using Suc.IH by blast
  then have "lookup_extension (getPrice fuel env) (getPrice n env) b" by unfold_locales
  then show ?case using n
    by (auto intro!: extends_cached lookup_extension.extends_derivePrice)
qed (simp add: extends_def)

interpretation more_fuel: lookup_extension "getPrice fuel env" "getPrice (fuel + k) env" b
  for fuel k env b
  by unfold_locales (simp add: extends_getPrice)

lemma extends_getTotalValue:
  "extends (getTotalValue fuel env h ex b) (getTotalValue (fuel + k) env h ex b)"
  unfolding getTotalValue_def
  by (intro extends_cached more_fuel.extends_handler_getTotalValue)

lemma extends_getUnitPrice:
  "extends (getUnitPrice fuel env h b) (getUnitPrice (fuel + k) env h b)"
  unfolding getUnitPrice_def
  by (intro extends_cached more_fuel.extends_handler_getUnitPrice)

section \<open>An environment in which nothing is configured\<close>

definition blank_pricing_env :: pricing_env where
  "blank_pricing_env = \<lparr> pe_rnd = round20, pe_config = blank_config, pe_store = empty_store,
     pe_chainlink = (\<lambda>_ _ _. Inr 0), pe_erc4626 = (\<lambda>_ _ _ _. Inr None),
     pe_curve = (\<lambda>_ _ _ _ _. Inr ([], 0)), pe_fraxswap = (\<lambda>_ _ _. Inr (0, 0, 0)),
     pe_weights = (\<lambda>_ _. Inr []), pe_decimals = (\<lambda>_ _. Inr 18),
     pe_kodiakBalances = (\<lambda>_ _. Inr (0, 0)) \<rparr>"

end
