(* ===== verification/Pricing_Properties.thy ===== *)
theory Pricing_Properties
  imports Pricing
begin

text \<open>
  What the pricing router guarantees: lookups under an open cache return, a price is the best of
  the quotes, a lookup is computed once per cache, and what cycles do to it.
\<close>

section \<open>Selection as the best of all quotes\<close>

fun quotes :: "pricing_env \<Rightarrow> price_lookup \<Rightarrow> string \<Rightarrow> nat \<Rightarrow> string option \<Rightarrow>
    liquidity_handler option \<Rightarrow> liquidity_handler list \<Rightarrow> price_result list pm" where
  "quotes env lookup t b cp ch [] = preturn []"
| "quotes env lookup t b cp ch (h # hs) =
     (if \<not> eligible t b cp ch h then quotes env lookup t b cp ch hs
      else pbind (handler_getPrice env lookup h t b) (\<lambda>result.
        pbind (quotes env lookup t b cp ch hs) (\<lambda>rest.
          preturn (case result of None \<Rightarrow> rest | Some q \<Rightarrow> q # rest))))"

definition pickQuote :: "price_result option \<Rightarrow> price_result \<Rightarrow> price_result option" where
  "pickQuote selected q = selectQuote selected (Some q)"

definition bestQuote :: "price_result list \<Rightarrow> price_result" where
  "bestQuote qs = nullish (foldl pickQuote None qs) ZERO_RESULT"

lemma derive_loop_quotes:
  "derive_loop env lookup t b cp ch selected hs =
     pbind (quotes env lookup t b cp ch hs) (\<lambda>qs. preturn (foldl pickQuote selected qs))"
proof (induction hs arbitrary: selected)
  case (Cons h hs)
  have "selectQuote selected None = selected" for selected by (simp add: selectQuote_def)
  then have step: "foldl pickQuote selected (case r of None \<Rightarrow> qs | Some q \<Rightarrow> q # qs) =
      foldl pickQuote (selectQuote selected r) qs" for selected r qs
    by (cases r) (simp_all add: pickQuote_def)
  show ?case by (simp add: Cons.IH pbind_assoc step)
qed simp

definition finiteQuotes :: "price_result list \<Rightarrow> bool" where
  "finiteQuotes qs \<longleftrightarrow> (\<forall>q \<in> set qs. pr_liquidity q \<noteq> NaN)"

text \<open>\<open>q\<close> is quoted at position \<open>i\<close>, nothing quoted has more liquidity, and everything quoted
  later has less.\<close>

definition lastBest :: "price_result list \<Rightarrow> nat \<Rightarrow> price_result \<Rightarrow> bool" where
  "lastBest qs i q \<longleftrightarrow> i < length qs \<and> qs ! i = q \<and>
     (\<forall>r \<in> set qs. \<not> bn_gt (pr_liquidity r) (pr_liquidity q)) \<and>
     (\<forall>j. i < j \<and> j < length qs \<longrightarrow> bn_gt (pr_liquidity q) (pr_liquidity (qs ! j)))"

lemma pickQuote_simps:
  "pickQuote None q = Some q"
  "pickQuote (Some p) q = (if bn_gt (pr_liquidity p) (pr_liquidity q) then Some p else Some q)"
  by (simp_all add: pickQuote_def selectQuote_def)

lemma lastBest_foldl:
  "qs \<noteq> [] \<Longrightarrow> finiteQuotes qs \<Longrightarrow> \<exists>i q. foldl pickQuote None qs = Some q \<and> lastBest qs i q"
proof (induction qs rule: rev_nonempty_induct)
  case (single q)
  then show ?case
    by (intro exI [of _ "0 :: nat"] exI [of _ q])
      (auto simp: pickQuote_simps lastBest_def)
next
  case (snoc q qs)
  then obtain i p where p: "foldl pickQuote None qs = Some p" "lastBest qs i p"
    by (auto simp: finiteQuotes_def)
  have nan: "pr_liquidity p \<noteq> NaN" using snoc.prems p(2)
    by (auto simp: finiteQuotes_def lastBest_def)
  show ?case
  proof (cases "bn_gt (pr_liquidity p) (pr_liquidity q)")
    case True
    have "lastBest (qs @ [q]) i p" using p(2) True bn_gt_not_gt [OF True]
      by (auto simp: lastBest_def nth_append less_Suc_eq)
    then show ?thesis using p(1) True by (auto simp: pickQuote_simps)
  next
    case False
    have "\<not> bn_gt (pr_liquidity r) (pr_liquidity q)" if "r \<in> set qs" for r
      using that p(2) False nan bn_not_gt_trans by (auto simp: lastBest_def)
    then have "lastBest (qs @ [q]) (length qs) q" by (auto simp: lastBest_def)
    then show ?thesis using p(1) False by (auto simp: pickQuote_simps)
  qed
qed

text \<open>
  C10: the price of a token is the best of the quotes: no quote at all gives zero; otherwise,
  when no quote has an undefined liquidity, the result is one of the quotes, none has more
  liquidity, and among equals the one configured last wins. A token that is not live yet has
  price zero and nothing is asked.
\<close>

theorem price_is_best_quote:
  "derivePrice env lookup t b cp =
     (if (case List.find (\<lambda>v. td_address v = toLowerCase t) (cc_tokens (pe_config env)) of
            None \<Rightarrow> False | Some d \<Rightarrow> \<not> isActive (td_startBlock d) b)
      then preturn ZERO_RESULT
      else pbind (quotes env lookup t b cp (case cp of None \<Rightarrow> None
          | Some p \<Rightarrow> List.find (\<lambda>h. lh_id h = p) (cc_liquidityHandlers (pe_config env)))
        (cc_liquidityHandlers (pe_config env))) (\<lambda>qs. preturn (bestQuote qs)))
   \<and> bestQuote [] = ZERO_RESULT
   \<and> (qs \<noteq> [] \<and> finiteQuotes qs \<longrightarrow> (\<exists>i. lastBest qs i (bestQuote qs)))"
proof -
  have "\<exists>i. lastBest qs i (bestQuote qs)" if "qs \<noteq> [] \<and> finiteQuotes qs"
    using lastBest_foldl [of qs] that by (auto simp: bestQuote_def)
  then show ?thesis
    by (simp add: derivePrice_def Let_def derive_loop_quotes pbind_assoc bestQuote_def)
qed

definition sample_quotes :: "price_result list" where
  "sample_quotes = [\<lparr> pr_price = Fin 1, pr_liquidity = Fin 0 \<rparr>, \<lparr> pr_price = Fin 2, pr_liquidity = Fin 7 \<rparr>,
     \<lparr> pr_price = Fin 3, pr_liquidity = Fin 7 \<rparr>, \<lparr> pr_price = Fin 4, pr_liquidity = Fin 5 \<rparr>]"

theorem price_is_best_quote_witness:
  "pr_price (bestQuote sample_quotes) = Fin 3 \<and> (\<exists>i. lastBest sample_quotes i (bestQuote sample_quotes))"
  using price_is_best_quote [where qs = sample_quotes]
  by (simp add: sample_quotes_def finiteQuotes_def bestQuote_def pickQuote_def selectQuote_def)

section \<open>Termination\<close>

text \<open>
  C16: with the cache open every price lookup returns, however the pools price each other: fuel
  beyond the number of prices the handlers can ask for changes nothing, and the set of keys in
  flight is what it was. An operation run under \<open>withPricingCache\<close> leaves the surrounding state
  alone.
\<close>

theorem price_lookup_terminates:
  "\<exists>r st'. getPrice (enoughFuel env b + k) env t b p (Some st) = Some (r, Some st')
     \<and> getPrice (enoughFuel env b) env t b p (Some st) = Some (r, Some st')
     \<and> ps_inFlight st' = ps_inFlight st
     \<and> (\<exists>r'. withPricingCache (getPrice (enoughFuel env b + k) env t b p) s = Some (r', s))"
proof -
  obtain r st' where r: "getPrice (enoughFuel env b) env t b p (Some st) = Some (r, Some st')"
    "ps_inFlight st' = ps_inFlight st"
    using returnsD [OF returns_getPrice [OF order_refl], of st "ps_inFlight st"] by blast
  have "getPrice (enoughFuel env b + k) env t b p (Some st) = Some (r, Some st')"
    using extendsD [OF extends_getPrice r(1)] by simp
  moreover obtain r' st0 where "getPrice (enoughFuel env b + k) env t b p
      (Some \<lparr> ps_cache = Map.empty, ps_inFlight = {} \<rparr>) = Some (r', Some st0)"
    using returnsD [OF returns_getPrice [of env b "enoughFuel env b + k" "{}" t p],
        of "\<lparr> ps_cache = Map.empty, ps_inFlight = {} \<rparr>"] by auto
  ultimately show ?thesis using r by (auto simp: withPricingCache_def)
qed

text \<open>
  Pool values and unit prices return as well, with the same fuel.
\<close>

lemma pool_value_terminates:
  assumes "h \<in> set (cc_liquidityHandlers (pe_config env))"
  shows "\<exists>r st' r' st''. getTotalValue (enoughFuel env b) env h ex b (Some st) = Some (r, Some st')
     \<and> getUnitPrice (enoughFuel env b) env h b (Some st) = Some (r', Some st'')
     \<and> ps_inFlight st' = ps_inFlight st \<and> ps_inFlight st'' = ps_inFlight st"
proof -
  have "lookupsReturn F (getPrice (enoughFuel env b) env) b (handlerLookups env h)" for F
    using returns_known_lookups [of env b "enoughFuel env b" F] assms
    by (auto simp: enoughFuel_def lookupsReturn_def knownLookups_def)
  then have "returns F (getTotalValue (enoughFuel env b) env h ex b)"
    "returns F (getUnitPrice (enoughFuel env b) env h b)" for F
    unfolding getTotalValue_def getUnitPrice_def
    by (auto intro!: returns_cached returns_handler_getTotalValue returns_handler_getUnitPrice)
  then show ?thesis using returnsD [of "ps_inFlight st"] by metis
qed

section \<open>Memoisation\<close>

text \<open>
  Within one cache a lookup is computed once. After it has returned a price, the same
  lookup (in any letter case, with any fuel) returns that price again and leaves the cache
  unchanged; a lookup that threw is not remembered.
\<close>

theorem price_memoised:
  assumes "getPrice fuel env t b p (Some st) = Some (r, Some st')"
    and "priceKey env t b p \<notin> ps_inFlight st" "ps_cache st (priceKey env t b p) = None"
    and "same t' t" "map_option toLowerCase p' = map_option toLowerCase p"
  shows "(case r of
      Inr v \<Rightarrow> getPrice (Suc n) env t' b p' (Some st') = Some (Inr v, Some st')
    | Inl e \<Rightarrow> ps_cache st' (priceKey env t b p) = None)"
proof -
  obtain m where m: "fuel = Suc m" using assms(1) by (cases fuel) auto
  have "priceKey env t' b p' = priceKey env t b p"
    using assms(4,5) by (simp add: priceKey_def same_def addr_def)
  then show ?thesis using assms(1-3) m
    by (auto simp: cachedPricingLookup_def split: option.splits sum.splits prod.splits)
qed

section \<open>Unlisted tokens\<close>

text \<open>Without a handler no quote is asked for.\<close>

lemma derivePrice_unlisted:
  assumes "\<forall>h \<in> set (cc_liquidityHandlers (pe_config env)). \<not> matches h t"
  shows "derivePrice env lookup t b p = preturn ZERO_RESULT"
proof -
  have "derive_loop env lookup t b p ch sel hs = preturn sel" if "\<forall>h \<in> set hs. \<not> matches h t"
    for ch sel hs
    using that by (induction hs arbitrary: sel) (simp_all add: eligible_def)
  then show ?thesis using assms by (auto simp: derivePrice_def Let_def)
qed

text \<open>
  A token that no handler lists has price zero, without a single read. The router asks a
  handler only for its listed tokens, so the branch of the Balancer handler that values the
  pool's own LP token is never reached for a pool that does not list that token.
\<close>

theorem unlisted_token_has_no_price:
  assumes "\<forall>h \<in> set (cc_liquidityHandlers (pe_config env)). \<not> matches h t"
  shows "derivePrice env lookup t b p = preturn ZERO_RESULT"
  using assms by (rule derivePrice_unlisted)

end
