(* ===== verification/Pricing_Cycles.thy ===== *)
theory Pricing_Cycles
  imports Pricing_Properties
begin

text \<open>
  Concrete markets in which pools price each other in a cycle: what the cycle guard costs and
  what happens without it. Also the concrete inputs at which the general pricing theorems are
  applied.
\<close>

section \<open>Concrete markets\<close>

text \<open>Three pools over three tokens, of which \<open>b\<close> is also a stable coin: \<open>a\<close> and \<open>c\<close> trade one
  to one, so do \<open>a\<close> and \<open>b\<close>, but the pool of \<open>b\<close> and \<open>c\<close> holds two \<open>c\<close> per \<open>b\<close>.\<close>

definition sample_pool :: "string \<Rightarrow> int \<Rightarrow> int \<Rightarrow> string \<times> Univ2PoolState" where
  "sample_pool p r0 r1 = (id2 1 p, \<lparr> Univ2PoolState_id = id2 1 p, Univ2PoolState_chainId = 1,
     Univ2PoolState_poolAddress = p, Univ2PoolState_reserve0 = r0 * 10 ^ 18,
     Univ2PoolState_reserve1 = r1 * 10 ^ 18, Univ2PoolState_updatedAtBlock = 0 \<rparr>)"

definition cycle_env :: pricing_env where
  "cycle_env = blank_pricing_env \<lparr>
     pe_config := blank_config \<lparr> cc_liquidityHandlers :=
       [Univ2 ''p1'' [''a'', ''c''] None, Univ2 ''p2'' [''a'', ''b''] None,
        Univ2 ''p3'' [''b'', ''c''] None, Stable ''s'' [''b''] None] \<rparr>,
     pe_store := empty_store \<lparr> st_Univ2PoolState :=
       [sample_pool ''p1'' 10 10, sample_pool ''p2'' 10 10, sample_pool ''p3'' 10 20] \<rparr> \<rparr>"

definition openCache :: pstate where
  "openCache = Some \<lparr> ps_cache = Map.empty, ps_inFlight = {} \<rparr>"

definition priceOf :: "((string + price_result) \<times> pstate) option \<Rightarrow> bignumber option" where
  "priceOf r = (case r of Some (Inr q, _) \<Rightarrow> Some (pr_price q) | _ \<Rightarrow> None)"

section \<open>Looking up in a cycle\<close>

abbreviation pool1 :: liquidity_handler where "pool1 \<equiv> Univ2 ''p1'' [''a'', ''c''] None"
abbreviation pool2 :: liquidity_handler where "pool2 \<equiv> Univ2 ''p2'' [''a'', ''b''] None"
abbreviation pool3 :: liquidity_handler where "pool3 \<equiv> Univ2 ''p3'' [''b'', ''c''] None"

lemma cycle_eligible:
  "\<not> eligible ''c'' 5 (Some ''p1'') (Some pool1) pool1"
  "\<not> eligible ''c'' 5 (Some ''p1'') (Some pool1) pool2"
  "eligible ''c'' 5 (Some ''p1'') (Some pool1) pool3"
  "\<not> eligible ''b'' 5 (Some ''p3'') (Some pool3) pool1"
  "eligible ''b'' 5 (Some ''p3'') (Some pool3) pool2"
  "eligible ''a'' 5 (Some ''p2'') (Some pool2) pool1"
  "eligible ''a'' 5 None None pool1"
  by code_simp+

lemma cycle_config:
  "cc_liquidityHandlers (pe_config cycle_env) = [pool1, pool2, pool3, Stable ''s'' [''b''] None]"
  "cc_tokens (pe_config cycle_env) = []"
  by (simp_all add: cycle_env_def blank_config_def blank_pricing_env_def)

lemma cycle_states:
  "univ2_getState cycle_env pool1 \<noteq> None" "univ2_getState cycle_env pool2 \<noteq> None"
  "univ2_getState cycle_env pool3 \<noteq> None"
  by code_simp+

lemma cycle_sorted:
  "sort (map addr [''a'', ''c'']) = [''a'', ''c'']" "sort (map addr [''a'', ''b'']) = [''a'', ''b'']"
  "sort (map addr [''b'', ''c'']) = [''b'', ''c'']"
  by code_simp+

lemma cycle_sortTokens:
  "sortTokens [''a'', ''c''] = preturn (''a'', ''c'')"
  "sortTokens [''a'', ''b''] = preturn (''a'', ''b'')"
  "sortTokens [''b'', ''c''] = preturn (''b'', ''c'')"
  by (simp_all only: sortTokens_def cycle_sorted list.case)

lemma cycle_same: "same ''c'' ''b'' = False" "same ''b'' ''a'' = False" "same ''a'' ''a'' = True"
  by code_simp+

lemma pbind_None: "m s = None \<Longrightarrow> pbind m f s = None"
  by (simp add: pbind_def)

lemmas cycle_step = derivePrice_def cycle_config cycle_eligible handler_getPrice_def
  univ2_getPrice_def handlerActive_def isActive_def cycle_sortTokens cycle_same Let_def

lemma cycle_steps:
  "L ''b'' 5 (Some ''p3'') None = None \<Longrightarrow> derivePrice cycle_env L ''c'' 5 (Some ''p1'') None = None"
  "L ''a'' 5 (Some ''p2'') None = None \<Longrightarrow> derivePrice cycle_env L ''b'' 5 (Some ''p3'') None = None"
  "L ''c'' 5 (Some ''p1'') None = None \<Longrightarrow> derivePrice cycle_env L ''a'' 5 (Some ''p2'') None = None"
  "L ''c'' 5 (Some ''p1'') None = None \<Longrightarrow> derivePrice cycle_env L ''a'' 5 None None = None"
  using cycle_states by (auto simp: cycle_step intro!: pbind_None)

text \<open>
  The cache is what makes pricing terminate. Without it, the lookup of \<open>a\<close> in this market
  runs through the three pools for ever: no amount of fuel is enough.
\<close>

theorem uncached_lookup_diverges: "getPrice fuel cycle_env ''a'' 5 None None = None"
proof -
  have "getPrice n cycle_env ''c'' 5 (Some ''p1'') None = None
      \<and> getPrice n cycle_env ''b'' 5 (Some ''p3'') None = None
      \<and> getPrice n cycle_env ''a'' 5 (Some ''p2'') None = None" for n
    by (induction n) (simp_all add: cachedPricingLookup_def cycle_steps)
  then show ?thesis by (cases fuel) (simp_all add: cachedPricingLookup_def cycle_steps)
qed

lemma priceOf_extends:
  "priceOf (m s) = Some q \<Longrightarrow> extends m m' \<Longrightarrow> priceOf (m' s) = Some q"
  by (auto simp: priceOf_def split: option.splits prod.splits sum.splits dest: extendsD)

lemma cycle_fresh: "priceOf (getPrice 10 cycle_env ''b'' 5 None openCache) = Some (Fin 2)"
  by code_simp

lemma cycle_after: "priceOf (pbind (getPrice 10 cycle_env ''c'' 5 None)
    (\<lambda>_. getPrice 10 cycle_env ''b'' 5 None) openCache) = Some (Fin 1)"
  by code_simp


section \<open>The general theorems at concrete inputs\<close>

theorem price_memoised_witness:
  "\<exists>v st'. getPrice 10 cycle_env ''b'' 5 None openCache = Some (Inr v, Some st')
     \<and> getPrice 1 cycle_env ''B'' 5 None (Some st') = Some (Inr v, Some st')"
proof -
  obtain v s where run: "getPrice 10 cycle_env ''b'' 5 None openCache = Some (Inr v, s)"
    using cycle_fresh by (auto simp: priceOf_def split: option.splits prod.splits sum.splits)
  then obtain st' where s: "s = Some st'"
    by (cases s) (auto simp: openCache_def numeral_eq_Suc cachedPricingLookup_def
        split: option.splits sum.splits prod.splits)
  have "same ''B'' ''b''" by code_simp
  from price_memoised [OF run [unfolded openCache_def s], of "''B''" None 0] this run s
  show ?thesis by simp
qed

text \<open>A Balancer pool whose own LP token (the first twenty bytes of the pool id) is asked for.\<close>

definition bpt_pool_id :: string where
  "bpt_pool_id = ''0x'' @ replicate 64 (CHR ''1'')"

definition bpt_token :: string where
  "bpt_token = ''0x'' @ replicate 40 (CHR ''1'')"

definition bpt_env :: pricing_env where
  "bpt_env = blank_pricing_env \<lparr>
     pe_config := blank_config \<lparr> cc_liquidityHandlers :=
       [Balancer bpt_pool_id ''0xva'' [''a'', ''b''] None, Stable ''s'' [''a'', ''b''] None] \<rparr>,
     pe_store := empty_store \<lparr>
       st_BalancerPoolState := [(id2 1 bpt_pool_id, \<lparr> BalancerPoolState_id = id2 1 bpt_pool_id,
         BalancerPoolState_chainId = 1, BalancerPoolState_poolId = bpt_pool_id,
         BalancerPoolState_tokens = [''a'', ''b''],
         BalancerPoolState_balances = [30 * 10 ^ 18, 10 * 10 ^ 18],
         BalancerPoolState_updatedAtBlock = 0 \<rparr>)],
       st_Erc20Supply := [(id2 1 bpt_token, \<lparr> Erc20Supply_id = id2 1 bpt_token,
         Erc20Supply_chainId = 1, Erc20Supply_tokenAddress = bpt_token,
         Erc20Supply_totalSupply = 20 * 10 ^ 18, Erc20Supply_updatedAtBlock = 0 \<rparr>)] \<rparr> \<rparr>"

lemma bpt_not_listed:
  "\<forall>h \<in> set (cc_liquidityHandlers (pe_config bpt_env)). \<not> matches h bpt_token"
  by code_simp

lemma bpt_handler_quote: "(case balancer_getPrice bpt_env (\<lambda>t b p. preturn
    \<lparr> pr_price = Fin 1, pr_liquidity = Fin 0 \<rparr>) (Balancer bpt_pool_id ''0xva'' [''a'', ''b''] None)
    bpt_token 5 None of Some (Inr (Some q), _) \<Rightarrow> Some (pr_price q) | _ \<Rightarrow> None) = Some (Fin 2)"
  by code_simp

theorem unlisted_token_has_no_price_witness:
  "\<forall>lookup. derivePrice bpt_env lookup bpt_token 5 None = preturn ZERO_RESULT"
  by (rule allI, rule unlisted_token_has_no_price) (rule bpt_not_listed)

end
