(* ===== verification/Global_Metrics.thy ===== *)
theory Global_Metrics
  imports Records "HOL-Library.AList"
begin

text \<open>
  Supply and treasury totals (\<open>snapshot/global.ts\<close>): the per-chain aggregate of a chain's rows,
  the aggregate over chains, the derived ratios and the APY. A JavaScript \<open>Map\<close> is an
  association list with \<open>AList.update\<close>, which keeps the insertion order as \<open>Map.set\<close> does.
\<close>

section \<open>Category names and thresholds\<close>

definition TYPE_TOTAL_SUPPLY :: string where "TYPE_TOTAL_SUPPLY = ''Total Supply''"
definition TYPE_TREASURY :: string where "TYPE_TREASURY = ''Treasury''"
definition TYPE_OFFSET :: string where "TYPE_OFFSET = ''OHM Migration Offset''"
definition TYPE_BONDS_PREMINTED :: string where "TYPE_BONDS_PREMINTED = ''Bonds (Pre-Minted)''"
definition TYPE_BONDS_VESTING_DEPOSITS :: string where
  "TYPE_BONDS_VESTING_DEPOSITS = ''Bonds (Vesting Deposits)''"
definition TYPE_BONDS_VESTING_TOKENS :: string where
  "TYPE_BONDS_VESTING_TOKENS = ''Bonds (Vesting Tokens)''"
definition TYPE_BONDS_DEPOSITS :: string where "TYPE_BONDS_DEPOSITS = ''Bonds (Deposits)''"
definition TYPE_LIQUIDITY :: string where "TYPE_LIQUIDITY = ''Liquidity''"
definition TYPE_BLV :: string where "TYPE_BLV = ''Boosted Liquidity Vault''"
definition TYPE_LENDING :: string where "TYPE_LENDING = ''Lending''"

lemmas type_names = TYPE_TOTAL_SUPPLY_def TYPE_TREASURY_def TYPE_OFFSET_def
  TYPE_BONDS_PREMINTED_def TYPE_BONDS_VESTING_DEPOSITS_def TYPE_BONDS_VESTING_TOKENS_def
  TYPE_BONDS_DEPOSITS_def TYPE_LIQUIDITY_def TYPE_BLV_def TYPE_LENDING_def

definition ETHEREUM_BLV_INCLUSION_BLOCK :: nat where
  "ETHEREUM_BLV_INCLUSION_BLOCK = 17620000"
definition BUYBACK_MS :: string where
  "BUYBACK_MS = ''0xf7deb867e65306be0cb33918ac1b8f89a72109db''"
definition BUYBACK_MS_INCLUSION_BLOCK :: nat where "BUYBACK_MS_INCLUSION_BLOCK = 20514801"
definition OHM_CATEGORY :: string where "OHM_CATEGORY = ''OHM''"

section \<open>The aggregate of one chain\<close>

text \<open>The test \<open>!record.block\<close> of the code never fires: the block of a row is printed from a
  number, so its string is not empty.\<close>

definition isBuybackRecord :: "token_record \<Rightarrow> bool" where
  "isBuybackRecord r = (if tr_block r < BUYBACK_MS_INCLUSION_BLOCK then False
     else toLowerCase (tr_sourceAddress r) = BUYBACK_MS)"

definition isOhmRecord :: "token_record \<Rightarrow> bool" where
  "isOhmRecord r \<longleftrightarrow> tr_category r = OHM_CATEGORY"

record bucket =
  bk_balance :: bignumber
  bk_supplyBalance :: bignumber

type_synonym categories = "(string \<times> bucket) list"

record per_chain =
  pc_chainId :: nat
  pc_blockchain :: string
  pc_date :: string
  pc_block :: nat
  pc_timestamp :: nat
  pc_ohmTotalSupply :: bignumber
  pc_ohmCirculatingSupply :: bignumber
  pc_ohmFloatingSupply :: bignumber
  pc_ohmBackedSupply :: bignumber
  pc_treasuryMarketValue :: bignumber
  pc_treasuryLiquidBacking :: bignumber
  pc_supplyCategories :: categories

fun addRecord :: "bignumber \<times> bignumber \<Rightarrow> token_record \<Rightarrow> bignumber \<times> bignumber" where
  "addRecord (mv, lb) r =
     (if isOhmRecord r then (if isBuybackRecord r then mv + tr_value r else mv, lb)
      else (mv + tr_value r, if tr_isLiquid r then lb + tr_valueExcludingOhm r else lb))"

definition bucketOf :: "categories \<Rightarrow> string \<Rightarrow> bucket" where
  "bucketOf cats type = nullish (map_of cats type) \<lparr> bk_balance = ZERO, bk_supplyBalance = ZERO \<rparr>"

definition addBucket :: "categories \<Rightarrow> string \<times> bucket \<Rightarrow> categories" where
  "addBucket cats = (\<lambda>(type, b). AList.update type
     \<lparr> bk_balance = bk_balance (bucketOf cats type) + bk_balance b,
       bk_supplyBalance = bk_supplyBalance (bucketOf cats type) + bk_supplyBalance b \<rparr> cats)"

definition addSupply :: "categories \<Rightarrow> token_supply \<Rightarrow> categories" where
  "addSupply cats s = addBucket cats
     (ts_type s, \<lparr> bk_balance = ts_balance s, bk_supplyBalance = ts_supplyBalance s \<rparr>)"

definition supplyOf :: "categories \<Rightarrow> string \<Rightarrow> bignumber" where
  "supplyOf cats type = (case map_of cats type of None \<Rightarrow> ZERO | Some b \<Rightarrow> bk_supplyBalance b)"

definition circulatingTypes :: "string list" where
  "circulatingTypes = [TYPE_TOTAL_SUPPLY, TYPE_TREASURY, TYPE_OFFSET, TYPE_BONDS_PREMINTED,
     TYPE_BONDS_VESTING_DEPOSITS, TYPE_BONDS_DEPOSITS]"

definition backedTypes :: "string list" where
  "backedTypes = [TYPE_TOTAL_SUPPLY, TYPE_TREASURY, TYPE_OFFSET, TYPE_BONDS_PREMINTED,
     TYPE_BONDS_VESTING_DEPOSITS, TYPE_BONDS_DEPOSITS, TYPE_LIQUIDITY, TYPE_BLV, TYPE_LENDING]"

definition isPreBlvInclusion :: "nat \<Rightarrow> nat \<Rightarrow> bool" where
  "isPreBlvInclusion chainId block \<longleftrightarrow>
     chainId = ETHEREUM_ID \<and> block < ETHEREUM_BLV_INCLUSION_BLOCK"

definition computePerChainAggregate :: "nat \<Rightarrow> string \<Rightarrow> string \<Rightarrow> nat \<Rightarrow> nat \<Rightarrow>
    token_record list \<Rightarrow> token_supply list \<Rightarrow> per_chain" where
  "computePerChainAggregate chainId blockchain date block timestamp records supplies =
     (let (treasuryMarketValue, treasuryLiquidBacking) = foldl addRecord (ZERO, ZERO) records;
          supplyCategories = foldl addSupply [] supplies;
          circulating = foldl (\<lambda>acc type. acc + supplyOf supplyCategories type) ZERO
            circulatingTypes;
          ohmCirculatingSupply = (if isPreBlvInclusion chainId block
            then circulating + supplyOf supplyCategories TYPE_BLV else circulating)
      in \<lparr> pc_chainId = chainId, pc_blockchain = blockchain, pc_date = date, pc_block = block,
           pc_timestamp = timestamp,
           pc_ohmTotalSupply = supplyOf supplyCategories TYPE_TOTAL_SUPPLY,
           pc_ohmCirculatingSupply = ohmCirculatingSupply,
           pc_ohmFloatingSupply = ohmCirculatingSupply + supplyOf supplyCategories TYPE_LIQUIDITY,
           pc_ohmBackedSupply = foldl (\<lambda>acc type. acc + supplyOf supplyCategories type) ZERO
             backedTypes,
           pc_treasuryMarketValue = treasuryMarketValue,
           pc_treasuryLiquidBacking = treasuryLiquidBacking,
           pc_supplyCategories = supplyCategories \<rparr>)"

section \<open>The aggregate over chains\<close>

record cross_chain =
  xc_date :: string
  xc_ohmTotalSupply :: bignumber
  xc_ohmCirculatingSupply :: bignumber
  xc_ohmFloatingSupply :: bignumber
  xc_ohmBackedSupply :: bignumber
  xc_treasuryMarketValue :: bignumber
  xc_treasuryLiquidBacking :: bignumber
  xc_supplyCategories :: categories
  xc_chainsIndexed :: "nat list"
  xc_chainsMissing :: "nat list"
  xc_crossChainComplete :: bool

definition REQUIRED_CHAINS_FOR_COMPLETE :: "nat list" where
  "REQUIRED_CHAINS_FOR_COMPLETE = [ARBITRUM_ID, ETHEREUM_ID]"

definition ALL_CHAIN_IDS :: "nat list" where
  "ALL_CHAIN_IDS = [ARBITRUM_ID, ETHEREUM_ID, FANTOM_ID, POLYGON_ID, BASE_ID, BERACHAIN_ID]"

definition addChain :: "cross_chain \<Rightarrow> per_chain \<Rightarrow> cross_chain" where
  "addChain acc c = acc \<lparr>
     xc_ohmTotalSupply := xc_ohmTotalSupply acc + pc_ohmTotalSupply c,
     xc_ohmCirculatingSupply := xc_ohmCirculatingSupply acc + pc_ohmCirculatingSupply c,
     xc_ohmFloatingSupply := xc_ohmFloatingSupply acc + pc_ohmFloatingSupply c,
     xc_ohmBackedSupply := xc_ohmBackedSupply acc + pc_ohmBackedSupply c,
     xc_treasuryMarketValue := xc_treasuryMarketValue acc + pc_treasuryMarketValue c,
     xc_treasuryLiquidBacking := xc_treasuryLiquidBacking acc + pc_treasuryLiquidBacking c,
     xc_supplyCategories := foldl addBucket (xc_supplyCategories acc) (pc_supplyCategories c) \<rparr>"

definition aggregateAcrossChains :: "string \<Rightarrow> per_chain list \<Rightarrow> cross_chain" where
  "aggregateAcrossChains date perChain =
     (let chainsIndexed = map pc_chainId perChain;
          totals = foldl addChain
            \<lparr> xc_date = date, xc_ohmTotalSupply = ZERO, xc_ohmCirculatingSupply = ZERO,
              xc_ohmFloatingSupply = ZERO, xc_ohmBackedSupply = ZERO,
              xc_treasuryMarketValue = ZERO, xc_treasuryLiquidBacking = ZERO,
              xc_supplyCategories = [], xc_chainsIndexed = [], xc_chainsMissing = [],
              xc_crossChainComplete = False \<rparr> perChain
      in totals \<lparr> xc_chainsIndexed := chainsIndexed,
           xc_chainsMissing := filter (\<lambda>c. c \<notin> set chainsIndexed) ALL_CHAIN_IDS,
           xc_crossChainComplete :=
             list_all (\<lambda>c. c \<in> set chainsIndexed) REQUIRED_CHAINS_FOR_COMPLETE \<rparr>)"

section \<open>Ratios and APY\<close>

record derived_ratios =
  dr_marketCap :: bignumber
  dr_gOhmBackedSupply :: bignumber
  dr_liquidBackingPerOhmFloating :: bignumber
  dr_liquidBackingPerOhmBacked :: bignumber
  dr_liquidBackingPerGOhmBacked :: bignumber

definition computeDerivedRatios ::
  "rounding \<Rightarrow> cross_chain \<Rightarrow> bignumber \<Rightarrow> bignumber \<Rightarrow> derived_ratios" where
  "computeDerivedRatios rnd aggregate ohmPrice ohmIndex =
     (let gOhmBackedSupply =
            (if xc_ohmBackedSupply aggregate = Fin 0 \<or> ohmIndex = Fin 0 then ZERO
             else bn_div rnd (xc_ohmBackedSupply aggregate) ohmIndex);
          guarded = (\<lambda>d. if d = Fin 0 then ZERO
             else bn_div rnd (xc_treasuryLiquidBacking aggregate) d)
      in \<lparr> dr_marketCap = ohmPrice * xc_ohmCirculatingSupply aggregate,
           dr_gOhmBackedSupply = gOhmBackedSupply,
           dr_liquidBackingPerOhmFloating = guarded (xc_ohmFloatingSupply aggregate),
           dr_liquidBackingPerOhmBacked = guarded (xc_ohmBackedSupply aggregate),
           dr_liquidBackingPerGOhmBacked = guarded gOhmBackedSupply \<rparr>)"

text \<open>
  The compounding \<open>Number(r.toString()) ** (365 * 3) - 1\<close> runs on floating-point numbers, and
  the language leaves the power implementation-approximated: it is the parameter \<open>compound\<close>,
  from the printed ratio to the decimal value of the difference.
\<close>

definition computeApy :: "rounding \<Rightarrow> (bignumber \<Rightarrow> bignumber) \<Rightarrow> bignumber \<Rightarrow> bignumber \<Rightarrow>
    bignumber \<times> bignumber" where
  "computeApy rnd compound distributedOhm sOhmCirculatingSupply =
     (if sOhmCirculatingSupply = Fin 0 \<or> distributedOhm = Fin 0 then (ZERO, ZERO)
      else (let nextEpochRebase = bn_div rnd distributedOhm sOhmCirculatingSupply * Fin 100;
                rebaseRatio = bn_div rnd nextEpochRebase (Fin 100) + Fin 1
            in (nextEpochRebase, compound rebaseRatio * Fin 100)))"

section \<open>Sums behind the loops\<close>

definition countsToMarketValue :: "token_record \<Rightarrow> bool" where
  "countsToMarketValue r \<longleftrightarrow> \<not> isOhmRecord r \<or> isBuybackRecord r"

definition countsToLiquidBacking :: "token_record \<Rightarrow> bool" where
  "countsToLiquidBacking r \<longleftrightarrow> \<not> isOhmRecord r \<and> tr_isLiquid r"

definition supplySum :: "string \<Rightarrow> token_supply list \<Rightarrow> bignumber" where
  "supplySum type supplies = sum_list (map ts_supplyBalance (filter (\<lambda>s. ts_type s = type) supplies))"

definition recordSum :: "(token_record \<Rightarrow> bool) \<Rightarrow> (token_record \<Rightarrow> bignumber) \<Rightarrow>
    token_record list \<Rightarrow> bignumber" where
  "recordSum P f records = sum_list (map f (filter P records))"

interpretation market_value: tally "\<lambda>acc (_ :: unit). fst acc" addRecord
  "\<lambda>r _. if countsToMarketValue r then tr_value r else 0"
  by unfold_locales (auto simp: countsToMarketValue_def)

interpretation liquid_backing: tally "\<lambda>acc (_ :: unit). snd acc" addRecord
  "\<lambda>r _. if countsToLiquidBacking r then tr_valueExcludingOhm r else 0"
  by unfold_locales (auto simp: countsToLiquidBacking_def)

lemma foldl_addRecord:
  "foldl addRecord (0, 0) records =
     (recordSum countsToMarketValue tr_value records,
      recordSum countsToLiquidBacking tr_valueExcludingOhm records)"
  using market_value.total_run [of "(0, 0)" records]
    liquid_backing.total_run [of "(0, 0)" records]
  by (simp add: prod_eq_iff recordSum_def sum_list_if_filter flip: bn_zero)

lemma bucketOf_addBucket:
  "bucketOf (addBucket cats (type, b)) type' = (if type' = type
     then \<lparr> bk_balance = bk_balance (bucketOf cats type) + bk_balance b,
            bk_supplyBalance = bk_supplyBalance (bucketOf cats type) + bk_supplyBalance b \<rparr>
     else bucketOf cats type')"
  by (simp add: addBucket_def bucketOf_def update_conv')

lemma supplyOf_bucketOf: "supplyOf cats type = bk_supplyBalance (bucketOf cats type)"
  by (simp add: supplyOf_def bucketOf_def split: option.splits)

interpretation category_supply: tally supplyOf addSupply
  "\<lambda>s type. if ts_type s = type then ts_supplyBalance s else 0"
  by unfold_locales (auto simp: supplyOf_bucketOf addSupply_def bucketOf_addBucket)

interpretation category_bucket: tally supplyOf addBucket
  "\<lambda>tb type. if fst tb = type then bk_supplyBalance (snd tb) else 0"
  by unfold_locales (auto simp: supplyOf_bucketOf bucketOf_addBucket split: prod.splits)

lemma supplyOf_Nil [simp]: "supplyOf [] type = 0"
  by (simp add: supplyOf_def ZERO_def)

lemma supplyOf_run: "supplyOf (foldl addSupply [] supplies) type = supplySum type supplies"
  by (simp add: category_supply.total_run supplySum_def sum_list_if_filter flip: bn_zero)

lemma supplyOf_fun: "supplyOf (foldl addSupply [] supplies) = (\<lambda>type. supplySum type supplies)"
  by (rule ext) (rule supplyOf_run)

lemma distinct_addBucket: "distinct (map fst cats) \<Longrightarrow> distinct (map fst (addBucket cats tb))"
  by (auto simp: addBucket_def distinct_update split: prod.splits)

lemma distinct_categories:
  "distinct (map fst cats) \<Longrightarrow> distinct (map fst (foldl addSupply cats supplies))"
  by (induction supplies arbitrary: cats) (simp_all add: addSupply_def distinct_addBucket)

lemma supplyOf_merge:
  assumes "distinct (map fst b)"
  shows "supplyOf (foldl addBucket a b) type = supplyOf a type + supplyOf b type"
proof -
  have "(\<Sum>tb\<leftarrow>b. if fst tb = type then bk_supplyBalance (snd tb) else 0) = supplyOf b type"
    using assms
  proof (induction b)
    case (Cons tb b)
    have "supplyOf b (fst tb) = 0"
      using Cons.prems by (simp add: supplyOf_def ZERO_def split: option.splits)
        (metis fst_conv image_eqI map_of_SomeD)
    with Cons show ?case by (cases tb) (auto simp: supplyOf_def)
  qed simp
  then show ?thesis by (simp add: category_bucket.total_run)
qed

lemma aggregate_fields:
  fixes c bl d b t records supplies
  defines "a \<equiv> computePerChainAggregate c bl d b t records supplies"
  shows "pc_ohmTotalSupply a = supplySum TYPE_TOTAL_SUPPLY supplies"
    "pc_ohmCirculatingSupply a = (\<Sum>type\<leftarrow>circulatingTypes. supplySum type supplies) +
       (if isPreBlvInclusion c b then supplySum TYPE_BLV supplies else 0)"
    "pc_ohmFloatingSupply a = pc_ohmCirculatingSupply a + supplySum TYPE_LIQUIDITY supplies"
    "pc_ohmBackedSupply a = (\<Sum>type\<leftarrow>backedTypes. supplySum type supplies)"
    "pc_treasuryMarketValue a = recordSum countsToMarketValue tr_value records"
    "pc_treasuryLiquidBacking a = recordSum countsToLiquidBacking tr_valueExcludingOhm records"
    "pc_chainId a = c" "pc_date a = d" "pc_block a = b"
    "supplyOf (pc_supplyCategories a) type = supplySum type supplies"
    "distinct (map fst (pc_supplyCategories a))"
  by (simp_all add: a_def computePerChainAggregate_def Let_def foldl_addRecord supplyOf_fun
      foldl_plus_sum_list ZERO_def distinct_categories flip: bn_zero)

lemma foldl_addChain:
  "xc_ohmTotalSupply (foldl addChain acc cs) = xc_ohmTotalSupply acc + (\<Sum>c\<leftarrow>cs. pc_ohmTotalSupply c)"
  "xc_ohmCirculatingSupply (foldl addChain acc cs) =
     xc_ohmCirculatingSupply acc + (\<Sum>c\<leftarrow>cs. pc_ohmCirculatingSupply c)"
  "xc_ohmFloatingSupply (foldl addChain acc cs) =
     xc_ohmFloatingSupply acc + (\<Sum>c\<leftarrow>cs. pc_ohmFloatingSupply c)"
  "xc_ohmBackedSupply (foldl addChain acc cs) =
     xc_ohmBackedSupply acc + (\<Sum>c\<leftarrow>cs. pc_ohmBackedSupply c)"
  "xc_treasuryMarketValue (foldl addChain acc cs) =
     xc_treasuryMarketValue acc + (\<Sum>c\<leftarrow>cs. pc_treasuryMarketValue c)"
  "xc_treasuryLiquidBacking (foldl addChain acc cs) =
     xc_treasuryLiquidBacking acc + (\<Sum>c\<leftarrow>cs. pc_treasuryLiquidBacking c)"
  "xc_date (foldl addChain acc cs) = xc_date acc"
  by (induction cs arbitrary: acc) (simp_all add: addChain_def ac_simps flip: bn_zero)

lemma foldl_addChain_categories:
  assumes "\<forall>c \<in> set cs. distinct (map fst (pc_supplyCategories c))"
  shows "supplyOf (xc_supplyCategories (foldl addChain acc cs)) type =
    supplyOf (xc_supplyCategories acc) type + (\<Sum>c\<leftarrow>cs. supplyOf (pc_supplyCategories c) type)"
  using assms
  by (induction cs arbitrary: acc) (simp_all add: addChain_def supplyOf_merge ac_simps flip: bn_zero)

section \<open>Properties\<close>


text \<open>
  The three supply notions differ exactly by the documented categories. Floating supply is
  circulating supply plus liquidity; backed supply is floating supply plus lending, plus the
  boosted-liquidity vaults where circulating supply leaves them out (every chain but Ethereum,
  and Ethereum from block 17,620,000 on). So backed supply itself does not depend on that
  switch.
\<close>

theorem supply_notions_related:
  fixes chainId blockchain date block timestamp records supplies
  defines "a \<equiv> computePerChainAggregate chainId blockchain date block timestamp records supplies"
  shows "pc_ohmFloatingSupply a = pc_ohmCirculatingSupply a + supplySum TYPE_LIQUIDITY supplies
    \<and> pc_ohmBackedSupply a = pc_ohmFloatingSupply a + supplySum TYPE_LENDING supplies
        + (if chainId = ETHEREUM_ID \<and> block < 17620000 then Fin 0 else supplySum TYPE_BLV supplies)
    \<and> pc_ohmCirculatingSupply a = (\<Sum>type\<leftarrow>circulatingTypes. supplySum type supplies)
        + (if chainId = ETHEREUM_ID \<and> block < 17620000 then supplySum TYPE_BLV supplies else Fin 0)"
proof -
  have pre: "isPreBlvInclusion chainId block \<longleftrightarrow> chainId = ETHEREUM_ID \<and> block < 17620000"
    by (simp add: isPreBlvInclusion_def ETHEREUM_BLV_INCLUSION_BLOCK_def)
  show ?thesis
    by (simp add: a_def aggregate_fields pre circulatingTypes_def backedTypes_def ac_simps
        flip: bn_zero)
qed

text \<open>The aggregate does not depend on the order in which the rows are read.\<close>

theorem per_chain_aggregate_order:
  assumes "mset records = mset records'" "mset supplies = mset supplies'"
  shows "(let a = computePerChainAggregate c bl d b t records supplies;
              a' = computePerChainAggregate c bl d b t records' supplies'
    in pc_ohmTotalSupply a = pc_ohmTotalSupply a'
      \<and> pc_ohmCirculatingSupply a = pc_ohmCirculatingSupply a'
      \<and> pc_ohmFloatingSupply a = pc_ohmFloatingSupply a'
      \<and> pc_ohmBackedSupply a = pc_ohmBackedSupply a'
      \<and> pc_treasuryMarketValue a = pc_treasuryMarketValue a'
      \<and> pc_treasuryLiquidBacking a = pc_treasuryLiquidBacking a')"
proof -
  have s: "supplySum type supplies = supplySum type supplies'" for type
    using category_supply.total_run_perm [OF assms(2), of "[]" type] by (simp add: supplyOf_run)
  have "foldl addRecord (0, 0) records = foldl addRecord (0, 0) records'"
    using market_value.total_run_perm [OF assms(1), of "(0, 0)"]
      liquid_backing.total_run_perm [OF assms(1), of "(0, 0)"] by (simp add: prod_eq_iff)
  then have r: "recordSum countsToMarketValue tr_value records =
      recordSum countsToMarketValue tr_value records'"
    "recordSum countsToLiquidBacking tr_valueExcludingOhm records =
      recordSum countsToLiquidBacking tr_valueExcludingOhm records'"
    by (simp_all only: foldl_addRecord prod.inject)
  show ?thesis by (simp add: Let_def aggregate_fields s r)
qed

definition sample_supply :: "nat \<Rightarrow> rat \<Rightarrow> token_supply" where
  "sample_supply c v = \<lparr> ts_id = '''', ts_chainId = c, ts_blockchain = ''chain'', ts_block = 20000000,
     ts_timestamp = 0, ts_date = ''2024-01-01'', ts_token = ''OHM'', ts_tokenAddress = ''0x1'',
     ts_pool = None, ts_poolAddress = None, ts_source = None, ts_sourceAddress = None,
     ts_type = TYPE_TOTAL_SUPPLY, ts_balance = Fin v, ts_supplyBalance = Fin v \<rparr>"

definition sample_chain :: "nat \<Rightarrow> rat \<Rightarrow> per_chain" where
  "sample_chain c v = computePerChainAggregate c ''chain'' ''2024-01-01'' 20000000 0 []
     [sample_supply c v]"

lemma sample_chain_total: "pc_ohmTotalSupply (sample_chain c v) = Fin v"
  by (simp add: sample_chain_def aggregate_fields supplySum_def sample_supply_def)

theorem per_chain_aggregate_order_witness:
  "pc_ohmTotalSupply (computePerChainAggregate 1 ''chain'' ''2024-01-01'' 20000000 0 []
     [sample_supply 1 5, sample_supply 1 7]) =
   pc_ohmTotalSupply (computePerChainAggregate 1 ''chain'' ''2024-01-01'' 20000000 0 []
     [sample_supply 1 7, sample_supply 1 5])"
  using per_chain_aggregate_order [of "[]" "[]" "[sample_supply 1 5, sample_supply 1 7]"
    "[sample_supply 1 7, sample_supply 1 5]" 1 "''chain''" "''2024-01-01''" 20000000 0]
  by (simp add: Let_def add_mset_commute)

text \<open>
  The cross-chain aggregate is additive: every scalar is the sum of the per-chain scalars,
  and each category total is the sum of the chains' category totals, when each chain's
  categories come from \<open>computePerChainAggregate\<close> (one entry per name).
\<close>

theorem cross_chain_additive:
  assumes "\<forall>c \<in> set perChain. distinct (map fst (pc_supplyCategories c))"
  shows "(let x = aggregateAcrossChains date perChain in
      xc_ohmTotalSupply x = (\<Sum>c\<leftarrow>perChain. pc_ohmTotalSupply c)
    \<and> xc_ohmCirculatingSupply x = (\<Sum>c\<leftarrow>perChain. pc_ohmCirculatingSupply c)
    \<and> xc_ohmFloatingSupply x = (\<Sum>c\<leftarrow>perChain. pc_ohmFloatingSupply c)
    \<and> xc_ohmBackedSupply x = (\<Sum>c\<leftarrow>perChain. pc_ohmBackedSupply c)
    \<and> xc_treasuryMarketValue x = (\<Sum>c\<leftarrow>perChain. pc_treasuryMarketValue c)
    \<and> xc_treasuryLiquidBacking x = (\<Sum>c\<leftarrow>perChain. pc_treasuryLiquidBacking c)
    \<and> (\<forall>type. supplyOf (xc_supplyCategories x) type =
          (\<Sum>c\<leftarrow>perChain. supplyOf (pc_supplyCategories c) type)))"
  using foldl_addChain_categories [OF assms]
  by (simp add: aggregateAcrossChains_def Let_def foldl_addChain ZERO_def flip: bn_zero)

theorem cross_chain_additive_witness:
  "xc_ohmTotalSupply (aggregateAcrossChains ''2024-01-01''
     [sample_chain 1 5, sample_chain 42161 7]) = Fin 12"
proof -
  have "\<forall>c \<in> set [sample_chain 1 5, sample_chain 42161 7].
      distinct (map fst (pc_supplyCategories c))"
    by (simp add: sample_chain_def aggregate_fields)
  from cross_chain_additive [OF this, of "''2024-01-01''"] show ?thesis
    by (simp add: Let_def sample_chain_total)
qed

text \<open>
  The completeness fields. A supported chain is missing exactly when no aggregate of it is
  present, nothing else is ever listed as missing, and the date counts as complete exactly when
  both Arbitrum and Ethereum are present, whatever the optional chains do.
\<close>

theorem cross_chain_completeness:
  "(\<forall>c. c \<in> set (xc_chainsMissing (aggregateAcrossChains date perChain)) \<longleftrightarrow>
       c \<in> {1, 42161, 137, 250, 8453, 80094} \<and> c \<notin> pc_chainId ` set perChain)
   \<and> (xc_crossChainComplete (aggregateAcrossChains date perChain) \<longleftrightarrow>
       {42161, 1} \<subseteq> pc_chainId ` set perChain)
   \<and> xc_chainsIndexed (aggregateAcrossChains date perChain) = map pc_chainId perChain"
  by (auto simp: aggregateAcrossChains_def Let_def ALL_CHAIN_IDS_def
      REQUIRED_CHAINS_FOR_COMPLETE_def chain_ids)

text \<open>
  The derived ratios never divide by zero: on finite totals, price and index every ratio is
  finite, and a ratio whose denominator is zero is zero.
\<close>

lemma derived_ratios_finite:
  assumes "is_fin (xc_ohmCirculatingSupply x)" "is_fin (xc_ohmFloatingSupply x)"
    "is_fin (xc_ohmBackedSupply x)" "is_fin (xc_treasuryLiquidBacking x)"
    "is_fin price" "is_fin index"
  shows "(let r = computeDerivedRatios rnd x price index in
    is_fin (dr_marketCap r) \<and> is_fin (dr_gOhmBackedSupply r)
    \<and> is_fin (dr_liquidBackingPerOhmFloating r) \<and> is_fin (dr_liquidBackingPerOhmBacked r)
    \<and> is_fin (dr_liquidBackingPerGOhmBacked r)
    \<and> (xc_ohmFloatingSupply x = Fin 0 \<longrightarrow> dr_liquidBackingPerOhmFloating r = Fin 0)
    \<and> (xc_ohmBackedSupply x = Fin 0 \<longrightarrow> dr_liquidBackingPerOhmBacked r = Fin 0
         \<and> dr_gOhmBackedSupply r = Fin 0 \<and> dr_liquidBackingPerGOhmBacked r = Fin 0)
    \<and> (index = Fin 0 \<longrightarrow> dr_gOhmBackedSupply r = Fin 0 \<and> dr_liquidBackingPerGOhmBacked r = Fin 0))"
  using assms by (auto simp: computeDerivedRatios_def Let_def ZERO_def intro: is_fin_arith)

end
