(* ===== verification/Snapshot_Env.thy ===== *)
theory Snapshot_Env
  imports Pricing Global_Metrics
begin

text \<open>
  What the snapshot of a block can read: the pricing environment, the entity store and the
  chain reads that go through effects (\<open>effects/index.ts\<close>), and the balance helpers of
  \<open>handlers/SnapshotHelpers.ts\<close>. Every push function of the snapshot is a computation of
  \<open>Pricing_Monad\<close> that takes the rows pushed so far and returns them with its own appended;
  \<open>for\<close> loops are \<open>pfold\<close>.
\<close>

section \<open>Loops\<close>

fun pfold :: "('a \<Rightarrow> 's \<Rightarrow> 's pm) \<Rightarrow> 'a list \<Rightarrow> 's \<Rightarrow> 's pm" where
  "pfold f [] acc = preturn acc"
| "pfold f (x # xs) acc = pbind (f x acc) (pfold f xs)"

lemma returns_pfold [returns_intros]:
  "(\<And>x acc. x \<in> set xs \<Longrightarrow> returns F (f x acc)) \<Longrightarrow> returns F (pfold f xs acc)"
  by (induction xs arbitrary: acc) (auto intro!: returns_intros)

text \<open>\<open>yields P m\<close>: every value the computation returns satisfies \<open>P\<close>.\<close>

definition yields :: "('a \<Rightarrow> bool) \<Rightarrow> 'a pm \<Rightarrow> bool" where
  "yields P m \<longleftrightarrow> (\<forall>s x s'. m s = Some (Inr x, s') \<longrightarrow> P x)"

named_theorems yields_intros

lemma yieldsD: "yields P m \<Longrightarrow> m s = Some (Inr x, s') \<Longrightarrow> P x"
  unfolding yields_def by blast

lemma yields_return [yields_intros]: "P x \<Longrightarrow> yields P (preturn x)"
  by (simp add: yields_def preturn_def)

lemma yields_raise [yields_intros]: "yields P (praise e)"
  by (simp add: yields_def praise_def)

lemma yields_read: "(\<And>x. r = Inr x \<Longrightarrow> P x) \<Longrightarrow> yields P (pread r)"
  by (cases r) (simp_all add: yields_return yields_raise)

lemma yields_bind:
  "yields Q m \<Longrightarrow> (\<And>x. Q x \<Longrightarrow> yields P (f x)) \<Longrightarrow> yields P (pbind m f)"
proof -
  assume m: "yields Q m" and f: "\<And>x. Q x \<Longrightarrow> yields P (f x)"
  have "P x" if run: "pbind m f s = Some (Inr x, s')" for s x s'
  proof -
    obtain y s1 where y: "m s = Some (Inr y, s1)" "f y s1 = Some (Inr x, s')"
      using run by (auto simp: pbind_def split: option.splits sum.splits prod.splits)
    show ?thesis using yieldsD [OF f y(2)] yieldsD [OF m y(1)] by blast
  qed
  then show ?thesis by (simp add: yields_def)
qed

lemma yields_bind_any [yields_intros]:
  "(\<And>x. yields P (f x)) \<Longrightarrow> yields P (pbind m f)"
  by (rule yields_bind [where Q = "\<lambda>_. True"]) (simp_all add: yields_def)

lemma yields_if [yields_intros]:
  "(Q \<Longrightarrow> yields P a) \<Longrightarrow> (\<not> Q \<Longrightarrow> yields P b) \<Longrightarrow> yields P (if Q then a else b)"
  by simp

lemma yields_case_option [yields_intros]:
  "(x = None \<Longrightarrow> yields P a) \<Longrightarrow> (\<And>y. x = Some y \<Longrightarrow> yields P (f y)) \<Longrightarrow>
     yields P (case x of None \<Rightarrow> a | Some y \<Rightarrow> f y)"
  by (cases x) simp_all

lemma yields_case_prod [yields_intros]:
  "(\<And>a b. x = (a, b) \<Longrightarrow> yields P (f a b)) \<Longrightarrow> yields P (case x of (a, b) \<Rightarrow> f a b)"
  by (cases x) simp

lemma yields_let [yields_intros]: "(\<And>x. x = v \<Longrightarrow> yields P (f x)) \<Longrightarrow> yields P (let x = v in f x)"
  by simp

text \<open>A property that holds of the accumulator and survives every round holds at the end.\<close>

lemma yields_pfold:
  assumes "P acc" "\<And>x acc. x \<in> set xs \<Longrightarrow> P acc \<Longrightarrow> yields P (f x acc)"
  shows "yields P (pfold f xs acc)"
  using assms
proof (induction xs arbitrary: acc)
  case (Cons x xs)
  show ?case unfolding pfold.simps
    by (rule yields_bind [of P]) (use Cons in auto)
qed (simp add: yields_return)

section \<open>Reads\<close>

text \<open>A liquidity position as the position manager reports it.\<close>

record nft_position =
  np_token0 :: string
  np_token1 :: string
  np_fee :: nat
  np_tickLower :: int
  np_tickUpper :: int
  np_liquidity :: int

text \<open>
  Each effect takes the chain, its addresses and the block, and may throw. \<open>None\<close> stands for
  the empty string that an effect returns where the contract call reverted; numbers printed as
  strings are the numbers. \<open>se_positionAmounts\<close> is \<open>univ3PositionAmounts\<close> of \<open>math.ts\<close>, which
  computes on floating-point numbers with square roots and powers whose rounding the language
  leaves open, and \<open>se_compound\<close> is the power in \<open>computeApy\<close>.
\<close>

record snapshot_env =
  se_pricing :: pricing_env
  se_configs :: configs
  se_readErc20BalanceOf :: "nat \<Rightarrow> string \<Rightarrow> string \<Rightarrow> nat \<Rightarrow> string + int"
  se_getNativeBalance :: "string \<Rightarrow> nat \<Rightarrow> string + int"
  se_readBondManagerState :: "nat \<Rightarrow> string \<Rightarrow> nat \<Rightarrow> string + bool \<times> string"
  se_snapshotBlvRegistry :: "nat \<Rightarrow> string \<Rightarrow> nat \<Rightarrow> string + string list \<times> int list"
  se_readMonoCoolerTotalDebt :: "nat \<Rightarrow> string \<Rightarrow> nat \<Rightarrow> string + int option"
  se_readCoolerPrincipalReceivables :: "nat \<Rightarrow> string \<Rightarrow> nat \<Rightarrow> string + int option"
  se_snapshotUniv3NftPositions :: "nat \<Rightarrow> string \<Rightarrow> string \<Rightarrow> nat \<Rightarrow> string + nft_position list"
  se_positionAmounts :: "int \<Rightarrow> int \<Rightarrow> int \<Rightarrow> int \<Rightarrow> int \<times> int"
  se_readSOhmCirculatingSupply :: "nat \<Rightarrow> string \<Rightarrow> nat \<Rightarrow> string + int option"
  se_readNextOhmDistribution :: "nat \<Rightarrow> staking_contracts \<Rightarrow> nat \<Rightarrow> string + int option"
  se_readBlockTimestamp :: "nat \<Rightarrow> nat \<Rightarrow> string + nat"
  se_compound :: "bignumber \<Rightarrow> bignumber"

abbreviation se_config :: "snapshot_env \<Rightarrow> chain_config" where
  "se_config env \<equiv> pe_config (se_pricing env)"

abbreviation se_rnd :: "snapshot_env \<Rightarrow> rounding" where
  "se_rnd env \<equiv> pe_rnd (se_pricing env)"

abbreviation se_chain :: "snapshot_env \<Rightarrow> nat" where
  "se_chain env \<equiv> cc_chainId (se_config env)"

text \<open>Prices are looked up against the current store, with the fuel that
  \<open>price_lookup_terminates\<close> shows to be enough.\<close>

definition pricingAt :: "snapshot_env \<Rightarrow> store \<Rightarrow> pricing_env" where
  "pricingAt env s = (se_pricing env) \<lparr> pe_store := s \<rparr>"

definition priceAt :: "snapshot_env \<Rightarrow> store \<Rightarrow> string \<Rightarrow> nat \<Rightarrow> price_result pm" where
  "priceAt env s t b = getPrice (enoughFuel (pricingAt env s) b) (pricingAt env s) t b None"

lemma returns_priceAt [returns_intros]: "returns F (priceAt env s t b)"
  by (simp add: priceAt_def returns_getPrice)

lemma pricingAt_config [simp]: "pe_config (pricingAt env s) = se_config env"
  by (simp add: pricingAt_def)

definition totalValueAt :: "snapshot_env \<Rightarrow> store \<Rightarrow> liquidity_handler \<Rightarrow> string list \<Rightarrow> nat \<Rightarrow>
    bignumber option pm" where
  "totalValueAt env s h ex b = getTotalValue (enoughFuel (pricingAt env s) b) (pricingAt env s) h ex b"

definition unitPriceAt :: "snapshot_env \<Rightarrow> store \<Rightarrow> liquidity_handler \<Rightarrow> nat \<Rightarrow>
    bignumber option pm" where
  "unitPriceAt env s h b = getUnitPrice (enoughFuel (pricingAt env s) b) (pricingAt env s) h b"

section \<open>Balance helpers\<close>

definition tokenBalanceRow :: "store \<Rightarrow> nat \<Rightarrow> string \<Rightarrow> string \<Rightarrow> TokenBalance option" where
  "tokenBalanceRow s chainId t w = tget (st_TokenBalance s) (id3 chainId (addr t) (addr w))"

definition readTokenBalance :: "rounding \<Rightarrow> store \<Rightarrow> nat \<Rightarrow> string \<Rightarrow> string \<Rightarrow> nat \<Rightarrow> bignumber" where
  "readTokenBalance rnd s chainId tokenAddress walletAddress decimals =
     (case tokenBalanceRow s chainId tokenAddress walletAddress of
        None \<Rightarrow> ZERO
      | Some entity \<Rightarrow> if TokenBalance_balance entity = 0 then ZERO
          else toDecimal rnd (TokenBalance_balance entity) decimals)"

definition readNonStandardBalance ::
  "snapshot_env \<Rightarrow> nat \<Rightarrow> string \<Rightarrow> string \<Rightarrow> nat \<Rightarrow> nat \<Rightarrow> bignumber pm" where
  "readNonStandardBalance env chainId tokenAddress walletAddress decimals b =
     pbind (pread (se_readErc20BalanceOf env chainId tokenAddress walletAddress b)) (\<lambda>raw.
       preturn (if raw = 0 then ZERO else toDecimal (se_rnd env) raw decimals))"

definition readNativeBalance ::
  "snapshot_env \<Rightarrow> nat \<Rightarrow> string \<Rightarrow> nat \<Rightarrow> nat \<Rightarrow> store \<Rightarrow> (bignumber \<times> store) pm" where
  "readNativeBalance env chainId wallet decimals b s =
     pbind (pread (se_getNativeBalance env wallet b)) (\<lambda>rawBalance.
       let key = id2 chainId (addr wallet) in
       preturn (toDecimal (se_rnd env) rawBalance decimals,
         s \<lparr> st_NativeBalanceState := tset key
           \<lparr> NativeBalanceState_id = key, NativeBalanceState_chainId = chainId,
             NativeBalanceState_walletAddress = addr wallet,
             NativeBalanceState_balance = rawBalance,
             NativeBalanceState_updatedAtBlock = b \<rparr> (st_NativeBalanceState s) \<rparr>))"

definition getLpTokenForHandler :: "liquidity_handler \<Rightarrow> string option" where
  "getLpTokenForHandler handler = (case handler of
     Univ2 i _ _ \<Rightarrow> Some (addr i)
   | Balancer i _ _ _ \<Rightarrow> Some (''0x'' @ take 40 (drop 2 i))
   | Kodiak _ pool _ rewardVault _ _ \<Rightarrow> Some (addr (nullish rewardVault pool))
   | _ \<Rightarrow> None)"

lemma readTokenBalance_fin [simp]: "is_fin (readTokenBalance rnd s c t w d)"
  by (simp add: readTokenBalance_def ZERO_def split: option.split)

text \<open>A missing row and a row of zero read the same, and letter case does not matter.\<close>

lemma readTokenBalance_same:
  "same t t' \<Longrightarrow> same w w' \<Longrightarrow> readTokenBalance rnd s c t w d = readTokenBalance rnd s c t' w' d"
  by (simp add: readTokenBalance_def tokenBalanceRow_def same_def)

section \<open>An environment in which nothing is configured\<close>

definition blank_snapshot_env :: snapshot_env where
  "blank_snapshot_env = \<lparr> se_pricing = blank_pricing_env, se_configs = Map.empty,
     se_readErc20BalanceOf = (\<lambda>_ _ _ _. Inr 0), se_getNativeBalance = (\<lambda>_ _. Inr 0),
     se_readBondManagerState = (\<lambda>_ _ _. Inr (True, ''0xte'')),
     se_snapshotBlvRegistry = (\<lambda>_ _ _. Inr ([], [])),
     se_readMonoCoolerTotalDebt = (\<lambda>_ _ _. Inr None),
     se_readCoolerPrincipalReceivables = (\<lambda>_ _ _. Inr None),
     se_snapshotUniv3NftPositions = (\<lambda>_ _ _ _. Inr []),
     se_positionAmounts = (\<lambda>_ _ _ _. (0, 0)),
     se_readSOhmCirculatingSupply = (\<lambda>_ _ _. Inr None),
     se_readNextOhmDistribution = (\<lambda>_ _ _. Inr None),
     se_readBlockTimestamp = (\<lambda>_ _. Inr 0), se_compound = (\<lambda>x. x) \<rparr>"

lemmas blank_env_defs = blank_snapshot_env_def blank_pricing_env_def blank_config_def

end
