(* ===== verification/Bonds.thy ===== *)
theory Bonds
  imports Snapshot_Env
begin

text \<open>
  The OHM bond auctions: the two event handlers that open and clear an auction
  (\<open>handlers/BondManager.ts\<close>, \<open>handlers/GnosisEasyAuction.ts\<close>) and the supply rows a snapshot
  derives from the auctions (\<open>handlers/GnosisAuctions.ts\<close>).
\<close>

section \<open>Events\<close>

record launched_event =
  gl_chainId :: nat
  gl_timestamp :: nat
  gl_marketId :: nat
  gl_capacity :: int
  gl_bondTerm :: nat

record cleared_event =
  gc_chainId :: nat
  gc_timestamp :: nat
  gc_auctionId :: nat
  gc_soldAuctioningTokens :: int
  gc_soldBiddingTokens :: int

definition OHM_DECIMALS :: nat where "OHM_DECIMALS = 9"

definition rootId :: "nat \<Rightarrow> string" where "rootId chainId = nat_str chainId"

definition auctionId :: "nat \<Rightarrow> nat \<Rightarrow> string" where
  "auctionId chainId marketId = id2 chainId (nat_str marketId)"

definition applyGnosisAuctionLaunched :: "rounding \<Rightarrow> launched_event \<Rightarrow> store \<Rightarrow> store" where
  "applyGnosisAuctionLaunched rnd e s =
     (let existing = (case tget (st_GnosisAuctionRoot s) (rootId (gl_chainId e)) of
            None \<Rightarrow> [] | Some r \<Rightarrow> GnosisAuctionRoot_markets r);
          markets = (if gl_marketId e \<in> set existing then existing
            else existing @ [gl_marketId e]);
          key = auctionId (gl_chainId e) (gl_marketId e)
      in s \<lparr> st_GnosisAuctionRoot := tset (rootId (gl_chainId e))
               \<lparr> GnosisAuctionRoot_id = rootId (gl_chainId e),
                 GnosisAuctionRoot_chainId = gl_chainId e,
                 GnosisAuctionRoot_markets = markets \<rparr> (st_GnosisAuctionRoot s),
             st_GnosisAuction := tset key
               \<lparr> GnosisAuction_id = key, GnosisAuction_chainId = gl_chainId e,
                 GnosisAuction_marketId = gl_marketId e,
                 GnosisAuction_auctionOpenTimestamp = gl_timestamp e,
                 GnosisAuction_payoutCapacity =
                   bn_print rnd (toDecimal rnd (gl_capacity e) OHM_DECIMALS),
                 GnosisAuction_termSeconds = gl_bondTerm e,
                 GnosisAuction_bidQuantity = None,
                 GnosisAuction_auctionCloseTimestamp = None \<rparr> (st_GnosisAuction s) \<rparr>)"

definition auctionEntityId :: "nat \<Rightarrow> nat \<Rightarrow> string" where
  "auctionEntityId chainId marketId = id2 chainId (nat_str marketId)"

definition applyAuctionCleared :: "rounding \<Rightarrow> cleared_event \<Rightarrow> store \<Rightarrow> store" where
  "applyAuctionCleared rnd e s =
     (let key = auctionEntityId (gc_chainId e) (gc_auctionId e) in
      case tget (st_GnosisAuction s) key of
        None \<Rightarrow> s
      | Some record \<Rightarrow> s \<lparr> st_GnosisAuction := tset (GnosisAuction_id record)
          (record \<lparr> GnosisAuction_bidQuantity :=
               Some (bn_print rnd (toDecimal rnd (gc_soldBiddingTokens e) OHM_DECIMALS)),
             GnosisAuction_auctionCloseTimestamp := Some (gc_timestamp e) \<rparr>)
          (st_GnosisAuction s) \<rparr>)"

datatype bond_event = Launched launched_event | Cleared cleared_event

fun handleBondEvent :: "rounding \<Rightarrow> store \<Rightarrow> bond_event \<Rightarrow> store" where
  "handleBondEvent rnd s (Launched e) = applyGnosisAuctionLaunched rnd e s"
| "handleBondEvent rnd s (Cleared e) = applyAuctionCleared rnd e s"

section \<open>Supply rows\<close>

definition BOND_OHM_DECIMALS :: nat where "BOND_OHM_DECIMALS = 9"

text \<open>The first pass: the bids of vested auctions, and the balance left after the bids of
  auctions that still vest.\<close>

definition addAuction :: "nat \<Rightarrow> bignumber \<times> bignumber \<Rightarrow> GnosisAuction \<Rightarrow> bignumber \<times> bignumber" where
  "addAuction timestamp = (\<lambda>(totalBurnable, unallocated) auction.
     (case GnosisAuction_bidQuantity auction of
        None \<Rightarrow> (totalBurnable, unallocated)
      | Some bidQuantity \<Rightarrow>
          (case GnosisAuction_auctionCloseTimestamp auction of
             None \<Rightarrow> (totalBurnable, unallocated)
           | Some close \<Rightarrow>
               if timestamp < close + GnosisAuction_termSeconds auction
               then (totalBurnable, unallocated - bidQuantity)
               else (totalBurnable + bidQuantity, unallocated))))"

text \<open>The second pass: the rows of one auction.\<close>

definition auctionRows :: "snapshot_env \<Rightarrow> nat \<Rightarrow> nat \<Rightarrow> string \<Rightarrow> string \<Rightarrow> bignumber \<Rightarrow> bignumber \<Rightarrow>
    GnosisAuction \<Rightarrow> token_supply list" where
  "auctionRows env timestamp b bondManager teller capped totalBurnable auction =
     (let config = se_config env;
          row = (\<lambda>source type balance. createTokenSupply (se_rnd env) config timestamp
            (getContractName config (cc_ohmToken config)) (cc_ohmToken config)
            (Some (nat_str (GnosisAuction_marketId auction))) None
            (Some (getContractName config source)) (Some source) type balance b (- 1))
      in case GnosisAuction_bidQuantity auction of
           None \<Rightarrow> [row teller TYPE_BONDS_PREMINTED (GnosisAuction_payoutCapacity auction)]
         | Some bidQuantity \<Rightarrow>
             (case GnosisAuction_auctionCloseTimestamp auction of
                None \<Rightarrow> []
              | Some close \<Rightarrow>
                  if timestamp < close + GnosisAuction_termSeconds auction
                  then [row bondManager TYPE_BONDS_VESTING_DEPOSITS bidQuantity,
                        row teller TYPE_BONDS_VESTING_TOKENS (GnosisAuction_payoutCapacity auction)]
                  else if totalBurnable = Fin 0 then []
                  else (let adjusted = bn_div (se_rnd env) (bidQuantity * capped) totalBurnable in
                    if adjusted = Fin 0 then []
                    else [row bondManager TYPE_BONDS_DEPOSITS adjusted])))"

definition pushGnosisAuctionSupply :: "snapshot_env \<Rightarrow> store \<Rightarrow> nat \<Rightarrow> nat \<Rightarrow> token_supply list \<Rightarrow>
    token_supply list pm" where
  "pushGnosisAuctionSupply env s timestamp b supplies =
     (let config = se_config env in
      case cc_bondManager config of
        None \<Rightarrow> preturn supplies
      | Some bondManager \<Rightarrow>
          if b < lc_startBlock bondManager then preturn supplies
          else pbind (pread (se_readBondManagerState env (cc_chainId config)
              (lc_address bondManager) b)) (\<lambda>(active, teller).
            if \<not> active then preturn supplies
            else (let auctions = getWhere (\<lambda>a. GnosisAuction_chainId a = cc_chainId config)
                    (st_GnosisAuction s)
                  in if auctions = [] then preturn supplies
                     else (let raw = (case tokenBalanceRow s (cc_chainId config)
                               (cc_ohmToken config) (lc_address bondManager) of
                               None \<Rightarrow> 0 | Some e \<Rightarrow> TokenBalance_balance e);
                             (totalBurnable, unallocated) = foldl (addAuction timestamp)
                               (ZERO, toDecimal (se_rnd env) raw BOND_OHM_DECIMALS) auctions;
                             capped = (if bn_gt unallocated totalBurnable then totalBurnable
                               else unallocated)
                           in preturn (foldl (\<lambda>acc a. acc @ auctionRows env timestamp b
                                (lc_address bondManager) (addr teller) capped totalBurnable a)
                              supplies auctions)))))"

section \<open>The life of an auction\<close>

definition auctionRow :: "store \<Rightarrow> nat \<Rightarrow> nat \<Rightarrow> GnosisAuction option" where
  "auctionRow s c m = tget (st_GnosisAuction s) (auctionId c m)"

definition auctionsWf :: "store \<Rightarrow> bool" where
  "auctionsWf s \<longleftrightarrow> (\<forall>k r. tget (st_GnosisAuction s) k = Some r \<longrightarrow> GnosisAuction_id r = k)"

fun launches :: "nat \<Rightarrow> nat \<Rightarrow> bond_event \<Rightarrow> bool" where
  "launches c m (Launched e) \<longleftrightarrow> gl_chainId e = c \<and> gl_marketId e = m"
| "launches c m (Cleared e) \<longleftrightarrow> False"

fun clears :: "nat \<Rightarrow> nat \<Rightarrow> bond_event \<Rightarrow> bool" where
  "clears c m (Cleared e) \<longleftrightarrow> gc_chainId e = c \<and> gc_auctionId e = m"
| "clears c m (Launched e) \<longleftrightarrow> False"

fun openedBy :: "rounding \<Rightarrow> bond_event \<Rightarrow> GnosisAuction option" where
  "openedBy rnd (Launched e) = Some
     \<lparr> GnosisAuction_id = auctionId (gl_chainId e) (gl_marketId e),
       GnosisAuction_chainId = gl_chainId e, GnosisAuction_marketId = gl_marketId e,
       GnosisAuction_auctionOpenTimestamp = gl_timestamp e,
       GnosisAuction_payoutCapacity = Fin (rnd (rnd (of_int (gl_capacity e) / 10 ^ 9))),
       GnosisAuction_termSeconds = gl_bondTerm e, GnosisAuction_bidQuantity = None,
       GnosisAuction_auctionCloseTimestamp = None \<rparr>"
| "openedBy rnd (Cleared e) = None"

fun closedBy :: "rounding \<Rightarrow> bond_event \<Rightarrow> GnosisAuction \<Rightarrow> GnosisAuction" where
  "closedBy rnd (Cleared e) r = r \<lparr>
     GnosisAuction_bidQuantity := Some (Fin (rnd (rnd (of_int (gc_soldBiddingTokens e) / 10 ^ 9)))),
     GnosisAuction_auctionCloseTimestamp := Some (gc_timestamp e) \<rparr>"
| "closedBy rnd (Launched e) r = r"

lemma auctionId_inject [simp]: "auctionId c m = auctionId c' m' \<longleftrightarrow> c = c' \<and> m = m'"
  by (simp add: auctionId_def)

lemma auctionEntityId_eq [simp]: "auctionEntityId c m = auctionId c m"
  by (simp add: auctionEntityId_def auctionId_def)

lemma auctionsWf_step: "auctionsWf s \<Longrightarrow> auctionsWf (handleBondEvent rnd s e)"
  by (cases e) (auto simp: auctionsWf_def applyGnosisAuctionLaunched_def applyAuctionCleared_def
      Let_def split: option.split)

lemma auctionsWf_run: "auctionsWf s \<Longrightarrow> auctionsWf (foldl (handleBondEvent rnd) s es)"
  by (induction es arbitrary: s) (simp_all add: auctionsWf_step)

lemma auctionRow_step:
  assumes "auctionsWf s"
  shows "auctionRow (handleBondEvent rnd s e) c m =
    (if launches c m e then openedBy rnd e
     else if clears c m e then map_option (closedBy rnd e) (auctionRow s c m)
     else auctionRow s c m)"
proof (cases e)
  case (Launched l)
  then show ?thesis
    by (auto simp: auctionRow_def applyGnosisAuctionLaunched_def Let_def toDecimal_Fin OHM_DECIMALS_def)
next
  case (Cleared d)
  then show ?thesis using assms
    by (auto simp: auctionRow_def applyAuctionCleared_def Let_def toDecimal_Fin OHM_DECIMALS_def
        auctionsWf_def split: option.split)
qed

text \<open>
  C17: an auction is what its events made it: after any run of events, of any auctions on any
  chains, its row comes from its last launch, and its bid and closing time from the last
  clearing since that launch, if there was one (launching a market again opens it anew and
  forgets the earlier clearing). Clearings of auctions that were never launched are ignored.
\<close>

theorem auction_lifecycle:
  assumes "auctionsWf s"
  shows "auctionRow (foldl (handleBondEvent rnd) s es) c m =
    (let opened = (case List.find (launches c m) (rev es) of
           None \<Rightarrow> auctionRow s c m | Some e \<Rightarrow> openedBy rnd e)
     in case List.find (clears c m) (takeWhile (\<lambda>e. \<not> launches c m e) (rev es)) of
          None \<Rightarrow> opened | Some e \<Rightarrow> map_option (closedBy rnd e) opened)"
proof (induction es rule: rev_induct)
  case (snoc e es)
  have closed_twice: "closedBy rnd e (closedBy rnd e' r) = closedBy rnd e r"
    if "clears c m e" "clears c m e'" for e e' r
    using that by (cases e; cases e') simp_all
  have exclusive: "\<not> clears c m e" if "launches c m e" for e
    using that by (cases e) simp_all
  show ?case
    using exclusive [of e] closed_twice [of e]
    by (auto simp: auctionRow_step [OF auctionsWf_run [OF assms]] snoc Let_def option.map_comp
        comp_def split: option.split dest!: find_SomeD intro!: option.map_cong)
qed (simp add: Let_def)

definition sample_launch :: bond_event where
  "sample_launch = Launched \<lparr> gl_chainId = 1, gl_timestamp = 100, gl_marketId = 7,
     gl_capacity = 5000000000, gl_bondTerm = 50 \<rparr>"

definition sample_clearing :: bond_event where
  "sample_clearing = Cleared \<lparr> gc_chainId = 1, gc_timestamp = 200, gc_auctionId = 7,
     gc_soldAuctioningTokens = 0, gc_soldBiddingTokens = 3000000000 \<rparr>"

theorem auction_lifecycle_witness:
  "map_option GnosisAuction_bidQuantity (auctionRow
     (foldl (handleBondEvent round20) empty_store [sample_launch, sample_clearing]) 1 7)
     = Some (Some (Fin 3))
   \<and> map_option GnosisAuction_bidQuantity (auctionRow
     (foldl (handleBondEvent round20) empty_store [sample_launch, sample_clearing, sample_launch]) 1 7)
     = Some None"
proof -
  have wf: "auctionsWf empty_store" by (simp add: auctionsWf_def empty_store_def)
  show ?thesis unfolding auction_lifecycle [OF wf]
    by (simp add: sample_launch_def sample_clearing_def Let_def)
qed

section \<open>What the rows add up to\<close>

text \<open>An auction with a bid but no closing time cannot come from the handlers; the code skips it.\<close>

datatype phase = Open | Incomplete | Vesting | Vested

definition phaseAt :: "nat \<Rightarrow> GnosisAuction \<Rightarrow> phase" where
  "phaseAt timestamp a = (case GnosisAuction_bidQuantity a of None \<Rightarrow> Open
     | Some _ \<Rightarrow> (case GnosisAuction_auctionCloseTimestamp a of None \<Rightarrow> Incomplete
         | Some close \<Rightarrow> if timestamp < close + GnosisAuction_termSeconds a then Vesting else Vested))"

definition bn_rat :: "bignumber \<Rightarrow> rat" where
  "bn_rat x = (case x of Fin q \<Rightarrow> q | _ \<Rightarrow> 0)"

definition bidOf :: "GnosisAuction \<Rightarrow> rat" where
  "bidOf a = bn_rat (nullish (GnosisAuction_bidQuantity a) ZERO)"

definition capacityOf :: "GnosisAuction \<Rightarrow> rat" where
  "capacityOf a = bn_rat (GnosisAuction_payoutCapacity a)"

definition sumOver :: "phase \<Rightarrow> nat \<Rightarrow> (GnosisAuction \<Rightarrow> rat) \<Rightarrow> GnosisAuction list \<Rightarrow> rat" where
  "sumOver ph timestamp f auctions = sum_list (map f (filter (\<lambda>a. phaseAt timestamp a = ph) auctions))"

definition finiteAuction :: "GnosisAuction \<Rightarrow> bool" where
  "finiteAuction a \<longleftrightarrow> is_fin (GnosisAuction_payoutCapacity a) \<and>
     (case GnosisAuction_bidQuantity a of None \<Rightarrow> True | Some q \<Rightarrow> is_fin q)"

lemma bn_rat_Fin [simp]: "bn_rat (Fin q) = q"
  by (simp add: bn_rat_def)

lemma addAuction_totals:
  assumes "\<forall>a \<in> set auctions. finiteAuction a"
  shows "foldl (addAuction timestamp) (Fin x, Fin y) auctions =
    (Fin (x + sumOver Vested timestamp bidOf auctions),
     Fin (y - sumOver Vesting timestamp bidOf auctions))"
  using assms
proof (induction auctions arbitrary: x y)
  case (Cons a as)
  then obtain x' y' where step: "addAuction timestamp (Fin x, Fin y) a = (Fin x', Fin y')"
    "x' = x + (if phaseAt timestamp a = Vested then bidOf a else 0)"
    "y' = y - (if phaseAt timestamp a = Vesting then bidOf a else 0)"
    by (fastforce simp: addAuction_def phaseAt_def bidOf_def finiteAuction_def is_fin_def
        split: option.splits)
  have "foldl (addAuction timestamp) (Fin x', Fin y') as =
    (Fin (x' + sumOver Vested timestamp bidOf as), Fin (y' - sumOver Vesting timestamp bidOf as))"
    using Cons.prems by (intro Cons.IH) simp
  then show ?case using step by (auto simp: sumOver_def)
qed (simp add: sumOver_def)

lemma foldl_append_rows: "foldl (\<lambda>acc a. acc @ f a) xs as = xs @ concat (map f as)"
  by (induction as arbitrary: xs) simp_all

lemma supplySum_append [simp]: "supplySum t (xs @ ys) = supplySum t xs + supplySum t ys"
  by (simp add: supplySum_def)

lemma supplySum_Nil [simp]: "supplySum t [] = Fin 0"
  by (simp add: supplySum_def)

lemma supplySum_Cons [simp]:
  "supplySum t (r # rs) = (if ts_type r = t then ts_supplyBalance r + supplySum t rs else supplySum t rs)"
  by (simp add: supplySum_def)

text \<open>The share of a vested auction in what is left at the bond manager.\<close>

definition vestedShare :: "rounding \<Rightarrow> rat \<Rightarrow> rat \<Rightarrow> GnosisAuction \<Rightarrow> rat" where
  "vestedShare rnd capped burnable a = rnd (bidOf a * capped / burnable)"

lemma auctionRows_sums:
  fixes env timestamp b bm teller capped burnable a
  assumes fin: "finiteAuction a" and burnable: "burnable \<noteq> 0" and odd: "\<And>q. se_rnd env (- q) = - se_rnd env q"
    and zero: "se_rnd env 0 = 0"
  defines "rows \<equiv> auctionRows env timestamp b bm teller (Fin capped) (Fin burnable) a"
    and "r \<equiv> se_rnd env" and "ph \<equiv> phaseAt timestamp a"
  shows "supplySum TYPE_BONDS_PREMINTED rows = Fin (if ph = Open then - r (capacityOf a) else 0)"
    "supplySum TYPE_BONDS_VESTING_DEPOSITS rows = Fin (if ph = Vesting then - r (bidOf a) else 0)"
    "supplySum TYPE_BONDS_VESTING_TOKENS rows = Fin (if ph = Vesting then - r (capacityOf a) else 0)"
    "supplySum TYPE_BONDS_DEPOSITS rows =
       Fin (if ph = Vested then - r (vestedShare r capped burnable a) else 0)"
  using assms(1,2) unfolding rows_def r_def ph_def
  by (auto simp: auctionRows_def Let_def phaseAt_def finiteAuction_def is_fin_def capacityOf_def
      bidOf_def vestedShare_def row_simps type_names odd zero split: option.splits)

definition auctionsOf :: "snapshot_env \<Rightarrow> store \<Rightarrow> GnosisAuction list" where
  "auctionsOf env s = getWhere (\<lambda>a. GnosisAuction_chainId a = se_chain env) (st_GnosisAuction s)"

definition managerBalance :: "snapshot_env \<Rightarrow> store \<Rightarrow> string \<Rightarrow> rat" where
  "managerBalance env s bm = se_rnd env (of_int (case tokenBalanceRow s (se_chain env)
     (cc_ohmToken (se_config env)) bm of None \<Rightarrow> 0 | Some e \<Rightarrow> TokenBalance_balance e) / 10 ^ 9)"

definition cappedOhm :: "snapshot_env \<Rightarrow> store \<Rightarrow> nat \<Rightarrow> string \<Rightarrow> rat" where
  "cappedOhm env s timestamp bm =
     min (managerBalance env s bm - sumOver Vesting timestamp bidOf (auctionsOf env s))
       (sumOver Vested timestamp bidOf (auctionsOf env s))"

lemma pushGnosisAuctionSupply_rows:
  assumes "cc_bondManager (se_config env) = Some bm" "lc_startBlock bm \<le> b"
    "se_readBondManagerState env (se_chain env) (lc_address bm) b = Inr (True, teller)"
    "\<forall>a \<in> set (auctionsOf env s). finiteAuction a"
  shows "pushGnosisAuctionSupply env s timestamp b supplies = preturn (supplies @
    concat (map (auctionRows env timestamp b (lc_address bm) (addr teller)
      (Fin (cappedOhm env s timestamp (lc_address bm)))
      (Fin (sumOver Vested timestamp bidOf (auctionsOf env s)))) (auctionsOf env s)))"
proof (cases "auctionsOf env s = []")
  case True
  then show ?thesis using assms
    by (simp add: pushGnosisAuctionSupply_def Let_def auctionsOf_def)
next
  case False
  let ?m = "managerBalance env s (lc_address bm)"
  have totals: "foldl (addAuction timestamp) (ZERO, Fin ?m) (auctionsOf env s) =
      (Fin (sumOver Vested timestamp bidOf (auctionsOf env s)),
       Fin (?m - sumOver Vesting timestamp bidOf (auctionsOf env s)))"
    using addAuction_totals [OF assms(4), of timestamp 0 ?m] by (simp add: ZERO_def)
  have capped: "(if bn_gt (Fin x) (Fin y) then Fin y else Fin x) = Fin (min x y)" for x y
    by simp
  have raw: "toDecimal (se_rnd env) (case tokenBalanceRow s (se_chain env)
      (cc_ohmToken (se_config env)) (lc_address bm) of None \<Rightarrow> 0 | Some e \<Rightarrow> TokenBalance_balance e)
      BOND_OHM_DECIMALS = Fin ?m"
    by (simp add: toDecimal_Fin managerBalance_def BOND_OHM_DECIMALS_def)
  have "\<not> b < lc_startBlock bm" using assms(2) by simp
  then show ?thesis using False assms(1,3)
    unfolding pushGnosisAuctionSupply_def Let_def auctionsOf_def [symmetric]
    by (simp add: raw totals capped cappedOhm_def foldl_append_rows del: bn_gt.simps)
qed

lemma supplySum_phase:
  assumes "\<And>a. a \<in> set as \<Longrightarrow> supplySum t (f a) = Fin (if phaseAt timestamp a = ph then - g a else 0)"
  shows "supplySum t (concat (map f as)) = Fin (- sumOver ph timestamp g as)"
  using assms by (induction as) (auto simp: sumOver_def)

lemma sumOver_shares:
  assumes "sumOver Vested timestamp bidOf auctions \<noteq> 0"
  shows "sum_list (map (\<lambda>a. bidOf a * capped / sumOver Vested timestamp bidOf auctions)
    (filter (\<lambda>a. phaseAt timestamp a = Vested) auctions)) = capped"
proof -
  have "sum_list (map (\<lambda>a. bidOf a * capped / t) as) = sum_list (map bidOf as) * capped / t" for t as
    by (induction as) (simp_all add: add_divide_distrib distrib_right)
  then show ?thesis using assms by (simp add: sumOver_def)
qed

lemma sum_list_error:
  fixes f g :: "'a \<Rightarrow> rat"
  assumes "\<And>x. x \<in> set xs \<Longrightarrow> \<bar>f x - g x\<bar> \<le> e"
  shows "\<bar>sum_list (map f xs) - sum_list (map g xs)\<bar> \<le> of_nat (length xs) * e"
  using assms
proof (induction xs)
  case (Cons x xs)
  then have "\<bar>f x - g x\<bar> \<le> e" "\<bar>sum_list (map f xs) - sum_list (map g xs)\<bar> \<le> of_nat (length xs) * e"
    by simp_all
  then have "\<bar>sum_list (map f (x # xs)) - sum_list (map g (x # xs))\<bar> \<le> e + of_nat (length xs) * e"
    by (simp add: abs_le_iff)
  then show ?case by (simp add: distrib_right)
qed simp

text \<open>
  C18: the bond rows of a snapshot add up: open auctions count with their capacity, auctions
  that still vest with their bid and, in a category of its own, their capacity, and the vested
  ones together with what the bond manager has left for them, that is, the smaller of their
  bids and its balance less the bids still vesting, up to the rounding of each row.
\<close>

theorem gnosis_supply_totals:
  assumes rounding: "decimal_rounding (se_rnd env)"
    and manager: "cc_bondManager (se_config env) = Some bm" "lc_startBlock bm \<le> b"
      "se_readBondManagerState env (se_chain env) (lc_address bm) b = Inr (True, teller)"
    and finite: "\<forall>a \<in> set (auctionsOf env s). finiteAuction a"
    and burnable: "sumOver Vested timestamp bidOf (auctionsOf env s) \<noteq> 0"
  shows "\<exists>rows deposits. pushGnosisAuctionSupply env s timestamp b [] = preturn rows
    \<and> supplySum TYPE_BONDS_PREMINTED rows =
        Fin (- sumOver Open timestamp (se_rnd env \<circ> capacityOf) (auctionsOf env s))
    \<and> supplySum TYPE_BONDS_VESTING_DEPOSITS rows =
        Fin (- sumOver Vesting timestamp (se_rnd env \<circ> bidOf) (auctionsOf env s))
    \<and> supplySum TYPE_BONDS_VESTING_TOKENS rows =
        Fin (- sumOver Vesting timestamp (se_rnd env \<circ> capacityOf) (auctionsOf env s))
    \<and> supplySum TYPE_BONDS_DEPOSITS rows = Fin (- deposits)
    \<and> \<bar>deposits - cappedOhm env s timestamp (lc_address bm)\<bar> \<le>
        of_nat (length (auctionsOf env s)) * ulp20"
proof -
  let ?as = "auctionsOf env s" and ?capped = "cappedOhm env s timestamp (lc_address bm)"
  let ?burnable = "sumOver Vested timestamp bidOf ?as" and ?r = "se_rnd env"
  let ?f = "auctionRows env timestamp b (lc_address bm) (addr teller) (Fin ?capped) (Fin ?burnable)"
  let ?rows = "concat (map ?f ?as)" and ?vested = "filter (\<lambda>a. phaseAt timestamp a = Vested) ?as"
  note odd = decimal_rounding.rnd_odd [OF rounding] and zero = decimal_rounding.rnd_0 [OF rounding]
  note sums = auctionRows_sums [OF finite [rule_format] burnable odd zero]
  let ?d = "sumOver Vested timestamp (\<lambda>a. ?r (vestedShare ?r ?capped ?burnable a)) ?as"
  have "\<bar>?d - sum_list (map (\<lambda>a. bidOf a * ?capped / ?burnable) ?vested)\<bar>
      \<le> of_nat (length ?vested) * ulp20"
    unfolding vestedShare_def sumOver_def [where f = "\<lambda>a. ?r (?r (bidOf a * ?capped / ?burnable))"]
    by (intro sum_list_error decimal_rounding.rnd_twice [OF rounding])
  moreover have "of_nat (length ?vested) * ulp20 \<le> of_nat (length ?as) * ulp20"
    by (intro mult_right_mono) (simp_all add: ulp20_def)
  ultimately have "\<bar>?d - ?capped\<bar> \<le> of_nat (length ?as) * ulp20"
    unfolding sumOver_shares [OF burnable] by linarith
  moreover have "supplySum TYPE_BONDS_PREMINTED ?rows = Fin (- sumOver Open timestamp (?r \<circ> capacityOf) ?as)"
    "supplySum TYPE_BONDS_VESTING_DEPOSITS ?rows = Fin (- sumOver Vesting timestamp (?r \<circ> bidOf) ?as)"
    "supplySum TYPE_BONDS_VESTING_TOKENS ?rows = Fin (- sumOver Vesting timestamp (?r \<circ> capacityOf) ?as)"
    "supplySum TYPE_BONDS_DEPOSITS ?rows = Fin (- ?d)"
    by (intro supplySum_phase; simp add: sums)+
  ultimately show ?thesis
    using pushGnosisAuctionSupply_rows [OF manager finite, of timestamp "[]"]
    by (intro exI [of _ ?rows] exI [of _ ?d]) simp
qed

section \<open>Concrete auctions\<close>

text \<open>Two cleared auctions, one vested with a bid of 5 and one still vesting with a bid of 10,
  against a given raw balance of the bond manager.\<close>

definition sample_auction :: "nat \<Rightarrow> rat \<Rightarrow> nat \<Rightarrow> string \<times> GnosisAuction" where
  "sample_auction m bid term = (auctionId 1 m,
     \<lparr> GnosisAuction_id = auctionId 1 m, GnosisAuction_chainId = 1, GnosisAuction_marketId = m,
       GnosisAuction_auctionOpenTimestamp = 0, GnosisAuction_payoutCapacity = Fin 20,
       GnosisAuction_termSeconds = term, GnosisAuction_bidQuantity = Some (Fin bid),
       GnosisAuction_auctionCloseTimestamp = Some 100 \<rparr>)"

definition bond_env :: snapshot_env where
  "bond_env = blank_snapshot_env \<lparr> se_pricing := blank_pricing_env \<lparr> pe_config :=
     blank_config \<lparr> cc_bondManager := Some \<lparr> lc_address = ''0xbm'', lc_startBlock = 0 \<rparr> \<rparr> \<rparr> \<rparr>"

definition bond_store :: "int \<Rightarrow> store" where
  "bond_store raw = empty_store \<lparr> st_GnosisAuction := [sample_auction 1 5 10, sample_auction 2 10 1000],
     st_TokenBalance := [(id3 1 ''0x64'' ''0xbm'', \<lparr> TokenBalance_id = id3 1 ''0x64'' ''0xbm'',
       TokenBalance_chainId = 1, TokenBalance_tokenAddress = ''0x64'',
       TokenBalance_walletAddress = ''0xbm'', TokenBalance_balance = raw,
       TokenBalance_updatedAtBlock = 0 \<rparr>)] \<rparr>"

lemma bond_auctions: "auctionsOf bond_env (bond_store raw) =
    [snd (sample_auction 1 5 10), snd (sample_auction 2 10 1000)]"
  by (simp add: auctionsOf_def bond_env_def bond_store_def blank_env_defs sample_auction_def getWhere_def)

lemma bond_sums:
  "sumOver Vested 500 bidOf (auctionsOf bond_env (bond_store raw)) = 5"
  "sumOver Vesting 500 bidOf (auctionsOf bond_env (bond_store raw)) = 10"
  by (simp_all add: bond_auctions sumOver_def sample_auction_def phaseAt_def bidOf_def)

lemma bond_manager: "cc_bondManager (se_config bond_env) = Some \<lparr> lc_address = ''0xbm'', lc_startBlock = 0 \<rparr>"
  "se_readBondManagerState bond_env c a b = Inr (True, ''0xte'')" "se_rnd bond_env = round20"
  by (simp_all add: bond_env_def blank_env_defs)

lemma bond_finite: "\<forall>a \<in> set (auctionsOf bond_env (bond_store raw)). finiteAuction a"
  by (simp add: bond_auctions sample_auction_def finiteAuction_def)

theorem gnosis_supply_totals_witness:
  "\<exists>rows. pushGnosisAuctionSupply bond_env (bond_store 12000000000) 500 9 [] = preturn rows
     \<and> supplySum TYPE_BONDS_VESTING_DEPOSITS rows = Fin (- 10)"
proof -
  have "sumOver Vesting 500 (round20 \<circ> bidOf) (auctionsOf bond_env (bond_store 12000000000)) = 10"
    by (simp add: bond_auctions sumOver_def sample_auction_def phaseAt_def bidOf_def)
  then show ?thesis
    using gnosis_supply_totals [of bond_env "\<lparr> lc_address = ''0xbm'', lc_startBlock = 0 \<rparr>" 9 "''0xte''"
        "bond_store 12000000000" 500] bond_finite
    by (auto simp: bond_manager bond_sums bn20.decimal_rounding_axioms)
qed

text \<open>
  The deposits of vested auctions are a subtraction only while the bond manager holds at
  least the bids that still vest. When it holds less, the rest is not clamped at zero: here the
  manager holds nothing, the vested auction gets a deposit of -10, and its row adds 10 OHM to
  every supply figure.
\<close>

theorem gnosis_overdrawn:
  "(case pushGnosisAuctionSupply bond_env (bond_store 0) 500 9 [] None of
      Some (Inr rows, _) \<Rightarrow> map (\<lambda>r. (ts_type r, ts_balance r, ts_supplyBalance r)) rows | _ \<Rightarrow> [])
   = [(TYPE_BONDS_DEPOSITS, Fin (- 10), Fin 10),
      (TYPE_BONDS_VESTING_DEPOSITS, Fin 10, Fin (- 10)),
      (TYPE_BONDS_VESTING_TOKENS, Fin 20, Fin (- 20))]"
proof -
  have m: "managerBalance bond_env (bond_store 0) ''0xbm'' = 0"
    by (simp add: managerBalance_def bond_manager tokenBalanceRow_def bond_store_def tget_def
        bond_env_def blank_env_defs addr_def addr_eval)
  have capped: "cappedOhm bond_env (bond_store 0) 500 ''0xbm'' = - 10"
    by (simp add: cappedOhm_def m bond_sums)
  show ?thesis
    unfolding pushGnosisAuctionSupply_rows [OF bond_manager(1) _ bond_manager(2) bond_finite, simplified]
      preturn_def
    by (simp only: bond_sums capped located_contract.simps)
      (simp add: bond_auctions auctionRows_def sample_auction_def Let_def row_simps
        bond_manager type_names)
qed

end
