(* ===== verification/Snapshot_Rows.thy ===== *)
theory Snapshot_Rows
  imports Bonds
begin

text \<open>
  The rows that the snapshot of a block derives for every chain: treasury balances, owned
  liquidity, total supply, treasury OHM and OHM in owned liquidity (the push functions of
  \<open>handlers/BlockHandlers.ts\<close>).
\<close>

section \<open>Treasury balances\<close>

definition recordedCategory :: "string \<Rightarrow> bool" where
  "recordedCategory c \<longleftrightarrow> c = ''Stable'' \<or> c = ''Volatile''"

text \<open>The balance of one wallet: the native balance is read and stored, tokens flagged
  \<open>nonStandardBalance\<close> are read from the chain, all others come from the ledger.\<close>

definition walletBalance :: "snapshot_env \<Rightarrow> token_definition \<Rightarrow> string \<Rightarrow> nat \<Rightarrow> nat \<Rightarrow> store \<Rightarrow>
    (bignumber \<times> store) pm" where
  "walletBalance env definition wallet decimals b s =
     (if Some (td_address definition) = cc_nativeToken (se_config env)
      then readNativeBalance env (se_chain env) wallet decimals b s
      else if td_nonStandardBalance definition = Some True
      then pbind (readNonStandardBalance env (se_chain env) (td_address definition) wallet decimals b)
        (\<lambda>balance. preturn (balance, s))
      else preturn (readTokenBalance (se_rnd env) s (se_chain env) (td_address definition) wallet
        decimals, s))"

definition pushWalletRecord :: "snapshot_env \<Rightarrow> nat \<Rightarrow> nat \<Rightarrow> token_definition \<Rightarrow> bignumber \<Rightarrow> string \<Rightarrow>
    token_record list \<times> store \<Rightarrow> (token_record list \<times> store) pm" where
  "pushWalletRecord env timestamp b definition rate wallet = (\<lambda>(records, s).
     (let config = se_config env;
          decimals = getTokenDecimals (cc_tokens config) (td_address definition) 18
      in pbind (walletBalance env definition wallet decimals b s) (\<lambda>(balance, s').
           preturn (if balance = Fin 0 then records
             else records @ [createTokenRecord (se_rnd env) config timestamp
               (getContractName config (td_address definition)) (td_address definition)
               (getContractName config wallet) wallet rate balance b None None], s'))))"

definition pushTokenRecords :: "snapshot_env \<Rightarrow> nat \<Rightarrow> nat \<Rightarrow> token_definition \<Rightarrow>
    token_record list \<times> store \<Rightarrow> (token_record list \<times> store) pm" where
  "pushTokenRecords env timestamp b definition = (\<lambda>(records, s).
     if \<not> recordedCategory (td_category definition) then preturn (records, s)
     else if \<not> isActive (td_startBlock definition) b then preturn (records, s)
     else pbind (priceAt env s (td_address definition) b) (\<lambda>result.
       if pr_price result = Fin 0 then preturn (records, s)
       else pfold (pushWalletRecord env timestamp b definition (pr_price result))
         (getWalletAddressesForContract (se_config env) (td_address definition)) (records, s)))"

definition pushTokenBalanceRecords :: "snapshot_env \<Rightarrow> nat \<Rightarrow> nat \<Rightarrow> token_record list \<times> store \<Rightarrow>
    (token_record list \<times> store) pm" where
  "pushTokenBalanceRecords env timestamp b =
     pfold (pushTokenRecords env timestamp b) (cc_tokens (se_config env))"

section \<open>Owned liquidity\<close>

definition POL_CATEGORY :: string where "POL_CATEGORY = ''Protocol-Owned Liquidity''"

definition pushLpRecord :: "snapshot_env \<Rightarrow> store \<Rightarrow> nat \<Rightarrow> nat \<Rightarrow> liquidity_handler \<Rightarrow> string \<Rightarrow>
    bignumber \<Rightarrow> bignumber \<Rightarrow> string \<Rightarrow> token_record list \<Rightarrow> token_record list pm" where
  "pushLpRecord env s timestamp b handler lpToken unitRate multiplier wallet records =
     (let config = se_config env;
          lpDecimals = getTokenDecimals (cc_tokens config) lpToken 18;
          useOnChainBalance = Option.bind (getTokenDefinition config lpToken) td_nonStandardBalance
            = Some True
      in pbind (if useOnChainBalance
            then readNonStandardBalance env (se_chain env) lpToken wallet lpDecimals b
            else preturn (readTokenBalance (se_rnd env) s (se_chain env) lpToken wallet lpDecimals))
          (\<lambda>balance. preturn (if balance = Fin 0 then records
            else records @ [createTokenRecord (se_rnd env) config timestamp
              (getContractName config (lh_id handler)) (lh_id handler)
              (getContractName config wallet) wallet unitRate balance b (Some multiplier)
              (Some POL_CATEGORY)])))"

definition pushOwnedLiquidity :: "snapshot_env \<Rightarrow> store \<Rightarrow> nat \<Rightarrow> nat \<Rightarrow> liquidity_handler \<Rightarrow>
    token_record list \<Rightarrow> token_record list pm" where
  "pushOwnedLiquidity env s timestamp b handler records =
     (if \<not> handlerActive handler b then preturn records
      else (case getLpTokenForHandler handler of
          None \<Rightarrow> preturn records
        | Some lpToken \<Rightarrow>
            if lpToken = '''' then preturn records
            else pbind (totalValueAt env s handler [] b) (\<lambda>total_value. case total_value of
                None \<Rightarrow> preturn records
              | Some totalValue \<Rightarrow>
                  if totalValue = Fin 0 then preturn records
                  else pbind (totalValueAt env s handler [cc_ohmToken (se_config env)] b)
                    (\<lambda>included. case included of
                      None \<Rightarrow> preturn records
                    | Some includedValue \<Rightarrow>
                        pbind (unitPriceAt env s handler b) (\<lambda>unit_rate. case unit_rate of
                            None \<Rightarrow> preturn records
                          | Some unitRate \<Rightarrow>
                              pfold (pushLpRecord env s timestamp b handler lpToken unitRate
                                  (bn_div (se_rnd env) includedValue totalValue))
                                (cc_protocolAddresses (se_config env)) records)))))"

definition pushOwnedLiquidityRecords :: "snapshot_env \<Rightarrow> store \<Rightarrow> nat \<Rightarrow> nat \<Rightarrow> token_record list \<Rightarrow>
    token_record list pm" where
  "pushOwnedLiquidityRecords env s timestamp b =
     pfold (pushOwnedLiquidity env s timestamp b) (cc_ownedLiquidityHandlers (se_config env))"

section \<open>OHM equivalents\<close>

text \<open>The rebase index comes from the sOHM contract of the Ethereum configuration, on every
  chain. An empty address is as good as none.\<close>

definition canonicalSOhm :: "snapshot_env \<Rightarrow> string option" where
  "canonicalSOhm env = (case se_configs env ETHEREUM_ID of None \<Rightarrow> None
     | Some ethereum \<Rightarrow> (case cc_migrationOffset ethereum of None \<Rightarrow> None
         | Some offset \<Rightarrow> if mo_sOhmAddress offset = '''' then None
             else Some (mo_sOhmAddress offset)))"

definition getSOhmV3Index :: "snapshot_env \<Rightarrow> store \<Rightarrow> bignumber option" where
  "getSOhmV3Index env s = (case canonicalSOhm env of None \<Rightarrow> None
     | Some sOhm \<Rightarrow> (case tget (st_OhmIndexState s) (id2 1 (addr sOhm)) of None \<Rightarrow> None
         | Some indexState \<Rightarrow> if OhmIndexState_index indexState = 0 then None
             else Some (toDecimal (se_rnd env) (OhmIndexState_index indexState) SOHM_INDEX_DECIMALS)))"

definition getOhmEquivalentMultiplier :: "snapshot_env \<Rightarrow> store \<Rightarrow> bignumber option" where
  "getOhmEquivalentMultiplier env s =
     (if getTokenDecimals (cc_tokens (se_config env)) (cc_ohmToken (se_config env)) 18 = 9
      then Some (Fin 1) else getSOhmV3Index env s)"

section \<open>Supplies\<close>

definition beforeOhm :: "snapshot_env \<Rightarrow> nat \<Rightarrow> bool" where
  "beforeOhm env b \<longleftrightarrow> \<not> isActive (cc_ohmStartBlock (se_config env)) b"

definition pushTotalSupply :: "snapshot_env \<Rightarrow> store \<Rightarrow> nat \<Rightarrow> nat \<Rightarrow> token_supply list \<Rightarrow>
    token_supply list" where
  "pushTotalSupply env s timestamp b supplies =
     (let config = se_config env;
          decimals = getTokenDecimals (cc_tokens config) (cc_ohmToken config) 18
      in if beforeOhm env b then supplies
         else (case tget (st_Erc20Supply s) (id2 (se_chain env) (addr (cc_ohmToken config))) of
             None \<Rightarrow> supplies
           | Some entity \<Rightarrow> (case getOhmEquivalentMultiplier env s of
               None \<Rightarrow> supplies
             | Some multiplier \<Rightarrow>
                 (let balance = toDecimal (se_rnd env) (Erc20Supply_totalSupply entity) decimals
                    * multiplier
                  in if balance = Fin 0 then supplies
                     else supplies @ [createTokenSupply (se_rnd env) config timestamp
                       (getContractName config (cc_ohmToken config)) (cc_ohmToken config) None None
                       None None ''Total Supply'' balance b 1]))))"

text \<open>Both loops of \<open>pushTreasuryOhm\<close> end in the same way: a balance that is zero, before or after
  the conversion, gives no row.\<close>

definition pushTreasuryRow :: "snapshot_env \<Rightarrow> nat \<Rightarrow> nat \<Rightarrow> string \<Rightarrow> string \<Rightarrow> bignumber \<Rightarrow> bignumber \<Rightarrow>
    token_supply list \<Rightarrow> token_supply list" where
  "pushTreasuryRow env timestamp b tokenAddress wallet rawBalance multiplier supplies =
     (let config = se_config env; balance = rawBalance * multiplier
      in if rawBalance = Fin 0 then supplies
         else if balance = Fin 0 then supplies
         else supplies @ [createTokenSupply (se_rnd env) config timestamp
           (getContractName config tokenAddress) tokenAddress None None
           (Some (getContractName config wallet)) (Some wallet) ''Treasury'' balance b (- 1)])"

definition pushTreasuryWallet :: "snapshot_env \<Rightarrow> store \<Rightarrow> nat \<Rightarrow> nat \<Rightarrow> bignumber \<Rightarrow> string \<Rightarrow>
    token_supply list \<Rightarrow> token_supply list pm" where
  "pushTreasuryWallet env s timestamp b multiplier wallet supplies =
     (let config = se_config env;
          decimals = getTokenDecimals (cc_tokens config) (cc_ohmToken config) 18;
          useOnChainBalance = Option.bind (getTokenDefinition config (cc_ohmToken config))
            td_nonStandardBalance = Some True
      in pbind (if useOnChainBalance
            then readNonStandardBalance env (se_chain env) (cc_ohmToken config) wallet decimals b
            else preturn (readTokenBalance (se_rnd env) s (se_chain env) (cc_ohmToken config) wallet
              decimals))
          (\<lambda>rawBalance. preturn (pushTreasuryRow env timestamp b (cc_ohmToken config) wallet
            rawBalance multiplier supplies)))"

text \<open>The index is looked up at most once and the store does not change meanwhile, so the model
  reads it where it is used.\<close>

definition equivalentMultiplier :: "snapshot_env \<Rightarrow> store \<Rightarrow> ohm_equivalent \<Rightarrow> bignumber option" where
  "equivalentMultiplier env s entry = (case oe_convertVia entry of
     Gohm_Index \<Rightarrow> getSOhmV3Index env s | Direct \<Rightarrow> Some (Fin 1))"

definition pushEquivalent :: "snapshot_env \<Rightarrow> store \<Rightarrow> nat \<Rightarrow> nat \<Rightarrow> ohm_equivalent \<Rightarrow>
    token_supply list \<Rightarrow> token_supply list" where
  "pushEquivalent env s timestamp b entry supplies =
     (if b < oe_startBlock entry then supplies
      else (case equivalentMultiplier env s entry of
          None \<Rightarrow> supplies
        | Some multiplier \<Rightarrow> fold (\<lambda>wallet. pushTreasuryRow env timestamp b (oe_tokenAddress entry) wallet
            (readTokenBalance (se_rnd env) s (se_chain env) (oe_tokenAddress entry) wallet
              (oe_decimals entry)) multiplier)
            (cc_circulatingSupplyWallets (se_config env)) supplies))"

definition pushTreasuryOhm :: "snapshot_env \<Rightarrow> store \<Rightarrow> nat \<Rightarrow> nat \<Rightarrow> token_supply list \<Rightarrow>
    token_supply list pm" where
  "pushTreasuryOhm env s timestamp b supplies =
     (if beforeOhm env b then preturn supplies
      else (case getOhmEquivalentMultiplier env s of
          None \<Rightarrow> preturn supplies
        | Some multiplier \<Rightarrow>
            pbind (pfold (pushTreasuryWallet env s timestamp b multiplier)
              (cc_circulatingSupplyWallets (se_config env)) supplies) (\<lambda>supplies'.
                preturn (fold (pushEquivalent env s timestamp b)
                  (nullish (cc_treasuryOhmEquivalents (se_config env)) []) supplies'))))"

definition pushLiquidityWallet :: "snapshot_env \<Rightarrow> store \<Rightarrow> nat \<Rightarrow> nat \<Rightarrow> bignumber \<Rightarrow>
    liquidity_handler \<Rightarrow> string \<Rightarrow> token_supply list \<Rightarrow> token_supply list pm" where
  "pushLiquidityWallet env s timestamp b multiplier handler wallet supplies =
     (let config = se_config env in
      pbind (getUnderlyingTokenBalance (pricingAt env s) handler wallet (cc_ohmToken config) b)
        (\<lambda>rawBalance. preturn
          (let balance = rawBalance * multiplier in
           if rawBalance = Fin 0 then supplies
           else if balance = Fin 0 then supplies
           else supplies @ [createTokenSupply (se_rnd env) config timestamp
             (getContractName config (cc_ohmToken config)) (cc_ohmToken config)
             (Some (getContractName config (lh_id handler))) (Some (lh_id handler))
             (Some (getContractName config wallet)) (Some wallet) ''Liquidity'' balance b (- 1)])))"

definition pushOwnedLiquiditySupply :: "snapshot_env \<Rightarrow> store \<Rightarrow> nat \<Rightarrow> nat \<Rightarrow> token_supply list \<Rightarrow>
    token_supply list pm" where
  "pushOwnedLiquiditySupply env s timestamp b supplies =
     (case getOhmEquivalentMultiplier env s of
        None \<Rightarrow> preturn supplies
      | Some multiplier \<Rightarrow> pfold (\<lambda>handler supplies.
          if \<not> handlerActive handler b then preturn supplies
          else if \<not> matches handler (cc_ohmToken (se_config env)) then preturn supplies
          else pfold (pushLiquidityWallet env s timestamp b multiplier handler)
            (cc_circulatingSupplyWallets (se_config env)) supplies)
          (cc_ownedLiquidityHandlers (se_config env)) supplies)"

end
