(* ===== verification/Snapshot_Protocols.thy ===== *)
theory Snapshot_Protocols
  imports Snapshot_Rows
begin

text \<open>
  The rows that individual protocols contribute to a snapshot: the migration offset
  (\<open>MigrationOffset.ts\<close>), boosted liquidity vaults (\<open>BlvSupply.ts\<close>), cooler loans
  (\<open>CoolerLoans.ts\<close>), Arbitrum staking and lending (\<open>ArbitrumStaking.ts\<close>,
  \<open>ArbitrumLending.ts\<close>) and Uniswap V3 positions held as NFTs (\<open>Univ3NftPol.ts\<close>), all under
  \<open>handlers/\<close>.
\<close>

section \<open>Migration offset\<close>

definition pushMigrationOffsetSupply :: "snapshot_env \<Rightarrow> store \<Rightarrow> nat \<Rightarrow> nat \<Rightarrow> token_supply list \<Rightarrow>
    token_supply list" where
  "pushMigrationOffsetSupply env s timestamp b supplies =
     (let config = se_config env in
      case cc_migrationOffset config of
        None \<Rightarrow> supplies
      | Some offset \<Rightarrow>
          if b < mo_startBlock offset then supplies
          else if b \<ge> mo_endBlock offset then supplies
          else (case tget (st_OhmIndexState s) (id2 (cc_chainId config) (addr (mo_sOhmAddress offset))) of
              None \<Rightarrow> supplies
            | Some indexState \<Rightarrow>
                if OhmIndexState_index indexState = 0 then supplies
                else (let index = toDecimal (se_rnd env) (OhmIndexState_index indexState)
                        SOHM_INDEX_DECIMALS;
                        offsetAmount = Fin (mo_offsetOhm offset) * index
                      in if offsetAmount = Fin 0 then supplies
                         else supplies @ [createTokenSupply (se_rnd env) config timestamp
                           (getContractName config (cc_ohmToken config)) (cc_ohmToken config)
                           None None (Some (getContractName config (mo_migrationContract offset)))
                           (Some (mo_migrationContract offset)) TYPE_OFFSET offsetAmount b (- 1)])))"

section \<open>Boosted liquidity vaults\<close>

definition BLV_OHM_DECIMALS :: nat where "BLV_OHM_DECIMALS = 9"

fun pushVaults :: "snapshot_env \<Rightarrow> nat \<Rightarrow> nat \<Rightarrow> string list \<Rightarrow> int list \<Rightarrow> token_supply list \<Rightarrow>
    token_supply list" where
  "pushVaults env timestamp b [] shares supplies = supplies"
| "pushVaults env timestamp b (vault # vaults) [] supplies = pushVaults env timestamp b vaults [] supplies"
| "pushVaults env timestamp b (vault # vaults) (raw # shares) supplies =
     (let config = se_config env; balance = toDecimal (se_rnd env) raw BLV_OHM_DECIMALS
      in pushVaults env timestamp b vaults shares
        (if raw = 0 then supplies
         else if balance = Fin 0 then supplies
         else supplies @ [createTokenSupply (se_rnd env) config timestamp
           (getContractName config (cc_ohmToken config)) (cc_ohmToken config) None None
           (Some vault) (Some vault) TYPE_BLV balance b (- 1)]))"

definition pushBlvSupply :: "snapshot_env \<Rightarrow> nat \<Rightarrow> nat \<Rightarrow> token_supply list \<Rightarrow> token_supply list pm" where
  "pushBlvSupply env timestamp b supplies = (case cc_blvRegistry (se_config env) of
     None \<Rightarrow> preturn supplies
   | Some registry \<Rightarrow>
       if b < lc_startBlock registry then preturn supplies
       else pbind (pread (se_snapshotBlvRegistry env (se_chain env) (lc_address registry) b))
         (\<lambda>(vaults, ohmShares). preturn (pushVaults env timestamp b vaults ohmShares supplies)))"

section \<open>Cooler loans\<close>

definition pushClearinghouse :: "snapshot_env \<Rightarrow> store \<Rightarrow> nat \<Rightarrow> nat \<Rightarrow> cooler_clearinghouse \<Rightarrow>
    token_record list \<Rightarrow> token_record list pm" where
  "pushClearinghouse env s timestamp b clearinghouse records =
     (let config = se_config env in
      if \<not> isActive (ch_startBlock clearinghouse) b then preturn records
      else pbind (pread (case ch_kind clearinghouse of
          Monocooler \<Rightarrow> se_readMonoCoolerTotalDebt env (se_chain env) (ch_address clearinghouse) b
        | Clearinghouse \<Rightarrow>
            se_readCoolerPrincipalReceivables env (se_chain env) (ch_address clearinghouse) b))
        (\<lambda>answer. case answer of
          None \<Rightarrow> preturn records
        | Some raw \<Rightarrow>
            (let receivable = toDecimal (se_rnd env) raw
               (getTokenDecimals (cc_tokens config) (ch_receivableToken clearinghouse) 18)
             in if receivable = Fin 0 then preturn records
                else pbind (priceAt env s (nullish (ch_priceToken clearinghouse)
                    (ch_receivableToken clearinghouse)) b) (\<lambda>result.
                  preturn (if pr_price result = Fin 0 then records
                    else records @ [createTokenRecord (se_rnd env) config timestamp
                      (getContractName config (ch_receivableToken clearinghouse)
                        @ '' - Borrowed Through '' @ ch_name clearinghouse)
                      (ch_receivableToken clearinghouse) (ch_name clearinghouse)
                      (ch_address clearinghouse) (pr_price result) receivable b None None])))))"

definition pushCoolerReceivables :: "snapshot_env \<Rightarrow> store \<Rightarrow> nat \<Rightarrow> nat \<Rightarrow> token_record list \<Rightarrow>
    token_record list pm" where
  "pushCoolerReceivables env s timestamp b =
     pfold (pushClearinghouse env s timestamp b)
       (nullish (cc_coolerClearinghouses (se_config env)) [])"

section \<open>Arbitrum staking\<close>

definition JONES_STAKED_POOL_ID :: nat where "JONES_STAKED_POOL_ID = 0"
definition JONES_WRITE_OFF_BLOCK :: nat where "JONES_WRITE_OFF_BLOCK = 130482707"
definition TREASURE_STAKED_LP_DECIMALS :: nat where "TREASURE_STAKED_LP_DECIMALS = 18"
definition JONES_TOKEN_ADDRESS :: string where
  "JONES_TOKEN_ADDRESS = ''0x10393c20975cf177a3513071bc110f7962cd67da''"
definition MAGIC_TOKEN_ADDRESS :: string where
  "MAGIC_TOKEN_ADDRESS = ''0x539bde0d7dbd336b79148aa742883198bbf60342''"

text \<open>\<open>rate ??= await getPrice(..)\<close>: the first wallet that needs the rate looks it up.\<close>

definition rateOnce :: "snapshot_env \<Rightarrow> store \<Rightarrow> string \<Rightarrow> nat \<Rightarrow> bignumber option \<Rightarrow> bignumber pm" where
  "rateOnce env s t b rate = (case rate of Some r \<Rightarrow> preturn r
     | None \<Rightarrow> pbind (priceAt env s t b) (\<lambda>result. preturn (pr_price result)))"

definition pushJonesWallet :: "snapshot_env \<Rightarrow> store \<Rightarrow> nat \<Rightarrow> nat \<Rightarrow> string \<Rightarrow> string \<Rightarrow>
    token_record list \<times> bignumber option \<Rightarrow> (token_record list \<times> bignumber option) pm" where
  "pushJonesWallet env s timestamp b jones wallet = (\<lambda>(records, rate0).
     (let config = se_config env in
      case tget (st_JonesStakingPosition s)
          (id3 (se_chain env) (nat_str JONES_STAKED_POOL_ID) (addr wallet)) of
        None \<Rightarrow> preturn (records, rate0)
      | Some entity \<Rightarrow>
          if JonesStakingPosition_amount entity = 0 then preturn (records, rate0)
          else pbind (rateOnce env s jones b rate0) (\<lambda>rate.
            if rate = Fin 0 then preturn (records, Some rate)
            else (let balance = toDecimal (se_rnd env) (JonesStakingPosition_amount entity) 18;
                    row = createTokenRecord (se_rnd env) config timestamp
                      (getContractName config jones @ '' - Staked'') jones
                      (getContractName config wallet) wallet rate balance b None None;
                    row' = (if b \<ge> JONES_WRITE_OFF_BLOCK
                      then row \<lparr> tr_multiplier := Fin 0, tr_valueExcludingOhm := Fin 0 \<rparr> else row)
                  in preturn (records @ [row'], Some rate)))))"

text \<open>A token of the configuration found by its exact address, if it is live.\<close>

definition liveToken :: "snapshot_env \<Rightarrow> string \<Rightarrow> nat \<Rightarrow> string option" where
  "liveToken env a b =
     (case List.find (\<lambda>t. td_address t = addr a) (cc_tokens (se_config env)) of None \<Rightarrow> None
      | Some t \<Rightarrow> if isActive (td_startBlock t) b then Some (td_address t) else None)"

definition pushJonesStakingRecords :: "snapshot_env \<Rightarrow> store \<Rightarrow> nat \<Rightarrow> nat \<Rightarrow> token_record list \<Rightarrow>
    token_record list pm" where
  "pushJonesStakingRecords env s timestamp b records =
     (case liveToken env JONES_TOKEN_ADDRESS b of
        None \<Rightarrow> preturn records
      | Some jones \<Rightarrow> pbind (pfold (pushJonesWallet env s timestamp b jones)
          (cc_protocolAddresses (se_config env)) (records, None)) (\<lambda>(records', _). preturn records'))"

text \<open>The inner loop over the deposits of a wallet ends at the first zero rate (\<open>break\<close>).\<close>

fun pushTreasureDeposits :: "snapshot_env \<Rightarrow> store \<Rightarrow> nat \<Rightarrow> nat \<Rightarrow> string \<Rightarrow> string \<Rightarrow>
    TreasureDeposit list \<Rightarrow> token_record list \<times> bignumber option \<Rightarrow>
    (token_record list \<times> bignumber option) pm" where
  "pushTreasureDeposits env s timestamp b magic wallet [] (records, rate0) = preturn (records, rate0)"
| "pushTreasureDeposits env s timestamp b magic wallet (deposit # deposits) (records, rate0) =
     (if TreasureDeposit_chainId deposit \<noteq> se_chain env \<or> TreasureDeposit_amount deposit = 0
      then pushTreasureDeposits env s timestamp b magic wallet deposits (records, rate0)
      else pbind (rateOnce env s magic b rate0) (\<lambda>rate.
        if rate = Fin 0 then preturn (records, Some rate)
        else (let config = se_config env;
                balance = toDecimal (se_rnd env) (TreasureDeposit_amount deposit)
                  TREASURE_STAKED_LP_DECIMALS;
                row = createTokenRecord (se_rnd env) config timestamp
                  (getContractName config magic @ '' - Staked (veMAGIC)'') magic
                  (getContractName config wallet) wallet rate balance b None None
              in pushTreasureDeposits env s timestamp b magic wallet deposits
                (records @ [row \<lparr> tr_isLiquid := False \<rparr>], Some rate))))"

definition pushTreasureStakingRecords :: "snapshot_env \<Rightarrow> store \<Rightarrow> nat \<Rightarrow> nat \<Rightarrow> token_record list \<Rightarrow>
    token_record list pm" where
  "pushTreasureStakingRecords env s timestamp b records =
     (case liveToken env MAGIC_TOKEN_ADDRESS b of
        None \<Rightarrow> preturn records
      | Some magic \<Rightarrow> pbind (pfold (\<lambda>wallet. pushTreasureDeposits env s timestamp b magic wallet
            (getWhere (\<lambda>d. TreasureDeposit_walletAddress d = addr wallet) (st_TreasureDeposit s)))
          (cc_protocolAddresses (se_config env)) (records, None)) (\<lambda>(records', _). preturn records'))"

definition pushArbitrumStakingRecords :: "snapshot_env \<Rightarrow> store \<Rightarrow> nat \<Rightarrow> nat \<Rightarrow> token_record list \<Rightarrow>
    token_record list pm" where
  "pushArbitrumStakingRecords env s timestamp b records =
     pbind (pushJonesStakingRecords env s timestamp b records)
       (pushTreasureStakingRecords env s timestamp b)"

section \<open>Arbitrum lending\<close>

definition OLYMPUS_LENDER :: string where
  "OLYMPUS_LENDER = addr ''0x868C3ae18Fdea85bBb7a303e379c5B7e23b30F03''"
definition SILO_COLLATERAL :: string where
  "SILO_COLLATERAL = addr ''0xD8102963c400fEDBbc23Fe92f1b09c0C561e77Ae''"
definition SENTIMENT_LTOKEN :: string where
  "SENTIMENT_LTOKEN = addr ''0x37E6a0EcB9e8E5D90104590049a0A197E1363b67''"
definition SENTIMENT_LTOKEN_START_BLOCK :: nat where "SENTIMENT_LTOKEN_START_BLOCK = 100875583"
definition SILO_COLLATERAL_START_BLOCK :: nat where "SILO_COLLATERAL_START_BLOCK = 99067079"
definition ARBITRUM_DYNAMIC_LENDING_START_BLOCK :: nat where
  "ARBITRUM_DYNAMIC_LENDING_START_BLOCK = 130482707"
definition LENDING_OHM_DECIMALS :: nat where "LENDING_OHM_DECIMALS = 9"

definition lendingRow :: "snapshot_env \<Rightarrow> nat \<Rightarrow> nat \<Rightarrow> string option \<Rightarrow> string option \<Rightarrow> string \<Rightarrow>
    string \<Rightarrow> bignumber \<Rightarrow> token_supply" where
  "lendingRow env timestamp b pool poolAddress source sourceAddress balance =
     (let config = se_config env in createTokenSupply (se_rnd env) config timestamp
        (getContractName config (cc_ohmToken config)) (cc_ohmToken config) pool poolAddress
        (Some source) (Some sourceAddress) TYPE_LENDING balance b (- 1))"

definition pushAmo :: "snapshot_env \<Rightarrow> nat \<Rightarrow> nat \<Rightarrow> LenderAmo \<Rightarrow> token_supply list \<Rightarrow>
    token_supply list" where
  "pushAmo env timestamp b amo supplies =
     (if LenderAmo_chainId amo \<noteq> se_chain env then supplies
      else if LenderAmo_deployedOhm amo = 0 then supplies
      else supplies @ [lendingRow env timestamp b None None
        (getContractName (se_config env) OLYMPUS_LENDER @ '' - '' @ addr (LenderAmo_amoAddress amo))
        (addr (LenderAmo_amoAddress amo))
        (toDecimal (se_rnd env) (LenderAmo_deployedOhm amo) LENDING_OHM_DECIMALS)])"

definition pushMarket :: "snapshot_env \<Rightarrow> store \<Rightarrow> nat \<Rightarrow> nat \<Rightarrow> string \<times> nat \<Rightarrow> token_supply list \<Rightarrow>
    token_supply list" where
  "pushMarket env s timestamp b = (\<lambda>(market, startBlock) supplies.
     if b < startBlock then supplies
     else fold (\<lambda>wallet supplies.
         (let balance = readTokenBalance (se_rnd env) s (se_chain env) market wallet
            LENDING_OHM_DECIMALS
          in if balance = Fin 0 then supplies
             else supplies @ [lendingRow env timestamp b
               (Some (getContractName (se_config env) market)) (Some market)
               (getContractName (se_config env) wallet) wallet balance]))
       (getWalletAddressesForContract (se_config env) market) supplies)"

definition pushArbitrumLendingSupply :: "snapshot_env \<Rightarrow> store \<Rightarrow> nat \<Rightarrow> nat \<Rightarrow> token_supply list \<Rightarrow>
    token_supply list" where
  "pushArbitrumLendingSupply env s timestamp b supplies =
     fold (pushMarket env s timestamp b) [(SILO_COLLATERAL, SILO_COLLATERAL_START_BLOCK),
         (SENTIMENT_LTOKEN, SENTIMENT_LTOKEN_START_BLOCK)]
       (if b \<ge> ARBITRUM_DYNAMIC_LENDING_START_BLOCK
        then fold (pushAmo env timestamp b) (getWhere LenderAmo_active (st_LenderAmo s)) supplies
        else supplies)"

section \<open>Uniswap V3 positions\<close>

text \<open>\<open>[a, b].filter(Boolean).sort().join("/")\<close>: the key under which a pair of tokens is known.\<close>

definition pairKey :: "string list \<Rightarrow> string" where
  "pairKey ts = (case sort ts of [] \<Rightarrow> '''' | t # r \<Rightarrow> t @ concat (map (\<lambda>x. ''/'' @ x) r))"

definition univ3Pools :: "chain_config \<Rightarrow> (string \<times> string) list" where
  "univ3Pools config = foldl (\<lambda>m h. case h of
       Univ3 i ts _ \<Rightarrow> AList.update
         (pairKey (filter (\<lambda>t. t \<noteq> '''') (map toLowerCase (take 2 ts)))) i m
     | _ \<Rightarrow> m) [] (cc_liquidityHandlers config)"

record pool_agg =
  pa_poolId :: string
  pa_token0 :: string
  pa_token1 :: string
  pa_amount0 :: bignumber
  pa_amount1 :: bignumber

definition addPosition :: "snapshot_env \<Rightarrow> store \<Rightarrow> (string \<times> pool_agg) list \<Rightarrow> nft_position \<Rightarrow>
    (string \<times> pool_agg) list" where
  "addPosition env s aggregates position =
     (let config = se_config env in
      case map_of (univ3Pools config) (pairKey [np_token0 position, np_token1 position]) of
        None \<Rightarrow> aggregates
      | Some pool \<Rightarrow> (case tget (st_Univ3PoolState s) (id2 (se_chain env) (addr pool)) of
          None \<Rightarrow> aggregates
        | Some state \<Rightarrow>
            if Univ3PoolState_sqrtPriceX96 state = 0 then aggregates
            else (let (amount0, amount1) = se_positionAmounts env (np_liquidity position)
                    (Univ3PoolState_sqrtPriceX96 state) (np_tickLower position) (np_tickUpper position);
                    balance0 = toDecimal (se_rnd env) amount0
                      (getTokenDecimals (cc_tokens config) (np_token0 position) 18);
                    balance1 = toDecimal (se_rnd env) amount1
                      (getTokenDecimals (cc_tokens config) (np_token1 position) 18)
                  in AList.update (addr pool) (case map_of aggregates (addr pool) of
                      Some existing \<Rightarrow> existing \<lparr> pa_amount0 := pa_amount0 existing + balance0,
                        pa_amount1 := pa_amount1 existing + balance1 \<rparr>
                    | None \<Rightarrow> \<lparr> pa_poolId = pool, pa_token0 = np_token0 position,
                        pa_token1 = np_token1 position, pa_amount0 = balance0,
                        pa_amount1 = balance1 \<rparr>) aggregates)))"

definition pushPosition :: "snapshot_env \<Rightarrow> store \<Rightarrow> nat \<Rightarrow> nat \<Rightarrow> string \<Rightarrow> pool_agg \<Rightarrow>
    token_record list \<times> token_supply list \<Rightarrow> (token_record list \<times> token_supply list) pm" where
  "pushPosition env s timestamp b wallet agg = (\<lambda>(records, supplies).
     pbind (priceAt env s (pa_token0 agg) b) (\<lambda>result0.
     pbind (priceAt env s (pa_token1 agg) b) (\<lambda>result1.
       (let config = se_config env;
            value0 = pa_amount0 agg * pr_price result0;
            value1 = pa_amount1 agg * pr_price result1;
            totalValue = value0 + value1;
            token0IsOhm = toLowerCase (pa_token0 agg) = toLowerCase (cc_ohmToken config);
            token1IsOhm = toLowerCase (pa_token1 agg) = toLowerCase (cc_ohmToken config);
            ohmValue = (if token0IsOhm then value0 else Fin 0) + (if token1IsOhm then value1 else Fin 0);
            multiplier = bn_div (se_rnd env) (totalValue - ohmValue) totalValue;
            row = (\<lambda>amount. createTokenSupply (se_rnd env) config timestamp
              (getContractName config (cc_ohmToken config)) (cc_ohmToken config)
              (Some (getContractName config (pa_poolId agg))) (Some (pa_poolId agg))
              (Some (getContractName config wallet)) (Some wallet) TYPE_LIQUIDITY amount b (- 1))
        in if bn_lte totalValue (Fin 0) then preturn (records, supplies)
           else preturn (records @ [createTokenRecord (se_rnd env) config timestamp
                (getContractName config (pa_poolId agg)) (pa_poolId agg)
                (getContractName config wallet) wallet totalValue (Fin 1) b (Some multiplier)
                (Some POL_CATEGORY)],
              supplies @ (if token0IsOhm \<and> pa_amount0 agg \<noteq> Fin 0 then [row (pa_amount0 agg)] else [])
                @ (if token1IsOhm \<and> pa_amount1 agg \<noteq> Fin 0 then [row (pa_amount1 agg)] else []))))))"

definition pushNftWallet :: "snapshot_env \<Rightarrow> store \<Rightarrow> nat \<Rightarrow> nat \<Rightarrow> string \<Rightarrow> string \<Rightarrow>
    token_record list \<times> token_supply list \<Rightarrow> (token_record list \<times> token_supply list) pm" where
  "pushNftWallet env s timestamp b manager wallet rows =
     pbind (pread (se_snapshotUniv3NftPositions env (se_chain env) manager wallet b)) (\<lambda>positions.
       pfold (pushPosition env s timestamp b wallet) (map snd (foldl (addPosition env s) [] positions))
         rows)"

definition pushUniv3NftPol :: "snapshot_env \<Rightarrow> store \<Rightarrow> nat \<Rightarrow> nat \<Rightarrow>
    token_record list \<times> token_supply list \<Rightarrow> (token_record list \<times> token_supply list) pm" where
  "pushUniv3NftPol env s timestamp b rows = (case cc_univ3PositionManager (se_config env) of
     None \<Rightarrow> preturn rows
   | Some manager \<Rightarrow>
       if b < lc_startBlock manager then preturn rows
       else if univ3Pools (se_config env) = [] then preturn rows
       else pfold (pushNftWallet env s timestamp b (lc_address manager))
         (cc_protocolAddresses (se_config env)) rows)"

end
