(* ===== verification/Snapshot.thy ===== *)
theory Snapshot
  imports Snapshot_Protocols
begin

text \<open>
  The snapshot of a block (\<open>handlers/BlockHandlers.ts\<close>): which blocks, the order in which the
  rows are derived, the rows written, and the global figures of the day that every chain's
  snapshot updates.
\<close>

section \<open>Which blocks\<close>

record block_handler =
  bh_name :: string
  bh_chain :: nat
  bh_startBlock :: nat
  bh_interval :: nat

definition BLOCK_HANDLERS :: "block_handler list" where
  "BLOCK_HANDLERS = [
     \<lparr> bh_name = ''ArbitrumEightHourSnapshot'', bh_chain = 42161, bh_startBlock = 10950000,
       bh_interval = 115200 \<rparr>,
     \<lparr> bh_name = ''BerachainEightHourSnapshot'', bh_chain = 80094, bh_startBlock = 799194,
       bh_interval = 14917 \<rparr>,
     \<lparr> bh_name = ''BaseEightHourSnapshot'', bh_chain = 8453, bh_startBlock = 13204827,
       bh_interval = 14400 \<rparr>,
     \<lparr> bh_name = ''PolygonEightHourSnapshot'', bh_chain = 137, bh_startBlock = 23000000,
       bh_interval = 14400 \<rparr>,
     \<lparr> bh_name = ''FantomEightHourSnapshot'', bh_chain = 250, bh_startBlock = 37320000,
       bh_interval = 7200 \<rparr>,
     \<lparr> bh_name = ''EthereumEightHourSnapshot'', bh_chain = 1, bh_startBlock = 12000000,
       bh_interval = 2400 \<rparr>]"

definition blockHandlerFor :: "nat \<Rightarrow> block_handler option" where
  "blockHandlerFor chainId = List.find (\<lambda>h. bh_chain h = chainId) BLOCK_HANDLERS"

text \<open>The block filter: the first block and the step.\<close>

definition snapshotWhere :: "nat \<Rightarrow> string + nat \<times> nat" where
  "snapshotWhere chainId = (case blockHandlerFor chainId of
     None \<Rightarrow> Inl ''Unsupported chain for EightHourSnapshot block handler''
   | Some handler \<Rightarrow> Inr (bh_startBlock handler, bh_interval handler))"

section \<open>What a snapshot writes\<close>

record chain_metric_values =
  cv_id :: string
  cv_snapshot_id :: string
  cv_chainId :: nat
  cv_blockchain :: string
  cv_date :: string
  cv_block :: nat
  cv_timestamp :: nat
  cv_ohmTotalSupply :: bignumber
  cv_ohmCirculatingSupply :: bignumber
  cv_ohmFloatingSupply :: bignumber
  cv_ohmBackedSupply :: bignumber
  cv_treasuryMarketValue :: bignumber
  cv_treasuryLiquidBacking :: bignumber

record global_metric =
  gm_id :: string
  gm_date :: string
  gm_updatedAtTimestamp :: nat
  gm_crossChainComplete :: bool
  gm_chainsIndexed :: "nat list"
  gm_chainsMissing :: "nat list"
  gm_ohmTotalSupply :: bignumber
  gm_ohmCirculatingSupply :: bignumber
  gm_ohmFloatingSupply :: bignumber
  gm_ohmBackedSupply :: bignumber
  gm_gOhmBackedSupply :: bignumber
  gm_treasuryMarketValue :: bignumber
  gm_treasuryLiquidBacking :: bignumber
  gm_ohmIndex :: bignumber
  gm_ohmApy :: bignumber
  gm_ohmPrice :: bignumber
  gm_gOhmPrice :: bignumber
  gm_sOhmCirculatingSupply :: bignumber
  gm_sOhmTotalValueLocked :: bignumber
  gm_marketCap :: bignumber
  gm_liquidBackingPerOhmFloating :: bignumber
  gm_liquidBackingPerOhmBacked :: bignumber
  gm_liquidBackingPerGOhmBacked :: bignumber

record chain_category =
  ck_id :: string
  ck_snapshot_id :: string
  ck_chainId :: nat
  ck_date :: string
  ck_category :: string
  ck_balance :: bignumber
  ck_supplyBalance :: bignumber

record metrics_out =
  mo_TokenRecord :: "token_record table"
  mo_TokenSupply :: "token_supply table"
  mo_ChainMetricValues :: "chain_metric_values table"
  mo_GlobalMetricSnapshot :: "global_metric table"
  mo_ChainSupplyCategory :: "chain_category table"

definition CATEGORY_TYPE_TO_ENUM :: "string \<rightharpoonup> string" where
  "CATEGORY_TYPE_TO_ENUM = map_of [
     (''Total Supply'', ''TOTAL_SUPPLY''), (''Treasury'', ''TREASURY''),
     (''OHM Migration Offset'', ''OHM_MIGRATION_OFFSET''),
     (''Bonds (Pre-Minted)'', ''BONDS_PREMINTED''),
     (''Bonds (Vesting Deposits)'', ''BONDS_VESTING_DEPOSITS''),
     (''Bonds (Vesting Tokens)'', ''BONDS_VESTING_TOKENS''),
     (''Bonds (Deposits)'', ''BONDS_DEPOSITS''), (''Liquidity'', ''LIQUIDITY''),
     (''Boosted Liquidity Vault'', ''BOOSTED_LIQUIDITY_VAULT''), (''Lending'', ''LENDING'')]"

section \<open>The global figures of the day\<close>

definition dateOf :: "token_record list \<Rightarrow> token_supply list \<Rightarrow> string" where
  "dateOf records supplies = (case records of r # _ \<Rightarrow> tr_date r
     | [] \<Rightarrow> (case supplies of u # _ \<Rightarrow> ts_date u | [] \<Rightarrow> ''''))"

definition chainValuesId :: "string \<Rightarrow> nat \<Rightarrow> string" where
  "chainValuesId date chainId = date @ ''/'' @ nat_str chainId"

definition chainValuesRow :: "per_chain \<Rightarrow> chain_metric_values" where
  "chainValuesRow c = \<lparr> cv_id = chainValuesId (pc_date c) (pc_chainId c), cv_snapshot_id = pc_date c,
     cv_chainId = pc_chainId c, cv_blockchain = pc_blockchain c, cv_date = pc_date c,
     cv_block = pc_block c, cv_timestamp = pc_timestamp c,
     cv_ohmTotalSupply = toBigDecimal (pc_ohmTotalSupply c),
     cv_ohmCirculatingSupply = toBigDecimal (pc_ohmCirculatingSupply c),
     cv_ohmFloatingSupply = toBigDecimal (pc_ohmFloatingSupply c),
     cv_ohmBackedSupply = toBigDecimal (pc_ohmBackedSupply c),
     cv_treasuryMarketValue = toBigDecimal (pc_treasuryMarketValue c),
     cv_treasuryLiquidBacking = toBigDecimal (pc_treasuryLiquidBacking c) \<rparr>"

text \<open>The aggregate of another chain is rebuilt from its row, without categories.\<close>

definition storedAggregate :: "chain_metric_values \<Rightarrow> per_chain" where
  "storedAggregate e = \<lparr> pc_chainId = cv_chainId e, pc_blockchain = cv_blockchain e,
     pc_date = cv_date e, pc_block = cv_block e, pc_timestamp = cv_timestamp e,
     pc_ohmTotalSupply = cv_ohmTotalSupply e,
     pc_ohmCirculatingSupply = cv_ohmCirculatingSupply e,
     pc_ohmFloatingSupply = cv_ohmFloatingSupply e, pc_ohmBackedSupply = cv_ohmBackedSupply e,
     pc_treasuryMarketValue = cv_treasuryMarketValue e,
     pc_treasuryLiquidBacking = cv_treasuryLiquidBacking e, pc_supplyCategories = [] \<rparr>"

definition perChainAggregates :: "per_chain \<Rightarrow> chain_metric_values list \<Rightarrow> per_chain list" where
  "perChainAggregates thisChain allChainValues =
     (let aggregates = map (\<lambda>e. if cv_chainId e = pc_chainId thisChain then thisChain
        else storedAggregate e) allChainValues
      in if list_ex (\<lambda>c. pc_chainId c = pc_chainId thisChain) aggregates then aggregates
         else aggregates @ [thisChain])"

text \<open>The figures only Ethereum can read: price, circulating sOHM and APY. Other chains keep what
  the row of the day already says.\<close>

definition readOhmIndex :: "snapshot_env \<Rightarrow> store \<Rightarrow> bignumber" where
  "readOhmIndex env s = (case canonicalSOhm env of None \<Rightarrow> Fin 0
     | Some sOhm \<Rightarrow> (case tget (st_OhmIndexState s) (id2 1 (addr sOhm)) of None \<Rightarrow> Fin 0
         | Some indexState \<Rightarrow> if OhmIndexState_index indexState > 0
             then bn_div (se_rnd env) (Fin (of_int (OhmIndexState_index indexState))) (Fin 1000000000)
             else Fin 0))"

definition readCirculating :: "snapshot_env \<Rightarrow> nat \<Rightarrow> bignumber pm" where
  "readCirculating env b = (case cc_migrationOffset (se_config env) of None \<Rightarrow> preturn (Fin 0)
     | Some offset \<Rightarrow> if mo_sOhmAddress offset = '''' then preturn (Fin 0)
         else pbind (pread (se_readSOhmCirculatingSupply env (se_chain env) (mo_sOhmAddress offset) b))
           (\<lambda>raw. preturn (case raw of None \<Rightarrow> Fin 0
              | Some v \<Rightarrow> bn_div (se_rnd env) (Fin (of_int v)) (Fin 1000000000))))"

definition readApy :: "snapshot_env \<Rightarrow> bignumber \<Rightarrow> nat \<Rightarrow> bignumber pm" where
  "readApy env sOhmCirculatingSupply b = (case cc_stakingContracts (se_config env) of
     None \<Rightarrow> preturn (Fin 0)
   | Some contracts \<Rightarrow> pbind (pread (se_readNextOhmDistribution env (se_chain env) contracts b))
       (\<lambda>stakingRaw. preturn (case stakingRaw of None \<Rightarrow> Fin 0
          | Some v \<Rightarrow> if v = 0 then Fin 0
              else snd (computeApy (se_rnd env) (se_compound env)
                (bn_div (se_rnd env) (Fin (of_int v)) (Fin 1000000000)) sOhmCirculatingSupply))))"

definition canonicalFigures :: "snapshot_env \<Rightarrow> store \<Rightarrow> nat \<Rightarrow> global_metric option \<Rightarrow>
    (bignumber \<times> bignumber \<times> bignumber) pm" where
  "canonicalFigures env s b existing =
     (if se_chain env = ETHEREUM_ID
      then pbind (priceAt env s (cc_ohmToken (se_config env)) b) (\<lambda>result.
           pbind (readCirculating env b) (\<lambda>circulating.
           pbind (readApy env circulating b) (\<lambda>apy. preturn (pr_price result, circulating, apy))))
      else preturn (case existing of None \<Rightarrow> (Fin 0, Fin 0, Fin 0)
        | Some e \<Rightarrow> (gm_ohmPrice e, gm_sOhmCirculatingSupply e, gm_ohmApy e)))"

definition globalRow :: "rounding \<Rightarrow> nat \<Rightarrow> cross_chain \<Rightarrow> bignumber \<Rightarrow> bignumber \<times> bignumber \<times> bignumber \<Rightarrow>
    global_metric" where
  "globalRow rnd timestamp aggregate ohmIndex = (\<lambda>(ohmPrice, sOhmCirculatingSupply, ohmApy).
     (let ratios = computeDerivedRatios rnd aggregate ohmPrice ohmIndex in
      \<lparr> gm_id = xc_date aggregate, gm_date = xc_date aggregate, gm_updatedAtTimestamp = timestamp,
        gm_crossChainComplete = xc_crossChainComplete aggregate,
        gm_chainsIndexed = xc_chainsIndexed aggregate, gm_chainsMissing = xc_chainsMissing aggregate,
        gm_ohmTotalSupply = toBigDecimal (xc_ohmTotalSupply aggregate),
        gm_ohmCirculatingSupply = toBigDecimal (xc_ohmCirculatingSupply aggregate),
        gm_ohmFloatingSupply = toBigDecimal (xc_ohmFloatingSupply aggregate),
        gm_ohmBackedSupply = toBigDecimal (xc_ohmBackedSupply aggregate),
        gm_gOhmBackedSupply = toBigDecimal (dr_gOhmBackedSupply ratios),
        gm_treasuryMarketValue = toBigDecimal (xc_treasuryMarketValue aggregate),
        gm_treasuryLiquidBacking = toBigDecimal (xc_treasuryLiquidBacking aggregate),
        gm_ohmIndex = toBigDecimal ohmIndex, gm_ohmApy = toBigDecimal ohmApy,
        gm_ohmPrice = toBigDecimal ohmPrice, gm_gOhmPrice = toBigDecimal (ohmPrice * ohmIndex),
        gm_sOhmCirculatingSupply = toBigDecimal sOhmCirculatingSupply,
        gm_sOhmTotalValueLocked = toBigDecimal (sOhmCirculatingSupply * ohmPrice),
        gm_marketCap = toBigDecimal (dr_marketCap ratios),
        gm_liquidBackingPerOhmFloating = toBigDecimal (dr_liquidBackingPerOhmFloating ratios),
        gm_liquidBackingPerOhmBacked = toBigDecimal (dr_liquidBackingPerOhmBacked ratios),
        gm_liquidBackingPerGOhmBacked = toBigDecimal (dr_liquidBackingPerGOhmBacked ratios) \<rparr>))"

definition setCategory :: "string \<Rightarrow> nat \<Rightarrow> string \<times> bucket \<Rightarrow> chain_category table \<Rightarrow>
    chain_category table" where
  "setCategory date chainId = (\<lambda>(type, bucket) t. case CATEGORY_TYPE_TO_ENUM type of
     None \<Rightarrow> t
   | Some categoryEnum \<Rightarrow>
       (let key = date @ ''/'' @ nat_str chainId @ ''/'' @ categoryEnum in
        tset key \<lparr> ck_id = key, ck_snapshot_id = date, ck_chainId = chainId, ck_date = date,
          ck_category = categoryEnum, ck_balance = toBigDecimal (bk_balance bucket),
          ck_supplyBalance = toBigDecimal (bk_supplyBalance bucket) \<rparr> t))"

definition updateGlobalMetricSnapshot :: "snapshot_env \<Rightarrow> store \<Rightarrow> nat \<Rightarrow> nat \<Rightarrow> token_record list \<Rightarrow>
    token_supply list \<Rightarrow> metrics_out \<Rightarrow> metrics_out pm" where
  "updateGlobalMetricSnapshot env s b timestamp records supplies out =
     (let config = se_config env; date = dateOf records supplies in
      if date = '''' then preturn out
      else (let thisChain = computePerChainAggregate (cc_chainId config) (cc_blockchain config) date b
              timestamp records supplies;
              chainValues = tset (chainValuesId date (cc_chainId config)) (chainValuesRow thisChain)
                (mo_ChainMetricValues out);
              aggregate = aggregateAcrossChains date (perChainAggregates thisChain
                (getWhere (\<lambda>e. cv_date e = date) chainValues));
              existing = tget (mo_GlobalMetricSnapshot out) date
            in pbind (canonicalFigures env s b existing) (\<lambda>figures.
              preturn (out \<lparr> mo_ChainMetricValues := chainValues,
                mo_GlobalMetricSnapshot := tset date (globalRow (se_rnd env) timestamp aggregate
                  (readOhmIndex env s) figures) (mo_GlobalMetricSnapshot out),
                mo_ChainSupplyCategory := fold (setCategory date (cc_chainId config))
                  (pc_supplyCategories thisChain) (mo_ChainSupplyCategory out) \<rparr>))))"

section \<open>The snapshot\<close>

text \<open>Everything that runs under the first pricing cache, in order: first the treasury rows, then
  the supply rows.\<close>

definition pushSupplyRows :: "snapshot_env \<Rightarrow> nat \<Rightarrow> nat \<Rightarrow> store \<Rightarrow> token_supply list \<Rightarrow>
    token_supply list pm" where
  "pushSupplyRows env timestamp b s u0 =
     (let arbitrum = (se_chain env = ARBITRUM_ID) in
      pbind (pushTreasuryOhm env s timestamp b (pushTotalSupply env s timestamp b u0)) (\<lambda>u1.
      pbind (pushOwnedLiquiditySupply env s timestamp b u1) (\<lambda>u2.
      pbind (pushBlvSupply env timestamp b
        (if arbitrum then pushArbitrumLendingSupply env s timestamp b u2 else u2)) (\<lambda>u3.
      pbind (pushGnosisAuctionSupply env s timestamp b u3) (\<lambda>u4.
      preturn (pushMigrationOffsetSupply env s timestamp b u4))))))"

definition pushRows :: "snapshot_env \<Rightarrow> nat \<Rightarrow> nat \<Rightarrow> store \<Rightarrow>
    (token_record list \<times> token_supply list \<times> store) pm" where
  "pushRows env timestamp b s0 =
     (let arbitrum = (se_chain env = ARBITRUM_ID) in
      pbind (pushTokenBalanceRecords env timestamp b ([], s0)) (\<lambda>(r1, s).
      pbind (pushOwnedLiquidityRecords env s timestamp b r1) (\<lambda>r2.
      pbind (if arbitrum then pushArbitrumStakingRecords env s timestamp b r2 else preturn r2) (\<lambda>r3.
      pbind (pushCoolerReceivables env s timestamp b r3) (\<lambda>r4.
      pbind (pushUniv3NftPol env s timestamp b (r4, [])) (\<lambda>(records, u0).
      pbind (pushSupplyRows env timestamp b s u0) (\<lambda>supplies.
      preturn (records, supplies, s))))))))"

definition writeRows :: "token_record list \<Rightarrow> token_supply list \<Rightarrow> metrics_out \<Rightarrow> metrics_out" where
  "writeRows records supplies out = out \<lparr>
     mo_TokenRecord := fold (\<lambda>r. tset (tr_id r) r) records (mo_TokenRecord out),
     mo_TokenSupply := fold (\<lambda>r. tset (ts_id r) r) supplies (mo_TokenSupply out) \<rparr>"

definition atConfig :: "snapshot_env \<Rightarrow> chain_config \<Rightarrow> snapshot_env" where
  "atConfig env config = env \<lparr> se_pricing := (se_pricing env) \<lparr> pe_config := config \<rparr> \<rparr>"

definition processSnapshot :: "snapshot_env \<Rightarrow> nat \<Rightarrow> nat \<Rightarrow> store \<times> metrics_out \<Rightarrow>
    (store \<times> metrics_out) pm" where
  "processSnapshot env0 chainId b = (\<lambda>(s0, out).
     (case se_configs env0 chainId of
        None \<Rightarrow> praise ''Unsupported chain''
      | Some config \<Rightarrow> (let env = atConfig env0 config in
          pbind (pread (se_readBlockTimestamp env chainId b)) (\<lambda>timestamp.
          pbind (withPricingCache (pushRows env timestamp b s0)) (\<lambda>(records, supplies, s).
          pbind (withPricingCache (updateGlobalMetricSnapshot env s b timestamp records supplies
              (writeRows records supplies out)))
            (\<lambda>out'. preturn (s, out')))))))"

definition handleEightHourSnapshot :: "snapshot_env \<Rightarrow> nat \<Rightarrow> nat \<Rightarrow> store \<times> metrics_out \<Rightarrow>
    (store \<times> metrics_out) pm" where
  "handleEightHourSnapshot env chainId b state = (case blockHandlerFor chainId of
     None \<Rightarrow> praise ''Unsupported chain for EightHourSnapshot block''
   | Some _ \<Rightarrow> processSnapshot env chainId b state)"

end
