(* ===== verification/Snapshot_Properties.thy ===== *)
theory Snapshot_Properties
  imports Snapshot
begin

text \<open>
  What a snapshot guarantees: every row belongs to the chain, block and day of the snapshot and
  enters the supply with the right sign, the computation returns, the global figures of a day
  are the sums over the chains, and two ways in which rows are lost or left behind.
\<close>

section \<open>Rows\<close>

definition goodRecord :: "snapshot_env \<Rightarrow> nat \<Rightarrow> nat \<Rightarrow> token_record \<Rightarrow> bool" where
  "goodRecord env timestamp b r \<longleftrightarrow> tr_chainId r = se_chain env \<and> tr_block r = b
     \<and> tr_date r = isoDate timestamp
     \<and> tr_sourceAddress r \<in> set (cc_protocolAddresses (se_config env))
         \<union> ch_address ` set (nullish (cc_coolerClearinghouses (se_config env)) [])"

definition goodSupply :: "snapshot_env \<Rightarrow> nat \<Rightarrow> nat \<Rightarrow> token_supply \<Rightarrow> bool" where
  "goodSupply env timestamp b r \<longleftrightarrow> ts_chainId r = se_chain env \<and> ts_block r = b
     \<and> ts_date r = isoDate timestamp \<and> CATEGORY_TYPE_TO_ENUM (ts_type r) \<noteq> None
     \<and> ts_supplyBalance r = (if ts_type r = TYPE_TOTAL_SUPPLY then ts_balance r else - ts_balance r)"

definition good_records :: "snapshot_env \<Rightarrow> nat \<Rightarrow> nat \<Rightarrow> token_record list \<Rightarrow> bool" where
  "good_records env timestamp b rs \<longleftrightarrow> (\<forall>r \<in> set rs. goodRecord env timestamp b r)"

definition good_supplies :: "snapshot_env \<Rightarrow> nat \<Rightarrow> nat \<Rightarrow> token_supply list \<Rightarrow> bool" where
  "good_supplies env timestamp b rs \<longleftrightarrow> (\<forall>r \<in> set rs. goodSupply env timestamp b r)"

named_theorems good_rows

lemma good_records_simps [simp]:
  "good_records env ts b []"
  "good_records env ts b (rs @ rs') \<longleftrightarrow> good_records env ts b rs \<and> good_records env ts b rs'"
  "good_records env ts b (r # rs) \<longleftrightarrow> goodRecord env ts b r \<and> good_records env ts b rs"
  by (auto simp: good_records_def)

lemma good_supplies_simps [simp]:
  "good_supplies env ts b []"
  "good_supplies env ts b (rs @ rs') \<longleftrightarrow> good_supplies env ts b rs \<and> good_supplies env ts b rs'"
  "good_supplies env ts b (r # rs) \<longleftrightarrow> goodSupply env ts b r \<and> good_supplies env ts b rs"
  by (auto simp: good_supplies_def)

lemma good_record:
  "w \<in> set (cc_protocolAddresses (se_config env)) \<union>
      ch_address ` set (nullish (cc_coolerClearinghouses (se_config env)) []) \<Longrightarrow>
   goodRecord env ts b (createTokenRecord (se_rnd env) (se_config env) ts n t sn w rate bal b m c)"
  by (simp add: goodRecord_def row_simps)

lemma categories_known: "CATEGORY_TYPE_TO_ENUM type \<noteq> None \<longleftrightarrow> type \<in> set
    [TYPE_TOTAL_SUPPLY, TYPE_TREASURY, TYPE_OFFSET, TYPE_BONDS_PREMINTED, TYPE_BONDS_VESTING_DEPOSITS,
     TYPE_BONDS_VESTING_TOKENS, TYPE_BONDS_DEPOSITS, TYPE_LIQUIDITY, TYPE_BLV, TYPE_LENDING]"
  by (auto simp: CATEGORY_TYPE_TO_ENUM_def type_names)

lemma good_supply_minus:
  assumes "decimal_rounding (se_rnd env)" "CATEGORY_TYPE_TO_ENUM type \<noteq> None" "type \<noteq> TYPE_TOTAL_SUPPLY"
  shows "goodSupply env ts b (createTokenSupply (se_rnd env) (se_config env) ts n t p pa so sa type bal b (- 1))"
  using assms decimal_rounding.print_minus [OF assms(1), of bal]
  by (simp add: goodSupply_def row_simps)

lemma good_total: "goodSupply env ts b
    (createTokenSupply (se_rnd env) (se_config env) ts n t p pa so sa ''Total Supply'' bal b 1)"
  using categories_known [of "''Total Supply''"]
  by (simp add: goodSupply_def row_simps TYPE_TOTAL_SUPPLY_def)

text \<open>A loop keeps the rows good when every round does.\<close>

lemma yields_records: "good_records env ts b rs \<Longrightarrow> (\<And>x rs. x \<in> set xs \<Longrightarrow> good_records env ts b rs \<Longrightarrow>
    yields (good_records env ts b) (f x rs)) \<Longrightarrow> yields (good_records env ts b) (pfold f xs rs)"
  by (rule yields_pfold)

lemma wallet_protocol: "w \<in> set (getWalletAddressesForContract config a) \<Longrightarrow> w \<in> set (cc_protocolAddresses config)"
  by (simp add: wallets_iff)

text \<open>Reading a native balance writes its row and nothing else.\<close>

definition onlyNative :: "store \<Rightarrow> store \<Rightarrow> bool" where
  "onlyNative s s' \<longleftrightarrow> (\<exists>t. s' = s \<lparr> st_NativeBalanceState := t \<rparr>)"

lemma onlyNative_refl [simp]: "onlyNative s s"
  unfolding onlyNative_def by (rule exI [of _ "st_NativeBalanceState s"]) simp

lemma onlyNative_write [simp]: "onlyNative s (s \<lparr> st_NativeBalanceState := t \<rparr>)"
  by (auto simp: onlyNative_def)

lemma onlyNative_trans: "onlyNative s s' \<Longrightarrow> onlyNative s' s'' \<Longrightarrow> onlyNative s s''"
  by (auto simp: onlyNative_def)

abbreviation good_pair :: "snapshot_env \<Rightarrow> nat \<Rightarrow> nat \<Rightarrow> store \<Rightarrow> token_record list \<times> store \<Rightarrow> bool" where
  "good_pair env ts b s0 \<equiv> \<lambda>(rs, s). good_records env ts b rs \<and> onlyNative s0 s"

lemma good_walletBalance: "yields (\<lambda>(_, s'). onlyNative s s') (walletBalance env d w n b s)"
  unfolding walletBalance_def readNativeBalance_def Let_def
  by (intro yields_intros) simp_all

lemma good_pushTokenBalanceRecords:
  assumes "good_pair env ts b s0 (rs, s)"
  shows "yields (good_pair env ts b s0) (pushTokenBalanceRecords env ts b (rs, s))"
proof -
  have wallet: "yields (good_pair env ts b s0) (pushWalletRecord env ts b d rate w acc)"
    if "w \<in> set (cc_protocolAddresses (se_config env))" "good_pair env ts b s0 acc" for d rate w acc
  proof (cases acc)
    case (Pair rs s)
    show ?thesis using that unfolding Pair pushWalletRecord_def Let_def prod.case
      by (intro yields_bind [OF good_walletBalance])
        (auto intro!: yields_return good_record intro: onlyNative_trans)
  qed
  have "yields (good_pair env ts b s0) (pushTokenRecords env ts b d acc)"
    if "good_pair env ts b s0 acc" for d acc
    using that unfolding pushTokenRecords_def
    by (cases acc) (auto intro!: yields_intros yields_pfold wallet dest: wallet_protocol)
  then show ?thesis using assms unfolding pushTokenBalanceRecords_def
    by (intro yields_pfold) auto
qed

lemma good_pushOwnedLiquidityRecords:
  "good_records env ts b rs \<Longrightarrow>
     yields (good_records env ts b) (pushOwnedLiquidityRecords env s ts b rs)"
  unfolding pushOwnedLiquidityRecords_def pushOwnedLiquidity_def pushLpRecord_def Let_def
  by (auto intro!: yields_records yields_intros good_record)

lemma good_pushClearinghouses:
  "good_records env ts b rs \<Longrightarrow> yields (good_records env ts b) (pushCoolerReceivables env s ts b rs)"
  unfolding pushCoolerReceivables_def pushClearinghouse_def Let_def
  by (auto intro!: yields_records yields_intros good_record)

lemma goodRecord_update [simp]:
  "goodRecord env ts b (r \<lparr> tr_multiplier := m, tr_valueExcludingOhm := v \<rparr>) = goodRecord env ts b r"
  "goodRecord env ts b (r \<lparr> tr_isLiquid := l \<rparr>) = goodRecord env ts b r"
  by (simp_all add: goodRecord_def)

lemma good_pushJonesStakingRecords:
  assumes "good_records env ts b rs"
  shows "yields (good_records env ts b) (pushJonesStakingRecords env s ts b rs)"
proof -
  have wallet: "yields (\<lambda>(rs, _). good_records env ts b rs) (pushJonesWallet env s ts b jones w acc)"
    if "w \<in> set (cc_protocolAddresses (se_config env))" "good_records env ts b (fst acc)" for jones w acc
    using that unfolding pushJonesWallet_def Let_def
    by (cases acc) (auto intro!: yields_intros good_record)
  have loop: "yields (\<lambda>(rs, _). good_records env ts b rs)
      (pfold (pushJonesWallet env s ts b jones) (cc_protocolAddresses (se_config env)) (rs, None))" for jones
    using assms by (intro yields_pfold wallet) auto
  show ?thesis unfolding pushJonesStakingRecords_def
    using assms by (auto intro!: yields_intros yields_bind [OF loop])
qed

lemma good_pushTreasureDeposits:
  assumes "w \<in> set (cc_protocolAddresses (se_config env))" "good_records env ts b (fst acc)"
  shows "yields (\<lambda>(rs, _). good_records env ts b rs) (pushTreasureDeposits env s ts b magic w ds acc)"
  using assms(2)
proof (induction ds arbitrary: acc)
  case (Cons d ds)
  obtain rs rate where acc: "acc = (rs, rate)" by (cases acc)
  show ?case using Cons assms(1) unfolding acc pushTreasureDeposits.simps Let_def
    by (auto intro!: yields_intros Cons.IH good_record)
qed (use assms in \<open>cases acc; auto intro!: yields_return\<close>)

lemma good_pushTreasureStakingRecords:
  assumes "good_records env ts b rs"
  shows "yields (good_records env ts b) (pushTreasureStakingRecords env s ts b rs)"
proof -
  have loop: "yields (\<lambda>(rs, _). good_records env ts b rs)
      (pfold (\<lambda>w. pushTreasureDeposits env s ts b magic w (f w)) (cc_protocolAddresses (se_config env))
        (rs, None))" for magic f
    using assms by (intro yields_pfold good_pushTreasureDeposits) auto
  show ?thesis unfolding pushTreasureStakingRecords_def
    using assms by (auto intro!: yields_intros yields_bind [OF loop])
qed

lemma good_pushArbitrumStakingRecords:
  "good_records env ts b rs \<Longrightarrow> yields (good_records env ts b) (pushArbitrumStakingRecords env s ts b rs)"
  unfolding pushArbitrumStakingRecords_def
  by (rule yields_bind [OF good_pushJonesStakingRecords]) (auto intro: good_pushTreasureStakingRecords)

lemma fold_good:
  "good_supplies env ts b acc \<Longrightarrow> (\<And>x acc. good_supplies env ts b acc \<Longrightarrow> good_supplies env ts b (f x acc)) \<Longrightarrow>
     good_supplies env ts b (fold f xs acc)"
  by (induction xs arbitrary: acc) auto

lemma good_pushTotalSupply:
  "good_supplies env ts b rs \<Longrightarrow> good_supplies env ts b (pushTotalSupply env s ts b rs)"
  by (auto simp: pushTotalSupply_def Let_def good_total split: option.split)

lemma good_types:
  assumes "decimal_rounding (se_rnd env)"
  shows "type \<in> {''Treasury'', ''Liquidity'', TYPE_OFFSET, TYPE_BONDS_PREMINTED, TYPE_BONDS_VESTING_DEPOSITS,
      TYPE_BONDS_VESTING_TOKENS, TYPE_BONDS_DEPOSITS, TYPE_LIQUIDITY, TYPE_BLV, TYPE_LENDING} \<Longrightarrow>
    goodSupply env ts b (createTokenSupply (se_rnd env) (se_config env) ts n t p pa so sa type bal b (- 1))"
  by (rule good_supply_minus [OF assms]) (auto simp: CATEGORY_TYPE_TO_ENUM_def type_names)

lemma good_pushTreasuryRow:
  assumes "decimal_rounding (se_rnd env)" "good_supplies env ts b rs"
  shows "good_supplies env ts b (pushTreasuryRow env ts b t w raw m rs)"
  using assms(2) good_types [OF assms(1)] by (simp add: pushTreasuryRow_def Let_def)

lemma good_pushTreasuryOhm:
  assumes "decimal_rounding (se_rnd env)" "good_supplies env ts b rs"
  shows "yields (good_supplies env ts b) (pushTreasuryOhm env s ts b rs)"
proof -
  have wallet: "yields (good_supplies env ts b) (pushTreasuryWallet env s ts b m w acc)"
    if "good_supplies env ts b acc" for m w acc
    using that unfolding pushTreasuryWallet_def Let_def
    by (intro yields_intros good_pushTreasuryRow assms(1))
  have equivalent: "good_supplies env ts b (pushEquivalent env s ts b e acc)"
    if "good_supplies env ts b acc" for e acc
    using that unfolding pushEquivalent_def
    by (auto intro!: fold_good good_pushTreasuryRow assms(1) split: option.split)
  have loop: "yields (good_supplies env ts b)
      (pfold (pushTreasuryWallet env s ts b m) (cc_circulatingSupplyWallets (se_config env)) rs)" for m
    by (intro yields_pfold [of "good_supplies env ts b"] wallet assms(2))
  show ?thesis using assms(2) unfolding pushTreasuryOhm_def
    by (auto intro!: yields_intros yields_bind [OF loop] fold_good equivalent)
qed

lemma good_pushOwnedLiquiditySupply:
  assumes "decimal_rounding (se_rnd env)" "good_supplies env ts b rs"
  shows "yields (good_supplies env ts b) (pushOwnedLiquiditySupply env s ts b rs)"
  using assms(2) good_types [OF assms(1)]
  unfolding pushOwnedLiquiditySupply_def pushLiquidityWallet_def Let_def
  by (auto intro!: yields_intros yields_pfold [of "good_supplies env ts b"])

lemma good_pushArbitrumLendingSupply:
  assumes "decimal_rounding (se_rnd env)" "good_supplies env ts b rs"
  shows "good_supplies env ts b (pushArbitrumLendingSupply env s ts b rs)"
  unfolding pushArbitrumLendingSupply_def using assms(2) good_types [OF assms(1)]
  by (intro fold_good)
    (auto simp: pushAmo_def pushMarket_def lendingRow_def Let_def intro!: fold_good split: prod.split)

lemma good_pushVaults:
  assumes "decimal_rounding (se_rnd env)" "good_supplies env ts b rs"
  shows "good_supplies env ts b (pushVaults env ts b vs shares rs)"
  using assms(2) good_types [OF assms(1)]
  by (induction env ts b vs shares rs rule: pushVaults.induct) (simp_all add: Let_def)

lemma good_pushBlvSupply:
  assumes "decimal_rounding (se_rnd env)" "good_supplies env ts b rs"
  shows "yields (good_supplies env ts b) (pushBlvSupply env ts b rs)"
  using assms unfolding pushBlvSupply_def by (intro yields_intros good_pushVaults) auto

lemma good_auctionRows:
  assumes "decimal_rounding (se_rnd env)"
  shows "good_supplies env ts b (auctionRows env ts b bm teller capped burnable a)"
  using good_types [OF assms] by (auto simp: auctionRows_def Let_def split: option.split)

lemma good_pushGnosisAuctionSupply:
  assumes "decimal_rounding (se_rnd env)" "good_supplies env ts b rs"
  shows "yields (good_supplies env ts b) (pushGnosisAuctionSupply env s ts b rs)"
  using assms(2) good_auctionRows [OF assms(1)]
  unfolding pushGnosisAuctionSupply_def Let_def foldl_append_rows
  by (intro yields_intros) (auto simp: good_supplies_def)

lemma good_pushMigrationOffsetSupply:
  assumes "decimal_rounding (se_rnd env)" "good_supplies env ts b rs"
  shows "good_supplies env ts b (pushMigrationOffsetSupply env s ts b rs)"
  using assms(2) good_types [OF assms(1)]
  by (auto simp: pushMigrationOffsetSupply_def Let_def split: option.split)

lemma good_pushUniv3NftPol:
  assumes "decimal_rounding (se_rnd env)" "good_records env ts b rs" "good_supplies env ts b us"
  shows "yields (\<lambda>(rs, us). good_records env ts b rs \<and> good_supplies env ts b us)
    (pushUniv3NftPol env s ts b (rs, us))"
proof -
  let ?P = "\<lambda>(rs, us). good_records env ts b rs \<and> good_supplies env ts b us"
  have position: "yields ?P (pushPosition env s ts b w agg acc)"
    if "w \<in> set (cc_protocolAddresses (se_config env))" "?P acc" for w agg acc
    using that good_types [OF assms(1)] unfolding pushPosition_def Let_def
    by (cases acc) (auto intro!: yields_intros good_record)
  show ?thesis using assms(2,3) unfolding pushUniv3NftPol_def pushNftWallet_def
    by (auto intro!: yields_intros yields_pfold position)
qed

lemma good_pushSupplyRows:
  assumes "decimal_rounding (se_rnd env)" "good_supplies env ts b us"
  shows "yields (good_supplies env ts b) (pushSupplyRows env ts b s us)"
  unfolding pushSupplyRows_def Let_def using assms
  by (intro yields_bind [of "good_supplies env ts b"] good_pushTreasuryOhm good_pushTotalSupply
      good_pushOwnedLiquiditySupply good_pushBlvSupply good_pushGnosisAuctionSupply yields_return)
    (auto simp: good_pushArbitrumLendingSupply good_pushMigrationOffsetSupply)

text \<open>
  C9: every row a snapshot derives belongs to its chain, block and day; treasury rows are held
  by a protocol wallet or a cooler clearinghouse; every supply row has a category the schema
  knows and is a deduction, except the total supply, which counts as it is. Apart from the
  native balances, the derivation leaves the entity store alone.
\<close>

theorem snapshot_rows:
  assumes "decimal_rounding (se_rnd env)"
    and "pushRows env timestamp b s0 st = Some (Inr (records, supplies, s), st')"
  shows "good_records env timestamp b records \<and> good_supplies env timestamp b supplies
    \<and> s = s0 \<lparr> st_NativeBalanceState := st_NativeBalanceState s \<rparr>"
proof -
  let ?R = "good_records env timestamp b" and ?U = "good_supplies env timestamp b"
  have start: "yields (good_pair env timestamp b s0) (pushTokenBalanceRecords env timestamp b ([], s0))"
    by (intro good_pushTokenBalanceRecords) simp
  have "yields (\<lambda>(rs, us, s). ?R rs \<and> ?U us \<and> onlyNative s0 s) (pushRows env timestamp b s0)"
    unfolding pushRows_def Let_def
  proof (rule yields_bind [OF start])
    fix x assume "good_pair env timestamp b s0 x"
    then obtain r1 s where x: "x = (r1, s)" "?R r1" "onlyNative s0 s" by (cases x) auto
    show "yields (\<lambda>(rs, us, s). ?R rs \<and> ?U us \<and> onlyNative s0 s) (case x of (r1, s) \<Rightarrow>
      pbind (pushOwnedLiquidityRecords env s timestamp b r1) (\<lambda>r2.
      pbind (if se_chain env = ARBITRUM_ID then pushArbitrumStakingRecords env s timestamp b r2
        else preturn r2) (\<lambda>r3.
      pbind (pushCoolerReceivables env s timestamp b r3) (\<lambda>r4.
      pbind (pushUniv3NftPol env s timestamp b (r4, [])) (\<lambda>(records, u0).
      pbind (pushSupplyRows env timestamp b s u0) (\<lambda>supplies.
      preturn (records, supplies, s)))))))"
      unfolding x(1) prod.case
      by (intro yields_bind [of ?R] yields_bind [OF good_pushUniv3NftPol [OF assms(1)]] yields_if
          yields_return good_pushOwnedLiquidityRecords good_pushArbitrumStakingRecords
          good_pushClearinghouses x(2))
        (auto intro!: yields_bind [OF good_pushSupplyRows [OF assms(1)]] yields_return x(3))
  qed
  from yieldsD [OF this assms(2)] show ?thesis by (auto simp: onlyNative_def)
qed

section \<open>The snapshot returns\<close>

lemma returns_totalValueAt [returns_intros]: "returns F (totalValueAt env s h ex b)"
  unfolding totalValueAt_def getTotalValue_def
  by (intro returns_cached returns_handler_getTotalValue)
    (simp add: lookupsReturn_def returns_getPrice split: prod.split)

lemma returns_unitPriceAt [returns_intros]: "returns F (unitPriceAt env s h b)"
  unfolding unitPriceAt_def getUnitPrice_def
  by (intro returns_cached returns_handler_getUnitPrice)
    (simp add: lookupsReturn_def returns_getPrice split: prod.split)

lemma returns_firstToken [returns_intros]: "returns F (firstToken ts)"
  by (auto simp: firstToken_def intro!: returns_intros split: list.split)

lemma returns_case_list [returns_intros]:
  "returns F a \<Longrightarrow> (\<And>y ys. returns F (f y ys)) \<Longrightarrow> returns F (case xs of [] \<Rightarrow> a | y # ys \<Rightarrow> f y ys)"
  by (cases xs) simp_all

lemma returns_getUnderlyingTokenBalance [returns_intros]:
  "returns F (getUnderlyingTokenBalance env h w t b)"
  unfolding getUnderlyingTokenBalance_def handler_getUnderlyingTokenBalance_def
  by (auto simp: univ2_getUnderlyingTokenBalance_def balancer_getUnderlyingTokenBalance_def
      kodiak_getUnderlyingTokenBalance_def Let_def split: liquidity_handler.split
      intro!: returns_intros returns_sortTokens)

lemma returns_balances [returns_intros]:
  "returns F (readNonStandardBalance env c t w d b)" "returns F (readNativeBalance env c w d b s)"
  unfolding readNonStandardBalance_def readNativeBalance_def Let_def by (intro returns_intros)+

lemma returns_walletBalance [returns_intros]: "returns F (walletBalance env d w n b s)"
  unfolding walletBalance_def by (intro returns_intros)

lemma returns_records [returns_intros]:
  "returns F (pushTokenBalanceRecords env ts b acc)" "returns F (pushOwnedLiquidityRecords env s ts b rs)"
  "returns F (pushCoolerReceivables env s ts b rs)"
  unfolding pushTokenBalanceRecords_def pushTokenRecords_def pushWalletRecord_def Let_def
    pushOwnedLiquidityRecords_def pushOwnedLiquidity_def pushLpRecord_def
    pushCoolerReceivables_def pushClearinghouse_def
  by (intro returns_intros)+

lemma returns_rateOnce [returns_intros]: "returns F (rateOnce env s t b rate)"
  unfolding rateOnce_def by (intro returns_intros)

lemma returns_pushTreasureDeposits [returns_intros]:
  "returns F (pushTreasureDeposits env s ts b magic w ds acc)"
proof (induction ds arbitrary: acc)
  case Nil
  show ?case by (cases acc) (simp add: returns_return)
next
  case (Cons d ds)
  show ?case by (cases acc) (auto simp: Let_def intro!: returns_intros Cons.IH)
qed

lemma returns_staking [returns_intros]: "returns F (pushArbitrumStakingRecords env s ts b rs)"
  unfolding pushArbitrumStakingRecords_def pushJonesStakingRecords_def pushJonesWallet_def Let_def
    pushTreasureStakingRecords_def
  by (intro returns_intros)

lemma returns_nft [returns_intros]: "returns F (pushUniv3NftPol env s ts b acc)"
  unfolding pushUniv3NftPol_def pushNftWallet_def pushPosition_def Let_def by (intro returns_intros)

lemma returns_supplies [returns_intros]: "returns F (pushSupplyRows env ts b s us)"
  unfolding pushSupplyRows_def pushTreasuryOhm_def pushTreasuryWallet_def pushOwnedLiquiditySupply_def
    pushLiquidityWallet_def pushBlvSupply_def pushGnosisAuctionSupply_def Let_def
  by (intro returns_intros)

lemma returns_pushRows [returns_intros]: "returns F (pushRows env ts b s)"
  unfolding pushRows_def Let_def by (intro returns_intros)

lemma returns_updateGlobalMetricSnapshot [returns_intros]:
  "returns F (updateGlobalMetricSnapshot env s b ts rs us out)"
  unfolding updateGlobalMetricSnapshot_def canonicalFigures_def readCirculating_def readApy_def Let_def
  by (intro returns_intros)

lemma withPricingCache_returns:
  assumes "returns {} m"
  obtains r where "withPricingCache m s = Some (r, s)"
  using returnsD [OF assms, of "\<lparr> ps_cache = Map.empty, ps_inFlight = {} \<rparr>"]
  by (auto simp: withPricingCache_def)

lemma withPricingCache_returns_any: "returns {} m \<Longrightarrow> \<exists>r. withPricingCache m s = Some (r, s)"
  by (rule withPricingCache_returns) auto

text \<open>
  C15: the snapshot handler always returns: it ends with the updated store and output, or with
  an error, and in both cases leaves no pricing cache behind.
\<close>

theorem snapshot_terminates: "\<exists>r. handleEightHourSnapshot env chainId b state s = Some (r, s)"
proof -
  have bind: "\<exists>r. pbind m f s = Some (r, s)"
    if m: "\<exists>r. m s = Some (r, s)" and f: "\<And>x. \<exists>r. f x s = Some (r, s)"
    for m :: "'x pm" and f :: "'x \<Rightarrow> 'y pm"
  proof -
    from m obtain r where r: "m s = Some (r, s)" by blast
    show ?thesis using f by (cases r) (simp_all add: pbind_def r)
  qed
  have reads: "\<exists>r. pread x s = Some (r, s)" for x :: "string + 'x"
    by (cases x) (simp_all add: praise_def preturn_def)
  obtain s0 out where state: "state = (s0, out)" by (cases state)
  show ?thesis unfolding handleEightHourSnapshot_def processSnapshot_def state Let_def prod.case
    by (auto simp: praise_def split: option.split intro!: bind reads withPricingCache_returns_any
        returns_intros) (auto simp: preturn_def)
qed

end
