(* ===== verification/Snapshot_Totals.thy ===== *)
theory Snapshot_Totals
  imports Snapshot_Properties
begin

text \<open>
  The rows a snapshot leaves behind in the shared tables: the global row of a day is the sum of
  the chain rows of that day after any history of snapshots of any chains, category rows that a
  later snapshot no longer has stay, and treasury rows that share an id replace one another.
\<close>

section \<open>Ids of chain rows\<close>

lemma chainValuesId_inject [simp]:
  "chainValuesId d c = chainValuesId d' c' \<longleftrightarrow> d = d' \<and> c = c'"
proof
  assume "chainValuesId d c = chainValuesId d' c'"
  then have "rev (nat_str c) @ CHR ''/'' # rev d = rev (nat_str c') @ CHR ''/'' # rev d'"
    unfolding chainValuesId_def
    by (metis append.assoc append_Cons append_Nil rev_append rev_singleton_conv rev.simps)
  from split_at_separator [OF _ _ this] show "d = d' \<and> c = c'" by simp
qed simp

section \<open>The tables of the day\<close>

text \<open>Each chain row is stored under its own id.\<close>

definition chainTableWf :: "chain_metric_values table \<Rightarrow> bool" where
  "chainTableWf t \<longleftrightarrow> distinct (map fst t)
     \<and> (\<forall>(k, e) \<in> set t. k = chainValuesId (cv_date e) (cv_chainId e))"

definition chainRows :: "string \<Rightarrow> metrics_out \<Rightarrow> chain_metric_values list" where
  "chainRows date out = getWhere (\<lambda>e. cv_date e = date) (mo_ChainMetricValues out)"

definition sumsOfDay :: "string \<Rightarrow> metrics_out \<Rightarrow> global_metric \<Rightarrow> bool" where
  "sumsOfDay date out g \<longleftrightarrow> gm_date g = date
     \<and> gm_ohmTotalSupply g = (\<Sum>e\<leftarrow>chainRows date out. cv_ohmTotalSupply e)
     \<and> gm_ohmCirculatingSupply g = (\<Sum>e\<leftarrow>chainRows date out. cv_ohmCirculatingSupply e)
     \<and> gm_ohmFloatingSupply g = (\<Sum>e\<leftarrow>chainRows date out. cv_ohmFloatingSupply e)
     \<and> gm_ohmBackedSupply g = (\<Sum>e\<leftarrow>chainRows date out. cv_ohmBackedSupply e)
     \<and> gm_treasuryMarketValue g = (\<Sum>e\<leftarrow>chainRows date out. cv_treasuryMarketValue e)
     \<and> gm_treasuryLiquidBacking g = (\<Sum>e\<leftarrow>chainRows date out. cv_treasuryLiquidBacking e)
     \<and> gm_chainsIndexed g = map cv_chainId (chainRows date out)
     \<and> (gm_crossChainComplete g \<longleftrightarrow> {ARBITRUM_ID, ETHEREUM_ID} \<subseteq> set (gm_chainsIndexed g))"

definition metricsWf :: "metrics_out \<Rightarrow> bool" where
  "metricsWf out \<longleftrightarrow> chainTableWf (mo_ChainMetricValues out)
     \<and> (\<forall>date g. tget (mo_GlobalMetricSnapshot out) date = Some g \<longrightarrow> sumsOfDay date out g)"

lemma chainTableWf_tset:
  assumes "chainTableWf t" "k = chainValuesId (cv_date e) (cv_chainId e)"
  shows "chainTableWf (tset k e t)"
proof -
  have sub: "set (tset k e t) \<subseteq> insert (k, e) (set t)"
    unfolding tset_def by (induction t) auto
  have "distinct (map fst (tset k e t))"
    using assms(1) by (simp add: chainTableWf_def tset_def distinct_update)
  moreover have "\<forall>(k', e') \<in> set (tset k e t). k' = chainValuesId (cv_date e') (cv_chainId e')"
    using assms sub unfolding chainTableWf_def by fastforce
  ultimately show ?thesis by (simp add: chainTableWf_def)
qed

lemma getWhere_Cons: "getWhere P ((k, e) # t) = (if P e then e # getWhere P t else getWhere P t)"
  by (simp add: getWhere_def)

lemma getWhere_Nil: "getWhere P [] = []"
  by (simp add: getWhere_def)

text \<open>Writing a chain row leaves the rows of other days alone.\<close>

lemma otherDays_tset:
  assumes "chainTableWf t" "cv_date e \<noteq> date"
  shows "getWhere (\<lambda>e. cv_date e = date) (tset (chainValuesId (cv_date e) (cv_chainId e)) e t) =
    getWhere (\<lambda>e. cv_date e = date) t"
  using assms unfolding chainTableWf_def tset_def
  by (induction t) (auto simp: getWhere_Cons getWhere_Nil)

text \<open>On its own day it is the only row of its chain.\<close>

lemma ownRow_tset:
  assumes "chainTableWf t"
  shows "\<forall>e' \<in> set (getWhere (\<lambda>e'. cv_date e' = cv_date e)
      (tset (chainValuesId (cv_date e) (cv_chainId e)) e t)).
    cv_chainId e' = cv_chainId e \<longrightarrow> e' = e"
    and "e \<in> set (getWhere (\<lambda>e'. cv_date e' = cv_date e)
      (tset (chainValuesId (cv_date e) (cv_chainId e)) e t))"
proof -
  let ?t = "tset (chainValuesId (cv_date e) (cv_chainId e)) e t"
  have wf: "chainTableWf ?t" by (rule chainTableWf_tset [OF assms refl])
  have here: "(chainValuesId (cv_date e) (cv_chainId e), e) \<in> set ?t"
    unfolding tset_def by (induction t) auto
  then show "e \<in> set (getWhere (\<lambda>e'. cv_date e' = cv_date e) ?t)" by (auto simp: getWhere_iff)
  show "\<forall>e' \<in> set (getWhere (\<lambda>e'. cv_date e' = cv_date e) ?t). cv_chainId e' = cv_chainId e \<longrightarrow> e' = e"
  proof (intro ballI impI)
    fix e' assume e': "e' \<in> set (getWhere (\<lambda>e'. cv_date e' = cv_date e) ?t)" "cv_chainId e' = cv_chainId e"
    then obtain k where "(k, e') \<in> set ?t" "cv_date e' = cv_date e" by (auto simp: getWhere_iff)
    moreover from this e'(2) wf have "k = chainValuesId (cv_date e) (cv_chainId e)"
      by (auto simp: chainTableWf_def)
    ultimately show "e' = e"
      using wf here by (auto simp: chainTableWf_def dest: eq_key_imp_eq_value)
  qed
qed

section \<open>The global row\<close>

lemma stored_fields [simp]:
  "pc_chainId (storedAggregate e) = cv_chainId e" "pc_date (storedAggregate e) = cv_date e"
  "pc_ohmTotalSupply (storedAggregate e) = cv_ohmTotalSupply e"
  "pc_ohmCirculatingSupply (storedAggregate e) = cv_ohmCirculatingSupply e"
  "pc_ohmFloatingSupply (storedAggregate e) = cv_ohmFloatingSupply e"
  "pc_ohmBackedSupply (storedAggregate e) = cv_ohmBackedSupply e"
  "pc_treasuryMarketValue (storedAggregate e) = cv_treasuryMarketValue e"
  "pc_treasuryLiquidBacking (storedAggregate e) = cv_treasuryLiquidBacking e"
  by (simp_all add: storedAggregate_def)

lemma chainValuesRow_fields [simp]:
  "cv_chainId (chainValuesRow c) = pc_chainId c" "cv_date (chainValuesRow c) = pc_date c"
  "cv_ohmTotalSupply (chainValuesRow c) = pc_ohmTotalSupply c"
  "cv_ohmCirculatingSupply (chainValuesRow c) = pc_ohmCirculatingSupply c"
  "cv_ohmFloatingSupply (chainValuesRow c) = pc_ohmFloatingSupply c"
  "cv_ohmBackedSupply (chainValuesRow c) = pc_ohmBackedSupply c"
  "cv_treasuryMarketValue (chainValuesRow c) = pc_treasuryMarketValue c"
  "cv_treasuryLiquidBacking (chainValuesRow c) = pc_treasuryLiquidBacking c"
  by (simp_all add: chainValuesRow_def toBigDecimal_def)

text \<open>Rebuilding the aggregates from the rows of the day loses none of the six totals.\<close>

lemma perChainAggregates_fields:
  assumes "chainValuesRow c \<in> set rows"
    and "\<forall>e \<in> set rows. cv_chainId e = pc_chainId c \<longrightarrow> e = chainValuesRow c"
  defines "aggs \<equiv> perChainAggregates c rows"
  shows "map pc_chainId aggs = map cv_chainId rows"
    "map pc_ohmTotalSupply aggs = map cv_ohmTotalSupply rows"
    "map pc_ohmCirculatingSupply aggs = map cv_ohmCirculatingSupply rows"
    "map pc_ohmFloatingSupply aggs = map cv_ohmFloatingSupply rows"
    "map pc_ohmBackedSupply aggs = map cv_ohmBackedSupply rows"
    "map pc_treasuryMarketValue aggs = map cv_treasuryMarketValue rows"
    "map pc_treasuryLiquidBacking aggs = map cv_treasuryLiquidBacking rows"
proof -
  let ?g = "\<lambda>e. if cv_chainId e = pc_chainId c then c else storedAggregate e"
  have "list_ex (\<lambda>a. pc_chainId a = pc_chainId c) (map ?g rows)"
    using assms(1) by (force simp: list_ex_iff)
  then have aggs: "aggs = map ?g rows" by (simp add: aggs_def perChainAggregates_def Let_def)
  have own: "map f (map ?g rows) = map h rows"
    if "\<And>e. f (storedAggregate e) = h e" "h (chainValuesRow c) = f c" for f :: "per_chain \<Rightarrow> 'v" and h
    using assms(2) that by auto
  show "map pc_chainId aggs = map cv_chainId rows"
    "map pc_ohmTotalSupply aggs = map cv_ohmTotalSupply rows"
    "map pc_ohmCirculatingSupply aggs = map cv_ohmCirculatingSupply rows"
    "map pc_ohmFloatingSupply aggs = map cv_ohmFloatingSupply rows"
    "map pc_ohmBackedSupply aggs = map cv_ohmBackedSupply rows"
    "map pc_treasuryMarketValue aggs = map cv_treasuryMarketValue rows"
    "map pc_treasuryLiquidBacking aggs = map cv_treasuryLiquidBacking rows"
    unfolding aggs by (rule own; simp)+
qed

lemma aggregate_sums:
  "xc_date (aggregateAcrossChains date cs) = date"
  "xc_ohmTotalSupply (aggregateAcrossChains date cs) = (\<Sum>c\<leftarrow>cs. pc_ohmTotalSupply c)"
  "xc_ohmCirculatingSupply (aggregateAcrossChains date cs) = (\<Sum>c\<leftarrow>cs. pc_ohmCirculatingSupply c)"
  "xc_ohmFloatingSupply (aggregateAcrossChains date cs) = (\<Sum>c\<leftarrow>cs. pc_ohmFloatingSupply c)"
  "xc_ohmBackedSupply (aggregateAcrossChains date cs) = (\<Sum>c\<leftarrow>cs. pc_ohmBackedSupply c)"
  "xc_treasuryMarketValue (aggregateAcrossChains date cs) = (\<Sum>c\<leftarrow>cs. pc_treasuryMarketValue c)"
  "xc_treasuryLiquidBacking (aggregateAcrossChains date cs) = (\<Sum>c\<leftarrow>cs. pc_treasuryLiquidBacking c)"
  "xc_chainsIndexed (aggregateAcrossChains date cs) = map pc_chainId cs"
  "xc_crossChainComplete (aggregateAcrossChains date cs) \<longleftrightarrow> {ARBITRUM_ID, ETHEREUM_ID} \<subseteq> set (map pc_chainId cs)"
  by (auto simp: aggregateAcrossChains_def Let_def foldl_addChain ZERO_def
      REQUIRED_CHAINS_FOR_COMPLETE_def simp flip: bn_zero)

lemma globalRow_fields [simp]:
  "gm_date (globalRow rnd ts a i f) = xc_date a"
  "gm_chainsIndexed (globalRow rnd ts a i f) = xc_chainsIndexed a"
  "gm_crossChainComplete (globalRow rnd ts a i f) = xc_crossChainComplete a"
  "gm_ohmTotalSupply (globalRow rnd ts a i f) = xc_ohmTotalSupply a"
  "gm_ohmCirculatingSupply (globalRow rnd ts a i f) = xc_ohmCirculatingSupply a"
  "gm_ohmFloatingSupply (globalRow rnd ts a i f) = xc_ohmFloatingSupply a"
  "gm_ohmBackedSupply (globalRow rnd ts a i f) = xc_ohmBackedSupply a"
  "gm_treasuryMarketValue (globalRow rnd ts a i f) = xc_treasuryMarketValue a"
  "gm_treasuryLiquidBacking (globalRow rnd ts a i f) = xc_treasuryLiquidBacking a"
  by (cases f; simp add: globalRow_def toBigDecimal_def Let_def)+

section \<open>The update\<close>

text \<open>What the update writes, given the figures only Ethereum can read.\<close>

definition metricsAfter :: "snapshot_env \<Rightarrow> store \<Rightarrow> nat \<Rightarrow> nat \<Rightarrow> token_record list \<Rightarrow>
    token_supply list \<Rightarrow> bignumber \<times> bignumber \<times> bignumber \<Rightarrow> metrics_out \<Rightarrow> metrics_out" where
  "metricsAfter env s b timestamp records supplies figures out =
     (let config = se_config env; date = dateOf records supplies;
          thisChain = computePerChainAggregate (cc_chainId config) (cc_blockchain config) date b
            timestamp records supplies;
          chainValues = tset (chainValuesId date (cc_chainId config)) (chainValuesRow thisChain)
            (mo_ChainMetricValues out)
      in out \<lparr> mo_ChainMetricValues := chainValues,
           mo_GlobalMetricSnapshot := tset date (globalRow (se_rnd env) timestamp
             (aggregateAcrossChains date (perChainAggregates thisChain
               (getWhere (\<lambda>e. cv_date e = date) chainValues)))
             (readOhmIndex env s) figures) (mo_GlobalMetricSnapshot out),
           mo_ChainSupplyCategory := fold (setCategory date (cc_chainId config))
             (pc_supplyCategories thisChain) (mo_ChainSupplyCategory out) \<rparr>)"

lemma update_yields:
  "yields (\<lambda>out'. out' = out \<or> (\<exists>figures. out' = metricsAfter env s b ts rs us figures out))
     (updateGlobalMetricSnapshot env s b ts rs us out)"
proof -
  have "yields (\<lambda>out'. out' = out \<or> (\<exists>figures. out' = metricsAfter env s b ts rs us figures out))
      (pbind m (\<lambda>figures. preturn (metricsAfter env s b ts rs us figures out)))" for m
    by (rule yields_bind [of "\<lambda>_. True"]) (auto simp: yields_def preturn_def)
  then show ?thesis
    unfolding updateGlobalMetricSnapshot_def metricsAfter_def Let_def
    by (intro yields_if yields_return disjI1 refl)
qed

lemma metricsWf_metricsAfter:
  assumes "metricsWf out"
  shows "metricsWf (metricsAfter env s b ts rs us figures out)"
proof -
  define date where "date = dateOf rs us"
  define c where "c = computePerChainAggregate (se_chain env) (cc_blockchain (se_config env)) date b ts rs us"
  define row where "row = chainValuesRow c"
  define t where "t = tset (chainValuesId (cv_date row) (cv_chainId row)) row (mo_ChainMetricValues out)"
  let ?out = "metricsAfter env s b ts rs us figures out"
  have id: "cv_date row = date" "cv_chainId row = se_chain env" "pc_chainId c = se_chain env"
    by (simp_all add: row_def c_def aggregate_fields)
  have wf: "chainTableWf (mo_ChainMetricValues out)" using assms by (simp add: metricsWf_def)
  have stored: "mo_ChainMetricValues ?out = t"
    by (simp add: metricsAfter_def Let_def t_def id row_def [symmetric] c_def [symmetric] date_def [symmetric])
  have "sumsOfDay d ?out g" if "tget (mo_GlobalMetricSnapshot ?out) d = Some g" for d g
  proof (cases "d = date")
    case True
    let ?rows = "getWhere (\<lambda>e. cv_date e = date) t"
    note own = ownRow_tset [OF wf, of row, folded t_def, unfolded id]
    have g: "g = globalRow (se_rnd env) ts (aggregateAcrossChains date (perChainAggregates c ?rows))
        (readOhmIndex env s) figures"
      using that True by (simp add: metricsAfter_def Let_def t_def id row_def [symmetric]
          c_def [symmetric] date_def [symmetric])
    have rows: "chainRows d ?out = ?rows" by (simp add: chainRows_def stored True)
    note fields = perChainAggregates_fields [of c ?rows, folded row_def, unfolded id, OF own(2) own(1)]
    show ?thesis unfolding sumsOfDay_def rows
      by (simp add: g aggregate_sums fields True del: set_map flip: set_map)
  next
    case False
    then have "tget (mo_GlobalMetricSnapshot out) d = Some g"
      using that by (simp add: metricsAfter_def Let_def date_def [symmetric])
    then have "sumsOfDay d out g" using assms by (simp add: metricsWf_def)
    moreover have "chainRows d ?out = chainRows d out"
      using otherDays_tset [OF wf, of row d] False by (simp add: chainRows_def stored id t_def)
    ultimately show ?thesis by (simp add: sumsOfDay_def)
  qed
  moreover have "chainTableWf (mo_ChainMetricValues ?out)"
    unfolding stored t_def by (rule chainTableWf_tset [OF wf refl])
  ultimately show ?thesis by (simp add: metricsWf_def)
qed

section \<open>Histories\<close>

definition empty_metrics :: metrics_out where
  "empty_metrics = \<lparr> mo_TokenRecord = [], mo_TokenSupply = [], mo_ChainMetricValues = [],
     mo_GlobalMetricSnapshot = [], mo_ChainSupplyCategory = [] \<rparr>"

text \<open>The tables that snapshots of any chains, configurations and blocks can lead to, with any
  event handlers in between.\<close>

inductive indexed :: "metrics_out \<Rightarrow> bool" where
  indexed_empty: "indexed empty_metrics"
| indexed_snapshot: "indexed out \<Longrightarrow>
    handleEightHourSnapshot env chainId b (s, out) st = Some (Inr (s', out'), st') \<Longrightarrow> indexed out'"

inductive_cases indexed_out: "indexed out"

lemma yields_weaken: "yields Q m \<Longrightarrow> (\<And>x. Q x \<Longrightarrow> P x) \<Longrightarrow> yields P m"
  unfolding yields_def by blast

lemma yields_withPricingCache: "yields P m \<Longrightarrow> yields P (withPricingCache m)"
  unfolding yields_def withPricingCache_def by (auto split: option.splits prod.splits)

lemma metricsWf_writeRows: "metricsWf (writeRows rs us out) = metricsWf out"
  by (simp add: metricsWf_def writeRows_def sumsOfDay_def chainRows_def)

lemma snapshot_keeps_metricsWf:
  assumes "metricsWf out"
  shows "yields (\<lambda>(_, out'). metricsWf out') (handleEightHourSnapshot env chainId b (s, out))"
proof -
  have update: "yields metricsWf (updateGlobalMetricSnapshot e s b ts rs us (writeRows rs us out))"
    for e s ts rs us
    using assms by (intro yields_weaken [OF update_yields]) (auto simp: metricsWf_writeRows metricsWf_metricsAfter)
  show ?thesis unfolding handleEightHourSnapshot_def processSnapshot_def Let_def prod.case
    by (auto intro!: yields_intros yields_bind [OF yields_withPricingCache [OF update]] split: option.split)
qed

lemma indexed_wf: "indexed out \<Longrightarrow> metricsWf out"
proof (induction rule: indexed.induct)
  case indexed_empty
  show ?case by (simp add: metricsWf_def empty_metrics_def chainTableWf_def)
next
  case (indexed_snapshot out env chainId b s st s' out' st')
  from yieldsD [OF snapshot_keeps_metricsWf [OF indexed_snapshot.IH] indexed_snapshot.hyps(2)]
  show ?case by simp
qed

section \<open>A day\<close>

definition day_config :: chain_config where
  "day_config = blank_config \<lparr> cc_chainId := 137, cc_blockchain := ''Polygon'',
     cc_tokens := [\<lparr> td_address = ''0x64'', td_category = ''OHM'', td_isLiquid = True,
       td_isBluechip = False, td_decimals = 9, td_multiplier = None, td_isLiability = None,
       td_startBlock = None, td_nonStandardBalance = None \<rparr>] \<rparr>"

definition day_env :: snapshot_env where
  "day_env = blank_snapshot_env \<lparr> se_pricing := blank_pricing_env \<lparr> pe_config := day_config \<rparr>,
     se_configs := [137 \<mapsto> day_config] \<rparr>"

definition day_store :: store where
  "day_store = empty_store \<lparr> st_Erc20Supply := [(id2 137 ''0x64'', \<lparr> Erc20Supply_id = id2 137 ''0x64'',
     Erc20Supply_chainId = 137, Erc20Supply_tokenAddress = ''0x64'',
     Erc20Supply_totalSupply = 5000000000, Erc20Supply_updatedAtBlock = 0 \<rparr>)] \<rparr>"

definition day_row :: token_supply where
  "day_row = createTokenSupply round20 day_config 0 ''0x64'' ''0x64'' None None None None ''Total Supply''
     (Fin 5) 23000000 1"

lemmas day_defs = day_env_def day_config_def day_store_def blank_env_defs

lemma day_total: "pushTotalSupply day_env day_store 0 23000000 [] = [day_row]"
proof -
  have multiplier: "getOhmEquivalentMultiplier day_env day_store = Some (Fin 1)"
    by (simp add: getOhmEquivalentMultiplier_def day_defs getTokenDecimals_def addr_def addr_eval)
  have "toDecimal round20 5000000000 9 = Fin 5" by (simp add: toDecimal_def)
  then show ?thesis unfolding pushTotalSupply_def multiplier
    by (simp add: day_row_def day_defs addr_eval getContractName_def Let_def tget_def
        beforeOhm_def isActive_def getTokenDecimals_def addr_def)
qed

lemma day_rows: "pushRows day_env 0 23000000 day_store = preturn ([], [day_row], day_store)"
proof -
  have none: "pushTokenBalanceRecords day_env 0 23000000 acc = preturn acc"
    "pushOwnedLiquidityRecords day_env day_store 0 23000000 rs = preturn rs"
    "pushCoolerReceivables day_env day_store 0 23000000 rs = preturn rs"
    "pushUniv3NftPol day_env day_store 0 23000000 rows = preturn rows"
    "pushTreasuryOhm day_env day_store 0 23000000 us = preturn us"
    "pushOwnedLiquiditySupply day_env day_store 0 23000000 us = preturn us"
    "pushBlvSupply day_env 0 23000000 us = preturn us"
    "pushGnosisAuctionSupply day_env day_store 0 23000000 us = preturn us"
    "pushMigrationOffsetSupply day_env day_store 0 23000000 us = us" "se_chain day_env \<noteq> ARBITRUM_ID"
    for acc rs rows us
    by (cases acc; simp add: day_defs pushTokenBalanceRecords_def pushTokenRecords_def
        recordedCategory_def pushOwnedLiquidityRecords_def pushCoolerReceivables_def
        pushUniv3NftPol_def pushTreasuryOhm_def pushOwnedLiquiditySupply_def pushBlvSupply_def
        pushGnosisAuctionSupply_def pushMigrationOffsetSupply_def Let_def chain_ids
        getOhmEquivalentMultiplier_def getTokenDecimals_def addr_def addr_eval beforeOhm_def)+
  show ?thesis by (simp add: pushRows_def Let_def pushSupplyRows_def none day_total)
qed

theorem snapshot_rows_witness:
  "good_supplies day_env 0 23000000 [day_row] \<and> ts_supplyBalance day_row = Fin 5"
proof -
  have "pushRows day_env 0 23000000 day_store None = Some (Inr ([], [day_row], day_store), None)"
    by (simp add: day_rows preturn_def)
  moreover have "decimal_rounding (se_rnd day_env)"
    by (simp add: day_defs bn20.decimal_rounding_axioms)
  ultimately show ?thesis
    using snapshot_rows [of day_env 0 23000000 day_store None "[]" "[day_row]" day_store None]
    by (simp add: day_row_def row_simps day_defs)
qed

section \<open>The global row of a day\<close>

lemma chains_distinct:
  "chainTableWf t \<Longrightarrow> distinct (map cv_chainId (getWhere (\<lambda>e. cv_date e = date) t))"
proof (induction t)
  case (Cons ke t)
  obtain k e where ke: "ke = (k, e)" by (cases ke)
  have t: "chainTableWf t" using Cons.prems by (simp add: chainTableWf_def)
  have "cv_chainId e' \<noteq> cv_chainId e" if "(k', e') \<in> set t" "cv_date e' = cv_date e" for k' e'
  proof
    assume "cv_chainId e' = cv_chainId e"
    with that Cons.prems have "k' = k" by (auto simp: chainTableWf_def ke)
    with that(1) Cons.prems show False by (force simp: chainTableWf_def ke)
  qed
  then have "cv_chainId e \<notin> cv_chainId ` set (getWhere (\<lambda>e. cv_date e = date) t)" if "cv_date e = date"
    using that by (fastforce simp: getWhere_iff)
  with Cons.IH [OF t] show ?case by (simp add: ke getWhere_Cons)
qed (simp add: getWhere_Nil)

text \<open>
  C2: after any history of snapshots, whatever chains, blocks and configurations they ran on
  and in whatever order, the global row of a day holds the sum of the chain rows of that day in
  each of its six totals, lists exactly their chains, and calls the day complete exactly when
  Arbitrum and Ethereum are among them.
\<close>

theorem global_row_is_sum:
  assumes "indexed out" "tget (mo_GlobalMetricSnapshot out) date = Some g"
  shows "(let rows = getWhere (\<lambda>e. cv_date e = date) (mo_ChainMetricValues out) in
    gm_ohmTotalSupply g = (\<Sum>e\<leftarrow>rows. cv_ohmTotalSupply e)
    \<and> gm_ohmCirculatingSupply g = (\<Sum>e\<leftarrow>rows. cv_ohmCirculatingSupply e)
    \<and> gm_ohmFloatingSupply g = (\<Sum>e\<leftarrow>rows. cv_ohmFloatingSupply e)
    \<and> gm_ohmBackedSupply g = (\<Sum>e\<leftarrow>rows. cv_ohmBackedSupply e)
    \<and> gm_treasuryMarketValue g = (\<Sum>e\<leftarrow>rows. cv_treasuryMarketValue e)
    \<and> gm_treasuryLiquidBacking g = (\<Sum>e\<leftarrow>rows. cv_treasuryLiquidBacking e)
    \<and> gm_chainsIndexed g = map cv_chainId rows
    \<and> distinct (gm_chainsIndexed g)
    \<and> (gm_crossChainComplete g \<longleftrightarrow> {42161, 1} \<subseteq> set (gm_chainsIndexed g)))"
proof -
  from indexed_wf [OF assms(1)] have wf: "metricsWf out" .
  then have sums: "sumsOfDay date out g" using assms(2) by (simp add: metricsWf_def)
  have "distinct (map cv_chainId (chainRows date out))"
    using wf by (simp add: chainRows_def metricsWf_def chains_distinct)
  with sums show ?thesis by (simp add: sumsOfDay_def chainRows_def Let_def chain_ids)
qed

definition day_after :: metrics_out where
  "day_after = metricsAfter day_env day_store 23000000 0 [] [day_row] (Fin 0, Fin 0, Fin 0)
     (writeRows [] [day_row] empty_metrics)"

lemma day_chain: "se_configs day_env 137 = Some day_config" "se_readBlockTimestamp day_env 137 b = Inr 0"
    "atConfig day_env day_config = day_env" "se_chain day_env = 137"
    "cc_blockchain (se_config day_env) = ''Polygon''"
  by (simp_all add: day_defs atConfig_def)

lemma isoDate_not_empty [simp]: "isoDate t \<noteq> []"
  by (simp add: isoDate_def iso_day_def iso_civil_def split: prod.split)

lemma day_row_fields: "ts_date day_row = isoDate 0" "ts_type day_row = TYPE_TOTAL_SUPPLY"
    "ts_supplyBalance day_row = Fin 5"
  by (simp_all add: day_row_def row_simps TYPE_TOTAL_SUPPLY_def)

lemma day_update: "updateGlobalMetricSnapshot day_env day_store 23000000 0 [] [day_row]
    (writeRows [] [day_row] empty_metrics) = preturn day_after"
  by (simp add: updateGlobalMetricSnapshot_def metricsAfter_def day_after_def Let_def dateOf_def
      canonicalFigures_def day_row_fields day_chain chain_ids empty_metrics_def writeRows_def)

lemma day_run: "handleEightHourSnapshot day_env 137 23000000 (day_store, empty_metrics) st =
    Some (Inr (day_store, day_after), st)"
proof -
  have "blockHandlerFor 137 \<noteq> None" by (simp add: blockHandlerFor_def BLOCK_HANDLERS_def)
  then show ?thesis
    by (auto simp: handleEightHourSnapshot_def processSnapshot_def day_chain day_rows day_update
        withPricingCache_def preturn_def pbind_def Let_def)
qed

theorem global_row_is_sum_witness:
  "indexed day_after \<and> map_option gm_ohmTotalSupply
     (tget (mo_GlobalMetricSnapshot day_after) (isoDate 0)) = Some (Fin 5)"
proof -
  have run: "indexed day_after" using indexed_snapshot [OF indexed_empty day_run] .
  have "\<exists>g. tget (mo_GlobalMetricSnapshot day_after) (isoDate 0) = Some g"
    by (simp add: day_after_def metricsAfter_def Let_def dateOf_def day_row_fields)
  then obtain g where g: "tget (mo_GlobalMetricSnapshot day_after) (isoDate 0) = Some g" by blast
  have "map cv_ohmTotalSupply (getWhere (\<lambda>e. cv_date e = isoDate 0) (mo_ChainMetricValues day_after)) = [Fin 5]"
    by (simp add: day_after_def metricsAfter_def Let_def dateOf_def day_row_fields getWhere_def
        writeRows_def empty_metrics_def tset_def aggregate_fields supplySum_def)
  with global_row_is_sum [OF run g] run g show ?thesis by (simp add: Let_def)
qed

section \<open>Rows that stay behind\<close>

text \<open>Writing the categories of a snapshot only touches the rows of those categories.\<close>

lemma category_names_inject:
  assumes "CATEGORY_TYPE_TO_ENUM x = Some e" "CATEGORY_TYPE_TO_ENUM y = Some e"
  shows "x = y"
  using assms [unfolded CATEGORY_TYPE_TO_ENUM_def, THEN map_of_SomeD] by auto

definition categoryId :: "string \<Rightarrow> nat \<Rightarrow> string \<Rightarrow> string" where
  "categoryId date chainId categoryEnum = date @ ''/'' @ nat_str chainId @ ''/'' @ categoryEnum"

lemma setCategory_other:
  assumes "CATEGORY_TYPE_TO_ENUM type = Some e" "fst tb \<noteq> type"
  shows "tget (setCategory date c tb t) (categoryId date c e) = tget t (categoryId date c e)"
  using assms category_names_inject
  by (auto simp: setCategory_def categoryId_def Let_def split: prod.split option.split)

lemma fold_setCategory_other:
  assumes "CATEGORY_TYPE_TO_ENUM type = Some e" "type \<notin> fst ` set cats"
  shows "tget (fold (setCategory date c) cats t) (categoryId date c e) = tget t (categoryId date c e)"
  using assms(2)
proof (induction cats arbitrary: t)
  case (Cons tb cats)
  then show ?case using setCategory_other [OF assms(1), of tb date c t] by auto
qed simp

lemma keys_update: "fst ` set (AList.update k v al) = insert k (fst ` set al)"
  by (induction al) auto

lemma categories_of_supplies:
  "fst ` set (foldl addSupply cats supplies) = fst ` set cats \<union> ts_type ` set supplies"
proof (induction supplies arbitrary: cats)
  case (Cons u supplies)
  have "fst ` set (addSupply cats u) = insert (ts_type u) (fst ` set cats)"
    by (simp add: addSupply_def addBucket_def keys_update)
  with Cons show ?case by auto
qed simp

text \<open>
  The category rows of a day outlive the supply they describe. When a later snapshot of the
  same chain and day derives no supply row of some category, the row that an earlier snapshot
  wrote for it stays in the table, while the totals of the chain and of the day are computed
  afresh without it: the category counts as zero there.
\<close>

theorem stale_category_row:
  assumes "updateGlobalMetricSnapshot env s b timestamp records supplies out st = Some (Inr out', st')"
    and "CATEGORY_TYPE_TO_ENUM type = Some categoryEnum" "\<forall>u \<in> set supplies. ts_type u \<noteq> type"
  shows "(let date = dateOf records supplies; chainId = se_chain env in
    tget (mo_ChainSupplyCategory out') (date @ ''/'' @ nat_str chainId @ ''/'' @ categoryEnum) =
      tget (mo_ChainSupplyCategory out) (date @ ''/'' @ nat_str chainId @ ''/'' @ categoryEnum)
    \<and> supplyOf (pc_supplyCategories (computePerChainAggregate chainId (cc_blockchain (se_config env))
        date b timestamp records supplies)) type = 0)"
proof -
  let ?c = "computePerChainAggregate (se_chain env) (cc_blockchain (se_config env))
    (dateOf records supplies) b timestamp records supplies"
  have "type \<notin> fst ` set (pc_supplyCategories ?c)"
    using assms(3)
    by (auto simp: computePerChainAggregate_def Let_def categories_of_supplies split: prod.split)
  then have "tget (mo_ChainSupplyCategory out') (categoryId (dateOf records supplies) (se_chain env) categoryEnum) =
      tget (mo_ChainSupplyCategory out) (categoryId (dateOf records supplies) (se_chain env) categoryEnum)"
    using yieldsD [OF update_yields assms(1)] fold_setCategory_other [OF assms(2)]
    by (auto simp: metricsAfter_def Let_def)
  moreover have "filter (\<lambda>u. ts_type u = type) supplies = []"
    using assms(3) by (simp add: filter_empty_conv)
  ultimately show ?thesis
    by (simp add: categoryId_def Let_def aggregate_fields supplySum_def flip: bn_zero)
qed

definition day_lending :: chain_category where
  "day_lending = \<lparr> ck_id = categoryId (isoDate 0) 137 ''LENDING'', ck_snapshot_id = isoDate 0,
     ck_chainId = 137, ck_date = isoDate 0, ck_category = ''LENDING'', ck_balance = Fin 7,
     ck_supplyBalance = Fin (- 7) \<rparr>"

theorem stale_category_row_witness:
  "\<exists>out'. updateGlobalMetricSnapshot day_env day_store 23000000 0 [] [day_row] (empty_metrics
      \<lparr> mo_ChainSupplyCategory := [(ck_id day_lending, day_lending)] \<rparr>) None = Some (Inr out', None)
    \<and> tget (mo_ChainSupplyCategory out') (ck_id day_lending) = Some day_lending"
proof -
  let ?out = "empty_metrics \<lparr> mo_ChainSupplyCategory := [(ck_id day_lending, day_lending)] \<rparr>"
  obtain out' where run: "updateGlobalMetricSnapshot day_env day_store 23000000 0 [] [day_row] ?out None =
      Some (Inr out', None)"
    by (simp add: updateGlobalMetricSnapshot_def Let_def canonicalFigures_def day_chain chain_ids preturn_def
        dateOf_def day_row_fields)
  have "CATEGORY_TYPE_TO_ENUM ''Lending'' = Some ''LENDING''" by (simp add: CATEGORY_TYPE_TO_ENUM_def)
  from stale_category_row [OF run this] run show ?thesis
    by (auto simp: Let_def dateOf_def day_row_fields day_chain day_lending_def categoryId_def tget_def
        TYPE_TOTAL_SUPPLY_def)
qed

section \<open>Rows that share an id\<close>

interpretation written_record: latest_value tget "\<lambda>t r. tset (tr_id r) r t" "\<lambda>r. Some (tr_id r)" "\<lambda>r. r"
  by unfold_locales simp

text \<open>Of the rows with one id the last one is stored.\<close>

lemma writeRows_last: "tget (mo_TokenRecord (writeRows rs us out)) k =
    (case List.find (\<lambda>r. Some (tr_id r) = Some k) (rev rs) of None \<Rightarrow> tget (mo_TokenRecord out) k | Some r \<Rightarrow> Some r)"
  using written_record.latest_run [of "mo_TokenRecord out" rs k]
  by (simp add: writeRows_def foldl_conv_fold)

definition treasureRow :: "snapshot_env \<Rightarrow> nat \<Rightarrow> nat \<Rightarrow> string \<Rightarrow> string \<Rightarrow> bignumber \<Rightarrow> TreasureDeposit \<Rightarrow>
    token_record" where
  "treasureRow env timestamp b magic wallet rate deposit =
     createTokenRecord (se_rnd env) (se_config env) timestamp
       (getContractName (se_config env) magic @ '' - Staked (veMAGIC)'') magic
       (getContractName (se_config env) wallet) wallet rate
       (toDecimal (se_rnd env) (TreasureDeposit_amount deposit) TREASURE_STAKED_LP_DECIMALS) b None None
       \<lparr> tr_isLiquid := False \<rparr>"

lemma treasureRow_id:
  "tr_id (treasureRow env ts b magic w rate d) = tr_id (treasureRow env ts b magic w rate d')"
  by (simp add: treasureRow_def createTokenRecord_def Let_def)

text \<open>
  A wallet with several Treasure deposits yields one row per deposit, but all of them carry
  the same id, made of the day, chain, block, wallet and token. The store keeps the row of the
  last deposit only, so the stored records no longer add up to the market value that is computed
  from all of them.
\<close>

theorem treasure_rows_collide:
  assumes "rate \<noteq> Fin 0" "TreasureDeposit_chainId d1 = se_chain env" "TreasureDeposit_chainId d2 = se_chain env"
    "TreasureDeposit_amount d1 \<noteq> 0" "TreasureDeposit_amount d2 \<noteq> 0"
  shows "\<exists>r1 r2. pushTreasureDeposits env s timestamp b magic wallet [d1, d2] ([], Some rate) =
      preturn ([r1, r2], Some rate)
    \<and> tr_balance r1 = bn_print (se_rnd env) (toDecimal (se_rnd env) (TreasureDeposit_amount d1) 18)
    \<and> tr_balance r2 = bn_print (se_rnd env) (toDecimal (se_rnd env) (TreasureDeposit_amount d2) 18)
    \<and> tr_id r1 = tr_id r2
    \<and> tget (mo_TokenRecord (writeRows [r1, r2] supplies out)) (tr_id r1) = Some r2"
proof -
  let ?r = "treasureRow env timestamp b magic wallet rate"
  have "pushTreasureDeposits env s timestamp b magic wallet [d1, d2] ([], Some rate) =
      preturn ([?r d1, ?r d2], Some rate)"
    using assms by (simp add: rateOnce_def Let_def treasureRow_def)
  moreover have "tr_balance (?r d) =
      bn_print (se_rnd env) (toDecimal (se_rnd env) (TreasureDeposit_amount d) 18)" for d
    by (simp add: treasureRow_def row_simps TREASURE_STAKED_LP_DECIMALS_def)
  moreover have same_id: "tr_id (?r d1) = tr_id (?r d2)" by (rule treasureRow_id)
  moreover have "tget (mo_TokenRecord (writeRows [?r d1, ?r d2] supplies out)) (tr_id (?r d1)) = Some (?r d2)"
    by (simp add: writeRows_last same_id)
  ultimately show ?thesis by blast
qed

definition day_deposit :: "nat \<Rightarrow> int \<Rightarrow> TreasureDeposit" where
  "day_deposit i amount = \<lparr> TreasureDeposit_id = '''', TreasureDeposit_chainId = 137,
     TreasureDeposit_walletAddress = ''0xw'', TreasureDeposit_depositId = i,
     TreasureDeposit_amount = amount, TreasureDeposit_updatedAtBlock = 0 \<rparr>"

theorem treasure_rows_collide_witness:
  "\<exists>r1 r2. pushTreasureDeposits day_env day_store 0 7 ''0xm'' ''0xw''
      [day_deposit 0 (10 ^ 18), day_deposit 1 (2 * 10 ^ 18)] ([], Some (Fin 3)) =
        preturn ([r1, r2], Some (Fin 3))
    \<and> tr_balance r1 = Fin 1 \<and> tr_balance r2 = Fin 2
    \<and> tget (mo_TokenRecord (writeRows [r1, r2] [] empty_metrics)) (tr_id r1) = Some r2"
proof -
  have "bn_print (se_rnd day_env) (toDecimal (se_rnd day_env) (10 ^ 18) 18) = Fin 1"
    "bn_print (se_rnd day_env) (toDecimal (se_rnd day_env) (2 * 10 ^ 18) 18) = Fin 2"
    by (simp_all add: day_defs toDecimal_def)
  then show ?thesis
    using treasure_rows_collide [of "Fin 3" "day_deposit 0 (10 ^ 18)" day_env "day_deposit 1 (2 * 10 ^ 18)"
        day_store 0 7 "''0xm''" "''0xw''" "[]" empty_metrics]
    by (auto simp: day_deposit_def day_chain)
qed

end
