(* ===== verification/Date_Ranges.thy ===== *)
theory Date_Ranges
  imports Calendar
begin

text \<open>
  Ranges of days: \<open>packages/metrics-artifacts/src/date-ranges.ts\<close> (the range a request names and
  the monthly artifacts that cover it) and the splitting of long ranges in
  \<open>apps/client/src/client.ts\<close>. A \<open>Date\<close> at midnight UTC is its number of days since 1970.
\<close>

section \<open>Digits\<close>

lemma is_digit_char [simp]: "d < 10 \<Longrightarrow> is_digit (digit_char d)"
  by (simp add: is_digit_def digit_char_def)

lemma digits_nat_str [simp]: "list_all is_digit (nat_str n)"
proof (induction n rule: nat_str.induct)
  case (1 n)
  then show ?case by (subst nat_str.simps) simp
qed

lemma length_nat_str: "n < 10 ^ Suc w \<Longrightarrow> length (nat_str n) \<le> Suc w"
proof (induction w arbitrary: n)
  case 0
  then show ?case by (subst nat_str.simps) simp
next
  case (Suc w)
  have "n div 10 < 10 ^ Suc w" using Suc.prems by (simp add: less_mult_imp_div_less mult.commute)
  from Suc.IH [OF this] show ?case by (subst nat_str.simps) simp
qed

lemma str_nat_append: "str_nat (s @ t) = str_nat s * 10 ^ length t + str_nat t"
proof (induction t rule: rev_induct)
  case (snoc c t)
  have "str_nat (u @ [c]) = 10 * str_nat u + char_digit c" for u by (simp add: str_nat_def)
  from this [of "s @ t"] this [of t] snoc show ?case by (simp add: algebra_simps)
qed (simp add: str_nat_def)

lemma str_nat_zeros [simp]: "str_nat (replicate k (CHR ''0'')) = 0"
  by (induction k) (simp_all add: str_nat_def char_digit_def)

lemma zero_is_digit [simp]: "is_digit (CHR ''0'')"
  by (simp add: is_digit_def)

lemma str_nat_pad0 [simp]: "str_nat (pad0 w s) = str_nat s"
  by (simp add: pad0_def str_nat_append)

lemma digits_pad0 [simp]: "list_all is_digit s \<Longrightarrow> list_all is_digit (pad0 w s)"
  by (auto simp: pad0_def list_all_iff)

lemma length_pad0 [simp]: "length s \<le> w \<Longrightarrow> length (pad0 w s) = w"
  by (simp add: pad0_def)

section \<open>Parsing and printing days\<close>

definition formatDate :: "int \<Rightarrow> string" where
  "formatDate date = iso_day date"

text \<open>\<open>new Date(..)\<close> rejects month or day numbers that no month has and may roll a day past the
  end of its month into the next one; the comparison with the printed date then rejects it.\<close>

definition parseDate :: "string \<Rightarrow> string + int" where
  "parseDate value =
     (if \<not> date_pattern value then Inl (''Invalid date: '' @ value)
      else (case date_fields value of (y, m, d) \<Rightarrow>
        if m = 0 \<or> 12 < m \<or> d = 0 \<or> 31 < d then Inl (''Invalid date: '' @ value)
        else (let date = days_of_civil (int y) (m - 1) d in
          if formatDate date \<noteq> value then Inl (''Invalid date: '' @ value) else Inr date)))"

text \<open>The days of the years that print with four digits.\<close>

definition four_digit_day :: "int \<Rightarrow> bool" where
  "four_digit_day n \<longleftrightarrow> day_from_year 0 \<le> n \<and> n < day_from_year 10000"

lemma four_digit_year: "four_digit_day n \<Longrightarrow> 0 \<le> year_of_day n \<and> year_of_day n \<le> 9999"
proof -
  assume n: "four_digit_day n"
  have "0 \<le> year_of_day n"
  proof (rule ccontr)
    assume "\<not> 0 \<le> year_of_day n"
    then have "day_from_year (year_of_day n + 1) \<le> day_from_year 0" by (intro day_from_year_mono) simp
    with year_of_day_bounds(2) [of n] n show False by (simp add: four_digit_day_def)
  qed
  moreover have "year_of_day n \<le> 9999"
  proof (rule ccontr)
    assume "\<not> year_of_day n \<le> 9999"
    then have "day_from_year 10000 \<le> day_from_year (year_of_day n)" by (intro day_from_year_mono) simp
    with year_of_day_bounds(1) [of n] n show False by (simp add: four_digit_day_def)
  qed
  ultimately show ?thesis by simp
qed

lemma four_digit_between: "four_digit_day a \<Longrightarrow> four_digit_day b \<Longrightarrow> a \<le> n \<Longrightarrow> n \<le> b \<Longrightarrow> four_digit_day n"
  by (simp add: four_digit_day_def)

text \<open>The parts of a printed four-digit day.\<close>

lemma iso_day_parts:
  assumes "four_digit_day n" "civil_of_days n = (y, m, d)"
  obtains Y M D where "iso_day n = Y @ CHR ''-'' # M @ CHR ''-'' # D" "Y = pad0 4 (nat_str (nat y))"
    "M = pad0 2 (nat_str (m + 1))" "D = pad0 2 (nat_str d)" "length Y = 4" "length M = 2" "length D = 2"
    "0 \<le> y" "m < 12" "1 \<le> d" "d \<le> 31" "days_of_civil y m d = n"
proof -
  have y: "0 \<le> y" "y \<le> 9999" and v: "valid_civil y m d" and n: "days_of_civil y m d = n"
    using four_digit_year [OF assms(1)] days_of_civil_of_days [OF assms(2)] by auto
  have m: "m < 12" "1 \<le> d" "d \<le> 31" using v month_lengths_range [of m y] by (auto simp: valid_civil_def)
  have len: "length (nat_str (nat y)) \<le> 4" "length (nat_str (m + 1)) \<le> 2" "length (nat_str d) \<le> 2"
    using y m length_nat_str [of "nat y" 3] length_nat_str [of "m + 1" 1] length_nat_str [of d 1] by simp_all
  show thesis
    by (rule that [OF _ refl refl refl])
      (use len y m n in \<open>simp_all add: iso_day_def assms(2) iso_civil_def iso_year_def\<close>)
qed

lemma parseDate_formatDate: "four_digit_day n \<Longrightarrow> parseDate (formatDate n) = Inr n"
proof -
  assume n: "four_digit_day n"
  obtain y m d where c: "civil_of_days n = (y, m, d)" using prod_cases3 by blast
  from iso_day_parts [OF n c] obtain Y M D where p:
    "iso_day n = Y @ CHR ''-'' # M @ CHR ''-'' # D" "Y = pad0 4 (nat_str (nat y))"
    "M = pad0 2 (nat_str (m + 1))" "D = pad0 2 (nat_str d)" and len: "length Y = 4" "length M = 2" "length D = 2"
    and b: "0 \<le> y" "m < 12" "1 \<le> d" "d \<le> 31" "days_of_civil y m d = n" .
  have "date_pattern (iso_day n)"
    by (simp add: date_pattern_def p(1) len nth_append) (simp add: p(2-4))
  moreover have "date_fields (iso_day n) = (nat y, m + 1, d)"
    by (simp add: date_fields_def p(1) len) (simp add: p(2-4))
  ultimately show ?thesis using b by (simp add: parseDate_def formatDate_def)
qed

lemma parseDate_sound: "parseDate s = Inr n \<Longrightarrow> formatDate n = s"
  by (auto simp: parseDate_def Let_def split: if_splits prod.splits)

section \<open>The range of a request\<close>

record date_range =
  dr_start :: string
  dr_end :: string
  dr_days :: int

text \<open>Of the manifest only \<open>latestDate\<close> matters; \<open>maxRange\<close> is the maximum where it is enforced.\<close>

definition resolveDateRange :: "string \<Rightarrow> string option \<Rightarrow> string \<Rightarrow> int option \<Rightarrow> bool \<Rightarrow>
    string + date_range" where
  "resolveDateRange start until latestDate maxRangeDays enforceMaxRange =
     (let end' = nullish until latestDate in
      case parseDate start of Inl e \<Rightarrow> Inl e
      | Inr startDate \<Rightarrow> (case parseDate end' of Inl e \<Rightarrow> Inl e
        | Inr endDate \<Rightarrow>
            if endDate < startDate then Inl ''end must be greater than or equal to start''
            else (let days = (endDate - startDate) + 1 in
              if enforceMaxRange \<and> (\<exists>maxDays \<in> set_option maxRangeDays. maxDays < days)
              then Inl ''Requested range is too long''
              else Inr \<lparr> dr_start = start, dr_end = end', dr_days = days \<rparr>)))"

section \<open>Months\<close>

text \<open>Months are counted from year 0. \<open>Date.UTC\<close> takes the years 0 to 99 for 1900 to 1999.\<close>

definition utcYear :: "int \<Rightarrow> int" where
  "utcYear y = (if 0 \<le> y \<and> y \<le> 99 then 1900 + y else y)"

definition monthStart :: "int \<Rightarrow> int" where
  "monthStart k = days_of_civil (k div 12) (nat (k mod 12)) 1"

definition monthIndex :: "int \<Rightarrow> int" where
  "monthIndex n = (case civil_of_days n of (y, m, d) \<Rightarrow> 12 * y + int m)"

definition utcMonth :: "int \<Rightarrow> int" where
  "utcMonth n = (case civil_of_days n of (y, m, d) \<Rightarrow> 12 * utcYear y + int m)"

lemma civil_of_month: "civil_of_days (monthStart k) = (k div 12, nat (k mod 12), 1)"
  unfolding monthStart_def
proof (rule civil_of_days_of_civil)
  have "nat (k mod 12) < 12" by simp
  then show "valid_civil (k div 12) (nat (k mod 12)) 1"
    using month_lengths_range [of "nat (k mod 12)" "k div 12"] by (simp add: valid_civil_def)
qed

lemma monthIndex_monthStart [simp]: "monthIndex (monthStart k) = k"
  by (simp add: monthIndex_def civil_of_month)

lemma monthStart_Suc: "monthStart (k + 1) = monthStart k + int (month_lengths (k div 12) ! nat (k mod 12))"
proof (cases "k mod 12 = 11")
  case True
  have step: "(k + 1) div 12 = k div 12 + 1" "(k + 1) mod 12 = 0"
    using True mult_div_mod_eq [of 12 k] int_div_pos_eq [of "k + 1" 12 "k div 12 + 1" 0] int_mod_pos_eq [of "k + 1" 12 "k div 12 + 1" 0]
    by (simp_all add: algebra_simps)
  have "sum_list (take 11 (month_lengths y)) + month_lengths y ! 11 = year_length y" for y
    by (simp add: month_lengths_def year_length_def)
  from this [of "k div 12"] show ?thesis
    by (simp add: monthStart_def step days_of_civil_def True day_from_year_Suc)
next
  case False
  have step: "(k + 1) div 12 = k div 12" "nat ((k + 1) mod 12) = Suc (nat (k mod 12))" "nat (k mod 12) < 12"
  proof -
    have r: "0 \<le> k mod 12" "k mod 12 < 12" by simp_all
    then have k: "k + 1 = 12 * (k div 12) + (k mod 12 + 1)" "0 \<le> k mod 12 + 1" "k mod 12 + 1 < 12"
      using False by simp_all
    show "(k + 1) div 12 = k div 12" by (rule int_div_pos_eq [OF k])
    show "nat ((k + 1) mod 12) = Suc (nat (k mod 12))" "nat (k mod 12) < 12"
      unfolding int_mod_pos_eq [OF k] using r by simp_all
  qed
  let ?ls = "month_lengths (k div 12)" and ?i = "nat (k mod 12)"
  have "monthStart (k + 1) = days_of_civil (k div 12) (Suc ?i) 1" by (simp only: monthStart_def step)
  moreover have "sum_list (take (Suc ?i) ?ls) = sum_list (take ?i ?ls) + ?ls ! ?i"
    using step(3) by (simp only: take_Suc_conv_app_nth length_month_lengths sum_list_append) simp
  ultimately show ?thesis by (simp only: monthStart_def days_of_civil_def of_nat_add)
qed

lemma monthStart_less [simp]: "monthStart k < monthStart (k + 1)"
proof -
  have "nat (k mod 12) < 12" by simp
  from month_lengths_range [OF this, of "k div 12"] show ?thesis by (simp add: monthStart_Suc)
qed

lemma monthStart_strict: "k < l \<Longrightarrow> monthStart k < monthStart l"
proof (induction "nat (l - k)" arbitrary: l)
  case (Suc i)
  show ?case
  proof (cases "l = k + 1")
    case False
    with Suc have "monthStart k < monthStart (l - 1)" by simp
    also have "\<dots> < monthStart l" using monthStart_less [of "l - 1"] by simp
    finally show ?thesis .
  qed simp
qed simp

lemma monthStart_le_iff [simp]: "monthStart k \<le> monthStart l \<longleftrightarrow> k \<le> l"
  using monthStart_strict [of k l] monthStart_strict [of l k] by (cases k l rule: linorder_cases) auto

lemma month_of_day: "monthStart (monthIndex n) \<le> n" "n < monthStart (monthIndex n + 1)"
proof -
  obtain y m d where c: "civil_of_days n = (y, m, d)" using prod_cases3 by blast
  from days_of_civil_of_days [OF c] have v: "m < 12" "1 \<le> d" "d \<le> month_lengths y ! m"
    and n: "n = days_of_civil y m d" by (auto simp: valid_civil_def)
  have index: "monthIndex n div 12 = y" "nat (monthIndex n mod 12) = m"
    using v(1) by (simp_all add: monthIndex_def c)
  have start: "monthStart (monthIndex n) = days_of_civil y m 1" by (simp add: monthStart_def index)
  show "monthStart (monthIndex n) \<le> n" using v(2) unfolding start by (simp add: n days_of_civil_def)
  have "n < days_of_civil y m 1 + int (month_lengths y ! m)" using v by (simp add: n days_of_civil_def)
  then show "n < monthStart (monthIndex n + 1)" by (simp only: monthStart_Suc start index)
qed

lemma monthIndex_mono: "a \<le> b \<Longrightarrow> monthIndex a \<le> monthIndex b"
proof (rule ccontr)
  assume "a \<le> b" "\<not> monthIndex a \<le> monthIndex b"
  then have "monthStart (monthIndex b + 1) \<le> monthStart (monthIndex a)" by simp
  with month_of_day [of a] month_of_day [of b] \<open>a \<le> b\<close> show False by simp
qed

function monthKeys :: "int \<Rightarrow> int \<Rightarrow> string list" where
  "monthKeys cursor endMonth =
     (if monthStart cursor \<le> monthStart endMonth
      then take 7 (formatDate (monthStart cursor)) # monthKeys (cursor + 1) endMonth else [])"
  by pat_completeness auto
termination
  by (relation "measure (\<lambda>(cursor, endMonth). nat (endMonth + 1 - cursor))") auto

declare monthKeys.simps [simp del]

definition monthKeysForRange :: "date_range \<Rightarrow> string + string list" where
  "monthKeysForRange span = (case parseDate (dr_start span) of Inl e \<Rightarrow> Inl e
     | Inr start \<Rightarrow> (case parseDate (dr_end span) of Inl e \<Rightarrow> Inl e
       | Inr end' \<Rightarrow> Inr (monthKeys (utcMonth start) (utcMonth end'))))"

lemma monthKeys_upto: "monthKeys a b = map (\<lambda>k. take 7 (formatDate (monthStart k))) [a..b]"
proof (induction a b rule: monthKeys.induct)
  case (1 a b)
  then show ?case by (subst monthKeys.simps) (simp add: upto.simps [of a b])
qed

lemma chunk_key: "four_digit_day n \<Longrightarrow> take 7 (formatDate n) = take 7 (formatDate (monthStart (monthIndex n)))"
proof -
  assume n: "four_digit_day n"
  obtain y m d where c: "civil_of_days n = (y, m, d)" using prod_cases3 by blast
  from days_of_civil_of_days [OF c] have m: "m < 12" by (simp add: valid_civil_def)
  have y: "0 \<le> y" "y \<le> 9999" using four_digit_year [OF n] days_of_civil_of_days [OF c] by simp_all
  have "civil_of_days (monthStart (monthIndex n)) = (y, m, 1)"
    using m by (simp add: civil_of_month monthIndex_def c)
  moreover have "length (iso_year y) = 4" "length (pad0 2 (nat_str (m + 1))) = 2"
    using y m length_nat_str [of "nat y" 3] length_nat_str [of "m + 1" 1] by (simp_all add: iso_year_def)
  ultimately show ?thesis using c by (simp add: formatDate_def iso_day_def iso_civil_def)
qed

text \<open>What parses is a four-digit day.\<close>

lemma str_nat_digits: "list_all is_digit s \<Longrightarrow> str_nat s < 10 ^ length s"
proof (induction s rule: rev_induct)
  case (snoc c s)
  have "(of_char c :: nat) \<le> 57" using snoc.prems by (simp add: is_digit_def)
  then have "char_digit c < 10" by (simp add: char_digit_def)
  with snoc show ?case by (simp add: str_nat_append) (simp add: str_nat_def)
qed (simp add: str_nat_def)

lemma days_within_year:
  assumes "m < 12" "1 \<le> d" "d \<le> 31"
  shows "day_from_year y \<le> days_of_civil y m d \<and> days_of_civil y m d < day_from_year (y + 1)"
proof -
  have "sum_list (take m (month_lengths y)) \<le> sum_list (take 11 (month_lengths y))"
    using assms(1) by (auto simp: month_lengths_def numeral_eq_Suc less_Suc_eq)
  moreover have "sum_list (take 11 (month_lengths y)) + 31 = year_length y"
    by (simp add: month_lengths_def year_length_def)
  ultimately show ?thesis using assms by (simp add: days_of_civil_def day_from_year_Suc)
qed

lemma parseDate_four_digit:
  assumes "parseDate s = Inr n"
  shows "four_digit_day n"
proof -
  obtain y m d where f: "date_fields s = (y, m, d)" using prod_cases3 by blast
  with assms have p: "date_pattern s" and m: "0 < m" "m \<le> 12" "0 < d" "d \<le> 31"
    and n: "n = days_of_civil (int y) (m - 1) d" by (auto simp: parseDate_def Let_def split: if_splits)
  have "y < 10 ^ 4" using str_nat_digits [of "take 4 s"] p f by (auto simp: date_pattern_def date_fields_def)
  then have "day_from_year (int y + 1) \<le> day_from_year 10000" "day_from_year 0 \<le> day_from_year (int y)"
    by (intro day_from_year_mono; simp)+
  moreover have "m - 1 < 12" "1 \<le> d" using m by simp_all
  ultimately show ?thesis using days_within_year [of "m - 1" d "int y"] m(4) by (simp add: four_digit_day_def n)
qed

lemma formatDate_inject: "four_digit_day a \<Longrightarrow> four_digit_day b \<Longrightarrow> formatDate a = formatDate b \<longleftrightarrow> a = b"
  using parseDate_formatDate by (metis sum.inject(2))

lemma monthStart_key: "four_digit_day (monthStart k) \<Longrightarrow> formatDate (monthStart k) = take 7 (formatDate (monthStart k)) @ ''-01''"
proof -
  assume k: "four_digit_day (monthStart k)"
  from iso_day_parts [OF k civil_of_month] obtain Y M D where
    "iso_day (monthStart k) = Y @ CHR ''-'' # M @ CHR ''-'' # D" "D = pad0 2 (nat_str 1)" "length Y = 4" "length M = 2" .
  moreover have "pad0 2 (nat_str 1) = ''01''" by code_simp
  ultimately show ?thesis by (simp add: formatDate_def)
qed

lemma monthStart_four_digit: "four_digit_day n \<Longrightarrow> four_digit_day (monthStart (monthIndex n))"
proof -
  assume n: "four_digit_day n"
  obtain y m d where c: "civil_of_days n = (y, m, d)" using prod_cases3 by blast
  from days_of_civil_of_days [OF c] have v: "m < 12" and y: "y = year_of_day n" by (simp_all add: valid_civil_def)
  have "monthStart (monthIndex n) = days_of_civil y m 1" using v by (simp add: monthStart_def monthIndex_def c)
  moreover have "day_from_year 0 \<le> day_from_year y"
    using four_digit_year [OF n] y by (intro day_from_year_mono) simp
  ultimately show ?thesis
    using days_within_year [OF v, of 1 y] month_of_day(1) [of n] n by (simp add: four_digit_day_def)
qed

lemma months_between:
  assumes "a \<le> b" "monthIndex a \<le> k" "k \<le> monthIndex b"
  shows "\<exists>n. a \<le> n \<and> n \<le> b \<and> monthIndex n = k"
proof (cases "k = monthIndex a")
  case True
  with assms(1) show ?thesis by blast
next
  case False
  with assms(2) have "monthStart (monthIndex a + 1) \<le> monthStart k" unfolding monthStart_le_iff by simp
  with month_of_day(2) [of a] have "a \<le> monthStart k" by linarith
  moreover have "monthStart k \<le> b" using assms(3) month_of_day(1) [of b] monthStart_le_iff [of k "monthIndex b"] by linarith
  ultimately show ?thesis using monthIndex_monthStart [of k] by blast
qed

lemma utcMonth_late: "day_from_year 100 \<le> n \<Longrightarrow> utcMonth n = monthIndex n"
proof -
  assume n: "day_from_year 100 \<le> n"
  obtain y m d where c: "civil_of_days n = (y, m, d)" using prod_cases3 by blast
  have "100 \<le> y"
  proof (rule ccontr)
    assume "\<not> 100 \<le> y"
    then have "day_from_year (y + 1) \<le> day_from_year 100" by (intro day_from_year_mono) simp
    with n days_of_civil_of_days [OF c] year_of_day_bounds(2) [of n] show False by simp
  qed
  then show ?thesis by (simp add: utcMonth_def monthIndex_def c utcYear_def)
qed

lemma monthKeysForRange_days:
  assumes "parseDate (dr_start span) = Inr a" "parseDate (dr_end span) = Inr b" "day_from_year 100 \<le> a" "a \<le> b"
  shows "\<exists>keys. monthKeysForRange span = Inr keys \<and> distinct keys
    \<and> set keys = (\<lambda>n. take 7 (formatDate n)) ` {a..b}"
proof -
  let ?key = "\<lambda>k. take 7 (formatDate (monthStart k))" and ?months = "[monthIndex a..monthIndex b]"
  note digits = four_digit_between [OF parseDate_four_digit [OF assms(1)] parseDate_four_digit [OF assms(2)]]
  have months: "\<exists>n. a \<le> n \<and> n \<le> b \<and> monthIndex n = k" if "k \<in> set ?months" for k
    using months_between [OF assms(4)] that by simp
  have "monthKeysForRange span = Inr (map ?key ?months)"
    using assms by (simp add: monthKeysForRange_def utcMonth_late monthKeys_upto)
  moreover have "inj_on ?key (set ?months)"
  proof (rule inj_onI)
    fix k l assume k: "k \<in> set ?months" and l: "l \<in> set ?months" and eq: "?key k = ?key l"
    have d: "four_digit_day (monthStart k)" "four_digit_day (monthStart l)"
      using months [OF k] months [OF l] monthStart_four_digit digits by blast+
    then have "monthStart k = monthStart l" using eq monthStart_key formatDate_inject by metis
    then show "k = l" by (metis monthIndex_monthStart)
  qed
  then have "distinct (map ?key ?months)" by (simp add: distinct_map)
  moreover have "set (map ?key ?months) = (\<lambda>n. take 7 (formatDate n)) ` {a..b}"
  proof (intro equalityI subsetI)
    fix x assume "x \<in> set (map ?key ?months)"
    then obtain k where "k \<in> set ?months" "x = ?key k" by auto
    with months [of k] digits chunk_key show "x \<in> (\<lambda>n. take 7 (formatDate n)) ` {a..b}" by fastforce
  next
    fix x assume "x \<in> (\<lambda>n. take 7 (formatDate n)) ` {a..b}"
    then obtain n where n: "a \<le> n" "n \<le> b" "x = take 7 (formatDate n)" by auto
    then have "x = ?key (monthIndex n)" "monthIndex n \<in> set ?months"
      using chunk_key [OF digits] by (simp_all add: monthIndex_mono)
    then show "x \<in> set (map ?key ?months)" by simp
  qed
  ultimately show ?thesis by blast
qed

section \<open>Correctness\<close>

text \<open>
  C38: parsing and printing days are inverse: what parses prints back, and every day of the years
  0 to 9999 parses from what it prints.
\<close>

theorem date_roundtrip:
  "(parseDate s = Inr n \<longrightarrow> formatDate n = s)
   \<and> (day_from_year 0 \<le> n \<and> n < day_from_year 10000 \<longrightarrow> parseDate (formatDate n) = Inr n)"
  using parseDate_sound parseDate_formatDate by (auto simp: four_digit_day_def)

theorem date_roundtrip_witness: "formatDate 19782 = ''2024-02-29'' \<and> parseDate ''2024-02-29'' = Inr 19782"
proof -
  have print: "formatDate 19782 = ''2024-02-29''" by code_simp
  have "day_from_year 0 \<le> 19782 \<and> 19782 < day_from_year 10000" by (simp add: day_from_year_def)
  with date_roundtrip [of "''2024-02-29''" 19782] print show ?thesis by simp
qed

text \<open>
  From the year 100 on, the month keys of a range are the months of its days, in order and
  without repetition: each key is the month of a day of the range, and every day of the range has
  its month among the keys.
\<close>

theorem month_keys_cover:
  assumes "parseDate (dr_start span) = Inr a" "parseDate (dr_end span) = Inr b" "day_from_year 100 \<le> a" "a \<le> b"
  shows "\<exists>keys. monthKeysForRange span = Inr keys \<and> distinct keys
    \<and> set keys = (\<lambda>n. take 7 (formatDate n)) ` {a..b}"
  by (rule monthKeysForRange_days [OF assms])

theorem month_keys_cover_witness:
  "\<exists>keys. monthKeysForRange \<lparr> dr_start = ''2023-12-31'', dr_end = ''2024-02-29'', dr_days = 61 \<rparr> = Inr keys
     \<and> ''2024-01'' \<in> set keys"
proof -
  have "parseDate ''2023-12-31'' = Inr 19722" "parseDate ''2024-02-29'' = Inr 19782" by code_simp+
  moreover have "take 7 (formatDate 19725) = ''2024-01''" by code_simp
  moreover have "day_from_year 100 \<le> 19722" by (simp add: day_from_year_def)
  ultimately show ?thesis
    using month_keys_cover [of "\<lparr> dr_start = ''2023-12-31'', dr_end = ''2024-02-29'', dr_days = 61 \<rparr>" 19722 19782]
    by (auto simp: image_iff intro!: bexI [of _ 19725])
qed

end
