(* ===== verification/Artifact_Types.thy ===== *)
theory Artifact_Types
  imports Date_Ranges Bignumber "HOL-Library.AList"
begin

text \<open>
  The rows and documents that the publisher writes and the API serves
  (\<open>packages/metrics-artifacts/src/types.ts\<close>) and the figures built from rows
  (\<open>legacy-shape.ts\<close>). Numbers are rationals; \<open>fl\<close> is the rounding of floating-point addition,
  which the language fixes but no property depends on. Objects keyed by chain name are
  association lists in the order of their literals.
\<close>

section \<open>Chains\<close>

definition CHAIN_NAMES :: "string list" where
  "CHAIN_NAMES = [''Arbitrum'', ''Ethereum'', ''Fantom'', ''Polygon'', ''Base'', ''Berachain'']"

definition CHAIN_IDS_BY_NAME :: "(string \<times> nat) list" where
  "CHAIN_IDS_BY_NAME = [(''Arbitrum'', 42161), (''Ethereum'', 1), (''Fantom'', 250), (''Polygon'', 137),
     (''Base'', 8453), (''Berachain'', 80094)]"

definition ALL_CHAIN_IDS_PUBLISHED :: "nat list" where
  "ALL_CHAIN_IDS_PUBLISHED = List.map_filter (map_of CHAIN_IDS_BY_NAME) CHAIN_NAMES"

definition REQUIRED_CHAIN_IDS_FOR_COMPLETE :: "nat list" where
  "REQUIRED_CHAIN_IDS_FOR_COMPLETE = [42161, 1]"

definition isChainName :: "string \<Rightarrow> bool" where
  "isChainName value \<longleftrightarrow> value \<in> set CHAIN_NAMES"

definition chainNamesFromIds :: "nat list \<Rightarrow> string list" where
  "chainNamesFromIds = List.map_filter (map_of (map prod.swap CHAIN_IDS_BY_NAME))"

lemma ALL_CHAIN_IDS_PUBLISHED_eval: "ALL_CHAIN_IDS_PUBLISHED = [42161, 1, 250, 137, 8453, 80094]"
  by (simp add: ALL_CHAIN_IDS_PUBLISHED_def CHAIN_IDS_BY_NAME_def CHAIN_NAMES_def List.map_filter_simps)

section \<open>Rows\<close>

type_synonym chain_values = "(string \<times> rat) list"

record treasury_asset =
  ta_id :: string
  ta_balance :: rat
  ta_block :: rat
  ta_blockchain :: string
  ta_category :: string
  ta_date :: string
  ta_isBluechip :: bool
  ta_isLiquid :: bool
  ta_multiplier :: rat
  ta_rate :: rat
  ta_source :: string
  ta_sourceAddress :: string
  ta_timestamp :: rat
  ta_token :: string
  ta_tokenAddress :: string
  ta_value :: rat
  ta_valueExcludingOhm :: rat

record ohm_supply =
  os_id :: string
  os_balance :: rat
  os_block :: rat
  os_blockchain :: string
  os_date :: string
  os_pool :: "string option"
  os_poolAddress :: "string option"
  os_source :: string
  os_sourceAddress :: string
  os_supplyBalance :: rat
  os_timestamp :: rat
  os_token :: string
  os_tokenAddress :: string
  os_type :: string

record response_metadata =
  rm_chainsComplete :: "string list"
  rm_chainsFailed :: "string list"
  rm_timestamp :: string

record daily_metric =
  dm_date :: string
  dm_blocks :: chain_values
  dm_timestamps :: chain_values
  dm_crossChainComplete :: bool
  dm_chainsIndexed :: "nat list"
  dm_chainsMissing :: "nat list"
  dm_ohmIndex :: rat
  dm_ohmApy :: rat
  dm_ohmTotalSupply :: rat
  dm_ohmTotalSupplyComponents :: chain_values
  dm_ohmCirculatingSupply :: rat
  dm_ohmCirculatingSupplyComponents :: chain_values
  dm_ohmFloatingSupply :: rat
  dm_ohmFloatingSupplyComponents :: chain_values
  dm_ohmBackedSupply :: rat
  dm_gOhmBackedSupply :: rat
  dm_ohmBackedSupplyComponents :: chain_values
  dm_ohmSupplyCategories :: chain_values
  dm_ohmPrice :: rat
  dm_gOhmPrice :: rat
  dm_marketCap :: rat
  dm_sOhmCirculatingSupply :: rat
  dm_sOhmTotalValueLocked :: rat
  dm_treasuryMarketValue :: rat
  dm_treasuryMarketValueComponents :: chain_values
  dm_treasuryLiquidBacking :: rat
  dm_treasuryLiquidBackingComponents :: chain_values
  dm_treasuryLiquidBackingPerOhmFloating :: rat
  dm_treasuryLiquidBackingPerOhmBacked :: rat
  dm_treasuryLiquidBackingPerGOhmBacked :: rat
  dm_ohmTotalSupplyRecords :: "(string \<times> ohm_supply list) list option"
  dm_ohmCirculatingSupplyRecords :: "(string \<times> ohm_supply list) list option"
  dm_ohmFloatingSupplyRecords :: "(string \<times> ohm_supply list) list option"
  dm_ohmBackedSupplyRecords :: "(string \<times> ohm_supply list) list option"
  dm_treasuryMarketValueRecords :: "(string \<times> treasury_asset list) list option"
  dm_treasuryLiquidBackingRecords :: "(string \<times> treasury_asset list) list option"
  dm_meta :: response_metadata

section \<open>The manifest\<close>

record artifact_entry =
  ae_sha256 :: string
  ae_byteLength :: nat
  ae_rowCount :: nat

record chain_progress =
  cp_block :: rat
  cp_date :: string
  cp_timestamp :: rat

type_synonym indexing_progress = "(string \<times> chain_progress) list"

record manifest =
  mf_schemaVersion :: string
  mf_generatedAt :: string
  mf_indexerDeploymentId :: "string option"
  mf_indexingProgress :: "indexing_progress option"
  mf_earliestDate :: string
  mf_latestDate :: string
  mf_artifacts :: "(string \<times> artifact_entry) list"

section \<open>Figures from rows\<close>

definition emptyChainValues :: chain_values where
  "emptyChainValues = map (\<lambda>c. (c, 0)) CHAIN_NAMES"

definition emptySupplyCategoryValues :: chain_values where
  "emptySupplyCategoryValues = map (\<lambda>c. (c, 0)) [''BondsDeposits'', ''BondsPreminted'',
     ''BondsVestingDeposits'', ''BondsVestingTokens'', ''BoostedLiquidityVault'', ''LendingMarkets'',
     ''ProtocolOwnedLiquidity'', ''MigrationOffset'', ''TotalSupply'', ''Treasury'']"

definition groupTreasuryAssetsByChain :: "treasury_asset list \<Rightarrow> (string \<times> treasury_asset list) list" where
  "groupTreasuryAssetsByChain assets = foldl (\<lambda>grouped asset.
     if isChainName (ta_blockchain asset)
     then AList.map_entry (ta_blockchain asset) (\<lambda>rows. rows @ [asset]) grouped else grouped)
     (map (\<lambda>c. (c, [])) CHAIN_NAMES) assets"

definition groupOhmSupplyByChain :: "ohm_supply list \<Rightarrow> (string \<times> ohm_supply list) list" where
  "groupOhmSupplyByChain supplies = foldl (\<lambda>grouped supply.
     if isChainName (os_blockchain supply)
     then AList.map_entry (os_blockchain supply) (\<lambda>rows. rows @ [supply]) grouped else grouped)
     (map (\<lambda>c. (c, [])) CHAIN_NAMES) supplies"

definition sumOf :: "(rat \<Rightarrow> rat) \<Rightarrow> rat list \<Rightarrow> rat" where
  "sumOf fl values = foldl (\<lambda>total value. fl (total + value)) 0 values"

definition uniqueChainIds :: "string list \<Rightarrow> nat list" where
  "uniqueChainIds chainNames = rev (remdups (rev (List.map_filter (map_of CHAIN_IDS_BY_NAME) chainNames)))"

definition inferIndexedChainIds :: "treasury_asset list \<Rightarrow> ohm_supply list \<Rightarrow> nat list" where
  "inferIndexedChainIds treasuryAssets ohmSupply = uniqueChainIds
     (filter isChainName (map ta_blockchain treasuryAssets) @ filter isChainName (map os_blockchain ohmSupply))"

definition missingChainIds :: "nat list \<Rightarrow> nat list" where
  "missingChainIds chainsIndexed = filter (\<lambda>c. c \<notin> set chainsIndexed) ALL_CHAIN_IDS_PUBLISHED"

definition isCrossChainComplete :: "nat list \<Rightarrow> bool" where
  "isCrossChainComplete chainsIndexed = list_all (\<lambda>c. c \<in> set chainsIndexed) REQUIRED_CHAIN_IDS_FOR_COMPLETE"

text \<open>\<open>list[0]?.x ?? ..\<close>: the block and time of the first row of a chain.\<close>

definition firstOf :: "(treasury_asset \<Rightarrow> rat) \<Rightarrow> (ohm_supply \<Rightarrow> rat) \<Rightarrow> treasury_asset list \<Rightarrow>
    ohm_supply list \<Rightarrow> rat" where
  "firstOf f g assets supplies = (case assets of a # _ \<Rightarrow> f a
     | [] \<Rightarrow> (case supplies of u # _ \<Rightarrow> g u | [] \<Rightarrow> 0))"

definition perChain :: "(string \<Rightarrow> rat) \<Rightarrow> chain_values" where
  "perChain f = map (\<lambda>c. (c, f c)) CHAIN_NAMES"

definition rowsOfChain :: "(string \<times> 'r list) list \<Rightarrow> string \<Rightarrow> 'r list" where
  "rowsOfChain grouped chain = (case map_of grouped chain of None \<Rightarrow> [] | Some rows \<Rightarrow> rows)"

definition buildDailyMetric :: "(rat \<Rightarrow> rat) \<Rightarrow> string \<Rightarrow> treasury_asset list \<Rightarrow> ohm_supply list \<Rightarrow> bool \<Rightarrow>
    nat list option \<Rightarrow> nat list option \<Rightarrow> string \<Rightarrow> daily_metric" where
  "buildDailyMetric fl date treasuryAssets ohmSupply includeRecords indexed missing generatedAt =
     (let chainsIndexed = nullish indexed (inferIndexedChainIds treasuryAssets ohmSupply);
          chainsMissing = nullish missing (missingChainIds chainsIndexed);
          assetsByChain = groupTreasuryAssetsByChain treasuryAssets;
          supplyByChain = groupOhmSupplyByChain ohmSupply;
          assets = rowsOfChain assetsByChain; supplies = rowsOfChain supplyByChain;
          marketValue = perChain (\<lambda>c. sumOf fl (map ta_value (assets c)));
          liquidBacking = perChain (\<lambda>c. sumOf fl (map ta_valueExcludingOhm (filter ta_isLiquid (assets c))));
          totalSupply = perChain (\<lambda>c. sumOf fl (map os_balance
            (filter (\<lambda>u. os_type u = ''Total Supply'') (supplies c))));
          circulating = perChain (\<lambda>c. sumOf fl (map os_supplyBalance (supplies c)));
          total = (\<lambda>values. sumOf fl (map snd values))
      in \<lparr> dm_date = date, dm_blocks = perChain (\<lambda>c. firstOf ta_block os_block (assets c) (supplies c)),
           dm_timestamps = perChain (\<lambda>c. firstOf ta_timestamp os_timestamp (assets c) (supplies c)),
           dm_crossChainComplete = isCrossChainComplete chainsIndexed,
           dm_chainsIndexed = chainsIndexed, dm_chainsMissing = chainsMissing,
           dm_ohmIndex = 0, dm_ohmApy = 0,
           dm_ohmTotalSupply = total totalSupply, dm_ohmTotalSupplyComponents = totalSupply,
           dm_ohmCirculatingSupply = total circulating, dm_ohmCirculatingSupplyComponents = circulating,
           dm_ohmFloatingSupply = total circulating, dm_ohmFloatingSupplyComponents = circulating,
           dm_ohmBackedSupply = total circulating, dm_gOhmBackedSupply = 0,
           dm_ohmBackedSupplyComponents = circulating,
           dm_ohmSupplyCategories = emptySupplyCategoryValues, dm_ohmPrice = 0, dm_gOhmPrice = 0,
           dm_marketCap = 0, dm_sOhmCirculatingSupply = 0, dm_sOhmTotalValueLocked = 0,
           dm_treasuryMarketValue = total marketValue, dm_treasuryMarketValueComponents = marketValue,
           dm_treasuryLiquidBacking = total liquidBacking,
           dm_treasuryLiquidBackingComponents = liquidBacking,
           dm_treasuryLiquidBackingPerOhmFloating = 0, dm_treasuryLiquidBackingPerOhmBacked = 0,
           dm_treasuryLiquidBackingPerGOhmBacked = 0,
           dm_ohmTotalSupplyRecords = (if includeRecords then Some supplyByChain else None),
           dm_ohmCirculatingSupplyRecords = (if includeRecords then Some supplyByChain else None),
           dm_ohmFloatingSupplyRecords = (if includeRecords then Some supplyByChain else None),
           dm_ohmBackedSupplyRecords = (if includeRecords then Some supplyByChain else None),
           dm_treasuryMarketValueRecords = (if includeRecords then Some assetsByChain else None),
           dm_treasuryLiquidBackingRecords = (if includeRecords
             then Some (groupTreasuryAssetsByChain (filter ta_isLiquid treasuryAssets)) else None),
           dm_meta = \<lparr> rm_chainsComplete = chainNamesFromIds chainsIndexed,
             rm_chainsFailed = chainNamesFromIds chainsMissing, rm_timestamp = generatedAt \<rparr> \<rparr>)"

end
