(* ===== verification/Artifact_Store.thy ===== *)
theory Artifact_Store
  imports Artifact_Types "HOL-Library.List_Lexorder"
begin

text \<open>
  The object store behind the publisher (\<open>apps/metrics-publisher/src/artifact-store.ts\<close>): the
  in-memory implementation of the \<open>ArtifactStore\<close> interface, and the interface itself as a locale.
  Objects are kept as the documents whose JSON text the code stores; parsing that text gives the
  document back. \<open>JSON.stringify\<close> on documents, SHA-256 and the byte count of a text are the
  parameters of \<open>codec\<close>.
\<close>

section \<open>Documents\<close>

datatype operation = Initial_Backfill | Incremental_Refresh

text \<open>Times are kept as milliseconds; the code stores them as ISO strings and parses them back.\<close>

record publisher_lock =
  pl_runId :: string
  pl_startedAt :: int
  pl_expiresAt :: int
  pl_operation :: operation

datatype document =
  Schema_Doc string
| Metric_Rows "daily_metric list"
| Asset_Rows "treasury_asset list"
| Supply_Rows "ohm_supply list"
| Manifest_Doc manifest
| Lock_Doc publisher_lock

record codec =
  cd_stringify :: "document \<Rightarrow> string"
  cd_sha256 :: "string \<Rightarrow> string"
  cd_byteLength :: "string \<Rightarrow> nat"

definition serializeJson :: "codec \<Rightarrow> document \<Rightarrow> string" where
  "serializeJson codec value = cd_stringify codec value @ [CHR 0x0A]"

definition artifactEntry :: "codec \<Rightarrow> document \<Rightarrow> nat \<Rightarrow> artifact_entry" where
  "artifactEntry codec value rowCount = (let content = serializeJson codec value in
     \<lparr> ae_sha256 = cd_sha256 codec content, ae_byteLength = cd_byteLength codec content,
       ae_rowCount = rowCount \<rparr>)"

definition etag :: "codec \<Rightarrow> document \<Rightarrow> string" where
  "etag codec value = CHR 0x22 # cd_sha256 codec (serializeJson codec value) @ [CHR 0x22]"

section \<open>The in-memory store\<close>

record memory_store =
  ms_writtenKeys :: "string list"
  ms_deletedKeys :: "string list"
  ms_objects :: "(string \<times> document) list"

definition empty_memory :: memory_store where
  "empty_memory = \<lparr> ms_writtenKeys = [], ms_deletedKeys = [], ms_objects = [] \<rparr>"

text \<open>\<open>None\<close> is \<open>ArtifactNotFoundError\<close>.\<close>

definition getJson :: "memory_store \<Rightarrow> string \<Rightarrow> document option" where
  "getJson s key = map_of (ms_objects s) key"

definition getJsonWithMetadata :: "codec \<Rightarrow> memory_store \<Rightarrow> string \<Rightarrow> (document \<times> string option) option" where
  "getJsonWithMetadata codec s key = (case map_of (ms_objects s) key of None \<Rightarrow> None
     | Some value \<Rightarrow> Some (value, Some (etag codec value)))"

definition putJson :: "string \<Rightarrow> document \<Rightarrow> memory_store \<Rightarrow> memory_store" where
  "putJson key value s = s \<lparr> ms_writtenKeys := ms_writtenKeys s @ [key],
     ms_objects := AList.update key value (ms_objects s) \<rparr>"

definition putJsonIfAbsent :: "string \<Rightarrow> document \<Rightarrow> memory_store \<Rightarrow> bool \<times> memory_store" where
  "putJsonIfAbsent key value s =
     (if map_of (ms_objects s) key \<noteq> None then (False, s) else (True, putJson key value s))"

definition putJsonIfMatch :: "codec \<Rightarrow> string \<Rightarrow> document \<Rightarrow> string \<Rightarrow> memory_store \<Rightarrow> bool \<times> memory_store" where
  "putJsonIfMatch codec key value tag s = (case map_of (ms_objects s) key of
     None \<Rightarrow> (False, s)
   | Some existing \<Rightarrow> if etag codec existing \<noteq> tag then (False, s) else (True, putJson key value s))"

definition startsWith :: "string \<Rightarrow> string \<Rightarrow> bool" where
  "startsWith text prefix \<longleftrightarrow> take (length prefix) text = prefix"

definition listKeys :: "memory_store \<Rightarrow> string \<Rightarrow> string list" where
  "listKeys s prefix = sort_key (map (of_char :: char \<Rightarrow> nat))
     (filter (\<lambda>key. startsWith key prefix) (map fst (ms_objects s)))"

definition deleteJson :: "string \<Rightarrow> memory_store \<Rightarrow> memory_store" where
  "deleteJson key s = s \<lparr> ms_deletedKeys := ms_deletedKeys s @ [key],
     ms_objects := AList.delete key (ms_objects s) \<rparr>"

definition deleteJsonIfMatch :: "codec \<Rightarrow> string \<Rightarrow> string \<Rightarrow> memory_store \<Rightarrow> bool \<times> memory_store" where
  "deleteJsonIfMatch codec key tag s = (case map_of (ms_objects s) key of
     None \<Rightarrow> (False, s)
   | Some existing \<Rightarrow> if etag codec existing \<noteq> tag then (False, s) else (True, deleteJson key s))"

section \<open>The interface\<close>

text \<open>
  What the publisher relies on: a read returns the last document written, writes and deletions
  touch their key only, and the conditional operations act exactly when the condition holds.
\<close>

locale artifact_store =
  fixes lookup :: "'s \<Rightarrow> string \<Rightarrow> 'v option"
    and put :: "string \<Rightarrow> 'v \<Rightarrow> 's \<Rightarrow> 's"
    and delete :: "string \<Rightarrow> 's \<Rightarrow> 's"
    and putIfAbsent :: "string \<Rightarrow> 'v \<Rightarrow> 's \<Rightarrow> bool \<times> 's"
    and putIfMatch :: "string \<Rightarrow> 'v \<Rightarrow> string \<Rightarrow> 's \<Rightarrow> bool \<times> 's"
    and deleteIfMatch :: "string \<Rightarrow> string \<Rightarrow> 's \<Rightarrow> bool \<times> 's"
    and tag :: "'v \<Rightarrow> string"
  assumes lookup_put: "lookup (put k v s) k' = (if k' = k then Some v else lookup s k')"
    and lookup_delete: "lookup (delete k s) k' = (if k' = k then None else lookup s k')"
    and putIfAbsent: "putIfAbsent k v s = (if lookup s k = None then (True, put k v s) else (False, s))"
    and putIfMatch: "putIfMatch k v t s =
      (if map_option tag (lookup s k) = Some t then (True, put k v s) else (False, s))"
    and deleteIfMatch: "deleteIfMatch k t s =
      (if map_option tag (lookup s k) = Some t then (True, delete k s) else (False, s))"
begin

text \<open>Writing and deleting a list of keys.\<close>

lemma lookup_puts: "lookup (fold (\<lambda>(k, v). put k v) kvs s) k =
    (case map_of (rev kvs) k of None \<Rightarrow> lookup s k | Some v \<Rightarrow> Some v)"
proof (induction kvs arbitrary: s)
  case (Cons kv kvs)
  then show ?case by (cases kv) (simp add: lookup_put map_add_def split: option.split)
qed simp

lemma lookup_deletes: "lookup (fold delete ks s) k = (if k \<in> set ks then None else lookup s k)"
  by (induction ks arbitrary: s) (auto simp: lookup_delete)

text \<open>A successful conditional write replaces a document with the given tag; a failed one changes
  nothing.\<close>

lemma putIfMatch_cases:
  assumes "putIfMatch k v t s = (ok, s')"
  shows "(ok \<and> (\<exists>old. lookup s k = Some old \<and> tag old = t) \<and> lookup s' k = Some v) \<or> (\<not> ok \<and> s' = s)"
  using assms by (auto simp: putIfMatch lookup_put split: if_splits)

lemma deleteIfMatch_cases:
  assumes "deleteIfMatch k t s = (ok, s')"
  shows "(ok \<and> (\<exists>old. lookup s k = Some old \<and> tag old = t) \<and> lookup s' k = None) \<or> (\<not> ok \<and> s' = s)"
  using assms by (auto simp: deleteIfMatch lookup_delete split: if_splits)

lemma putIfAbsent_cases:
  assumes "putIfAbsent k v s = (ok, s')"
  shows "(ok \<and> lookup s k = None \<and> lookup s' k = Some v) \<or> (\<not> ok \<and> s' = s)"
  using assms by (auto simp: putIfAbsent lookup_put split: if_splits)

end

interpretation memory: artifact_store getJson putJson deleteJson putJsonIfAbsent
  "putJsonIfMatch codec" "deleteJsonIfMatch codec" "etag codec" for codec
  by unfold_locales (auto simp: getJson_def putJson_def deleteJson_def putJsonIfAbsent_def
      putJsonIfMatch_def deleteJsonIfMatch_def update_conv' delete_conv' split: option.split)

lemma getJsonWithMetadata_lookup:
  "getJsonWithMetadata codec s key = map_option (\<lambda>v. (v, Some (etag codec v))) (getJson s key)"
  by (simp add: getJsonWithMetadata_def getJson_def split: option.split)

lemma listKeys_iff: "key \<in> set (listKeys s prefix) \<longleftrightarrow> startsWith key prefix \<and> getJson s key \<noteq> None"
proof -
  have "map_of xs key \<noteq> None \<longleftrightarrow> key \<in> fst ` set xs" for xs :: "(string \<times> document) list"
    by (simp add: map_of_eq_None_iff)
  then show ?thesis by (auto simp: listKeys_def getJson_def)
qed

end
