(* ===== verification/Publisher_Lock.thy ===== *)
theory Publisher_Lock
  imports Artifact_Store
begin

text \<open>
  The lock that keeps publisher runs apart (\<open>acquirePublisherLock\<close>, \<open>readPublisherLock\<close> and
  \<open>releasePublisherLock\<close> in \<open>apps/metrics-publisher/src/publisher.ts\<close>). A run is a sequence of
  store operations; between two of them other runs make theirs. Each operation is one step.
\<close>

section \<open>A run\<close>

definition PUBLISHER_LOCK_KEY :: string where "PUBLISHER_LOCK_KEY = ''v2/publisher.lock''"

definition buildPublisherLock :: "string \<Rightarrow> operation \<Rightarrow> int \<Rightarrow> int \<Rightarrow> publisher_lock" where
  "buildPublisherLock runId operation now ttlMs = \<lparr> pl_runId = runId, pl_startedAt = now,
     pl_expiresAt = now + ttlMs, pl_operation = operation \<rparr>"

text \<open>A document at the lock key that is no lock cannot be read as one; only locks are written there.\<close>

fun asLock :: "document \<Rightarrow> publisher_lock option" where
  "asLock (Lock_Doc l) = Some l"
| "asLock _ = None"

definition readPublisherLock :: "codec \<Rightarrow> memory_store \<Rightarrow> (publisher_lock \<times> string option) option" where
  "readPublisherLock codec s = (case getJsonWithMetadata codec s PUBLISHER_LOCK_KEY of None \<Rightarrow> None
     | Some (value, tag) \<Rightarrow> map_option (\<lambda>l. (l, tag)) (asLock value))"

text \<open>Where a run stands: before its first write, after a refused one, after reading an expired
  lock (with its tag), after replacing it, refused, holding the lock, releasing it (with the tag
  of its own lock), and done.\<close>

datatype lock_phase =
  Acquiring | Contended | Expired "string option" | Verifying | Refused | Held
| Releasing "string option" | Released

text \<open>One store operation of a run whose lock is \<open>lock\<close> and whose clock says \<open>now\<close>.\<close>

fun lockStep :: "codec \<Rightarrow> publisher_lock \<Rightarrow> int \<Rightarrow> lock_phase \<Rightarrow> memory_store \<Rightarrow> lock_phase \<times> memory_store" where
  "lockStep codec lock now Acquiring s =
     (case putJsonIfAbsent PUBLISHER_LOCK_KEY (Lock_Doc lock) s of
        (acquired, s') \<Rightarrow> (if acquired then Held else Contended, s'))"
| "lockStep codec lock now Contended s = (case readPublisherLock codec s of
     None \<Rightarrow> (Refused, s)
   | Some (existing, tag) \<Rightarrow> (if pl_expiresAt existing > now then Refused else Expired tag, s))"
| "lockStep codec lock now (Expired None) s =
     (case putJsonIfAbsent PUBLISHER_LOCK_KEY (Lock_Doc lock) s of
        (replaced, s') \<Rightarrow> (if replaced then Verifying else Refused, s'))"
| "lockStep codec lock now (Expired (Some tag)) s =
     (case putJsonIfMatch codec PUBLISHER_LOCK_KEY (Lock_Doc lock) tag s of
        (replaced, s') \<Rightarrow> (if replaced then Verifying else Refused, s'))"
| "lockStep codec lock now Verifying s = (case readPublisherLock codec s of
     None \<Rightarrow> (Refused, s)
   | Some (verified, _) \<Rightarrow> (if pl_runId verified = pl_runId lock then Held else Refused, s))"
| "lockStep codec lock now Held s = (case readPublisherLock codec s of
     None \<Rightarrow> (Released, s)
   | Some (existing, tag) \<Rightarrow> (if pl_runId existing = pl_runId lock then Releasing tag else Released, s))"
| "lockStep codec lock now (Releasing (Some tag)) s =
     (Released, snd (deleteJsonIfMatch codec PUBLISHER_LOCK_KEY tag s))"
| "lockStep codec lock now (Releasing None) s = (Released, deleteJson PUBLISHER_LOCK_KEY s)"
| "lockStep codec lock now Refused s = (Refused, s)"
| "lockStep codec lock now Released s = (Released, s)"

text \<open>Acquiring without interference: the steps until the run holds the lock or is refused.\<close>

definition acquirePublisherLock :: "codec \<Rightarrow> publisher_lock \<Rightarrow> int \<Rightarrow> memory_store \<Rightarrow> bool \<times> memory_store" where
  "acquirePublisherLock codec lock now s =
     (let run = (\<lambda>(phase, s). if phase = Held then (phase, s) else lockStep codec lock now phase s);
          (phase, s') = (run ^^ 4) (Acquiring, s) in (phase = Held, s'))"

definition releasePublisherLock :: "codec \<Rightarrow> publisher_lock \<Rightarrow> memory_store \<Rightarrow> memory_store" where
  "releasePublisherLock codec lock s = (case lockStep codec lock 0 Held s of
     (phase, s') \<Rightarrow> snd (lockStep codec lock 0 phase s'))"

section \<open>All runs\<close>

text \<open>Runs are told apart by their random ids. A run takes its clock when it starts; the clock of
  the world only moves forward and other writes of the runs never touch the lock.\<close>

record lock_run =
  lr_operation :: operation
  lr_now :: int
  lr_ttl :: int
  lr_phase :: lock_phase

definition lockOf :: "string \<Rightarrow> lock_run \<Rightarrow> publisher_lock" where
  "lockOf runId r = buildPublisherLock runId (lr_operation r) (lr_now r) (lr_ttl r)"

record lock_system =
  sy_time :: int
  sy_store :: memory_store
  sy_runs :: "string \<rightharpoonup> lock_run"

inductive lock_step :: "codec \<Rightarrow> lock_system \<Rightarrow> lock_system \<Rightarrow> bool" for codec where
  tick: "sy_time \<sigma> \<le> t \<Longrightarrow> lock_step codec \<sigma> (\<sigma> \<lparr> sy_time := t \<rparr>)"
| begin_run: "sy_runs \<sigma> runId = None \<Longrightarrow> now \<le> sy_time \<sigma> \<Longrightarrow> lock_step codec \<sigma>
    (\<sigma> \<lparr> sy_runs := (sy_runs \<sigma>)(runId \<mapsto> \<lparr> lr_operation = operation, lr_now = now, lr_ttl = ttl,
      lr_phase = Acquiring \<rparr>) \<rparr>)"
| run_step: "sy_runs \<sigma> runId = Some r \<Longrightarrow>
    lockStep codec (lockOf runId r) (lr_now r) (lr_phase r) (sy_store \<sigma>) = (phase, s') \<Longrightarrow>
    lock_step codec \<sigma> (\<sigma> \<lparr> sy_store := s', sy_runs := (sy_runs \<sigma>)(runId \<mapsto> r \<lparr> lr_phase := phase \<rparr>) \<rparr>)"
| other_write: "key \<noteq> PUBLISHER_LOCK_KEY \<Longrightarrow>
    lock_step codec \<sigma> (\<sigma> \<lparr> sy_store := putJson key value (sy_store \<sigma>) \<rparr>)"
| other_delete: "key \<noteq> PUBLISHER_LOCK_KEY \<Longrightarrow>
    lock_step codec \<sigma> (\<sigma> \<lparr> sy_store := deleteJson key (sy_store \<sigma>) \<rparr>)"

definition lock_start :: "lock_system \<Rightarrow> bool" where
  "lock_start \<sigma> \<longleftrightarrow> getJson (sy_store \<sigma>) PUBLISHER_LOCK_KEY = None \<and> sy_runs \<sigma> = Map.empty"

inductive lock_reachable :: "codec \<Rightarrow> lock_system \<Rightarrow> bool" for codec where
  reach_start: "lock_start \<sigma> \<Longrightarrow> lock_reachable codec \<sigma>"
| reach_step: "lock_reachable codec \<sigma> \<Longrightarrow> lock_step codec \<sigma> \<sigma>' \<Longrightarrow> lock_reachable codec \<sigma>'"

inductive_cases lock_stepE: "lock_step codec \<sigma> \<sigma>'"

section \<open>Exclusion\<close>

text \<open>Different locks have different tags.\<close>

definition lock_tags_differ :: "codec \<Rightarrow> bool" where
  "lock_tags_differ codec \<longleftrightarrow> (\<forall>l l'. etag codec (Lock_Doc l) = etag codec (Lock_Doc l') \<longrightarrow> l = l')"

definition storedLock :: "lock_system \<Rightarrow> document option" where
  "storedLock \<sigma> = getJson (sy_store \<sigma>) PUBLISHER_LOCK_KEY"

text \<open>A run that holds the lock, or has replaced an expired one, has its lock in the store unless
  the lock has expired.\<close>

fun phaseOk :: "codec \<Rightarrow> lock_system \<Rightarrow> string \<Rightarrow> lock_run \<Rightarrow> lock_phase \<Rightarrow> bool" where
  "phaseOk codec \<sigma> runId r Verifying \<longleftrightarrow> storedLock \<sigma> = Some (Lock_Doc (lockOf runId r)) \<or> lr_now r + lr_ttl r \<le> sy_time \<sigma>"
| "phaseOk codec \<sigma> runId r Held \<longleftrightarrow> storedLock \<sigma> = Some (Lock_Doc (lockOf runId r)) \<or> lr_now r + lr_ttl r \<le> sy_time \<sigma>"
| "phaseOk codec \<sigma> runId r (Expired tag) \<longleftrightarrow>
     (\<exists>l. tag = Some (etag codec (Lock_Doc l)) \<and> pl_expiresAt l \<le> sy_time \<sigma>)"
| "phaseOk codec \<sigma> runId r (Releasing tag) \<longleftrightarrow> tag = Some (etag codec (Lock_Doc (lockOf runId r)))"
| "phaseOk codec \<sigma> runId r _ \<longleftrightarrow> True"

definition lock_inv :: "codec \<Rightarrow> lock_system \<Rightarrow> bool" where
  "lock_inv codec \<sigma> \<longleftrightarrow>
     (\<forall>d. storedLock \<sigma> = Some d \<longrightarrow> (\<exists>runId r. sy_runs \<sigma> runId = Some r \<and> d = Lock_Doc (lockOf runId r)))
     \<and> (\<forall>runId r. sy_runs \<sigma> runId = Some r \<longrightarrow> lr_now r \<le> sy_time \<sigma> \<and> phaseOk codec \<sigma> runId r (lr_phase r))"

lemma lockOf_phase [simp]: "lockOf runId (r \<lparr> lr_phase := p \<rparr>) = lockOf runId r"
  by (simp add: lockOf_def)

lemma lockOf_fields [simp]: "pl_runId (lockOf runId r) = runId"
  "pl_expiresAt (lockOf runId r) = lr_now r + lr_ttl r"
  by (simp_all add: lockOf_def buildPublisherLock_def)

lemma lockOf_inject: "lockOf i r = lockOf j q \<Longrightarrow> i = j"
  by (metis lockOf_fields(1))

lemma phaseOk_phase [simp]: "phaseOk codec \<sigma> i (r \<lparr> lr_phase := q \<rparr>) p = phaseOk codec \<sigma> i r p"
  by (cases p) simp_all

text \<open>Time passing and writes elsewhere keep what a phase promises.\<close>

lemma phaseOk_later:
  assumes "phaseOk codec \<sigma> i r p" "storedLock \<sigma>' = storedLock \<sigma>" "sy_time \<sigma> \<le> sy_time \<sigma>'"
  shows "phaseOk codec \<sigma>' i r p"
proof (cases p)
  case (Expired tag)
  with assms show ?thesis by fastforce
qed (use assms in auto)

text \<open>When the lock changes hands, the old holder's lock has expired.\<close>

lemma phaseOk_replaced:
  assumes "phaseOk codec \<sigma> i r p" "sy_time \<sigma>' = sy_time \<sigma>"
    "storedLock \<sigma> = Some (Lock_Doc (lockOf i r)) \<Longrightarrow> lr_now r + lr_ttl r \<le> sy_time \<sigma>"
  shows "phaseOk codec \<sigma>' i r p"
  using assms by (cases p) auto

lemma readPublisherLock_lookup: "readPublisherLock codec s =
    Option.bind (getJson s PUBLISHER_LOCK_KEY) (\<lambda>d. map_option (\<lambda>l. (l, Some (etag codec d))) (asLock d))"
  by (simp add: readPublisherLock_def getJsonWithMetadata_lookup split: option.split)

text \<open>What a step of a run does to the lock: nothing, or it puts its own lock where there was none
  or an expired one, or it takes its own lock away.\<close>

definition lockChange :: "lock_system \<Rightarrow> string \<Rightarrow> lock_run \<Rightarrow> memory_store \<Rightarrow> bool" where
  "lockChange \<sigma> i r s' \<longleftrightarrow>
     getJson s' PUBLISHER_LOCK_KEY = storedLock \<sigma>
   \<or> (getJson s' PUBLISHER_LOCK_KEY = Some (Lock_Doc (lockOf i r))
      \<and> (\<forall>j q. sy_runs \<sigma> j = Some q \<longrightarrow> storedLock \<sigma> = Some (Lock_Doc (lockOf j q)) \<longrightarrow>
            lr_now q + lr_ttl q \<le> sy_time \<sigma>))
   \<or> (getJson s' PUBLISHER_LOCK_KEY = None \<and> storedLock \<sigma> = Some (Lock_Doc (lockOf i r)))"

lemma step_changes:
  assumes "lock_tags_differ codec" "lock_inv codec \<sigma>" "sy_runs \<sigma> i = Some r"
    "lockStep codec (lockOf i r) (lr_now r) (lr_phase r) (sy_store \<sigma>) = (phase, s')"
  shows "lockChange \<sigma> i r s'"
proof -
  let ?L = "Lock_Doc (lockOf i r)" and ?K = PUBLISHER_LOCK_KEY
  have ok: "phaseOk codec \<sigma> i r (lr_phase r)" using assms(2,3) by (auto simp: lock_inv_def)
  have owned: "\<exists>j q. sy_runs \<sigma> j = Some q \<and> d = Lock_Doc (lockOf j q)" if "storedLock \<sigma> = Some d" for d
    using assms(2) that by (auto simp: lock_inv_def)
  show ?thesis
  proof (cases "lr_phase r")
    case Acquiring
    then show ?thesis
      using assms(4) memory.putIfAbsent_cases [of ?K ?L "sy_store \<sigma>"]
      by (auto simp: lockChange_def storedLock_def split: prod.splits)
  next
    case (Expired tag)
    with ok obtain l where l: "tag = Some (etag codec (Lock_Doc l))" "pl_expiresAt l \<le> sy_time \<sigma>" by auto
    then obtain won where "putJsonIfMatch codec ?K ?L (etag codec (Lock_Doc l)) (sy_store \<sigma>) = (won, s')"
      using assms(4) Expired by (auto split: prod.splits)
    from memory.putIfMatch_cases [OF this] consider "s' = sy_store \<sigma>"
      | old where "storedLock \<sigma> = Some old" "etag codec old = etag codec (Lock_Doc l)" "getJson s' ?K = Some ?L"
      by (auto simp: storedLock_def)
    then show ?thesis
    proof cases
      case 2
      have "lr_now q + lr_ttl q \<le> sy_time \<sigma>" if "old = Lock_Doc (lockOf j q)" for j q
      proof -
        have "lockOf j q = l" using 2(2) that assms(1) by (simp add: lock_tags_differ_def)
        with l(2) show ?thesis by auto
      qed
      with 2 show ?thesis by (auto simp: lockChange_def)
    qed (simp add: lockChange_def storedLock_def)
  next
    case (Releasing tag)
    with ok have tag: "tag = Some (etag codec ?L)" by simp
    then obtain won where "deleteJsonIfMatch codec ?K (etag codec ?L) (sy_store \<sigma>) = (won, s')"
      using assms(4) Releasing by (auto split: prod.splits) (metis prod.collapse)
    from memory.deleteIfMatch_cases [OF this] consider "s' = sy_store \<sigma>"
      | old where "storedLock \<sigma> = Some old" "etag codec old = etag codec ?L" "getJson s' ?K = None"
      by (auto simp: storedLock_def)
    then show ?thesis
    proof cases
      case 2
      with owned obtain j q where "old = Lock_Doc (lockOf j q)" by blast
      with 2 assms(1) show ?thesis by (auto simp: lockChange_def lock_tags_differ_def)
    qed (simp add: lockChange_def storedLock_def)
  qed (use assms(4) in \<open>auto simp: lockChange_def storedLock_def split: option.splits\<close>)
qed

text \<open>The phase a run moves to.\<close>

lemma step_phase:
  assumes "lock_inv codec \<sigma>" "sy_runs \<sigma> i = Some r"
    "lockStep codec (lockOf i r) (lr_now r) (lr_phase r) (sy_store \<sigma>) = (phase, s')"
    "sy_time \<sigma>' = sy_time \<sigma>" "sy_store \<sigma>' = s'"
  shows "phaseOk codec \<sigma>' i r phase"
proof -
  let ?L = "Lock_Doc (lockOf i r)" and ?K = PUBLISHER_LOCK_KEY
  have ok: "phaseOk codec \<sigma> i r (lr_phase r)" and clock: "lr_now r \<le> sy_time \<sigma>"
    using assms(1,2) by (auto simp: lock_inv_def)
  have owned: "\<exists>j q. sy_runs \<sigma> j = Some q \<and> d = Lock_Doc (lockOf j q)" if "storedLock \<sigma> = Some d" for d
    using assms(1) that by (auto simp: lock_inv_def)
  have mine: "d = ?L" if "storedLock \<sigma> = Some d" "asLock d = Some l" "pl_runId l = i" for d l
  proof -
    from owned [OF that(1)] obtain j q where "sy_runs \<sigma> j = Some q" "d = Lock_Doc (lockOf j q)" by blast
    with that assms(2) show ?thesis by auto
  qed
  have read: "readPublisherLock codec (sy_store \<sigma>) = Some (l, tag) \<Longrightarrow>
      \<exists>d. storedLock \<sigma> = Some d \<and> asLock d = Some l \<and> d = Lock_Doc l \<and> tag = Some (etag codec d)" for l tag
    using owned by (auto simp: readPublisherLock_lookup storedLock_def bind_eq_Some_conv)
  show ?thesis
  proof (cases "lr_phase r")
    case Acquiring
    then show ?thesis
      using assms(3,5) memory.putIfAbsent_cases [of ?K ?L "sy_store \<sigma>"]
      by (auto simp: storedLock_def split: prod.splits if_splits)
  next
    case Contended
    then show ?thesis
      using assms(3,4) clock read by (fastforce split: option.splits if_splits)
  next
    case (Expired tag)
    with ok obtain t where tag: "tag = Some t" by auto
    then show ?thesis
      using assms(3,5) Expired memory.putIfMatch_cases [of codec ?K ?L t "sy_store \<sigma>"]
      by (auto simp: storedLock_def split: prod.splits if_splits)
  next
    case Verifying
    then show ?thesis
      using assms(3-5) read mine by (fastforce simp: storedLock_def split: option.splits if_splits)
  next
    case Held
    then show ?thesis
      using assms(3-5) read mine by (fastforce simp: storedLock_def split: option.splits if_splits)
  next
    case (Releasing tag)
    with ok assms(3) show ?thesis by (auto split: prod.splits)
  qed (use assms(3) in auto)
qed

lemma lock_inv_later:
  assumes "lock_inv codec \<sigma>" "sy_runs \<sigma>' = sy_runs \<sigma>" "storedLock \<sigma>' = storedLock \<sigma>" "sy_time \<sigma> \<le> sy_time \<sigma>'"
  shows "lock_inv codec \<sigma>'"
  unfolding lock_inv_def
proof (intro conjI allI impI)
  fix d assume "storedLock \<sigma>' = Some d"
  then show "\<exists>i r. sy_runs \<sigma>' i = Some r \<and> d = Lock_Doc (lockOf i r)"
    using assms(1-3) by (simp add: lock_inv_def)
next
  fix i r assume "sy_runs \<sigma>' i = Some r"
  with assms(1,2) have "lr_now r \<le> sy_time \<sigma>" "phaseOk codec \<sigma> i r (lr_phase r)" by (auto simp: lock_inv_def)
  with assms(3,4) show "lr_now r \<le> sy_time \<sigma>'" "phaseOk codec \<sigma>' i r (lr_phase r)"
    using phaseOk_later by auto
qed

lemma lock_inv_step:
  assumes "lock_tags_differ codec" "lock_inv codec \<sigma>" "lock_step codec \<sigma> \<sigma>'"
  shows "lock_inv codec \<sigma>'"
  using assms(3)
proof cases
  case (run_step i r phase s')
  have change: "lockChange \<sigma> i r s'" by (rule step_changes [OF assms(1,2) run_step(2,3)])
  have stored: "storedLock \<sigma>' = getJson s' PUBLISHER_LOCK_KEY" by (simp add: run_step(1) storedLock_def)
  have own: "phaseOk codec \<sigma>' i r phase"
    by (rule step_phase [OF assms(2) run_step(2,3)]) (simp_all add: run_step(1))
  have others: "phaseOk codec \<sigma>' j q (lr_phase q)" if q: "sy_runs \<sigma> j = Some q" "j \<noteq> i" for j q
  proof -
    have ok: "phaseOk codec \<sigma> j q (lr_phase q)" using assms(2) q by (auto simp: lock_inv_def)
    show ?thesis
      using change unfolding lockChange_def
    proof (elim disjE conjE)
      assume "getJson s' PUBLISHER_LOCK_KEY = storedLock \<sigma>"
      then have "storedLock \<sigma>' = storedLock \<sigma>" by (simp only: stored)
      then show ?thesis by (rule phaseOk_later [OF ok]) (simp add: run_step(1))
    next
      assume "\<forall>j q. sy_runs \<sigma> j = Some q \<longrightarrow> storedLock \<sigma> = Some (Lock_Doc (lockOf j q)) \<longrightarrow>
          lr_now q + lr_ttl q \<le> sy_time \<sigma>"
      with q show ?thesis by (intro phaseOk_replaced [OF ok]) (simp_all add: run_step(1))
    next
      assume "storedLock \<sigma> = Some (Lock_Doc (lockOf i r))"
      with q(2) show ?thesis
        by (intro phaseOk_replaced [OF ok]) (auto simp: run_step(1) dest: lockOf_inject)
    qed
  qed
  have "\<exists>j q. sy_runs \<sigma>' j = Some q \<and> d = Lock_Doc (lockOf j q)" if "storedLock \<sigma>' = Some d" for d
  proof -
    have "d = Lock_Doc (lockOf i r) \<or> storedLock \<sigma> = Some d"
      using change that by (auto simp: lockChange_def stored)
    then show ?thesis
    proof
      assume "d = Lock_Doc (lockOf i r)"
      then show ?thesis by (intro exI [of _ i]) (simp add: run_step(1))
    next
      assume "storedLock \<sigma> = Some d"
      with assms(2) obtain j q where "sy_runs \<sigma> j = Some q" "d = Lock_Doc (lockOf j q)"
        by (auto simp: lock_inv_def)
      then show ?thesis using run_step(2) by (intro exI [of _ j]) (cases "j = i"; simp add: run_step(1))
    qed
  qed
  then show ?thesis
    using own others assms(2) run_step(2) by (auto simp: lock_inv_def run_step(1))
next
  case (begin_run i now operation ttl)
  have later: "phaseOk codec \<sigma>' j q p" if "phaseOk codec \<sigma> j q p" for j q p
    using that by (rule phaseOk_later) (simp_all add: begin_run(1) storedLock_def)
  have kept: "sy_runs \<sigma> j = Some q \<Longrightarrow> sy_runs \<sigma>' j = Some q" for j q using begin_run by auto
  have "lr_now q \<le> sy_time \<sigma>' \<and> phaseOk codec \<sigma>' j q (lr_phase q)" if "sy_runs \<sigma>' j = Some q" for j q
  proof (cases "j = i")
    case True
    with that begin_run show ?thesis by auto
  next
    case False
    with that begin_run have "sy_runs \<sigma> j = Some q" by simp
    with assms(2) later show ?thesis by (auto simp: lock_inv_def begin_run(1))
  qed
  moreover have "storedLock \<sigma>' = storedLock \<sigma>" by (simp add: begin_run(1) storedLock_def)
  ultimately show ?thesis using assms(2) kept unfolding lock_inv_def by metis
next
  case (tick t)
  then show ?thesis by (intro lock_inv_later [OF assms(2)]) (simp_all add: storedLock_def)
next
  case (other_write k v)
  then show ?thesis by (intro lock_inv_later [OF assms(2)]) (simp_all add: storedLock_def memory.lookup_put)
next
  case (other_delete k)
  then show ?thesis by (intro lock_inv_later [OF assms(2)]) (simp_all add: storedLock_def memory.lookup_delete)
qed

lemma lock_reachable_inv:
  assumes "lock_tags_differ codec" "lock_reachable codec \<sigma>"
  shows "lock_inv codec \<sigma>"
  using assms(2)
proof (induction rule: lock_reachable.induct)
  case (reach_start \<sigma>)
  then show ?case by (simp add: lock_inv_def lock_start_def storedLock_def)
next
  case (reach_step \<sigma> \<sigma>')
  from lock_inv_step [OF assms(1) reach_step.IH reach_step.hyps(2)] show ?case .
qed

text \<open>
  C23: a lock never blocks the publisher for good. A run alone with the store takes the lock exactly
  when there is none or the stored one has expired; it then holds its own lock, and releasing it
  leaves none. A run that meets an unexpired lock leaves the store as it is.
\<close>

theorem lock_recovers:
  assumes "getJson s PUBLISHER_LOCK_KEY = map_option Lock_Doc stored" "acquirePublisherLock codec lock now s = (ok, s1)"
  shows "(ok \<longleftrightarrow> (case stored of None \<Rightarrow> True | Some l \<Rightarrow> pl_expiresAt l \<le> now))
    \<and> (if ok then getJson s1 PUBLISHER_LOCK_KEY = Some (Lock_Doc lock)
          \<and> getJson (releasePublisherLock codec lock s1) PUBLISHER_LOCK_KEY = None
        else s1 = s)"
proof -
  have release: "getJson (releasePublisherLock codec lock t) PUBLISHER_LOCK_KEY = None"
    if "getJson t PUBLISHER_LOCK_KEY = Some (Lock_Doc lock)" for t
    using that by (simp add: releasePublisherLock_def readPublisherLock_def getJsonWithMetadata_lookup
        memory.deleteIfMatch memory.lookup_delete)
  from assms(2) show ?thesis
    by (cases stored) (use assms(1) release in \<open>auto simp: acquirePublisherLock_def eval_nat_numeral
        memory.putIfAbsent memory.putIfMatch memory.lookup_put readPublisherLock_def getJsonWithMetadata_lookup
        split: if_splits\<close>)
qed

text \<open>
  C4: however the store operations of any number of publisher runs interleave, two of them
  never hold an unexpired lock at the same time. This needs no more of the store than that its
  tags tell different locks apart. (A run whose lock has expired is not stopped.)
\<close>

theorem publisher_lock_exclusive:
  assumes "\<And>l l'. etag codec (Lock_Doc l) = etag codec (Lock_Doc l') \<Longrightarrow> l = l'"
    and "lock_reachable codec \<sigma>"
    and "sy_runs \<sigma> i = Some r" "lr_phase r = Held" "sy_time \<sigma> < lr_now r + lr_ttl r"
    and "sy_runs \<sigma> j = Some q" "lr_phase q = Held" "sy_time \<sigma> < lr_now q + lr_ttl q"
  shows "i = j"
proof -
  have "lock_inv codec \<sigma>" using assms(1,2) by (intro lock_reachable_inv) (auto simp: lock_tags_differ_def)
  then have "phaseOk codec \<sigma> i r Held" "phaseOk codec \<sigma> j q Held"
    using assms(3,4,6,7) by (metis lock_inv_def)+
  then show ?thesis using assms(5,8) lockOf_inject by auto
qed

section \<open>A system with one holder\<close>

definition int_str :: "int \<Rightarrow> string" where
  "int_str z = (if z < 0 then CHR ''-'' else CHR ''+'') # nat_str (nat \<bar>z\<bar>)"

definition lock_str :: "publisher_lock \<Rightarrow> string" where
  "lock_str l = (case pl_operation l of Initial_Backfill \<Rightarrow> CHR ''i'' | Incremental_Refresh \<Rightarrow> CHR ''r'')
     # int_str (pl_startedAt l) @ CHR ''/'' # int_str (pl_expiresAt l) @ CHR ''/'' # pl_runId l"

definition sample_codec :: codec where
  "sample_codec = \<lparr> cd_stringify = (\<lambda>d. case d of Lock_Doc l \<Rightarrow> lock_str l | _ \<Rightarrow> ''''),
     cd_sha256 = (\<lambda>s. s), cd_byteLength = length \<rparr>"

lemma int_str_inject: "int_str x = int_str y \<Longrightarrow> x = y"
  by (auto simp: int_str_def split: if_splits)

lemma slash_int_str: "CHR ''/'' \<notin> set (int_str z)"
  by (simp add: int_str_def)

lemma sample_tags: "etag sample_codec (Lock_Doc l) = etag sample_codec (Lock_Doc l') \<Longrightarrow> l = l'"
proof -
  assume "etag sample_codec (Lock_Doc l) = etag sample_codec (Lock_Doc l')"
  then have eq: "lock_str l = lock_str l'" by (simp add: etag_def sample_codec_def serializeJson_def)
  then have "pl_operation l = pl_operation l'" by (auto simp: lock_str_def split: operation.splits)
  moreover from eq have tails: "int_str (pl_startedAt l) @ CHR ''/'' # int_str (pl_expiresAt l) @ CHR ''/'' # pl_runId l =
      int_str (pl_startedAt l') @ CHR ''/'' # int_str (pl_expiresAt l') @ CHR ''/'' # pl_runId l'"
    by (simp add: lock_str_def)
  note first = split_at_separator [OF slash_int_str slash_int_str tails]
  note second = split_at_separator [OF slash_int_str slash_int_str first [THEN conjunct2]]
  have "pl_startedAt l = pl_startedAt l'" "pl_expiresAt l = pl_expiresAt l'" "pl_runId l = pl_runId l'"
    using first second int_str_inject by blast+
  ultimately show "l = l'" by (cases l; cases l') simp
qed

definition one_run :: "lock_phase \<Rightarrow> lock_run" where
  "one_run phase = \<lparr> lr_operation = Initial_Backfill, lr_now = 0, lr_ttl = 1000, lr_phase = phase \<rparr>"

definition one_holder :: lock_system where
  "one_holder = \<lparr> sy_time = 0, sy_store = putJson PUBLISHER_LOCK_KEY (Lock_Doc (lockOf ''a'' (one_run Held)))
     empty_memory, sy_runs = [''a'' \<mapsto> one_run Held] \<rparr>"

lemma one_holder_reachable: "lock_reachable sample_codec one_holder"
proof -
  let ?s = "\<lparr> sy_time = 0, sy_store = empty_memory, sy_runs = Map.empty \<rparr>"
  let ?s1 = "?s \<lparr> sy_runs := [''a'' \<mapsto> one_run Acquiring] \<rparr>"
  have "lock_reachable sample_codec ?s"
    by (rule reach_start) (simp add: lock_start_def empty_memory_def getJson_def)
  moreover have "lock_step sample_codec ?s ?s1"
    using begin_run [of ?s "''a''" 0 sample_codec Initial_Backfill 1000] by (simp add: one_run_def)
  ultimately have "lock_reachable sample_codec ?s1" by (rule reach_step)
  moreover have "lock_step sample_codec ?s1 one_holder"
    using run_step [of ?s1 "''a''" "one_run Acquiring" sample_codec Held "sy_store one_holder"]
    by (simp add: one_holder_def one_run_def putJsonIfAbsent_def empty_memory_def lockOf_def)
  ultimately show ?thesis by (rule reach_step)
qed

theorem publisher_lock_exclusive_witness:
  "lock_reachable sample_codec one_holder
   \<and> {j. \<exists>q. sy_runs one_holder j = Some q \<and> lr_phase q = Held
        \<and> sy_time one_holder < lr_now q + lr_ttl q} = {''a''}"
proof -
  have run: "sy_runs one_holder ''a'' = Some (one_run Held)" "lr_phase (one_run Held) = Held"
    "sy_time one_holder < lr_now (one_run Held) + lr_ttl (one_run Held)"
    by (simp_all add: one_holder_def one_run_def)
  show ?thesis
    using publisher_lock_exclusive [OF sample_tags one_holder_reachable _ _ _ run] one_holder_reachable run
    by blast
qed

theorem lock_recovers_witness:
  "fst (acquirePublisherLock sample_codec (lockOf ''b'' (one_run Acquiring)) 1000 (sy_store one_holder))
   \<and> \<not> fst (acquirePublisherLock sample_codec (lockOf ''b'' (one_run Acquiring)) 999 (sy_store one_holder))"
proof -
  have s: "getJson (sy_store one_holder) PUBLISHER_LOCK_KEY = map_option Lock_Doc (Some (lockOf ''a'' (one_run Held)))"
    by (simp add: one_holder_def memory.lookup_put)
  show ?thesis
    using lock_recovers [OF s prod.collapse [symmetric], of sample_codec "lockOf ''b'' (one_run Acquiring)" 1000]
      lock_recovers [OF s prod.collapse [symmetric], of sample_codec "lockOf ''b'' (one_run Acquiring)" 999]
    by (simp add: lockOf_def buildPublisherLock_def one_run_def)
qed

end
