(* ===== verification/Publisher.thy ===== *)
theory Publisher
  imports Publisher_Lock
begin

text \<open>
  A publisher run (\<open>publishMetricsArtifacts\<close> in \<open>apps/metrics-publisher/src/publisher.ts\<close>): under
  the lock it reads a range of rows from the metrics source, writes one artifact per month and
  kind, then the manifest, and last deletes what older deployments left. The metrics source is a
  parameter; the store is the in-memory one.
\<close>

section \<open>Dates as strings\<close>

text \<open>\<open>a < b\<close> on strings compares their code units.\<close>

definition strLess :: "string \<Rightarrow> string \<Rightarrow> bool" where
  "strLess a b \<longleftrightarrow> map (of_char :: char \<Rightarrow> nat) a < map of_char b"

definition maxDate :: "string \<Rightarrow> string \<Rightarrow> string" where
  "maxDate a b = (if strLess b a then a else b)"

definition minDate :: "string \<Rightarrow> string \<Rightarrow> string" where
  "minDate a b = (if strLess a b then a else b)"

text \<open>\<open>Date.parse\<close> of a date at midnight: like \<open>parseDate\<close> but a day past the end of its month
  rolls over. What is no date at all makes the later conversion to text throw.\<close>

definition lenientDate :: "string \<Rightarrow> string + int" where
  "lenientDate date =
     (if \<not> date_pattern date then Inl ''RangeError''
      else (case date_fields date of (y, m, d) \<Rightarrow>
        if m = 0 \<or> 12 < m \<or> d = 0 \<or> 31 < d then Inl ''RangeError''
        else Inr (days_of_civil (int y) (m - 1) d)))"

definition addDays :: "string \<Rightarrow> int \<Rightarrow> string + string" where
  "addDays date days = map_sum id (\<lambda>n. formatDate (n + days)) (lenientDate date)"

definition firstDayOfMonth :: "string \<Rightarrow> string" where
  "firstDayOfMonth date = take 7 date @ ''-01''"

definition firstDayOfPreviousMonth :: "string \<Rightarrow> string + string" where
  "firstDayOfPreviousMonth date =
     map_sum id (\<lambda>n. formatDate (monthStart (utcMonth n - 1))) (lenientDate date)"

text \<open>\<open>toISOString\<close> of a time in milliseconds.\<close>

definition DAY_MS :: int where "DAY_MS = 24 * 60 * 60 * 1000"

definition isoTimestamp :: "int \<Rightarrow> string" where
  "isoTimestamp ms = (case civil_of_days (ms div DAY_MS) of (y, m, d) \<Rightarrow>
     (let t = nat (ms mod DAY_MS) in iso_civil y m d @ ''T'' @ pad0 2 (nat_str (t div 3600000)) @ '':''
        @ pad0 2 (nat_str (t div 60000 mod 60)) @ '':'' @ pad0 2 (nat_str (t div 1000 mod 60)) @ ''.''
        @ pad0 3 (nat_str (t mod 1000)) @ ''Z''))"

definition isFreshForDeploymentHandover :: "string \<Rightarrow> int \<Rightarrow> string + bool" where
  "isFreshForDeploymentHandover latestDate now =
     map_sum id (\<lambda>latestAllowedLagDate. \<not> strLess latestDate latestAllowedLagDate)
       (addDays (formatDate (now div DAY_MS)) (- 1))"

section \<open>The metrics source\<close>

datatype completeness = Cross_Chain | All_Chains

datatype source_error = Not_Data_Ready | Source_Failure string

record metrics_bounds =
  mb_earliestDate :: string
  mb_latestDate :: string

record metrics_source =
  so_fetchBounds :: "completeness \<Rightarrow> source_error + metrics_bounds"
  so_fetchLatestIndexingProgress :: "string + indexing_progress"
  so_fetchDailyMetrics :: "date_range \<Rightarrow> string + daily_metric list"
  so_fetchTreasuryAssets :: "date_range \<Rightarrow> string + treasury_asset list"
  so_fetchOhmSupply :: "date_range \<Rightarrow> string + ohm_supply list"

section \<open>Inputs and results\<close>

record publish_input =
  pi_publicStartDate :: "string option"
  pi_deploymentId :: string
  pi_startDate :: "string option"
  pi_endDate :: "string option"
  pi_manifest :: "manifest option"
  pi_now :: int
  pi_lockTtlMs :: "int option"
  pi_runId :: string

datatype skip_reason = Lock_Held | Skipped_Not_Data_Ready

record publish_result =
  pb_deletedKeys :: "string list"
  pb_deploymentId :: string
  pb_indexingProgress :: "indexing_progress option"
  pb_manifestPublishedLast :: bool
  pb_range :: "date_range option"
  pb_skipReason :: "skip_reason option"
  pb_runId :: string
  pb_writtenKeys :: "string list"

definition SCHEMA_VERSION :: string where "SCHEMA_VERSION = ''1.0.0''"
definition DEFAULT_PUBLIC_START_DATE :: string where "DEFAULT_PUBLIC_START_DATE = ''2022-05-01''"
definition DEFAULT_LOCK_TTL_MS :: int where "DEFAULT_LOCK_TTL_MS = 12 * 60 * 60 * 1000"

definition SCHEMA_KEYS :: "string list" where
  "SCHEMA_KEYS = [''v2/schemas/manifest.schema.json'', ''v2/schemas/daily-metric.schema.json'',
     ''v2/schemas/treasury-asset.schema.json'', ''v2/schemas/ohm-supply.schema.json'']"

definition isIdChar :: "char \<Rightarrow> bool" where
  "isIdChar c \<longleftrightarrow> (let n = (of_char c :: nat) in (65 \<le> n \<and> n \<le> 90) \<or> (97 \<le> n \<and> n \<le> 122) \<or> is_digit c
     \<or> c \<in> {CHR ''.'', CHR ''_'', CHR ''-''})"

definition parseDeploymentId :: "string \<Rightarrow> string + string" where
  "parseDeploymentId value = (let trimmed = trim value in
     if trimmed = '''' then Inl ''INDEXER_DEPLOYMENT_ID is required.''
     else if \<not> list_all isIdChar trimmed
     then Inl ''INDEXER_DEPLOYMENT_ID may contain only letters, numbers, dots, underscores, and dashes.''
     else Inr trimmed)"

definition optionalEnv :: "(string \<rightharpoonup> string) \<Rightarrow> string \<Rightarrow> string option" where
  "optionalEnv env name = (case env name of None \<Rightarrow> None
     | Some raw \<Rightarrow> (let value = trim raw in if value = '''' then None else Some value))"

definition requiredEnv :: "(string \<rightharpoonup> string) \<Rightarrow> string \<Rightarrow> string + string" where
  "requiredEnv env name = (case env name of None \<Rightarrow> Inl (''Missing required environment variable '' @ name @ ''.'')
     | Some raw \<Rightarrow> (let value = trim raw in
         if value = '''' then Inl (''Missing required environment variable '' @ name @ ''.'') else Inr value))"

definition resolvePublisherDeploymentId :: "(string \<rightharpoonup> string) \<Rightarrow> string + string" where
  "resolvePublisherDeploymentId env = (case optionalEnv env ''INDEXER_DEPLOYMENT_ID'' of
     Some explicit \<Rightarrow> Inr explicit
   | None \<Rightarrow> (case optionalEnv env ''RAILWAY_GIT_COMMIT_SHA'' of
       Some sha \<Rightarrow> Inr sha
     | None \<Rightarrow> Inl ''Missing required environment variable INDEXER_DEPLOYMENT_ID or RAILWAY_GIT_COMMIT_SHA.''))"

section \<open>Keys\<close>

definition MANIFEST_KEY :: string where "MANIFEST_KEY = ''v2/manifest.json''"

datatype kind = Metrics_Kind | Treasury_Assets_Kind | Ohm_Supply_Kind

fun kindName :: "kind \<Rightarrow> string" where
  "kindName Metrics_Kind = ''metrics''"
| "kindName Treasury_Assets_Kind = ''treasury-assets''"
| "kindName Ohm_Supply_Kind = ''ohm-supply''"

definition KINDS :: "kind list" where
  "KINDS = [Metrics_Kind, Treasury_Assets_Kind, Ohm_Supply_Kind]"

definition deploymentPrefix :: "string \<Rightarrow> string" where
  "deploymentPrefix deploymentId = ''v2/deployments/'' @ deploymentId @ ''/''"

definition dataKey :: "string \<Rightarrow> kind \<Rightarrow> string \<Rightarrow> string" where
  "dataKey deploymentId kind month =
     deploymentPrefix deploymentId @ kindName kind @ ''/daily/'' @ month @ ''.json''"

definition deploymentHasPublishedArtifacts :: "manifest option \<Rightarrow> string \<Rightarrow> bool" where
  "deploymentHasPublishedArtifacts manifest deploymentId = (case manifest of None \<Rightarrow> False
     | Some m \<Rightarrow> list_ex (\<lambda>(key, _). list_ex (\<lambda>k. startsWith key
         (deploymentPrefix deploymentId @ kindName k @ ''/daily/'')) KINDS) (mf_artifacts m))"

definition pruneHistoricalDeploymentArtifacts :: "(string \<times> artifact_entry) list \<Rightarrow> string \<Rightarrow>
    (string \<times> artifact_entry) list" where
  "pruneHistoricalDeploymentArtifacts artifacts currentDeploymentId =
     filter (\<lambda>(key, _). \<not> startsWith key ''v2/deployments/''
       \<or> startsWith key (deploymentPrefix currentDeploymentId)) artifacts"

definition monthPattern :: "string \<Rightarrow> bool" where
  "monthPattern m \<longleftrightarrow> length m = 7 \<and> list_all is_digit (take 4 m) \<and> m ! 4 = CHR ''-''
     \<and> list_all is_digit (drop 5 m)"

definition monthFile :: "string \<Rightarrow> string option" where
  "monthFile file = (if length file = 12 \<and> monthPattern (take 7 file) \<and> drop 7 file = ''.json''
     then Some (take 7 file) else None)"

text \<open>The two regular expressions of \<open>dataArtifactMonth\<close>.\<close>

definition dataArtifactMonth :: "string \<Rightarrow> string option" where
  "dataArtifactMonth key = (case splitOn CHR ''/'' key of
     [v2, deployments, d, k, daily, file] \<Rightarrow>
       if v2 = ''v2'' \<and> deployments = ''deployments'' \<and> d \<noteq> '''' \<and> k \<in> kindName ` set KINDS \<and> daily = ''daily''
       then monthFile file else None
   | [v2, k, daily, file] \<Rightarrow>
       if v2 = ''v2'' \<and> k \<in> kindName ` set KINDS \<and> daily = ''daily'' then monthFile file else None
   | _ \<Rightarrow> None)"

definition pruneArtifactsOutsidePublishedBounds :: "(string \<times> artifact_entry) list \<Rightarrow> string \<Rightarrow> string \<Rightarrow>
    string + (string \<times> artifact_entry) list" where
  "pruneArtifactsOutsidePublishedBounds artifacts earliestDate latestDate =
     map_sum id (\<lambda>publishedMonths. filter (\<lambda>(key, _). case dataArtifactMonth key of None \<Rightarrow> True
         | Some month \<Rightarrow> month \<in> set publishedMonths) artifacts)
       (monthKeysForRange \<lparr> dr_start = earliestDate, dr_end = latestDate, dr_days = 1 \<rparr>)"

definition cleanupHistoricalDeploymentArtifacts :: "memory_store \<Rightarrow> string \<Rightarrow> string list \<times> memory_store" where
  "cleanupHistoricalDeploymentArtifacts store currentDeploymentId =
     (let keys = listKeys store ''v2/deployments/'';
          staleKeys = filter (\<lambda>key. \<not> startsWith key (deploymentPrefix currentDeploymentId)) keys
      in (staleKeys, fold deleteJson staleKeys store))"

section \<open>The range to publish\<close>

definition resolvePublishRange :: "publish_input \<Rightarrow> metrics_bounds \<Rightarrow> manifest option \<Rightarrow> string \<Rightarrow> bool \<Rightarrow>
    string + date_range" where
  "resolvePublishRange input bounds existingManifest publicStartDate hasPublished =
     (let end' = nullish (pi_endDate input) (mb_latestDate bounds);
          resolve = (\<lambda>start. resolveDateRange start (Some end') (mb_latestDate bounds) None False)
      in case (existingManifest, hasPublished) of
           (Some m, True) \<Rightarrow>
             (case addDays (mf_latestDate m) 1 of Inl e \<Rightarrow> Inl e
              | Inr next \<Rightarrow> (case firstDayOfPreviousMonth end' of Inl e \<Rightarrow> Inl e
                | Inr previous \<Rightarrow> resolve (nullish (pi_startDate input)
                    (maxDate publicStartDate (minDate previous (firstDayOfMonth next))))))
         | _ \<Rightarrow> resolve (nullish (pi_startDate input) publicStartDate))"

text \<open>The ends of a range have parsed when the range was resolved.\<close>

definition rangeDays :: "date_range \<Rightarrow> int list" where
  "rangeDays period = (case (parseDate (dr_start period), parseDate (dr_end period)) of
     (Inr a, Inr b) \<Rightarrow> [a..b] | _ \<Rightarrow> [])"

definition hasMissingDailyMetrics :: "date_range \<Rightarrow> daily_metric list \<Rightarrow> bool" where
  "hasMissingDailyMetrics period metrics =
     list_ex (\<lambda>day. formatDate day \<notin> dm_date ` set metrics) (rangeDays period)"

section \<open>Writing\<close>

text \<open>\<open>writeArtifact\<close> records the entry of the manifest, stores the document and notes the key.\<close>

type_synonym writes = "(string \<times> artifact_entry) list \<times> memory_store \<times> string list"

definition writeArtifact :: "codec \<Rightarrow> string \<times> document \<times> nat \<Rightarrow> writes \<Rightarrow> writes" where
  "writeArtifact codec = (\<lambda>(key, value, rowCount) (artifacts, store, writtenKeys).
     (AList.update key (artifactEntry codec value rowCount) artifacts, putJson key value store,
      writtenKeys @ [key]))"

definition schemaDocs :: "(string \<times> document \<times> nat) list" where
  "schemaDocs = map (\<lambda>key. (key, Schema_Doc key, 0)) SCHEMA_KEYS"

definition monthDocs :: "string \<Rightarrow> daily_metric list \<Rightarrow> treasury_asset list \<Rightarrow> ohm_supply list \<Rightarrow> string \<Rightarrow>
    (string \<times> document \<times> nat) list" where
  "monthDocs deploymentId metrics treasuryAssets ohmSupply month =
     (let metricRows = filter (\<lambda>row. startsWith (dm_date row) month) metrics;
          treasuryAssetRows = filter (\<lambda>row. startsWith (ta_date row) month) treasuryAssets;
          ohmSupplyRows = filter (\<lambda>row. startsWith (os_date row) month) ohmSupply
      in [(dataKey deploymentId Metrics_Kind month, Metric_Rows metricRows, length metricRows),
          (dataKey deploymentId Treasury_Assets_Kind month, Asset_Rows treasuryAssetRows,
            length treasuryAssetRows),
          (dataKey deploymentId Ohm_Supply_Kind month, Supply_Rows ohmSupplyRows,
            length ohmSupplyRows)])"

definition rangeDocs :: "string \<Rightarrow> daily_metric list \<Rightarrow> treasury_asset list \<Rightarrow> ohm_supply list \<Rightarrow> string list \<Rightarrow>
    (string \<times> document \<times> nat) list" where
  "rangeDocs deploymentId metrics treasuryAssets ohmSupply months =
     schemaDocs @ concat (map (monthDocs deploymentId metrics treasuryAssets ohmSupply) months)"

section \<open>The run\<close>

text \<open>Only manifests are written at the manifest key.\<close>

fun asManifest :: "document \<Rightarrow> manifest option" where
  "asManifest (Manifest_Doc m) = Some m"
| "asManifest _ = None"

definition getExistingManifest :: "memory_store \<Rightarrow> manifest option" where
  "getExistingManifest store = Option.bind (getJson store MANIFEST_KEY) asManifest"

definition skippedResult :: "string \<Rightarrow> string \<Rightarrow> indexing_progress \<Rightarrow> skip_reason \<Rightarrow> publish_result" where
  "skippedResult deploymentId runId progress reason = \<lparr> pb_deletedKeys = [], pb_deploymentId = deploymentId,
     pb_indexingProgress = Some progress, pb_manifestPublishedLast = False, pb_range = None,
     pb_skipReason = Some reason, pb_runId = runId, pb_writtenKeys = [] \<rparr>"

text \<open>The artifacts of the range, then the manifest, then the deletions.\<close>

definition publishRange :: "codec \<Rightarrow> publish_input \<Rightarrow> string \<Rightarrow> string \<Rightarrow> manifest option \<Rightarrow> metrics_bounds \<Rightarrow>
    indexing_progress \<Rightarrow> date_range \<Rightarrow> daily_metric list \<Rightarrow> treasury_asset list \<Rightarrow> ohm_supply list \<Rightarrow>
    memory_store \<Rightarrow> (string + publish_result) \<times> memory_store" where
  "publishRange codec input deploymentId publicStartDate existingManifest bounds progress period
      metrics treasuryAssets ohmSupply store =
     (case monthKeysForRange period of Inl e \<Rightarrow> (Inl e, store)
      | Inr months \<Rightarrow>
          (case fold (writeArtifact codec)
              (rangeDocs deploymentId metrics treasuryAssets ohmSupply months)
              (case existingManifest of None \<Rightarrow> [] | Some m \<Rightarrow> mf_artifacts m, store, []) of
             (artifacts, store1, writtenKeys) \<Rightarrow>
               (let earliestDate = maxDate publicStartDate (minDate
                      (case existingManifest of None \<Rightarrow> dr_start period | Some m \<Rightarrow> mf_earliestDate m)
                      (dr_start period));
                    latestDate = minDate (maxDate
                      (case existingManifest of None \<Rightarrow> dr_end period | Some m \<Rightarrow> mf_latestDate m)
                      (dr_end period)) (mb_latestDate bounds)
                in case pruneArtifactsOutsidePublishedBounds
                      (pruneHistoricalDeploymentArtifacts artifacts deploymentId) earliestDate latestDate of
                     Inl e \<Rightarrow> (Inl e, store1)
                   | Inr manifestArtifacts \<Rightarrow>
                       (let manifest = \<lparr> mf_schemaVersion = SCHEMA_VERSION,
                              mf_generatedAt = isoTimestamp (pi_now input),
                              mf_indexerDeploymentId = Some deploymentId,
                              mf_indexingProgress = Some progress, mf_earliestDate = earliestDate,
                              mf_latestDate = latestDate, mf_artifacts = manifestArtifacts \<rparr>;
                            store2 = putJson MANIFEST_KEY (Manifest_Doc manifest) store1;
                            writtenKeys' = writtenKeys @ [MANIFEST_KEY];
                            (deletedKeys, store3) = cleanupHistoricalDeploymentArtifacts store2 deploymentId
                        in (Inr \<lparr> pb_deletedKeys = deletedKeys, pb_deploymentId = deploymentId,
                              pb_indexingProgress = Some progress,
                              pb_manifestPublishedLast = (last writtenKeys' = MANIFEST_KEY),
                              pb_range = Some period, pb_skipReason = None, pb_runId = pi_runId input,
                              pb_writtenKeys = writtenKeys' \<rparr>, store3)))))"

text \<open>What happens between taking and releasing the lock. The three reads of the source run
  together; if several fail, which failure is reported depends on timing (here: the first).\<close>

definition publishLocked :: "codec \<Rightarrow> metrics_source \<Rightarrow> publish_input \<Rightarrow> string \<Rightarrow> string \<Rightarrow> manifest option \<Rightarrow>
    memory_store \<Rightarrow> (string + publish_result) \<times> memory_store" where
  "publishLocked codec source input deploymentId publicStartDate existingManifest store =
     (let hasPublished = deploymentHasPublishedArtifacts existingManifest deploymentId;
          notReady = (\<lambda>progress. (Inr (skippedResult deploymentId (pi_runId input) progress
            Skipped_Not_Data_Ready), store))
      in case so_fetchLatestIndexingProgress source of Inl e \<Rightarrow> (Inl e, store)
      | Inr progress \<Rightarrow>
          (case so_fetchBounds source (if hasPublished then Cross_Chain else All_Chains) of
             Inl Not_Data_Ready \<Rightarrow> notReady progress
           | Inl (Source_Failure e) \<Rightarrow> (Inl e, store)
           | Inr bounds \<Rightarrow>
               (case (if hasPublished then Inr True
                   else isFreshForDeploymentHandover (mb_latestDate bounds) (pi_now input)) of
                  Inl e \<Rightarrow> (Inl e, store)
                | Inr False \<Rightarrow> notReady progress
                | Inr True \<Rightarrow>
                    (case resolvePublishRange input bounds existingManifest publicStartDate hasPublished of
                       Inl e \<Rightarrow> (Inl e, store)
                     | Inr period \<Rightarrow>
                         (case (so_fetchDailyMetrics source period, so_fetchTreasuryAssets source period,
                             so_fetchOhmSupply source period) of
                            (Inr metrics, Inr treasuryAssets, Inr ohmSupply) \<Rightarrow>
                              if hasPublished \<and> hasMissingDailyMetrics period metrics then notReady progress
                              else publishRange codec input deploymentId publicStartDate existingManifest
                                bounds progress period metrics treasuryAssets ohmSupply store
                          | (Inl e, _, _) \<Rightarrow> (Inl e, store)
                          | (_, Inl e, _) \<Rightarrow> (Inl e, store)
                          | (_, _, Inl e) \<Rightarrow> (Inl e, store))))))"

definition publishMetricsArtifacts :: "codec \<Rightarrow> metrics_source \<Rightarrow> publish_input \<Rightarrow> memory_store \<Rightarrow>
    (string + publish_result) \<times> memory_store" where
  "publishMetricsArtifacts codec source input store =
     (let publicStartDate = nullish (pi_publicStartDate input) DEFAULT_PUBLIC_START_DATE;
          lockTtlMs = nullish (pi_lockTtlMs input) DEFAULT_LOCK_TTL_MS
      in case parseDeploymentId (pi_deploymentId input) of Inl e \<Rightarrow> (Inl e, store)
      | Inr deploymentId \<Rightarrow>
          if lockTtlMs < 1 then (Inl ''lockTtlMs must be a positive integer.'', store)
          else (let existingManifest = (case pi_manifest input of Some m \<Rightarrow> Some m
                  | None \<Rightarrow> getExistingManifest store);
                lock = buildPublisherLock (pi_runId input)
                  (if existingManifest = None then Initial_Backfill else Incremental_Refresh)
                  (pi_now input) lockTtlMs;
                (acquired, store1) = acquirePublisherLock codec lock (pi_now input) store
              in if \<not> acquired
                 then (Inr (skippedResult deploymentId (case readPublisherLock codec store1 of
                     None \<Rightarrow> pi_runId input | Some (l, _) \<Rightarrow> pl_runId l) [] Lock_Held), store1)
                 else (case publishLocked codec source input deploymentId publicStartDate
                     existingManifest store1 of
                   (result, store2) \<Rightarrow> (result, releasePublisherLock codec lock store2))))"

section \<open>Writes\<close>

lemma writeArtifact_store:
  "fst (snd (fold (writeArtifact codec) docs w)) = fold (\<lambda>(k, v). putJson k v) (map (\<lambda>(k, v, n). (k, v)) docs) (fst (snd w))"
  by (induction docs arbitrary: w) (auto simp: writeArtifact_def split: prod.splits)

lemma writeArtifact_keys:
  "snd (snd (fold (writeArtifact codec) docs w)) = snd (snd w) @ map fst docs"
  by (induction docs arbitrary: w) (auto simp: writeArtifact_def split: prod.splits)

text \<open>After the writes every entry describes the document stored under its key.\<close>

definition entriesMatch :: "codec \<Rightarrow> (string \<times> artifact_entry) list \<Rightarrow> memory_store \<Rightarrow> bool" where
  "entriesMatch codec artifacts store \<longleftrightarrow> distinct (map fst artifacts)
     \<and> (\<forall>(key, entry) \<in> set artifacts. key \<noteq> MANIFEST_KEY \<and> key \<noteq> PUBLISHER_LOCK_KEY
          \<and> (\<exists>document n. getJson store key = Some document \<and> entry = artifactEntry codec document n))"

lemma set_update_subset: "set (AList.update k v al) \<subseteq> insert (k, v) (set al)"
  by (induction al) auto

lemma entriesMatch_write:
  assumes "entriesMatch codec artifacts store" "k \<noteq> MANIFEST_KEY" "k \<noteq> PUBLISHER_LOCK_KEY"
  shows "entriesMatch codec (AList.update k (artifactEntry codec v n) artifacts) (putJson k v store)"
proof -
  have d: "distinct (map fst artifacts)" using assms(1) by (simp add: entriesMatch_def)
  have "key \<noteq> MANIFEST_KEY \<and> key \<noteq> PUBLISHER_LOCK_KEY \<and>
      (\<exists>document n. getJson (putJson k v store) key = Some document \<and> entry = artifactEntry codec document n)"
    if e: "(key, entry) \<in> set (AList.update k (artifactEntry codec v n) artifacts)" for key entry
  proof (cases "key = k")
    case True
    have "map_of (AList.update k (artifactEntry codec v n) artifacts) key = Some entry"
      using e d by (simp add: distinct_update)
    with True show ?thesis using assms(2,3) by (auto simp: update_conv' memory.lookup_put)
  next
    case False
    then have "(key, entry) \<in> set artifacts" using e set_update_subset by fastforce
    with assms(1) False show ?thesis by (auto simp: entriesMatch_def memory.lookup_put)
  qed
  then show ?thesis using d by (auto simp: entriesMatch_def distinct_update)
qed

lemma entriesMatch_writes:
  assumes "entriesMatch codec (fst w) (fst (snd w))" "\<forall>(k, v, n) \<in> set docs. k \<noteq> MANIFEST_KEY \<and> k \<noteq> PUBLISHER_LOCK_KEY"
  shows "entriesMatch codec (fst (fold (writeArtifact codec) docs w)) (fst (snd (fold (writeArtifact codec) docs w)))"
  using assms
proof (induction docs arbitrary: w)
  case (Cons doc docs)
  obtain k v n where doc: "doc = (k, v, n)" by (cases doc) auto
  obtain artifacts store keys where w: "w = (artifacts, store, keys)" by (cases w) auto
  show ?case using Cons.prems unfolding doc w fold_simps o_apply
    by (intro Cons.IH) (auto simp: writeArtifact_def intro: entriesMatch_write)
qed simp

section \<open>The manifest describes the store\<close>

definition dateOk :: "string \<Rightarrow> bool" where
  "dateOk date \<longleftrightarrow> (\<exists>n. parseDate date = Inr n)"

text \<open>The published manifest, if there is one: its dates are dates, and every entry is the entry of
  the document stored under its key.\<close>

definition manifestOk :: "codec \<Rightarrow> memory_store \<Rightarrow> bool" where
  "manifestOk codec store \<longleftrightarrow> (\<forall>m. getExistingManifest store = Some m \<longrightarrow>
     entriesMatch codec (mf_artifacts m) store \<and> dateOk (mf_earliestDate m) \<and> dateOk (mf_latestDate m))"

text \<open>The lock lives under a key of its own.\<close>

definition sameButLock :: "memory_store \<Rightarrow> memory_store \<Rightarrow> bool" where
  "sameButLock s s' \<longleftrightarrow> (\<forall>key. key \<noteq> PUBLISHER_LOCK_KEY \<longrightarrow> getJson s' key = getJson s key)"

lemma lockStep_sameButLock:
  assumes "lockStep codec lock now phase s = (phase', s')"
  shows "sameButLock s s'"
proof (cases phase)
  case (Expired tag)
  with assms show ?thesis
    by (cases tag) (auto simp: sameButLock_def memory.putIfAbsent memory.putIfMatch memory.lookup_put
        split: if_splits prod.splits)
next
  case (Releasing tag)
  with assms show ?thesis
    by (cases tag) (auto simp: sameButLock_def memory.deleteIfMatch memory.lookup_delete split: if_splits)
qed (use assms in \<open>auto simp: sameButLock_def memory.putIfAbsent memory.lookup_put
      split: if_splits option.splits prod.splits\<close>)

lemma sameButLock_refl [simp]: "sameButLock s s"
  by (simp add: sameButLock_def)

lemma sameButLock_trans: "sameButLock s s' \<Longrightarrow> sameButLock s' s'' \<Longrightarrow> sameButLock s s''"
  by (simp add: sameButLock_def)

lemma acquire_sameButLock:
  assumes "acquirePublisherLock codec lock now s = (ok, s')"
  shows "sameButLock s s'"
proof -
  let ?run = "\<lambda>(phase, s). if phase = Held then (phase, s) else lockStep codec lock now phase s"
  have "sameButLock s (snd ((?run ^^ n) (Acquiring, s)))" for n
  proof (induction n)
    case (Suc n)
    obtain p t where pt: "(?run ^^ n) (Acquiring, s) = (p, t)" by (cases "(?run ^^ n) (Acquiring, s)")
    have "sameButLock t (snd (?run (p, t)))"
      using lockStep_sameButLock [of codec lock now p t] by (cases "lockStep codec lock now p t") auto
    with Suc pt show ?case by (auto intro: sameButLock_trans)
  qed simp
  from this [of 4] assms show ?thesis
    by (auto simp: acquirePublisherLock_def Let_def split: prod.splits)
qed

lemma release_sameButLock: "sameButLock s (releasePublisherLock codec lock s)"
proof -
  obtain p t where pt: "lockStep codec lock 0 Held s = (p, t)" by (cases "lockStep codec lock 0 Held s")
  obtain q u where qu: "lockStep codec lock 0 p t = (q, u)" by (cases "lockStep codec lock 0 p t")
  show ?thesis
    using lockStep_sameButLock [OF pt] lockStep_sameButLock [OF qu]
    by (auto simp: releasePublisherLock_def pt qu intro: sameButLock_trans simp del: lockStep.simps)
qed

lemma manifest_not_lock: "MANIFEST_KEY \<noteq> PUBLISHER_LOCK_KEY"
  by (simp add: MANIFEST_KEY_def PUBLISHER_LOCK_KEY_def)

lemma manifestOk_sameButLock: "sameButLock s s' \<Longrightarrow> manifestOk codec s \<Longrightarrow> manifestOk codec s'"
  using manifest_not_lock
  by (fastforce simp: manifestOk_def sameButLock_def getExistingManifest_def entriesMatch_def)

text \<open>The keys a run writes are neither the manifest's nor the lock's.\<close>

lemma docs_keys:
  "\<forall>(k, v, n) \<in> set (rangeDocs d ms ts us months).
     k \<noteq> MANIFEST_KEY \<and> k \<noteq> PUBLISHER_LOCK_KEY"
proof -
  have "dataKey d kind month \<noteq> MANIFEST_KEY \<and> dataKey d kind month \<noteq> PUBLISHER_LOCK_KEY" for kind month
    by (simp add: dataKey_def deploymentPrefix_def MANIFEST_KEY_def PUBLISHER_LOCK_KEY_def)
  then show ?thesis
    by (auto simp: rangeDocs_def schemaDocs_def SCHEMA_KEYS_def monthDocs_def Let_def MANIFEST_KEY_def PUBLISHER_LOCK_KEY_def)
qed

lemma entriesMatch_filter: "entriesMatch codec artifacts store \<Longrightarrow> entriesMatch codec (filter P artifacts) store"
  by (auto simp: entriesMatch_def distinct_map_filter)

lemma prune_filters:
  assumes "pruneArtifactsOutsidePublishedBounds (pruneHistoricalDeploymentArtifacts artifacts d) e l = Inr pruned"
  shows "\<exists>P. pruned = filter P artifacts \<and> (\<forall>(k, v) \<in> set pruned. \<not> startsWith k ''v2/deployments/''
    \<or> startsWith k (deploymentPrefix d))"
proof (cases "monthKeysForRange \<lparr> dr_start = e, dr_end = l, dr_days = 1 \<rparr>")
  case (Inr months)
  let ?P = "\<lambda>(key, _). case dataArtifactMonth key of None \<Rightarrow> True | Some month \<Rightarrow> month \<in> set months"
  let ?Q = "\<lambda>(key, _ :: artifact_entry). \<not> startsWith key ''v2/deployments/'' \<or> startsWith key (deploymentPrefix d)"
  have p: "pruned = filter ?P (filter ?Q artifacts)"
    using assms Inr by (simp add: pruneArtifactsOutsidePublishedBounds_def pruneHistoricalDeploymentArtifacts_def)
  then have "pruned = filter (\<lambda>x. ?Q x \<and> ?P x) artifacts" by (simp only: filter_filter)
  moreover have "\<forall>x \<in> set pruned. ?Q x" unfolding p by simp
  ultimately show ?thesis by blast
qed (use assms in \<open>simp add: pruneArtifactsOutsidePublishedBounds_def\<close>)

lemma cleanup_lookup:
  assumes "cleanupHistoricalDeploymentArtifacts s d = (deleted, s')"
  shows "getJson s' k = (if startsWith k ''v2/deployments/'' \<and> \<not> startsWith k (deploymentPrefix d) then None else getJson s k)"
  using assms
  by (auto simp: cleanupHistoricalDeploymentArtifacts_def Let_def memory.lookup_deletes listKeys_iff)

lemma monthKeys_dates: "dateOk (dr_start p) \<Longrightarrow> dateOk (dr_end p) \<Longrightarrow> \<exists>months. monthKeysForRange p = Inr months"
  by (auto simp: dateOk_def monthKeysForRange_def)

lemma resolve_dates: "resolveDateRange s u l m f = Inr r \<Longrightarrow> dateOk (dr_start r) \<and> dateOk (dr_end r)"
  by (auto simp: resolveDateRange_def dateOk_def Let_def split: sum.splits if_splits)

lemma dateOk_min_max: "dateOk a \<Longrightarrow> dateOk b \<Longrightarrow> dateOk (minDate a b) \<and> dateOk (maxDate a b)"
  by (simp add: minDate_def maxDate_def)

definition existingOk :: "codec \<Rightarrow> manifest option \<Rightarrow> memory_store \<Rightarrow> bool" where
  "existingOk codec existing store \<longleftrightarrow> (\<forall>m. existing = Some m \<longrightarrow>
     entriesMatch codec (mf_artifacts m) store \<and> dateOk (mf_earliestDate m) \<and> dateOk (mf_latestDate m))"

text \<open>What a completed range leaves: the manifest and the documents.\<close>

lemma publishRange_result:
  assumes "publishRange codec input d pub existing bounds progress p ms ts us store = (result, store')"
    and "existingOk codec existing store" "dateOk pub" "dateOk (mb_latestDate bounds)" "dateOk (dr_start p)" "dateOk (dr_end p)"
  shows "\<exists>months manifest store1 r. monthKeysForRange p = Inr months \<and> result = Inr r
    \<and> store1 = fold (\<lambda>(k, v). putJson k v)
        (map (\<lambda>(k, v, n). (k, v)) (rangeDocs d ms ts us months)) store
    \<and> getExistingManifest store' = Some manifest
    \<and> entriesMatch codec (mf_artifacts manifest) store'
    \<and> mf_indexerDeploymentId manifest = Some d
    \<and> mf_earliestDate manifest = maxDate pub (minDate
        (case existing of None \<Rightarrow> dr_start p | Some m \<Rightarrow> mf_earliestDate m) (dr_start p))
    \<and> mf_latestDate manifest = minDate (maxDate
        (case existing of None \<Rightarrow> dr_end p | Some m \<Rightarrow> mf_latestDate m) (dr_end p)) (mb_latestDate bounds)
    \<and> dateOk (mf_earliestDate manifest) \<and> dateOk (mf_latestDate manifest)
    \<and> pruneArtifactsOutsidePublishedBounds (pruneHistoricalDeploymentArtifacts
        (fst (fold (writeArtifact codec) (rangeDocs d ms ts us months)
          (case existing of None \<Rightarrow> [] | Some m \<Rightarrow> mf_artifacts m, store, []))) d)
        (mf_earliestDate manifest) (mf_latestDate manifest) = Inr (mf_artifacts manifest)
    \<and> (\<forall>k. k \<noteq> MANIFEST_KEY \<longrightarrow> getJson store' k =
        (if startsWith k ''v2/deployments/'' \<and> \<not> startsWith k (deploymentPrefix d) then None else getJson store1 k))
    \<and> pb_range r = Some p \<and> pb_skipReason r = None \<and> pb_manifestPublishedLast r \<and> last (pb_writtenKeys r) = MANIFEST_KEY"
proof -
  from monthKeys_dates [OF assms(5,6)] obtain months where months: "monthKeysForRange p = Inr months" by blast
  let ?docs = "rangeDocs d ms ts us months"
  let ?old = "case existing of None \<Rightarrow> [] | Some m \<Rightarrow> mf_artifacts m"
  let ?earliest = "maxDate pub (minDate (case existing of None \<Rightarrow> dr_start p | Some m \<Rightarrow> mf_earliestDate m) (dr_start p))"
  let ?latest = "minDate (maxDate (case existing of None \<Rightarrow> dr_end p | Some m \<Rightarrow> mf_latestDate m) (dr_end p)) (mb_latestDate bounds)"
  obtain artifacts store1 keys where w: "fold (writeArtifact codec) ?docs (?old, store, []) = (artifacts, store1, keys)"
    by (cases "fold (writeArtifact codec) ?docs (?old, store, [])") auto
  have store1: "store1 = fold (\<lambda>(k, v). putJson k v) (map (\<lambda>(k, v, n). (k, v)) ?docs) store"
    using writeArtifact_store [of codec ?docs "(?old, store, [])"] by (simp add: w)
  have "entriesMatch codec ?old store"
    using assms(2) by (cases existing) (simp_all add: existingOk_def entriesMatch_def)
  then have em: "entriesMatch codec artifacts store1"
    using entriesMatch_writes [of codec "(?old, store, [])", OF _ docs_keys [of d ms ts us months]]
    by (simp add: w)
  have dates: "dateOk ?earliest" "dateOk ?latest"
    using assms(2-6) by (auto simp: existingOk_def intro!: conjunct1 [OF dateOk_min_max] conjunct2 [OF dateOk_min_max] split: option.split)
  from monthKeys_dates [of "\<lparr> dr_start = ?earliest, dr_end = ?latest, dr_days = 1 \<rparr>"] dates
  obtain pruned where pruned: "pruneArtifactsOutsidePublishedBounds
      (pruneHistoricalDeploymentArtifacts artifacts d) ?earliest ?latest = Inr pruned"
    by (fastforce simp: pruneArtifactsOutsidePublishedBounds_def)
  from prune_filters [OF pruned] obtain P where P: "pruned = filter P artifacts"
    "\<forall>(k, v) \<in> set pruned. \<not> startsWith k ''v2/deployments/'' \<or> startsWith k (deploymentPrefix d)" by blast
  define manifest where "manifest = \<lparr> mf_schemaVersion = SCHEMA_VERSION, mf_generatedAt = isoTimestamp (pi_now input),
      mf_indexerDeploymentId = Some d, mf_indexingProgress = Some progress, mf_earliestDate = ?earliest,
      mf_latestDate = ?latest, mf_artifacts = pruned \<rparr>"
  let ?store2 = "putJson MANIFEST_KEY (Manifest_Doc manifest) store1"
  obtain deleted where cleanup: "cleanupHistoricalDeploymentArtifacts ?store2 d = (deleted, store')"
    and result: "\<exists>r. result = Inr r \<and> pb_range r = Some p \<and> pb_skipReason r = None \<and> pb_manifestPublishedLast r
      \<and> last (pb_writtenKeys r) = MANIFEST_KEY"
    using assms(1) unfolding publishRange_def months sum.case w prod.case pruned Let_def manifest_def [symmetric]
    by (auto split: prod.splits)
  note lookup = cleanup_lookup [OF cleanup]
  have manifest_kept: "\<not> startsWith MANIFEST_KEY ''v2/deployments/''" by (simp add: startsWith_def MANIFEST_KEY_def)
  have "entriesMatch codec pruned store1" unfolding P(1) by (rule entriesMatch_filter [OF em])
  then have "entriesMatch codec pruned store'"
    using P(2) unfolding entriesMatch_def by (fastforce simp: lookup memory.lookup_put)
  moreover have "getExistingManifest store' = Some manifest"
    by (simp add: getExistingManifest_def lookup manifest_kept memory.lookup_put)
  ultimately show ?thesis
    using months store1 dates result pruned w
    by (intro exI [of _ months] exI [of _ manifest] exI [of _ store1])
      (auto simp: manifest_def lookup memory.lookup_put)
qed

lemma publishRange_manifestOk:
  assumes "publishRange codec input d pub existing bounds progress p ms ts us store = (result, store')"
    and "existingOk codec existing store" "dateOk pub" "dateOk (mb_latestDate bounds)" "dateOk (dr_start p)" "dateOk (dr_end p)"
  shows "manifestOk codec store'"
  using publishRange_result [OF assms] by (auto simp: manifestOk_def)

lemma publishRange_dates: "resolvePublishRange input bounds existing pub h = Inr p \<Longrightarrow> dateOk (dr_start p) \<and> dateOk (dr_end p)"
  unfolding resolvePublishRange_def Let_def
  by (auto dest: resolve_dates split: option.splits bool.splits sum.splits)

text \<open>A run that gets past its checks publishes a range of the source's rows.\<close>

inductive ranPublish :: "codec \<Rightarrow> metrics_source \<Rightarrow> publish_input \<Rightarrow> string \<Rightarrow> string \<Rightarrow> manifest option \<Rightarrow>
    memory_store \<Rightarrow> string + publish_result \<Rightarrow> memory_store \<Rightarrow> bool" for codec source input d pub existing store where
  ranPublishI: "so_fetchBounds source c = Inr bounds \<Longrightarrow>
    resolvePublishRange input bounds existing pub published = Inr p \<Longrightarrow>
    so_fetchDailyMetrics source p = Inr ms \<Longrightarrow> so_fetchTreasuryAssets source p = Inr ts \<Longrightarrow>
    so_fetchOhmSupply source p = Inr us \<Longrightarrow>
    publishRange codec input d pub existing bounds progress p ms ts us store = (result, store') \<Longrightarrow>
    ranPublish codec source input d pub existing store result store'"

lemma publishLocked_cases:
  assumes "publishLocked codec source input d pub existing store = (result, store')"
  shows "store' = store \<and> (\<forall>r. result = Inr r \<longrightarrow> pb_range r = None)
    \<or> ranPublish codec source input d pub existing store result store'"
  using assms unfolding publishLocked_def Let_def
  by (auto simp: skippedResult_def intro: ranPublishI
      split: sum.splits source_error.splits bool.splits if_splits)

text \<open>A run skips or fails and leaves the store as it was but for the lock, or publishes a range
  under the lock.\<close>

lemma publish_cases:
  assumes "publishMetricsArtifacts codec source input store = (result, store')"
    and "manifestOk codec store" "pi_manifest input = None"
  shows "sameButLock store store' \<and> (\<forall>r. result = Inr r \<longrightarrow> pb_range r = None)
    \<or> (\<exists>d store1 store2. parseDeploymentId (pi_deploymentId input) = Inr d
      \<and> existingOk codec (getExistingManifest store) store1
      \<and> ranPublish codec source input d (nullish (pi_publicStartDate input) DEFAULT_PUBLIC_START_DATE)
          (getExistingManifest store) store1 result store2
      \<and> sameButLock store2 store')"
proof (cases "parseDeploymentId (pi_deploymentId input)")
  case (Inr d)
  let ?pub = "nullish (pi_publicStartDate input) DEFAULT_PUBLIC_START_DATE"
  let ?ttl = "nullish (pi_lockTtlMs input) DEFAULT_LOCK_TTL_MS"
  let ?existing = "getExistingManifest store"
  let ?lock = "buildPublisherLock (pi_runId input)
    (if ?existing = None then Initial_Backfill else Incremental_Refresh) (pi_now input) ?ttl"
  obtain ok store1 where acq: "acquirePublisherLock codec ?lock (pi_now input) store = (ok, store1)"
    by (cases "acquirePublisherLock codec ?lock (pi_now input) store")
  obtain result2 store2 where pl: "publishLocked codec source input d ?pub ?existing store1 = (result2, store2)"
    by (cases "publishLocked codec source input d ?pub ?existing store1")
  note same = acquire_sameButLock [OF acq]
  have "manifestOk codec store1" by (rule manifestOk_sameButLock [OF same assms(2)])
  moreover have "?existing = getExistingManifest store1"
    using same manifest_not_lock by (simp add: getExistingManifest_def sameButLock_def)
  ultimately have ex: "existingOk codec ?existing store1" by (simp add: manifestOk_def existingOk_def)
  consider "?ttl < 1" | "\<not> ?ttl < 1" "\<not> ok" | "\<not> ?ttl < 1" ok by blast
  then show ?thesis
  proof cases
    case 3
    then have r: "result = result2" "store' = releasePublisherLock codec ?lock store2"
      using assms(1) by (simp_all add: publishMetricsArtifacts_def Inr assms(3) Let_def acq pl)
    have rel: "sameButLock store2 store'" unfolding r by (rule release_sameButLock)
    from publishLocked_cases [OF pl] show ?thesis
    proof (elim disjE conjE)
      assume s: "store2 = store1" "\<forall>r. result2 = Inr r \<longrightarrow> pb_range r = None"
      then show ?thesis using sameButLock_trans [OF same] rel r(1) by blast
    next
      assume "ranPublish codec source input d ?pub ?existing store1 result2 store2"
      then show ?thesis using Inr ex rel r(1) by blast
    qed
  qed (use assms(1) same in \<open>auto simp: publishMetricsArtifacts_def Inr assms(3) Let_def acq skippedResult_def\<close>)
qed (use assms(1) in \<open>auto simp: publishMetricsArtifacts_def Let_def\<close>)


end
