(* ===== verification/Api.thy ===== *)
theory Api
  imports Publisher
begin

text \<open>
  The metrics API (\<open>apps/metrics-api/src/server.ts\<close>): it serves the published artifacts, one month
  file at a time, and answers every request, errors included. The artifact reader is a parameter,
  as is reading JSON text.
\<close>

section \<open>Configuration\<close>

datatype read_error = Artifact_Not_Found | Read_Failure string

datatype json = JNull | JBool bool | JNumber rat | JString string | JArray "json list"
  | JObject "(string \<times> json) list"

text \<open>\<open>ac_parseJson\<close> is \<open>JSON.parse\<close> (\<open>None\<close> where it throws) and \<open>ac_decode\<close> is
  \<open>decodeURIComponent\<close>.\<close>

record api_config =
  ac_maxRangeDays :: int
  ac_manifest :: "manifest option"
  ac_artifactReader :: "(string \<Rightarrow> read_error + document) option"
  ac_generatedAt :: "string option"
  ac_parseJson :: "string \<Rightarrow> json option"
  ac_decode :: "string \<Rightarrow> string option"
  ac_fl :: "rat \<Rightarrow> rat"

definition getManifest :: "api_config \<Rightarrow> read_error + manifest" where
  "getManifest config = (case ac_manifest config of Some m \<Rightarrow> Inr m
     | None \<Rightarrow> (case ac_artifactReader config of
         None \<Rightarrow> Inl Artifact_Not_Found
       | Some get \<Rightarrow> (case get MANIFEST_KEY of Inl e \<Rightarrow> Inl e
           | Inr value \<Rightarrow> (case asManifest value of None \<Rightarrow> Inl (Read_Failure ''TypeError'') | Some m \<Rightarrow> Inr m))))"

section \<open>Reading artifacts\<close>

definition LEGACY_OPERATION_PATHS :: "string list" where
  "LEGACY_OPERATION_PATHS = [''/operations/health'', ''/operations/latest/metrics'',
     ''/operations/earliest/metrics'', ''/operations/paginated/metrics'',
     ''/operations/latest/tokenRecords'', ''/operations/earliest/tokenRecords'',
     ''/operations/paginated/tokenRecords'', ''/operations/latest/tokenSupplies'',
     ''/operations/earliest/tokenSupplies'', ''/operations/paginated/tokenSupplies'',
     ''/operations/latest/protocolMetrics'', ''/operations/earliest/protocolMetrics'',
     ''/operations/paginated/protocolMetrics'']"

definition LEGACY_AT_BLOCK_PATHS :: "string list" where
  "LEGACY_AT_BLOCK_PATHS = [''/operations/atBlock/metrics'', ''/operations/atBlock/tokenRecords'',
     ''/operations/atBlock/tokenSupplies'', ''/operations/atBlock/internal/protocolMetrics'']"

definition endsWith :: "string \<Rightarrow> string \<Rightarrow> bool" where
  "endsWith text suffix \<longleftrightarrow> startsWith (rev text) (rev suffix)"

definition isInRange :: "string \<Rightarrow> date_range \<Rightarrow> bool" where
  "isInRange date r \<longleftrightarrow> \<not> strLess date (dr_start r) \<and> \<not> strLess (dr_end r) date"

definition artifactKeyForMonth :: "manifest \<Rightarrow> string \<Rightarrow> string \<Rightarrow> string" where
  "artifactKeyForMonth manifest keyPrefix month =
     (let deploymentPath = (if startsWith keyPrefix ''v2/'' then drop 3 keyPrefix else keyPrefix)
            @ ''/'' @ month @ ''.json'';
          listed = (\<lambda>key. key \<in> fst ` set (mf_artifacts manifest));
          stableKey = keyPrefix @ ''/'' @ month @ ''.json'';
          current = Option.bind (mf_indexerDeploymentId manifest) (\<lambda>d.
            let key = ''v2/deployments/'' @ d @ ''/'' @ deploymentPath in
            if listed key then Some key else None)
      in case current of Some key \<Rightarrow> key
         | None \<Rightarrow> if listed stableKey then stableKey
             else nullish (List.find (\<lambda>key. startsWith key ''v2/deployments/''
               \<and> endsWith key (''/'' @ deploymentPath)) (map fst (mf_artifacts manifest))) stableKey)"

text \<open>Months without an artifact count as empty; any other failure is passed on.\<close>

fun readMonths :: "(string \<Rightarrow> read_error + document) \<Rightarrow> (string \<Rightarrow> string) \<Rightarrow> (document \<Rightarrow> 'r list option) \<Rightarrow>
    ('r \<Rightarrow> bool) \<Rightarrow> string list \<Rightarrow> read_error + 'r list" where
  "readMonths get key asRows keep [] = Inr []"
| "readMonths get key asRows keep (month # months) = (case get (key month) of
     Inl Artifact_Not_Found \<Rightarrow> readMonths get key asRows keep months
   | Inl (Read_Failure e) \<Rightarrow> Inl (Read_Failure e)
   | Inr value \<Rightarrow> (case asRows value of
       None \<Rightarrow> Inl (Read_Failure ''TypeError'')
     | Some monthRows \<Rightarrow> map_sum id ((@) (filter keep monthRows))
         (readMonths get key asRows keep months)))"

definition readArtifactRows :: "(document \<Rightarrow> 'r list option) \<Rightarrow> ('r \<Rightarrow> string) \<Rightarrow> api_config \<Rightarrow> manifest \<Rightarrow>
    date_range \<Rightarrow> string \<Rightarrow> read_error + 'r list" where
  "readArtifactRows asRows date config manifest r keyPrefix = (case ac_artifactReader config of
     None \<Rightarrow> Inr []
   | Some get \<Rightarrow> (case monthKeysForRange r of Inl e \<Rightarrow> Inl (Read_Failure e)
       | Inr months \<Rightarrow> readMonths get (artifactKeyForMonth manifest keyPrefix) asRows
           (\<lambda>row. isInRange (date row) r) months))"

fun asMetricRows :: "document \<Rightarrow> daily_metric list option" where
  "asMetricRows (Metric_Rows rows) = Some rows" | "asMetricRows _ = None"

fun asAssetRows :: "document \<Rightarrow> treasury_asset list option" where
  "asAssetRows (Asset_Rows rows) = Some rows" | "asAssetRows _ = None"

fun asSupplyRows :: "document \<Rightarrow> ohm_supply list option" where
  "asSupplyRows (Supply_Rows rows) = Some rows" | "asSupplyRows _ = None"

definition METRICS_PREFIX :: string where "METRICS_PREFIX = ''v2/metrics/daily''"
definition ASSETS_PREFIX :: string where "ASSETS_PREFIX = ''v2/treasury-assets/daily''"
definition SUPPLY_PREFIX :: string where "SUPPLY_PREFIX = ''v2/ohm-supply/daily''"

section \<open>Daily rows\<close>

definition buildEmptyDailyMetric :: "(rat \<Rightarrow> rat) \<Rightarrow> string \<Rightarrow> bool \<Rightarrow> string \<Rightarrow> daily_metric" where
  "buildEmptyDailyMetric fl date includeRecords generatedAt =
     buildDailyMetric fl date [] [] includeRecords (Some []) (Some ALL_CHAIN_IDS_PUBLISHED) generatedAt"

definition normalizeMetricCompleteness :: "daily_metric \<Rightarrow> daily_metric" where
  "normalizeMetricCompleteness metric = metric \<lparr>
     dm_chainsMissing := filter (\<lambda>c. c \<notin> set (dm_chainsIndexed metric)) ALL_CHAIN_IDS_PUBLISHED,
     dm_crossChainComplete := isCrossChainComplete (dm_chainsIndexed metric) \<rparr>"

text \<open>The map by date: of several rows of a date the last one counts.\<close>

definition metricsByDate :: "daily_metric list \<Rightarrow> string \<rightharpoonup> daily_metric" where
  "metricsByDate metricRows = map_of (rev (map (\<lambda>m. (dm_date m, normalizeMetricCompleteness m)) metricRows))"

definition dateKeysForRange :: "date_range \<Rightarrow> string list" where
  "dateKeysForRange r = (case lenientDate (dr_start r) of Inl e \<Rightarrow> []
     | Inr start \<Rightarrow> map (\<lambda>i. formatDate (start + i)) [0..dr_days r - 1])"

definition isSelectedMetricBlock :: "daily_metric \<Rightarrow> string \<Rightarrow> rat \<Rightarrow> bool" where
  "isSelectedMetricBlock metric blockchain block = (case map_of (dm_blocks metric) blockchain of
     None \<Rightarrow> False | Some metricBlock \<Rightarrow> metricBlock \<noteq> 0 \<and> block = metricBlock)"

definition selectedAsset :: "daily_metric \<Rightarrow> treasury_asset \<Rightarrow> bool" where
  "selectedAsset metric asset = isSelectedMetricBlock metric (ta_blockchain asset) (ta_block asset)"

definition selectedSupply :: "daily_metric \<Rightarrow> ohm_supply \<Rightarrow> bool" where
  "selectedSupply metric supply = isSelectedMetricBlock metric (os_blockchain supply) (os_block supply)"

definition attachMetricRecords :: "(rat \<Rightarrow> rat) \<Rightarrow> daily_metric \<Rightarrow> treasury_asset list \<Rightarrow> ohm_supply list \<Rightarrow>
    daily_metric" where
  "attachMetricRecords fl metric treasuryAssets ohmSupply =
     (let records = buildDailyMetric fl (dm_date metric) (filter (selectedAsset metric) treasuryAssets)
        (filter (selectedSupply metric) ohmSupply) True (Some (dm_chainsIndexed metric))
        (Some (dm_chainsMissing metric)) (rm_timestamp (dm_meta metric))
      in metric \<lparr> dm_ohmTotalSupplyRecords := dm_ohmTotalSupplyRecords records,
           dm_ohmCirculatingSupplyRecords := dm_ohmCirculatingSupplyRecords records,
           dm_ohmFloatingSupplyRecords := dm_ohmFloatingSupplyRecords records,
           dm_ohmBackedSupplyRecords := dm_ohmBackedSupplyRecords records,
           dm_treasuryMarketValueRecords := dm_treasuryMarketValueRecords records,
           dm_treasuryLiquidBackingRecords := dm_treasuryLiquidBackingRecords records \<rparr>)"

definition readDailyMetrics :: "api_config \<Rightarrow> manifest \<Rightarrow> date_range \<Rightarrow> bool \<Rightarrow> string \<Rightarrow>
    read_error + daily_metric list" where
  "readDailyMetrics config manifest r includeRecords generatedAt =
     (case readArtifactRows asMetricRows dm_date config manifest r METRICS_PREFIX of Inl e \<Rightarrow> Inl e
      | Inr metricRows \<Rightarrow>
     (case (if includeRecords then readArtifactRows asAssetRows ta_date config manifest r ASSETS_PREFIX
         else Inr []) of Inl e \<Rightarrow> Inl e
      | Inr treasuryAssets \<Rightarrow>
     (case (if includeRecords then readArtifactRows asSupplyRows os_date config manifest r SUPPLY_PREFIX
         else Inr []) of Inl e \<Rightarrow> Inl e
      | Inr ohmSupply \<Rightarrow> Inr (map (\<lambda>date. case metricsByDate metricRows date of
            None \<Rightarrow> buildEmptyDailyMetric (ac_fl config) date includeRecords generatedAt
          | Some metric \<Rightarrow> if \<not> includeRecords then metric
              else attachMetricRecords (ac_fl config) metric
                (filter (\<lambda>asset. ta_date asset = date) treasuryAssets)
                (filter (\<lambda>supply. os_date supply = date) ohmSupply))
          (dateKeysForRange r)))))"

definition readSelectedDailyRecords :: "(document \<Rightarrow> 'r list option) \<Rightarrow> ('r \<Rightarrow> string) \<Rightarrow>
    (daily_metric \<Rightarrow> 'r \<Rightarrow> bool) \<Rightarrow> api_config \<Rightarrow> manifest \<Rightarrow> date_range \<Rightarrow> string \<Rightarrow> read_error + 'r list" where
  "readSelectedDailyRecords asRows date selected config manifest r keyPrefix =
     (case (readArtifactRows asMetricRows dm_date config manifest r METRICS_PREFIX,
         readArtifactRows asRows date config manifest r keyPrefix) of
        (Inl e, _) \<Rightarrow> Inl e
      | (_, Inl e) \<Rightarrow> Inl e
      | (Inr metricRows, Inr records) \<Rightarrow> Inr (filter (\<lambda>record. case metricsByDate metricRows (date record) of
            None \<Rightarrow> False | Some metric \<Rightarrow> selected metric record) records))"

section \<open>Legacy operations\<close>

definition LEGACY_VARIABLE_KEYS :: "string list" where
  "LEGACY_VARIABLE_KEYS = [''startDate'', ''start'', ''endDate'', ''end'', ''includeRecords'',
     ''crossChainDataComplete'']"

definition LEGACY_IGNORED_VARIABLE_KEYS :: "string list" where
  "LEGACY_IGNORED_VARIABLE_KEYS = [''dateOffset'']"

definition parseLegacyVariablesJson :: "api_config \<Rightarrow> string \<Rightarrow> string + (string \<times> json) list" where
  "parseLegacyVariablesJson config value =
     (case (case ac_parseJson config value of Some j \<Rightarrow> Some j
        | None \<Rightarrow> Option.bind (ac_decode config value) (ac_parseJson config)) of
        None \<Rightarrow> Inl ''Invalid wg_variables JSON.''
      | Some (JObject entries) \<Rightarrow> Inr entries
      | Some _ \<Rightarrow> Inl ''wg_variables must be a JSON object.'')"

definition validateLegacyVariables :: "(string \<times> json) list \<Rightarrow> string + (string \<times> json) list" where
  "validateLegacyVariables variables =
     (let unsupportedKeys = filter (\<lambda>key. key \<notin> set LEGACY_VARIABLE_KEYS
        \<and> key \<notin> set LEGACY_IGNORED_VARIABLE_KEYS) (map fst variables)
      in if unsupportedKeys \<noteq> [] then Inl ''Unsupported wg_variables field(s)''
         else Inr (filter (\<lambda>(key, _). key \<in> set LEGACY_VARIABLE_KEYS) variables))"

definition parseLegacyVariables :: "api_config \<Rightarrow> (string \<times> string) list \<Rightarrow> string + (string \<times> json) list" where
  "parseLegacyVariables config params = (case map_of params ''wg_variables'' of
     None \<Rightarrow> Inr []
   | Some value \<Rightarrow> if value = '''' then Inr []
       else (case parseLegacyVariablesJson config value of Inl e \<Rightarrow> Inl e
         | Inr entries \<Rightarrow> validateLegacyVariables entries))"

definition legacyString :: "(string \<times> json) list \<Rightarrow> string \<Rightarrow> string option" where
  "legacyString variables key = (case map_of variables key of
     Some (JString value) \<Rightarrow> if trim value \<noteq> '''' then Some value else None | _ \<Rightarrow> None)"

definition legacyFlag :: "(string \<times> json) list \<Rightarrow> string \<Rightarrow> bool" where
  "legacyFlag variables key \<longleftrightarrow> map_of variables key = Some (JBool True)"

text \<open>\<open>None\<close> where the requested range misses the published one.\<close>

definition resolveLegacyRange :: "string \<Rightarrow> (string \<times> json) list \<Rightarrow> manifest \<Rightarrow> int \<Rightarrow>
    string + date_range option" where
  "resolveLegacyRange pathname variables manifest maxRangeDays =
     (let resolve = (\<lambda>start end'. resolveDateRange start (Some end') (mf_latestDate manifest)
        (Some maxRangeDays) True)
      in if startsWith pathname ''/operations/latest/''
         then map_sum id Some (resolve (mf_latestDate manifest) (mf_latestDate manifest))
         else if startsWith pathname ''/operations/earliest/''
         then map_sum id Some (resolve (mf_earliestDate manifest) (mf_earliestDate manifest))
         else (let start = nullish (legacyString variables ''startDate'')
                     (nullish (legacyString variables ''start'') (mf_earliestDate manifest));
                   end' = nullish (legacyString variables ''endDate'')
                     (nullish (legacyString variables ''end'') (mf_latestDate manifest))
               in case resolve start end' of Inl e \<Rightarrow> Inl e
                  | Inr requested \<Rightarrow>
                      if strLess (dr_end requested) (mf_earliestDate manifest)
                        \<or> strLess (mf_latestDate manifest) (dr_start requested) then Inr None
                      else map_sum id Some (resolve
                        (if strLess (dr_start requested) (mf_earliestDate manifest)
                         then mf_earliestDate manifest else dr_start requested)
                        (if strLess (mf_latestDate manifest) (dr_end requested)
                         then mf_latestDate manifest else dr_end requested))))"

text \<open>A stable sort by date, latest first.\<close>

definition legacyRowsDescending :: "('r \<Rightarrow> string) \<Rightarrow> 'r list \<Rightarrow> 'r list" where
  "legacyRowsDescending date rows =
     rev (sort_key (\<lambda>row. map (of_char :: char \<Rightarrow> nat) (date row)) (rev rows))"

record protocol_metric =
  pm_id :: string
  pm_block :: rat
  pm_currentAPY :: rat
  pm_currentIndex :: rat
  pm_date :: string
  pm_gOhmPrice :: rat
  pm_gOhmTotalSupply :: rat
  pm_nextDistributedOhm :: rat
  pm_nextEpochRebase :: rat
  pm_ohmPrice :: rat
  pm_ohmTotalSupply :: rat
  pm_sOhmCirculatingSupply :: rat
  pm_timestamp :: rat
  pm_totalValueLocked :: rat

definition dailyMetricToProtocolMetric :: "(rat \<Rightarrow> rat) \<Rightarrow> daily_metric \<Rightarrow> protocol_metric" where
  "dailyMetricToProtocolMetric fl metric = \<lparr> pm_id = ''protocol-metric-'' @ dm_date metric,
     pm_block = nullish (map_of (dm_blocks metric) ''Ethereum'') 0, pm_currentAPY = dm_ohmApy metric,
     pm_currentIndex = dm_ohmIndex metric, pm_date = dm_date metric, pm_gOhmPrice = dm_gOhmPrice metric,
     pm_gOhmTotalSupply = (if dm_ohmIndex metric = 0 then 0
       else fl (dm_ohmTotalSupply metric / dm_ohmIndex metric)),
     pm_nextDistributedOhm = 0, pm_nextEpochRebase = 0, pm_ohmPrice = dm_ohmPrice metric,
     pm_ohmTotalSupply = dm_ohmTotalSupply metric,
     pm_sOhmCirculatingSupply = dm_sOhmCirculatingSupply metric,
     pm_timestamp = nullish (map_of (dm_timestamps metric) ''Ethereum'') 0,
     pm_totalValueLocked = dm_sOhmTotalValueLocked metric \<rparr>"

datatype legacy_data =
  Legacy_Metric daily_metric
| Legacy_Metrics "daily_metric list"
| Legacy_Records "treasury_asset list"
| Legacy_Supplies "ohm_supply list"
| Legacy_Protocol "protocol_metric list"

definition readLegacyOperation :: "string \<Rightarrow> (string \<times> json) list \<Rightarrow> api_config \<Rightarrow> manifest \<Rightarrow>
    read_error + legacy_data" where
  "readLegacyOperation pathname variables config manifest =
     (case resolveLegacyRange pathname variables manifest (ac_maxRangeDays config) of
        Inl e \<Rightarrow> Inl (Read_Failure e)
      | Inr None \<Rightarrow> Inr (Legacy_Metrics [])
      | Inr (Some r) \<Rightarrow>
          if endsWith pathname ''/tokenRecords''
          then map_sum id (\<lambda>rows. Legacy_Records (legacyRowsDescending ta_date rows))
            (readSelectedDailyRecords asAssetRows ta_date selectedAsset config manifest r ASSETS_PREFIX)
          else if endsWith pathname ''/tokenSupplies''
          then map_sum id (\<lambda>rows. Legacy_Supplies (legacyRowsDescending os_date rows))
            (readSelectedDailyRecords asSupplyRows os_date selectedSupply config manifest r SUPPLY_PREFIX)
          else (let includeRecords = legacyFlag variables ''includeRecords'';
                    generatedAt = nullish (ac_generatedAt config) (mf_generatedAt manifest)
                in case readDailyMetrics config manifest r includeRecords generatedAt of Inl e \<Rightarrow> Inl e
                   | Inr metrics \<Rightarrow>
                       (let filteredMetrics = (if legacyFlag variables ''crossChainDataComplete''
                              then filter dm_crossChainComplete metrics else metrics)
                        in Inr (if endsWith pathname ''/metrics''
                            \<and> \<not> startsWith pathname ''/operations/paginated/''
                          then Legacy_Metric (case filteredMetrics of m # _ \<Rightarrow> m
                            | [] \<Rightarrow> buildEmptyDailyMetric (ac_fl config) (dr_start r) includeRecords generatedAt)
                          else if endsWith pathname ''/protocolMetrics''
                          then Legacy_Protocol (legacyRowsDescending pm_date
                            (map (dailyMetricToProtocolMetric (ac_fl config)) filteredMetrics))
                          else Legacy_Metrics (legacyRowsDescending dm_date filteredMetrics)))))"

section \<open>Requests and responses\<close>

text \<open>\<open>ar_url\<close> is \<open>None\<close> where the URL does not parse; content lengths are given as the numbers
  their headers read as.\<close>

record api_request =
  ar_method :: string
  ar_url :: "(string \<times> (string \<times> string) list) option"
  ar_contentLength :: "int list"
  ar_transferEncoding :: bool

datatype api_body =
  No_Body
| Error_Body string string
| Ready_Body
| OpenApi_Body
| Docs_Body
| Bounds_Body string string int "string option" "indexing_progress option"
| Metrics_Body "daily_metric list" date_range
| Assets_Body "treasury_asset list" date_range
| Supply_Body "ohm_supply list" date_range
| AtBlock_Body
| Health_Body
| Legacy_Body legacy_data

record api_response =
  rs_status :: nat
  rs_cacheControl :: "string option"
  rs_deprecation :: bool
  rs_body :: api_body

definition PUBLIC_CACHE_CONTROL :: string where "PUBLIC_CACHE_CONTROL = ''public, max-age=3600''"
definition NO_STORE :: string where "NO_STORE = ''no-store''"

text \<open>\<open>sendBody\<close> leaves the body out for HEAD.\<close>

definition sendJson :: "api_request \<Rightarrow> nat \<Rightarrow> string option \<Rightarrow> bool \<Rightarrow> api_body \<Rightarrow> api_response" where
  "sendJson req status cacheControl deprecation body = \<lparr> rs_status = status,
     rs_cacheControl = cacheControl, rs_deprecation = deprecation,
     rs_body = (if ar_method req = ''HEAD'' then No_Body else body) \<rparr>"

definition sendError :: "api_request \<Rightarrow> nat \<Rightarrow> bool \<Rightarrow> string \<Rightarrow> string \<Rightarrow> api_response" where
  "sendError req status deprecation code message = sendJson req status None deprecation (Error_Body code message)"

definition hasRequestBody :: "api_request \<Rightarrow> bool" where
  "hasRequestBody req \<longleftrightarrow> list_ex (\<lambda>value. 0 < value) (ar_contentLength req) \<or> ar_transferEncoding req"

definition SUPPORTED_QUERY_PARAMS :: "(string \<times> string list) list" where
  "SUPPORTED_QUERY_PARAMS = [(''/openapi.json'', []), (''/docs'', []), (''/operations/health'', []),
     (''/ready'', []), (''/v2/bounds'', []), (''/v2/metrics/daily'', [''start'', ''end'', ''includeRecords'']),
     (''/v2/ohm-supply/daily'', [''start'', ''end'']), (''/v2/treasury-assets/daily'', [''start'', ''end''])]"

definition supportedQueryParamsForPath :: "string \<Rightarrow> string list option" where
  "supportedQueryParamsForPath pathname = (if startsWith pathname ''/operations/'' then Some [''wg_variables'']
     else map_of SUPPORTED_QUERY_PARAMS pathname)"

definition validateQueryParams :: "string \<Rightarrow> (string \<times> string) list \<Rightarrow> (string \<times> string) option" where
  "validateQueryParams pathname params = (case supportedQueryParamsForPath pathname of
     None \<Rightarrow> None
   | Some supportedKeys \<Rightarrow>
       if list_ex (\<lambda>(key, _). key \<notin> set supportedKeys) params
       then Some (''unsupported_query_parameter'', ''Unsupported query parameter(s)'')
       else if list_ex (\<lambda>key. 1 < length (filter (\<lambda>(k, _). k = key) params)) supportedKeys
       then Some (''duplicate_query_parameter'', ''Duplicate query parameter is not supported'')
       else None)"

definition resolveV2Range :: "(string \<times> string) list \<Rightarrow> api_config \<Rightarrow> manifest \<Rightarrow> string + date_range" where
  "resolveV2Range params config manifest = (case map_of params ''start'' of
     None \<Rightarrow> Inl ''start is required''
   | Some start \<Rightarrow> resolveDateRange start (map_of params ''end'') (mf_latestDate manifest)
       (Some (ac_maxRangeDays config)) True)"

section \<open>The handler\<close>

text \<open>Every handler first needs the manifest; without it the answer is 503.\<close>

definition withManifest :: "api_request \<Rightarrow> api_config \<Rightarrow> bool \<Rightarrow> (manifest \<Rightarrow> api_response option) \<Rightarrow>
    api_response option" where
  "withManifest req config deprecation serve = (case getManifest config of
     Inl Artifact_Not_Found \<Rightarrow> Some (sendError req 503 deprecation ''manifest_not_published''
       ''Metrics artifacts have not been published yet.'')
   | Inl (Read_Failure e) \<Rightarrow> Some (sendError req 503 deprecation ''manifest_unavailable''
       ''Metrics artifact manifest is unavailable.'')
   | Inr manifest \<Rightarrow> serve manifest)"

text \<open>The \<open>catch\<close> of the data endpoints: a missing artifact returns without an answer (\<open>None\<close>), any
  other failure is reported as the client's.\<close>

definition answer :: "api_request \<Rightarrow> bool \<Rightarrow> string \<Rightarrow> read_error + api_body \<Rightarrow> api_response option" where
  "answer req deprecation code result = (case result of
     Inl Artifact_Not_Found \<Rightarrow> None
   | Inl (Read_Failure e) \<Rightarrow> Some (sendError req 400 deprecation code e)
   | Inr body \<Rightarrow> Some (sendJson req 200 (Some PUBLIC_CACHE_CONTROL) deprecation body))"

definition dailyEndpoint :: "api_request \<Rightarrow> api_config \<Rightarrow> (string \<times> string) list \<Rightarrow>
    (manifest \<Rightarrow> date_range \<Rightarrow> read_error + api_body) \<Rightarrow> api_response option" where
  "dailyEndpoint req config params serve = withManifest req config False (\<lambda>manifest.
     answer req False ''invalid_date_range'' (case resolveV2Range params config manifest of
       Inl e \<Rightarrow> Inl (Read_Failure e) | Inr r \<Rightarrow> serve manifest r))"

definition routeRequest :: "api_request \<Rightarrow> api_config \<Rightarrow> string \<Rightarrow> (string \<times> string) list \<Rightarrow>
    api_response option" where
  "routeRequest req config pathname params =
     (if pathname = ''/ready'' then Some (sendJson req 200 (Some NO_STORE) False Ready_Body)
      else if pathname = ''/openapi.json'' then Some (sendJson req 200 (Some PUBLIC_CACHE_CONTROL) False OpenApi_Body)
      else if pathname = ''/docs'' then Some (sendJson req 200 (Some PUBLIC_CACHE_CONTROL) False Docs_Body)
      else if pathname = ''/v2/bounds'' then withManifest req config False (\<lambda>m. Some (sendJson req 200
        (Some NO_STORE) False (Bounds_Body (mf_earliestDate m) (mf_latestDate m) (ac_maxRangeDays config)
          (mf_indexerDeploymentId m) (mf_indexingProgress m))))
      else if pathname = ''/v2/metrics/daily'' then dailyEndpoint req config params (\<lambda>m r.
        map_sum id (\<lambda>rows. Metrics_Body rows r) (readDailyMetrics config m r
          (map_of params ''includeRecords'' = Some ''true'')
          (nullish (ac_generatedAt config) (mf_generatedAt m))))
      else if pathname = ''/v2/treasury-assets/daily'' then dailyEndpoint req config params (\<lambda>m r.
        map_sum id (\<lambda>rows. Assets_Body rows r)
          (readSelectedDailyRecords asAssetRows ta_date selectedAsset config m r ASSETS_PREFIX))
      else if pathname = ''/v2/ohm-supply/daily'' then dailyEndpoint req config params (\<lambda>m r.
        map_sum id (\<lambda>rows. Supply_Body rows r)
          (readSelectedDailyRecords asSupplyRows os_date selectedSupply config m r SUPPLY_PREFIX))
      else if pathname \<in> set LEGACY_AT_BLOCK_PATHS then Some (sendJson req 501 None True AtBlock_Body)
      else if pathname = ''/operations/health'' then Some (sendJson req 200 (Some NO_STORE) True Health_Body)
      else if pathname \<in> set LEGACY_OPERATION_PATHS
      then (case parseLegacyVariables config params of
          Inl e \<Rightarrow> Some (sendError req 400 True ''invalid_wg_variables'' e)
        | Inr variables \<Rightarrow> withManifest req config True (\<lambda>m. answer req True ''invalid_legacy_request''
            (map_sum id Legacy_Body (readLegacyOperation pathname variables config m))))
      else Some (sendError req 404 False ''not_found'' ''Route not found.''))"

definition handleMetricsApiRequest :: "api_request \<Rightarrow> api_config \<Rightarrow> api_response option" where
  "handleMetricsApiRequest req config =
     (if ar_method req = ''OPTIONS'' then Some (sendJson req 204 None False No_Body)
      else if ar_method req \<noteq> ''GET'' \<and> ar_method req \<noteq> ''HEAD''
      then Some (sendError req 405 False ''method_not_allowed'' ''Only GET, HEAD, and OPTIONS are supported.'')
      else if hasRequestBody req
      then Some (sendError req 400 False ''request_body_not_allowed''
        ''GET and HEAD requests must not include a request body.'')
      else (case ar_url req of
          None \<Rightarrow> Some (sendError req 400 False ''invalid_request_url'' ''Request URL is invalid.'')
        | Some (pathname, params) \<Rightarrow> (case validateQueryParams pathname params of
            Some (code, message) \<Rightarrow> Some (sendError req 400 False code message)
          | None \<Rightarrow> routeRequest req config pathname params)))"

end
