(* ===== verification/Client.thy ===== *)
theory Client
  imports Date_Ranges Prelude "HOL-Library.AList"
begin

text \<open>
  The client library (\<open>apps/client/src/client.ts\<close>): the requests it sends, the bounds it caches
  and the splitting of a long range into requests the server accepts. The file repeats
  \<open>parseDate\<close> and \<open>formatDate\<close> of \<open>date-ranges.ts\<close>, so the definitions of \<open>Date_Ranges\<close>
  serve for both. \<open>fetch\<close> is a parameter.
\<close>

section \<open>Requests\<close>

text \<open>A URL of the API: the path and the query parameters, set in order, a repeated name
  replacing its value.\<close>

record request =
  rq_path :: string
  rq_params :: "(string \<times> string) list"

definition url :: "string \<Rightarrow> request" where
  "url path = \<lparr> rq_path = path, rq_params = [] \<rparr>"

definition setParam :: "string \<Rightarrow> string \<Rightarrow> request \<Rightarrow> request" where
  "setParam name value u = u \<lparr> rq_params := AList.update name value (rq_params u) \<rparr>"

definition appendRange :: "string \<Rightarrow> string option \<Rightarrow> request \<Rightarrow> request" where
  "appendRange start until u = (let u' = setParam ''start'' start u in
     case until of None \<Rightarrow> u' | Some e \<Rightarrow> setParam ''end'' e u')"

definition includeRecordsParam :: "bool option \<Rightarrow> request \<Rightarrow> request" where
  "includeRecordsParam includeRecords u = (case includeRecords of None \<Rightarrow> u
     | Some b \<Rightarrow> setParam ''includeRecords'' (if b then ''true'' else ''false'') u)"

definition getLegacyOperationPath :: "string \<Rightarrow> string" where
  "getLegacyOperationPath operationName = ''/operations/'' @ operationName"

text \<open>\<open>query\<close>: \<open>variables\<close> is the input printed by \<open>JSON.stringify\<close>, if there is one.\<close>

definition queryRequest :: "string \<Rightarrow> string option \<Rightarrow> request" where
  "queryRequest operationName variables = (let u = url (getLegacyOperationPath operationName) in
     case variables of None \<Rightarrow> u | Some v \<Rightarrow> setParam ''wg_variables'' v u)"

text \<open>The loop of \<open>trimTrailingSlashes\<close> lowers \<open>end\<close> while a slash precedes it.\<close>

fun trimEnd :: "string \<Rightarrow> nat \<Rightarrow> nat" where
  "trimEnd value 0 = 0"
| "trimEnd value (Suc n) = (if value ! n = CHR ''/'' then trimEnd value n else Suc n)"

definition trimTrailingSlashes :: "string \<Rightarrow> string" where
  "trimTrailingSlashes value = take (trimEnd value (length value)) value"

lemma trimTrailingSlashes_dropWhile:
  "trimTrailingSlashes value = rev (dropWhile (\<lambda>c. c = CHR ''/'') (rev value))"
proof -
  have "take (trimEnd value n) value = rev (dropWhile (\<lambda>c. c = CHR ''/'') (rev (take n value)))"
    if "n \<le> length value" for n
    using that by (induction n) (simp_all add: take_Suc_conv_app_nth)
  from this [of "length value"] show ?thesis by (simp add: trimTrailingSlashes_def)
qed

section \<open>Answers\<close>

text \<open>\<open>fetchJson\<close>: a response whose status is not in the 200s throws.\<close>

definition fetchJson :: "(request \<Rightarrow> string + nat \<times> 'a) \<Rightarrow> request \<Rightarrow> string + 'a" where
  "fetchJson fetchImpl u = (case fetchImpl u of Inl e \<Rightarrow> Inl e
     | Inr (status, body) \<Rightarrow> if 200 \<le> status \<and> status \<le> 299 then Inr body
         else Inl (''Metrics API request failed with status '' @ nat_str status))"

record bounds =
  bd_earliestDate :: string
  bd_latestDate :: string
  bd_maxRangeDays :: int

text \<open>\<open>getCachedBounds\<close>: a settled promise is kept, a rejected one is forgotten.\<close>

definition getCachedBounds :: "(request \<Rightarrow> string + nat \<times> bounds) \<Rightarrow> bounds option \<Rightarrow>
    (string + bounds) \<times> bounds option" where
  "getCachedBounds fetchBounds cache = (case cache of Some b \<Rightarrow> (Inr b, cache)
     | None \<Rightarrow> (case fetchJson fetchBounds (url ''/v2/bounds'') of
         Inl e \<Rightarrow> (Inl e, None)
       | Inr b \<Rightarrow> (Inr b, Some b)))"

section \<open>Long ranges\<close>

function splitChunks :: "int \<Rightarrow> int \<Rightarrow> int \<Rightarrow> (string \<times> string) list" where
  "splitChunks maxDays cursor until =
     (if 1 \<le> maxDays \<and> cursor \<le> until
      then (let chunkEnd = min until (cursor + (maxDays - 1)) in
        (formatDate cursor, formatDate chunkEnd) # splitChunks maxDays (chunkEnd + 1) until)
      else [])"
  by pat_completeness auto
termination
  by (relation "measure (\<lambda>(maxDays, cursor, until). nat (until + 1 - cursor))") auto

declare splitChunks.simps [simp del]

definition splitRange :: "string \<Rightarrow> string \<Rightarrow> int \<Rightarrow> string + (string \<times> string) list" where
  "splitRange start until maxDays =
     (if maxDays < 1 then Inl ''maxRangeDays must be greater than zero''
      else (case parseDate start of Inl e \<Rightarrow> Inl e
        | Inr a \<Rightarrow> (case parseDate until of Inl e \<Rightarrow> Inl e
          | Inr b \<Rightarrow> if b < a then Inl ''end must be greater than or equal to start''
              else Inr (splitChunks maxDays a b))))"

text \<open>\<open>Promise.all\<close>: all values, or a rejection if any promise rejects (which one it reports
  depends on timing; the model reports the first in order).\<close>

fun allPromises :: "(string + 'a) list \<Rightarrow> string + 'a list" where
  "allPromises [] = Inr []"
| "allPromises (Inl e # ps) = Inl e"
| "allPromises (Inr x # ps) = (case allPromises ps of Inl e \<Rightarrow> Inl e | Inr xs \<Rightarrow> Inr (x # xs))"

definition dailyRequest :: "string \<Rightarrow> bool option \<Rightarrow> string \<Rightarrow> string option \<Rightarrow> request" where
  "dailyRequest path includeRecords start until =
     includeRecordsParam includeRecords (appendRange start until (url path))"

definition fetchAutoPaginated :: "(request \<Rightarrow> string + nat \<times> bounds) \<Rightarrow>
    (request \<Rightarrow> string + nat \<times> 'r list) \<Rightarrow> bounds option \<Rightarrow> string \<Rightarrow> bool option \<Rightarrow> string \<Rightarrow>
    string option \<Rightarrow> (string + 'r list) \<times> bounds option" where
  "fetchAutoPaginated fetchBounds fetchRows cache path includeRecords start until =
     (case getCachedBounds fetchBounds cache of
        (Inl e, cache') \<Rightarrow> (Inl e, cache')
      | (Inr bounds, cache') \<Rightarrow>
          (case splitRange start (nullish until (bd_latestDate bounds)) (bd_maxRangeDays bounds) of
             Inl e \<Rightarrow> (Inl e, cache')
           | Inr chunks \<Rightarrow> (map_sum id concat (allPromises
               (map (\<lambda>(s, e). fetchJson fetchRows (dailyRequest path includeRecords s (Some e))) chunks)),
               cache')))"

text \<open>The daily endpoints, paginated or not.\<close>

definition getDaily :: "(request \<Rightarrow> string + nat \<times> bounds) \<Rightarrow> (request \<Rightarrow> string + nat \<times> 'r list) \<Rightarrow>
    bounds option \<Rightarrow> string \<Rightarrow> bool \<Rightarrow> bool option \<Rightarrow> string \<Rightarrow> string option \<Rightarrow>
    (string + 'r list) \<times> bounds option" where
  "getDaily fetchBounds fetchRows cache path autoPaginate includeRecords start until =
     (if autoPaginate then fetchAutoPaginated fetchBounds fetchRows cache path includeRecords start until
      else (fetchJson fetchRows (dailyRequest path includeRecords start until), cache))"

section \<open>Correctness\<close>

definition chunkDays :: "string \<times> string \<Rightarrow> int list" where
  "chunkDays = (\<lambda>(s, e). case (parseDate s, parseDate e) of (Inr a, Inr b) \<Rightarrow> [a..b] | _ \<Rightarrow> [])"

lemma splitChunks_days:
  assumes "1 \<le> maxDays" "four_digit_day a" "four_digit_day b"
  shows "concat (map chunkDays (splitChunks maxDays a b)) = [a..b]
    \<and> (\<forall>(s, e) \<in> set (splitChunks maxDays a b). \<exists>x y. s = formatDate x \<and> e = formatDate y
        \<and> a \<le> x \<and> x \<le> y \<and> y \<le> b \<and> y - x < maxDays)"
  using assms
proof (induction maxDays a b rule: splitChunks.induct)
  case (1 maxDays a b)
  show ?case
  proof (cases "a \<le> b")
    case True
    let ?c = "min b (a + (maxDays - 1))"
    have c: "a \<le> ?c" "?c \<le> b" using 1 True by auto
    then have "four_digit_day ?c" using 1 four_digit_between by blast
    then have here: "chunkDays (formatDate a, formatDate ?c) = [a..?c]"
      using 1 by (simp add: chunkDays_def parseDate_formatDate)
    show ?thesis
    proof (cases "?c + 1 \<le> b")
      case more: True
      then have "four_digit_day (?c + 1)" using 1 c four_digit_between [of a b "?c + 1"] by simp
      with 1 True have IH: "concat (map chunkDays (splitChunks maxDays (?c + 1) b)) = [?c + 1..b]"
        "\<forall>(s, e) \<in> set (splitChunks maxDays (?c + 1) b). \<exists>x y. s = formatDate x \<and> e = formatDate y
          \<and> ?c + 1 \<le> x \<and> x \<le> y \<and> y \<le> b \<and> y - x < maxDays"
        by (simp_all add: Let_def)
      have "[a..b] = [a..?c] @ [?c + 1..b]" using c upto_split2 [of a ?c b] by simp
      moreover have "splitChunks maxDays a b = (formatDate a, formatDate ?c) # splitChunks maxDays (?c + 1) b"
        using 1 True by (subst splitChunks.simps) (simp add: Let_def)
      ultimately show ?thesis using IH here c 1(2) by fastforce
    next
      case False
      then have "?c = b" using c by simp
      moreover from this have "splitChunks maxDays (?c + 1) b = []" by (subst splitChunks.simps) simp
      moreover have "splitChunks maxDays a b = (formatDate a, formatDate ?c) # splitChunks maxDays (?c + 1) b"
        using 1 True by (subst splitChunks.simps) (simp add: Let_def)
      moreover have "b - a < maxDays" using \<open>?c = b\<close> by linarith
      ultimately show ?thesis using here True by (auto intro: exI [of _ b])
    qed
  next
    case False
    then have "splitChunks maxDays a b = []" by (subst splitChunks.simps) simp
    with False show ?thesis by simp
  qed
qed

lemma allPromises_values: "allPromises (map (\<lambda>x. Inr (f x)) xs) = Inr (map f xs)"
  by (induction xs) simp_all

text \<open>Every chunk is a range of at most \<open>maxDays\<close> days; the answers to the chunks are the days' rows.\<close>

lemma paginate_days:
  assumes "fetchBounds (url ''/v2/bounds'') = Inr (200, bounds)" "1 \<le> bd_maxRangeDays bounds"
    and "parseDate start = Inr a" "parseDate (nullish until (bd_latestDate bounds)) = Inr b" "a \<le> b"
    and "\<And>x y. a \<le> x \<Longrightarrow> x \<le> y \<Longrightarrow> y \<le> b \<Longrightarrow> y - x < bd_maxRangeDays bounds \<Longrightarrow>
      fetchRows (dailyRequest path includeRecords (formatDate x) (Some (formatDate y))) = Inr (200, concat (map rowsOf [x..y]))"
  shows "getDaily fetchBounds fetchRows None path True includeRecords start until =
    (Inr (concat (map rowsOf [a..b])), Some bounds)"
proof -
  let ?max = "bd_maxRangeDays bounds" and ?rows = "\<lambda>c. concat (map rowsOf (chunkDays c))"
  note digits = parseDate_four_digit [OF assms(3)] parseDate_four_digit [OF assms(4)]
  note chunks = splitChunks_days [OF assms(2) digits]
  have split: "splitRange start (nullish until (bd_latestDate bounds)) ?max = Inr (splitChunks ?max a b)"
    using assms(2-5) by (simp add: splitRange_def)
  have page: "fetchJson fetchRows (dailyRequest path includeRecords s (Some e)) = Inr (?rows (s, e))"
    if c: "(s, e) \<in> set (splitChunks ?max a b)" for s e
  proof -
    from chunks c obtain x y where p: "s = formatDate x" "e = formatDate y" "a \<le> x" "x \<le> y" "y \<le> b" "y - x < ?max" by blast
    then have "chunkDays (s, e) = [x..y]"
      using four_digit_between [OF digits, of x] four_digit_between [OF digits, of y]
      by (simp add: chunkDays_def parseDate_formatDate)
    with assms(6) [OF p(3-6)] p(1,2) show ?thesis by (simp add: fetchJson_def)
  qed
  have pages: "allPromises (map (\<lambda>(s, e). fetchJson fetchRows (dailyRequest path includeRecords s (Some e)))
      (splitChunks ?max a b)) = Inr (map ?rows (splitChunks ?max a b))"
    using page by (subst map_cong [OF refl, of _ _ "\<lambda>c. Inr (?rows c)"]) (auto simp: allPromises_values)
  have days: "concat (map ?rows cs) = concat (map rowsOf (concat (map chunkDays cs)))" for cs
    by (induction cs) simp_all
  have "concat (map ?rows (splitChunks ?max a b)) = concat (map rowsOf [a..b])"
    unfolding days using chunks by simp
  then show ?thesis
    by (simp add: getDaily_def fetchAutoPaginated_def getCachedBounds_def assms(1) fetchJson_def [of fetchBounds]
        split pages)
qed

text \<open>
  C12: a paginated request for any range, however long, gives the rows of all its days in order.
  The server is only relied on to answer the ranges it accepts (\<open>resolveDateRange\<close> with its own
  maximum) with the rows of their days: the chunks are accepted, and they cover the range once.
\<close>

theorem auto_paginate_complete:
  assumes "fetchBounds (url ''/v2/bounds'') = Inr (200, bounds)" "1 \<le> bd_maxRangeDays bounds"
    and "parseDate start = Inr a" "parseDate (nullish until (bd_latestDate bounds)) = Inr b" "a \<le> b"
    and "\<And>s e r. resolveDateRange s (Some e) (bd_latestDate bounds) (Some (bd_maxRangeDays bounds)) True = Inr r \<Longrightarrow>
      fetchRows (dailyRequest path includeRecords s (Some e)) = Inr (200, concat (map rowsOf (chunkDays (s, e))))"
  shows "getDaily fetchBounds fetchRows None path True includeRecords start until =
    (Inr (concat (map rowsOf [a..b])), Some bounds)"
proof (rule paginate_days [where fetchBounds = fetchBounds and fetchRows = fetchRows, OF assms(1-5)])
  fix x y assume xy: "a \<le> x" "x \<le> y" "y \<le> b" "y - x < bd_maxRangeDays bounds"
  note digits = four_digit_between [OF parseDate_four_digit [OF assms(3)] parseDate_four_digit [OF assms(4)]]
  have p: "parseDate (formatDate x) = Inr x" "parseDate (formatDate y) = Inr y"
    using xy digits by (simp_all add: parseDate_formatDate)
  with xy have "\<exists>r. resolveDateRange (formatDate x) (Some (formatDate y)) (bd_latestDate bounds)
      (Some (bd_maxRangeDays bounds)) True = Inr r" by (simp add: resolveDateRange_def Let_def)
  then show "fetchRows (dailyRequest path includeRecords (formatDate x) (Some (formatDate y))) =
      Inr (200, concat (map rowsOf [x..y]))"
    using assms(6) p by (fastforce simp: chunkDays_def)
qed

definition sample_bounds :: bounds where
  "sample_bounds = \<lparr> bd_earliestDate = ''2021-01-01'', bd_latestDate = ''2024-02-29'', bd_maxRangeDays = 7 \<rparr>"

text \<open>A server that answers every request with the days themselves.\<close>

definition sample_fetch :: "request \<Rightarrow> string + nat \<times> int list" where
  "sample_fetch u = (case (map_of (rq_params u) ''start'', map_of (rq_params u) ''end'') of
     (Some s, Some e) \<Rightarrow> Inr (200, chunkDays (s, e)) | _ \<Rightarrow> Inr (400, []))"

theorem auto_paginate_complete_witness:
  "fst (getDaily (\<lambda>_. Inr (200, sample_bounds)) sample_fetch None ''/v2/metrics/daily'' True None
     ''2023-12-31'' None) = Inr [19722..19782]"
proof -
  have "parseDate ''2023-12-31'' = Inr 19722" "parseDate ''2024-02-29'' = Inr 19782" by code_simp+
  moreover have "sample_fetch (dailyRequest path None s (Some e)) =
      Inr (200, concat (map (\<lambda>n. [n]) (chunkDays (s, e))))" for path s e
    by (simp add: sample_fetch_def dailyRequest_def includeRecordsParam_def appendRange_def setParam_def url_def Let_def)
  ultimately show ?thesis
    using auto_paginate_complete [of "\<lambda>_. Inr (200, sample_bounds)" sample_bounds "''2023-12-31''" 19722 None 19782
      sample_fetch "''/v2/metrics/daily''" None "\<lambda>n. [n]"]
    by (simp add: sample_bounds_def)
qed

end
