(* ===== verification/Publish_Serve.thy ===== *)
theory Publish_Serve
  imports Api Client
begin

text \<open>
  The publisher, the API and the client together: every request is answered, and what a client
  reads back for a published day is the row the metrics source gave the publisher.
\<close>

section \<open>Every request is answered\<close>

lemma map_sum_Inl [simp]: "map_sum id f x = Inl e \<longleftrightarrow> x = Inl e"
  by (cases x) simp_all

text \<open>A month without an artifact counts as empty, so that error never leaves the readers.\<close>

lemma readMonths_found: "readMonths get key asRows keep months \<noteq> Inl Artifact_Not_Found"
proof (induction months)
  case (Cons month months)
  then show ?case
    by (cases "readMonths get key asRows keep months") (auto split: sum.split read_error.split option.split)
qed simp

lemma readArtifactRows_found: "readArtifactRows asRows date config manifest r prefix \<noteq> Inl Artifact_Not_Found"
  by (auto simp: readArtifactRows_def readMonths_found split: option.split sum.split)

lemma readSelected_found:
  "readSelectedDailyRecords asRows date selected config manifest r prefix \<noteq> Inl Artifact_Not_Found"
  by (auto simp: readSelectedDailyRecords_def dest: readArtifactRows_found [THEN notE] split: sum.split)

lemma readDailyMetrics_found: "readDailyMetrics config manifest r includeRecords g \<noteq> Inl Artifact_Not_Found"
  by (auto simp: readDailyMetrics_def dest: readArtifactRows_found [THEN notE] split: sum.splits if_splits)

lemma readLegacy_found: "readLegacyOperation pathname variables config manifest \<noteq> Inl Artifact_Not_Found"
  by (auto simp: readLegacyOperation_def Let_def dest: readSelected_found [THEN notE]
      readDailyMetrics_found [THEN notE] split: sum.splits option.splits if_splits)

lemmas readers_found = readSelected_found readDailyMetrics_found readLegacy_found

text \<open>A response of the API: one of its statuses, cacheable by others only when it is a 200.\<close>

definition api_answer :: "api_response \<Rightarrow> bool" where
  "api_answer rs \<longleftrightarrow> rs_status rs \<in> {200, 204, 400, 404, 405, 501, 503}
     \<and> (rs_cacheControl rs = None \<or> rs_status rs = 200)"

lemma api_answer_send [simp]:
  "api_answer (sendJson req 200 c d b)"
  "status \<in> {204, 400, 404, 405, 501, 503} \<Longrightarrow> api_answer (sendJson req status None d b)"
  "status \<in> {204, 400, 404, 405, 501, 503} \<Longrightarrow> api_answer (sendError req status d code msg)"
  by (simp_all add: api_answer_def sendJson_def sendError_def)

lemma answer_answers: "result \<noteq> Inl Artifact_Not_Found \<Longrightarrow> \<exists>rs. answer req d code result = Some rs \<and> api_answer rs"
  by (cases result) (auto simp: answer_def split: read_error.split)

lemma withManifest_answers:
  "(\<And>m. \<exists>rs. serve m = Some rs \<and> api_answer rs) \<Longrightarrow> \<exists>rs. withManifest req config d serve = Some rs \<and> api_answer rs"
  by (auto simp: withManifest_def split: sum.split read_error.split)

lemma dailyEndpoint_answers:
  "(\<And>m r. serve m r \<noteq> Inl Artifact_Not_Found) \<Longrightarrow>
    \<exists>rs. dailyEndpoint req config params serve = Some rs \<and> api_answer rs"
  unfolding dailyEndpoint_def by (intro withManifest_answers answer_answers) (simp split: sum.split)

lemma answers_if:
  "\<exists>rs. x = Some rs \<and> api_answer rs \<Longrightarrow> \<exists>rs. y = Some rs \<and> api_answer rs \<Longrightarrow>
    \<exists>rs. (if P then x else y) = Some rs \<and> api_answer rs"
  by simp

lemma routeRequest_answers: "\<exists>rs. routeRequest req config pathname params = Some rs \<and> api_answer rs"
  unfolding routeRequest_def
  by (intro answers_if) (auto intro!: withManifest_answers answer_answers dailyEndpoint_answers
      simp: readers_found split: sum.split)

section \<open>ISO dates sort as strings\<close>

text \<open>Comparing digit strings of one length compares their numbers.\<close>

lemma codes_less_append:
  "length x = length y \<Longrightarrow> map (of_char :: char \<Rightarrow> nat) (x @ u) < map of_char (y @ v)
    \<longleftrightarrow> map (of_char :: char \<Rightarrow> nat) x < map of_char y \<or> x = y \<and> map (of_char :: char \<Rightarrow> nat) u < map of_char v"
proof (induction x y rule: list_induct2)
  case (Cons a x b y)
  have "(of_char a :: nat) = of_char b \<longleftrightarrow> a = b" by (rule of_char_eq_iff)
  with Cons show ?case by auto
qed simp

lemma codes_less_Cons:
  "map (of_char :: char \<Rightarrow> nat) (c # u) < map of_char (c # v) \<longleftrightarrow> map (of_char :: char \<Rightarrow> nat) u < map of_char v"
  by simp

lemma digits_less:
  assumes "length s = length t" "list_all is_digit s" "list_all is_digit t"
  shows "map (of_char :: char \<Rightarrow> nat) s < map of_char t \<longleftrightarrow> str_nat s < str_nat t"
  using assms
proof (induction s t rule: list_induct2)
  case (Cons a x b y)
  have n: "str_nat (c # z) = char_digit c * 10 ^ length z + str_nat z" for c z
    using str_nat_append [of "[c]" z] by (simp add: str_nat_def)
  have d: "(of_char c :: nat) = char_digit c + 48" if "is_digit c" for c
    using that by (simp add: is_digit_def char_digit_def)
  have b: "str_nat x < 10 ^ length y" "str_nat y < 10 ^ length y"
    using str_nat_digits [of x] str_nat_digits [of y] Cons.prems Cons.hyps by simp_all
  have "i * p + k < j * p + l \<longleftrightarrow> i < j \<or> i = j \<and> k < l" if "k < p" "l < p" for i j k l p :: nat
  proof (cases i j rule: linorder_cases)
    case less
    then have "i * p + p \<le> j * p" using mult_le_mono1 [of "Suc i" j p] by simp
    with less that show ?thesis by simp
  next
    case greater
    then have "j * p + p \<le> i * p" using mult_le_mono1 [of "Suc j" i p] by simp
    with greater that show ?thesis by simp
  qed simp
  from this [OF b] Cons show ?case by (simp add: n d)
qed simp

text \<open>A day is written with its year, month and day padded to their widths.\<close>

lemma formatDate_codes:
  assumes "four_digit_day n" "four_digit_day k"
  shows "strLess (formatDate n) (formatDate k) \<longleftrightarrow> n < k"
proof -
  obtain y m d where c: "civil_of_days n = (y, m, d)" using prod_cases3 by blast
  obtain y' m' d' where c': "civil_of_days k = (y', m', d')" using prod_cases3 by blast
  from iso_day_parts [OF assms(1) c] obtain Y M D where p: "iso_day n = Y @ CHR ''-'' # M @ CHR ''-'' # D"
    and parts: "Y = pad0 4 (nat_str (nat y))" "M = pad0 2 (nat_str (m + 1))" "D = pad0 2 (nat_str d)"
    and len: "length Y = 4" "length M = 2" "length D = 2" and r: "0 \<le> y" "m < 12" "days_of_civil y m d = n" .
  from iso_day_parts [OF assms(2) c'] obtain Y' M' D' where p': "iso_day k = Y' @ CHR ''-'' # M' @ CHR ''-'' # D'"
    and parts': "Y' = pad0 4 (nat_str (nat y'))" "M' = pad0 2 (nat_str (m' + 1))" "D' = pad0 2 (nat_str d')"
    and len': "length Y' = 4" "length M' = 2" "length D' = 2" and r': "0 \<le> y'" "m' < 12" "days_of_civil y' m' d' = k" .
  have digits: "list_all is_digit (pad0 w (nat_str i))" for w i by simp
  have pad: "pad0 w (nat_str i) = pad0 w (nat_str j) \<longleftrightarrow> i = j" for w i j
    by (metis str_nat_pad0 str_nat_nat_str)
  have eq: "Y = Y' \<longleftrightarrow> y = y'" "M = M' \<longleftrightarrow> m = m'"
    using r(1) r'(1) by (simp_all add: parts parts' pad eq_nat_nat_iff)
  have "strLess (formatDate n) (formatDate k) \<longleftrightarrow> map (of_char :: char \<Rightarrow> nat) Y < map of_char Y'
      \<or> Y = Y' \<and> (map (of_char :: char \<Rightarrow> nat) M < map of_char M' \<or> M = M' \<and> map (of_char :: char \<Rightarrow> nat) D < map of_char D')"
    by (simp only: strLess_def formatDate_def p p' codes_less_append codes_less_Cons len len')
  also have "\<dots> \<longleftrightarrow> str_nat Y < str_nat Y' \<or> Y = Y' \<and> (str_nat M < str_nat M' \<or> M = M' \<and> str_nat D < str_nat D')"
    using len len' digits by (subst (1 2 3) digits_less) (simp_all add: parts parts')
  also have "\<dots> \<longleftrightarrow> y < y' \<or> y = y' \<and> (m < m' \<or> m = m' \<and> d < d')"
    using r(1) r'(1) by (simp only: eq) (auto simp: parts parts')
  also have "\<dots> \<longleftrightarrow> n < k"
  proof -
    have index: "monthIndex n = 12 * y + int m" "monthIndex k = 12 * y' + int m'"
      by (simp_all add: monthIndex_def c c')
    consider "y < y' \<or> y = y' \<and> m < m'" | "y' < y \<or> y' = y \<and> m' < m" | "y = y'" "m = m'" by linarith
    then show ?thesis
    proof cases
      case 1
      then have "monthIndex n < monthIndex k" using r(2) r'(2) by (auto simp: index)
      then have "n < k" using monthIndex_mono [of k n] by linarith
      with 1 show ?thesis by auto
    next
      case 2
      then have "monthIndex k < monthIndex n" using r(2) r'(2) by (auto simp: index)
      then have "k < n" using monthIndex_mono [of n k] by linarith
      with 2 show ?thesis by auto
    next
      case 3
      then show ?thesis using r(3) r'(3) by (auto simp: days_of_civil_def)
    qed
  qed
  finally show ?thesis .
qed

text \<open>For the days of a range the comparison of strings in \<open>isInRange\<close> is that of days.\<close>

lemma isInRange_days:
  assumes "parseDate (dr_start r) = Inr a" "parseDate (dr_end r) = Inr b" "four_digit_day n"
  shows "isInRange (formatDate n) r \<longleftrightarrow> a \<le> n \<and> n \<le> b"
proof -
  note d = parseDate_four_digit [OF assms(1)] parseDate_four_digit [OF assms(2)]
  have "dr_start r = formatDate a" "dr_end r = formatDate b"
    using assms(1,2) parseDate_sound by metis+
  then show ?thesis using d assms(3) by (auto simp: isInRange_def formatDate_codes)
qed

section \<open>The months of an artifact key\<close>

lemma monthPattern_key: "four_digit_day n \<Longrightarrow> monthPattern (take 7 (formatDate n)) \<and> CHR ''/'' \<notin> set (take 7 (formatDate n))"
proof -
  assume n: "four_digit_day n"
  obtain y m d where c: "civil_of_days n = (y, m, d)" using prod_cases3 by blast
  from iso_day_parts [OF n c] obtain Y M D where p: "iso_day n = Y @ CHR ''-'' # M @ CHR ''-'' # D"
    and parts: "Y = pad0 4 (nat_str (nat y))" "M = pad0 2 (nat_str (m + 1))" and len: "length Y = 4" "length M = 2" .
  have digits: "list_all is_digit Y" "list_all is_digit M" by (simp_all add: parts)
  have "\<not> is_digit (CHR ''/'')" by (simp add: is_digit_def)
  then have "CHR ''/'' \<notin> set Y" "CHR ''/'' \<notin> set M" using digits by (auto simp: list_all_iff)
  moreover have "take 7 (formatDate n) = Y @ CHR ''-'' # M" by (simp add: formatDate_def p len)
  ultimately show ?thesis using digits len by (simp add: monthPattern_def nth_append)
qed

lemma parseDeploymentId_part: "parseDeploymentId s = Inr d \<Longrightarrow> d \<noteq> '''' \<and> CHR ''/'' \<notin> set d"
proof -
  have "\<not> isIdChar (CHR ''/'')" by (simp add: isIdChar_def is_digit_def)
  then show "parseDeploymentId s = Inr d \<Longrightarrow> d \<noteq> '''' \<and> CHR ''/'' \<notin> set d"
    by (auto simp: parseDeploymentId_def Let_def list_all_iff split: if_splits)
qed

lemma dataArtifactMonth_dataKey:
  assumes "d \<noteq> ''''" "CHR ''/'' \<notin> set d" "monthPattern month" "CHR ''/'' \<notin> set month"
  shows "dataArtifactMonth (dataKey d k month) = Some month"
proof -
  have len: "length month = 7" using assms(3) by (simp add: monthPattern_def)
  have k: "CHR ''/'' \<notin> set (kindName k)" "kindName k \<in> kindName ` set KINDS" by (cases k; simp add: KINDS_def)+
  have key: "dataKey d k month = ''v2'' @ CHR ''/'' # ''deployments'' @ CHR ''/'' # d @ CHR ''/'' # kindName k
      @ CHR ''/'' # ''daily'' @ CHR ''/'' # (month @ ''.json'')"
    by (simp add: dataKey_def deploymentPrefix_def)
  have "splitOn CHR ''/'' (dataKey d k month) = [''v2'', ''deployments'', d, kindName k, ''daily'', month @ ''.json'']"
    unfolding key using assms(2,4) k(1) by (subst splitOn_part; simp)+ (simp add: splitOn_one)
  then show ?thesis using assms(1,3) k(2) len by (simp add: dataArtifactMonth_def monthFile_def)
qed

section \<open>What a run writes\<close>

text \<open>\<open>MemoryArtifactStore.getJson\<close> as the API's reader: a missing key throws
  \<open>ArtifactNotFoundError\<close>.\<close>

definition storeReader :: "memory_store \<Rightarrow> string \<Rightarrow> read_error + document" where
  "storeReader store key = (case getJson store key of None \<Rightarrow> Inl Artifact_Not_Found | Some d \<Rightarrow> Inr d)"

lemma map_of_rev_unique:
  assumes "(k, v) \<in> set kvs" "\<And>v'. (k, v') \<in> set kvs \<Longrightarrow> v' = v"
  shows "map_of (rev kvs) k = Some v"
proof -
  have "k \<in> fst ` set kvs" using assms(1) by (metis fst_conv imageI)
  then have "map_of (rev kvs) k \<noteq> None" by (simp add: map_of_eq_None_iff)
  then obtain w where w: "map_of (rev kvs) k = Some w" by blast
  from map_of_SomeD [OF w] assms(2) have "w = v" by simp
  with w show ?thesis by simp
qed

text \<open>The document of a kind and a month.\<close>

fun monthDoc :: "daily_metric list \<Rightarrow> treasury_asset list \<Rightarrow> ohm_supply list \<Rightarrow> string \<Rightarrow> kind \<Rightarrow> document" where
  "monthDoc ms ts us month Metrics_Kind = Metric_Rows (filter (\<lambda>row. startsWith (dm_date row) month) ms)"
| "monthDoc ms ts us month Treasury_Assets_Kind = Asset_Rows (filter (\<lambda>row. startsWith (ta_date row) month) ts)"
| "monthDoc ms ts us month Ohm_Supply_Kind = Supply_Rows (filter (\<lambda>row. startsWith (os_date row) month) us)"

lemma dataKey_inject: "dataKey d k month = dataKey d k' month' \<longleftrightarrow> k = k' \<and> month = month'"
  by (cases k; cases k') (auto simp: dataKey_def)

lemma rangeDocs_in: "month \<in> set months \<Longrightarrow>
    \<exists>n. (dataKey d k month, monthDoc ms ts us month k, n) \<in> set (rangeDocs d ms ts us months)"
  by (cases k) (auto simp: rangeDocs_def monthDocs_def Let_def)

lemma rangeDocs_unique:
  assumes "(dataKey d k month, v, n) \<in> set (rangeDocs d ms ts us months)"
  shows "v = monthDoc ms ts us month k"
proof -
  have "(dataKey d k month, v, n) \<notin> set schemaDocs"
    by (auto simp: schemaDocs_def SCHEMA_KEYS_def dataKey_def deploymentPrefix_def)
  then obtain month' where "(dataKey d k month, v, n) \<in> set (monthDocs d ms ts us month')"
    using assms by (auto simp: rangeDocs_def)
  then show ?thesis by (auto simp: monthDocs_def Let_def dataKey_inject)
qed

lemma stored_month:
  assumes "month \<in> set months"
  shows "getJson (fold (\<lambda>(k, v). putJson k v) (map (\<lambda>(k, v, n). (k, v)) (rangeDocs d ms ts us months)) store)
      (dataKey d k month) = Some (monthDoc ms ts us month k)"
proof -
  let ?docs = "map (\<lambda>(k, v, n). (k, v)) (rangeDocs d ms ts us months)"
  have "map_of (rev ?docs) (dataKey d k month) = Some (monthDoc ms ts us month k)"
  proof (rule map_of_rev_unique)
    show "(dataKey d k month, monthDoc ms ts us month k) \<in> set ?docs"
      using rangeDocs_in [OF assms, of d k ms ts us] by force
  qed (auto dest: rangeDocs_unique)
  then show ?thesis by (simp add: memory.lookup_puts)
qed

lemma written_keys:
  "fst ` set (fst (fold (writeArtifact codec) docs w)) = fst ` set (fst w) \<union> fst ` set docs"
proof (induction docs arbitrary: w)
  case (Cons doc docs)
  obtain k v n where doc: "doc = (k, v, n)" by (cases doc) auto
  obtain artifacts store keys where w: "w = (artifacts, store, keys)" by (cases w) auto
  have "fst ` set (fst (writeArtifact codec doc w)) = insert k (fst ` set (fst w))"
    by (simp add: doc w writeArtifact_def dom_update)
  then show ?case using Cons [of "writeArtifact codec doc w"] by (simp add: doc)
qed simp

section \<open>What the published manifest names\<close>

definition kindPrefix :: "kind \<Rightarrow> string" where
  "kindPrefix k = ''v2/'' @ kindName k @ ''/daily''"

lemma kindPrefix_simps:
  "METRICS_PREFIX = kindPrefix Metrics_Kind" "ASSETS_PREFIX = kindPrefix Treasury_Assets_Kind"
  "SUPPLY_PREFIX = kindPrefix Ohm_Supply_Kind"
  by (simp_all add: kindPrefix_def METRICS_PREFIX_def ASSETS_PREFIX_def SUPPLY_PREFIX_def)

lemma artifactKey_listed:
  assumes "mf_indexerDeploymentId manifest = Some d" "dataKey d k month \<in> fst ` set (mf_artifacts manifest)"
  shows "artifactKeyForMonth manifest (kindPrefix k) month = dataKey d k month"
proof -
  have path: "''v2/deployments/'' @ d @ ''/'' @ drop 3 (kindPrefix k) @ ''/'' @ month @ ''.json'' = dataKey d k month"
    by (simp add: kindPrefix_def dataKey_def deploymentPrefix_def)
  have "startsWith (kindPrefix k) ''v2/''" by (simp add: startsWith_def kindPrefix_def)
  then show ?thesis using assms path by (simp add: artifactKeyForMonth_def Let_def)
qed

lemma prune_keeps:
  assumes "pruneArtifactsOutsidePublishedBounds (pruneHistoricalDeploymentArtifacts artifacts d) e l = Inr pruned"
    and "monthKeysForRange \<lparr> dr_start = e, dr_end = l, dr_days = 1 \<rparr> = Inr ks" "month \<in> set ks"
    and "dataKey d k month \<in> fst ` set artifacts" "d \<noteq> ''''" "CHR ''/'' \<notin> set d"
    and "monthPattern month" "CHR ''/'' \<notin> set month"
  shows "dataKey d k month \<in> fst ` set pruned"
proof -
  have "startsWith (dataKey d k month) (deploymentPrefix d)" by (simp add: startsWith_def dataKey_def)
  moreover obtain entry where "(dataKey d k month, entry) \<in> set artifacts" using assms(4) by auto
  ultimately have "(dataKey d k month, entry) \<in> set pruned"
    using assms(1-3) dataArtifactMonth_dataKey [OF assms(5-8), of k]
    by (auto simp: pruneArtifactsOutsidePublishedBounds_def pruneHistoricalDeploymentArtifacts_def)
  then show ?thesis by force
qed

text \<open>The documents a completed range leaves, and where the API looks for them.\<close>

lemma publishRange_serves:
  assumes "publishRange codec input d pub existing bounds progress p ms ts us store = (Inr result, store')"
    and "existingOk codec existing store" "dateOk pub" "dateOk (mb_latestDate bounds)" "dateOk (dr_start p)" "dateOk (dr_end p)"
    and "d \<noteq> ''''" "CHR ''/'' \<notin> set d"
  obtains manifest months where "getExistingManifest store' = Some manifest" "monthKeysForRange p = Inr months"
    "pb_range result = Some p"
    "\<And>k month ks. month \<in> set months \<Longrightarrow> month \<in> set ks \<Longrightarrow> monthPattern month \<Longrightarrow> CHR ''/'' \<notin> set month \<Longrightarrow>
      monthKeysForRange \<lparr> dr_start = mf_earliestDate manifest, dr_end = mf_latestDate manifest, dr_days = 1 \<rparr> = Inr ks \<Longrightarrow>
      artifactKeyForMonth manifest (kindPrefix k) month = dataKey d k month
        \<and> getJson store' (dataKey d k month) = Some (monthDoc ms ts us month k)"
proof -
  from publishRange_result [OF assms(1-6)] obtain months manifest store1 where
    run: "monthKeysForRange p = Inr months" "getExistingManifest store' = Some manifest" "pb_range result = Some p"
      "mf_indexerDeploymentId manifest = Some d"
    and store1: "store1 = fold (\<lambda>(k, v). putJson k v) (map (\<lambda>(k, v, n). (k, v)) (rangeDocs d ms ts us months)) store"
    and prune: "pruneArtifactsOutsidePublishedBounds (pruneHistoricalDeploymentArtifacts
        (fst (fold (writeArtifact codec) (rangeDocs d ms ts us months)
          (case existing of None \<Rightarrow> [] | Some m \<Rightarrow> mf_artifacts m, store, []))) d)
        (mf_earliestDate manifest) (mf_latestDate manifest) = Inr (mf_artifacts manifest)"
    and kept: "\<forall>k. k \<noteq> MANIFEST_KEY \<longrightarrow> getJson store' k =
        (if startsWith k ''v2/deployments/'' \<and> \<not> startsWith k (deploymentPrefix d) then None else getJson store1 k)"
    by blast
  have "artifactKeyForMonth manifest (kindPrefix k) month = dataKey d k month
      \<and> getJson store' (dataKey d k month) = Some (monthDoc ms ts us month k)"
    if "month \<in> set months" "month \<in> set ks" "monthPattern month" "CHR ''/'' \<notin> set month"
      "monthKeysForRange \<lparr> dr_start = mf_earliestDate manifest, dr_end = mf_latestDate manifest, dr_days = 1 \<rparr> = Inr ks"
    for k month ks
  proof -
    have "dataKey d k month \<in> fst ` set (rangeDocs d ms ts us months)"
      using rangeDocs_in [OF that(1), of d k ms ts us] by force
    then have "dataKey d k month \<in> fst ` set (mf_artifacts manifest)"
      by (intro prune_keeps [OF prune that(5,2) _ assms(7,8) that(3,4)]) (simp add: written_keys)
    moreover have "startsWith (dataKey d k month) (deploymentPrefix d)" "dataKey d k month \<noteq> MANIFEST_KEY"
      by (simp_all add: startsWith_def dataKey_def deploymentPrefix_def MANIFEST_KEY_def)
    ultimately show ?thesis
      using kept stored_month [OF that(1)] run(4) by (simp add: artifactKey_listed store1)
  qed
  with that run show thesis by blast
qed

section \<open>What the API reads\<close>

lemma readArtifactRows_stored:
  assumes "ac_artifactReader config = Some (storeReader store)" "monthKeysForRange r = Inr ks"
    and "\<And>month. month \<in> set ks \<Longrightarrow> getJson store (artifactKeyForMonth manifest prefix month) = Some (v month)
      \<and> asRows (v month) = Some (rows month)"
  shows "readArtifactRows asRows date config manifest r prefix =
    Inr (concat (map (\<lambda>month. filter (\<lambda>row. isInRange (date row) r) (rows month)) ks))"
proof -
  let ?keep = "\<lambda>row. isInRange (date row) r"
  have "readMonths (storeReader store) (artifactKeyForMonth manifest prefix) asRows ?keep months =
      Inr (concat (map (\<lambda>month. filter ?keep (rows month)) months))" if "set months \<subseteq> set ks" for months
    using that assms(3) by (induction months) (auto simp: storeReader_def)
  then show ?thesis using assms(1,2) by (simp add: readArtifactRows_def)
qed

lemma concat_single:
  "distinct ks \<Longrightarrow> concat (map (\<lambda>k. if k = x then ys else []) ks) = (if x \<in> set ks then ys else [])"
  by (induction ks) auto

text \<open>The rows of a day, among those of the months of a range.\<close>

lemma rows_of_day:
  assumes "distinct ks" "take 7 (formatDate n) \<in> set ks" "\<forall>month \<in> set ks. length month = 7" "isInRange (formatDate n) r"
  shows "filter (\<lambda>row. date row = formatDate n)
      (concat (map (\<lambda>month. filter (\<lambda>row. isInRange (date row) r) (filter (\<lambda>row. startsWith (date row) month) rows)) ks))
    = filter (\<lambda>row. date row = formatDate n) rows"
proof -
  have "filter (\<lambda>row. date row = formatDate n) (filter (\<lambda>row. isInRange (date row) r)
        (filter (\<lambda>row. startsWith (date row) month) rows))
      = (if month = take 7 (formatDate n) then filter (\<lambda>row. date row = formatDate n) rows else [])"
    if "month \<in> set ks" for month
  proof -
    have "startsWith (formatDate n) month \<longleftrightarrow> month = take 7 (formatDate n)"
      using assms(3) that by (auto simp: startsWith_def)
    then show ?thesis using assms(4) by (auto simp: filter_empty_conv intro!: filter_cong)
  qed
  then have "map (filter (\<lambda>row. date row = formatDate n)) (map (\<lambda>month. filter (\<lambda>row. isInRange (date row) r)
        (filter (\<lambda>row. startsWith (date row) month) rows)) ks)
      = map (\<lambda>month. if month = take 7 (formatDate n) then filter (\<lambda>row. date row = formatDate n) rows else []) ks"
    unfolding map_map o_def by (rule map_cong [OF refl])
  then show ?thesis unfolding filter_concat by (simp only: concat_single [OF assms(1)] assms(2) if_True)
qed

text \<open>The map by date depends on the rows of the date only.\<close>

lemma map_of_filter_key: "map_of (filter (\<lambda>kv. fst kv = k) al) k = map_of al k"
  by (induction al) auto

lemma metricsByDate_day: "metricsByDate ms date = metricsByDate (filter (\<lambda>m. dm_date m = date) ms) date"
proof -
  let ?f = "\<lambda>m. (dm_date m, normalizeMetricCompleteness m)"
  have "filter (\<lambda>kv. fst kv = date) (rev (map ?f ms)) = rev (map ?f (filter (\<lambda>m. dm_date m = date) ms))"
    by (simp add: rev_filter [symmetric] filter_map o_def rev_map)
  then show ?thesis using map_of_filter_key [of date "rev (map ?f ms)"] by (simp add: metricsByDate_def)
qed

lemma lenientDate_parse: "parseDate s = Inr n \<Longrightarrow> lenientDate s = Inr n"
  by (auto simp: parseDate_def lenientDate_def Let_def split: if_splits prod.splits)

lemma dateKeysForRange_days:
  assumes "parseDate (dr_start r) = Inr a" "dr_days r = b - a + 1"
  shows "dateKeysForRange r = map formatDate [a..b]"
proof -
  have "map (\<lambda>i. a + i) [0..b - a] = [a..b]"
    by (rule nth_equalityI) (simp_all add: nth_upto)
  then have "map formatDate [a..b] = map (\<lambda>i. formatDate (a + i)) [0..b - a]"
    by (metis (no_types, lifting) list.map_comp map_eq_conv o_apply)
  then show ?thesis using assms by (simp add: dateKeysForRange_def lenientDate_parse)
qed

text \<open>A day as it should be served: the source's last row of the day, its completeness recomputed
  and its records attached if asked for; an empty row if the source had none.\<close>

definition servedDay :: "(rat \<Rightarrow> rat) \<Rightarrow> daily_metric list \<Rightarrow> treasury_asset list \<Rightarrow> ohm_supply list \<Rightarrow> bool \<Rightarrow>
    string \<Rightarrow> string \<Rightarrow> daily_metric" where
  "servedDay fl ms ts us includeRecords generatedAt date = (case metricsByDate ms date of
     None \<Rightarrow> buildEmptyDailyMetric fl date includeRecords generatedAt
   | Some metric \<Rightarrow> if \<not> includeRecords then metric
       else attachMetricRecords fl metric (filter (\<lambda>asset. ta_date asset = date) ts)
         (filter (\<lambda>supply. os_date supply = date) us))"

lemma served_from:
  assumes "metricsByDate ms' date = metricsByDate ms date"
    and "filter (\<lambda>asset. ta_date asset = date) ts' = filter (\<lambda>asset. ta_date asset = date) ts"
    and "filter (\<lambda>supply. os_date supply = date) us' = filter (\<lambda>supply. os_date supply = date) us"
  shows "(case metricsByDate ms' date of None \<Rightarrow> buildEmptyDailyMetric fl date b g
      | Some metric \<Rightarrow> if \<not> b then metric
          else attachMetricRecords fl metric (filter (\<lambda>asset. ta_date asset = date) (if b then ts' else []))
            (filter (\<lambda>supply. os_date supply = date) (if b then us' else [])))
    = servedDay fl ms ts us b g date"
  using assms by (simp add: servedDay_def split: option.split)

lemma readDailyMetrics_served:
  assumes "ac_artifactReader config = Some (storeReader store)"
    and "\<And>k month. month \<in> set ks \<Longrightarrow>
      getJson store (artifactKeyForMonth manifest (kindPrefix k) month) = Some (monthDoc ms ts us month k)"
    and "monthKeysForRange r = Inr ks" "distinct ks" "set ks = (\<lambda>n. take 7 (formatDate n)) ` {a..b}"
    and "parseDate (dr_start r) = Inr a" "parseDate (dr_end r) = Inr b" "dr_days r = b - a + 1"
  shows "readDailyMetrics config manifest r includeRecords g =
    Inr (map (\<lambda>n. servedDay (ac_fl config) ms ts us includeRecords g (formatDate n)) [a..b])"
proof -
  let ?rows = "\<lambda>date rows. concat (map (\<lambda>month. filter (\<lambda>row. isInRange (date row) r)
    (filter (\<lambda>row. startsWith (date row) month) rows)) ks)"
  note digits = four_digit_between [OF parseDate_four_digit [OF assms(6)] parseDate_four_digit [OF assms(7)]]
  have len: "\<forall>month \<in> set ks. length month = 7"
    using digits monthPattern_key by (auto simp: assms(5) monthPattern_def)
  have day: "filter (\<lambda>row. date row = formatDate n) (?rows date rows) = filter (\<lambda>row. date row = formatDate n) rows"
    if "n \<in> {a..b}" for n and date :: "'r \<Rightarrow> string" and rows
    using that digits isInRange_days [OF assms(6,7)] by (intro rows_of_day [OF assms(4) _ len]) (auto simp: assms(5))
  have by_date: "metricsByDate (?rows dm_date ms) (formatDate n) = metricsByDate ms (formatDate n)" if "n \<in> {a..b}" for n
    using day [OF that, of dm_date ms] metricsByDate_day by metis
  have rows: "readArtifactRows asMetricRows dm_date config manifest r METRICS_PREFIX = Inr (?rows dm_date ms)"
    "readArtifactRows asAssetRows ta_date config manifest r ASSETS_PREFIX = Inr (?rows ta_date ts)"
    "readArtifactRows asSupplyRows os_date config manifest r SUPPLY_PREFIX = Inr (?rows os_date us)"
    using assms(2) unfolding kindPrefix_simps
    by (intro readArtifactRows_stored [OF assms(1,3)]; fastforce)+
  have reads: "(if includeRecords then Inr x else Inr []) = (Inr (if includeRecords then x else []) :: read_error + 'x list)" for x
    by simp
  show ?thesis
    unfolding readDailyMetrics_def rows reads sum.case dateKeysForRange_days [OF assms(6,8)] map_map o_def
    by (intro arg_cong [of _ _ Inr] map_cong refl served_from by_date day) simp_all
qed

section \<open>From the publisher to the client\<close>

text \<open>A run that reports a range has published it: the source's rows are where the API looks for
  them, at every month of the range that the manifest's dates span.\<close>

lemma publish_serves:
  assumes run: "publishMetricsArtifacts codec source input store = (Inr result, store')" "pb_range result = Some p"
    and ok: "manifestOk codec store" "pi_manifest input = None"
      "dateOk (nullish (pi_publicStartDate input) DEFAULT_PUBLIC_START_DATE)"
      "\<And>c bounds. so_fetchBounds source c = Inr bounds \<Longrightarrow> dateOk (mb_latestDate bounds)"
    and rows: "so_fetchDailyMetrics source p = Inr ms" "so_fetchTreasuryAssets source p = Inr ts"
      "so_fetchOhmSupply source p = Inr us"
  obtains manifest months where "getExistingManifest store' = Some manifest" "monthKeysForRange p = Inr months"
    "\<And>k month ks. month \<in> set months \<Longrightarrow> month \<in> set ks \<Longrightarrow> monthPattern month \<Longrightarrow> CHR ''/'' \<notin> set month \<Longrightarrow>
      monthKeysForRange \<lparr> dr_start = mf_earliestDate manifest, dr_end = mf_latestDate manifest, dr_days = 1 \<rparr> = Inr ks \<Longrightarrow>
      getJson store' (artifactKeyForMonth manifest (kindPrefix k) month) = Some (monthDoc ms ts us month k)"
proof -
  let ?pub = "nullish (pi_publicStartDate input) DEFAULT_PUBLIC_START_DATE"
  from publish_cases [OF run(1) ok(1,2)] run(2) obtain d store1 store2 where
    d: "parseDeploymentId (pi_deploymentId input) = Inr d"
    and ran: "ranPublish codec source input d ?pub (getExistingManifest store) store1 (Inr result) store2"
    and ex: "existingOk codec (getExistingManifest store) store1"
    and released: "sameButLock store2 store'"
    by auto
  from ran show thesis
  proof cases
    case published: (ranPublishI c bounds flag p' ms' ts' us' progress)
    from publishRange_dates [OF published(2)]
    obtain manifest months where m: "getExistingManifest store2 = Some manifest" "monthKeysForRange p' = Inr months"
      "pb_range result = Some p'"
      "\<And>k month ks. month \<in> set months \<Longrightarrow> month \<in> set ks \<Longrightarrow> monthPattern month \<Longrightarrow> CHR ''/'' \<notin> set month \<Longrightarrow>
        monthKeysForRange \<lparr> dr_start = mf_earliestDate manifest, dr_end = mf_latestDate manifest, dr_days = 1 \<rparr> = Inr ks \<Longrightarrow>
        artifactKeyForMonth manifest (kindPrefix k) month = dataKey d k month
          \<and> getJson store2 (dataKey d k month) = Some (monthDoc ms' ts' us' month k)"
      using publishRange_serves [OF published(6) ex ok(3) ok(4) [OF published(1)] _ _ parseDeploymentId_part [OF d, THEN conjunct1]
          parseDeploymentId_part [OF d, THEN conjunct2]] by blast
    have "p' = p" "ms' = ms" "ts' = ts" "us' = us" using m(3) run(2) published(3-5) rows by simp_all
    moreover have "getExistingManifest store' = getExistingManifest store2"
      using released manifest_not_lock by (simp add: getExistingManifest_def sameButLock_def)
    moreover have "getJson store' (dataKey d k month) = getJson store2 (dataKey d k month)" for k month
      using released by (simp add: sameButLock_def dataKey_def deploymentPrefix_def PUBLISHER_LOCK_KEY_def)
    ultimately show thesis using m by (intro that [of manifest months]) simp_all
  qed
qed

text \<open>The client's requests as the API's server receives them, and its answers as \<open>fetch\<close> gives them.\<close>

definition apiRequest :: "request \<Rightarrow> api_request" where
  "apiRequest rq = \<lparr> ar_method = ''GET'', ar_url = Some (rq_path rq, rq_params rq), ar_contentLength = [],
     ar_transferEncoding = False \<rparr>"

definition boundsFromApi :: "api_config \<Rightarrow> request \<Rightarrow> string + nat \<times> bounds" where
  "boundsFromApi config rq = (case handleMetricsApiRequest (apiRequest rq) config of
     Some rs \<Rightarrow> (case rs_body rs of Bounds_Body earliest latest maxDays _ _ \<Rightarrow>
         Inr (rs_status rs, \<lparr> bd_earliestDate = earliest, bd_latestDate = latest, bd_maxRangeDays = maxDays \<rparr>)
       | _ \<Rightarrow> Inl ''no bounds'')
   | None \<Rightarrow> Inl ''no answer'')"

definition metricsFromApi :: "api_config \<Rightarrow> request \<Rightarrow> string + nat \<times> daily_metric list" where
  "metricsFromApi config rq = (case handleMetricsApiRequest (apiRequest rq) config of
     Some rs \<Rightarrow> (case rs_body rs of Metrics_Body rows _ \<Rightarrow> Inr (rs_status rs, rows)
       | _ \<Rightarrow> Inl ''no metrics'')
   | None \<Rightarrow> Inl ''no answer'')"

lemma boundsFromApi_manifest:
  assumes "getManifest config = Inr manifest"
  shows "boundsFromApi config (url ''/v2/bounds'') = Inr (200, \<lparr> bd_earliestDate = mf_earliestDate manifest,
    bd_latestDate = mf_latestDate manifest, bd_maxRangeDays = ac_maxRangeDays config \<rparr>)"
  by (simp add: boundsFromApi_def handleMetricsApiRequest_def apiRequest_def url_def hasRequestBody_def
      validateQueryParams_def supportedQueryParamsForPath_def startsWith_def SUPPORTED_QUERY_PARAMS_def
      routeRequest_def withManifest_def sendJson_def assms)

lemma metricsFromApi_manifest:
  assumes "getManifest config = Inr manifest" "four_digit_day x" "four_digit_day y" "x \<le> y" "y - x < ac_maxRangeDays config"
    and "readDailyMetrics config manifest \<lparr> dr_start = formatDate x, dr_end = formatDate y, dr_days = y - x + 1 \<rparr>
      (includeRecords = Some True) (nullish (ac_generatedAt config) (mf_generatedAt manifest)) = Inr rows"
  shows "metricsFromApi config (dailyRequest ''/v2/metrics/daily'' includeRecords (formatDate x) (Some (formatDate y)))
    = Inr (200, rows)"
proof -
  let ?flag = "case includeRecords of None \<Rightarrow> [] | Some b \<Rightarrow> [(''includeRecords'', if b then ''true'' else ''false'')]"
  let ?params = "[(''start'', formatDate x), (''end'', formatDate y)] @ ?flag"
  have rq: "apiRequest (dailyRequest ''/v2/metrics/daily'' includeRecords (formatDate x) (Some (formatDate y)))
      = \<lparr> ar_method = ''GET'', ar_url = Some (''/v2/metrics/daily'', ?params), ar_contentLength = [],
          ar_transferEncoding = False \<rparr>"
    by (cases includeRecords) (simp_all add: apiRequest_def dailyRequest_def includeRecordsParam_def appendRange_def
        setParam_def url_def Let_def)
  have "validateQueryParams ''/v2/metrics/daily'' ?params = None"
    by (cases includeRecords) (simp_all add: validateQueryParams_def supportedQueryParamsForPath_def startsWith_def
        SUPPORTED_QUERY_PARAMS_def)
  moreover have "resolveV2Range ?params config manifest =
      Inr \<lparr> dr_start = formatDate x, dr_end = formatDate y, dr_days = y - x + 1 \<rparr>"
    using assms(2-5) by (simp add: resolveV2Range_def resolveDateRange_def parseDate_formatDate Let_def)
  moreover have "map_of ?params ''includeRecords'' = Some ''true'' \<longleftrightarrow> includeRecords = Some True"
    by (cases includeRecords) simp_all
  ultimately show ?thesis
    using assms(1,6) by (simp add: metricsFromApi_def rq handleMetricsApiRequest_def hasRequestBody_def routeRequest_def
        dailyEndpoint_def withManifest_def answer_def sendJson_def)
qed

text \<open>A range of a run, within the manifest's dates: its months are where the API looks for them.\<close>

lemma months_served:
  assumes "monthKeysForRange \<lparr> dr_start = e, dr_end = l, dr_days = 1 \<rparr> = Inr ks" "monthKeysForRange p = Inr months"
    and "parseDate e = Inr e'" "parseDate l = Inr l'" "parseDate (dr_start p) = Inr s" "parseDate (dr_end p) = Inr t"
    and "day_from_year 100 \<le> e'" "day_from_year 100 \<le> s" "max e' s \<le> x" "x \<le> y" "y \<le> min l' t"
    and "month \<in> (\<lambda>n. take 7 (formatDate n)) ` {x..y}"
  shows "month \<in> set months \<and> month \<in> set ks \<and> monthPattern month \<and> CHR ''/'' \<notin> set month"
proof -
  from assms(12) obtain n where n: "x \<le> n" "n \<le> y" "month = take 7 (formatDate n)" by auto
  have "four_digit_day n"
    using four_digit_between [OF parseDate_four_digit [OF assms(3)] parseDate_four_digit [OF assms(4)]] n assms(9,11) by simp
  moreover have "set ks = (\<lambda>n. take 7 (formatDate n)) ` {e'..l'}"
    using monthKeysForRange_days [of "\<lparr> dr_start = e, dr_end = l, dr_days = 1 \<rparr>" e' l'] assms by auto
  moreover have "set months = (\<lambda>n. take 7 (formatDate n)) ` {s..t}"
    using monthKeysForRange_days [OF assms(5,6)] assms by auto
  ultimately show ?thesis using n assms(9,11) monthPattern_key [of n] by auto
qed

text \<open>
  C1: what a client reads is what the publisher was given. After a run that published a range,
  a client that asks the API for any days of it that the manifest's dates span, however many, gets
  for each day, in order, the metrics source's last row of that day with its completeness
  recomputed and, if asked for, its records attached, or an empty row where the source had none.
  The artifacts by month, the pruning, the manifest lookups, the string comparison of dates and the
  chunks of the client cancel out.
\<close>

theorem client_reads_published:
  assumes "publishMetricsArtifacts codec source input store = (Inr result, store')" "pb_range result = Some p"
    and "manifestOk codec store" "pi_manifest input = None"
      "dateOk (nullish (pi_publicStartDate input) DEFAULT_PUBLIC_START_DATE)"
      "\<And>c bounds. so_fetchBounds source c = Inr bounds \<Longrightarrow> dateOk (mb_latestDate bounds)"
    and "so_fetchDailyMetrics source p = Inr ms" "so_fetchTreasuryAssets source p = Inr ts" "so_fetchOhmSupply source p = Inr us"
    and "ac_artifactReader config = Some (storeReader store')" "ac_manifest config = None" "1 \<le> ac_maxRangeDays config"
    and "getManifest config = Inr manifest" "parseDate (mf_earliestDate manifest) = Inr e" "parseDate (mf_latestDate manifest) = Inr l"
    and "parseDate (dr_start p) = Inr s" "parseDate (dr_end p) = Inr t" "day_from_year 100 \<le> e" "day_from_year 100 \<le> s"
    and "parseDate start = Inr a" "parseDate (nullish until (mf_latestDate manifest)) = Inr b"
    and "max e s \<le> a" "a \<le> b" "b \<le> min l t"
  shows "fst (getDaily (boundsFromApi config) (metricsFromApi config) None ''/v2/metrics/daily'' True includeRecords start until)
    = Inr (map (\<lambda>n. servedDay (ac_fl config) ms ts us (includeRecords = Some True)
        (nullish (ac_generatedAt config) (mf_generatedAt manifest)) (formatDate n)) [a..b])"
proof -
  let ?served = "\<lambda>n. servedDay (ac_fl config) ms ts us (includeRecords = Some True)
    (nullish (ac_generatedAt config) (mf_generatedAt manifest)) (formatDate n)"
  let ?bounds = "\<lparr> bd_earliestDate = mf_earliestDate manifest, bd_latestDate = mf_latestDate manifest,
    bd_maxRangeDays = ac_maxRangeDays config \<rparr>"
  obtain ks where ks: "monthKeysForRange \<lparr> dr_start = mf_earliestDate manifest, dr_end = mf_latestDate manifest, dr_days = 1 \<rparr> = Inr ks"
    using monthKeysForRange_days [of "\<lparr> dr_start = mf_earliestDate manifest, dr_end = mf_latestDate manifest, dr_days = 1 \<rparr>" e l]
      assms by auto
  obtain manifest' months where
    m: "getExistingManifest store' = Some manifest'" "monthKeysForRange p = Inr months"
    and keys: "\<And>k month ks. month \<in> set months \<Longrightarrow> month \<in> set ks \<Longrightarrow> monthPattern month \<Longrightarrow> CHR ''/'' \<notin> set month \<Longrightarrow>
      monthKeysForRange \<lparr> dr_start = mf_earliestDate manifest', dr_end = mf_latestDate manifest', dr_days = 1 \<rparr> = Inr ks \<Longrightarrow>
      getJson store' (artifactKeyForMonth manifest' (kindPrefix k) month) = Some (monthDoc ms ts us month k)"
    by (rule publish_serves [OF assms(1-5) _ assms(7-9)]) (use assms(6) in blast, metis)
  have same: "manifest' = manifest"
    using m(1) assms(10,11,13) by (auto simp: getExistingManifest_def getManifest_def storeReader_def
        split: Option.bind_splits option.splits)
  have "metricsFromApi config (dailyRequest ''/v2/metrics/daily'' includeRecords (formatDate x) (Some (formatDate y)))
      = Inr (200, map ?served [x..y])"
    if "a \<le> x" "x \<le> y" "y \<le> b" "y - x < ac_maxRangeDays config" for x y
  proof -
    let ?r = "\<lparr> dr_start = formatDate x, dr_end = formatDate y, dr_days = y - x + 1 \<rparr>"
    note digits = four_digit_between [OF parseDate_four_digit [OF assms(20)] parseDate_four_digit [OF assms(21)]]
    have d: "four_digit_day x" "four_digit_day y" using digits that by simp_all
    from monthKeysForRange_days [of ?r x y] that assms(18,22) d
    obtain r_months where r: "monthKeysForRange ?r = Inr r_months" "distinct r_months"
      "set r_months = (\<lambda>n. take 7 (formatDate n)) ` {x..y}" by (auto simp: parseDate_formatDate)
    have xy: "max e s \<le> x" "y \<le> min l t" using that assms(22,24) by auto
    have stored: "getJson store' (artifactKeyForMonth manifest (kindPrefix k) month) = Some (monthDoc ms ts us month k)"
      if "month \<in> set r_months" for k month
    proof -
      have "month \<in> (\<lambda>n. take 7 (formatDate n)) ` {x..y}" using that r(3) by simp
      from months_served [OF ks m(2) assms(14,15,16,17,18,19) xy(1) \<open>x \<le> y\<close> xy(2) this]
      show ?thesis using keys [unfolded same] ks by blast
    qed
    show ?thesis
      by (rule metricsFromApi_manifest [OF assms(13) d that(2,4)], rule readDailyMetrics_served [OF assms(10) stored r])
        (simp_all add: d parseDate_formatDate)
  qed
  then have "getDaily (boundsFromApi config) (metricsFromApi config) None ''/v2/metrics/daily'' True includeRecords start until
      = (Inr (concat (map (\<lambda>n. [?served n]) [a..b])), Some ?bounds)"
    using assms(12,20,21,23)
    by (intro paginate_days [where bounds = ?bounds]) (simp_all add: boundsFromApi_manifest [OF assms(13)])
  then show ?thesis by simp
qed


end
