(* ===== verification/Publish_Sample.thy ===== *)
theory Publish_Sample
  imports Publish_Serve
begin

text \<open>
  A small deployment, evaluated: two days of rows, published into an empty store and read back
  through the API.
\<close>

definition sample_metric :: "string \<Rightarrow> nat list \<Rightarrow> daily_metric" where
  "sample_metric date indexed = buildDailyMetric (\<lambda>x. x) date [] [] False (Some indexed) None ''2024-01-01T08:00:00.000Z''"

definition sample_metrics :: "daily_metric list" where
  "sample_metrics = [sample_metric ''2023-12-31'' [1, 42161], sample_metric ''2024-01-01'' [1]]"

definition sample_source :: metrics_source where
  "sample_source = \<lparr> so_fetchBounds = (\<lambda>c. Inr \<lparr> mb_earliestDate = ''2023-12-31'', mb_latestDate = ''2024-01-01'' \<rparr>),
     so_fetchLatestIndexingProgress = Inr [], so_fetchDailyMetrics = (\<lambda>r. Inr sample_metrics),
     so_fetchTreasuryAssets = (\<lambda>r. Inr []), so_fetchOhmSupply = (\<lambda>r. Inr []) \<rparr>"

text \<open>The clock stands at 2024-01-01.\<close>

definition sample_input :: publish_input where
  "sample_input = \<lparr> pi_publicStartDate = Some ''2023-12-31'', pi_deploymentId = '' build-1 '', pi_startDate = None,
     pi_endDate = None, pi_manifest = None, pi_now = 19723 * DAY_MS, pi_lockTtlMs = None, pi_runId = ''run'' \<rparr>"

definition sample_run :: "(string + publish_result) \<times> memory_store" where
  "sample_run = publishMetricsArtifacts sample_codec sample_source sample_input empty_memory"

definition sample_config :: api_config where
  "sample_config = \<lparr> ac_maxRangeDays = 1, ac_manifest = None,
     ac_artifactReader = Some (storeReader (snd sample_run)), ac_generatedAt = Some ''g'', ac_parseJson = (\<lambda>s. None),
     ac_decode = Some, ac_fl = (\<lambda>x. x) \<rparr>"

definition sample_period :: date_range where
  "sample_period = \<lparr> dr_start = ''2023-12-31'', dr_end = ''2024-01-01'', dr_days = 2 \<rparr>"

lemma sample_days: "parseDate ''2023-12-31'' = Inr 19722" "parseDate ''2024-01-01'' = Inr 19723"
  by code_simp+

lemma sample_range:
  "resolvePublishRange sample_input \<lparr> mb_earliestDate = ''2023-12-31'', mb_latestDate = ''2024-01-01'' \<rparr> None
    ''2023-12-31'' False = Inr sample_period"
  by (simp add: resolvePublishRange_def sample_input_def resolveDateRange_def sample_days sample_period_def Let_def)

lemma sample_fresh: "isFreshForDeploymentHandover ''2024-01-01'' (19723 * DAY_MS) = Inr True"
  by code_simp

lemma sample_deployment: "parseDeploymentId '' build-1 '' = Inr ''build-1''"
  by code_simp

definition sample_bounds_found :: metrics_bounds where
  "sample_bounds_found = \<lparr> mb_earliestDate = ''2023-12-31'', mb_latestDate = ''2024-01-01'' \<rparr>"

lemma sample_input_simps [simp]:
  "pi_publicStartDate sample_input = Some ''2023-12-31''" "pi_deploymentId sample_input = '' build-1 ''"
  "pi_manifest sample_input = None" "pi_now sample_input = 19723 * DAY_MS" "pi_lockTtlMs sample_input = None"
  by (simp_all add: sample_input_def)

lemma sample_source_simps [simp]:
  "so_fetchBounds sample_source c = Inr sample_bounds_found" "so_fetchLatestIndexingProgress sample_source = Inr []"
  "so_fetchDailyMetrics sample_source r = Inr sample_metrics" "so_fetchTreasuryAssets sample_source r = Inr []"
  "so_fetchOhmSupply sample_source r = Inr []"
  by (simp_all add: sample_source_def sample_bounds_found_def)

lemma sample_locked:
  "publishLocked sample_codec sample_source sample_input ''build-1'' ''2023-12-31'' None store =
    publishRange sample_codec sample_input ''build-1'' ''2023-12-31'' None sample_bounds_found [] sample_period
      sample_metrics [] [] store"
proof -
  have "isFreshForDeploymentHandover (mb_latestDate sample_bounds_found) (19723 * DAY_MS) = Inr True"
    using sample_fresh by (simp add: sample_bounds_found_def)
  then show ?thesis
    using sample_range [folded sample_bounds_found_def]
    by (simp add: publishLocked_def deploymentHasPublishedArtifacts_def)
qed

lemma sample_acquired:
  "acquirePublisherLock sample_codec lock now empty_memory = (True, putJson PUBLISHER_LOCK_KEY (Lock_Doc lock) empty_memory)"
  by (simp add: acquirePublisherLock_def eval_nat_numeral memory.putIfAbsent getJson_def empty_memory_def)

lemma sample_empty: "getExistingManifest empty_memory = None"
  by (simp add: getExistingManifest_def getJson_def empty_memory_def)

lemma sample_published:
  obtains r where "fst sample_run = Inr r" "pb_range r = Some sample_period"
    "map_option (\<lambda>m. (mf_earliestDate m, mf_latestDate m)) (getExistingManifest (snd sample_run)) =
      Some (''2023-12-31'', ''2024-01-01'')"
proof -
  let ?lock = "buildPublisherLock (pi_runId sample_input) Initial_Backfill (19723 * DAY_MS) DEFAULT_LOCK_TTL_MS"
  let ?store = "putJson PUBLISHER_LOCK_KEY (Lock_Doc ?lock) empty_memory"
  obtain result store where run: "publishRange sample_codec sample_input ''build-1'' ''2023-12-31'' None sample_bounds_found []
      sample_period sample_metrics [] [] ?store = (result, store)"
    by (cases "publishRange sample_codec sample_input ''build-1'' ''2023-12-31'' None sample_bounds_found []
      sample_period sample_metrics [] [] ?store")
  have dates: "dateOk ''2023-12-31''" "dateOk ''2024-01-01''" using sample_days by (auto simp: dateOk_def)
  obtain r manifest where r: "result = Inr r" "pb_range r = Some sample_period"
    and m: "getExistingManifest store = Some manifest" "mf_earliestDate manifest = ''2023-12-31''"
      "mf_latestDate manifest = ''2024-01-01''"
    using publishRange_result [OF run] dates
    by (auto simp: existingOk_def sample_bounds_found_def sample_period_def maxDate_def minDate_def)
  have ttl: "\<not> DEFAULT_LOCK_TTL_MS < 1" by (simp add: DEFAULT_LOCK_TTL_MS_def)
  have sample: "sample_run = (result, releasePublisherLock sample_codec ?lock store)"
    using run by (simp add: sample_run_def publishMetricsArtifacts_def sample_deployment sample_empty sample_locked
        sample_acquired ttl)
  have "getExistingManifest (snd sample_run) = Some manifest"
    using release_sameButLock [of store sample_codec ?lock] m(1) manifest_not_lock
    by (simp add: sample getExistingManifest_def sameButLock_def)
  then show thesis by (intro that [of r]) (simp_all add: r m sample)
qed

lemma sample_bounds_ok: "so_fetchBounds sample_source c = Inr b \<Longrightarrow> dateOk (mb_latestDate b)"
  using sample_days(2) by (auto simp: sample_bounds_found_def dateOk_def)

lemma sample_start_ok: "manifestOk sample_codec empty_memory" "pi_manifest sample_input = None"
  "dateOk (nullish (pi_publicStartDate sample_input) DEFAULT_PUBLIC_START_DATE)"
  using sample_days(1) by (auto simp: manifestOk_def sample_empty dateOk_def)


definition sample_served :: "int \<Rightarrow> daily_metric" where
  "sample_served n = servedDay (\<lambda>x. x) sample_metrics [] [] False ''g'' (formatDate n)"

lemma sample_served_days: "map (\<lambda>n. (dm_date (sample_served n), dm_crossChainComplete (sample_served n))) [19722..19723] =
    [(''2023-12-31'', True), (''2024-01-01'', False)]"
proof -
  have metric: "dm_date (sample_metric d cs) = d" "dm_chainsIndexed (sample_metric d cs) = cs" for d cs
    by (simp_all add: sample_metric_def buildDailyMetric_def Let_def)
  have day: "formatDate 19722 = ''2023-12-31''" "formatDate 19723 = ''2024-01-01''" by code_simp+
  have "[19722..19723] = [19722, 19723 :: int]" by (simp add: upto.simps)
  then show ?thesis
    by (simp add: sample_served_def servedDay_def metricsByDate_def sample_metrics_def metric day
        normalizeMetricCompleteness_def isCrossChainComplete_def REQUIRED_CHAIN_IDS_FOR_COMPLETE_def)
qed

theorem client_reads_published_witness:
  "map_sum id (map (\<lambda>m. (dm_date m, dm_crossChainComplete m)))
     (fst (getDaily (boundsFromApi sample_config) (metricsFromApi sample_config) None ''/v2/metrics/daily'' True None
       ''2023-12-31'' None)) = Inr [(''2023-12-31'', True), (''2024-01-01'', False)]"
proof (rule sample_published)
  fix r assume r: "fst sample_run = Inr r" "pb_range r = Some sample_period"
    "map_option (\<lambda>m. (mf_earliestDate m, mf_latestDate m)) (getExistingManifest (snd sample_run)) =
      Some (''2023-12-31'', ''2024-01-01'')"
  then obtain manifest where m: "getExistingManifest (snd sample_run) = Some manifest"
    "mf_earliestDate manifest = ''2023-12-31''" "mf_latestDate manifest = ''2024-01-01''" by auto
  have run: "publishMetricsArtifacts sample_codec sample_source sample_input empty_memory = (Inr r, snd sample_run)"
    using r(1) by (simp add: sample_run_def prod_eq_iff)
  have config: "ac_artifactReader sample_config = Some (storeReader (snd sample_run))" "ac_manifest sample_config = None"
    by (simp_all add: sample_config_def)
  have manifest: "getManifest sample_config = Inr manifest"
    using m(1) by (auto simp: getManifest_def config storeReader_def getExistingManifest_def
        split: Option.bind_splits)
  have "fst (getDaily (boundsFromApi sample_config) (metricsFromApi sample_config) None ''/v2/metrics/daily'' True None
      ''2023-12-31'' None) = Inr (map sample_served [19722..19723])"
    using client_reads_published [OF run r(2) sample_start_ok sample_bounds_ok sample_source_simps(3-5) config _ manifest,
        where e = 19722 and l = 19723 and s = 19722 and t = 19723 and a = 19722 and b = 19723
          and start = "''2023-12-31''" and until = None and includeRecords = None]
    by (simp add: m sample_days sample_period_def sample_config_def sample_served_def [abs_def] day_from_year_def)
  then show ?thesis using sample_served_days by simp
qed

end
