(* ===== verification/Timeouts.thy ===== *)
theory Timeouts
  imports Prelude
begin

text \<open>
  Bounded waiting for calls to other services (\<open>apps/metrics-publisher/src/timeout.ts\<close>). A promise
  that races a timer is \<open>None\<close> when the timer is faster, otherwise what the promise settles to.
  \<open>thrown name message\<close> is the error object with that name and message.
\<close>

definition DEFAULT_EXTERNAL_REQUEST_TIMEOUT_MS :: int where
  "DEFAULT_EXTERNAL_REQUEST_TIMEOUT_MS = 60000"

definition validateTimeoutMs :: "int \<Rightarrow> string option" where
  "validateTimeoutMs timeoutMs = (if timeoutMs < 1 then Some ''timeoutMs must be a positive integer.'' else None)"

definition withTimeout :: "(string \<Rightarrow> string \<Rightarrow> 'e) \<Rightarrow> ('e + 'a) option \<Rightarrow> string \<Rightarrow> int \<Rightarrow> 'e + 'a" where
  "withTimeout thrown race operation timeoutMs = (case validateTimeoutMs timeoutMs of
       Some message \<Rightarrow> Inl (thrown ''Error'' message)
     | None \<Rightarrow> (case race of Some result \<Rightarrow> result
       | None \<Rightarrow> Inl (thrown ''OperationTimeoutError''
           (operation @ '' timed out after '' @ nat_str (nat timeoutMs) @ ''ms.''))))"

lemma withTimeout_cases:
  "withTimeout thrown race operation timeoutMs = r \<Longrightarrow>
     race = Some r \<or> (\<exists>name message. r = Inl (thrown name message) \<and> name \<in> {''Error'', ''OperationTimeoutError''})"
  by (auto simp: withTimeout_def split: option.splits)

end
