(* ===== verification/Metrics_Source.thy ===== *)
theory Metrics_Source
  imports Publisher Timeouts
begin

text \<open>
  The metrics source of the publisher (\<open>apps/metrics-publisher/src/metrics-source.ts\<close>): GraphQL requests to the database behind the indexer, read page by page and
  normalised into the rows of the artifacts. What the database answers is a parameter.
\<close>

section \<open>Requests\<close>

text \<open>A query, with the entity and the variables of a page; the names of the selected fields are
  those of the row types below.\<close>

datatype query =
  Bounds_Query string
| Progress_Query "(string \<times> nat) list"
| Page_Query string string string nat nat

text \<open>A response: its status, the messages of its \<open>errors\<close> and its \<open>data\<close>; \<open>hs_send\<close> is
  \<open>None\<close> while the timer is faster and \<open>Some (Inl e)\<close> where \<open>fetch\<close> itself fails.\<close>

record 'd graphql_response =
  gr_status :: nat
  gr_text :: string
  gr_errors :: "string list"
  gr_data :: "'d option"

record 'd hasura =
  hs_send :: "query \<Rightarrow> (string + 'd graphql_response) option"
  hs_requestTimeoutMs :: "int option"
  hs_pageSize :: "nat option"

definition graphql :: "'d hasura \<Rightarrow> query \<Rightarrow> string + 'd" where
  "graphql h q = (case withTimeout (\<lambda>_ message. message) (hs_send h q) ''Hasura GraphQL request''
       (nullish (hs_requestTimeoutMs h) DEFAULT_EXTERNAL_REQUEST_TIMEOUT_MS) of
     Inl e \<Rightarrow> Inl e
   | Inr response \<Rightarrow>
       if \<not> (200 \<le> gr_status response \<and> gr_status response \<le> 299)
       then Inl (''Hasura GraphQL request failed: '' @ nat_str (gr_status response) @ '' '' @ gr_text response)
       else if gr_errors response \<noteq> []
       then Inl (''Hasura GraphQL error: '' @ joinWith ''; '' (gr_errors response))
       else (case gr_data response of None \<Rightarrow> Inl ''Hasura GraphQL response did not include data.''
         | Some d \<Rightarrow> Inr d))"

section \<open>Pages\<close>

text \<open>The loop of \<open>paginate\<close>, with the page request as a parameter (\<open>None\<close> rows: the entity is
  missing from the body). It need not end, so not returning is \<open>None\<close>.\<close>

partial_function (option) pages :: "nat \<Rightarrow> (nat \<Rightarrow> string + 'r list option) \<Rightarrow> 'r list \<Rightarrow> nat \<Rightarrow>
    (string + 'r list) option" where
  "pages pageSize page rows offset = (case page offset of
     Inl e \<Rightarrow> Some (Inl e)
   | Inr body \<Rightarrow> (let batch = nullish body [] in
       if length batch < pageSize then Some (Inr (rows @ batch))
       else pages pageSize page (rows @ batch) (offset + pageSize)))"

definition paginate :: "'d hasura \<Rightarrow> ('d \<Rightarrow> 'r list option) \<Rightarrow> string \<Rightarrow> date_range \<Rightarrow>
    (string + 'r list) option" where
  "paginate h rowsOf entity r = (let pageSize = nullish (hs_pageSize h) 1000 in
     pages pageSize (\<lambda>offset. map_sum id rowsOf
       (graphql h (Page_Query entity (dr_start r) (dr_end r) pageSize offset))) [] 0)"

section \<open>Values\<close>

text \<open>A value of a row as JSON carries it: nothing, a number, or the text of a numeric column,
  given as the number it spells; \<open>Number(..)\<close> rounds it.\<close>

datatype raw_value = Raw_Null | Raw_Number rat | Raw_Numeric rat

fun toNumber :: "(rat \<Rightarrow> rat) \<Rightarrow> raw_value \<Rightarrow> rat" where
  "toNumber fl Raw_Null = 0"
| "toNumber fl (Raw_Number x) = x"
| "toNumber fl (Raw_Numeric x) = fl x"

definition chainName :: "string \<Rightarrow> string + string" where
  "chainName value = (if value \<in> set CHAIN_NAMES then Inr value else Inl (''Unknown chain name: '' @ value))"

text \<open>The switch over the six chain names.\<close>

definition chainIdForName :: "string \<Rightarrow> nat" where
  "chainIdForName name =
     (if name = ''Arbitrum'' then 42161 else if name = ''Ethereum'' then 1
      else if name = ''Fantom'' then 250 else if name = ''Polygon'' then 137
      else if name = ''Base'' then 8453 else 80094)"

text \<open>\<open>rows.map\<close> with a function that may throw: the first failure is thrown.\<close>

fun mapThrow :: "('a \<Rightarrow> string + 'b) \<Rightarrow> 'a list \<Rightarrow> string + 'b list" where
  "mapThrow f [] = Inr []"
| "mapThrow f (x # xs) = (case f x of Inl e \<Rightarrow> Inl e
     | Inr y \<Rightarrow> map_sum id ((#) y) (mapThrow f xs))"

section \<open>Rows of the database\<close>

record raw_chain_values =
  rc_blockchain :: string
  rc_block :: raw_value
  rc_timestamp :: raw_value
  rc_ohmTotalSupply :: raw_value
  rc_ohmCirculatingSupply :: raw_value
  rc_ohmFloatingSupply :: raw_value
  rc_ohmBackedSupply :: raw_value
  rc_treasuryMarketValue :: raw_value
  rc_treasuryLiquidBacking :: raw_value

record raw_supply_category =
  rk_category :: string
  rk_balance :: raw_value

record raw_progress =
  rp_block :: raw_value
  rp_date :: string
  rp_timestamp :: raw_value

record raw_daily_metric =
  rd_date :: string
  rd_crossChainComplete :: bool
  rd_chainsIndexed :: "nat list"
  rd_chainsMissing :: "nat list"
  rd_chainValues :: "raw_chain_values list option"
  rd_supplyCategories :: "raw_supply_category list option"
  rd_ohmIndex :: raw_value
  rd_ohmApy :: raw_value
  rd_ohmTotalSupply :: raw_value
  rd_ohmCirculatingSupply :: raw_value
  rd_ohmFloatingSupply :: raw_value
  rd_ohmBackedSupply :: raw_value
  rd_gOhmBackedSupply :: raw_value
  rd_ohmPrice :: raw_value
  rd_gOhmPrice :: raw_value
  rd_marketCap :: raw_value
  rd_sOhmCirculatingSupply :: raw_value
  rd_sOhmTotalValueLocked :: raw_value
  rd_treasuryMarketValue :: raw_value
  rd_treasuryLiquidBacking :: raw_value
  rd_treasuryLiquidBackingPerOhmFloating :: raw_value
  rd_treasuryLiquidBackingPerOhmBacked :: raw_value
  rd_treasuryLiquidBackingPerGOhmBacked :: raw_value

record raw_treasury_asset =
  rt_id :: string
  rt_balance :: raw_value
  rt_block :: raw_value
  rt_blockchain :: string
  rt_category :: string
  rt_date :: string
  rt_isBluechip :: bool
  rt_isLiquid :: bool
  rt_multiplier :: raw_value
  rt_rate :: raw_value
  rt_source :: string
  rt_sourceAddress :: string
  rt_timestamp :: raw_value
  rt_token :: string
  rt_tokenAddress :: string
  rt_value :: raw_value
  rt_valueExcludingOhm :: raw_value

record raw_ohm_supply =
  ru_id :: string
  ru_balance :: raw_value
  ru_block :: raw_value
  ru_blockchain :: string
  ru_date :: string
  ru_pool :: "string option"
  ru_poolAddress :: "string option"
  ru_source :: "string option"
  ru_sourceAddress :: "string option"
  ru_supplyBalance :: raw_value
  ru_timestamp :: raw_value
  ru_token :: string
  ru_tokenAddress :: string
  ru_type :: string

section \<open>Normalisation\<close>

definition SUPPLY_CATEGORY_TO_LEGACY_KEY :: "string \<rightharpoonup> string" where
  "SUPPLY_CATEGORY_TO_LEGACY_KEY = map_of [(''TOTAL_SUPPLY'', ''TotalSupply''), (''TREASURY'', ''Treasury''),
     (''OHM_MIGRATION_OFFSET'', ''MigrationOffset''), (''BONDS_PREMINTED'', ''BondsPreminted''),
     (''BONDS_VESTING_DEPOSITS'', ''BondsVestingDeposits''), (''BONDS_VESTING_TOKENS'', ''BondsVestingTokens''),
     (''BONDS_DEPOSITS'', ''BondsDeposits''), (''LIQUIDITY'', ''ProtocolOwnedLiquidity''),
     (''BOOSTED_LIQUIDITY_VAULT'', ''BoostedLiquidityVault''), (''LENDING'', ''LendingMarkets'')]"

text \<open>The eight component maps the loop over the chain rows fills.\<close>

record components =
  cm_blocks :: chain_values
  cm_timestamps :: chain_values
  cm_totalSupply :: chain_values
  cm_circulatingSupply :: chain_values
  cm_floatingSupply :: chain_values
  cm_backedSupply :: chain_values
  cm_marketValue :: chain_values
  cm_liquidBacking :: chain_values

definition emptyComponents :: components where
  "emptyComponents = \<lparr> cm_blocks = emptyChainValues, cm_timestamps = emptyChainValues,
     cm_totalSupply = emptyChainValues, cm_circulatingSupply = emptyChainValues,
     cm_floatingSupply = emptyChainValues, cm_backedSupply = emptyChainValues,
     cm_marketValue = emptyChainValues, cm_liquidBacking = emptyChainValues \<rparr>"

fun chainComponents :: "(rat \<Rightarrow> rat) \<Rightarrow> raw_chain_values list \<Rightarrow> components \<Rightarrow> string + components" where
  "chainComponents fl [] cm = Inr cm"
| "chainComponents fl (row # rows) cm = (case chainName (rc_blockchain row) of Inl e \<Rightarrow> Inl e
     | Inr chain \<Rightarrow> chainComponents fl rows \<lparr>
         cm_blocks = AList.update chain (toNumber fl (rc_block row)) (cm_blocks cm),
         cm_timestamps = AList.update chain (toNumber fl (rc_timestamp row)) (cm_timestamps cm),
         cm_totalSupply = AList.update chain (toNumber fl (rc_ohmTotalSupply row)) (cm_totalSupply cm),
         cm_circulatingSupply = AList.update chain (toNumber fl (rc_ohmCirculatingSupply row)) (cm_circulatingSupply cm),
         cm_floatingSupply = AList.update chain (toNumber fl (rc_ohmFloatingSupply row)) (cm_floatingSupply cm),
         cm_backedSupply = AList.update chain (toNumber fl (rc_ohmBackedSupply row)) (cm_backedSupply cm),
         cm_marketValue = AList.update chain (toNumber fl (rc_treasuryMarketValue row)) (cm_marketValue cm),
         cm_liquidBacking = AList.update chain (toNumber fl (rc_treasuryLiquidBacking row)) (cm_liquidBacking cm) \<rparr>)"

definition addCategory :: "(rat \<Rightarrow> rat) \<Rightarrow> chain_values \<Rightarrow> raw_supply_category \<Rightarrow> chain_values" where
  "addCategory fl values' row = (case SUPPLY_CATEGORY_TO_LEGACY_KEY (rk_category row) of None \<Rightarrow> values'
     | Some key \<Rightarrow> AList.map_entry key (\<lambda>v. fl (v + toNumber fl (rk_balance row))) values')"

text \<open>\<open>new Date(ms).toISOString()\<close> takes whole milliseconds and throws past its last day.\<close>

definition metricTimestamp :: "(rat \<Rightarrow> rat) \<Rightarrow> string \<Rightarrow> chain_values \<Rightarrow> string + string" where
  "metricTimestamp fl date timestamps = (let latestTimestamp = Max (set (map snd timestamps)) in
     if 0 < latestTimestamp
     then (let ms = \<lfloor>fl (latestTimestamp * 1000)\<rfloor> in
       if 8640000000000000 < ms then Inl ''Invalid time value'' else Inr (isoTimestamp ms))
     else Inr (date @ ''T00:00:00.000Z''))"

definition normalizeDailyMetric :: "(rat \<Rightarrow> rat) \<Rightarrow> raw_daily_metric \<Rightarrow> string + daily_metric" where
  "normalizeDailyMetric fl row =
     (let num = toNumber fl; chainsIndexed = rd_chainsIndexed row;
          chainsMissing = filter (\<lambda>c. c \<notin> set chainsIndexed) ALL_CHAIN_IDS_PUBLISHED
      in case chainComponents fl (nullish (rd_chainValues row) []) emptyComponents of Inl e \<Rightarrow> Inl e
      | Inr cm \<Rightarrow> (case metricTimestamp fl (rd_date row) (cm_timestamps cm) of Inl e \<Rightarrow> Inl e
        | Inr stamp \<Rightarrow> Inr \<lparr> dm_date = rd_date row, dm_blocks = cm_blocks cm, dm_timestamps = cm_timestamps cm,
            dm_crossChainComplete = isCrossChainComplete chainsIndexed,
            dm_chainsIndexed = chainsIndexed, dm_chainsMissing = chainsMissing,
            dm_ohmIndex = num (rd_ohmIndex row), dm_ohmApy = num (rd_ohmApy row),
            dm_ohmTotalSupply = num (rd_ohmTotalSupply row), dm_ohmTotalSupplyComponents = cm_totalSupply cm,
            dm_ohmCirculatingSupply = num (rd_ohmCirculatingSupply row),
            dm_ohmCirculatingSupplyComponents = cm_circulatingSupply cm,
            dm_ohmFloatingSupply = num (rd_ohmFloatingSupply row),
            dm_ohmFloatingSupplyComponents = cm_floatingSupply cm,
            dm_ohmBackedSupply = num (rd_ohmBackedSupply row), dm_gOhmBackedSupply = num (rd_gOhmBackedSupply row),
            dm_ohmBackedSupplyComponents = cm_backedSupply cm,
            dm_ohmSupplyCategories = foldl (addCategory fl) emptySupplyCategoryValues
              (nullish (rd_supplyCategories row) []),
            dm_ohmPrice = num (rd_ohmPrice row), dm_gOhmPrice = num (rd_gOhmPrice row),
            dm_marketCap = num (rd_marketCap row),
            dm_sOhmCirculatingSupply = num (rd_sOhmCirculatingSupply row),
            dm_sOhmTotalValueLocked = num (rd_sOhmTotalValueLocked row),
            dm_treasuryMarketValue = num (rd_treasuryMarketValue row),
            dm_treasuryMarketValueComponents = cm_marketValue cm,
            dm_treasuryLiquidBacking = num (rd_treasuryLiquidBacking row),
            dm_treasuryLiquidBackingComponents = cm_liquidBacking cm,
            dm_treasuryLiquidBackingPerOhmFloating = num (rd_treasuryLiquidBackingPerOhmFloating row),
            dm_treasuryLiquidBackingPerOhmBacked = num (rd_treasuryLiquidBackingPerOhmBacked row),
            dm_treasuryLiquidBackingPerGOhmBacked = num (rd_treasuryLiquidBackingPerGOhmBacked row),
            dm_ohmTotalSupplyRecords = None, dm_ohmCirculatingSupplyRecords = None,
            dm_ohmFloatingSupplyRecords = None, dm_ohmBackedSupplyRecords = None,
            dm_treasuryMarketValueRecords = None, dm_treasuryLiquidBackingRecords = None,
            dm_meta = \<lparr> rm_chainsComplete = filter (\<lambda>c. chainIdForName c \<in> set chainsIndexed) CHAIN_NAMES,
              rm_chainsFailed = filter (\<lambda>c. chainIdForName c \<in> set chainsMissing) CHAIN_NAMES,
              rm_timestamp = stamp \<rparr> \<rparr>))"

definition normalizeTreasuryAsset :: "(rat \<Rightarrow> rat) \<Rightarrow> raw_treasury_asset \<Rightarrow> string + treasury_asset" where
  "normalizeTreasuryAsset fl row = map_sum id (\<lambda>chain. \<lparr> ta_id = rt_id row, ta_balance = toNumber fl (rt_balance row),
     ta_block = toNumber fl (rt_block row), ta_blockchain = chain, ta_category = rt_category row,
     ta_date = rt_date row, ta_isBluechip = rt_isBluechip row, ta_isLiquid = rt_isLiquid row,
     ta_multiplier = toNumber fl (rt_multiplier row), ta_rate = toNumber fl (rt_rate row),
     ta_source = rt_source row, ta_sourceAddress = rt_sourceAddress row,
     ta_timestamp = toNumber fl (rt_timestamp row), ta_token = rt_token row, ta_tokenAddress = rt_tokenAddress row,
     ta_value = toNumber fl (rt_value row), ta_valueExcludingOhm = toNumber fl (rt_valueExcludingOhm row) \<rparr>)
     (chainName (rt_blockchain row))"

definition normalizeOhmSupply :: "(rat \<Rightarrow> rat) \<Rightarrow> raw_ohm_supply \<Rightarrow> string + ohm_supply" where
  "normalizeOhmSupply fl row = map_sum id (\<lambda>chain. \<lparr> os_id = ru_id row, os_balance = toNumber fl (ru_balance row),
     os_block = toNumber fl (ru_block row), os_blockchain = chain, os_date = ru_date row, os_pool = ru_pool row,
     os_poolAddress = ru_poolAddress row, os_source = nullish (ru_source row) '''',
     os_sourceAddress = nullish (ru_sourceAddress row) '''', os_supplyBalance = toNumber fl (ru_supplyBalance row),
     os_timestamp = toNumber fl (ru_timestamp row), os_token = ru_token row, os_tokenAddress = ru_tokenAddress row,
     os_type = ru_type row \<rparr>) (chainName (ru_blockchain row))"

section \<open>The source\<close>

text \<open>The \<open>data\<close> of an answer, by the query's aliases and entities.\<close>

record graphql_body =
  bo_earliest :: "string list option"
  bo_latest :: "string list option"
  bo_progress :: "string \<Rightarrow> raw_progress list option"
  bo_metrics :: "raw_daily_metric list option"
  bo_assets :: "raw_treasury_asset list option"
  bo_supplies :: "raw_ohm_supply list option"

definition completenessWhere :: "completeness \<Rightarrow> string" where
  "completenessWhere c = (case c of
     All_Chains \<Rightarrow> ''{ chainsIndexed: { _contains: ['' @ joinWith '', '' (map nat_str ALL_CHAIN_IDS_PUBLISHED) @ ''] } }''
   | Cross_Chain \<Rightarrow> ''{ crossChainComplete: { _eq: true } }'')"

definition firstDate :: "string list option \<Rightarrow> string option" where
  "firstDate rows = (case rows of Some (d # _) \<Rightarrow> Some d | _ \<Rightarrow> None)"

definition fetchBounds :: "graphql_body hasura \<Rightarrow> completeness \<Rightarrow> source_error + metrics_bounds" where
  "fetchBounds h c = (case graphql h (Bounds_Query (completenessWhere c)) of
     Inl e \<Rightarrow> Inl (Source_Failure e)
   | Inr body \<Rightarrow> (case (firstDate (bo_earliest body), firstDate (bo_latest body)) of
       (Some earliestDate, Some latestDate) \<Rightarrow> Inr \<lparr> mb_earliestDate = earliestDate, mb_latestDate = latestDate \<rparr>
     | _ \<Rightarrow> Inl Not_Data_Ready))"

definition chainProgressAlias :: "string \<Rightarrow> string" where
  "chainProgressAlias name = toLowerCase name @ ''Progress''"

definition chainProgressFromRows :: "string \<Rightarrow> raw_progress list option \<Rightarrow> (string \<times> raw_progress) list" where
  "chainProgressFromRows name rows = map (\<lambda>row. (name, row)) (nullish rows [])"

definition indexingProgressFromChainRows :: "(rat \<Rightarrow> rat) \<Rightarrow> (string \<times> raw_progress) list \<Rightarrow> indexing_progress" where
  "indexingProgressFromChainRows fl chainRows = foldl (\<lambda>chains (name, row). AList.update name
     \<lparr> cp_block = toNumber fl (rp_block row), cp_date = rp_date row,
       cp_timestamp = toNumber fl (rp_timestamp row) \<rparr> chains) [] chainRows"

definition fetchLatestIndexingProgress :: "(rat \<Rightarrow> rat) \<Rightarrow> graphql_body hasura \<Rightarrow> string + indexing_progress" where
  "fetchLatestIndexingProgress fl h = map_sum id (\<lambda>body. indexingProgressFromChainRows fl
       (concat (map (\<lambda>name. chainProgressFromRows name (bo_progress body (chainProgressAlias name))) CHAIN_NAMES)))
     (graphql h (Progress_Query (map (\<lambda>name. (chainProgressAlias name, chainIdForName name)) CHAIN_NAMES)))"

text \<open>The three reads; \<open>None\<close> where the pages never end.\<close>

definition fetchRows :: "'d hasura \<Rightarrow> ('d \<Rightarrow> 'r list option) \<Rightarrow> string \<Rightarrow>
    ('r \<Rightarrow> string + 'a) \<Rightarrow> date_range \<Rightarrow> (string + 'a list) option" where
  "fetchRows h rowsOf entity normalizeRow r = map_option (\<lambda>rows. case rows of Inl e \<Rightarrow> Inl e
     | Inr raw \<Rightarrow> mapThrow normalizeRow raw) (paginate h rowsOf entity r)"

definition fetchDailyMetrics :: "(rat \<Rightarrow> rat) \<Rightarrow> graphql_body hasura \<Rightarrow> date_range \<Rightarrow>
    (string + daily_metric list) option" where
  "fetchDailyMetrics fl h = fetchRows h bo_metrics ''GlobalMetricSnapshot'' (normalizeDailyMetric fl)"

definition fetchTreasuryAssets :: "(rat \<Rightarrow> rat) \<Rightarrow> graphql_body hasura \<Rightarrow> date_range \<Rightarrow>
    (string + treasury_asset list) option" where
  "fetchTreasuryAssets fl h = fetchRows h bo_assets ''TokenRecord'' (normalizeTreasuryAsset fl)"

definition fetchOhmSupply :: "(rat \<Rightarrow> rat) \<Rightarrow> graphql_body hasura \<Rightarrow> date_range \<Rightarrow>
    (string + ohm_supply list) option" where
  "fetchOhmSupply fl h = fetchRows h bo_supplies ''TokenSupply'' (normalizeOhmSupply fl)"

section \<open>The pages are the table\<close>

lemma pages_table:
  assumes "0 < pageSize" "\<And>offset. page offset = Inr (Some (take pageSize (drop offset table)))"
  shows "pages pageSize page rows offset = Some (Inr (rows @ drop offset table))"
proof (induction "length table - offset" arbitrary: rows offset rule: less_induct)
  case less
  let ?batch = "take pageSize (drop offset table)"
  have step: "pages pageSize page rows offset = (if length ?batch < pageSize then Some (Inr (rows @ ?batch))
      else pages pageSize page (rows @ ?batch) (offset + pageSize))"
    by (subst pages.simps) (simp add: assms(2) Let_def)
  show ?case
  proof (cases "length ?batch < pageSize")
    case True
    then have "?batch = drop offset table" by simp
    with True step show ?thesis by simp
  next
    case False
    then have "offset < length table" using assms(1) by (cases "offset < length table") simp_all
    then have "length table - (offset + pageSize) < length table - offset" using assms(1) by simp
    note less [OF this, of "rows @ ?batch"]
    moreover have "?batch @ drop (offset + pageSize) table = drop offset table"
      using append_take_drop_id [of pageSize "drop offset table"] by (simp add: add.commute)
    ultimately show ?thesis using False step by (simp only: append_assoc if_False)
  qed
qed

text \<open>Without progress the loop does not end.\<close>

lemma pages_stuck:
  assumes "\<And>offset. \<exists>body. page offset = Inr body"
  shows "pages 0 (page :: nat \<Rightarrow> string + 'r list option) rows offset = None"
proof (rule ccontr)
  let ?P = "\<lambda>pageSize (page :: nat \<Rightarrow> string + 'r list option) (rows :: 'r list) (offset :: nat)
    (result :: string + 'r list). pageSize = (0 :: nat) \<longrightarrow> (\<forall>offset. \<exists>body. page offset = Inr body) \<longrightarrow> False"
  assume "pages 0 page rows offset \<noteq> None"
  then obtain result where "pages 0 page rows offset = Some result" by blast
  then have "?P 0 page rows offset result"
  proof (rule pages.raw_induct [where P = ?P, rotated], intro impI)
    fix rec pageSize and page :: "nat \<Rightarrow> string + 'r list option" and rows offset result
    assume IH: "\<And>pageSize page rows offset result. rec pageSize page rows offset = Some result \<Longrightarrow> ?P pageSize page rows offset result"
      and r: "(case page offset of Inl e \<Rightarrow> Some (Inl e) | Inr body \<Rightarrow> (let batch = nullish body [] in
          if length batch < pageSize then Some (Inr (rows @ batch))
          else rec pageSize page (rows @ batch) (offset + pageSize))) = Some result"
      and z: "pageSize = 0" and ok: "\<forall>offset. \<exists>body. page offset = Inr body"
    from ok obtain body where body: "page offset = Inr body" by blast
    have "rec 0 page (rows @ nullish body []) offset = Some result" using r z body by (simp add: Let_def)
    then show False using IH ok by blast
  qed
  with assms show False by blast
qed

text \<open>
  C11: paging loses, repeats and reorders nothing. If the database answers every page request with
  that slice of the rows of the range, then however many rows there are and whatever the page size,
  the loop ends and the normalised rows are those of the whole range, in order. (A page size of 0
  is not rejected and never ends, \<open>pages_stuck\<close>.)
\<close>

theorem pagination_complete:
  assumes "0 < nullish (hs_pageSize h) 1000"
    and "\<And>offset. \<exists>body. graphql h (Page_Query entity (dr_start r) (dr_end r) (nullish (hs_pageSize h) 1000) offset) = Inr body
      \<and> rowsOf body = Some (take (nullish (hs_pageSize h) 1000) (drop offset table))"
  shows "fetchRows h rowsOf entity normalizeRow r = Some (mapThrow normalizeRow table)"
proof -
  let ?size = "nullish (hs_pageSize h) 1000"
  have "map_sum id rowsOf (graphql h (Page_Query entity (dr_start r) (dr_end r) ?size offset)) =
      Inr (Some (take ?size (drop offset table)))" for offset
    using assms(2) [of offset] by auto
  from pages_table [OF assms(1) this, of "[]" 0] show ?thesis by (simp add: fetchRows_def paginate_def Let_def)
qed

section \<open>What normalisation keeps\<close>

lemma map_of_emptyChainValues: "chain \<in> set CHAIN_NAMES \<Longrightarrow> map_of emptyChainValues chain = Some 0"
  by (auto simp: emptyChainValues_def CHAIN_NAMES_def)

text \<open>The last row of a chain counts.\<close>

definition lastOf :: "raw_chain_values list \<Rightarrow> string \<Rightarrow> raw_chain_values option" where
  "lastOf rows chain = List.find (\<lambda>row. rc_blockchain row = chain) (rev rows)"

definition componentOf :: "(rat \<Rightarrow> rat) \<Rightarrow> (raw_chain_values \<Rightarrow> raw_value) \<Rightarrow> raw_chain_values list \<Rightarrow> chain_values \<Rightarrow>
    string \<Rightarrow> rat option" where
  "componentOf fl field rows old chain = (case lastOf rows chain of None \<Rightarrow> map_of old chain
     | Some row \<Rightarrow> Some (toNumber fl (field row)))"

lemma find_append: "List.find P (xs @ ys) = (case List.find P xs of None \<Rightarrow> List.find P ys | Some x \<Rightarrow> Some x)"
  by (induction xs) simp_all

lemma componentOf_Cons:
  "componentOf fl field rows (AList.update (rc_blockchain row) (toNumber fl (field row)) old) chain =
    componentOf fl field (row # rows) old chain"
  by (auto simp: componentOf_def lastOf_def find_append update_conv' split: option.split)

lemma chainComponents_values:
  assumes "chainComponents fl rows cm = Inr cm'"
  shows "map_of (cm_blocks cm') chain = componentOf fl rc_block rows (cm_blocks cm) chain
    \<and> map_of (cm_timestamps cm') chain = componentOf fl rc_timestamp rows (cm_timestamps cm) chain
    \<and> map_of (cm_totalSupply cm') chain = componentOf fl rc_ohmTotalSupply rows (cm_totalSupply cm) chain
    \<and> map_of (cm_circulatingSupply cm') chain = componentOf fl rc_ohmCirculatingSupply rows (cm_circulatingSupply cm) chain
    \<and> map_of (cm_floatingSupply cm') chain = componentOf fl rc_ohmFloatingSupply rows (cm_floatingSupply cm) chain
    \<and> map_of (cm_backedSupply cm') chain = componentOf fl rc_ohmBackedSupply rows (cm_backedSupply cm) chain
    \<and> map_of (cm_marketValue cm') chain = componentOf fl rc_treasuryMarketValue rows (cm_marketValue cm) chain
    \<and> map_of (cm_liquidBacking cm') chain = componentOf fl rc_treasuryLiquidBacking rows (cm_liquidBacking cm) chain"
  using assms
proof (induction rows arbitrary: cm)
  case Nil
  then show ?case by (simp add: componentOf_def lastOf_def)
next
  case (Cons row rows)
  then have known: "rc_blockchain row \<in> set CHAIN_NAMES" by (auto simp: chainName_def split: if_splits)
  show ?case using Cons.IH Cons.prems known by (simp add: chainName_def componentOf_Cons)
qed

text \<open>A row of an unknown chain is the only thing that makes the loop throw.\<close>

lemma chainComponents_throws:
  "(\<exists>cm'. chainComponents fl rows cm = Inr cm') \<longleftrightarrow> (\<forall>row \<in> set rows. rc_blockchain row \<in> set CHAIN_NAMES)"
  by (induction rows arbitrary: cm) (auto simp: chainName_def)

text \<open>The category sums: every row adds to its key.\<close>

lemma addCategory_value:
  "map_of (foldl (addCategory fl) values' rows) key = map_option (\<lambda>v. foldl (\<lambda>v c. fl (v + toNumber fl (rk_balance c))) v
    (filter (\<lambda>c. SUPPLY_CATEGORY_TO_LEGACY_KEY (rk_category c) = Some key) rows)) (map_of values' key)"
  by (induction rows arbitrary: values')
    (auto simp: addCategory_def map_of_map_entry option.map_comp o_def option.map_ident split: option.split)

end
