(* ===== verification/Source_Properties.thy ===== *)
theory Source_Properties
  imports Metrics_Source Snapshot
begin

text \<open>
  From the indexer's tables to the artifacts: what the metrics source makes of a stored global row.
\<close>

section \<open>Categories\<close>

text \<open>The names under which the indexer stores its supply categories all have a key of their own.\<close>

lemma categories_have_keys:
  assumes "CATEGORY_TYPE_TO_ENUM ty = Some category"
  shows "\<exists>key. SUPPLY_CATEGORY_TO_LEGACY_KEY category = Some key \<and> map_of emptySupplyCategoryValues key = Some 0
      \<and> (\<forall>c. SUPPLY_CATEGORY_TO_LEGACY_KEY c = Some key \<longleftrightarrow> c = category)"
proof -
  have "category \<in> {''TOTAL_SUPPLY'', ''TREASURY'', ''OHM_MIGRATION_OFFSET'', ''BONDS_PREMINTED'',
      ''BONDS_VESTING_DEPOSITS'', ''BONDS_VESTING_TOKENS'', ''BONDS_DEPOSITS'', ''LIQUIDITY'',
      ''BOOSTED_LIQUIDITY_VAULT'', ''LENDING''}"
    using assms by (auto simp: CATEGORY_TYPE_TO_ENUM_def split: if_splits)
  then show ?thesis
    by (elim insertE emptyE) (simp_all add: SUPPLY_CATEGORY_TO_LEGACY_KEY_def emptySupplyCategoryValues_def)
qed

text \<open>A component map of the normalised row: the last row of each chain, 0 for a chain without one.\<close>

definition figureOf :: "(rat \<Rightarrow> rat) \<Rightarrow> (raw_chain_values \<Rightarrow> raw_value) \<Rightarrow> raw_daily_metric \<Rightarrow> string \<Rightarrow> rat" where
  "figureOf fl field row chain = (case lastOf (nullish (rd_chainValues row) []) chain of None \<Rightarrow> 0
     | Some r \<Rightarrow> toNumber fl (field r))"

lemma component_figure:
  "chain \<in> set CHAIN_NAMES \<Longrightarrow>
    componentOf fl field (nullish (rd_chainValues row) []) emptyChainValues chain = Some (figureOf fl field row chain)"
  by (simp add: componentOf_def figureOf_def map_of_emptyChainValues split: option.split)

lemma normalized_parts:
  assumes "normalizeDailyMetric fl row = Inr m"
  obtains cm where "chainComponents fl (nullish (rd_chainValues row) []) emptyComponents = Inr cm"
    "dm_treasuryMarketValueComponents m = cm_marketValue cm" "dm_treasuryLiquidBackingComponents m = cm_liquidBacking cm"
    "dm_ohmTotalSupplyComponents m = cm_totalSupply cm" "dm_ohmCirculatingSupplyComponents m = cm_circulatingSupply cm"
    "dm_ohmFloatingSupplyComponents m = cm_floatingSupply cm" "dm_ohmBackedSupplyComponents m = cm_backedSupply cm"
    "dm_blocks m = cm_blocks cm" "dm_timestamps m = cm_timestamps cm"
    "dm_ohmSupplyCategories m = foldl (addCategory fl) emptySupplyCategoryValues (nullish (rd_supplyCategories row) [])"
  using assms by (auto simp: normalizeDailyMetric_def Let_def split: sum.splits)

text \<open>
  C29: normalising a stored row loses no figure of the indexer. Whenever it succeeds, every
  component of every chain is the one of the chain's last row (0 without one), and for every supply
  type the indexer stores, the legacy map has a key that holds the sum of exactly that type's rows:
  no type is dropped and no two are merged.
\<close>

theorem normalisation_keeps_figures:
  assumes "normalizeDailyMetric fl row = Inr m"
  shows "(chain \<in> set CHAIN_NAMES \<longrightarrow>
      map_of (dm_treasuryMarketValueComponents m) chain = Some (figureOf fl rc_treasuryMarketValue row chain)
    \<and> map_of (dm_treasuryLiquidBackingComponents m) chain = Some (figureOf fl rc_treasuryLiquidBacking row chain)
    \<and> map_of (dm_ohmTotalSupplyComponents m) chain = Some (figureOf fl rc_ohmTotalSupply row chain)
    \<and> map_of (dm_ohmCirculatingSupplyComponents m) chain = Some (figureOf fl rc_ohmCirculatingSupply row chain)
    \<and> map_of (dm_ohmFloatingSupplyComponents m) chain = Some (figureOf fl rc_ohmFloatingSupply row chain)
    \<and> map_of (dm_ohmBackedSupplyComponents m) chain = Some (figureOf fl rc_ohmBackedSupply row chain)
    \<and> map_of (dm_blocks m) chain = Some (figureOf fl rc_block row chain)
    \<and> map_of (dm_timestamps m) chain = Some (figureOf fl rc_timestamp row chain))
  \<and> (CATEGORY_TYPE_TO_ENUM ty = Some category \<longrightarrow> (\<exists>key. SUPPLY_CATEGORY_TO_LEGACY_KEY category = Some key
      \<and> map_of (dm_ohmSupplyCategories m) key = Some (foldl (\<lambda>v c. fl (v + toNumber fl (rk_balance c))) 0
          (filter (\<lambda>c. rk_category c = category) (nullish (rd_supplyCategories row) [])))))"
proof (intro conjI impI)
  assume "CATEGORY_TYPE_TO_ENUM ty = Some category"
  from categories_have_keys [OF this] obtain key where key: "SUPPLY_CATEGORY_TO_LEGACY_KEY category = Some key"
    "map_of emptySupplyCategoryValues key = Some 0" "\<And>c. SUPPLY_CATEGORY_TO_LEGACY_KEY c = Some key \<longleftrightarrow> c = category"
    by blast
  show "\<exists>key. SUPPLY_CATEGORY_TO_LEGACY_KEY category = Some key
      \<and> map_of (dm_ohmSupplyCategories m) key = Some (foldl (\<lambda>v c. fl (v + toNumber fl (rk_balance c))) 0
          (filter (\<lambda>c. rk_category c = category) (nullish (rd_supplyCategories row) [])))"
    by (rule normalized_parts [OF assms], rule exI [of _ key]) (simp add: key addCategory_value)
next
  assume chain: "chain \<in> set CHAIN_NAMES"
  from normalized_parts [OF assms] obtain cm where
    cm: "chainComponents fl (nullish (rd_chainValues row) []) emptyComponents = Inr cm"
    and parts: "dm_treasuryMarketValueComponents m = cm_marketValue cm" "dm_treasuryLiquidBackingComponents m = cm_liquidBacking cm"
      "dm_ohmTotalSupplyComponents m = cm_totalSupply cm" "dm_ohmCirculatingSupplyComponents m = cm_circulatingSupply cm"
      "dm_ohmFloatingSupplyComponents m = cm_floatingSupply cm" "dm_ohmBackedSupplyComponents m = cm_backedSupply cm"
      "dm_blocks m = cm_blocks cm" "dm_timestamps m = cm_timestamps cm" by metis
  note figures = chainComponents_values [OF cm, of chain] component_figure [OF chain]
  show "map_of (dm_treasuryMarketValueComponents m) chain = Some (figureOf fl rc_treasuryMarketValue row chain)"
    "map_of (dm_treasuryLiquidBackingComponents m) chain = Some (figureOf fl rc_treasuryLiquidBacking row chain)"
    "map_of (dm_ohmTotalSupplyComponents m) chain = Some (figureOf fl rc_ohmTotalSupply row chain)"
    "map_of (dm_ohmCirculatingSupplyComponents m) chain = Some (figureOf fl rc_ohmCirculatingSupply row chain)"
    "map_of (dm_ohmFloatingSupplyComponents m) chain = Some (figureOf fl rc_ohmFloatingSupply row chain)"
    "map_of (dm_ohmBackedSupplyComponents m) chain = Some (figureOf fl rc_ohmBackedSupply row chain)"
    "map_of (dm_blocks m) chain = Some (figureOf fl rc_block row chain)"
    "map_of (dm_timestamps m) chain = Some (figureOf fl rc_timestamp row chain)"
    unfolding parts using figures by (simp_all add: emptyComponents_def)
qed

section \<open>Examples\<close>

definition sample_raw :: raw_daily_metric where
  "sample_raw = \<lparr> rd_date = ''2024-01-01'', rd_crossChainComplete = True, rd_chainsIndexed = [1, 42161], rd_chainsMissing = [],
     rd_chainValues = Some [\<lparr> rc_blockchain = ''Ethereum'', rc_block = Raw_Number 7, rc_timestamp = Raw_Null,
       rc_ohmTotalSupply = Raw_Numeric 5, rc_ohmCirculatingSupply = Raw_Null, rc_ohmFloatingSupply = Raw_Null,
       rc_ohmBackedSupply = Raw_Null, rc_treasuryMarketValue = Raw_Numeric 9, rc_treasuryLiquidBacking = Raw_Null \<rparr>],
     rd_supplyCategories = Some [\<lparr> rk_category = ''TREASURY'', rk_balance = Raw_Numeric 3 \<rparr>,
       \<lparr> rk_category = ''LENDING'', rk_balance = Raw_Numeric 2 \<rparr>, \<lparr> rk_category = ''TREASURY'', rk_balance = Raw_Numeric 1 \<rparr>],
     rd_ohmIndex = Raw_Null, rd_ohmApy = Raw_Null, rd_ohmTotalSupply = Raw_Null, rd_ohmCirculatingSupply = Raw_Null,
     rd_ohmFloatingSupply = Raw_Null, rd_ohmBackedSupply = Raw_Null, rd_gOhmBackedSupply = Raw_Null,
     rd_ohmPrice = Raw_Null, rd_gOhmPrice = Raw_Null, rd_marketCap = Raw_Null, rd_sOhmCirculatingSupply = Raw_Null,
     rd_sOhmTotalValueLocked = Raw_Null, rd_treasuryMarketValue = Raw_Null, rd_treasuryLiquidBacking = Raw_Null,
     rd_treasuryLiquidBackingPerOhmFloating = Raw_Null, rd_treasuryLiquidBackingPerOhmBacked = Raw_Null,
     rd_treasuryLiquidBackingPerGOhmBacked = Raw_Null \<rparr>"

theorem normalisation_keeps_figures_witness:
  "\<exists>m. normalizeDailyMetric (\<lambda>x. x) sample_raw = Inr m
     \<and> map_of (dm_treasuryMarketValueComponents m) ''Ethereum'' = Some 9
     \<and> map_of (dm_ohmSupplyCategories m) ''Treasury'' = Some 4"
proof -
  have "\<exists>m. normalizeDailyMetric (\<lambda>x. x) sample_raw = Inr m"
    by (simp add: normalizeDailyMetric_def sample_raw_def chainName_def CHAIN_NAMES_def metricTimestamp_def
        emptyComponents_def emptyChainValues_def Let_def)
  then obtain m where m: "normalizeDailyMetric (\<lambda>x. x) sample_raw = Inr m" by blast
  have "figureOf (\<lambda>x. x) rc_treasuryMarketValue sample_raw ''Ethereum'' = 9"
    by (simp add: figureOf_def lastOf_def sample_raw_def)
  moreover have "foldl (\<lambda>v c. v + toNumber (\<lambda>x. x) (rk_balance c)) 0 (filter (\<lambda>c. rk_category c = ''TREASURY'')
      (nullish (rd_supplyCategories sample_raw) [])) = 4"
    by (simp add: sample_raw_def)
  ultimately show ?thesis
    using normalisation_keeps_figures [OF m, of "''Ethereum''" "''Treasury''" "''TREASURY''"] m
    by (auto simp: CHAIN_NAMES_def CATEGORY_TYPE_TO_ENUM_def SUPPLY_CATEGORY_TO_LEGACY_KEY_def)
qed

text \<open>A database with 5 rows, read three at a time.\<close>

definition sample_hasura :: "raw_daily_metric list hasura" where
  "sample_hasura = \<lparr> hs_send = (\<lambda>q. case q of
       Page_Query entity start end' limit offset \<Rightarrow> Some (Inr \<lparr> gr_status = 200, gr_text = '''', gr_errors = [],
         gr_data = Some (take limit (drop offset (replicate 5 sample_raw))) \<rparr>)
     | _ \<Rightarrow> None), hs_requestTimeoutMs = None, hs_pageSize = Some 3 \<rparr>"

theorem pagination_complete_witness:
  "fetchRows sample_hasura Some ''GlobalMetricSnapshot'' Inr \<lparr> dr_start = ''2024-01-01'', dr_end = ''2024-01-05'', dr_days = 5 \<rparr>
    = Some (Inr (replicate 5 sample_raw))"
proof -
  have page: "graphql sample_hasura (Page_Query entity start end' limit offset) =
      Inr (take limit (drop offset (replicate 5 sample_raw)))" for entity start end' limit offset
    by (simp add: graphql_def withTimeout_def validateTimeoutMs_def sample_hasura_def DEFAULT_EXTERNAL_REQUEST_TIMEOUT_MS_def)
  have "0 < nullish (hs_pageSize sample_hasura) 1000" by (simp add: sample_hasura_def)
  moreover have "mapThrow Inr xs = Inr xs" for xs :: "raw_daily_metric list"
    by (induction xs) simp_all
  ultimately show ?thesis
    using pagination_complete [of sample_hasura, where normalizeRow = "Inr :: raw_daily_metric \<Rightarrow> string + raw_daily_metric", OF _ exI, OF _ conjI [OF page refl]] by simp
qed

end
