(* ===== verification/Rpc.thy ===== *)
theory Rpc
  imports Types
begin

text \<open>
  The transport of the chain reads (\<open>snapshot/rpc-client.ts\<close>): which failures are worth another
  attempt, the retry loop, the rate limiter of a chain and the environment variables that set
  them up. The \<open>viem\<close> client is third-party code: an operation is a parameter that maps the
  state of the world to a thrown error or a value and the world afterwards, and so is the effect
  of sleeping. \<open>dbl\<close> and \<open>fl\<close> round a quotient and a literal to a double.
\<close>

section \<open>Numbers in strings\<close>

text \<open>
  \<open>Number(text)\<close>: surrounding blanks are ignored, the empty text is 0, hexadecimal, octal and
  binary integers carry a prefix and no sign, the rest is a decimal literal with an optional
  sign, fraction and exponent. \<open>fl\<close> is the rounding to a double, which may overflow.
\<close>

definition radixDigit :: "char \<Rightarrow> nat" where
  "radixDigit c = (let n = of_char (lower_char c) :: nat in
     if 48 \<le> n \<and> n \<le> 57 then n - 48 else if 97 \<le> n \<and> n \<le> 122 then n - 87 else 99)"

definition parseRadix :: "nat \<Rightarrow> string \<Rightarrow> nat option" where
  "parseRadix base text = (if text \<noteq> [] \<and> list_all (\<lambda>c. radixDigit c < base) text
     then Some (foldl (\<lambda>acc c. base * acc + radixDigit c) 0 text) else None)"

fun parseSign :: "string \<Rightarrow> int \<times> string" where
  "parseSign [] = (1, [])"
| "parseSign (c # cs) = (if c = CHR ''-'' then (- 1, cs) else if c = CHR ''+'' then (1, cs)
     else (1, c # cs))"

definition splitAt :: "(char \<Rightarrow> bool) \<Rightarrow> string \<Rightarrow> string \<times> string option" where
  "splitAt P text = (case dropWhile (\<lambda>c. \<not> P c) text of [] \<Rightarrow> (text, None)
     | _ # rest \<Rightarrow> (takeWhile (\<lambda>c. \<not> P c) text, Some rest))"

definition parseExponent :: "string option \<Rightarrow> int option" where
  "parseExponent exponent = (case exponent of None \<Rightarrow> Some 0
     | Some text \<Rightarrow> (case parseSign text of (sign, digits) \<Rightarrow>
         map_option (\<lambda>n. sign * int n) (parseRadix 10 digits)))"

definition parseDecimal :: "string \<Rightarrow> rat option" where
  "parseDecimal text = (let (mantissa, exponent) = splitAt (\<lambda>c. c = CHR ''e'' \<or> c = CHR ''E'') text;
        (whole, fraction) = splitAt (\<lambda>c. c = CHR ''.'') mantissa; places = nullish fraction []
     in case (parseRadix 10 (whole @ places), parseExponent exponent) of
          (Some n, Some e) \<Rightarrow> Some (of_nat n * power_int 10 (e - int (length places)))
        | _ \<Rightarrow> None)"

definition numberOf :: "(rat \<Rightarrow> bignumber) \<Rightarrow> string \<Rightarrow> bignumber" where
  "numberOf fl s = (let text = trim s in
     if text = [] then Fin 0
     else if take 2 text \<in> {''0x'', ''0X''} then case_option NaN (fl \<circ> of_nat) (parseRadix 16 (drop 2 text))
     else if take 2 text \<in> {''0o'', ''0O''} then case_option NaN (fl \<circ> of_nat) (parseRadix 8 (drop 2 text))
     else if take 2 text \<in> {''0b'', ''0B''} then case_option NaN (fl \<circ> of_nat) (parseRadix 2 (drop 2 text))
     else (case parseSign text of (sign, rest) \<Rightarrow>
       if rest = ''Infinity'' then (if sign < 0 then NegInf else PosInf)
       else case_option NaN (\<lambda>q. fl (of_int sign * q)) (parseDecimal rest)))"

section \<open>Errors\<close>

text \<open>
  What is thrown: an object with its attributes and, if it has one, its cause, or something that
  is not an object. An attribute is a string, a number with the text \<open>String\<close> prints it as, or
  any other value with its text.
\<close>

datatype attribute = Text string | Numeric bignumber string | Other string

fun stringOf :: "attribute \<Rightarrow> string" where
  "stringOf (Text s) = s" | "stringOf (Numeric _ s) = s" | "stringOf (Other s) = s"

datatype rpc_error = Not_Object | Rpc_Error "(string \<times> attribute) list" "rpc_error option"

fun toNumberAttribute :: "(rat \<Rightarrow> bignumber) \<Rightarrow> attribute \<Rightarrow> bignumber option" where
  "toNumberAttribute fl (Text s) = Some (numberOf fl s)"
| "toNumberAttribute fl (Numeric x _) = Some x"
| "toNumberAttribute fl (Other _) = None"

definition RETRYABLE_STATUSES :: "bignumber list" where
  "RETRYABLE_STATUSES = [Fin 429, Fin 500, Fin 502, Fin 503, Fin 504]"

definition INTERNAL_RPC_ERROR_CODE :: bignumber where "INTERNAL_RPC_ERROR_CODE = Fin (- 32603)"

definition containsText :: "string \<Rightarrow> string \<Rightarrow> bool" where
  "containsText text part \<longleftrightarrow> list_ex (\<lambda>i. take (length part) (drop i text) = part) [0..<Suc (length text)]"

text \<open>The status test \<open>status && ...\<close> lets neither 0 nor NaN through, which are not in the set
  either.\<close>

fun isRetryableRpcError :: "(rat \<Rightarrow> bignumber) \<Rightarrow> rpc_error \<Rightarrow> bool" where
  "isRetryableRpcError fl Not_Object = False"
| "isRetryableRpcError fl (Rpc_Error attributes cause) =
     (let get = (\<lambda>name. case map_of attributes name of None \<Rightarrow> '''' | Some a \<Rightarrow> stringOf a);
          number = (\<lambda>name. Option.bind (map_of attributes name) (toNumberAttribute fl));
          details = get ''details''; shortMessage = get ''shortMessage''
      in if get ''name'' = ''BlockNotFoundError'' then True
         else if get ''name'' = ''InternalRpcError'' \<or> number ''code'' = Some INTERNAL_RPC_ERROR_CODE then True
         else if list_ex (\<lambda>s. number ''status'' = Some s) RETRYABLE_STATUSES then True
         else if containsText details ''Too Many Requests'' then True
         else if containsText details ''compute units per second capacity'' then True
         else if toLowerCase (trim details) = ''internal error'' then True
         else if containsText (get ''message'') ''compute units per second capacity'' then True
         else if containsText shortMessage ''could not be found'' \<and> containsText shortMessage ''Block at number''
         then True
         else (case cause of None \<Rightarrow> False | Some e \<Rightarrow> isRetryableRpcError fl e))"

section \<open>Retries\<close>

type_synonym ('w, 'a) io = "'w \<Rightarrow> (rpc_error + 'a) \<times> 'w"

definition MAX_RPC_ATTEMPTS :: nat where "MAX_RPC_ATTEMPTS = 6"
definition BASE_RETRY_DELAY_MS :: nat where "BASE_RETRY_DELAY_MS = 1000"

text \<open>One round of the loop per attempt; \<open>lastError\<close> is what the loop throws when it ends.\<close>

function retryFrom :: "(rat \<Rightarrow> bignumber) \<Rightarrow> (nat \<Rightarrow> 'w \<Rightarrow> 'w) \<Rightarrow> ('w, 'a) io \<Rightarrow> nat \<Rightarrow> rpc_error \<Rightarrow> ('w, 'a) io" where
  "retryFrom fl sleep operation attempt lastError w =
     (if attempt > MAX_RPC_ATTEMPTS then (Inl lastError, w)
      else case operation w of
        (Inr x, w') \<Rightarrow> (Inr x, w')
      | (Inl e, w') \<Rightarrow>
          if \<not> isRetryableRpcError fl e \<or> attempt = MAX_RPC_ATTEMPTS then (Inl e, w')
          else retryFrom fl sleep operation (attempt + 1) e
                 (sleep (BASE_RETRY_DELAY_MS * 2 ^ (attempt - 1)) w'))"
  by pat_completeness auto
termination
  by (relation "measure (\<lambda>(_, _, _, attempt, _, _). Suc MAX_RPC_ATTEMPTS - attempt)") auto

declare retryFrom.simps [simp del]

definition retryRpc :: "(rat \<Rightarrow> bignumber) \<Rightarrow> (nat \<Rightarrow> 'w \<Rightarrow> 'w) \<Rightarrow> ('w, 'a) io \<Rightarrow> ('w, 'a) io" where
  "retryRpc fl sleep operation = retryFrom fl sleep operation 1 Not_Object"

section \<open>Rate limiting\<close>

text \<open>
  \<open>wait\<close> calls queue up. A call that reaches the head of the queue at \<open>now\<close> sleeps until
  \<open>nextAvailableAt\<close> if that is still ahead, is released, and moves \<open>nextAvailableAt\<close> one interval
  past its release; \<open>lag\<close> is what a timer takes beyond the time asked for.
\<close>

record rpc_rate_limiter =
  rl_intervalMs :: nat
  rl_nextAvailableAt :: nat

definition newRateLimiter :: "rounding \<Rightarrow> rat \<Rightarrow> rpc_rate_limiter" where
  "newRateLimiter dbl requestsPerSecond =
     \<lparr> rl_intervalMs = nat \<lceil>dbl (1000 / requestsPerSecond)\<rceil>, rl_nextAvailableAt = 0 \<rparr>"

definition rateWait :: "rpc_rate_limiter \<Rightarrow> nat \<times> nat \<Rightarrow> nat \<times> rpc_rate_limiter" where
  "rateWait l call = (let (now, lag) = call;
        delayMs = (if rl_nextAvailableAt l > now then rl_nextAvailableAt l - now else 0);
        released = now + delayMs + lag
     in (released, l \<lparr> rl_nextAvailableAt := released + rl_intervalMs l \<rparr>))"

fun releases :: "rpc_rate_limiter \<Rightarrow> (nat \<times> nat) list \<Rightarrow> nat list" where
  "releases l [] = []"
| "releases l (call # calls) = (let (released, l') = rateWait l call in released # releases l' calls)"

section \<open>Settings\<close>

text \<open>\<open>env name\<close> is \<open>process.env[name]\<close>. A JavaScript number counts as an integer when it is
  finite and whole.\<close>

definition positiveInteger :: "bignumber \<Rightarrow> nat option" where
  "positiveInteger x = (case x of Fin q \<Rightarrow> if of_int \<lfloor>q\<rfloor> = q \<and> q > 0 then Some (nat \<lfloor>q\<rfloor>) else None | _ \<Rightarrow> None)"

definition envInteger :: "(rat \<Rightarrow> bignumber) \<Rightarrow> (string \<Rightarrow> string option) \<Rightarrow> string \<Rightarrow> nat \<Rightarrow> nat" where
  "envInteger fl env name fallback =
     (case Option.bind (env name) (\<lambda>s. positiveInteger (numberOf fl s)) of None \<Rightarrow> fallback | Some n \<Rightarrow> n)"

definition getHttpBatchSize :: "(rat \<Rightarrow> bignumber) \<Rightarrow> (string \<Rightarrow> string option) \<Rightarrow> nat" where
  "getHttpBatchSize fl env = envInteger fl env ''ENVIO_RPC_HTTP_BATCH_SIZE'' 10"

definition getMulticallBatchSize :: "(rat \<Rightarrow> bignumber) \<Rightarrow> (string \<Rightarrow> string option) \<Rightarrow> nat" where
  "getMulticallBatchSize fl env = envInteger fl env ''ENVIO_RPC_MULTICALL_BATCH_SIZE'' 128"

definition getRpcTimeoutMs :: "(rat \<Rightarrow> bignumber) \<Rightarrow> (string \<Rightarrow> string option) \<Rightarrow> nat" where
  "getRpcTimeoutMs fl env = envInteger fl env ''ENVIO_RPC_TIMEOUT_MS'' 30000"

definition getConfiguredNumber :: "(rat \<Rightarrow> bignumber) \<Rightarrow> string option \<Rightarrow> rat option" where
  "getConfiguredNumber fl value' = (case value' of None \<Rightarrow> None
     | Some s \<Rightarrow> if trim s = '''' then None
        else (case numberOf fl s of Fin q \<Rightarrow> if q \<ge> 0 then Some q else None | _ \<Rightarrow> None))"

definition upper_char :: "char \<Rightarrow> char" where
  "upper_char c = (if 97 \<le> (of_char c :: nat) \<and> (of_char c :: nat) \<le> 122
     then char_of ((of_char c :: nat) - 32) else c)"

definition getRpcRequestsPerSecond :: "(rat \<Rightarrow> bignumber) \<Rightarrow> (string \<Rightarrow> string option) \<Rightarrow> chain_config \<Rightarrow> rat" where
  "getRpcRequestsPerSecond fl env config =
     (let chainSpecificKey = ''ENVIO_'' @ map upper_char (cc_blockchain config) @ ''_RPC_REQUESTS_PER_SECOND''
      in nullish (getConfiguredNumber fl (case env chainSpecificKey of Some s \<Rightarrow> Some s
            | None \<Rightarrow> env ''ENVIO_RPC_REQUESTS_PER_SECOND'')) 0)"

section \<open>Clients\<close>

text \<open>The URLs of a chain (\<open>snapshot/chains/rpc.ts\<close>): the configured one, or the default, first;
  the warning about a default is left out.\<close>

definition rpcUrls :: "(string \<Rightarrow> string option) \<Rightarrow> string \<Rightarrow> string \<Rightarrow> string list \<Rightarrow> string list" where
  "rpcUrls env prefix defaultUrl defaultFallbackUrls =
     (let envPrefix = ''ENVIO_'' @ prefix;
          configuredPrimary = (case map_option trim (env (envPrefix @ ''_RPC_URL'')) of None \<Rightarrow> None
            | Some text \<Rightarrow> if text = [] then None else Some text);
          primary = nullish configuredPrimary defaultUrl;
          fallbacks = filter (\<lambda>url. url \<noteq> []) (map trim (splitOn CHR '',''
            (nullish (env (envPrefix @ ''_FALLBACK_RPC_URLS'')) [])))
      in if configuredPrimary \<noteq> None then primary # fallbacks
         else primary # (if fallbacks \<noteq> [] then fallbacks else defaultFallbackUrls))"

text \<open>
  The client of a chain, made once: its transports with their batch size, timeout and limiter
  (none when the requests per second are 0), and the viem chain. \<open>urls\<close> are the chain's
  \<open>rpcUrls\<close>. A single transport is used as it is, several through \<open>fallback\<close>.
\<close>

record transport =
  tp_url :: string
  tp_batchSize :: nat
  tp_timeout :: nat
  tp_limited :: bool

record rpc_client =
  rc_chain :: nat
  rc_multicallBatchSize :: nat
  rc_transports :: "transport list"

record rpc_state =
  rs_clients :: "nat \<rightharpoonup> rpc_client"
  rs_rateLimiters :: "nat \<rightharpoonup> rpc_rate_limiter option"

definition getRpcRateLimiter :: "rounding \<Rightarrow> (rat \<Rightarrow> bignumber) \<Rightarrow> (string \<Rightarrow> string option) \<Rightarrow> chain_config \<Rightarrow> rpc_state \<Rightarrow>
    rpc_rate_limiter option \<times> rpc_state" where
  "getRpcRateLimiter dbl fl env config s = (case rs_rateLimiters s (cc_chainId config) of
       Some limiter \<Rightarrow> (limiter, s)
     | None \<Rightarrow> (let requestsPerSecond = getRpcRequestsPerSecond fl env config;
           limiter = (if requestsPerSecond > 0 then Some (newRateLimiter dbl requestsPerSecond) else None)
         in (limiter, s \<lparr> rs_rateLimiters := (rs_rateLimiters s)(cc_chainId config \<mapsto> limiter) \<rparr>)))"

definition getClient :: "rounding \<Rightarrow> (rat \<Rightarrow> bignumber) \<Rightarrow> (string \<Rightarrow> string option) \<Rightarrow> string list \<Rightarrow> chain_config \<Rightarrow>
    rpc_state \<Rightarrow> rpc_client \<times> rpc_state" where
  "getClient dbl fl env urls config s = (case rs_clients s (cc_chainId config) of
       Some existing \<Rightarrow> (existing, s)
     | None \<Rightarrow> (let (limiter, s') = getRpcRateLimiter dbl fl env config s;
           client = \<lparr> rc_chain = cc_chainId config, rc_multicallBatchSize = getMulticallBatchSize fl env,
             rc_transports = map (\<lambda>url. \<lparr> tp_url = url, tp_batchSize = getHttpBatchSize fl env,
               tp_timeout = getRpcTimeoutMs fl env, tp_limited = (limiter \<noteq> None) \<rparr>) urls \<rparr>
         in (client, s' \<lparr> rs_clients := (rs_clients s')(cc_chainId config \<mapsto> client) \<rparr>)))"

section \<open>What a client is made of\<close>

lemma rpcUrls_not_blank:
  assumes "defaultUrl \<noteq> []" "[] \<notin> set defaultFallbackUrls"
  shows "rpcUrls env prefix defaultUrl defaultFallbackUrls \<noteq> [] \<and> [] \<notin> set (rpcUrls env prefix defaultUrl defaultFallbackUrls)"
  using assms by (auto simp: rpcUrls_def Let_def nullish_def split: option.splits if_splits)

text \<open>A chain has one client for the whole run: what the environment and the URLs say after the
  first call no longer matters.\<close>

lemma getClient_once:
  assumes "getClient dbl fl env urls config s = (client, s')"
  shows "getClient dbl' fl' env' urls' config s' = (client, s')"
  using assms by (auto simp: getClient_def Let_def split: option.splits prod.splits)

section \<open>What the retry loop does\<close>

text \<open>The world before attempt \<open>k + 1\<close>, if every attempt before it failed and was slept on.\<close>

fun worldAt :: "(nat \<Rightarrow> 'w \<Rightarrow> 'w) \<Rightarrow> ('w, 'a) io \<Rightarrow> 'w \<Rightarrow> nat \<Rightarrow> 'w" where
  "worldAt sleep operation w 0 = w"
| "worldAt sleep operation w (Suc k) =
     sleep (BASE_RETRY_DELAY_MS * 2 ^ k) (snd (operation (worldAt sleep operation w k)))"

definition transient :: "(rat \<Rightarrow> bignumber) \<Rightarrow> rpc_error + 'a \<Rightarrow> bool" where
  "transient fl r \<longleftrightarrow> (case r of Inl e \<Rightarrow> isRetryableRpcError fl e | Inr _ \<Rightarrow> False)"

text \<open>Attempt \<open>j + 1\<close> is the first from \<open>k + 1\<close> on that is not a transient failure, or the last.\<close>

definition settlesAt :: "(rat \<Rightarrow> bignumber) \<Rightarrow> (nat \<Rightarrow> 'w \<Rightarrow> 'w) \<Rightarrow> ('w, 'a) io \<Rightarrow> 'w \<Rightarrow> nat \<Rightarrow> nat \<Rightarrow> bool" where
  "settlesAt fl sleep operation w k j \<longleftrightarrow>
     (let failed = (\<lambda>i. transient fl (fst (operation (worldAt sleep operation w i))))
      in k \<le> j \<and> j < MAX_RPC_ATTEMPTS \<and> list_all failed [k..<j] \<and> (failed j \<longrightarrow> Suc j = MAX_RPC_ATTEMPTS))"

lemma settlesAt_earlier:
  assumes "settlesAt fl sleep operation w (Suc k) j"
    "transient fl (fst (operation (worldAt sleep operation w k)))"
  shows "settlesAt fl sleep operation w k j"
  using assms by (simp add: settlesAt_def Let_def upt_conv_Cons del: worldAt.simps)

lemma retryFrom_settles:
  assumes "k < MAX_RPC_ATTEMPTS"
  shows "\<exists>j. settlesAt fl sleep operation w k j
    \<and> retryFrom fl sleep operation (Suc k) e (worldAt sleep operation w k) = operation (worldAt sleep operation w j)"
  using assms
proof (induction "MAX_RPC_ATTEMPTS - k" arbitrary: k e)
  case (Suc n)
  obtain r w' where r: "operation (worldAt sleep operation w k) = (r, w')" by fastforce
  show ?case
  proof (cases "transient fl r \<and> Suc k < MAX_RPC_ATTEMPTS")
    case False
    then have "retryFrom fl sleep operation (Suc k) e (worldAt sleep operation w k) = (r, w')"
      using r Suc(3) by (auto simp: retryFrom.simps [of _ _ _ "Suc k"] transient_def split: sum.splits)
    moreover have "settlesAt fl sleep operation w k k"
      using False r Suc(3) by (auto simp: settlesAt_def)
    ultimately show ?thesis using r by metis
  next
    case True
    then obtain e' where e': "r = Inl e'" "isRetryableRpcError fl e'"
      by (auto simp: transient_def split: sum.splits)
    have step: "retryFrom fl sleep operation (Suc k) e (worldAt sleep operation w k)
        = retryFrom fl sleep operation (Suc (Suc k)) e' (worldAt sleep operation w (Suc k))"
      using r e' True by (simp add: retryFrom.simps [of _ _ _ "Suc k"])
    have n: "n = MAX_RPC_ATTEMPTS - Suc k" using Suc(2) by linarith
    obtain j where j: "settlesAt fl sleep operation w (Suc k) j"
      "retryFrom fl sleep operation (Suc (Suc k)) e' (worldAt sleep operation w (Suc k))
        = operation (worldAt sleep operation w j)"
      using Suc(1) [of "Suc k" e'] n True by metis
    moreover have "settlesAt fl sleep operation w k j"
      using settlesAt_earlier [OF j(1)] True r by simp
    ultimately show ?thesis using step by metis
  qed
qed simp

lemma retryRpc_settles:
  "\<exists>j. settlesAt fl sleep operation w 0 j \<and> retryRpc fl sleep operation w = operation (worldAt sleep operation w j)"
  using retryFrom_settles [of 0 fl sleep operation w Not_Object] by (simp add: retryRpc_def MAX_RPC_ATTEMPTS_def)

text \<open>C30: \<open>retryRpc\<close> answers with what one of at most six attempts gave. Every attempt before it
  failed with an error worth retrying and was slept on, one second doubling each time, and the
  answer itself is such a failure only when it is the sixth.\<close>

theorem retry_outcome:
  "\<exists>j. j < 6 \<and> retryRpc fl sleep operation w = operation (worldAt sleep operation w j)
     \<and> list_all (\<lambda>i. transient fl (fst (operation (worldAt sleep operation w i)))) [0..<j]
     \<and> \<not> (j < 5 \<and> transient fl (fst (operation (worldAt sleep operation w j))))"
proof -
  obtain j where "settlesAt fl sleep operation w 0 j"
    "retryRpc fl sleep operation w = operation (worldAt sleep operation w j)"
    using retryRpc_settles by metis
  then show ?thesis by (intro exI [of _ j]) (auto simp: settlesAt_def MAX_RPC_ATTEMPTS_def Let_def)
qed

section \<open>What the rate limiter does\<close>

lemma length_releases [simp]: "length (releases l calls) = length calls"
  by (induction l calls rule: releases.induct) (simp_all split: prod.splits)

lemma releases_first:
  "releases l calls \<noteq> [] \<Longrightarrow> rl_nextAvailableAt l \<le> hd (releases l calls)"
  by (cases calls) (auto simp: rateWait_def Let_def)

lemma releases_gap:
  "Suc i < length calls \<Longrightarrow> releases l calls ! i + rl_intervalMs l \<le> releases l calls ! Suc i"
proof (induction l calls arbitrary: i rule: releases.induct)
  case (2 l call calls)
  obtain released l' where r: "rateWait l call = (released, l')" by fastforce
  then have l': "rl_intervalMs l' = rl_intervalMs l" "rl_nextAvailableAt l' = released + rl_intervalMs l"
    by (auto simp: rateWait_def Let_def split: prod.splits)
  show ?case
  proof (cases i)
    case 0
    have ne: "releases l' calls \<noteq> []" using 2(2) 0 by (metis length_releases length_Cons less_Suc_eq_0_disj list.size(3) nat.simps(3) not_less_eq)
    then have "releases l' calls ! 0 = hd (releases l' calls)" by (simp add: hd_conv_nth)
    then show ?thesis using releases_first [OF ne] r l' 0 by simp
  next
    case (Suc n)
    then show ?thesis using 2(1) [OF r [symmetric] refl, of n] 2(2) r l' by simp
  qed
qed simp

lemma releases_apart:
  "i + k < length calls \<Longrightarrow> releases l calls ! i + k * rl_intervalMs l \<le> releases l calls ! (i + k)"
proof (induction k)
  case (Suc k)
  then show ?case using releases_gap [of "i + k" calls l] by simp
qed simp

text \<open>C31: a limiter made for \<open>r\<close> requests a second spaces its releases: between two of them with
  \<open>k - 1\<close> others in between at least \<open>k\<close> times \<open>1000 / r\<close> milliseconds pass, whatever the
  arrival times and however late the timers fire.\<close>

theorem rate_limited:
  assumes "i + k < length calls"
  shows "of_nat (releases (newRateLimiter dbl r) calls ! i) + of_nat k * dbl (1000 / r)
     \<le> of_nat (releases (newRateLimiter dbl r) calls ! (i + k))"
proof -
  let ?l = "newRateLimiter dbl r"
  have "dbl (1000 / r) \<le> of_nat (rl_intervalMs ?l)"
    by (simp add: newRateLimiter_def of_nat_ceiling)
  then have "of_nat k * dbl (1000 / r) \<le> of_nat (k * rl_intervalMs ?l)"
    by (simp add: mult_left_mono)
  moreover have "of_nat (releases ?l calls ! i) + of_nat (k * rl_intervalMs ?l)
      \<le> (of_nat (releases ?l calls ! (i + k)) :: rat)"
    using releases_apart [OF assms, of ?l] by (metis of_nat_add of_nat_mono)
  ultimately show ?thesis by linarith
qed

lemma sample_releases:
  "releases (newRateLimiter (\<lambda>x. x) 5) [(7, 0), (8, 3), (9, 0)] = [7, 210, 410]"
  by (simp add: newRateLimiter_def rateWait_def)

theorem rate_limited_witness:
  "of_nat (releases (newRateLimiter (\<lambda>x. x) 5) [(7, 0), (8, 3), (9, 0)] ! 0) + of_nat 2 * (1000 / 5)
     \<le> (of_nat (releases (newRateLimiter (\<lambda>x. x) 5) [(7, 0), (8, 3), (9, 0)] ! (0 + 2)) :: rat)"
  by (rule rate_limited) simp

end
