(* ===== verification/Contract_Cache.thy ===== *)
theory Contract_Cache
  imports Rpc
begin

text \<open>
  The caches of contract reads (\<open>snapshot/contract-cache.ts\<close>). Both hold promises: a read that is
  still in flight is shared by everybody who asks for it. Snapshots await other things in between,
  so the operations interleave; each synchronous stretch of the code is one step on the state of
  the module, and the answer of the node to a read is a step of its own.
\<close>

section \<open>Keys\<close>

text \<open>Arguments of a contract call, as JavaScript values. A number carries its printed text.\<close>

datatype call_arg = Arg_Bigint int | Arg_String string | Arg_Number string | Arg_Bool bool
  | Arg_Null | Arg_Array "call_arg list" | Arg_Object "(string \<times> call_arg) list"

definition bigint_str :: "int \<Rightarrow> string" where
  "bigint_str z = (if z < 0 then CHR ''-'' # nat_str (nat (- z)) else nat_str (nat z))"

text \<open>\<open>sort\<close> with \<open>localeCompare\<close> (\<open>le\<close>) on the keys; sorting is stable.\<close>

fun insertEntry :: "(string \<Rightarrow> string \<Rightarrow> bool) \<Rightarrow> string \<times> 'a \<Rightarrow> (string \<times> 'a) list \<Rightarrow> (string \<times> 'a) list" where
  "insertEntry le e [] = [e]"
| "insertEntry le e (x # xs) = (if le (fst e) (fst x) then e # x # xs else x # insertEntry le e xs)"

definition sortEntries :: "(string \<Rightarrow> string \<Rightarrow> bool) \<Rightarrow> (string \<times> 'a) list \<Rightarrow> (string \<times> 'a) list" where
  "sortEntries le xs = foldr (insertEntry le) xs []"

text \<open>Entries are sorted by their keys alone, so sorting before or after the values are
  normalised is the same.\<close>

fun normalizeCacheValue :: "(string \<Rightarrow> string \<Rightarrow> bool) \<Rightarrow> call_arg \<Rightarrow> call_arg" where
  "normalizeCacheValue le (Arg_Bigint z) = Arg_String (bigint_str z @ ''n'')"
| "normalizeCacheValue le (Arg_Array xs) = Arg_Array (map (normalizeCacheValue le) xs)"
| "normalizeCacheValue le (Arg_Object es) =
     Arg_Object (sortEntries le (map (\<lambda>(k, v). (k, normalizeCacheValue le v)) es))"
| "normalizeCacheValue le v = v"

record read_request =
  rr_chain :: "nat option"
  rr_address :: string
  rr_function :: string
  rr_args :: "call_arg list"
  rr_block :: nat

text \<open>
  The keys are \<open>JSON.stringify\<close> of an array of strings, numbers and normalised arguments.
  Different arrays print differently, so a key is the array itself. The address in it is
  \<open>getAddress(address).toLowerCase()\<close>, the address in lower case.
\<close>

datatype read_key = Read_Key "nat option" string string "nat option" call_arg

definition getContractReadCacheKey :: "(string \<Rightarrow> string \<Rightarrow> bool) \<Rightarrow> read_request \<Rightarrow> read_key" where
  "getContractReadCacheKey le q = Read_Key (rr_chain q) (toLowerCase (rr_address q)) (rr_function q)
     (Some (rr_block q)) (normalizeCacheValue le (Arg_Array (rr_args q)))"

definition getInvariantContractReadCacheKey :: "(string \<Rightarrow> string \<Rightarrow> bool) \<Rightarrow> read_request \<Rightarrow> read_key" where
  "getInvariantContractReadCacheKey le q = Read_Key (rr_chain q) (toLowerCase (rr_address q)) (rr_function q)
     None (normalizeCacheValue le (Arg_Array (rr_args q)))"

section \<open>State\<close>

text \<open>
  A promise was made for a request, either by \<open>readContract\<close> under the map that was active then
  (none outside every scope) or by \<open>readInvariantContract\<close> on top of the promise of
  \<open>readContract\<close>. It is pending until it has an outcome.
\<close>

datatype maker = By_Read "nat option" | By_Invariant nat

record 'v promise =
  pm_request :: read_request
  pm_maker :: maker
  pm_outcome :: "(rpc_error + 'v) option"

text \<open>
  Maps are objects with an identity: \<open>cs_maps\<close> is the heap of all maps ever made and
  \<open>cs_active\<close> refers to one. A scope remembers the map it found. \<open>cs_readers\<close> logs which
  promise every read was given; the code does not keep it.
\<close>

record 'v cache_state =
  cs_active :: "nat option"
  cs_maps :: "(read_key \<rightharpoonup> nat) list"
  cs_scopes :: "nat \<rightharpoonup> nat option"
  cs_invariant :: "read_key \<rightharpoonup> nat"
  cs_promises :: "'v promise list"
  cs_readers :: "(read_request \<times> bool \<times> nat) list"

definition no_caches :: "'v cache_state" where
  "no_caches = \<lparr> cs_active = None, cs_maps = [], cs_scopes = Map.empty, cs_invariant = Map.empty,
     cs_promises = [], cs_readers = [] \<rparr>"

section \<open>Operations\<close>

definition enterScope :: "nat \<Rightarrow> 'v cache_state \<Rightarrow> 'v cache_state" where
  "enterScope scope s = s \<lparr> cs_scopes := (cs_scopes s)(scope \<mapsto> cs_active s),
     cs_active := Some (length (cs_maps s)), cs_maps := cs_maps s @ [Map.empty] \<rparr>"

text \<open>The \<open>finally\<close> of the scope.\<close>

definition leaveScope :: "nat \<Rightarrow> 'v cache_state \<Rightarrow> 'v cache_state" where
  "leaveScope scope s = (case cs_scopes s scope of None \<Rightarrow> s
     | Some previousCache \<Rightarrow> s \<lparr> cs_active := previousCache, cs_scopes := (cs_scopes s)(scope := None) \<rparr>)"

definition newPromise :: "read_request \<Rightarrow> maker \<Rightarrow> 'v cache_state \<Rightarrow> nat \<times> 'v cache_state" where
  "newPromise q m s = (length (cs_promises s),
     s \<lparr> cs_promises := cs_promises s @ [\<lparr> pm_request = q, pm_maker = m, pm_outcome = None \<rparr>] \<rparr>)"

text \<open>The promise \<open>readContract\<close> hands out: the cached one or that of a new call of the node.\<close>

definition readContract :: "(string \<Rightarrow> string \<Rightarrow> bool) \<Rightarrow> read_request \<Rightarrow> 'v cache_state \<Rightarrow> nat \<times> 'v cache_state" where
  "readContract le q s =
     (let cache = cs_active s; cacheKey = getContractReadCacheKey le q
      in case cache of
           None \<Rightarrow> newPromise q (By_Read None) s
         | Some ref \<Rightarrow> (case (cs_maps s ! ref) cacheKey of
               Some cached \<Rightarrow> (cached, s)
             | None \<Rightarrow> (let (read, s') = newPromise q (By_Read cache) s
                 in (read, s' \<lparr> cs_maps := (cs_maps s')[ref := (cs_maps s' ! ref)(cacheKey \<mapsto> read)] \<rparr>))))"

definition readInvariantContract :: "(string \<Rightarrow> string \<Rightarrow> bool) \<Rightarrow> read_request \<Rightarrow> 'v cache_state \<Rightarrow> nat \<times> 'v cache_state" where
  "readInvariantContract le q s =
     (let cacheKey = getInvariantContractReadCacheKey le q
      in case cs_invariant s cacheKey of
           Some cached \<Rightarrow> (cached, s)
         | None \<Rightarrow> (let (base, s') = readContract le q s;
                 (read, s'') = newPromise q (By_Invariant base) s'
               in (read, s'' \<lparr> cs_invariant := (cs_invariant s'')(cacheKey \<mapsto> read) \<rparr>)))"

text \<open>A promise gets its outcome; on failure its \<open>catch\<close> first removes the key it was stored
  under.\<close>

definition settle :: "(string \<Rightarrow> string \<Rightarrow> bool) \<Rightarrow> nat \<Rightarrow> rpc_error + 'v \<Rightarrow> 'v cache_state \<Rightarrow> 'v cache_state" where
  "settle le p r s =
     (let q = pm_request (cs_promises s ! p);
          s' = s \<lparr> cs_promises := (cs_promises s)[p := (cs_promises s ! p) \<lparr> pm_outcome := Some r \<rparr>] \<rparr>
      in case r of Inr _ \<Rightarrow> s'
         | Inl _ \<Rightarrow> (case pm_maker (cs_promises s ! p) of
               By_Read None \<Rightarrow> s'
             | By_Read (Some ref) \<Rightarrow> s' \<lparr> cs_maps := (cs_maps s')[ref :=
                 (cs_maps s' ! ref)(getContractReadCacheKey le q := None)] \<rparr>
             | By_Invariant _ \<Rightarrow> s' \<lparr> cs_invariant :=
                 (cs_invariant s')(getInvariantContractReadCacheKey le q := None) \<rparr>))"

definition logRead :: "read_request \<Rightarrow> bool \<Rightarrow> nat \<times> 'v cache_state \<Rightarrow> 'v cache_state" where
  "logRead q invariantRead ps = (snd ps) \<lparr> cs_readers := (q, invariantRead, fst ps) # cs_readers (snd ps) \<rparr>"

text \<open>
  The steps. The node may fail any read at any time; when it answers, it answers what the chain
  holds. The promise of an invariant read takes the outcome of the promise under it.
\<close>

inductive cache_step :: "(string \<Rightarrow> string \<Rightarrow> bool) \<Rightarrow> (read_request \<Rightarrow> 'v) \<Rightarrow> 'v cache_state \<Rightarrow> 'v cache_state \<Rightarrow> bool"
  for le holds' where
  enter: "cs_scopes s scope = None \<Longrightarrow> cache_step le holds' s (enterScope scope s)"
| leave: "cache_step le holds' s (leaveScope scope s)"
| read: "cache_step le holds' s (logRead q False (readContract le q s))"
| readInvariant: "cache_step le holds' s (logRead q True (readInvariantContract le q s))"
| answered: "p < length (cs_promises s) \<Longrightarrow> pm_outcome (cs_promises s ! p) = None \<Longrightarrow>
    pm_maker (cs_promises s ! p) = By_Read m \<Longrightarrow> r = Inr (holds' (pm_request (cs_promises s ! p))) \<Longrightarrow>
    cache_step le holds' s (settle le p r s)"
| failed: "p < length (cs_promises s) \<Longrightarrow> pm_outcome (cs_promises s ! p) = None \<Longrightarrow>
    pm_maker (cs_promises s ! p) = By_Read m \<Longrightarrow> cache_step le holds' s (settle le p (Inl e) s)"
| passed: "p < length (cs_promises s) \<Longrightarrow> pm_outcome (cs_promises s ! p) = None \<Longrightarrow>
    pm_maker (cs_promises s ! p) = By_Invariant base \<Longrightarrow>
    pm_outcome (cs_promises s ! base) = Some r \<Longrightarrow> cache_step le holds' s (settle le p r s)"

inductive cache_reachable :: "(string \<Rightarrow> string \<Rightarrow> bool) \<Rightarrow> (read_request \<Rightarrow> 'v) \<Rightarrow> 'v cache_state \<Rightarrow> bool"
  for le holds' where
  start: "cache_reachable le holds' no_caches"
| step: "cache_reachable le holds' s \<Longrightarrow> cache_step le holds' s s' \<Longrightarrow> cache_reachable le holds' s'"

section \<open>The invariant\<close>

abbreviation readKey :: "(string \<Rightarrow> string \<Rightarrow> bool) \<Rightarrow> 'v promise \<Rightarrow> read_key" where
  "readKey le p \<equiv> getContractReadCacheKey le (pm_request p)"

abbreviation invariantKey :: "(string \<Rightarrow> string \<Rightarrow> bool) \<Rightarrow> 'v promise \<Rightarrow> read_key" where
  "invariantKey le p \<equiv> getInvariantContractReadCacheKey le (pm_request p)"

definition notFailed :: "'v promise \<Rightarrow> bool" where
  "notFailed p \<longleftrightarrow> (\<forall>e. pm_outcome p \<noteq> Some (Inl e))"

text \<open>Every entry of a map is a promise made under that map for that key, and has not failed;
  every unfinished promise is still the entry of its key.\<close>

definition entriesOk :: "(string \<Rightarrow> string \<Rightarrow> bool) \<Rightarrow> (read_key \<rightharpoonup> nat) list \<Rightarrow> 'v promise list \<Rightarrow> bool" where
  "entriesOk le maps ps \<longleftrightarrow> (\<forall>ref < length maps. \<forall>k p. (maps ! ref) k = Some p \<longrightarrow>
     p < length ps \<and> pm_maker (ps ! p) = By_Read (Some ref) \<and> readKey le (ps ! p) = k \<and> notFailed (ps ! p))"

definition pendingOk :: "(string \<Rightarrow> string \<Rightarrow> bool) \<Rightarrow> (read_key \<rightharpoonup> nat) list \<Rightarrow> 'v promise list \<Rightarrow> bool" where
  "pendingOk le maps ps \<longleftrightarrow> (\<forall>p < length ps. \<forall>ref. pm_maker (ps ! p) = By_Read (Some ref) \<longrightarrow>
     ref < length maps \<and> (pm_outcome (ps ! p) = None \<longrightarrow> (maps ! ref) (readKey le (ps ! p)) = Some p))"

text \<open>The same for the invariant reads, and what lies under them.\<close>

definition invariantEntriesOk :: "(string \<Rightarrow> string \<Rightarrow> bool) \<Rightarrow> (read_key \<rightharpoonup> nat) \<Rightarrow> 'v promise list \<Rightarrow> bool" where
  "invariantEntriesOk le known ps \<longleftrightarrow> (\<forall>k p. known k = Some p \<longrightarrow> p < length ps
     \<and> (\<exists>b. pm_maker (ps ! p) = By_Invariant b) \<and> invariantKey le (ps ! p) = k \<and> notFailed (ps ! p))"

definition invariantPendingOk :: "(string \<Rightarrow> string \<Rightarrow> bool) \<Rightarrow> (read_key \<rightharpoonup> nat) \<Rightarrow> 'v promise list \<Rightarrow> bool" where
  "invariantPendingOk le known ps \<longleftrightarrow> (\<forall>p < length ps. \<forall>b. pm_maker (ps ! p) = By_Invariant b \<longrightarrow>
     (pm_outcome (ps ! p) = None \<longrightarrow> known (invariantKey le (ps ! p)) = Some p))"

definition basesOk :: "(string \<Rightarrow> string \<Rightarrow> bool) \<Rightarrow> 'v promise list \<Rightarrow> bool" where
  "basesOk le ps \<longleftrightarrow> (\<forall>p < length ps. \<forall>b. pm_maker (ps ! p) = By_Invariant b \<longrightarrow>
     b < length ps \<and> (\<exists>m. pm_maker (ps ! b) = By_Read m) \<and> readKey le (ps ! b) = readKey le (ps ! p))"

definition outcomesOk :: "(read_request \<Rightarrow> 'v) \<Rightarrow> 'v promise list \<Rightarrow> bool" where
  "outcomesOk holds' ps \<longleftrightarrow> (\<forall>p < length ps. \<forall>v. pm_outcome (ps ! p) = Some (Inr v) \<longrightarrow>
     (\<forall>m. pm_maker (ps ! p) = By_Read m \<longrightarrow> v = holds' (pm_request (ps ! p)))
     \<and> (\<forall>b. pm_maker (ps ! p) = By_Invariant b \<longrightarrow> v = holds' (pm_request (ps ! b))))"

definition readerOk :: "(string \<Rightarrow> string \<Rightarrow> bool) \<Rightarrow> 'v promise list \<Rightarrow> read_request \<Rightarrow> bool \<Rightarrow> nat \<Rightarrow> bool" where
  "readerOk le ps q i p \<longleftrightarrow> p < length ps
     \<and> (if i then (\<exists>b. pm_maker (ps ! p) = By_Invariant b)
              \<and> invariantKey le (ps ! p) = getInvariantContractReadCacheKey le q
         else (\<exists>m. pm_maker (ps ! p) = By_Read m) \<and> readKey le (ps ! p) = getContractReadCacheKey le q)"

definition refOk :: "nat \<Rightarrow> nat option \<Rightarrow> bool" where
  "refOk n m \<longleftrightarrow> (\<forall>ref. m = Some ref \<longrightarrow> ref < n)"

definition cachesOk :: "(string \<Rightarrow> string \<Rightarrow> bool) \<Rightarrow> (read_request \<Rightarrow> 'v) \<Rightarrow> 'v cache_state \<Rightarrow> bool" where
  "cachesOk le holds' s \<longleftrightarrow>
     (refOk (length (cs_maps s)) (cs_active s)
       \<and> (\<forall>scope m. cs_scopes s scope = Some m \<longrightarrow> refOk (length (cs_maps s)) m))
   \<and> entriesOk le (cs_maps s) (cs_promises s) \<and> pendingOk le (cs_maps s) (cs_promises s)
   \<and> invariantEntriesOk le (cs_invariant s) (cs_promises s)
   \<and> invariantPendingOk le (cs_invariant s) (cs_promises s) \<and> basesOk le (cs_promises s)
   \<and> outcomesOk holds' (cs_promises s)
   \<and> list_all (\<lambda>(q, i, p). readerOk le (cs_promises s) q i p) (cs_readers s)"

lemma cachesOk_start: "cachesOk le holds' no_caches"
  by (simp add: cachesOk_def no_caches_def refOk_def entriesOk_def pendingOk_def invariantEntriesOk_def
      invariantPendingOk_def basesOk_def outcomesOk_def)

lemma entriesOk_newMap: "entriesOk le maps ps \<Longrightarrow> entriesOk le (maps @ [Map.empty]) ps"
  unfolding entriesOk_def by (auto simp: nth_append less_Suc_eq split: if_splits)

lemma pendingOk_newMap: "pendingOk le maps ps \<Longrightarrow> pendingOk le (maps @ [Map.empty]) ps"
  unfolding pendingOk_def by (auto simp: nth_append less_Suc_eq)

lemma refOk_Suc: "refOk n m \<Longrightarrow> refOk (Suc n) m"
  by (auto simp: refOk_def)

lemma cachesOk_enter: "cachesOk le holds' s \<Longrightarrow> cachesOk le holds' (enterScope scope s)"
  by (simp add: cachesOk_def enterScope_def entriesOk_newMap pendingOk_newMap refOk_Suc)
    (simp add: refOk_def)

lemma cachesOk_leave: "cachesOk le holds' s \<Longrightarrow> cachesOk le holds' (leaveScope scope s)"
  by (cases "cs_scopes s scope") (simp_all add: cachesOk_def leaveScope_def)

text \<open>A fresh promise at the end of the list changes nothing about the others.\<close>

abbreviation fresh :: "read_request \<Rightarrow> maker \<Rightarrow> 'v promise" where
  "fresh q m \<equiv> \<lparr> pm_request = q, pm_maker = m, pm_outcome = None \<rparr>"

lemmas fresh_simps = less_Suc_eq nth_append

lemma entriesOk_fresh: "entriesOk le maps ps \<Longrightarrow> entriesOk le maps (ps @ [x])"
  unfolding entriesOk_def by (simp add: fresh_simps)

lemma invariantEntriesOk_fresh: "invariantEntriesOk le known ps \<Longrightarrow> invariantEntriesOk le known (ps @ [x])"
  unfolding invariantEntriesOk_def by (simp add: fresh_simps)

lemma outcomesOk_fresh:
  "outcomesOk holds' ps \<Longrightarrow> basesOk le ps \<Longrightarrow> outcomesOk holds' (ps @ [fresh q m])"
  unfolding outcomesOk_def basesOk_def by (auto simp: fresh_simps)

lemma basesOk_fresh_read: "basesOk le ps \<Longrightarrow> basesOk le (ps @ [fresh q (By_Read m)])"
  unfolding basesOk_def by (auto simp: fresh_simps)

lemma readerOk_fresh: "readerOk le ps q i p \<Longrightarrow> readerOk le (ps @ [x]) q i p"
  by (auto simp: readerOk_def nth_append)

lemma readersOk_fresh:
  "list_all (\<lambda>(q, i, p). readerOk le ps q i p) rs \<Longrightarrow> list_all (\<lambda>(q, i, p). readerOk le (ps @ [x]) q i p) rs"
  by (auto simp: list_all_iff readerOk_fresh)

lemma readerOk_new:
  "readerOk le (ps @ [fresh q (By_Read m)]) q False (length ps)"
  "readerOk le (ps @ [fresh q (By_Invariant b)]) q True (length ps)"
  by (simp_all add: readerOk_def)

lemma invariantPendingOk_fresh_read:
  "invariantPendingOk le known ps \<Longrightarrow> invariantPendingOk le known (ps @ [fresh q (By_Read m)])"
  unfolding invariantPendingOk_def by (auto simp: fresh_simps)

lemma pendingOk_fresh_invariant:
  "pendingOk le maps ps \<Longrightarrow> pendingOk le maps (ps @ [fresh q (By_Invariant b)])"
  unfolding pendingOk_def by (auto simp: fresh_simps)

lemma pendingOk_fresh_unscoped:
  "pendingOk le maps ps \<Longrightarrow> pendingOk le maps (ps @ [fresh q (By_Read None)])"
  unfolding pendingOk_def by (auto simp: fresh_simps)

text \<open>Storing the fresh promise under a key that was free.\<close>

lemma entriesOk_store:
  assumes "entriesOk le maps ps" "ref < length maps"
  shows "entriesOk le (maps[ref := (maps ! ref)(getContractReadCacheKey le q \<mapsto> length ps)])
     (ps @ [fresh q (By_Read (Some ref))])"
  using assms(1) assms(2)
  unfolding entriesOk_def by (auto simp: nth_list_update notFailed_def fresh_simps split: if_splits)

lemma pendingOk_store:
  assumes "pendingOk le maps ps" "ref < length maps" "(maps ! ref) (getContractReadCacheKey le q) = None"
  shows "pendingOk le (maps[ref := (maps ! ref)(getContractReadCacheKey le q \<mapsto> length ps)])
     (ps @ [fresh q (By_Read (Some ref))])"
  using assms
  unfolding pendingOk_def by (auto simp: nth_list_update fresh_simps split: if_splits)

lemma readContract_ok:
  assumes ok: "cachesOk le holds' s" and read: "readContract le q s = (p, s')"
  shows "cachesOk le holds' s' \<and> readerOk le (cs_promises s') q False p"
proof (cases "cs_active s")
  case None
  then show ?thesis using ok read
    by (auto simp: readContract_def newPromise_def cachesOk_def entriesOk_fresh pendingOk_fresh_unscoped
        invariantEntriesOk_fresh invariantPendingOk_fresh_read basesOk_fresh_read readersOk_fresh readerOk_new
        intro: outcomesOk_fresh)
next
  case (Some ref)
  then have ref: "ref < length (cs_maps s)" using ok by (simp add: cachesOk_def refOk_def)
  show ?thesis
  proof (cases "(cs_maps s ! ref) (getContractReadCacheKey le q)")
    case (Some c)
    then have "s' = s" "p = c" using read \<open>cs_active s = Some ref\<close> by (auto simp: readContract_def)
    moreover have "readerOk le (cs_promises s) q False c"
      using ok Some ref unfolding cachesOk_def entriesOk_def readerOk_def by auto
    ultimately show ?thesis using ok by simp
  next
    case None
    show ?thesis using ok read Some None ref
      by (auto simp: readContract_def newPromise_def cachesOk_def entriesOk_store pendingOk_store
          invariantEntriesOk_fresh invariantPendingOk_fresh_read basesOk_fresh_read readersOk_fresh readerOk_new
          intro: outcomesOk_fresh)
  qed
qed

lemma basesOk_fresh_invariant:
  "basesOk le ps \<Longrightarrow> readerOk le ps q False b \<Longrightarrow> basesOk le (ps @ [fresh q (By_Invariant b)])"
  unfolding basesOk_def readerOk_def by (auto simp: fresh_simps)

lemma invariantEntriesOk_store:
  "invariantEntriesOk le known ps \<Longrightarrow> invariantEntriesOk le
     (known(getInvariantContractReadCacheKey le q \<mapsto> length ps)) (ps @ [fresh q (By_Invariant b)])"
  unfolding invariantEntriesOk_def by (auto simp: fresh_simps notFailed_def split: if_splits)

lemma invariantPendingOk_store:
  "invariantPendingOk le known ps \<Longrightarrow> known (getInvariantContractReadCacheKey le q) = None \<Longrightarrow>
   invariantPendingOk le (known(getInvariantContractReadCacheKey le q \<mapsto> length ps))
     (ps @ [fresh q (By_Invariant b)])"
  unfolding invariantPendingOk_def by (auto simp: fresh_simps)

lemma readContract_known: "readContract le q s = (p, s') \<Longrightarrow> cs_invariant s' = cs_invariant s"
  by (auto simp: readContract_def newPromise_def Let_def split: option.splits)

lemma readInvariantContract_ok:
  assumes ok: "cachesOk le holds' s" and read: "readInvariantContract le q s = (p, s')"
  shows "cachesOk le holds' s' \<and> readerOk le (cs_promises s') q True p"
proof (cases "cs_invariant s (getInvariantContractReadCacheKey le q)")
  case (Some c)
  then have "s' = s" "p = c" using read by (auto simp: readInvariantContract_def)
  moreover have "readerOk le (cs_promises s) q True c"
    using ok Some unfolding cachesOk_def invariantEntriesOk_def readerOk_def by auto
  ultimately show ?thesis using ok by simp
next
  case None
  obtain base s1 where base: "readContract le q s = (base, s1)" by fastforce
  note b = readContract_ok [OF ok base] and k = readContract_known [OF base]
  show ?thesis using read None base b k
    by (auto simp: readInvariantContract_def newPromise_def cachesOk_def entriesOk_fresh
        pendingOk_fresh_invariant invariantEntriesOk_store invariantPendingOk_store basesOk_fresh_invariant
        readersOk_fresh readerOk_new intro: outcomesOk_fresh)
qed

lemma logRead_ok:
  "cachesOk le holds' s \<Longrightarrow> readerOk le (cs_promises s) q i p \<Longrightarrow> cachesOk le holds' (logRead q i (p, s))"
  by (simp add: cachesOk_def logRead_def)

text \<open>Settling a promise.\<close>

abbreviation settled :: "rpc_error + 'v \<Rightarrow> 'v promise \<Rightarrow> 'v promise" where
  "settled r p \<equiv> p \<lparr> pm_outcome := Some r \<rparr>"

lemma settled_request: "pm_request (ps[p := settled r (ps ! p)] ! i) = pm_request (ps ! i)"
  by (cases "p < length ps"; cases "i = p") (auto simp: list_update_beyond not_less)

lemma settled_maker: "pm_maker (ps[p := settled r (ps ! p)] ! i) = pm_maker (ps ! i)"
  by (cases "p < length ps"; cases "i = p") (auto simp: list_update_beyond not_less)

lemma settled_outcome:
  "p < length ps \<Longrightarrow>
     pm_outcome (ps[p := settled r (ps ! p)] ! i) = (if i = p then Some r else pm_outcome (ps ! i))"
  by auto

lemmas update_settled = settled_request settled_maker settled_outcome

lemma readerOk_settled [simp]: "readerOk le (ps[p := settled r (ps ! p)]) = readerOk le ps"
  by (intro ext) (simp add: readerOk_def update_settled)

lemma basesOk_settled [simp]: "basesOk le (ps[p := settled r (ps ! p)]) = basesOk le ps"
  by (simp add: basesOk_def update_settled)

lemma outcomesOk_settled:
  "outcomesOk holds' ps \<Longrightarrow> p < length ps \<Longrightarrow>
   (\<And>v m. r = Inr v \<Longrightarrow> pm_maker (ps ! p) = By_Read m \<Longrightarrow> v = holds' (pm_request (ps ! p))) \<Longrightarrow>
   (\<And>v b. r = Inr v \<Longrightarrow> pm_maker (ps ! p) = By_Invariant b \<Longrightarrow> v = holds' (pm_request (ps ! b))) \<Longrightarrow>
   outcomesOk holds' (ps[p := settled r (ps ! p)])"
  unfolding outcomesOk_def by (auto simp: update_settled)

lemma entriesOk_settled:
  "entriesOk le maps ps \<Longrightarrow> p < length ps \<Longrightarrow> (\<forall>ref < length maps. \<forall>k. (maps ! ref) k \<noteq> Some p) \<or> isl r = False \<Longrightarrow>
   entriesOk le maps (ps[p := settled r (ps ! p)])"
  unfolding entriesOk_def by (auto simp: update_settled notFailed_def)

lemma invariantEntriesOk_settled:
  "invariantEntriesOk le known ps \<Longrightarrow> p < length ps \<Longrightarrow> (\<forall>k. known k \<noteq> Some p) \<or> isl r = False \<Longrightarrow>
   invariantEntriesOk le known (ps[p := settled r (ps ! p)])"
  unfolding invariantEntriesOk_def by (auto simp: update_settled notFailed_def)

lemma pendingOk_settled:
  "pendingOk le maps ps \<Longrightarrow> p < length ps \<Longrightarrow> pendingOk le maps (ps[p := settled r (ps ! p)])"
  by (simp add: pendingOk_def update_settled)

lemma invariantPendingOk_settled:
  "invariantPendingOk le known ps \<Longrightarrow> p < length ps \<Longrightarrow> invariantPendingOk le known (ps[p := settled r (ps ! p)])"
  by (simp add: invariantPendingOk_def update_settled)

text \<open>Removing the key of a promise that has just failed.\<close>

lemma entriesOk_evict:
  "entriesOk le maps ps \<Longrightarrow> ref < length maps \<Longrightarrow> entriesOk le (maps[ref := (maps ! ref)(k := None)]) ps"
  unfolding entriesOk_def by (auto simp: nth_list_update split: if_splits)

lemma pendingOk_evict:
  assumes "pendingOk le maps ps" "p < length ps" "pm_maker (ps ! p) = By_Read (Some ref)"
    "pm_outcome (ps ! p) = None"
  shows "pendingOk le (maps[ref := (maps ! ref)(readKey le (ps ! p) := None)]) (ps[p := settled r (ps ! p)])"
proof -
  have "(maps ! ref) (readKey le (ps ! p)) = Some p" "ref < length maps"
    using assms unfolding pendingOk_def by auto
  then show ?thesis using assms
    unfolding pendingOk_def by (auto simp: nth_list_update update_settled) (metis not_None_eq option.inject)
qed

lemma invariantEntriesOk_evict: "invariantEntriesOk le known ps \<Longrightarrow> invariantEntriesOk le (known(k := None)) ps"
  unfolding invariantEntriesOk_def by auto

lemma invariantPendingOk_evict:
  assumes "invariantPendingOk le known ps" "p < length ps" "pm_maker (ps ! p) = By_Invariant b"
    "pm_outcome (ps ! p) = None"
  shows "invariantPendingOk le (known(invariantKey le (ps ! p) := None)) (ps[p := settled r (ps ! p)])"
proof -
  have "known (invariantKey le (ps ! p)) = Some p"
    using assms unfolding invariantPendingOk_def by auto
  then show ?thesis using assms
    unfolding invariantPendingOk_def by (auto simp: update_settled) (metis not_None_eq option.inject)
qed

lemma readersOk_settled:
  "list_all (\<lambda>(q, i, p). readerOk le ps q i p) rs \<Longrightarrow>
   list_all (\<lambda>(q, i, p). readerOk le (ps[p' := settled r (ps ! p')]) q i p) rs"
  by simp

lemma settle_ok:
  assumes ok: "cachesOk le holds' s" and p: "p < length (cs_promises s)"
    and pending: "pm_outcome (cs_promises s ! p) = None"
    and right: "\<And>v m. r = Inr v \<Longrightarrow> pm_maker (cs_promises s ! p) = By_Read m \<Longrightarrow>
        v = holds' (pm_request (cs_promises s ! p))"
      "\<And>v b. r = Inr v \<Longrightarrow> pm_maker (cs_promises s ! p) = By_Invariant b \<Longrightarrow>
        v = holds' (pm_request (cs_promises s ! b))"
  shows "cachesOk le holds' (settle le p r s)"
proof -
  let ?ps = "cs_promises s" and ?ps' = "(cs_promises s)[p := settled r (cs_promises s ! p)]"
  have e: "entriesOk le (cs_maps s) ?ps" and pd: "pendingOk le (cs_maps s) ?ps"
    and ie: "invariantEntriesOk le (cs_invariant s) ?ps" and ip: "invariantPendingOk le (cs_invariant s) ?ps"
    and out: "outcomesOk holds' ?ps'"
    using ok right outcomesOk_settled [OF _ p] by (auto simp: cachesOk_def)
  note kept = pendingOk_settled [OF pd p] invariantPendingOk_settled [OF ip p]
  show ?thesis
  proof (cases r)
    case (Inr v)
    then show ?thesis using ok out kept entriesOk_settled [OF e p] invariantEntriesOk_settled [OF ie p]
      by (simp add: settle_def cachesOk_def)
  next
    case (Inl err)
    show ?thesis
    proof (cases "pm_maker (?ps ! p)")
      case (By_Invariant b)
      have "entriesOk le (cs_maps s) ?ps'"
        by (rule entriesOk_settled [OF e p]) (use e By_Invariant in \<open>force simp: entriesOk_def\<close>)
      moreover have "invariantEntriesOk le ((cs_invariant s)(invariantKey le (?ps ! p) := None)) ?ps'"
        by (rule invariantEntriesOk_settled [OF invariantEntriesOk_evict [OF ie] p])
          (use ie in \<open>auto simp: invariantEntriesOk_def\<close>)
      ultimately show ?thesis
        using ok out kept Inl By_Invariant invariantPendingOk_evict [OF ip p By_Invariant pending]
        by (simp add: settle_def cachesOk_def)
    next
      case (By_Read m)
      have inv': "invariantEntriesOk le (cs_invariant s) ?ps'"
        by (rule invariantEntriesOk_settled [OF ie p]) (use ie By_Read in \<open>force simp: invariantEntriesOk_def\<close>)
      show ?thesis
      proof (cases m)
        case None
        have "entriesOk le (cs_maps s) ?ps'"
          by (rule entriesOk_settled [OF e p]) (use e By_Read None in \<open>force simp: entriesOk_def\<close>)
        then show ?thesis using ok out kept Inl By_Read None inv' by (simp add: settle_def cachesOk_def)
      next
        case (Some ref)
        have ref: "ref < length (cs_maps s)" using pd p By_Read Some unfolding pendingOk_def by auto
        let ?maps = "(cs_maps s)[ref := (cs_maps s ! ref)(readKey le (?ps ! p) := None)]"
        have "entriesOk le ?maps ?ps'"
          by (rule entriesOk_settled [OF entriesOk_evict [OF e ref] p])
            (use e ref By_Read Some in \<open>auto simp: entriesOk_def nth_list_update\<close>)
        then show ?thesis
          using ok out kept Inl By_Read Some inv' pendingOk_evict [OF pd p _ pending, of ref]
          by (simp add: settle_def cachesOk_def)
      qed
    qed
  qed
qed

lemma cachesOk_reachable: "cache_reachable le holds' s \<Longrightarrow> cachesOk le holds' s"
proof (induction rule: cache_reachable.induct)
  case start
  show ?case by (rule cachesOk_start)
next
  case (step s s')
  from step(2) show ?case
  proof cases
    case (read q)
    then show ?thesis using readContract_ok [OF step(3)] logRead_ok by (metis surj_pair)
  next
    case (readInvariant q)
    then show ?thesis using readInvariantContract_ok [OF step(3)] logRead_ok by (metis surj_pair)
  next
    case (answered p m r)
    show ?thesis unfolding answered(1) by (rule settle_ok [OF step(3)]) (use answered in auto)
  next
    case (failed p m e)
    show ?thesis unfolding failed(1) by (rule settle_ok [OF step(3)]) (use failed in auto)
  next
    case (passed p b r)
    have "v = holds' (pm_request (cs_promises s ! b))" if "r = Inr v" for v
      using step(3) passed that unfolding cachesOk_def outcomesOk_def basesOk_def by blast
    then show ?thesis unfolding passed(1) by (intro settle_ok [OF step(3)]) (use passed in auto)
  qed (use step(3) cachesOk_enter cachesOk_leave in auto)
qed

section \<open>What the caches guarantee\<close>

fun sameShape :: "call_arg \<Rightarrow> call_arg \<Rightarrow> bool" where
  "sameShape (Arg_Bigint _) (Arg_Bigint _) = True"
| "sameShape (Arg_String _) (Arg_String _) = True"
| "sameShape (Arg_Number _) (Arg_Number _) = True"
| "sameShape (Arg_Bool _) (Arg_Bool _) = True"
| "sameShape Arg_Null Arg_Null = True"
| "sameShape (Arg_Array []) (Arg_Array []) = True"
| "sameShape (Arg_Array (x # xs)) (Arg_Array (y # ys)) =
     (sameShape x y \<and> sameShape (Arg_Array xs) (Arg_Array ys))"
| "sameShape _ _ = False"

lemma bigint_str_inject [simp]: "bigint_str x = bigint_str y \<longleftrightarrow> x = y"
proof
  assume eq: "bigint_str x = bigint_str y"
  have neg: "hd (nat_str n) \<noteq> CHR ''-''" for n
    by (metis dash_nat_str hd_in_set list.size(3) nat_str.simps append_is_Nil_conv list.distinct(1))
  show "x = y"
  proof (cases "x < 0 \<longleftrightarrow> y < 0")
    case True
    then show ?thesis using eq by (auto simp: bigint_str_def split: if_splits)
  next
    case False
    then have "\<exists>n m. CHR ''-'' # nat_str n = nat_str m"
      using eq by (auto simp: bigint_str_def split: if_splits dest: sym)
    then show ?thesis using neg by (metis list.sel(1))
  qed
qed simp

lemma normalizeCacheValue_inject:
  "sameShape a b \<Longrightarrow> normalizeCacheValue le a = normalizeCacheValue le b \<longleftrightarrow> a = b"
  by (induction a b rule: sameShape.induct) auto

text \<open>The key of a read tells apart everything but the case of the address: two reads whose
  arguments have the same types share a key exactly when they are the same call at the same
  block.\<close>

theorem cache_key_identifies:
  assumes "sameShape (Arg_Array (rr_args q)) (Arg_Array (rr_args q'))"
  shows "getContractReadCacheKey le q = getContractReadCacheKey le q' \<longleftrightarrow>
     (rr_chain q, rr_function q, rr_block q, rr_args q) = (rr_chain q', rr_function q', rr_block q', rr_args q')
     \<and> same (rr_address q) (rr_address q')"
  using normalizeCacheValue_inject [OF assms, of le]
  by (auto simp: getContractReadCacheKey_def same_def addr_def)


text \<open>The calls of the node that are in flight for one key under one map.\<close>

definition inFlight :: "(string \<Rightarrow> string \<Rightarrow> bool) \<Rightarrow> 'v cache_state \<Rightarrow> nat \<Rightarrow> read_key \<Rightarrow> nat list" where
  "inFlight le s ref k = filter (\<lambda>p. pm_maker (cs_promises s ! p) = By_Read (Some ref)
     \<and> readKey le (cs_promises s ! p) = k \<and> pm_outcome (cs_promises s ! p) = None) [0..<length (cs_promises s)]"

definition failedPromises :: "'v cache_state \<Rightarrow> nat set" where
  "failedPromises s = {p. p < length (cs_promises s) \<and> \<not> notFailed (cs_promises s ! p)}"

text \<open>C22: inside a snapshot a key is never asked of the node twice at the same time, and a call
  that failed is in neither cache, so the next read tries again.\<close>

theorem cache_shares_and_evicts:
  assumes "cache_reachable le holds' s" "ref < length (cs_maps s)"
  shows "length (inFlight le s ref k) \<le> 1 \<and> ran (cs_maps s ! ref) \<inter> failedPromises s = {}
     \<and> ran (cs_invariant s) \<inter> failedPromises s = {}"
proof -
  have ok: "cachesOk le holds' s" by (rule cachesOk_reachable [OF assms(1)])
  have "(cs_maps s ! ref) k = Some p" if "p \<in> set (inFlight le s ref k)" for p
    using ok that unfolding cachesOk_def pendingOk_def inFlight_def by auto
  then have "p = p'" if "p \<in> set (inFlight le s ref k)" "p' \<in> set (inFlight le s ref k)" for p p'
    using that by (metis option.inject)
  then have "card (set (inFlight le s ref k)) \<le> 1" by (simp add: card_le_Suc0_iff_eq)
  moreover have "distinct (inFlight le s ref k)" by (simp add: inFlight_def)
  ultimately have "length (inFlight le s ref k) \<le> 1" by (metis distinct_card)
  moreover have "ran (cs_maps s ! ref) \<inter> failedPromises s = {}"
    using ok assms(2) unfolding cachesOk_def entriesOk_def failedPromises_def ran_def by blast
  moreover have "ran (cs_invariant s) \<inter> failedPromises s = {}"
    using ok unfolding cachesOk_def invariantEntriesOk_def failedPromises_def ran_def by blast
  ultimately show ?thesis by blast
qed

text \<open>Two scopes that overlap without nesting leave the map of the first one active for good:
  what it holds keeps being served to every later read outside a scope.\<close>

theorem overlapping_scopes_leak:
  assumes "a \<noteq> b"
  shows "cs_active (leaveScope b (leaveScope a (enterScope b (enterScope a s)))) = Some (length (cs_maps s))"
  using assms by (simp add: leaveScope_def enterScope_def)

theorem overlapping_scopes_leak_witness:
  "cs_active (leaveScope 1 (leaveScope 0 (enterScope 1 (enterScope 0 (no_caches :: nat cache_state))))) = Some 0"
  using overlapping_scopes_leak [of 0 1 no_caches] by (simp add: no_caches_def)

section \<open>A run\<close>

text \<open>One snapshot reads the decimals of a token as invariant and a balance; the balance call
  fails, the decimals arrive.\<close>

abbreviation anyOrder :: "string \<Rightarrow> string \<Rightarrow> bool" where "anyOrder \<equiv> \<lambda>_ _. True"

definition sample_decimals :: read_request where
  "sample_decimals = \<lparr> rr_chain = Some 1, rr_address = ''0xAb'', rr_function = ''decimals'', rr_args = [],
     rr_block = 7 \<rparr>"

definition sample_balance :: read_request where
  "sample_balance = \<lparr> rr_chain = Some 1, rr_address = ''0xab'', rr_function = ''balanceOf'',
     rr_args = [Arg_String ''0xcd''], rr_block = 7 \<rparr>"

definition sample_holds :: "read_request \<Rightarrow> nat" where
  "sample_holds q = (if rr_function q = ''decimals'' then 18 else 0)"

definition sample1 :: "nat cache_state" where "sample1 = enterScope 0 no_caches"
definition sample2 :: "nat cache_state" where
  "sample2 = logRead sample_decimals True (readInvariantContract anyOrder sample_decimals sample1)"
definition sample3 :: "nat cache_state" where
  "sample3 = logRead sample_balance False (readContract anyOrder sample_balance sample2)"
definition sample4 :: "nat cache_state" where "sample4 = settle anyOrder 2 (Inl Not_Object) sample3"
definition sample5 :: "nat cache_state" where "sample5 = settle anyOrder 0 (Inr 18) sample4"
definition sample6 :: "nat cache_state" where "sample6 = settle anyOrder 1 (Inr 18) sample5"

abbreviation kept_promises :: "(rpc_error + nat) option \<Rightarrow> (rpc_error + nat) option \<Rightarrow>
    (rpc_error + nat) option \<Rightarrow> nat promise list" where
  "kept_promises r0 r1 r2 \<equiv>
     [\<lparr> pm_request = sample_decimals, pm_maker = By_Read (Some 0), pm_outcome = r0 \<rparr>,
      \<lparr> pm_request = sample_decimals, pm_maker = By_Invariant 0, pm_outcome = r1 \<rparr>,
      \<lparr> pm_request = sample_balance, pm_maker = By_Read (Some 0), pm_outcome = r2 \<rparr>]"

lemma sample_keys:
  "getContractReadCacheKey anyOrder sample_balance \<noteq> getContractReadCacheKey anyOrder sample_decimals"
  by (simp add: getContractReadCacheKey_def sample_balance_def sample_decimals_def)

lemma sample1_fields:
  "cs_promises sample1 = []" "cs_active sample1 = Some 0" "cs_maps sample1 = [Map.empty]"
  "cs_readers sample1 = []" "cs_invariant sample1 = Map.empty" "cs_scopes no_caches 0 = None"
  by (simp_all add: sample1_def enterScope_def no_caches_def)

lemma sample2_fields:
  "cs_promises sample2 = take 2 (kept_promises None None None)" "cs_active sample2 = Some 0"
  "cs_maps sample2 = [[getContractReadCacheKey anyOrder sample_decimals \<mapsto> 0]]"
  "cs_readers sample2 = [(sample_decimals, True, 1)]"
  by (simp_all add: sample2_def logRead_def readInvariantContract_def readContract_def newPromise_def
      sample1_fields Let_def)

lemma sample3_fields:
  "cs_promises sample3 = kept_promises None None None" "length (cs_maps sample3) = 1"
  "cs_readers sample3 = [(sample_balance, False, 2), (sample_decimals, True, 1)]"
  using sample_keys by (simp_all add: sample3_def logRead_def readContract_def newPromise_def sample2_fields Let_def)

lemma sample4_fields:
  "cs_promises sample4 = kept_promises None None (Some (Inl Not_Object))" "length (cs_maps sample4) = 1"
  "cs_readers sample4 = [(sample_balance, False, 2), (sample_decimals, True, 1)]"
  by (simp_all add: sample4_def settle_def sample3_fields Let_def)

lemma sample5_fields:
  "cs_promises sample5 = kept_promises (Some (Inr 18)) None (Some (Inl Not_Object))"
  "length (cs_maps sample5) = 1"
  "cs_readers sample5 = [(sample_balance, False, 2), (sample_decimals, True, 1)]"
  by (simp_all add: sample5_def settle_def sample4_fields Let_def)

lemma sample6_fields:
  "cs_promises sample6 = kept_promises (Some (Inr 18)) (Some (Inr 18)) (Some (Inl Not_Object))"
  "length (cs_maps sample6) = 1"
  "cs_readers sample6 = [(sample_balance, False, 2), (sample_decimals, True, 1)]"
  by (simp_all add: sample6_def settle_def sample5_fields Let_def)

lemma sample_reachable: "cache_reachable anyOrder sample_holds sample6"
proof -
  let ?step = "cache_step anyOrder sample_holds"
  have "?step no_caches sample1" unfolding sample1_def by (rule cache_step.enter) (rule sample1_fields)
  moreover have "?step sample1 sample2" unfolding sample2_def by (rule cache_step.readInvariant)
  moreover have "?step sample2 sample3" unfolding sample3_def by (rule cache_step.read)
  moreover have "?step sample3 sample4" unfolding sample4_def
    by (rule cache_step.failed [where m = "Some 0"]) (simp_all add: sample3_fields)
  moreover have "?step sample4 sample5" unfolding sample5_def
    by (rule cache_step.answered [where m = "Some 0"])
      (simp_all add: sample4_fields sample_holds_def sample_decimals_def)
  moreover have "?step sample5 sample6" unfolding sample6_def
    by (rule cache_step.passed [where base = 0]) (simp_all add: sample5_fields)
  ultimately show ?thesis by (metis cache_reachable.intros)
qed

theorem cache_key_identifies_witness:
  "getContractReadCacheKey anyOrder sample_balance \<noteq>
     getContractReadCacheKey anyOrder (sample_balance \<lparr> rr_args := [Arg_String ''0xef''] \<rparr>)"
  using cache_key_identifies [of sample_balance "sample_balance \<lparr> rr_args := [Arg_String ''0xef''] \<rparr>" anyOrder]
  by (simp add: sample_balance_def)


theorem cache_shares_and_evicts_witness:
  "failedPromises sample6 = {2} \<and> ran (cs_maps sample6 ! 0) \<inter> {2} = {}"
proof -
  have "failedPromises sample6 = {2}"
    by (auto simp: failedPromises_def sample6_fields notFailed_def less_Suc_eq numeral_3_eq_3)
  then show ?thesis
    using cache_shares_and_evicts [OF sample_reachable, of 0] sample6_fields(2) by simp
qed

end
