(* ===== verification/Chain_Effects.thy ===== *)
theory Chain_Effects
  imports Contract_Cache Snapshot_Env
begin

text \<open>
  The chain reads of the indexer (\<open>effects/index.ts\<close>). Each effect looks its chain up in the
  configuration, asks the node through \<open>retryRpc\<close> and turns the answer into strings. What the
  node answers is a parameter: one reader per return type of the ABI entries the file declares,
  on a state of the world that every call may change. The memo that \<open>createEffect\<close> keeps per
  input belongs to the indexing framework.
\<close>

section \<open>The node\<close>

record contract_call =
  fc_address :: string
  fc_name :: string
  fc_args :: "call_arg list"
  fc_block :: "nat option"

text \<open>The fields of a position that the code reads out of the twelve the contract returns.\<close>

record raw_position =
  rw_token0 :: string
  rw_token1 :: string
  rw_fee :: int
  rw_tickLower :: int
  rw_tickUpper :: int
  rw_liquidity :: int

record 'w node =
  nd_fl :: "rat \<Rightarrow> bignumber"
  nd_sleep :: "nat \<Rightarrow> 'w \<Rightarrow> 'w"
  nd_getAddress :: "string \<Rightarrow> rpc_error + string"
  nd_uint :: "contract_call \<Rightarrow> ('w, int) io"
  nd_bool :: "contract_call \<Rightarrow> ('w, bool) io"
  nd_address :: "contract_call \<Rightarrow> ('w, string) io"
  nd_bytes :: "contract_call \<Rightarrow> ('w, string) io"
  nd_poolTokens :: "contract_call \<Rightarrow> ('w, string list \<times> int list) io"
  nd_epoch :: "contract_call \<Rightarrow> ('w, int \<times> int \<times> int \<times> int) io"
  nd_reserves :: "contract_call \<Rightarrow> ('w, int \<times> int \<times> nat) io"
  nd_position :: "contract_call \<Rightarrow> ('w, raw_position) io"
  nd_blockTimestamp :: "nat \<Rightarrow> ('w, int) io"
  nd_nativeBalance :: "string \<Rightarrow> nat \<Rightarrow> ('w, int) io"

definition io_return :: "'a \<Rightarrow> ('w, 'a) io" where "io_return x w = (Inr x, w)"

definition io_throw :: "rpc_error \<Rightarrow> ('w, 'a) io" where "io_throw e w = (Inl e, w)"

definition io_bind :: "('w, 'a) io \<Rightarrow> ('a \<Rightarrow> ('w, 'b) io) \<Rightarrow> ('w, 'b) io" where
  "io_bind m f w = (case m w of (Inl e, w') \<Rightarrow> (Inl e, w') | (Inr x, w') \<Rightarrow> f x w')"

text \<open>\<open>try m catch { h }\<close>; no handler of the file looks at the error.\<close>

definition io_catch :: "('w, 'a) io \<Rightarrow> ('w, 'a) io \<Rightarrow> ('w, 'a) io" where
  "io_catch m h w = (case m w of (Inl e, w') \<Rightarrow> h w' | (Inr x, w') \<Rightarrow> (Inr x, w'))"

definition io_lift :: "rpc_error + 'a \<Rightarrow> ('w, 'a) io" where "io_lift r w = (r, w)"

fun io_fold :: "('a \<Rightarrow> 's \<Rightarrow> ('w, 's) io) \<Rightarrow> 'a list \<Rightarrow> 's \<Rightarrow> ('w, 's) io" where
  "io_fold f [] acc = io_return acc"
| "io_fold f (x # xs) acc = io_bind (f x acc) (io_fold f xs)"

text \<open>A call whose address was checked before, and one that checks it inside the retried
  operation.\<close>

definition rpc :: "'w node \<Rightarrow> (contract_call \<Rightarrow> ('w, 'a) io) \<Rightarrow> string \<Rightarrow> string \<Rightarrow> call_arg list \<Rightarrow> nat option \<Rightarrow> ('w, 'a) io" where
  "rpc node reader address name args block = retryRpc (nd_fl node) (nd_sleep node)
     (reader \<lparr> fc_address = address, fc_name = name, fc_args = args, fc_block = block \<rparr>)"

definition rpcChecked :: "'w node \<Rightarrow> (contract_call \<Rightarrow> ('w, 'a) io) \<Rightarrow> string \<Rightarrow> string \<Rightarrow> call_arg list \<Rightarrow> nat option \<Rightarrow> ('w, 'a) io" where
  "rpcChecked node reader address name args block = retryRpc (nd_fl node) (nd_sleep node)
     (io_bind (io_lift (nd_getAddress node address)) (\<lambda>checked.
        reader \<lparr> fc_address = checked, fc_name = name, fc_args = args, fc_block = block \<rparr>))"

text \<open>The first lines of every effect.\<close>

definition forChain :: "configs \<Rightarrow> nat \<Rightarrow> ('w, 'a) io \<Rightarrow> ('w, 'a) io" where
  "forChain cfgs chainId m = (case cfgs chainId of
     None \<Rightarrow> io_throw (Rpc_Error [(''message'', Text (''Unsupported chain '' @ nat_str chainId))] None)
   | Some _ \<Rightarrow> m)"

section \<open>The effects\<close>

definition seedBalancerPool :: "configs \<Rightarrow> 'w node \<Rightarrow> nat \<Rightarrow> string \<Rightarrow> string \<Rightarrow> nat \<Rightarrow> ('w, string list \<times> string list) io" where
  "seedBalancerPool cfgs node chainId vault poolId atBlock = forChain cfgs chainId
     (io_bind (rpcChecked node (nd_poolTokens node) vault ''getPoolTokens'' [Arg_String poolId] (Some atBlock))
       (\<lambda>(tokens, balances). io_return (map toLowerCase tokens, map bigint_str balances)))"

text \<open>\<open>raw\<close> is \<open>0x\<close> and hexadecimal digits, as the library prints bytes.\<close>

fun decodeBytes :: "string \<Rightarrow> string" where
  "decodeBytes [] = []"
| "decodeBytes [a] = (let byte = radixDigit a in if byte = 0 then [] else [char_of byte])"
| "decodeBytes (a # b # rest) = (let byte = 16 * radixDigit a + radixDigit b
     in if byte = 0 then [] else char_of byte # decodeBytes rest)"

definition decodeKeycode :: "string \<Rightarrow> string" where
  "decodeKeycode raw = decodeBytes (drop 2 raw)"

definition resolveBophadesKeycode :: "configs \<Rightarrow> 'w node \<Rightarrow> nat \<Rightarrow> string \<Rightarrow> ('w, string) io" where
  "resolveBophadesKeycode cfgs node chainId moduleAddress = forChain cfgs chainId
     (io_bind (rpcChecked node (nd_bytes node) moduleAddress ''KEYCODE'' [] None)
       (\<lambda>raw. io_return (decodeKeycode raw)))"

text \<open>Four effects read one number and give a fixed text where the read fails.\<close>

definition numberOr :: "string \<Rightarrow> ('w, int) io \<Rightarrow> ('w, string) io" where
  "numberOr fallback m = io_catch (io_bind m (\<lambda>v. io_return (bigint_str v))) (io_return fallback)"

definition readCoolerPrincipalReceivables :: "configs \<Rightarrow> 'w node \<Rightarrow> nat \<Rightarrow> string \<Rightarrow> nat \<Rightarrow> ('w, string) io" where
  "readCoolerPrincipalReceivables cfgs node chainId clearinghouse atBlock = forChain cfgs chainId
     (numberOr '''' (rpcChecked node (nd_uint node) clearinghouse ''principalReceivables'' [] (Some atBlock)))"

definition readMonoCoolerTotalDebt :: "configs \<Rightarrow> 'w node \<Rightarrow> nat \<Rightarrow> string \<Rightarrow> nat \<Rightarrow> ('w, string) io" where
  "readMonoCoolerTotalDebt cfgs node chainId monoCooler atBlock = forChain cfgs chainId
     (numberOr '''' (rpcChecked node (nd_uint node) monoCooler ''totalDebt'' [] (Some atBlock)))"

text \<open>A vault whose reads fail is left out and the loop goes on.\<close>

definition snapshotBlvRegistry :: "configs \<Rightarrow> 'w node \<Rightarrow> nat \<Rightarrow> string \<Rightarrow> nat \<Rightarrow> ('w, string list \<times> string list) io" where
  "snapshotBlvRegistry cfgs node chainId registryInput atBlock = forChain cfgs chainId
     (io_bind (io_lift (nd_getAddress node registryInput)) (\<lambda>registry.
      io_bind (io_catch (io_bind (rpc node (nd_uint node) registry ''activeVaultCount'' [] (Some atBlock))
                 (\<lambda>count. io_return (Some count))) (io_return None)) (\<lambda>count.
      case count of None \<Rightarrow> io_return ([], [])
      | Some n \<Rightarrow> io_fold (\<lambda>i (vaults, ohmShares). io_catch
            (io_bind (rpc node (nd_address node) registry ''activeVaults'' [Arg_Bigint i] (Some atBlock)) (\<lambda>vault.
             io_bind (rpcChecked node (nd_uint node) vault ''getPoolOhmShare'' [] (Some atBlock)) (\<lambda>share.
             io_return (vaults @ [toLowerCase vault], ohmShares @ [bigint_str share]))))
            (io_return (vaults, ohmShares))) [0..n - 1] ([], []))))"

definition readBondManagerState :: "configs \<Rightarrow> 'w node \<Rightarrow> nat \<Rightarrow> string \<Rightarrow> nat \<Rightarrow> ('w, bool \<times> string) io" where
  "readBondManagerState cfgs node chainId bondManagerInput atBlock = forChain cfgs chainId
     (io_bind (io_lift (nd_getAddress node bondManagerInput)) (\<lambda>bondManager.
      io_catch
        (io_bind (rpc node (nd_bool node) bondManager ''isActive'' [] (Some atBlock)) (\<lambda>active.
         if \<not> active then io_return (False, '''')
         else io_bind (rpc node (nd_address node) bondManager ''fixedExpiryTeller'' [] (Some atBlock)) (\<lambda>teller.
              io_return (True, toLowerCase teller))))
        (io_return (False, ''''))))"

definition readErc4626AssetsPerShare :: "configs \<Rightarrow> 'w node \<Rightarrow> nat \<Rightarrow> string \<Rightarrow> nat \<Rightarrow> nat \<Rightarrow> ('w, string) io" where
  "readErc4626AssetsPerShare cfgs node chainId vault shareDecimals atBlock = forChain cfgs chainId
     (numberOr '''' (rpcChecked node (nd_uint node) vault ''convertToAssets'' [Arg_Bigint (10 ^ shareDecimals)]
        (Some atBlock)))"

definition readSOhmCirculatingSupply :: "configs \<Rightarrow> 'w node \<Rightarrow> nat \<Rightarrow> string \<Rightarrow> nat \<Rightarrow> ('w, string) io" where
  "readSOhmCirculatingSupply cfgs node chainId sOhm atBlock = forChain cfgs chainId
     (numberOr '''' (rpcChecked node (nd_uint node) sOhm ''circulatingSupply'' [] (Some atBlock)))"

definition readNextOhmDistribution :: "configs \<Rightarrow> 'w node \<Rightarrow> nat \<Rightarrow> staking_contracts \<Rightarrow> nat \<Rightarrow> ('w, string) io" where
  "readNextOhmDistribution cfgs node chainId contracts atBlock = forChain cfgs chainId
     (let fromEpoch = (\<lambda>staking startBlock total. if atBlock > startBlock
            then io_catch (io_bind (rpcChecked node (nd_epoch node) staking ''epoch'' [] (Some atBlock))
                   (\<lambda>(_, _, _, distribute). io_return (total + distribute))) (io_return total)
            else io_return total)
      in io_bind (io_catch (io_bind (rpcChecked node (nd_uint node) (sc_v1 contracts) ''ohmToDistributeNextEpoch'' []
             (Some atBlock)) (\<lambda>v1. io_return (0 + v1))) (io_return 0)) (\<lambda>total.
         io_bind (fromEpoch (sc_v2 contracts) (sc_v2StartBlock contracts) total) (\<lambda>total.
         io_bind (fromEpoch (sc_v3 contracts) (sc_v3StartBlock contracts) total) (\<lambda>total.
         io_return (bigint_str total)))))"

definition snapshotCurvePool :: "configs \<Rightarrow> 'w node \<Rightarrow> nat \<Rightarrow> string \<Rightarrow> string \<Rightarrow> nat \<Rightarrow> nat \<Rightarrow> ('w, string list \<times> string) io" where
  "snapshotCurvePool cfgs node chainId poolInput lpToken coinCount atBlock = forChain cfgs chainId
     (io_bind (io_lift (nd_getAddress node poolInput)) (\<lambda>pool.
      io_bind (io_lift (nd_getAddress node lpToken)) (\<lambda>lp.
      io_bind (io_fold (\<lambda>i balances. io_bind (numberOr ''0'' (rpc node (nd_uint node) pool ''balances''
                 [Arg_Bigint (int i)] (Some atBlock))) (\<lambda>b. io_return (balances @ [b]))) [0..<coinCount] []) (\<lambda>balances.
      io_bind (numberOr ''0'' (rpc node (nd_uint node) lp ''totalSupply'' [] (Some atBlock))) (\<lambda>totalSupply.
      io_return (balances, totalSupply))))))"

definition snapshotFraxSwapPool :: "configs \<Rightarrow> 'w node \<Rightarrow> nat \<Rightarrow> string \<Rightarrow> nat \<Rightarrow> ('w, string \<times> string \<times> string) io" where
  "snapshotFraxSwapPool cfgs node chainId poolInput atBlock = forChain cfgs chainId
     (io_bind (io_lift (nd_getAddress node poolInput)) (\<lambda>pool.
      io_bind (io_catch (io_bind (rpc node (nd_reserves node) pool ''getReserves'' [] (Some atBlock))
                 (\<lambda>(r0, r1, _). io_return (bigint_str r0, bigint_str r1))) (io_return (''0'', ''0'')))
        (\<lambda>(reserve0, reserve1).
      io_bind (numberOr ''0'' (rpc node (nd_uint node) pool ''totalSupply'' [] (Some atBlock))) (\<lambda>totalSupply.
      io_return (reserve0, reserve1, totalSupply)))))"

text \<open>A position: \<open>token0\<close>, \<open>token1\<close>, \<open>fee\<close>, the two ticks and the liquidity.\<close>

type_synonym position_row = "string \<times> string \<times> int \<times> int \<times> int \<times> string"

definition snapshotUniv3NftPositions :: "configs \<Rightarrow> 'w node \<Rightarrow> nat \<Rightarrow> string \<Rightarrow> string \<Rightarrow> nat \<Rightarrow> ('w, position_row list) io" where
  "snapshotUniv3NftPositions cfgs node chainId managerInput walletInput atBlock = forChain cfgs chainId
     (io_bind (io_lift (nd_getAddress node managerInput)) (\<lambda>manager.
      io_bind (io_lift (nd_getAddress node walletInput)) (\<lambda>wallet.
      io_bind (io_catch (io_bind (rpc node (nd_uint node) manager ''balanceOf'' [Arg_String wallet] (Some atBlock))
                 (\<lambda>count. io_return (Some count))) (io_return None)) (\<lambda>count.
      case count of None \<Rightarrow> io_return []
      | Some n \<Rightarrow> if n = 0 then io_return []
          else io_fold (\<lambda>i positions. io_bind (io_catch (io_bind (rpc node (nd_uint node) manager ''tokenOfOwnerByIndex''
                   [Arg_String wallet, Arg_Bigint i] (Some atBlock)) (\<lambda>t. io_return (Some t))) (io_return None)) (\<lambda>found.
                 case found of None \<Rightarrow> io_return positions
                 | Some tokenId \<Rightarrow> io_catch
                     (io_bind (rpc node (nd_position node) manager ''positions'' [Arg_Bigint tokenId] (Some atBlock)) (\<lambda>pos.
                      if rw_liquidity pos = 0 then io_return positions
                      else io_return (positions @ [(toLowerCase (rw_token0 pos), toLowerCase (rw_token1 pos),
                             rw_fee pos, rw_tickLower pos, rw_tickUpper pos, bigint_str (rw_liquidity pos))])))
                     (io_return positions)))
               [0..(if n > 50 then 50 else n) - 1] []))))"

definition resolveKodiakUnderlyingPool :: "configs \<Rightarrow> 'w node \<Rightarrow> nat \<Rightarrow> string \<Rightarrow> ('w, string) io" where
  "resolveKodiakUnderlyingPool cfgs node chainId kodiakLp = forChain cfgs chainId
     (io_bind (rpcChecked node (nd_address node) kodiakLp ''pool'' [] None)
       (\<lambda>underlying. io_return (toLowerCase underlying)))"

definition readBlockTimestamp :: "configs \<Rightarrow> 'w node \<Rightarrow> nat \<Rightarrow> nat \<Rightarrow> ('w, int) io" where
  "readBlockTimestamp cfgs node chainId blockNumber = forChain cfgs chainId
     (retryRpc (nd_fl node) (nd_sleep node) (nd_blockTimestamp node blockNumber))"

definition readErc20BalanceOf :: "configs \<Rightarrow> 'w node \<Rightarrow> nat \<Rightarrow> string \<Rightarrow> string \<Rightarrow> nat \<Rightarrow> ('w, string) io" where
  "readErc20BalanceOf cfgs node chainId tokenAddress walletAddress atBlock = forChain cfgs chainId
     (numberOr ''0'' (retryRpc (nd_fl node) (nd_sleep node)
        (io_bind (io_lift (nd_getAddress node tokenAddress)) (\<lambda>tokenChecked.
         io_bind (io_lift (nd_getAddress node walletAddress)) (\<lambda>wallet.
         nd_uint node \<lparr> fc_address = tokenChecked, fc_name = ''balanceOf'', fc_args = [Arg_String wallet],
           fc_block = Some atBlock \<rparr>)))))"

definition readChainlinkLatestAnswer :: "configs \<Rightarrow> 'w node \<Rightarrow> nat \<Rightarrow> string \<Rightarrow> nat \<Rightarrow> ('w, string) io" where
  "readChainlinkLatestAnswer cfgs node chainId feedAddress atBlock = forChain cfgs chainId
     (numberOr ''0'' (rpcChecked node (nd_uint node) feedAddress ''latestAnswer'' [] (Some atBlock)))"

text \<open>\<open>getNativeBalance\<close> and \<open>getBlock\<close> of \<open>rpc-client.ts\<close>.\<close>

definition getNativeBalance :: "'w node \<Rightarrow> string \<Rightarrow> nat \<Rightarrow> ('w, int) io" where
  "getNativeBalance node address blockNumber =
     retryRpc (nd_fl node) (nd_sleep node) (nd_nativeBalance node address blockNumber)"

section \<open>What a computation answers\<close>

text \<open>\<open>answers m r\<close>: from every state of the world \<open>m\<close> gives the value \<open>r\<close>, or fails if \<open>r\<close> is
  \<open>None\<close>.\<close>

fun valueOf :: "'e + 'a \<Rightarrow> 'a option" where
  "valueOf (Inl _) = None"
| "valueOf (Inr x) = Some x"

definition answers :: "('w, 'a) io \<Rightarrow> 'a option \<Rightarrow> bool" where
  "answers m r \<longleftrightarrow> (\<forall>w. valueOf (fst (m w)) = r)"

lemma valueOf_Some [simp]: "valueOf r = Some x \<longleftrightarrow> r = Inr x"
  by (cases r) auto

lemma answersD: "answers m (Some x) \<Longrightarrow> fst (m w) = Inr x"
  by (simp add: answers_def)

lemma answers_cong: "answers m r \<Longrightarrow> r = r' \<Longrightarrow> answers m r'"
  by simp

lemma answers_return: "answers (io_return x) (Some x)"
  by (simp add: answers_def io_return_def)

lemma answers_lift: "answers (io_lift r) (valueOf r)"
  by (simp add: answers_def io_lift_def)

lemma valueOf_bind:
  "valueOf (fst (io_bind m f w)) = (case m w of (Inl _, _) \<Rightarrow> None | (Inr x, w') \<Rightarrow> valueOf (fst (f x w')))"
  by (simp add: io_bind_def split: sum.splits prod.splits)

lemma valueOf_catch:
  "valueOf (fst (io_catch m h w)) = (case m w of (Inl _, w') \<Rightarrow> valueOf (fst (h w')) | (Inr x, _) \<Rightarrow> Some x)"
  by (simp add: io_catch_def split: sum.splits prod.splits)

lemma answers_bind:
  assumes m: "answers m r" and f: "\<And>x. r = Some x \<Longrightarrow> answers (f x) (g x)"
  shows "answers (io_bind m f) (Option.bind r g)"
  unfolding answers_def
proof
  fix w
  obtain a w' where a: "m w = (a, w')" by fastforce
  have r: "r = valueOf a" using m a unfolding answers_def by (metis fst_conv)
  show "valueOf (fst (io_bind m f w)) = Option.bind r g"
    using r a f by (cases a) (simp_all add: valueOf_bind answers_def)
qed

lemma answers_catch:
  assumes m: "answers m r" and h: "answers h r'"
  shows "answers (io_catch m h) (case r of None \<Rightarrow> r' | Some x \<Rightarrow> Some x)"
  unfolding answers_def
proof
  fix w
  obtain a w' where a: "m w = (a, w')" by fastforce
  have r: "r = valueOf a" using m a unfolding answers_def by (metis fst_conv)
  show "valueOf (fst (io_catch m h w)) = (case r of None \<Rightarrow> r' | Some x \<Rightarrow> Some x)"
    using r a h by (cases a) (simp_all add: valueOf_catch answers_def)
qed

lemma answers_fold:
  assumes "\<And>x acc. x \<in> set xs \<Longrightarrow> answers (f x acc) (Some (g x acc))"
  shows "answers (io_fold f xs acc) (Some (fold g xs acc))"
  using assms
proof (induction xs arbitrary: acc)
  case (Cons x xs)
  have "answers (io_bind (f x acc) (io_fold f xs)) (Option.bind (Some (g x acc)) (\<lambda>a. Some (fold g xs a)))"
    by (rule answers_bind) (use Cons in auto)
  then show ?case by simp
qed (simp add: answers_return)

lemma forChain_known: "cfgs chainId \<noteq> None \<Longrightarrow> forChain cfgs chainId m = m"
  by (auto simp: forChain_def)

section \<open>A node that answers in time\<close>

text \<open>
  What the chain holds, one table per return type; \<open>None\<close> is a call that reverts. A node is
  reliable for it when, from every state of the world, the retries end with that answer.
\<close>

record chain_view =
  cv_uint :: "contract_call \<Rightarrow> int option"
  cv_bool :: "contract_call \<Rightarrow> bool option"
  cv_address :: "contract_call \<Rightarrow> string option"
  cv_bytes :: "contract_call \<Rightarrow> string option"
  cv_poolTokens :: "contract_call \<Rightarrow> (string list \<times> int list) option"
  cv_epoch :: "contract_call \<Rightarrow> (int \<times> int \<times> int \<times> int) option"
  cv_reserves :: "contract_call \<Rightarrow> (int \<times> int \<times> nat) option"
  cv_position :: "contract_call \<Rightarrow> raw_position option"
  cv_blockTimestamp :: "nat \<Rightarrow> int option"
  cv_nativeBalance :: "string \<Rightarrow> nat \<Rightarrow> int option"

abbreviation retried :: "'w node \<Rightarrow> ('w, 'a) io \<Rightarrow> ('w, 'a) io" where
  "retried node m \<equiv> retryRpc (nd_fl node) (nd_sleep node) m"

definition reliable :: "'w node \<Rightarrow> chain_view \<Rightarrow> bool" where
  "reliable node view \<longleftrightarrow>
     (\<forall>c. answers (retried node (nd_uint node c)) (cv_uint view c))
   \<and> (\<forall>c. answers (retried node (nd_bool node c)) (cv_bool view c))
   \<and> (\<forall>c. answers (retried node (nd_address node c)) (cv_address view c))
   \<and> (\<forall>c. answers (retried node (nd_bytes node c)) (cv_bytes view c))
   \<and> (\<forall>c. answers (retried node (nd_poolTokens node c)) (cv_poolTokens view c))
   \<and> (\<forall>c. answers (retried node (nd_epoch node c)) (cv_epoch view c))
   \<and> (\<forall>c. answers (retried node (nd_reserves node c)) (cv_reserves view c))
   \<and> (\<forall>c. answers (retried node (nd_position node c)) (cv_position view c))
   \<and> (\<forall>b. answers (retried node (nd_blockTimestamp node b)) (cv_blockTimestamp view b))
   \<and> (\<forall>a b. answers (retried node (nd_nativeBalance node a b)) (cv_nativeBalance view a b))
   \<and> (\<forall>a e. nd_getAddress node a = Inl e \<longrightarrow> \<not> isRetryableRpcError (nd_fl node) e)"

text \<open>What the chain holds under an address as the configuration writes it.\<close>

definition look :: "'w node \<Rightarrow> (contract_call \<Rightarrow> 'a option) \<Rightarrow> string \<Rightarrow> string \<Rightarrow> call_arg list \<Rightarrow> nat option \<Rightarrow> 'a option" where
  "look node table address name args block = (case nd_getAddress node address of Inl _ \<Rightarrow> None
     | Inr checked \<Rightarrow> table \<lparr> fc_address = checked, fc_name = name, fc_args = args, fc_block = block \<rparr>)"

lemma answers_rpc:
  "answers (retried node (reader \<lparr> fc_address = a, fc_name = name, fc_args = args, fc_block = b \<rparr>)) r \<Longrightarrow>
   answers (rpc node reader a name args b) r"
  by (simp add: rpc_def)

lemma retried_thrown:
  "\<not> isRetryableRpcError (nd_fl node) e \<Longrightarrow> retried node (io_bind (io_lift (Inl e)) f) w = (Inl e, w)"
  by (simp add: retryRpc_def retryFrom.simps io_bind_def io_lift_def MAX_RPC_ATTEMPTS_def)

lemma retried_checked: "io_bind (io_lift (Inr x)) f = f x"
  by (rule ext) (simp add: io_bind_def io_lift_def)

lemma answers_rpcChecked:
  assumes "\<And>c. answers (retried node (reader c)) (table c)"
    "\<And>e. nd_getAddress node a = Inl e \<Longrightarrow> \<not> isRetryableRpcError (nd_fl node) e"
  shows "answers (rpcChecked node reader a name args b) (look node table a name args b)"
proof (cases "nd_getAddress node a")
  case (Inl e)
  then show ?thesis using assms(2) by (simp add: rpcChecked_def look_def answers_def retried_thrown)
next
  case (Inr x)
  then show ?thesis using assms(1) by (simp add: rpcChecked_def look_def retried_checked)
qed

text \<open>A read whose value goes through \<open>f\<close>, with a value to fall back on.\<close>

lemma answers_or:
  assumes "answers m r"
  shows "answers (io_catch (io_bind m (\<lambda>x. io_return (f x))) (io_return d))
     (Some (case r of None \<Rightarrow> d | Some x \<Rightarrow> f x))"
  using answers_catch [OF answers_bind [OF assms, of "\<lambda>x. io_return (f x)" "\<lambda>x. Some (f x)"] answers_return [of d]]
  by (cases r) (simp_all add: answers_return)

lemma answers_numberOr:
  "answers m r \<Longrightarrow> answers (numberOr fallback m) (Some (case r of None \<Rightarrow> fallback | Some v \<Rightarrow> bigint_str v))"
  unfolding numberOr_def by (rule answers_or)

lemma answers_optional:
  "answers m r \<Longrightarrow> answers (io_catch (io_bind m (\<lambda>x. io_return (Some x))) (io_return None)) (Some r)"
  by (drule answers_or [of _ _ Some None]) (cases r; simp)

section \<open>What the effects read\<close>

abbreviation atBlock :: "string \<Rightarrow> string \<Rightarrow> call_arg list \<Rightarrow> nat \<Rightarrow> contract_call" where
  "atBlock address name args block \<equiv>
     \<lparr> fc_address = address, fc_name = name, fc_args = args, fc_block = Some block \<rparr>"

text \<open>The active vaults that answer, with their shares.\<close>

definition activeVaults :: "'w node \<Rightarrow> chain_view \<Rightarrow> string \<Rightarrow> nat \<Rightarrow> (string \<times> string) list" where
  "activeVaults node view registry b = (case cv_uint view (atBlock registry ''activeVaultCount'' [] b) of
       None \<Rightarrow> []
     | Some n \<Rightarrow> List.map_filter (\<lambda>i.
         Option.bind (cv_address view (atBlock registry ''activeVaults'' [Arg_Bigint i] b)) (\<lambda>vault.
         map_option (\<lambda>share. (toLowerCase vault, bigint_str share))
           (look node (cv_uint view) vault ''getPoolOhmShare'' [] (Some b)))) [0..n - 1])"

text \<open>The first fifty positions of a wallet that exist and hold liquidity.\<close>

definition positionsHeld :: "chain_view \<Rightarrow> string \<Rightarrow> string \<Rightarrow> nat \<Rightarrow> position_row list" where
  "positionsHeld view manager wallet b =
     (case cv_uint view (atBlock manager ''balanceOf'' [Arg_String wallet] b) of
       None \<Rightarrow> []
     | Some n \<Rightarrow> List.map_filter (\<lambda>i.
         Option.bind (cv_uint view (atBlock manager ''tokenOfOwnerByIndex'' [Arg_String wallet, Arg_Bigint i] b)) (\<lambda>t.
         Option.bind (cv_position view (atBlock manager ''positions'' [Arg_Bigint t] b)) (\<lambda>pos.
         if rw_liquidity pos = 0 then None
         else Some (toLowerCase (rw_token0 pos), toLowerCase (rw_token1 pos), rw_fee pos, rw_tickLower pos,
                    rw_tickUpper pos, bigint_str (rw_liquidity pos))))) [0..min n 50 - 1])"

text \<open>What the staking contracts that are running pay out next.\<close>

definition nextDistribution :: "'w node \<Rightarrow> chain_view \<Rightarrow> staking_contracts \<Rightarrow> nat \<Rightarrow> int" where
  "nextDistribution node view contracts b =
     (let epoch = (\<lambda>staking. look node (cv_epoch view) staking ''epoch'' [] (Some b));
          pays = (\<lambda>staking startBlock. if b > startBlock
            then case epoch staking of None \<Rightarrow> 0 | Some (_, _, _, distribute) \<Rightarrow> distribute else 0)
      in nullish (look node (cv_uint view) (sc_v1 contracts) ''ohmToDistributeNextEpoch'' [] (Some b)) 0
         + pays (sc_v2 contracts) (sc_v2StartBlock contracts) + pays (sc_v3 contracts) (sc_v3StartBlock contracts))"

lemma fold_map_filter:
  "fold (\<lambda>x acc. case g x of None \<Rightarrow> acc | Some y \<Rightarrow> acc @ [y]) xs acc = acc @ List.map_filter g xs"
  by (induction xs arbitrary: acc) (simp_all add: map_filter_simps split: option.splits)

lemma fold_map_filter_pairs:
  "fold (\<lambda>x (as, bs). case g x of None \<Rightarrow> (as, bs) | Some y \<Rightarrow> (as @ [fst y], bs @ [snd y])) xs (as, bs)
     = (as @ map fst (List.map_filter g xs), bs @ map snd (List.map_filter g xs))"
  by (induction xs arbitrary: as bs) (simp_all add: map_filter_simps split: option.splits)

lemma reliableD:
  assumes "reliable node view"
  shows "answers (retried node (nd_uint node c)) (cv_uint view c)"
    and "answers (retried node (nd_bool node c)) (cv_bool view c)"
    and "answers (retried node (nd_address node c)) (cv_address view c)"
    and "answers (retried node (nd_bytes node c)) (cv_bytes view c)"
    and "answers (retried node (nd_poolTokens node c)) (cv_poolTokens view c)"
    and "answers (retried node (nd_epoch node c)) (cv_epoch view c)"
    and "answers (retried node (nd_reserves node c)) (cv_reserves view c)"
    and "answers (retried node (nd_position node c)) (cv_position view c)"
    and "answers (retried node (nd_blockTimestamp node blk)) (cv_blockTimestamp view blk)"
    and "answers (retried node (nd_nativeBalance node a blk)) (cv_nativeBalance view a blk)"
    and "nd_getAddress node a = Inl e \<Longrightarrow> \<not> isRetryableRpcError (nd_fl node) e"
  using assms by (simp_all add: reliable_def)

lemma checked_uint:
  "reliable node view \<Longrightarrow> answers (rpcChecked node (nd_uint node) a name args b) (look node (cv_uint view) a name args b)"
  by (rule answers_rpcChecked) (simp_all add: reliable_def)

lemma checked_epoch:
  "reliable node view \<Longrightarrow> answers (rpcChecked node (nd_epoch node) a name args b) (look node (cv_epoch view) a name args b)"
  by (rule answers_rpcChecked) (simp_all add: reliable_def)

lemma answers_then: "answers m (Some x) \<Longrightarrow> answers (f x) r \<Longrightarrow> answers (io_bind m f) r"
  using answers_bind [of m "Some x" f "\<lambda>_. r"] by simp

lemma answers_blv_step:
  assumes "reliable node view"
  shows "answers (io_catch
      (io_bind (rpc node (nd_address node) registry ''activeVaults'' [Arg_Bigint i] (Some b)) (\<lambda>vault.
       io_bind (rpcChecked node (nd_uint node) vault ''getPoolOhmShare'' [] (Some b)) (\<lambda>share.
       io_return (vaults @ [toLowerCase vault], ohmShares @ [bigint_str share]))))
      (io_return (vaults, ohmShares)))
    (Some (case Option.bind (cv_address view (atBlock registry ''activeVaults'' [Arg_Bigint i] b)) (\<lambda>vault.
         map_option (\<lambda>share. (toLowerCase vault, bigint_str share))
           (look node (cv_uint view) vault ''getPoolOhmShare'' [] (Some b))) of
       None \<Rightarrow> (vaults, ohmShares) | Some y \<Rightarrow> (vaults @ [fst y], ohmShares @ [snd y])))"
proof -
  have inner: "answers (io_bind (rpcChecked node (nd_uint node) vault ''getPoolOhmShare'' [] (Some b)) (\<lambda>share.
       io_return (vaults @ [toLowerCase vault], ohmShares @ [bigint_str share])))
     (Option.bind (look node (cv_uint view) vault ''getPoolOhmShare'' [] (Some b)) (\<lambda>share.
       Some (vaults @ [toLowerCase vault], ohmShares @ [bigint_str share])))" for vault
    by (intro answers_bind answers_rpcChecked answers_return reliableD [OF assms]) auto
  show ?thesis
    by (rule answers_cong [OF answers_catch [OF answers_bind [OF answers_rpc [OF reliableD(3) [OF assms]] inner]
          answers_return]])
      (auto split: option.splits simp: bind_eq_Some_conv)
qed

lemma answers_snapshotBlvRegistry:
  assumes "reliable node view" "cfgs chainId \<noteq> None" "nd_getAddress node registryInput = Inr registry"
  shows "answers (snapshotBlvRegistry cfgs node chainId registryInput b)
     (Some (map fst (activeVaults node view registry b), map snd (activeVaults node view registry b)))"
  unfolding snapshotBlvRegistry_def forChain_known [of cfgs, OF assms(2)] assms(3) retried_checked
proof (rule answers_then [OF answers_optional [OF answers_rpc [OF reliableD(1) [OF assms(1)]]]], goal_cases)
  case 1
  show ?case
  proof (cases "cv_uint view (atBlock registry ''activeVaultCount'' [] b)")
    case None
    then show ?thesis by (simp add: activeVaults_def answers_return)
  next
    case (Some n)
    let ?g = "\<lambda>i. Option.bind (cv_address view (atBlock registry ''activeVaults'' [Arg_Bigint i] b)) (\<lambda>vault.
         map_option (\<lambda>share. (toLowerCase vault, bigint_str share))
           (look node (cv_uint view) vault ''getPoolOhmShare'' [] (Some b)))"
    have v: "activeVaults node view registry b = List.map_filter ?g [0..n - 1]"
      by (simp add: activeVaults_def Some)
    show ?thesis unfolding Some option.case v
      by (rule answers_cong [OF answers_fold [where g = "\<lambda>i (as, bs). case ?g i of None \<Rightarrow> (as, bs)
              | Some y \<Rightarrow> (as @ [fst y], bs @ [snd y])"]])
        (simp_all only: split_paired_all case_prod_conv fold_map_filter_pairs append_Nil
          answers_blv_step [OF assms(1)])
  qed
qed

lemma answers_nft_step:
  assumes "reliable node view"
  shows "answers (io_bind (io_catch (io_bind (rpc node (nd_uint node) manager ''tokenOfOwnerByIndex''
        [Arg_String wallet, Arg_Bigint i] (Some b)) (\<lambda>t. io_return (Some t))) (io_return None)) (\<lambda>found.
      case found of None \<Rightarrow> io_return positions
      | Some tokenId \<Rightarrow> io_catch
          (io_bind (rpc node (nd_position node) manager ''positions'' [Arg_Bigint tokenId] (Some b)) (\<lambda>pos.
           if rw_liquidity pos = 0 then io_return positions
           else io_return (positions @ [(toLowerCase (rw_token0 pos), toLowerCase (rw_token1 pos),
                  rw_fee pos, rw_tickLower pos, rw_tickUpper pos, bigint_str (rw_liquidity pos))])))
          (io_return positions)))
    (Some (case Option.bind (cv_uint view (atBlock manager ''tokenOfOwnerByIndex'' [Arg_String wallet, Arg_Bigint i] b)) (\<lambda>t.
         Option.bind (cv_position view (atBlock manager ''positions'' [Arg_Bigint t] b)) (\<lambda>pos.
         if rw_liquidity pos = 0 then None
         else Some (toLowerCase (rw_token0 pos), toLowerCase (rw_token1 pos), rw_fee pos, rw_tickLower pos,
                    rw_tickUpper pos, bigint_str (rw_liquidity pos)))) of
       None \<Rightarrow> positions | Some y \<Rightarrow> positions @ [y]))" (is "answers _ (Some ?r)")
proof (rule answers_then [OF answers_optional [OF answers_rpc [OF reliableD(1) [OF assms]]]], goal_cases)
  case 1
  show ?case
  proof (cases "cv_uint view (atBlock manager ''tokenOfOwnerByIndex'' [Arg_String wallet, Arg_Bigint i] b)")
    case None
    then show ?thesis by (simp add: answers_return)
  next
    case (Some t)
    let ?held = "\<lambda>pos. if rw_liquidity pos = 0 then positions
        else positions @ [(toLowerCase (rw_token0 pos), toLowerCase (rw_token1 pos), rw_fee pos, rw_tickLower pos,
                           rw_tickUpper pos, bigint_str (rw_liquidity pos))]"
    show ?thesis unfolding Some option.case
      by (rule answers_cong [OF answers_catch [OF answers_bind
            [OF answers_rpc [OF reliableD(8) [OF assms]], where g = "\<lambda>pos. Some (?held pos)"] answers_return]])
        (auto intro: answers_return split: option.splits simp: bind_eq_Some_conv bind_eq_None_conv)
  qed
qed

lemma answers_snapshotUniv3NftPositions:
  assumes "reliable node view" "cfgs chainId \<noteq> None" "nd_getAddress node managerInput = Inr manager"
    "nd_getAddress node walletInput = Inr wallet"
  shows "answers (snapshotUniv3NftPositions cfgs node chainId managerInput walletInput b)
     (Some (positionsHeld view manager wallet b))"
  unfolding snapshotUniv3NftPositions_def forChain_known [of cfgs, OF assms(2)] assms(3,4) retried_checked
proof (rule answers_then [OF answers_optional [OF answers_rpc [OF reliableD(1) [OF assms(1)]]]], goal_cases)
  case 1
  show ?case
  proof (cases "cv_uint view (atBlock manager ''balanceOf'' [Arg_String wallet] b)")
    case None
    then show ?thesis by (simp add: positionsHeld_def answers_return)
  next
    case (Some n)
    let ?g = "\<lambda>i.
         Option.bind (cv_uint view (atBlock manager ''tokenOfOwnerByIndex'' [Arg_String wallet, Arg_Bigint i] b)) (\<lambda>t.
         Option.bind (cv_position view (atBlock manager ''positions'' [Arg_Bigint t] b)) (\<lambda>pos.
         if rw_liquidity pos = 0 then None
         else Some (toLowerCase (rw_token0 pos), toLowerCase (rw_token1 pos), rw_fee pos, rw_tickLower pos,
                    rw_tickUpper pos, bigint_str (rw_liquidity pos))))"
    have held: "positionsHeld view manager wallet b = List.map_filter ?g [0..(if n > 50 then 50 else n) - 1]"
      by (simp add: positionsHeld_def Some min_def)
    have none: "n = 0 \<Longrightarrow> positionsHeld view manager wallet b = []"
      by (simp add: positionsHeld_def Some map_filter_simps)
    show ?thesis
    proof (cases "n = 0")
      case True
      then show ?thesis by (simp add: Some none answers_return)
    next
      case False
      then show ?thesis unfolding Some option.case held if_not_P [OF False]
        by (intro answers_cong [OF answers_fold [where g = "\<lambda>i acc. case ?g i of None \<Rightarrow> acc | Some y \<Rightarrow> acc @ [y]"]])
          (simp_all only: fold_map_filter append_Nil answers_nft_step [OF assms(1)])
    qed
  qed
qed

lemma answers_readNextOhmDistribution:
  assumes "reliable node view" "cfgs chainId \<noteq> None"
  shows "answers (readNextOhmDistribution cfgs node chainId contracts b)
     (Some (bigint_str (nextDistribution node view contracts b)))"
proof -
  have epoch: "answers (if b > start
        then io_catch (io_bind (rpcChecked node (nd_epoch node) staking ''epoch'' [] (Some b))
               (\<lambda>(_, _, _, distribute). io_return (total + distribute))) (io_return total)
        else io_return total)
      (Some (total + (if b > start then case look node (cv_epoch view) staking ''epoch'' [] (Some b) of None \<Rightarrow> 0
         | Some (_, _, _, distribute) \<Rightarrow> distribute else 0)))" for start staking total
    using answers_or [OF checked_epoch [OF assms(1), of staking "''epoch''" "[]" "Some b"],
        of "\<lambda>(_, _, _, distribute). total + distribute" total] answers_return [of total]
    by (auto simp: case_prod_unfold split: option.splits)
  have v1: "answers (io_catch (io_bind (rpcChecked node (nd_uint node) (sc_v1 contracts) ''ohmToDistributeNextEpoch'' []
             (Some b)) (\<lambda>v1. io_return (0 + v1))) (io_return 0))
      (Some (nullish (look node (cv_uint view) (sc_v1 contracts) ''ohmToDistributeNextEpoch'' [] (Some b)) 0))"
    using answers_or [OF checked_uint [OF assms(1), of "sc_v1 contracts"
        "''ohmToDistributeNextEpoch''" "[]" "Some b"], of "\<lambda>v. 0 + v" 0]
    by (simp add: nullish_def cong: option.case_cong)
  show ?thesis
    unfolding readNextOhmDistribution_def forChain_known [of cfgs, OF assms(2)] Let_def
    by (rule answers_then [OF v1], rule answers_then [OF epoch], rule answers_then [OF epoch],
        rule answers_cong [OF answers_return])
      (simp add: nextDistribution_def Let_def)
qed


section \<open>Reads are functions of their input\<close>

text \<open>A computation is steady when the state of the world does not matter to what it gives.\<close>

definition steady :: "('w, 'a) io \<Rightarrow> bool" where
  "steady m \<longleftrightarrow> (\<exists>r. answers m r)"

named_theorems steady_intros

lemma steadyI: "answers m r \<Longrightarrow> steady m"
  by (auto simp: steady_def)

lemma steady_basic [steady_intros]: "steady (io_return x)" "steady (io_lift r)" "steady (io_throw e)"
  by (auto intro: steadyI answers_return answers_lift) (auto simp: steady_def answers_def io_throw_def)

lemma steady_bind [steady_intros]:
  assumes "steady m" "\<And>x. steady (f x)"
  shows "steady (io_bind m f)"
proof -
  obtain r where r: "answers m r" using assms(1) by (auto simp: steady_def)
  have "\<forall>x. \<exists>r. answers (f x) r" using assms(2) by (simp add: steady_def)
  then obtain g where g: "\<And>x. answers (f x) (g x)" by metis
  show ?thesis by (rule steadyI) (rule answers_bind [OF r g])
qed

lemma steady_catch [steady_intros]: "steady m \<Longrightarrow> steady h \<Longrightarrow> steady (io_catch m h)"
  unfolding steady_def by (metis answers_catch)

lemma steady_fold [steady_intros]: "(\<And>x acc. steady (f x acc)) \<Longrightarrow> steady (io_fold f xs acc)"
  by (induction xs arbitrary: acc) (auto intro: steady_intros)

lemma steady_control [steady_intros]:
  "steady a \<Longrightarrow> steady b \<Longrightarrow> steady (if P then a else b)"
  "steady a \<Longrightarrow> (\<And>y. steady (f y)) \<Longrightarrow> steady (case x of None \<Rightarrow> a | Some y \<Rightarrow> f y)"
  "(\<And>a b. steady (g a b)) \<Longrightarrow> steady (case p of (a, b) \<Rightarrow> g a b)"
  by (auto split: option.splits prod.splits)

lemma steady_forChain [steady_intros]: "steady m \<Longrightarrow> steady (forChain cfgs chainId m)"
  by (auto simp: forChain_def intro!: steady_intros)

lemma steady_numberOr [steady_intros]: "steady m \<Longrightarrow> steady (numberOr fallback m)"
  by (simp add: numberOr_def steady_intros)

lemma steady_reads:
  assumes "reliable node view"
  shows "steady (rpc node (nd_uint node) a name args b)" "steady (rpc node (nd_bool node) a name args b)"
    "steady (rpc node (nd_address node) a name args b)" "steady (rpc node (nd_position node) a name args b)"
    "steady (rpc node (nd_reserves node) a name args b)" "steady (rpcChecked node (nd_uint node) a name args b)" "steady (rpcChecked node (nd_epoch node) a name args b)"
    "steady (retried node (nd_blockTimestamp node blk))" "steady (retried node (nd_nativeBalance node a blk))"
  using reliableD [OF assms] checked_uint [OF assms] checked_epoch [OF assms]
  by (auto intro!: steadyI answers_rpc)

lemma steady_balance:
  assumes "reliable node view"
  shows "steady (retried node (io_bind (io_lift (nd_getAddress node t)) (\<lambda>tokenChecked.
    io_bind (io_lift (nd_getAddress node a)) (\<lambda>wallet. nd_uint node (f tokenChecked wallet)))))"
proof (cases "nd_getAddress node t")
  case (Inl e)
  then show ?thesis using reliableD(11) [OF assms] by (auto intro!: steadyI [of _ None] simp: answers_def retried_thrown)
next
  case (Inr t')
  show ?thesis
  proof (cases "nd_getAddress node a")
    case (Inl e)
    then show ?thesis using Inr reliableD(11) [OF assms]
      by (auto intro!: steadyI [of _ None] simp: answers_def retried_checked retried_thrown)
  next
    case (Inr a')
    then show ?thesis using \<open>nd_getAddress node t = Inr t'\<close> reliableD(1) [OF assms]
      by (auto intro!: steadyI simp: retried_checked)
  qed
qed

text \<open>
  The reads of the snapshot and of the pricing code as that code uses them: an effect's strings
  become numbers, the empty string becomes \<open>None\<close>. The text of a thrown error is of no
  consequence to the callers and is left out.
\<close>

definition str_int :: "string \<Rightarrow> int" where
  "str_int s = (case s of [] \<Rightarrow> 0
     | c # cs \<Rightarrow> if c = CHR ''-'' then - int (str_nat cs) else int (str_nat s))"

lemma nat_str_head: "nat_str n = c # cs \<Longrightarrow> c \<noteq> CHR ''-''"
  by (metis dash_nat_str list.set_intros(1))

lemma str_int_bigint_str [simp]: "str_int (bigint_str z) = z"
proof (cases "z < 0")
  case False
  obtain c cs where "nat_str (nat z) = c # cs"
    by (metis nat_str.simps append_is_Nil_conv list.exhaust list.distinct(1))
  then show ?thesis using False nat_str_head [of "nat z" c cs]
    by (simp add: bigint_str_def str_int_def) (metis int_nat_eq not_less str_nat_nat_str)
qed (simp add: bigint_str_def str_int_def)

definition optionalInt :: "string \<Rightarrow> int option" where
  "optionalInt s = (if s = '''' then None else Some (str_int s))"

definition readPosition :: "position_row \<Rightarrow> nft_position" where
  "readPosition row = (case row of (token0, token1, fee, lower, upper, liquidity) \<Rightarrow>
     \<lparr> np_token0 = token0, np_token1 = token1, np_fee = nat fee, np_tickLower = lower,
       np_tickUpper = upper, np_liquidity = str_int liquidity \<rparr>)"

definition readsFrom :: "'w \<Rightarrow> ('a \<Rightarrow> 'b) \<Rightarrow> ('w, 'a) io \<Rightarrow> string + 'b" where
  "readsFrom w f m = map_sum (\<lambda>_. ''chain read failed'') f (fst (m w))"

definition pricingReads :: "configs \<Rightarrow> 'w node \<Rightarrow> 'w \<Rightarrow> pricing_env \<Rightarrow> pricing_env" where
  "pricingReads cfgs node w env = env \<lparr>
     pe_chainlink := \<lambda>c feedAddress b. readsFrom w str_int (readChainlinkLatestAnswer cfgs node c feedAddress b),
     pe_erc4626 := \<lambda>c vault d b. readsFrom w optionalInt (readErc4626AssetsPerShare cfgs node c vault d b),
     pe_curve := \<lambda>c pool lp n b. readsFrom w (\<lambda>(balances, supply). (map str_int balances, str_int supply))
       (snapshotCurvePool cfgs node c pool lp n b),
     pe_fraxswap := \<lambda>c pool b. readsFrom w (\<lambda>(r0, r1, supply). (str_int r0, str_int r1, str_int supply))
       (snapshotFraxSwapPool cfgs node c pool b) \<rparr>"

definition snapshotReads :: "configs \<Rightarrow> 'w node \<Rightarrow> 'w \<Rightarrow> snapshot_env \<Rightarrow> snapshot_env" where
  "snapshotReads cfgs node w env = env \<lparr>
     se_pricing := pricingReads cfgs node w (se_pricing env),
     se_readErc20BalanceOf := \<lambda>c t a b. readsFrom w str_int (readErc20BalanceOf cfgs node c t a b),
     se_getNativeBalance := \<lambda>a b. readsFrom w id
       (io_bind (io_lift (nd_getAddress node a)) (\<lambda>checked. getNativeBalance node checked b)),
     se_readBondManagerState := \<lambda>c a b. readsFrom w id (readBondManagerState cfgs node c a b),
     se_snapshotBlvRegistry := \<lambda>c a b. readsFrom w (\<lambda>(vaults, shares). (vaults, map str_int shares))
       (snapshotBlvRegistry cfgs node c a b),
     se_readMonoCoolerTotalDebt := \<lambda>c a b. readsFrom w optionalInt (readMonoCoolerTotalDebt cfgs node c a b),
     se_readCoolerPrincipalReceivables := \<lambda>c a b. readsFrom w optionalInt
       (readCoolerPrincipalReceivables cfgs node c a b),
     se_snapshotUniv3NftPositions := \<lambda>c m a b. readsFrom w (map readPosition)
       (snapshotUniv3NftPositions cfgs node c m a b),
     se_readSOhmCirculatingSupply := \<lambda>c a b. readsFrom w optionalInt (readSOhmCirculatingSupply cfgs node c a b),
     se_readNextOhmDistribution := \<lambda>c contracts b. readsFrom w optionalInt
       (readNextOhmDistribution cfgs node c contracts b),
     se_readBlockTimestamp := \<lambda>c b. readsFrom w nat (readBlockTimestamp cfgs node c b) \<rparr>"

lemma steady_readsFrom: "steady m \<Longrightarrow> readsFrom w f m = readsFrom w' f m"
proof -
  assume "steady m"
  then have "valueOf (fst (m w)) = valueOf (fst (m w'))" by (auto simp: steady_def answers_def)
  then show ?thesis unfolding readsFrom_def by (cases "fst (m w)"; cases "fst (m w')") simp_all
qed

lemma steady_effects:
  assumes "reliable node view"
  shows "steady (readChainlinkLatestAnswer cfgs node c a b)" "steady (readErc4626AssetsPerShare cfgs node c a d b)"
    "steady (snapshotCurvePool cfgs node c a lp n b)" "steady (snapshotFraxSwapPool cfgs node c a b)"
    "steady (readBondManagerState cfgs node c a b)" "steady (snapshotBlvRegistry cfgs node c a b)"
    "steady (readMonoCoolerTotalDebt cfgs node c a b)" "steady (readCoolerPrincipalReceivables cfgs node c a b)"
    "steady (snapshotUniv3NftPositions cfgs node c m a b)" "steady (readSOhmCirculatingSupply cfgs node c a b)"
    "steady (readNextOhmDistribution cfgs node c contracts b)" "steady (readBlockTimestamp cfgs node c b)"
    "steady (io_bind (io_lift (nd_getAddress node a)) (\<lambda>checked. getNativeBalance node checked b))"
    "steady (readErc20BalanceOf cfgs node c t a b)"
  unfolding readChainlinkLatestAnswer_def readErc4626AssetsPerShare_def readBondManagerState_def
    snapshotBlvRegistry_def readMonoCoolerTotalDebt_def readCoolerPrincipalReceivables_def
    snapshotUniv3NftPositions_def readSOhmCirculatingSupply_def readBlockTimestamp_def
    readNextOhmDistribution_def getNativeBalance_def Let_def snapshotCurvePool_def snapshotFraxSwapPool_def
    readErc20BalanceOf_def
  by (intro steady_intros steady_reads [OF assms] steady_balance [OF assms])+

text \<open>With a reliable node everything the snapshot and the pricing code read is a function of
  its input alone: at whatever moment, and after whatever failures and retries, the reads are made,
  the environment they give is the same. This is what lets the snapshot be modelled over
  functions of the block.\<close>

theorem reads_are_functions:
  assumes "reliable node view"
  shows "snapshotReads cfgs node w env = snapshotReads cfgs node w' env"
  unfolding snapshotReads_def pricingReads_def
  by (simp only: steady_readsFrom [where w = w and w' = w', OF steady_effects(1) [OF assms]]
      steady_readsFrom [where w = w and w' = w', OF steady_effects(2) [OF assms]]
      steady_readsFrom [where w = w and w' = w', OF steady_effects(3) [OF assms]]
      steady_readsFrom [where w = w and w' = w', OF steady_effects(4) [OF assms]]
      steady_readsFrom [where w = w and w' = w', OF steady_effects(5) [OF assms]]
      steady_readsFrom [where w = w and w' = w', OF steady_effects(6) [OF assms]]
      steady_readsFrom [where w = w and w' = w', OF steady_effects(7) [OF assms]]
      steady_readsFrom [where w = w and w' = w', OF steady_effects(8) [OF assms]]
      steady_readsFrom [where w = w and w' = w', OF steady_effects(9) [OF assms]]
      steady_readsFrom [where w = w and w' = w', OF steady_effects(10) [OF assms]]
      steady_readsFrom [where w = w and w' = w', OF steady_effects(11) [OF assms]]
      steady_readsFrom [where w = w and w' = w', OF steady_effects(12) [OF assms]]
      steady_readsFrom [where w = w and w' = w', OF steady_effects(13) [OF assms]]
      steady_readsFrom [where w = w and w' = w', OF steady_effects(14) [OF assms]])

section \<open>An outage\<close>

text \<open>\<open>failing node\<close>: the node throws at every call, for example because it is rate limited
  throughout.\<close>

definition failing :: "'w node \<Rightarrow> bool" where
  "failing node \<longleftrightarrow> (\<forall>c w. isl (fst (nd_uint node c w)))"

lemma retryRpc_failing:
  assumes "\<And>w. isl (fst (operation w))"
  shows "isl (fst (retryRpc fl sleep operation w))"
  using retryRpc_settles [of fl sleep operation w] assms by metis

lemma numberOr_failing:
  assumes "\<And>w. isl (fst (operation w))"
  shows "fst (numberOr fallback (retryRpc fl sleep operation) w) = Inr fallback"
proof -
  obtain r w' where r: "retryRpc fl sleep operation w = (r, w')" by fastforce
  have "isl r" using retryRpc_failing [of operation fl sleep w] assms r by simp
  then show ?thesis using r
    by (cases r) (simp_all add: numberOr_def io_catch_def io_bind_def io_return_def)
qed

lemma bind_failing: "(\<And>x w. isl (fst (f x w))) \<Longrightarrow> isl (fst (io_bind m f w))"
  by (auto simp: io_bind_def split: sum.splits prod.splits)

text \<open>C32: a read that fails for good because the node is out is not told apart from a contract that
  is not there: a balance reads as \<open>"0"\<close>, a feed as no price, a receivable as absent, and nothing is
  thrown. The framework then keeps that answer for the input.\<close>

theorem outage_reads_as_zero:
  assumes "failing node" "cfgs chainId \<noteq> None"
  shows "fst (readErc20BalanceOf cfgs node chainId tokenAddress wallet b w) = Inr ''0''
     \<and> fst (readChainlinkLatestAnswer cfgs node chainId feedAddress b w) = Inr ''0''
     \<and> fst (readCoolerPrincipalReceivables cfgs node chainId clearinghouse b w) = Inr ''''
     \<and> fst (readSOhmCirculatingSupply cfgs node chainId sOhm b w) = Inr ''''"
  using assms(1)
  unfolding readErc20BalanceOf_def readChainlinkLatestAnswer_def readCoolerPrincipalReceivables_def
    readSOhmCirculatingSupply_def rpcChecked_def forChain_known [of cfgs, OF assms(2)] failing_def
  by (intro conjI numberOr_failing bind_failing) simp_all

section \<open>Keycodes\<close>

text \<open>How the library prints the bytes of a keycode.\<close>

definition hexDigit :: "nat \<Rightarrow> char" where
  "hexDigit n = char_of (if n < 10 then 48 + n else 87 + n)"

definition printBytes :: "nat list \<Rightarrow> string" where
  "printBytes bytes = ''0x'' @ concat (map (\<lambda>n. [hexDigit (n div 16), hexDigit (n mod 16)]) bytes)"

lemma radixDigit_hexDigit: "n < 16 \<Longrightarrow> radixDigit (hexDigit n) = n"
proof -
  assume "n < 16"
  then have "n \<in> set [0..<16]" by simp
  then show ?thesis by (auto simp: upt_rec radixDigit_def hexDigit_def lower_char_def Let_def)
qed

text \<open>Decoding the five bytes of a keycode gives back its characters, without the zero bytes
  that pad it.\<close>

theorem keycode_roundtrip:
  assumes "length code \<le> 5" "\<forall>c \<in> set code. (of_char c :: nat) \<noteq> 0"
  shows "decodeKeycode (printBytes (map of_char code @ replicate (5 - length code) 0)) = code"
proof -
  let ?hex = "\<lambda>bytes. concat (map (\<lambda>n. [hexDigit (n div 16), hexDigit (n mod 16)]) bytes)"
  have zeros: "decodeBytes (?hex (replicate n 0)) = []" for n
    by (cases n) (simp_all add: radixDigit_hexDigit)
  have "decodeBytes (?hex (map of_char code @ replicate n 0)) = code"
    if "\<forall>c \<in> set code. (of_char c :: nat) \<noteq> 0" for n
    using that
  proof (induction code)
    case (Cons c cs)
    have "(of_char c :: nat) < 256" by (rule nat_of_char_less_256)
    then have "of_char c div 16 < (16 :: nat)" by (simp add: less_mult_imp_div_less)
    then show ?case using Cons zeros by (simp add: radixDigit_hexDigit Let_def)
  qed (use zeros in simp)
  then show ?thesis using assms(2) by (simp add: decodeKeycode_def printBytes_def)
qed

theorem keycode_roundtrip_witness: "decodeKeycode ''0x5452535259'' = ''TRSRY''"
  using keycode_roundtrip [of "''TRSRY''"]
  by (simp add: printBytes_def hexDigit_def char_of_def bit_0)

section \<open>A node that is slow to answer\<close>

text \<open>Every other call is refused for exceeding the rate. The chain has one supported id, two
  vaults of which the second reverts, two positions of which the first is empty, and staking
  contracts that pay 7.\<close>

definition flaky :: "'a option \<Rightarrow> (nat, 'a) io" where
  "flaky r w = ((if even w then Inl (Rpc_Error [(''status'', Numeric (Fin 429) ''429'')] None)
     else case r of None \<Rightarrow> Inl Not_Object | Some x \<Rightarrow> Inr x), Suc w)"

definition sample_view :: chain_view where
  "sample_view = \<lparr>
     cv_uint = \<lambda>c. if fc_name c = ''getPoolOhmShare'' then (if fc_address c = ''0xA'' then Some 40 else None)
       else if fc_name c = ''ohmToDistributeNextEpoch'' then None
       else if fc_name c = ''tokenOfOwnerByIndex'' then (if last (fc_args c) = Arg_Bigint 0 then Some 8 else Some 9)
       else Some 2,
     cv_bool = \<lambda>_. Some True,
     cv_address = \<lambda>c. Some (if fc_args c = [Arg_Bigint 0] then ''0xA'' else ''0xB''),
     cv_bytes = \<lambda>_. None, cv_poolTokens = \<lambda>_. None, cv_epoch = \<lambda>_. Some (1, 2, 3, 7),
     cv_reserves = \<lambda>_. None,
     cv_position = \<lambda>c. Some \<lparr> rw_token0 = ''0xC'', rw_token1 = ''0xD'', rw_fee = 3000, rw_tickLower = - 60,
       rw_tickUpper = 60, rw_liquidity = (if fc_args c = [Arg_Bigint 8] then 0 else 5) \<rparr>,
     cv_blockTimestamp = \<lambda>_. None, cv_nativeBalance = \<lambda>_ _. None \<rparr>"

definition sample_node :: "nat node" where
  "sample_node = \<lparr> nd_fl = Fin, nd_sleep = (\<lambda>_ w. w), nd_getAddress = Inr,
     nd_uint = flaky \<circ> cv_uint sample_view, nd_bool = flaky \<circ> cv_bool sample_view,
     nd_address = flaky \<circ> cv_address sample_view, nd_bytes = flaky \<circ> cv_bytes sample_view,
     nd_poolTokens = flaky \<circ> cv_poolTokens sample_view, nd_epoch = flaky \<circ> cv_epoch sample_view,
     nd_reserves = flaky \<circ> cv_reserves sample_view, nd_position = flaky \<circ> cv_position sample_view,
     nd_blockTimestamp = flaky \<circ> cv_blockTimestamp sample_view,
     nd_nativeBalance = (\<lambda>a b. flaky (cv_nativeBalance sample_view a b)) \<rparr>"

lemma flaky_answers: "answers (retryRpc Fin (\<lambda>_ w. w) (flaky r)) r"
  unfolding answers_def
proof
  fix w :: nat
  show "valueOf (fst (retryRpc Fin (\<lambda>_ w. w) (flaky r) w)) = r"
    by (cases r; cases "even w")
      (simp_all add: retryRpc_def retryFrom.simps [of _ _ _ "Suc 0"] retryFrom.simps [of _ _ _ "Suc (Suc 0)"]
        flaky_def MAX_RPC_ATTEMPTS_def RETRYABLE_STATUSES_def Let_def)
qed

lemma sample_reliable: "reliable sample_node sample_view"
  by (simp add: reliable_def sample_node_def flaky_answers)

definition sample_chains :: configs where
  "sample_chains = [1 \<mapsto> blank_config]"

definition sample_staking :: staking_contracts where
  "sample_staking = \<lparr> sc_v1 = ''0x1'', sc_v2 = ''0x2'', sc_v2StartBlock = 100, sc_v3 = ''0x3'', sc_v3StartBlock = 200 \<rparr>"

lemma sample_view_reads:
  "activeVaults sample_node sample_view ''0xR'' 150 = [(''0xa'', ''40'')]"
  "positionsHeld sample_view ''0xM'' ''0xW'' 150 = [(''0xc'', ''0xd'', 3000, - 60, 60, ''5'')]"
  "nextDistribution sample_node sample_view sample_staking 150 = 7"
  by (simp_all add: activeVaults_def positionsHeld_def nextDistribution_def sample_view_def sample_node_def look_def
      sample_staking_def map_filter_simps upto_rec1 bigint_str_def nat_str.simps [of 40] nat_str.simps [of 4]
      nat_str.simps [of 0] nat_str.simps [of 5] digit_char_def char_of_def bit_0 addr_eval nullish_def)


theorem reads_are_functions_witness:
  "\<forall>env. snapshotReads sample_chains sample_node 0 env = snapshotReads sample_chains sample_node 1 env"
  by (intro allI reads_are_functions [OF sample_reliable])

definition dead_node :: "nat node" where
  "dead_node = sample_node \<lparr> nd_uint := \<lambda>_ w. (Inl (Rpc_Error [(''status'', Numeric (Fin 429) ''429'')] None), Suc w) \<rparr>"

theorem outage_reads_as_zero_witness:
  "fst (readErc20BalanceOf sample_chains dead_node 1 ''0xT'' ''0xW'' 150 0) = Inr ''0''"
  using outage_reads_as_zero [of dead_node sample_chains 1 "''0xT''" "''0xW''" 150 0]
  by (simp add: failing_def dead_node_def sample_chains_def)

end
