(* ===== verification/Chain_Ethereum.thy ===== *)
theory Chain_Ethereum
  imports Types
begin

text \<open>
  The configuration of Ethereum (\<open>snapshot/chains/ethereum.ts\<close>): constants, handlers,
      tokens. Constants that are
  addresses or blocks are abbreviations; a name that another chain's file uses too carries the
  chain in front. The RPC endpoints belong to the transport (\<open>rpcUrls\<close> in \<open>Rpc\<close>).
\<close>

abbreviation TREASURY_ADDRESS_V1 :: string where
  "TREASURY_ADDRESS_V1 \<equiv> addr ''0x886CE997aa9ee4F8c2282E182aB72A705762399D''"
abbreviation TREASURY_ADDRESS_V2 :: string where
  "TREASURY_ADDRESS_V2 \<equiv> addr ''0x31f8cc382c9898b273eff4e0b7626a6987c846e8''"
abbreviation TREASURY_ADDRESS_V3 :: string where
  "TREASURY_ADDRESS_V3 \<equiv> addr ''0x9A315BdF513367C0377FB36545857d12e85813Ef''"
abbreviation DAO_WALLET :: string where
  "DAO_WALLET \<equiv> addr ''0x245cc372c84b3645bf0ffe6538620b04a217988b''"
abbreviation DAO_WORKING_CAPITAL :: string where
  "DAO_WORKING_CAPITAL \<equiv> addr ''0xF65A665D650B5De224F46D729e2bD0885EeA9dA5''"
abbreviation ETHEREUM_TRSRY :: string where
  "ETHEREUM_TRSRY \<equiv> addr ''0xa8687A15D4BE32CC8F0a8a7B9704a4C3993D9613''"
abbreviation TRSRY_V1_1 :: string where
  "TRSRY_V1_1 \<equiv> addr ''0xea1560F36F71a2F54deFA75ed9EaA15E8655bE22''"
abbreviation BUYBACK_MS :: string where
  "BUYBACK_MS \<equiv> addr ''0xf7deb867e65306be0cb33918ac1b8f89a72109db''"
abbreviation YIELD_FARMING_MS :: string where
  "YIELD_FARMING_MS \<equiv> addr ''0x2075e3b46470cfcE124Daaf52b46Dcf965727Dd1''"
abbreviation OTC_ESCROW :: string where
  "OTC_ESCROW \<equiv> addr ''0xe3312c3f1ab30878d9686452f7205ebe11e965eb''"
abbreviation BONDS_DEPOSIT :: string where
  "BONDS_DEPOSIT \<equiv> addr ''0x9025046c6fb25Fb39e720d97a8FD881ED69a1Ef6''"
abbreviation BONDS_INVERSE_DEPOSIT :: string where
  "BONDS_INVERSE_DEPOSIT \<equiv> addr ''0xBA42BE149e5260EbA4B82418A6306f55D532eA47''"
abbreviation AAVE_ALLOCATOR :: string where
  "AAVE_ALLOCATOR \<equiv> addr ''0x0e1177e47151Be72e5992E0975000E73Ab5fd9D4''"
abbreviation AAVE_ALLOCATOR_V2 :: string where
  "AAVE_ALLOCATOR_V2 \<equiv> addr ''0x0d33c811d0fcc711bcb388dfb3a152de445be66f''"
abbreviation AURA_ALLOCATOR :: string where
  "AURA_ALLOCATOR \<equiv> addr ''0x872ebDd8129Aa328C89f6BF032bBD77a4c4BaC7e''"
abbreviation AURA_ALLOCATOR_V2 :: string where
  "AURA_ALLOCATOR_V2 \<equiv> addr ''0x8CaF91A6bb38D55fB530dEc0faB535FA78d98FaD''"
abbreviation BALANCER_ALLOCATOR :: string where
  "BALANCER_ALLOCATOR \<equiv> addr ''0xa9b52a2d0ffdbabdb2cb23ebb7cd879cac6618a6''"
abbreviation CONVEX_ALLOCATOR1 :: string where
  "CONVEX_ALLOCATOR1 \<equiv> addr ''0x3dF5A355457dB3A4B5C744B8623A7721BF56dF78''"
abbreviation CONVEX_ALLOCATOR2 :: string where
  "CONVEX_ALLOCATOR2 \<equiv> addr ''0x408a9A09d97103022F53300A3A14Ca6c3FF867E8''"
abbreviation CONVEX_ALLOCATOR3 :: string where
  "CONVEX_ALLOCATOR3 \<equiv> addr ''0xDbf0683fC4FC8Ac11e64a6817d3285ec4f2Fc42d''"
abbreviation CONVEX_CVX_ALLOCATOR :: string where
  "CONVEX_CVX_ALLOCATOR \<equiv> addr ''0xdfc95aaf0a107daae2b350458ded4b7906e7f728''"
abbreviation CONVEX_CVX_VL_ALLOCATOR :: string where
  "CONVEX_CVX_VL_ALLOCATOR \<equiv> addr ''0x2d643df5de4e9ba063760d475beaa62821c71681''"
abbreviation CONVEX_STAKING_PROXY_FRAXBP :: string where
  "CONVEX_STAKING_PROXY_FRAXBP \<equiv> addr ''0x943C1dfA7dA96e54242bD2c78DD3eF5C7b24b18C''"
abbreviation CONVEX_STAKING_PROXY_OHM_FRAXBP :: string where
  "CONVEX_STAKING_PROXY_OHM_FRAXBP \<equiv> addr ''0x75E7f7D871F4B5db0fA9B0f01B7422352Ec9618f''"
abbreviation LUSD_ALLOCATOR :: string where
  "LUSD_ALLOCATOR \<equiv> addr ''0x97b3ef4c558ec456d59cb95c65bfb79046e31fca''"
abbreviation MAKER_DSR_ALLOCATOR :: string where
  "MAKER_DSR_ALLOCATOR \<equiv> addr ''0x0EA26319836fF05B8C5C5afD83b8aB17dd46d063''"
abbreviation MAKER_DSR_ALLOCATOR_PROXY :: string where
  "MAKER_DSR_ALLOCATOR_PROXY \<equiv> addr ''0x5db0761487e26B555F5Bfd5E40F4CBC3E1a7d11E''"
abbreviation RARI_ALLOCATOR :: string where
  "RARI_ALLOCATOR \<equiv> addr ''0x061C8610A784b8A1599De5B1157631e35180d818''"
abbreviation VEFXS_ALLOCATOR :: string where
  "VEFXS_ALLOCATOR \<equiv> addr ''0xde7b85f52577b113181921a7aa8fc0c22e309475''"
abbreviation COOLER_LOANS_CLEARINGHOUSE_V1 :: string where
  "COOLER_LOANS_CLEARINGHOUSE_V1 \<equiv> addr ''0xD6A6E8d9e82534bD65821142fcCd91ec9cF31880''"
abbreviation COOLER_LOANS_CLEARINGHOUSE_V1_1 :: string where
  "COOLER_LOANS_CLEARINGHOUSE_V1_1 \<equiv> addr ''0xE6343ad0675C9b8D3f32679ae6aDbA0766A2ab4c''"
abbreviation COOLER_LOANS_CLEARINGHOUSE_V2 :: string where
  "COOLER_LOANS_CLEARINGHOUSE_V2 \<equiv> addr ''0x1e094fE00E13Fd06D64EeA4FB3cD912893606fE0''"
abbreviation COOLER_LOANS_V2_MONOCOOLER :: string where
  "COOLER_LOANS_V2_MONOCOOLER \<equiv> addr ''0xdb591Ea2e5Db886dA872654D58f6cc584b68e7cC''"
definition WALLET_ADDRESSES :: "string list" where
  "WALLET_ADDRESSES = [AAVE_ALLOCATOR_V2, AAVE_ALLOCATOR, AURA_ALLOCATOR_V2, AURA_ALLOCATOR,
      BALANCER_ALLOCATOR, BONDS_DEPOSIT, BONDS_INVERSE_DEPOSIT, BUYBACK_MS, CONVEX_ALLOCATOR1,
      CONVEX_ALLOCATOR2, CONVEX_ALLOCATOR3, CONVEX_CVX_ALLOCATOR, CONVEX_CVX_VL_ALLOCATOR,
      CONVEX_STAKING_PROXY_FRAXBP, CONVEX_STAKING_PROXY_OHM_FRAXBP, DAO_WALLET, DAO_WORKING_CAPITAL,
      LUSD_ALLOCATOR, MAKER_DSR_ALLOCATOR_PROXY, MAKER_DSR_ALLOCATOR, OTC_ESCROW, RARI_ALLOCATOR,
      TREASURY_ADDRESS_V1, TREASURY_ADDRESS_V2, TREASURY_ADDRESS_V3, ETHEREUM_TRSRY, TRSRY_V1_1,
      VEFXS_ALLOCATOR, COOLER_LOANS_CLEARINGHOUSE_V1, COOLER_LOANS_CLEARINGHOUSE_V1_1,
      COOLER_LOANS_CLEARINGHOUSE_V2, COOLER_LOANS_V2_MONOCOOLER, YIELD_FARMING_MS]"

abbreviation ERC20_OHM_V1 :: string where
  "ERC20_OHM_V1 \<equiv> addr ''0x383518188c0c6d7730d91b2c03a03c837814a899''"
abbreviation ERC20_OHM_V2 :: string where
  "ERC20_OHM_V2 \<equiv> addr ''0x64aa3364f17a4d01c6f1751fd97c2bd3d7e7f1d5''"
abbreviation ETHEREUM_ERC20_GOHM :: string where
  "ETHEREUM_ERC20_GOHM \<equiv> addr ''0x0ab87046fBb341D058F17CBC4c1133F25a20a52f''"
abbreviation ERC20_SOHM_V3 :: string where
  "ERC20_SOHM_V3 \<equiv> addr ''0x04906695D6D12CF5459975d7C3C03356E4Ccd460''"
abbreviation ERC20_SOHM_V2 :: string where
  "ERC20_SOHM_V2 \<equiv> addr ''0x04f2694c8fcee23e8fd0dfea1d4f5bb8c352111f''"
abbreviation ERC20_SOHM_V2_TREASURY_START_BLOCK :: nat where "ERC20_SOHM_V2_TREASURY_START_BLOCK \<equiv> 18260000"
abbreviation ERC20_GOHM_TREASURY_START_BLOCK :: nat where "ERC20_GOHM_TREASURY_START_BLOCK \<equiv> 17115000"
abbreviation ETHEREUM_ERC20_DAI :: string where
  "ETHEREUM_ERC20_DAI \<equiv> addr ''0x6b175474e89094c44da98b954eedeac495271d0f''"
abbreviation ETHEREUM_ERC20_FRAX :: string where
  "ETHEREUM_ERC20_FRAX \<equiv> addr ''0x853d955acef822db058eb8505911ed77f175b99e''"
abbreviation ETHEREUM_ERC20_LUSD :: string where
  "ETHEREUM_ERC20_LUSD \<equiv> addr ''0x5f98805a4e8be255a32880fdec7f6728c6568ba0''"
abbreviation ETHEREUM_ERC20_USDC :: string where
  "ETHEREUM_ERC20_USDC \<equiv> addr ''0xA0b86991c6218b36c1d19D4a2e9Eb0cE3606eB48''"
abbreviation ERC20_USDT :: string where
  "ERC20_USDT \<equiv> addr ''0xdAC17F958D2ee523a2206206994597C13D831ec7''"
abbreviation ERC20_USDE :: string where
  "ERC20_USDE \<equiv> addr ''0x4c9EDD5852cd905f086C759E8383e09bff1E68B3''"
abbreviation ERC20_USDS :: string where
  "ERC20_USDS \<equiv> addr ''0xdC035D45d973E3EC169d2276DDab16f1e407384F''"
abbreviation ERC20_SDAI :: string where
  "ERC20_SDAI \<equiv> addr ''0x83F20F44975D03b1b09e64809B757c47f942BEeA''"
abbreviation ERC20_SUSDE :: string where
  "ERC20_SUSDE \<equiv> addr ''0x9D39A5DE30e57443BfF2A8307A4256c8797A3497''"
abbreviation ERC20_SUSDS :: string where
  "ERC20_SUSDS \<equiv> addr ''0xa3931d71877C0E7a3148CB7Eb4463524FEc27fbD''"
abbreviation ERC20_GAUNTLET_SUSDS_VAULT :: string where
  "ERC20_GAUNTLET_SUSDS_VAULT \<equiv> addr ''0x3365184e87d2Bd75961780454A5810BEc956F0dD''"
abbreviation ERC20_ADAI :: string where
  "ERC20_ADAI \<equiv> addr ''0x028171bca77440897b824ca71d1c56cac55b68a3''"
abbreviation ERC20_AETH_USDE :: string where
  "ERC20_AETH_USDE \<equiv> addr ''0x4f5923fc5fd4a93352581b38b7cd26943012decf''"
abbreviation ERC20_AETH_SUSDE :: string where
  "ERC20_AETH_SUSDE \<equiv> addr ''0x4579a27af00a62c0eb156349f31b345c08386419''"
abbreviation ERC20_VAR_DEBT_ETH_USDT :: string where
  "ERC20_VAR_DEBT_ETH_USDT \<equiv> addr ''0x6df1c1e379bc5a00a7b4c6e67a203333772f45a8''"
abbreviation ERC20_VAR_DEBT_ETH_USDC :: string where
  "ERC20_VAR_DEBT_ETH_USDC \<equiv> addr ''0x72e95b8931767c79ba4eee721354d6e99a61d004''"
abbreviation ETHEREUM_ERC20_WETH :: string where
  "ETHEREUM_ERC20_WETH \<equiv> addr ''0xc02aaa39b223fe8d0a0e5c4f27ead9083c756cc2''"
abbreviation ERC20_WSTETH :: string where
  "ERC20_WSTETH \<equiv> addr ''0x7f39c581f595b53c5cb19bd0b3f8da6c935e2ca0''"
abbreviation ERC20_WEETH :: string where
  "ERC20_WEETH \<equiv> addr ''0xCd5fE23C85820F7B72D0926FC9b05b43E359b7ee''"
abbreviation ERC20_FXS :: string where
  "ERC20_FXS \<equiv> addr ''0x3432b6a60d23ca0dfca7761b7ab56459d9c964d0''"
abbreviation ERC20_FXS_VE :: string where
  "ERC20_FXS_VE \<equiv> addr ''0xc8418af6358ffdda74e09ca9cc3fe03ca6adc5b0''"
abbreviation ERC20_LDO :: string where
  "ERC20_LDO \<equiv> addr ''0x5a98fcbea516cf06857215779fd812ca3bef1b32''"
abbreviation ETHEREUM_ERC20_LQTY :: string where
  "ETHEREUM_ERC20_LQTY \<equiv> addr ''0x6dea81c8171d0ba574754ef6f8b412f2ed88c54d''"
abbreviation ERC20_BTRFLY_V1 :: string where
  "ERC20_BTRFLY_V1 \<equiv> addr ''0xc0d4ceb216b3ba9c3701b291766fdcba977cec3a''"
abbreviation ERC20_BTRFLY_V1_STAKED :: string where
  "ERC20_BTRFLY_V1_STAKED \<equiv> addr ''0xCC94Faf235cC5D3Bf4bEd3a30db5984306c86aBC''"
abbreviation ERC20_BTRFLY_V2 :: string where
  "ERC20_BTRFLY_V2 \<equiv> addr ''0xc55126051b22ebb829d00368f4b12bde432de5da''"
abbreviation ERC20_BTRFLY_V2_RL :: string where
  "ERC20_BTRFLY_V2_RL \<equiv> addr ''0x742B70151cd3Bc7ab598aAFF1d54B90c3ebC6027''"
abbreviation ERC20_CVX_CRV :: string where
  "ERC20_CVX_CRV \<equiv> addr ''0x62b9c7356a2dc64a1969e19c23e4f579f9810aa7''"
abbreviation LP_UNISWAP_V2_CVX_CRV_ETH :: string where
  "LP_UNISWAP_V2_CVX_CRV_ETH \<equiv> addr ''0x4b893b0e9c2fe8bf5d531d0c9c603b1483b4ce30''"
abbreviation ETHEREUM_NATIVE_ETH :: string where
  "ETHEREUM_NATIVE_ETH \<equiv> ''0x0000000000000000000000000000000000000000''"
abbreviation CHAINLINK_FEED_DAI_USD :: string where
  "CHAINLINK_FEED_DAI_USD \<equiv> addr ''0xaed0c38402a5d19df6e4c03f4e2dced6e29c1ee9''"
abbreviation CHAINLINK_FEED_FRAX_USD :: string where
  "CHAINLINK_FEED_FRAX_USD \<equiv> addr ''0xb9e1e3a9feff48998e45fa90847ed4d467e8bcfd''"
abbreviation CHAINLINK_FEED_LUSD_USD :: string where
  "CHAINLINK_FEED_LUSD_USD \<equiv> addr ''0x3D7aE7E594f2f2091Ad8798313450130d0Aba3a0''"
abbreviation ETHEREUM_CHAINLINK_FEED_USDC_USD :: string where
  "ETHEREUM_CHAINLINK_FEED_USDC_USD \<equiv> addr ''0x8fffffd4afb6115b954bd326cbe7b4ba576818f6''"
abbreviation CHAINLINK_FEED_USDT_USD :: string where
  "CHAINLINK_FEED_USDT_USD \<equiv> addr ''0x3e7d1eab13ad0104d2750b8863b489d65364e32d''"
abbreviation CHAINLINK_FEED_USDE_USD :: string where
  "CHAINLINK_FEED_USDE_USD \<equiv> addr ''0xa569d910839Ae8865Da8F8e70FfFb0cBA869F961''"
abbreviation ETHEREUM_CHAINLINK_FEED_ETH_USD :: string where
  "ETHEREUM_CHAINLINK_FEED_ETH_USD \<equiv> addr ''0x5f4ec3df9cbd43714fe2740f5e3616155c5b8419''"
abbreviation LP_CURVE_OHM_ETH :: string where
  "LP_CURVE_OHM_ETH \<equiv> addr ''0x6ec38b3228251a0C5D491Faf66858e2E23d7728B''"
abbreviation LP_CURVE_OHM_FRAXBP :: string where
  "LP_CURVE_OHM_FRAXBP \<equiv> addr ''0xFc1e8bf3E81383Ef07Be24c3FD146745719DE48D''"
abbreviation LP_CURVE_FRAX_USDC_POOL :: string where
  "LP_CURVE_FRAX_USDC_POOL \<equiv> addr ''0xDcEF968d416a41Cdac0ED8702fAC8128A64241A2''"
abbreviation LP_CURVE_FRAX_USDC_LP :: string where
  "LP_CURVE_FRAX_USDC_LP \<equiv> addr ''0x3175Df0976dFA876431C2E9eE6Bc45b65d3473CC''"
definition CURVE_OHM_ETH_COINS :: "string list" where
  "CURVE_OHM_ETH_COINS = [ERC20_OHM_V2, ETHEREUM_NATIVE_ETH]"

definition CURVE_OHM_FRAXBP_COINS :: "string list" where
  "CURVE_OHM_FRAXBP_COINS = [ERC20_OHM_V2, LP_CURVE_FRAX_USDC_LP]"

definition CURVE_FRAX_USDC_COINS :: "string list" where
  "CURVE_FRAX_USDC_COINS = [ETHEREUM_ERC20_FRAX, ETHEREUM_ERC20_USDC]"

abbreviation LP_FRAXSWAP_V1_OHM_FRAX :: string where
  "LP_FRAXSWAP_V1_OHM_FRAX \<equiv> addr ''0x38633ed142bcc8128b45ab04a2e4a6e53774699f''"
abbreviation LP_FRAXSWAP_V2_OHM_FRAX :: string where
  "LP_FRAXSWAP_V2_OHM_FRAX \<equiv> addr ''0x5769071665eb8Db80e7e9226F92336Bb2897DCFA''"
abbreviation CONVEX_REWARD_OHM_ETH :: string where
  "CONVEX_REWARD_OHM_ETH \<equiv> addr ''0xd683C7051a28fA150EB3F4BD92263865D4a67778''"
abbreviation CONVEX_REWARD_OHM_FRAXBP :: string where
  "CONVEX_REWARD_OHM_FRAXBP \<equiv> addr ''0x27A8c58e3DE84280826d615D80ddb33930383fE9''"
abbreviation CONVEX_REWARD_FRAX_USDC :: string where
  "CONVEX_REWARD_FRAX_USDC \<equiv> addr ''0x7e880867363A7e321f5d260Cade2B0Bb2F717B02''"
abbreviation ETHEREUM_BALANCER_VAULT :: string where
  "ETHEREUM_BALANCER_VAULT \<equiv> addr ''0xba12222222228d8ba445958a75a0704d566bf2c8''"
abbreviation LP_BALANCER_POOL_OHM_WETH :: string where
  "LP_BALANCER_POOL_OHM_WETH \<equiv> projr (bytes32 ''0xd1ec5e215e8148d76f4460e4097fd3d5ae0a35580002000000000000000003d3'')"
abbreviation LP_BALANCER_POOL_OHM_DAI :: string where
  "LP_BALANCER_POOL_OHM_DAI \<equiv> projr (bytes32 ''0x76fcf0e8c7ff37a47a799fa2cd4c13cde0d981c90002000000000000000003d2'')"
abbreviation LP_BALANCER_POOL_OHM_DAI_WETH :: string where
  "LP_BALANCER_POOL_OHM_DAI_WETH \<equiv> projr (bytes32 ''0xc45d42f801105e861e86658648e3678ad7aa70f900010000000000000000011e'')"
abbreviation LP_BALANCER_POOL_OHM_WSTETH :: string where
  "LP_BALANCER_POOL_OHM_WSTETH \<equiv> projr (bytes32 ''0xd4f79ca0ac83192693bce4699d0c10c66aa6cf0f00020000000000000000047e'')"
abbreviation BPT_OHM_WETH :: string where
  "BPT_OHM_WETH \<equiv> addr ''0xd1ec5e215e8148d76f4460e4097fd3d5ae0a3558''"
abbreviation BPT_OHM_DAI :: string where
  "BPT_OHM_DAI \<equiv> addr ''0x76fcf0e8c7ff37a47a799fa2cd4c13cde0d981c9''"
abbreviation BPT_OHM_DAI_WETH :: string where
  "BPT_OHM_DAI_WETH \<equiv> addr ''0xc45d42f801105e861e86658648e3678ad7aa70f9''"
abbreviation BPT_OHM_WSTETH :: string where
  "BPT_OHM_WSTETH \<equiv> addr ''0xd4f79ca0ac83192693bce4699d0c10c66aa6cf0f''"
abbreviation AURA_VAULT_OHM_WETH :: string where
  "AURA_VAULT_OHM_WETH \<equiv> addr ''0x978653c02f2fbbdfd67cbc7f45c42262f213e0b5''"
abbreviation AURA_VAULT_OHM_DAI :: string where
  "AURA_VAULT_OHM_DAI \<equiv> addr ''0xB9D6ED734Ccbdd0b9CadFED712Cf8AC6D0917EcD''"
abbreviation AURA_VAULT_OHM_DAI_WETH :: string where
  "AURA_VAULT_OHM_DAI_WETH \<equiv> addr ''0xF01e29461f1FCEdD82f5258Da006295E23b4Fab3''"
abbreviation AURA_VAULT_OHM_WSTETH :: string where
  "AURA_VAULT_OHM_WSTETH \<equiv> addr ''0x636024f9ddef77e625161b2ccf3a2adfbfad3615''"
abbreviation LP_UNISWAP_V3_WETH_OHM :: string where
  "LP_UNISWAP_V3_WETH_OHM \<equiv> addr ''0x88051b0eea095007d3bef21ab287be961f3d8598''"
abbreviation LP_UNISWAP_V3_OHM_SUSDS :: string where
  "LP_UNISWAP_V3_OHM_SUSDS \<equiv> addr ''0x0858e2B0F9D75f7300B38D64482aC2C8DF06a755''"
abbreviation LP_UNISWAP_V3_WETH_WSTETH :: string where
  "LP_UNISWAP_V3_WETH_WSTETH \<equiv> addr ''0x109830a1aaad605bbf02a9dfa7b0b92ec2fb7daa''"
abbreviation LP_UNISWAP_V3_WEETH_WETH :: string where
  "LP_UNISWAP_V3_WEETH_WETH \<equiv> addr ''0x202A6012894Ae5c288eA824cbc8A9bfb26A49b93''"
abbreviation LP_UNISWAP_V3_FXS_ETH :: string where
  "LP_UNISWAP_V3_FXS_ETH \<equiv> addr ''0xcd8286b48936cdac20518247dbd310ab681a9fbf''"
abbreviation LP_UNISWAP_V3_LDO_WETH :: string where
  "LP_UNISWAP_V3_LDO_WETH \<equiv> addr ''0xa3f558aebaecaf0e11ca4b2199cc5ed341edfd74''"
abbreviation LP_UNISWAP_V3_LQTY_WETH :: string where
  "LP_UNISWAP_V3_LQTY_WETH \<equiv> addr ''0xd1d5a4c0ea98971894772dcd6d2f1dc71083c44e''"
abbreviation LP_UNISWAP_V3_WETH_BTRFLY_V1 :: string where
  "LP_UNISWAP_V3_WETH_BTRFLY_V1 \<equiv> addr ''0xdf9ab3c649005ebfdf682d2302ca1f673e0d37a2''"
abbreviation LP_UNISWAP_V3_WETH_BTRFLY_V2 :: string where
  "LP_UNISWAP_V3_WETH_BTRFLY_V2 \<equiv> addr ''0x3e6e23198679419cd73bb6376518dcc5168c8260''"
abbreviation LP_CURVE_OHM_ETH_BLOCK :: nat where "LP_CURVE_OHM_ETH_BLOCK \<equiv> 14490000"
abbreviation LP_CURVE_OHM_FRAXBP_BLOCK :: nat where "LP_CURVE_OHM_FRAXBP_BLOCK \<equiv> 15300000"
abbreviation LP_CURVE_FRAX_USDC_BLOCK :: nat where "LP_CURVE_FRAX_USDC_BLOCK \<equiv> 14950000"
abbreviation LP_FRAXSWAP_V1_OHM_FRAX_BLOCK :: nat where "LP_FRAXSWAP_V1_OHM_FRAX_BLOCK \<equiv> 14490000"
abbreviation LP_FRAXSWAP_V2_OHM_FRAX_BLOCK :: nat where "LP_FRAXSWAP_V2_OHM_FRAX_BLOCK \<equiv> 17000000"
abbreviation LP_BALANCER_OHM_WETH_BLOCK :: nat where "LP_BALANCER_OHM_WETH_BLOCK \<equiv> 15650000"
abbreviation LP_BALANCER_OHM_DAI_BLOCK :: nat where "LP_BALANCER_OHM_DAI_BLOCK \<equiv> 15650000"
abbreviation LP_BALANCER_OHM_DAI_WETH_BLOCK :: nat where "LP_BALANCER_OHM_DAI_WETH_BLOCK \<equiv> 14790000"
abbreviation LP_BALANCER_OHM_WSTETH_BLOCK :: nat where "LP_BALANCER_OHM_WSTETH_BLOCK \<equiv> 16800000"
abbreviation ETHEREUM_START_BLOCK :: nat where "ETHEREUM_START_BLOCK \<equiv> 12000000"
abbreviation ERC20_OHM_V2_BLOCK :: nat where "ERC20_OHM_V2_BLOCK \<equiv> 13782589"
abbreviation ERC20_SOHM_V3_BLOCK :: nat where "ERC20_SOHM_V3_BLOCK \<equiv> 13806000"
abbreviation ERC20_SDAI_BLOCK :: nat where "ERC20_SDAI_BLOCK \<equiv> 17675440"
abbreviation ERC20_SUSDE_BLOCK :: nat where "ERC20_SUSDE_BLOCK \<equiv> 20265440"
abbreviation ERC20_SUSDS_BLOCK :: nat where "ERC20_SUSDS_BLOCK \<equiv> 20722900"
abbreviation ERC20_GAUNTLET_SUSDS_VAULT_BLOCK :: nat where "ERC20_GAUNTLET_SUSDS_VAULT_BLOCK \<equiv> 21924854"
abbreviation ERC20_USDE_BLOCK :: nat where "ERC20_USDE_BLOCK \<equiv> 20289094"
abbreviation ERC20_WEETH_BLOCK :: nat where "ERC20_WEETH_BLOCK \<equiv> 18961223"
abbreviation NATIVE_ETH_BLOCK :: nat where "NATIVE_ETH_BLOCK \<equiv> 21810000"
abbreviation ERC20_FXS_BLOCK :: nat where "ERC20_FXS_BLOCK \<equiv> 11465584"
abbreviation ERC20_FXS_VE_BLOCK :: nat where "ERC20_FXS_VE_BLOCK \<equiv> 13833298"
abbreviation ERC20_CVX_CRV_BLOCK :: nat where "ERC20_CVX_CRV_BLOCK \<equiv> 12451018"
abbreviation LP_UNISWAP_V2_CVX_CRV_ETH_BLOCK :: nat where "LP_UNISWAP_V2_CVX_CRV_ETH_BLOCK \<equiv> 12496006"
abbreviation ERC20_AAVE_V3_BLOCK :: nat where "ERC20_AAVE_V3_BLOCK \<equiv> 24707147"
definition ETHEREUM_PROTOCOL_ADDRESSES :: "string list" where
  "ETHEREUM_PROTOCOL_ADDRESSES = WALLET_ADDRESSES"

definition ETHEREUM_names :: "string \<rightharpoonup> string" where
  "ETHEREUM_names = object_literal [
     (AAVE_ALLOCATOR, ''Aave Allocator V1''),
     (AAVE_ALLOCATOR_V2, ''Aave Allocator V2''),
     (BONDS_DEPOSIT, ''Bond Depository''),
     (BONDS_INVERSE_DEPOSIT, ''Bond (Inverse) Depository''),
     (BUYBACK_MS, ''Buyback MS''),
     (CONVEX_CVX_VL_ALLOCATOR, ''Convex vlCVX Allocator''),
     (COOLER_LOANS_CLEARINGHOUSE_V1, ''Cooler Loans Clearinghouse V1''),
     (COOLER_LOANS_CLEARINGHOUSE_V1_1, ''Cooler Loans Clearinghouse V1.1''),
     (COOLER_LOANS_CLEARINGHOUSE_V2, ''Cooler Loans Clearinghouse V2''),
     (COOLER_LOANS_V2_MONOCOOLER, ''Cooler Loans V2 MonoCooler''),
     (DAO_WALLET, ''Treasury MS (Formerly DAO Wallet)''),
     (RARI_ALLOCATOR, ''Rari Allocator''),
     (TREASURY_ADDRESS_V2, ''Treasury Wallet V2''),
     (TREASURY_ADDRESS_V3, ''Treasury Wallet V3''),
     (ETHEREUM_TRSRY, ''Bophades Treasury''),
     (VEFXS_ALLOCATOR, ''VeFXS Allocator''),
     (CONVEX_REWARD_OHM_ETH, ''Convex Staked Curve OHM-ETH''),
     (CONVEX_REWARD_OHM_FRAXBP, ''Convex Staked Curve OHM-FraxBP''),
     (CONVEX_REWARD_FRAX_USDC, ''Convex Staked Curve FRAX-USDC''),
     (BPT_OHM_WETH, ''Balancer OHM-WETH BPT''),
     (BPT_OHM_DAI, ''Balancer OHM-DAI BPT''),
     (BPT_OHM_DAI_WETH, ''Balancer OHM-DAI-WETH BPT''),
     (BPT_OHM_WSTETH, ''Balancer OHM-wstETH BPT''),
     (AURA_VAULT_OHM_WETH, ''Aura Staked OHM-WETH''),
     (AURA_VAULT_OHM_DAI, ''Aura Staked OHM-DAI''),
     (AURA_VAULT_OHM_DAI_WETH, ''Aura Staked OHM-DAI-WETH''),
     (AURA_VAULT_OHM_WSTETH, ''Aura Staked OHM-wstETH''),
     (LP_CURVE_OHM_ETH, ''Curve OHM-ETH''),
     (LP_CURVE_OHM_FRAXBP, ''Curve OHM-FraxBP''),
     (LP_CURVE_FRAX_USDC_LP, ''Curve FRAX-USDC''),
     (LP_FRAXSWAP_V1_OHM_FRAX, ''FraxSwap V1 OHM-FRAX''),
     (LP_FRAXSWAP_V2_OHM_FRAX, ''FraxSwap V2 OHM-FRAX''),
     (ERC20_SDAI, ''Savings DAI''),
     (ERC20_SUSDE, ''Staked USDe''),
     (ERC20_SUSDS, ''Savings USDS''),
     (ERC20_GAUNTLET_SUSDS_VAULT, ''Gauntlet sUSDS Vault''),
     (ERC20_ADAI, ''Aave DAI''),
     (ERC20_AETH_USDE, ''Aave Ethereum USDe''),
     (ERC20_AETH_SUSDE, ''Aave Ethereum sUSDe''),
     (ERC20_VAR_DEBT_ETH_USDC, ''Aave Ethereum Variable Debt USDC''),
     (ERC20_VAR_DEBT_ETH_USDT, ''Aave Ethereum Variable Debt USDT''),
     (ERC20_BTRFLY_V1, ''BTRFLY''),
     (ERC20_BTRFLY_V1_STAKED, ''Staked BTRFLY''),
     (ERC20_BTRFLY_V2, ''BTRFLY V2''),
     (ERC20_BTRFLY_V2_RL, ''Revenue-Locked BTRFLY''),
     (ETHEREUM_ERC20_DAI, ''DAI''),
     (ERC20_CVX_CRV, ''Curve - Convex CRV Reward Pool''),
     (ETHEREUM_ERC20_FRAX, ''FRAX''),
     (ERC20_FXS, ''Frax Share''),
     (ERC20_FXS_VE, ''FXS - Staked''),
     (LP_UNISWAP_V2_CVX_CRV_ETH, ''Uniswap V2 cvxCRV-ETH Liquidity Pool''),
     (ETHEREUM_ERC20_GOHM, ''Governance OHM''),
     (ERC20_SOHM_V3, ''Staked OHM V3''),
     (ERC20_SOHM_V2, ''Staked OHM V2''),
     (ERC20_LDO, ''Lido DAO''),
     (ETHEREUM_ERC20_LQTY, ''Liquity''),
     (ETHEREUM_ERC20_LUSD, ''Liquity USD''),
     (ERC20_OHM_V1, ''OHM (V1)''),
     (ERC20_OHM_V2, ''OHM''),
     (ETHEREUM_ERC20_USDC, ''USDC''),
     (ERC20_USDE, ''USDe''),
     (ERC20_USDS, ''USDS''),
     (ERC20_USDT, ''USDT''),
     (ERC20_WEETH, ''Wrapped eETH''),
     (ETHEREUM_NATIVE_ETH, ''ETH''),
     (ETHEREUM_ERC20_WETH, ''Wrapped ETH''),
     (ERC20_WSTETH, ''Wrapped staked ETH''),
     (LP_UNISWAP_V3_FXS_ETH, ''UniswapV3 FXS-ETH''),
     (LP_UNISWAP_V3_LDO_WETH, ''UniswapV3 LDO-WETH''),
     (LP_UNISWAP_V3_LQTY_WETH, ''UniswapV3 LQTY-WETH''),
     (LP_UNISWAP_V3_WEETH_WETH, ''UniswapV3 weETH-WETH''),
     (LP_UNISWAP_V3_WETH_BTRFLY_V1, ''UniswapV3 WETH-BTRFLY V1''),
     (LP_UNISWAP_V3_WETH_BTRFLY_V2, ''UniswapV3 WETH-BTRFLY V2''),
     (LP_UNISWAP_V3_WETH_OHM, ''UniswapV3 WETH-OHM''),
     (LP_UNISWAP_V3_OHM_SUSDS, ''UniswapV3 OHM-sUSDS''),
     (LP_UNISWAP_V3_WETH_WSTETH, ''UniswapV3 WETH-wstETH'')]"

definition ETHEREUM_abbreviations :: "string \<rightharpoonup> string" where
  "ETHEREUM_abbreviations = object_literal [
     (CONVEX_REWARD_OHM_ETH, ''cvxCurveOhmEth''),
     (CONVEX_REWARD_OHM_FRAXBP, ''cvxCurveOhmFraxBp''),
     (CONVEX_REWARD_FRAX_USDC, ''cvxFraxUsdc''),
     (AURA_VAULT_OHM_WETH, ''auraOhmWeth''),
     (AURA_VAULT_OHM_DAI, ''auraOhmDai''),
     (AURA_VAULT_OHM_DAI_WETH, ''auraOhmDaiWeth''),
     (AURA_VAULT_OHM_WSTETH, ''auraOhmWsteth''),
     (ERC20_SDAI, ''sDAI''),
     (ERC20_SUSDE, ''sUSDe''),
     (ERC20_SUSDS, ''sUSDS''),
     (ERC20_GAUNTLET_SUSDS_VAULT, ''gtSUSDS''),
     (ERC20_ADAI, ''aDAI''),
     (ERC20_AETH_USDE, ''aEthUSDe''),
     (ERC20_AETH_SUSDE, ''aEthsUSDe''),
     (ERC20_VAR_DEBT_ETH_USDC, ''variableDebtEthUSDC''),
     (ERC20_VAR_DEBT_ETH_USDT, ''variableDebtEthUSDT''),
     (ERC20_BTRFLY_V1, ''BTRFLY''),
     (ERC20_BTRFLY_V1_STAKED, ''xBTRFLY''),
     (ERC20_BTRFLY_V2, ''BTRFLY''),
     (ERC20_BTRFLY_V2_RL, ''rlBTRFLY''),
     (ERC20_CVX_CRV, ''cvxCRV''),
     (ERC20_FXS, ''FXS''),
     (ERC20_FXS_VE, ''veFXS''),
     (ETHEREUM_ERC20_GOHM, ''gOHM''),
     (ERC20_SOHM_V3, ''sOHM''),
     (ERC20_SOHM_V2, ''sOHM''),
     (ERC20_LDO, ''LDO''),
     (ETHEREUM_ERC20_LQTY, ''LQTY''),
     (ERC20_OHM_V1, ''OHM V1''),
     (ERC20_OHM_V2, ''OHM''),
     (ERC20_USDE, ''USDe''),
     (ERC20_USDS, ''USDS''),
     (ERC20_WEETH, ''weETH''),
     (ETHEREUM_NATIVE_ETH, ''ETH''),
     (ETHEREUM_ERC20_WETH, ''wETH''),
     (ERC20_WSTETH, ''wstETH'')]"

definition ETHEREUM_univ3WethOhm :: "liquidity_handler" where
  "ETHEREUM_univ3WethOhm = Univ3 LP_UNISWAP_V3_WETH_OHM [ERC20_OHM_V2, ETHEREUM_ERC20_WETH] (Some ERC20_OHM_V2_BLOCK)"

abbreviation LP_UNISWAP_V3_OHM_SUSDS_BLOCK :: nat where "LP_UNISWAP_V3_OHM_SUSDS_BLOCK \<equiv> 21309466"
definition ETHEREUM_univ3OhmSusds :: "liquidity_handler" where
  "ETHEREUM_univ3OhmSusds = Univ3 LP_UNISWAP_V3_OHM_SUSDS [ERC20_OHM_V2,
      ERC20_SUSDS] (Some LP_UNISWAP_V3_OHM_SUSDS_BLOCK)"

definition ETHEREUM_ownedLiquidityHandlers :: "liquidity_handler list" where
  "ETHEREUM_ownedLiquidityHandlers = [
     ETHEREUM_univ3WethOhm,
     ETHEREUM_univ3OhmSusds]"

abbreviation COOLER_LOANS_V1_BLOCK :: nat where "COOLER_LOANS_V1_BLOCK \<equiv> 18539800"
abbreviation COOLER_LOANS_V1_1_BLOCK :: nat where "COOLER_LOANS_V1_1_BLOCK \<equiv> 18794000"
abbreviation COOLER_LOANS_V2_BLOCK :: nat where "COOLER_LOANS_V2_BLOCK \<equiv> 19620000"
abbreviation COOLER_LOANS_V2_MONOCOOLER_BLOCK :: nat where "COOLER_LOANS_V2_MONOCOOLER_BLOCK \<equiv> 22423121"
definition ETHEREUM_coolerClearinghouses :: "cooler_clearinghouse list" where
  "ETHEREUM_coolerClearinghouses = [
     \<lparr> ch_address = COOLER_LOANS_CLEARINGHOUSE_V1, ch_kind = Clearinghouse,
      ch_name = ''Cooler Loans Clearinghouse V1'',
       ch_receivableToken = ETHEREUM_ERC20_DAI, ch_priceToken = None,
      ch_startBlock = (Some COOLER_LOANS_V1_BLOCK) \<rparr>,
     \<lparr> ch_address = COOLER_LOANS_CLEARINGHOUSE_V1_1, ch_kind = Clearinghouse,
      ch_name = ''Cooler Loans Clearinghouse V1.1'',
       ch_receivableToken = ETHEREUM_ERC20_DAI, ch_priceToken = None,
      ch_startBlock = (Some COOLER_LOANS_V1_1_BLOCK) \<rparr>,
     \<lparr> ch_address = COOLER_LOANS_CLEARINGHOUSE_V2, ch_kind = Clearinghouse,
      ch_name = ''Cooler Loans Clearinghouse V2'',
       ch_receivableToken = ETHEREUM_ERC20_DAI, ch_priceToken = None,
      ch_startBlock = (Some COOLER_LOANS_V2_BLOCK) \<rparr>,
     \<lparr> ch_address = COOLER_LOANS_V2_MONOCOOLER, ch_kind = Monocooler, ch_name = ''Cooler Loans V2 MonoCooler'',
       ch_receivableToken = ERC20_USDS, ch_priceToken = (Some ETHEREUM_ERC20_DAI),
      ch_startBlock = (Some COOLER_LOANS_V2_MONOCOOLER_BLOCK) \<rparr>]"

definition ETHEREUM_liquidityHandlers_1 :: "liquidity_handler list" where
  "ETHEREUM_liquidityHandlers_1 = [
     Chainlink CHAINLINK_FEED_DAI_USD [ETHEREUM_ERC20_DAI, ERC20_ADAI] 8 (Some ETHEREUM_START_BLOCK),
     Chainlink CHAINLINK_FEED_FRAX_USD [ETHEREUM_ERC20_FRAX] 8 (Some 12974035),
     Chainlink CHAINLINK_FEED_LUSD_USD [ETHEREUM_ERC20_LUSD] 8 (Some 13038711),
     Chainlink ETHEREUM_CHAINLINK_FEED_USDC_USD [ETHEREUM_ERC20_USDC,
      ERC20_VAR_DEBT_ETH_USDC] 8 (Some ETHEREUM_START_BLOCK),
     Chainlink CHAINLINK_FEED_USDT_USD [ERC20_USDT, ERC20_VAR_DEBT_ETH_USDT] 8 (Some ETHEREUM_START_BLOCK),
     Chainlink CHAINLINK_FEED_USDE_USD [ERC20_USDE, ERC20_AETH_USDE] 8 (Some ERC20_USDE_BLOCK),
     Chainlink CHAINLINK_FEED_DAI_USD [ERC20_USDS] 8 (Some ETHEREUM_START_BLOCK),
     Chainlink ETHEREUM_CHAINLINK_FEED_ETH_USD [ETHEREUM_ERC20_WETH] 8 (Some ETHEREUM_START_BLOCK),
     Stable ''stable-usd'' [ETHEREUM_ERC20_DAI, ETHEREUM_ERC20_FRAX, ETHEREUM_ERC20_LUSD, ETHEREUM_ERC20_USDC,
      ERC20_USDT, ERC20_USDE, ERC20_USDS] None,
     ETHEREUM_univ3WethOhm,
     ETHEREUM_univ3OhmSusds,
     Univ3 LP_UNISWAP_V3_WETH_WSTETH [ETHEREUM_ERC20_WETH, ERC20_WSTETH] (Some ETHEREUM_START_BLOCK),
     Univ3 LP_UNISWAP_V3_WEETH_WETH [ERC20_WEETH, ETHEREUM_ERC20_WETH] (Some ERC20_WEETH_BLOCK),
     Univ3 LP_UNISWAP_V3_FXS_ETH [ERC20_FXS, ETHEREUM_ERC20_WETH] (Some ERC20_FXS_BLOCK),
     Univ3 LP_UNISWAP_V3_LDO_WETH [ERC20_LDO, ETHEREUM_ERC20_WETH] (Some ETHEREUM_START_BLOCK),
     Univ3 LP_UNISWAP_V3_LQTY_WETH [ETHEREUM_ERC20_LQTY, ETHEREUM_ERC20_WETH] (Some ETHEREUM_START_BLOCK),
     Univ3 LP_UNISWAP_V3_WETH_BTRFLY_V1 [ETHEREUM_ERC20_WETH, ERC20_BTRFLY_V1] (Some ETHEREUM_START_BLOCK),
     Univ3 LP_UNISWAP_V3_WETH_BTRFLY_V2 [ETHEREUM_ERC20_WETH, ERC20_BTRFLY_V2] (Some ETHEREUM_START_BLOCK),
     Univ2 LP_UNISWAP_V2_CVX_CRV_ETH [ERC20_CVX_CRV, ETHEREUM_ERC20_WETH] (Some LP_UNISWAP_V2_CVX_CRV_ETH_BLOCK),
     Remap ERC20_BTRFLY_V1_STAKED [ERC20_BTRFLY_V1_STAKED] ERC20_BTRFLY_V1 None]"

definition ETHEREUM_liquidityHandlers_2 :: "liquidity_handler list" where
  "ETHEREUM_liquidityHandlers_2 = [
     Remap ERC20_BTRFLY_V2_RL [ERC20_BTRFLY_V2_RL] ERC20_BTRFLY_V2 None,
     Balancer LP_BALANCER_POOL_OHM_WETH ETHEREUM_BALANCER_VAULT [ERC20_OHM_V2,
      ETHEREUM_ERC20_WETH] (Some LP_BALANCER_OHM_WETH_BLOCK),
     Balancer LP_BALANCER_POOL_OHM_DAI ETHEREUM_BALANCER_VAULT [ERC20_OHM_V2,
      ETHEREUM_ERC20_DAI] (Some LP_BALANCER_OHM_DAI_BLOCK),
     Balancer LP_BALANCER_POOL_OHM_DAI_WETH ETHEREUM_BALANCER_VAULT [ERC20_OHM_V2, ETHEREUM_ERC20_DAI,
      ETHEREUM_ERC20_WETH] (Some LP_BALANCER_OHM_DAI_WETH_BLOCK),
     Balancer LP_BALANCER_POOL_OHM_WSTETH ETHEREUM_BALANCER_VAULT [ERC20_OHM_V2,
      ERC20_WSTETH] (Some LP_BALANCER_OHM_WSTETH_BLOCK),
     Remap AURA_VAULT_OHM_WETH [AURA_VAULT_OHM_WETH] BPT_OHM_WETH None,
     Remap AURA_VAULT_OHM_DAI [AURA_VAULT_OHM_DAI] BPT_OHM_DAI None,
     Remap AURA_VAULT_OHM_DAI_WETH [AURA_VAULT_OHM_DAI_WETH] BPT_OHM_DAI_WETH None,
     Remap AURA_VAULT_OHM_WSTETH [AURA_VAULT_OHM_WSTETH] BPT_OHM_WSTETH None,
     Remap CONVEX_REWARD_OHM_ETH [CONVEX_REWARD_OHM_ETH] LP_CURVE_OHM_ETH None,
     Remap CONVEX_REWARD_OHM_FRAXBP [CONVEX_REWARD_OHM_FRAXBP] LP_CURVE_OHM_FRAXBP None,
     Remap CONVEX_REWARD_FRAX_USDC [CONVEX_REWARD_FRAX_USDC] LP_CURVE_FRAX_USDC_LP None,
     Remap ERC20_FXS_VE [ERC20_FXS_VE] ERC20_FXS None,
     Erc4626 ERC20_SDAI [ERC20_SDAI] ETHEREUM_ERC20_DAI 18 18 (Some ERC20_SDAI_BLOCK),
     Erc4626 ERC20_SUSDE [ERC20_SUSDE, ERC20_AETH_SUSDE] ERC20_USDE 18 18 (Some ERC20_SUSDE_BLOCK),
     Erc4626 ERC20_SUSDS [ERC20_SUSDS] ERC20_USDS 18 18 (Some ERC20_SUSDS_BLOCK),
     Erc4626 ERC20_GAUNTLET_SUSDS_VAULT [ERC20_GAUNTLET_SUSDS_VAULT] ERC20_USDS 18 18 (Some ERC20_GAUNTLET_SUSDS_VAULT_BLOCK),
     Curve LP_CURVE_OHM_ETH [LP_CURVE_OHM_ETH] LP_CURVE_OHM_ETH CURVE_OHM_ETH_COINS [9,
      18] (Some LP_CURVE_OHM_ETH_BLOCK)]"

definition ETHEREUM_liquidityHandlers_3 :: "liquidity_handler list" where
  "ETHEREUM_liquidityHandlers_3 = [
     Curve LP_CURVE_OHM_FRAXBP [LP_CURVE_OHM_FRAXBP] LP_CURVE_OHM_FRAXBP CURVE_OHM_FRAXBP_COINS [9,
      18] (Some LP_CURVE_OHM_FRAXBP_BLOCK),
     Curve LP_CURVE_FRAX_USDC_POOL [LP_CURVE_FRAX_USDC_LP] LP_CURVE_FRAX_USDC_LP CURVE_FRAX_USDC_COINS [18,
      6] (Some LP_CURVE_FRAX_USDC_BLOCK),
     FraxSwap LP_FRAXSWAP_V1_OHM_FRAX [LP_FRAXSWAP_V1_OHM_FRAX] ERC20_OHM_V2 ETHEREUM_ERC20_FRAX 9 18 (Some LP_FRAXSWAP_V1_OHM_FRAX_BLOCK),
     FraxSwap LP_FRAXSWAP_V2_OHM_FRAX [LP_FRAXSWAP_V2_OHM_FRAX] ERC20_OHM_V2 ETHEREUM_ERC20_FRAX 9 18 (Some LP_FRAXSWAP_V2_OHM_FRAX_BLOCK),
     Remap ETHEREUM_NATIVE_ETH [ETHEREUM_NATIVE_ETH] ETHEREUM_ERC20_WETH None,
     Gohm ERC20_SOHM_V3 [ETHEREUM_ERC20_GOHM] ERC20_OHM_V2 (Some ERC20_SOHM_V3_BLOCK)]"

definition ETHEREUM_tokens_1 :: "token_definition list" where
  "ETHEREUM_tokens_1 = [
     token ETHEREUM_NATIVE_ETH ''Volatile'' True True None (Some NATIVE_ETH_BLOCK) (Some 18) None None,
     token ETHEREUM_ERC20_DAI ''Stable'' True False None (Some ETHEREUM_START_BLOCK) (Some 18) None None,
     token ETHEREUM_ERC20_FRAX ''Stable'' True False None (Some ETHEREUM_START_BLOCK) (Some 18) None None,
     token ETHEREUM_ERC20_LUSD ''Stable'' True False None (Some ETHEREUM_START_BLOCK) (Some 18) None None,
     token ETHEREUM_ERC20_USDC ''Stable'' True False None (Some ETHEREUM_START_BLOCK) (Some 6) None None,
     token ERC20_USDT ''Stable'' True False None (Some ETHEREUM_START_BLOCK) (Some 6) None None,
     token ERC20_USDE ''Stable'' True False None (Some ERC20_USDE_BLOCK) (Some 18) None None,
     token ERC20_USDS ''Stable'' True False None (Some ETHEREUM_START_BLOCK) (Some 18) None None,
     token ERC20_ADAI ''Stable'' True False None (Some ETHEREUM_START_BLOCK) (Some 18) None (Some True),
     token ERC20_AETH_USDE ''Stable'' True False None (Some ERC20_AAVE_V3_BLOCK) (Some 18) None (Some True),
     token ERC20_AETH_SUSDE ''Stable'' True False None (Some ERC20_AAVE_V3_BLOCK) (Some 18) None (Some True),
     token ERC20_VAR_DEBT_ETH_USDC ''Stable'' True False None (Some ERC20_AAVE_V3_BLOCK) (Some 6) (Some True) (Some True),
     token ERC20_VAR_DEBT_ETH_USDT ''Stable'' True False None (Some ERC20_AAVE_V3_BLOCK) (Some 6) (Some True) (Some True)]"

definition ETHEREUM_tokens_2 :: "token_definition list" where
  "ETHEREUM_tokens_2 = [
     token ERC20_SDAI ''Stable'' True False None (Some ERC20_SDAI_BLOCK) (Some 18) None None,
     token ERC20_SUSDE ''Stable'' True False None (Some ERC20_SUSDE_BLOCK) (Some 18) None None,
     token ERC20_SUSDS ''Stable'' True False None (Some ERC20_SUSDS_BLOCK) (Some 18) None None,
     token ERC20_GAUNTLET_SUSDS_VAULT ''Stable'' True False None (Some ERC20_GAUNTLET_SUSDS_VAULT_BLOCK) (Some 18) None None,
     token CONVEX_REWARD_OHM_ETH ''POL'' False False None (Some LP_CURVE_OHM_ETH_BLOCK) (Some 18) None None,
     token CONVEX_REWARD_OHM_FRAXBP ''POL'' False False None (Some LP_CURVE_OHM_FRAXBP_BLOCK) (Some 18) None None,
     token CONVEX_REWARD_FRAX_USDC ''POL'' False False None (Some LP_CURVE_FRAX_USDC_BLOCK) (Some 18) None None,
     token AURA_VAULT_OHM_WETH ''POL'' False False None (Some LP_BALANCER_OHM_WETH_BLOCK) (Some 18) None None,
     token AURA_VAULT_OHM_DAI ''POL'' False False None (Some LP_BALANCER_OHM_DAI_BLOCK) (Some 18) None None,
     token AURA_VAULT_OHM_DAI_WETH ''POL'' False False None (Some LP_BALANCER_OHM_DAI_WETH_BLOCK) (Some 18) None None,
     token AURA_VAULT_OHM_WSTETH ''POL'' False False None (Some LP_BALANCER_OHM_WSTETH_BLOCK) (Some 18) None None,
     token ETHEREUM_ERC20_WETH ''Volatile'' True True None (Some ETHEREUM_START_BLOCK) (Some 18) None None,
     token ERC20_WSTETH ''Volatile'' True True None (Some ETHEREUM_START_BLOCK) (Some 18) None None,
     token ERC20_WEETH ''Volatile'' True True None (Some ERC20_WEETH_BLOCK) (Some 18) None None,
     token ERC20_FXS ''Volatile'' True False None (Some ERC20_FXS_BLOCK) (Some 18) None None]"

definition ETHEREUM_tokens_3 :: "token_definition list" where
  "ETHEREUM_tokens_3 = [
     token ERC20_FXS_VE ''Volatile'' False False None (Some ERC20_FXS_VE_BLOCK) (Some 18) None (Some True),
     token ERC20_CVX_CRV ''Volatile'' True False None (Some ERC20_CVX_CRV_BLOCK) (Some 18) None None,
     token ERC20_LDO ''Volatile'' True False None (Some ETHEREUM_START_BLOCK) (Some 18) None None,
     token ETHEREUM_ERC20_LQTY ''Volatile'' True False None (Some ETHEREUM_START_BLOCK) (Some 18) None None,
     token ERC20_BTRFLY_V1 ''Volatile'' True False None (Some ETHEREUM_START_BLOCK) (Some 9) None None,
     token ERC20_BTRFLY_V1_STAKED ''Volatile'' True False None (Some ETHEREUM_START_BLOCK) (Some 9) None (Some True),
     token ERC20_BTRFLY_V2 ''Volatile'' True False None (Some ETHEREUM_START_BLOCK) (Some 18) None None,
     token ERC20_BTRFLY_V2_RL ''Volatile'' False False (Some (89 / 100)) (Some ETHEREUM_START_BLOCK) (Some 18) None None,
     token ERC20_OHM_V1 ''Volatile'' True False (Some 0) (Some ETHEREUM_START_BLOCK) (Some 9) None None,
     token ERC20_OHM_V2 ''Volatile'' True False (Some 0) (Some ERC20_OHM_V2_BLOCK) (Some 9) None None,
     token ETHEREUM_ERC20_GOHM ''Volatile'' True False (Some 0) (Some ETHEREUM_START_BLOCK) (Some 18) None None]"

definition ETHEREUM :: "chain_config" where
  "ETHEREUM = \<lparr>
     cc_chainId = 1,
     cc_blockchain = ''Ethereum'',
     cc_startBlock = ETHEREUM_START_BLOCK,
     cc_tokens = (ETHEREUM_tokens_1 @ ETHEREUM_tokens_2 @ ETHEREUM_tokens_3),
     cc_names = ETHEREUM_names,
     cc_abbreviations = ETHEREUM_abbreviations,
     cc_protocolAddresses = ETHEREUM_PROTOCOL_ADDRESSES,
     cc_circulatingSupplyWallets = ETHEREUM_PROTOCOL_ADDRESSES,
     cc_treasuryBlacklist = (object_literal [(ERC20_OHM_V1, ETHEREUM_PROTOCOL_ADDRESSES), (ERC20_OHM_V2,
      ETHEREUM_PROTOCOL_ADDRESSES), (ETHEREUM_ERC20_GOHM, ETHEREUM_PROTOCOL_ADDRESSES)]),
     cc_basePriceFeeds = Map.empty,
     cc_ohmToken = ERC20_OHM_V2,
     cc_ohmStartBlock = (Some ERC20_OHM_V2_BLOCK),
     cc_nativeToken = (Some ETHEREUM_NATIVE_ETH),
     cc_coolerClearinghouses = (Some ETHEREUM_coolerClearinghouses),
     cc_blvRegistry = (Some \<lparr> lc_address = addr ''0x375E06C694B5E50aF8be8FB03495A612eA3e2275'',
      lc_startBlock = 17620000 \<rparr>),
     cc_bondManager = (Some \<lparr> lc_address = addr ''0xf577c77ee3578c7f216327f41b5d7221ead2b2a3'',
      lc_startBlock = 16226955 \<rparr>),
     cc_migrationOffset = (Some \<lparr> mo_migrationContract = addr ''0x184f3fad8618a6f458c16bae63f70c426fe784b3'', mo_sOhmAddress = ERC20_SOHM_V3,
       mo_offsetOhm = 2013, mo_startBlock = 14381564, mo_endBlock = 24550660 \<rparr>),
     cc_treasuryOhmEquivalents = (Some [\<lparr> oe_tokenAddress = ETHEREUM_ERC20_GOHM, oe_decimals = 18,
      oe_startBlock = ERC20_GOHM_TREASURY_START_BLOCK, oe_convertVia = Gohm_Index \<rparr>,
       \<lparr> oe_tokenAddress = ERC20_SOHM_V3, oe_decimals = 9,
      oe_startBlock = ERC20_GOHM_TREASURY_START_BLOCK, oe_convertVia = Direct \<rparr>,
       \<lparr> oe_tokenAddress = ERC20_SOHM_V2, oe_decimals = 9,
      oe_startBlock = ERC20_SOHM_V2_TREASURY_START_BLOCK, oe_convertVia = Direct \<rparr>]),
     cc_stakingContracts = (Some \<lparr> sc_v1 = addr ''0x0822f3c03dcc24d200aff33493dc08d0e1f274a2'',
       sc_v2 = addr ''0xfd31c7d00ca47653c6ce64af53c1571f9c36566a'',
       sc_v2StartBlock = 12622679,
       sc_v3 = addr ''0xB63cac384247597756545b500253ff8E607a8020'',
       sc_v3StartBlock = 13804019 \<rparr>),
     cc_univ3PositionManager = (Some \<lparr> lc_address = addr ''0xC36442b4a4522E871399CD717aBDD847Ab11FE88'',
      lc_startBlock = ERC20_OHM_V2_BLOCK \<rparr>),
     cc_liquidityHandlers = (ETHEREUM_liquidityHandlers_1 @ ETHEREUM_liquidityHandlers_2 @ ETHEREUM_liquidityHandlers_3),
     cc_ownedLiquidityHandlers = ETHEREUM_ownedLiquidityHandlers \<rparr>"

lemmas ETHEREUM_defs = WALLET_ADDRESSES_def CURVE_OHM_ETH_COINS_def CURVE_OHM_FRAXBP_COINS_def CURVE_FRAX_USDC_COINS_def ETHEREUM_PROTOCOL_ADDRESSES_def ETHEREUM_names_def ETHEREUM_abbreviations_def ETHEREUM_univ3WethOhm_def ETHEREUM_univ3OhmSusds_def ETHEREUM_ownedLiquidityHandlers_def ETHEREUM_coolerClearinghouses_def ETHEREUM_liquidityHandlers_1_def ETHEREUM_liquidityHandlers_2_def ETHEREUM_liquidityHandlers_3_def ETHEREUM_tokens_1_def ETHEREUM_tokens_2_def ETHEREUM_tokens_3_def ETHEREUM_def

end
