(* ===== verification/Chain_Arbitrum.thy ===== *)
theory Chain_Arbitrum
  imports Snapshot_Protocols
begin

text \<open>
  The configuration of Arbitrum (\<open>snapshot/chains/arbitrum.ts\<close>): constants, handlers,
      tokens. Constants that are
  addresses or blocks are abbreviations; a name that another chain's file uses too carries the
  chain in front. The RPC endpoints belong to the transport (\<open>rpcUrls\<close> in \<open>Rpc\<close>).
\<close>

abbreviation CROSS_CHAIN_ARBITRUM :: string where
  "CROSS_CHAIN_ARBITRUM \<equiv> addr ''0x012BBf0481b97170577745D2167ee14f63E2aD4C''"
abbreviation JONES_STAKING :: string where
  "JONES_STAKING \<equiv> addr ''0xb94d1959084081c5a11C460012Ab522F5a0FD756''"
abbreviation TREASURE_ATLAS_MINE :: string where
  "TREASURE_ATLAS_MINE \<equiv> addr ''0xa0a89db1c899c49f98e6326b764bafcf167fc2ce''"
abbreviation ERC20_ARB :: string where
  "ERC20_ARB \<equiv> addr ''0x912ce59144191c1204e64559fe8253a0e49e6548''"
abbreviation ARBITRUM_ERC20_FRAX :: string where
  "ARBITRUM_ERC20_FRAX \<equiv> addr ''0x17FC002b466eEc40DaE837Fc4bE5c67993ddBd6F''"
abbreviation ARBITRUM_ERC20_OHM :: string where
  "ARBITRUM_ERC20_OHM \<equiv> addr ''0xf0cb2dc0db5e6c66B9a70Ac27B06b878da017028''"
abbreviation ERC20_GOHM_SYNAPSE :: string where
  "ERC20_GOHM_SYNAPSE \<equiv> addr ''0x8D9bA570D6cb60C7e3e0F31343Efe75AB8E65FB1''"
abbreviation ERC20_JONES :: string where
  "ERC20_JONES \<equiv> addr ''0x10393c20975cf177a3513071bc110f7962cd67da''"
abbreviation ARBITRUM_ERC20_LQTY :: string where
  "ARBITRUM_ERC20_LQTY \<equiv> addr ''0xfb9E5D956D889D91a82737B9bFCDaC1DCE3e1449''"
abbreviation ARBITRUM_ERC20_LUSD :: string where
  "ARBITRUM_ERC20_LUSD \<equiv> addr ''0x93b346b6bc2548da6a1e7d98e9a421b42541425b''"
abbreviation ERC20_MAGIC :: string where
  "ERC20_MAGIC \<equiv> addr ''0x539bde0d7dbd336b79148aa742883198bbf60342''"
abbreviation ARBITRUM_ERC20_USDC :: string where
  "ARBITRUM_ERC20_USDC \<equiv> addr ''0xff970a61a04b1ca14834a43f5de4533ebddb5cc8''"
abbreviation ERC20_VSTA :: string where
  "ERC20_VSTA \<equiv> addr ''0xa684cd057951541187f288294a1e1c2646aa2d24''"
abbreviation ARBITRUM_ERC20_WETH :: string where
  "ARBITRUM_ERC20_WETH \<equiv> addr ''0x82aF49447D8a07e3bd95BD0d56f35241523fBab1''"
abbreviation ARBITRUM_BALANCER_VAULT :: string where
  "ARBITRUM_BALANCER_VAULT \<equiv> addr ''0xBA12222222228d8Ba445958a75a0704d566BF2C8''"
abbreviation LP_BALANCER_POOL_WETH_VESTA :: string where
  "LP_BALANCER_POOL_WETH_VESTA \<equiv> projr (bytes32 ''0xc61ff48f94d801c1ceface0289085197b5ec44f000020000000000000000004d'')"
abbreviation LP_BALANCER_POOL_WETH_OHM :: string where
  "LP_BALANCER_POOL_WETH_OHM \<equiv> projr (bytes32 ''0x89dc7e71e362faf88d92288fe2311d25c6a1b5e0000200000000000000000423'')"
abbreviation LP_BALANCER_POOL_OHM_USDC :: string where
  "LP_BALANCER_POOL_OHM_USDC \<equiv> projr (bytes32 ''0xce6195089b302633ed60f3f427d1380f6a2bfbc7000200000000000000000424'')"
abbreviation LP_UNISWAP_V2_GOHM_WETH :: string where
  "LP_UNISWAP_V2_GOHM_WETH \<equiv> addr ''0xaa5bd49f2162ffdc15634c87a77ac67bd51c6a6d''"
abbreviation LP_UNISWAP_V2_JONES_WETH :: string where
  "LP_UNISWAP_V2_JONES_WETH \<equiv> addr ''0xe8ee01ae5959d3231506fcdef2d5f3e85987a39c''"
abbreviation LP_UNISWAP_V2_LQTY_WETH :: string where
  "LP_UNISWAP_V2_LQTY_WETH \<equiv> addr ''0x8e78f0f6d116f94252d3bcd73d8ade63d415c1bf''"
abbreviation LP_UNISWAP_V2_MAGIC_WETH :: string where
  "LP_UNISWAP_V2_MAGIC_WETH \<equiv> addr ''0xb7e50106a5bd3cf21af210a755f9c8740890a8c9''"
abbreviation LP_CAMELOT_OHM_WETH :: string where
  "LP_CAMELOT_OHM_WETH \<equiv> addr ''0x8aCd42e4B5A5750B44A28C5fb50906eBfF145359''"
abbreviation LP_UNISWAP_V3_ARB_WETH :: string where
  "LP_UNISWAP_V3_ARB_WETH \<equiv> addr ''0xc6f780497a95e246eb9449f5e4770916dcd6396a''"
abbreviation LP_UNISWAP_V3_WETH_USDC :: string where
  "LP_UNISWAP_V3_WETH_USDC \<equiv> addr ''0xc31e54c7a869b9fcbecc14363cf510d1c41fa443''"
abbreviation ARBITRUM_CHAINLINK_FEED_ETH_USD :: string where
  "ARBITRUM_CHAINLINK_FEED_ETH_USD \<equiv> addr ''0x639Fe6ab55C921f74e7fac1ee960C0B6293ba612''"
abbreviation ARBITRUM_NATIVE_ETH :: string where
  "ARBITRUM_NATIVE_ETH \<equiv> ''0x0000000000000000000000000000000000000000''"
abbreviation ARBITRUM_START_BLOCK :: nat where "ARBITRUM_START_BLOCK \<equiv> 10950000"
abbreviation ARB_CREATION_BLOCK :: nat where "ARB_CREATION_BLOCK \<equiv> 70398215"
abbreviation FRAX_CREATION_BLOCK :: nat where "FRAX_CREATION_BLOCK \<equiv> 1693791"
abbreviation OHM_CREATION_BLOCK :: nat where "OHM_CREATION_BLOCK \<equiv> 85886493"
abbreviation JONES_CREATION_BLOCK :: nat where "JONES_CREATION_BLOCK \<equiv> 4936079"
abbreviation LQTY_CREATION_BLOCK :: nat where "LQTY_CREATION_BLOCK \<equiv> 68940603"
abbreviation LUSD_CREATION_BLOCK :: nat where "LUSD_CREATION_BLOCK \<equiv> 20063879"
abbreviation MAGIC_CREATION_BLOCK :: nat where "MAGIC_CREATION_BLOCK \<equiv> 2028077"
abbreviation USDC_CREATION_BLOCK :: nat where "USDC_CREATION_BLOCK \<equiv> 2609"
abbreviation VSTA_CREATION_BLOCK :: nat where "VSTA_CREATION_BLOCK \<equiv> 5160918"
abbreviation WETH_CREATION_BLOCK :: nat where "WETH_CREATION_BLOCK \<equiv> 55"
abbreviation LP_BALANCER_WETH_VSTA_CREATION_BLOCK :: nat where "LP_BALANCER_WETH_VSTA_CREATION_BLOCK \<equiv> 5671673"
abbreviation LP_BALANCER_WETH_OHM_CREATION_BLOCK :: nat where "LP_BALANCER_WETH_OHM_CREATION_BLOCK \<equiv> 87570545"
abbreviation LP_BALANCER_OHM_USDC_CREATION_BLOCK :: nat where "LP_BALANCER_OHM_USDC_CREATION_BLOCK \<equiv> 87572753"
abbreviation LP_UNISWAP_V2_JONES_WETH_CREATION_BLOCK :: nat where "LP_UNISWAP_V2_JONES_WETH_CREATION_BLOCK \<equiv> 5236927"
abbreviation LP_UNISWAP_V2_LQTY_WETH_CREATION_BLOCK :: nat where "LP_UNISWAP_V2_LQTY_WETH_CREATION_BLOCK \<equiv> 70190173"
abbreviation LP_UNISWAP_V2_MAGIC_WETH_CREATION_BLOCK :: nat where "LP_UNISWAP_V2_MAGIC_WETH_CREATION_BLOCK \<equiv> 2260276"
abbreviation LP_CAMELOT_OHM_WETH_CREATION_BLOCK :: nat where "LP_CAMELOT_OHM_WETH_CREATION_BLOCK \<equiv> 209392712"
abbreviation LP_UNISWAP_V3_ARB_WETH_CREATION_BLOCK :: nat where "LP_UNISWAP_V3_ARB_WETH_CREATION_BLOCK \<equiv> 73240629"
abbreviation JONES_STAKING_CREATION_BLOCK :: nat where "JONES_STAKING_CREATION_BLOCK \<equiv> 11264445"
definition ARBITRUM_PROTOCOL_ADDRESSES :: "string list" where
  "ARBITRUM_PROTOCOL_ADDRESSES = [CROSS_CHAIN_ARBITRUM]"

definition ARBITRUM_names :: "string \<rightharpoonup> string" where
  "ARBITRUM_names = object_literal [
     (CROSS_CHAIN_ARBITRUM, ''Cross-Chain Arbitrum''),
     (ERC20_ARB, ''Arbitrum''),
     (ARBITRUM_ERC20_FRAX, ''FRAX''),
     (ERC20_GOHM_SYNAPSE, ''Governance OHM (Synapse)''),
     (ERC20_JONES, ''JonesDAO''),
     (ARBITRUM_ERC20_LQTY, ''Liquity''),
     (ARBITRUM_ERC20_LUSD, ''Liquity USD''),
     (ERC20_MAGIC, ''TreasureDAO''),
     (ARBITRUM_ERC20_OHM, ''OHM''),
     (ARBITRUM_ERC20_USDC, ''USDC''),
     (ERC20_VSTA, ''Vesta''),
     (ARBITRUM_NATIVE_ETH, ''ETH''),
     (ARBITRUM_ERC20_WETH, ''Wrapped ETH''),
     (OLYMPUS_LENDER, ''Olympus Lender''),
     (SENTIMENT_LTOKEN, ''Sentiment Finance''),
     (SILO_COLLATERAL, ''Silo OHM Collateral''),
     (TREASURE_ATLAS_MINE, ''TreasureDAO Atlas Mine''),
     (LP_BALANCER_POOL_WETH_VESTA, ''Balancer wETH-VSTA Liquidity Pool''),
     (LP_BALANCER_POOL_WETH_OHM, ''Balancer wETH-OHM Liquidity Pool''),
     (LP_BALANCER_POOL_OHM_USDC, ''Balancer OHM-USDC Liquidity Pool''),
     (LP_UNISWAP_V2_GOHM_WETH, ''UniswapV2 gOHM-wETH Liquidity Pool''),
     (LP_UNISWAP_V2_JONES_WETH, ''UniswapV2 JONES-wETH Liquidity Pool''),
     (LP_UNISWAP_V2_LQTY_WETH, ''Ramses LQTY-wETH Liquidity Pool''),
     (LP_UNISWAP_V2_MAGIC_WETH, ''UniswapV2 MAGIC-wETH Liquidity Pool''),
     (LP_CAMELOT_OHM_WETH, ''Camelot OHM-wETH Liquidity Pool''),
     (LP_UNISWAP_V3_ARB_WETH, ''UniswapV3 ARB-wETH Liquidity Pool''),
     (LP_UNISWAP_V3_WETH_USDC, ''UniswapV3 wETH-USDC Liquidity Pool'')]"

definition ARBITRUM_liquidityHandlers :: "liquidity_handler list" where
  "ARBITRUM_liquidityHandlers = [
     Balancer LP_BALANCER_POOL_WETH_VESTA ARBITRUM_BALANCER_VAULT [ARBITRUM_ERC20_WETH,
      ERC20_VSTA] (Some LP_BALANCER_WETH_VSTA_CREATION_BLOCK),
     Balancer LP_BALANCER_POOL_WETH_OHM ARBITRUM_BALANCER_VAULT [ARBITRUM_ERC20_WETH,
      ARBITRUM_ERC20_OHM] (Some LP_BALANCER_WETH_OHM_CREATION_BLOCK),
     Balancer LP_BALANCER_POOL_OHM_USDC ARBITRUM_BALANCER_VAULT [ARBITRUM_ERC20_OHM,
      ARBITRUM_ERC20_USDC] (Some LP_BALANCER_OHM_USDC_CREATION_BLOCK),
     Stable ''stable-usd'' [ARBITRUM_ERC20_FRAX, ARBITRUM_ERC20_USDC, ARBITRUM_ERC20_LUSD] None,
     Chainlink ARBITRUM_CHAINLINK_FEED_ETH_USD [ARBITRUM_ERC20_WETH] 8 (Some ARBITRUM_START_BLOCK),
     Univ2 LP_UNISWAP_V2_GOHM_WETH [ERC20_GOHM_SYNAPSE, ARBITRUM_ERC20_WETH] (Some ARBITRUM_START_BLOCK),
     Univ2 LP_UNISWAP_V2_JONES_WETH [ERC20_JONES, ARBITRUM_ERC20_WETH] (Some LP_UNISWAP_V2_JONES_WETH_CREATION_BLOCK),
     Univ2 LP_UNISWAP_V2_LQTY_WETH [ARBITRUM_ERC20_LQTY,
      ARBITRUM_ERC20_WETH] (Some LP_UNISWAP_V2_LQTY_WETH_CREATION_BLOCK),
     Univ2 LP_UNISWAP_V2_MAGIC_WETH [ERC20_MAGIC, ARBITRUM_ERC20_WETH] (Some LP_UNISWAP_V2_MAGIC_WETH_CREATION_BLOCK),
     Univ2 LP_CAMELOT_OHM_WETH [ARBITRUM_ERC20_OHM, ARBITRUM_ERC20_WETH] (Some LP_CAMELOT_OHM_WETH_CREATION_BLOCK),
     Univ3 LP_UNISWAP_V3_WETH_USDC [ARBITRUM_ERC20_USDC, ARBITRUM_ERC20_WETH] (Some ARBITRUM_START_BLOCK),
     Univ3 LP_UNISWAP_V3_ARB_WETH [ERC20_ARB, ARBITRUM_ERC20_WETH] (Some LP_UNISWAP_V3_ARB_WETH_CREATION_BLOCK),
     Remap ARBITRUM_NATIVE_ETH [ARBITRUM_NATIVE_ETH] ARBITRUM_ERC20_WETH None]"

definition ARBITRUM_tokens_1 :: "token_definition list" where
  "ARBITRUM_tokens_1 = [
     token ARBITRUM_NATIVE_ETH ''Volatile'' True True None (Some ARBITRUM_START_BLOCK) (Some 18) None None,
     token ERC20_ARB ''Volatile'' True False None (Some ARB_CREATION_BLOCK) (Some 18) None None,
     token ARBITRUM_ERC20_FRAX ''Stable'' True False None (Some FRAX_CREATION_BLOCK) (Some 18) None None,
     token ERC20_JONES ''Volatile'' True False (Some (83 / 100)) (Some JONES_CREATION_BLOCK) (Some 18) None None,
     token ARBITRUM_ERC20_LQTY ''Volatile'' True False None (Some LQTY_CREATION_BLOCK) (Some 18) None None,
     token ARBITRUM_ERC20_LUSD ''Stable'' True False None (Some LUSD_CREATION_BLOCK) (Some 18) None None,
     token ERC20_MAGIC ''Volatile'' True False None (Some MAGIC_CREATION_BLOCK) (Some 18) None None,
     token ARBITRUM_ERC20_USDC ''Stable'' True False None (Some USDC_CREATION_BLOCK) (Some 6) None None,
     token ERC20_VSTA ''Volatile'' True False (Some (77 / 100)) (Some VSTA_CREATION_BLOCK) (Some 18) None None,
     token ARBITRUM_ERC20_WETH ''Volatile'' True True None (Some WETH_CREATION_BLOCK) (Some 18) None None,
     token ARBITRUM_ERC20_OHM ''Volatile'' True False (Some 0) (Some OHM_CREATION_BLOCK) (Some 9) None None,
     token ERC20_GOHM_SYNAPSE ''Volatile'' True False (Some 0) None (Some 18) None None,
     token LP_BALANCER_POOL_WETH_VESTA ''Protocol-Owned Liquidity'' True False None (Some LP_BALANCER_WETH_VSTA_CREATION_BLOCK) (Some 18) None None,
     token LP_BALANCER_POOL_WETH_OHM ''Protocol-Owned Liquidity'' True False None (Some LP_BALANCER_WETH_OHM_CREATION_BLOCK) (Some 18) None None,
     token LP_BALANCER_POOL_OHM_USDC ''Protocol-Owned Liquidity'' True False None (Some LP_BALANCER_OHM_USDC_CREATION_BLOCK) (Some 18) None None]"

definition ARBITRUM_tokens_2 :: "token_definition list" where
  "ARBITRUM_tokens_2 = [
     token LP_UNISWAP_V2_GOHM_WETH ''Protocol-Owned Liquidity'' True False None (Some ARBITRUM_START_BLOCK) (Some 18) None None,
     token LP_UNISWAP_V2_JONES_WETH ''Protocol-Owned Liquidity'' True False None (Some LP_UNISWAP_V2_JONES_WETH_CREATION_BLOCK) (Some 18) None None,
     token LP_UNISWAP_V2_MAGIC_WETH ''Protocol-Owned Liquidity'' True False None (Some LP_UNISWAP_V2_MAGIC_WETH_CREATION_BLOCK) (Some 18) None None,
     token LP_CAMELOT_OHM_WETH ''Protocol-Owned Liquidity'' True False None (Some LP_CAMELOT_OHM_WETH_CREATION_BLOCK) (Some 18) None None,
     token LP_UNISWAP_V3_ARB_WETH ''Protocol-Owned Liquidity'' True False None (Some LP_UNISWAP_V3_ARB_WETH_CREATION_BLOCK) (Some 18) None None,
     token LP_UNISWAP_V3_WETH_USDC ''Protocol-Owned Liquidity'' True False None (Some ARBITRUM_START_BLOCK) (Some 18) None None]"

definition ARBITRUM_abbreviations :: "string \<rightharpoonup> string" where
  "ARBITRUM_abbreviations = object_literal [
     (ERC20_ARB, ''ARB''),
     (ERC20_JONES, ''JONES''),
     (ARBITRUM_ERC20_LQTY, ''LQTY''),
     (ARBITRUM_ERC20_LUSD, ''LUSD''),
     (ERC20_MAGIC, ''MAGIC''),
     (ERC20_VSTA, ''VSTA''),
     (ARBITRUM_NATIVE_ETH, ''ETH''),
     (ARBITRUM_ERC20_WETH, ''wETH''),
     (ERC20_GOHM_SYNAPSE, ''gOHM'')]"

definition ARBITRUM :: "chain_config" where
  "ARBITRUM = \<lparr>
     cc_chainId = 42161,
     cc_blockchain = ''Arbitrum'',
     cc_startBlock = ARBITRUM_START_BLOCK,
     cc_tokens = (ARBITRUM_tokens_1 @ ARBITRUM_tokens_2),
     cc_names = ARBITRUM_names,
     cc_abbreviations = ARBITRUM_abbreviations,
     cc_protocolAddresses = ARBITRUM_PROTOCOL_ADDRESSES,
     cc_circulatingSupplyWallets = [CROSS_CHAIN_ARBITRUM],
     cc_treasuryBlacklist = (object_literal [(ARBITRUM_ERC20_OHM, ARBITRUM_PROTOCOL_ADDRESSES),
      (ERC20_GOHM_SYNAPSE, ARBITRUM_PROTOCOL_ADDRESSES)]),
     cc_basePriceFeeds = Map.empty,
     cc_ohmToken = ARBITRUM_ERC20_OHM,
     cc_ohmStartBlock = (Some OHM_CREATION_BLOCK),
     cc_nativeToken = (Some ARBITRUM_NATIVE_ETH),
     cc_coolerClearinghouses = None,
     cc_blvRegistry = None,
     cc_bondManager = None,
     cc_migrationOffset = None,
     cc_treasuryOhmEquivalents = None,
     cc_stakingContracts = None,
     cc_univ3PositionManager = None,
     cc_liquidityHandlers = ARBITRUM_liquidityHandlers,
     cc_ownedLiquidityHandlers = ARBITRUM_liquidityHandlers \<rparr>"

lemmas ARBITRUM_defs = ARBITRUM_PROTOCOL_ADDRESSES_def ARBITRUM_names_def ARBITRUM_liquidityHandlers_def ARBITRUM_tokens_1_def ARBITRUM_tokens_2_def ARBITRUM_abbreviations_def ARBITRUM_def

end
