(* ===== verification/Chain_Base.thy ===== *)
theory Chain_Base
  imports Types
begin

text \<open>
  The configuration of Base (\<open>snapshot/chains/base.ts\<close>): constants, handlers, tokens. Constants that are
  addresses or blocks are abbreviations; a name that another chain's file uses too carries the
  chain in front. The RPC endpoints belong to the transport (\<open>rpcUrls\<close> in \<open>Rpc\<close>).
\<close>

abbreviation BASE_ERC20_OHM :: string where
  "BASE_ERC20_OHM \<equiv> addr ''0x060cb087a9730e13aa191f31a6d86bff8dfcdcc0''"
abbreviation BASE_ERC20_USDC :: string where
  "BASE_ERC20_USDC \<equiv> addr ''0x833589fcd6edb6e08f4c7c32d4f71b54bda02913''"
abbreviation BASE_ERC20_WETH :: string where
  "BASE_ERC20_WETH \<equiv> addr ''0x4200000000000000000000000000000000000006''"
abbreviation LP_UNISWAP_V2_OHM_WETH :: string where
  "LP_UNISWAP_V2_OHM_WETH \<equiv> addr ''0x5ab4b9e96aeed4820e4be267f42411d722985482''"
abbreviation LP_UNISWAP_V3_OHM_USDC :: string where
  "LP_UNISWAP_V3_OHM_USDC \<equiv> addr ''0x183ea22691c54806fe96555436dd312b6befac2f''"
abbreviation BASE_CHAINLINK_FEED_ETH_USD :: string where
  "BASE_CHAINLINK_FEED_ETH_USD \<equiv> addr ''0x71041dddad3595f9ced3dccfbe3d1f4b0a16bb70''"
abbreviation BASE_CHAINLINK_FEED_USDC_USD :: string where
  "BASE_CHAINLINK_FEED_USDC_USD \<equiv> addr ''0x7e860098f58bbfc8648a4311b374b1d669a2bc6b''"
abbreviation BASE_NATIVE_ETH :: string where
  "BASE_NATIVE_ETH \<equiv> ''0x0000000000000000000000000000000000000000''"
abbreviation BASE_DAO_MULTISIG :: string where
  "BASE_DAO_MULTISIG \<equiv> addr ''0x18a390bd45bcc92652b9a91ad51aed7f1c1358f5''"
abbreviation BASE_START_BLOCK :: nat where "BASE_START_BLOCK \<equiv> 13204827"
definition BASE_PROTOCOL_ADDRESSES :: "string list" where
  "BASE_PROTOCOL_ADDRESSES = [BASE_DAO_MULTISIG]"

definition BASE_names :: "string \<rightharpoonup> string" where
  "BASE_names = object_literal [
     (BASE_DAO_MULTISIG, ''DAO MS (Base)''),
     (BASE_ERC20_OHM, ''OHM''),
     (BASE_ERC20_USDC, ''USDC''),
     (BASE_NATIVE_ETH, ''ETH''),
     (BASE_ERC20_WETH, ''Wrapped ETH''),
     (LP_UNISWAP_V2_OHM_WETH, ''UniswapV2 OHM-WETH Liquidity Pool''),
     (LP_UNISWAP_V3_OHM_USDC, ''UniswapV3 OHM-USDC Liquidity Pool'')]"

definition BASE_univ2OhmWeth :: "liquidity_handler" where
  "BASE_univ2OhmWeth = Univ2 LP_UNISWAP_V2_OHM_WETH [BASE_ERC20_OHM, BASE_ERC20_WETH] (Some BASE_START_BLOCK)"

definition BASE_univ3OhmUsdc :: "liquidity_handler" where
  "BASE_univ3OhmUsdc = Univ3 LP_UNISWAP_V3_OHM_USDC [BASE_ERC20_OHM, BASE_ERC20_USDC] (Some BASE_START_BLOCK)"

definition BASE_ownedLiquidityHandlers :: "liquidity_handler list" where
  "BASE_ownedLiquidityHandlers = [
     BASE_univ2OhmWeth,
     BASE_univ3OhmUsdc]"

definition BASE_liquidityHandlers :: "liquidity_handler list" where
  "BASE_liquidityHandlers = [
     Chainlink BASE_CHAINLINK_FEED_ETH_USD [BASE_ERC20_WETH] 8 (Some BASE_START_BLOCK),
     Chainlink BASE_CHAINLINK_FEED_USDC_USD [BASE_ERC20_USDC] 8 (Some BASE_START_BLOCK),
     Stable ''stable-usd'' [BASE_ERC20_USDC] None,
     BASE_univ2OhmWeth,
     BASE_univ3OhmUsdc,
     Remap BASE_NATIVE_ETH [BASE_NATIVE_ETH] BASE_ERC20_WETH None]"

definition BASE_tokens :: "token_definition list" where
  "BASE_tokens = [
     token BASE_NATIVE_ETH ''Volatile'' True True None (Some BASE_START_BLOCK) (Some 18) None None,
     token BASE_ERC20_USDC ''Stable'' True False None (Some BASE_START_BLOCK) (Some 6) None None,
     token BASE_ERC20_WETH ''Volatile'' True True None (Some BASE_START_BLOCK) (Some 18) None None,
     token BASE_ERC20_OHM ''Volatile'' True False (Some 0) (Some BASE_START_BLOCK) (Some 9) None None,
     token LP_UNISWAP_V2_OHM_WETH ''Protocol-Owned Liquidity'' True False None (Some BASE_START_BLOCK) (Some 18) None None,
     token LP_UNISWAP_V3_OHM_USDC ''Protocol-Owned Liquidity'' True False None (Some BASE_START_BLOCK) (Some 18) None None]"

definition BASE :: "chain_config" where
  "BASE = \<lparr>
     cc_chainId = 8453,
     cc_blockchain = ''Base'',
     cc_startBlock = BASE_START_BLOCK,
     cc_tokens = BASE_tokens,
     cc_names = BASE_names,
     cc_abbreviations = Map.empty,
     cc_protocolAddresses = BASE_PROTOCOL_ADDRESSES,
     cc_circulatingSupplyWallets = BASE_PROTOCOL_ADDRESSES,
     cc_treasuryBlacklist = (object_literal [(BASE_ERC20_OHM, [BASE_DAO_MULTISIG])]),
     cc_basePriceFeeds = Map.empty,
     cc_ohmToken = BASE_ERC20_OHM,
     cc_ohmStartBlock = (Some BASE_START_BLOCK),
     cc_nativeToken = (Some BASE_NATIVE_ETH),
     cc_coolerClearinghouses = None,
     cc_blvRegistry = None,
     cc_bondManager = None,
     cc_migrationOffset = None,
     cc_treasuryOhmEquivalents = None,
     cc_stakingContracts = None,
     cc_univ3PositionManager = (Some \<lparr> lc_address = addr ''0x03a520b32C04BF3bEEf7BEb72E919cf822Ed34f1'',
      lc_startBlock = 1371714 \<rparr>),
     cc_liquidityHandlers = BASE_liquidityHandlers,
     cc_ownedLiquidityHandlers = BASE_ownedLiquidityHandlers \<rparr>"

lemmas BASE_defs = BASE_PROTOCOL_ADDRESSES_def BASE_names_def BASE_univ2OhmWeth_def BASE_univ3OhmUsdc_def BASE_ownedLiquidityHandlers_def BASE_liquidityHandlers_def BASE_tokens_def BASE_def

end
