(* ===== verification/Chain_Berachain.thy ===== *)
theory Chain_Berachain
  imports Types
begin

text \<open>
  The configuration of Berachain (\<open>snapshot/chains/berachain.ts\<close>): constants, handlers,
      tokens. Constants that are
  addresses or blocks are abbreviations; a name that another chain's file uses too carries the
  chain in front. The RPC endpoints belong to the transport (\<open>rpcUrls\<close> in \<open>Rpc\<close>).
\<close>

abbreviation BERACHAIN_ERC20_OHM :: string where
  "BERACHAIN_ERC20_OHM \<equiv> addr ''0x18878Df23e2a36f81e820e4b47b4A40576D3159C''"
abbreviation ERC20_IBERA :: string where
  "ERC20_IBERA \<equiv> addr ''0x9b6761bf2397Bb5a6624a856cC84A3A14Dcd3fe5''"
abbreviation ERC20_IBGT :: string where
  "ERC20_IBGT \<equiv> addr ''0xac03CABA51e17c86c921E1f6CBFBdC91F8BB2E6b''"
abbreviation ERC20_LBGT :: string where
  "ERC20_LBGT \<equiv> addr ''0xBaadCC2962417C01Af99fb2B7C75706B9bd6Babe''"
abbreviation ERC20_STARGATE_USDC :: string where
  "ERC20_STARGATE_USDC \<equiv> addr ''0x549943e04f40284185054145c6E4e9568C1D3241''"
abbreviation ERC20_HONEY :: string where
  "ERC20_HONEY \<equiv> addr ''0xFCBD14DC51f0A4d49d5E53C2E0950e0bC26d0Dce''"
abbreviation ERC20_WBERA :: string where
  "ERC20_WBERA \<equiv> addr ''0x6969696969696969696969696969696969696969''"
abbreviation NATIVE_BERA :: string where
  "NATIVE_BERA \<equiv> ''0x0000000000000000000000000000000000000000''"
abbreviation BEX_VAULT :: string where
  "BEX_VAULT \<equiv> addr ''0x4Be03f781C497A489E3cB0287833452cA9B9E80B''"
abbreviation LP_KODIAK_OHM_HONEY :: string where
  "LP_KODIAK_OHM_HONEY \<equiv> addr ''0x98bDEEde9A45C28d229285d9d6e9139e9F505391''"
abbreviation LP_BERADROME_KODIAK_OHM_HONEY :: string where
  "LP_BERADROME_KODIAK_OHM_HONEY \<equiv> addr ''0x555BAd9EC18dB19dED0057D2517242399d1c5D87''"
abbreviation LP_UNISWAP_V3_WBERA_HONEY :: string where
  "LP_UNISWAP_V3_WBERA_HONEY \<equiv> addr ''0x1127f801cb3ab7bdf8923272949aa7dba94b5805''"
abbreviation LP_KODIAK_IBERA_WBERA_3000 :: string where
  "LP_KODIAK_IBERA_WBERA_3000 \<equiv> addr ''0x8dD1C3e5fB96ca0E45Fe3c3CC521Ad44e12F3e47''"
abbreviation LP_KODIAK_IBERA_WBERA_500 :: string where
  "LP_KODIAK_IBERA_WBERA_500 \<equiv> addr ''0xfcb24b3b7e87e3810b150d25d5964c566d9a2b6f''"
abbreviation LP_KODIAK_IBGT_WBERA :: string where
  "LP_KODIAK_IBGT_WBERA \<equiv> addr ''0x12bf773F18cEC56F14e7cb91d82984eF5A3148EE''"
abbreviation LP_BEX_LBGT_WBERA_ID :: string where
  "LP_BEX_LBGT_WBERA_ID \<equiv> projr (bytes32 ''0x705fc16ba5a1eb67051934f2fb17eacae660f6c70002000000000000000000d5'')"
abbreviation KODIAK_QUOTER :: string where
  "KODIAK_QUOTER \<equiv> addr ''0x644C8D6E501f7C994B74F5ceA96abe65d0BA662B''"
abbreviation BERADROME_KODIAK_OHM_HONEY_REWARD_VAULT_V1 :: string where
  "BERADROME_KODIAK_OHM_HONEY_REWARD_VAULT_V1 \<equiv> addr ''0x017B4DD27782E2FE3421e71F33ce54801aF696F8''"
abbreviation BERADROME_KODIAK_OHM_HONEY_REWARD_VAULT_V2 :: string where
  "BERADROME_KODIAK_OHM_HONEY_REWARD_VAULT_V2 \<equiv> addr ''0x8e5b2DF607B43C8D0F28035210D4e1aD1E72b8ed''"
abbreviation INFRARED_KODIAK_OHM_HONEY_VAULT :: string where
  "INFRARED_KODIAK_OHM_HONEY_VAULT \<equiv> addr ''0xa57Cb177Beebc35A1A26A286951a306d9B752524''"
abbreviation BERAHUB_KODIAK_OHM_HONEY_REWARD_VAULT :: string where
  "BERAHUB_KODIAK_OHM_HONEY_REWARD_VAULT \<equiv> addr ''0x815596fa7c4d983d1ca5304e5b48978424c1b448''"
abbreviation BERACHAIN_START_BLOCK :: nat where "BERACHAIN_START_BLOCK \<equiv> 799194"
abbreviation LP_KODIAK_OHM_HONEY_CREATION_BLOCK :: nat where "LP_KODIAK_OHM_HONEY_CREATION_BLOCK \<equiv> 969521"
abbreviation LP_BERADROME_KODIAK_OHM_HONEY_CREATION_BLOCK :: nat where "LP_BERADROME_KODIAK_OHM_HONEY_CREATION_BLOCK \<equiv> 1052333"
abbreviation LP_KODIAK_IBERA_WBERA_500_CREATION_BLOCK :: nat where "LP_KODIAK_IBERA_WBERA_500_CREATION_BLOCK \<equiv> 929297"
abbreviation LP_KODIAK_IBGT_WBERA_CREATION_BLOCK :: nat where "LP_KODIAK_IBGT_WBERA_CREATION_BLOCK \<equiv> 1226972"
abbreviation LBGT_CREATION_BLOCK :: nat where "LBGT_CREATION_BLOCK \<equiv> 1586863"
abbreviation BERADROME_KODIAK_OHM_HONEY_REWARD_VAULT_V1_CREATION_BLOCK :: nat where "BERADROME_KODIAK_OHM_HONEY_REWARD_VAULT_V1_CREATION_BLOCK \<equiv> 1052333"
abbreviation BERADROME_KODIAK_OHM_HONEY_REWARD_VAULT_V2_CREATION_BLOCK :: nat where "BERADROME_KODIAK_OHM_HONEY_REWARD_VAULT_V2_CREATION_BLOCK \<equiv> 1272921"
abbreviation INFRARED_KODIAK_OHM_HONEY_VAULT_CREATION_BLOCK :: nat where "INFRARED_KODIAK_OHM_HONEY_VAULT_CREATION_BLOCK \<equiv> 1184484"
abbreviation BERAHUB_KODIAK_OHM_HONEY_REWARD_VAULT_CREATION_BLOCK :: nat where "BERAHUB_KODIAK_OHM_HONEY_REWARD_VAULT_CREATION_BLOCK \<equiv> 1006689"
abbreviation LP_BEX_LBGT_WBERA_CREATION_BLOCK :: nat where "LP_BEX_LBGT_WBERA_CREATION_BLOCK \<equiv> 1592960"
abbreviation BERACHAIN_DAO_MULTISIG :: string where
  "BERACHAIN_DAO_MULTISIG \<equiv> addr ''0x91494D1BC2286343D51c55E46AE80C9356D099b5''"
abbreviation BERACHAIN_TRSRY :: string where
  "BERACHAIN_TRSRY \<equiv> addr ''0xb1fA0Ac44d399b778B14af0AAF4bCF8af3437ad1''"
abbreviation DAO_OPS_MULTISIG :: string where
  "DAO_OPS_MULTISIG \<equiv> addr ''0xe22b2d431838528BcaD52d11C4744EfCdc907a1c''"
abbreviation THJ_CUSTODIAN :: string where
  "THJ_CUSTODIAN \<equiv> addr ''0x082689241b09c600b3eaf3812b1d09791e7ded5a''"
abbreviation INFRARED_CUSTODIAN :: string where
  "INFRARED_CUSTODIAN \<equiv> addr ''0xb65e74f6b2c0633e30ba1be75db818bb9522a81a''"
definition BERACHAIN_PROTOCOL_ADDRESSES :: "string list" where
  "BERACHAIN_PROTOCOL_ADDRESSES = [BERACHAIN_DAO_MULTISIG, BERACHAIN_TRSRY, DAO_OPS_MULTISIG, THJ_CUSTODIAN,
      INFRARED_CUSTODIAN]"

definition BERACHAIN_names :: "string \<rightharpoonup> string" where
  "BERACHAIN_names = object_literal [
     (BERADROME_KODIAK_OHM_HONEY_REWARD_VAULT_V1, ''Beradrome Kodiak OHM-HONEY Reward Vault V1''),
     (BERADROME_KODIAK_OHM_HONEY_REWARD_VAULT_V2, ''Beradrome Kodiak OHM-HONEY Reward Vault V2''),
     (BEX_VAULT, ''BEX Vault''),
     (BERACHAIN_DAO_MULTISIG, ''DAO MS (Berachain)''),
     (DAO_OPS_MULTISIG, ''DAO Operations MS (Berachain)''),
     (ERC20_HONEY, ''Honey''),
     (ERC20_IBERA, ''Infrared BERA''),
     (ERC20_IBGT, ''Infrared BGT''),
     (ERC20_LBGT, ''Liquid BGT''),
     (BERACHAIN_ERC20_OHM, ''OHM''),
     (ERC20_STARGATE_USDC, ''Bridged USDC (Stargate)''),
     (ERC20_WBERA, ''Wrapped BERA''),
     (NATIVE_BERA, ''BERA''),
     (INFRARED_CUSTODIAN, ''Infrared Custodian''),
     (INFRARED_KODIAK_OHM_HONEY_VAULT, ''Infrared Kodiak OHM-HONEY Reward Vault''),
     (BERAHUB_KODIAK_OHM_HONEY_REWARD_VAULT, ''BeraHub Kodiak OHM-HONEY Reward Vault''),
     (LP_KODIAK_OHM_HONEY, ''Kodiak OHM-HONEY LP''),
     (LP_BERADROME_KODIAK_OHM_HONEY, ''Beradrome Kodiak OHM-HONEY LP''),
     (THJ_CUSTODIAN, ''THJ Custodian''),
     (BERACHAIN_TRSRY, ''TRSRY Module'')]"

definition BERACHAIN_kodiak :: "liquidity_handler" where
  "BERACHAIN_kodiak = Kodiak LP_KODIAK_OHM_HONEY LP_KODIAK_OHM_HONEY KODIAK_QUOTER None [ERC20_HONEY,
      BERACHAIN_ERC20_OHM] (Some LP_KODIAK_OHM_HONEY_CREATION_BLOCK)"

definition BERACHAIN_beradromeKodiakOhmHoneyV1 :: "liquidity_handler" where
  "BERACHAIN_beradromeKodiakOhmHoneyV1 = Kodiak LP_BERADROME_KODIAK_OHM_HONEY LP_KODIAK_OHM_HONEY KODIAK_QUOTER (Some BERADROME_KODIAK_OHM_HONEY_REWARD_VAULT_V1) [ERC20_HONEY, BERACHAIN_ERC20_OHM] (Some BERADROME_KODIAK_OHM_HONEY_REWARD_VAULT_V1_CREATION_BLOCK)"

definition BERACHAIN_beradromeKodiakOhmHoneyV2 :: "liquidity_handler" where
  "BERACHAIN_beradromeKodiakOhmHoneyV2 = Kodiak LP_BERADROME_KODIAK_OHM_HONEY LP_KODIAK_OHM_HONEY KODIAK_QUOTER (Some BERADROME_KODIAK_OHM_HONEY_REWARD_VAULT_V2) [ERC20_HONEY, BERACHAIN_ERC20_OHM] (Some BERADROME_KODIAK_OHM_HONEY_REWARD_VAULT_V2_CREATION_BLOCK)"

definition BERACHAIN_infraredKodiakOhmHoney :: "liquidity_handler" where
  "BERACHAIN_infraredKodiakOhmHoney = Kodiak INFRARED_KODIAK_OHM_HONEY_VAULT LP_KODIAK_OHM_HONEY KODIAK_QUOTER (Some INFRARED_KODIAK_OHM_HONEY_VAULT) [ERC20_HONEY, BERACHAIN_ERC20_OHM] (Some INFRARED_KODIAK_OHM_HONEY_VAULT_CREATION_BLOCK)"

definition BERACHAIN_beraHubKodiakOhmHoney :: "liquidity_handler" where
  "BERACHAIN_beraHubKodiakOhmHoney = Kodiak BERAHUB_KODIAK_OHM_HONEY_REWARD_VAULT LP_KODIAK_OHM_HONEY KODIAK_QUOTER (Some BERAHUB_KODIAK_OHM_HONEY_REWARD_VAULT) [ERC20_HONEY, BERACHAIN_ERC20_OHM] (Some BERAHUB_KODIAK_OHM_HONEY_REWARD_VAULT_CREATION_BLOCK)"

definition BERACHAIN_ownedLiquidityHandlers :: "liquidity_handler list" where
  "BERACHAIN_ownedLiquidityHandlers = [
     BERACHAIN_kodiak,
     BERACHAIN_beradromeKodiakOhmHoneyV1,
     BERACHAIN_beradromeKodiakOhmHoneyV2,
     BERACHAIN_infraredKodiakOhmHoney,
     BERACHAIN_beraHubKodiakOhmHoney]"

definition BERACHAIN_tokens :: "token_definition list" where
  "BERACHAIN_tokens = [
     token ERC20_IBERA ''Volatile'' False False None None (Some 18) None None,
     token ERC20_IBGT ''Volatile'' False False None (Some BERACHAIN_START_BLOCK) (Some 18) None None,
     token ERC20_LBGT ''Volatile'' False False None (Some LBGT_CREATION_BLOCK) (Some 18) None None,
     token ERC20_STARGATE_USDC ''Stable'' True False None None (Some 6) None None,
     token ERC20_HONEY ''Stable'' True False None None (Some 18) None None,
     token ERC20_WBERA ''Volatile'' True True None None (Some 18) None None,
     token NATIVE_BERA ''Volatile'' True True None None (Some 18) None None,
     token BERACHAIN_ERC20_OHM ''Volatile'' True False (Some 0) (Some BERACHAIN_START_BLOCK) (Some 9) None None,
     token LP_KODIAK_OHM_HONEY ''Protocol-Owned Liquidity'' True False None (Some LP_KODIAK_OHM_HONEY_CREATION_BLOCK) (Some 18) None None,
     token LP_BERADROME_KODIAK_OHM_HONEY ''Protocol-Owned Liquidity'' True False None (Some LP_BERADROME_KODIAK_OHM_HONEY_CREATION_BLOCK) (Some 18) None None,
     token BERADROME_KODIAK_OHM_HONEY_REWARD_VAULT_V1 ''Protocol-Owned Liquidity'' True False None (Some BERADROME_KODIAK_OHM_HONEY_REWARD_VAULT_V1_CREATION_BLOCK) (Some 18) None None,
     token BERADROME_KODIAK_OHM_HONEY_REWARD_VAULT_V2 ''Protocol-Owned Liquidity'' True False None (Some BERADROME_KODIAK_OHM_HONEY_REWARD_VAULT_V2_CREATION_BLOCK) (Some 18) None None,
     token INFRARED_KODIAK_OHM_HONEY_VAULT ''Protocol-Owned Liquidity'' True False None (Some INFRARED_KODIAK_OHM_HONEY_VAULT_CREATION_BLOCK) (Some 18) None None,
     token BERAHUB_KODIAK_OHM_HONEY_REWARD_VAULT ''Protocol-Owned Liquidity'' True False None (Some BERAHUB_KODIAK_OHM_HONEY_REWARD_VAULT_CREATION_BLOCK) (Some 18) None None]"

definition BERACHAIN_liquidityHandlers :: "liquidity_handler list" where
  "BERACHAIN_liquidityHandlers = [
     Stable ''stable-usd'' [ERC20_HONEY, ERC20_STARGATE_USDC] None,
     Univ3Quoter LP_UNISWAP_V3_WBERA_HONEY KODIAK_QUOTER [ERC20_HONEY, ERC20_WBERA] None,
     Univ3Quoter LP_KODIAK_IBERA_WBERA_3000 KODIAK_QUOTER [ERC20_IBERA, ERC20_WBERA] None,
     Univ3Quoter LP_KODIAK_IBERA_WBERA_500 KODIAK_QUOTER [ERC20_IBERA,
      ERC20_WBERA] (Some LP_KODIAK_IBERA_WBERA_500_CREATION_BLOCK),
     BERACHAIN_kodiak,
     BERACHAIN_beradromeKodiakOhmHoneyV1,
     BERACHAIN_beradromeKodiakOhmHoneyV2,
     BERACHAIN_beraHubKodiakOhmHoney,
     Univ3Quoter LP_KODIAK_IBGT_WBERA KODIAK_QUOTER [ERC20_IBGT,
      ERC20_WBERA] (Some LP_KODIAK_IBGT_WBERA_CREATION_BLOCK),
     Remap NATIVE_BERA [NATIVE_BERA] ERC20_WBERA None,
     Balancer LP_BEX_LBGT_WBERA_ID BEX_VAULT [ERC20_LBGT, ERC20_WBERA] (Some LP_BEX_LBGT_WBERA_CREATION_BLOCK)]"

definition BERACHAIN_abbreviations :: "string \<rightharpoonup> string" where
  "BERACHAIN_abbreviations = object_literal [
     (ERC20_IBERA, ''iBERA''),
     (ERC20_IBGT, ''iBGT''),
     (ERC20_LBGT, ''lBGT''),
     (ERC20_STARGATE_USDC, ''USDC.e''),
     (ERC20_WBERA, ''wBERA''),
     (NATIVE_BERA, ''BERA'')]"

definition BERACHAIN :: "chain_config" where
  "BERACHAIN = \<lparr>
     cc_chainId = 80094,
     cc_blockchain = ''Berachain'',
     cc_startBlock = BERACHAIN_START_BLOCK,
     cc_tokens = BERACHAIN_tokens,
     cc_names = BERACHAIN_names,
     cc_abbreviations = BERACHAIN_abbreviations,
     cc_protocolAddresses = BERACHAIN_PROTOCOL_ADDRESSES,
     cc_circulatingSupplyWallets = BERACHAIN_PROTOCOL_ADDRESSES,
     cc_treasuryBlacklist = (object_literal [(BERACHAIN_ERC20_OHM, [BERACHAIN_DAO_MULTISIG, DAO_OPS_MULTISIG,
      BERACHAIN_TRSRY])]),
     cc_basePriceFeeds = Map.empty,
     cc_ohmToken = BERACHAIN_ERC20_OHM,
     cc_ohmStartBlock = (Some BERACHAIN_START_BLOCK),
     cc_nativeToken = (Some NATIVE_BERA),
     cc_coolerClearinghouses = None,
     cc_blvRegistry = None,
     cc_bondManager = None,
     cc_migrationOffset = None,
     cc_treasuryOhmEquivalents = None,
     cc_stakingContracts = None,
     cc_univ3PositionManager = None,
     cc_liquidityHandlers = BERACHAIN_liquidityHandlers,
     cc_ownedLiquidityHandlers = BERACHAIN_ownedLiquidityHandlers \<rparr>"

lemmas BERACHAIN_defs = BERACHAIN_PROTOCOL_ADDRESSES_def BERACHAIN_names_def BERACHAIN_kodiak_def BERACHAIN_beradromeKodiakOhmHoneyV1_def BERACHAIN_beradromeKodiakOhmHoneyV2_def BERACHAIN_infraredKodiakOhmHoney_def BERACHAIN_beraHubKodiakOhmHoney_def BERACHAIN_ownedLiquidityHandlers_def BERACHAIN_tokens_def BERACHAIN_liquidityHandlers_def BERACHAIN_abbreviations_def BERACHAIN_def

end
