(* ===== verification/Chain_Fantom.thy ===== *)
theory Chain_Fantom
  imports Types
begin

text \<open>
  The configuration of Fantom (\<open>snapshot/chains/fantom.ts\<close>): constants, handlers,
      tokens. Constants that are
  addresses or blocks are abbreviations; a name that another chain's file uses too carries the
  chain in front. The RPC endpoints belong to the transport (\<open>rpcUrls\<close> in \<open>Rpc\<close>).
\<close>

abbreviation CROSS_CHAIN_FANTOM :: string where
  "CROSS_CHAIN_FANTOM \<equiv> addr ''0x2bc001ffeb862d843e0a02a7163c7d4828e5fb10''"
abbreviation ERC20_BEETS :: string where
  "ERC20_BEETS \<equiv> addr ''0xf24bcf4d1e507740041c9cfd2dddb29585adce1e''"
abbreviation ERC20_BOO :: string where
  "ERC20_BOO \<equiv> addr ''0x841fad6eae12c286d1fd18d1d525dffa75c7effe''"
abbreviation FANTOM_ERC20_DAI :: string where
  "FANTOM_ERC20_DAI \<equiv> addr ''0x8D11eC38a3EB5E956B052f67Da8Bdc9bef8Abf3E''"
abbreviation ERC20_DEI :: string where
  "ERC20_DEI \<equiv> addr ''0xDE1E704dae0B4051e80DAbB26ab6ad6c12262DA0''"
abbreviation FANTOM_ERC20_FRAX :: string where
  "FANTOM_ERC20_FRAX \<equiv> addr ''0xdc301622e621166BD8E82f2cA0A26c13Ad0BE355''"
abbreviation FANTOM_ERC20_GOHM :: string where
  "FANTOM_ERC20_GOHM \<equiv> addr ''0x91fa20244Fb509e8289CA630E5db3E9166233FDc''"
abbreviation ERC20_LQDR :: string where
  "ERC20_LQDR \<equiv> addr ''0x10b620b2dbAC4Faa7D7FFD71Da486f5D44cd86f9''"
abbreviation ERC20_OXD :: string where
  "ERC20_OXD \<equiv> addr ''0xc5A9848b9d145965d821AaeC8fA32aaEE026492d''"
abbreviation FANTOM_ERC20_USDC :: string where
  "FANTOM_ERC20_USDC \<equiv> addr ''0x04068da6c83afcfa0e13ba15a6696662335d5b75''"
abbreviation FANTOM_ERC20_WETH :: string where
  "FANTOM_ERC20_WETH \<equiv> addr ''0x74b23882a30290451a17c44f4f05243b6b58c76d''"
abbreviation ERC20_WFTM :: string where
  "ERC20_WFTM \<equiv> addr ''0x21be370D5312f44cB42ce377BC9b8a0cEF1A4C83''"
abbreviation NATIVE_FTM :: string where
  "NATIVE_FTM \<equiv> ''0x0000000000000000000000000000000000000000''"
abbreviation LP_UNISWAP_V2_BOO_WFTM :: string where
  "LP_UNISWAP_V2_BOO_WFTM \<equiv> addr ''0xec7178f4c41f346b2721907f5cf7628e388a7a58''"
abbreviation LP_UNISWAP_V2_LQDR_WFTM :: string where
  "LP_UNISWAP_V2_LQDR_WFTM \<equiv> addr ''0x4fe6f19031239f105f753d1df8a0d24857d0caa2''"
abbreviation LP_UNISWAP_V2_WFTM_BEETS :: string where
  "LP_UNISWAP_V2_WFTM_BEETS \<equiv> addr ''0x648a7452da25b4fb4bdb79badf374a8f8a5ea2b5''"
abbreviation LP_UNISWAP_V2_WFTM_ETH :: string where
  "LP_UNISWAP_V2_WFTM_ETH \<equiv> addr ''0xf0702249f4d3a25cd3ded7859a165693685ab577''"
abbreviation LP_UNISWAP_V2_WFTM_GOHM :: string where
  "LP_UNISWAP_V2_WFTM_GOHM \<equiv> addr ''0xae9bba22e87866e48ccacff0689afaa41eb94995''"
abbreviation LP_UNISWAP_V2_WFTM_OXD :: string where
  "LP_UNISWAP_V2_WFTM_OXD \<equiv> addr ''0xcb6eab779780c7fd6d014ab90d8b10e97a1227e2''"
abbreviation LP_UNISWAP_V2_WFTM_USDC :: string where
  "LP_UNISWAP_V2_WFTM_USDC \<equiv> addr ''0x2b4c76d0dc16be1c31d4c1dc53bf9b45987fc75c''"
abbreviation FANTOM_START_BLOCK :: nat where "FANTOM_START_BLOCK \<equiv> 37320000"
definition FANTOM_PROTOCOL_ADDRESSES :: "string list" where
  "FANTOM_PROTOCOL_ADDRESSES = [CROSS_CHAIN_FANTOM]"

definition FANTOM_names :: "string \<rightharpoonup> string" where
  "FANTOM_names = object_literal [
     (CROSS_CHAIN_FANTOM, ''Cross-Chain Fantom''),
     (ERC20_BEETS, ''Beethoven''),
     (ERC20_BOO, ''SpookySwap''),
     (FANTOM_ERC20_DAI, ''DAI''),
     (ERC20_DEI, ''Deus Finance''),
     (FANTOM_ERC20_FRAX, ''FRAX''),
     (FANTOM_ERC20_GOHM, ''Governance OHM''),
     (ERC20_LQDR, ''Liquid Driver''),
     (ERC20_OXD, ''0xDAO''),
     (FANTOM_ERC20_USDC, ''USDC''),
     (FANTOM_ERC20_WETH, ''Wrapped ETH''),
     (NATIVE_FTM, ''FTM''),
     (ERC20_WFTM, ''Wrapped Fantom''),
     (LP_UNISWAP_V2_BOO_WFTM, ''UniswapV2 BOO-wFTM Liquidity Pool''),
     (LP_UNISWAP_V2_LQDR_WFTM, ''UniswapV2 LQDR-wFTM Liquidity Pool''),
     (LP_UNISWAP_V2_WFTM_BEETS, ''UniswapV2 wFTM-BEETS Liquidity Pool''),
     (LP_UNISWAP_V2_WFTM_ETH, ''UniswapV2 wFTM-ETH Liquidity Pool''),
     (LP_UNISWAP_V2_WFTM_GOHM, ''UniswapV2 wFTM-gOHM Liquidity Pool''),
     (LP_UNISWAP_V2_WFTM_OXD, ''UniswapV2 wFTM-OXD Liquidity Pool''),
     (LP_UNISWAP_V2_WFTM_USDC, ''UniswapV2 wFTM-USDC Liquidity Pool'')]"

definition FANTOM_abbreviations :: "string \<rightharpoonup> string" where
  "FANTOM_abbreviations = object_literal [
     (ERC20_BEETS, ''BEETS''),
     (ERC20_BOO, ''BOO''),
     (FANTOM_ERC20_DAI, ''DAI''),
     (ERC20_DEI, ''DEI''),
     (FANTOM_ERC20_FRAX, ''FRAX''),
     (FANTOM_ERC20_GOHM, ''gOHM''),
     (ERC20_LQDR, ''LQDR''),
     (ERC20_OXD, ''OXD''),
     (FANTOM_ERC20_WETH, ''wETH''),
     (NATIVE_FTM, ''FTM''),
     (ERC20_WFTM, ''wFTM'')]"

definition FANTOM_univ2WftmGohm :: "liquidity_handler" where
  "FANTOM_univ2WftmGohm = Univ2 LP_UNISWAP_V2_WFTM_GOHM [FANTOM_ERC20_GOHM, ERC20_WFTM] (Some FANTOM_START_BLOCK)"

definition FANTOM_ownedLiquidityHandlers :: "liquidity_handler list" where
  "FANTOM_ownedLiquidityHandlers = [
     FANTOM_univ2WftmGohm]"

definition FANTOM_liquidityHandlers :: "liquidity_handler list" where
  "FANTOM_liquidityHandlers = [
     Stable ''stable-usd'' [FANTOM_ERC20_DAI, ERC20_DEI, FANTOM_ERC20_FRAX, FANTOM_ERC20_USDC] None,
     Univ2 LP_UNISWAP_V2_WFTM_USDC [FANTOM_ERC20_USDC, ERC20_WFTM] (Some FANTOM_START_BLOCK),
     Univ2 LP_UNISWAP_V2_WFTM_ETH [FANTOM_ERC20_WETH, ERC20_WFTM] (Some FANTOM_START_BLOCK),
     FANTOM_univ2WftmGohm,
     Univ2 LP_UNISWAP_V2_BOO_WFTM [ERC20_BOO, ERC20_WFTM] (Some FANTOM_START_BLOCK),
     Univ2 LP_UNISWAP_V2_LQDR_WFTM [ERC20_LQDR, ERC20_WFTM] (Some FANTOM_START_BLOCK),
     Univ2 LP_UNISWAP_V2_WFTM_BEETS [ERC20_BEETS, ERC20_WFTM] (Some FANTOM_START_BLOCK),
     Univ2 LP_UNISWAP_V2_WFTM_OXD [ERC20_OXD, ERC20_WFTM] (Some FANTOM_START_BLOCK),
     Remap NATIVE_FTM [NATIVE_FTM] ERC20_WFTM None]"

definition FANTOM_tokens :: "token_definition list" where
  "FANTOM_tokens = [
     token NATIVE_FTM ''Volatile'' True True None (Some FANTOM_START_BLOCK) (Some 18) None None,
     token ERC20_BEETS ''Volatile'' True False None (Some FANTOM_START_BLOCK) (Some 18) None None,
     token ERC20_BOO ''Volatile'' True False None (Some FANTOM_START_BLOCK) (Some 18) None None,
     token FANTOM_ERC20_DAI ''Stable'' True False None (Some FANTOM_START_BLOCK) (Some 18) None (Some True),
     token ERC20_DEI ''Stable'' True False None (Some FANTOM_START_BLOCK) (Some 18) None None,
     token FANTOM_ERC20_FRAX ''Stable'' True False None (Some FANTOM_START_BLOCK) (Some 18) None (Some True),
     token ERC20_LQDR ''Volatile'' True False None (Some FANTOM_START_BLOCK) (Some 18) None None,
     token ERC20_OXD ''Volatile'' True True None (Some FANTOM_START_BLOCK) (Some 18) None None,
     token FANTOM_ERC20_USDC ''Stable'' True False None (Some FANTOM_START_BLOCK) (Some 6) None None,
     token FANTOM_ERC20_WETH ''Volatile'' True True None (Some FANTOM_START_BLOCK) (Some 18) None None,
     token ERC20_WFTM ''Volatile'' True True None (Some FANTOM_START_BLOCK) (Some 18) None (Some True),
     token FANTOM_ERC20_GOHM ''Volatile'' True False (Some 0) (Some FANTOM_START_BLOCK) (Some 18) None (Some True),
     token LP_UNISWAP_V2_WFTM_GOHM ''Protocol-Owned Liquidity'' True False None (Some FANTOM_START_BLOCK) (Some 18) None None]"

definition FANTOM :: "chain_config" where
  "FANTOM = \<lparr>
     cc_chainId = 250,
     cc_blockchain = ''Fantom'',
     cc_startBlock = FANTOM_START_BLOCK,
     cc_tokens = FANTOM_tokens,
     cc_names = FANTOM_names,
     cc_abbreviations = FANTOM_abbreviations,
     cc_protocolAddresses = FANTOM_PROTOCOL_ADDRESSES,
     cc_circulatingSupplyWallets = FANTOM_PROTOCOL_ADDRESSES,
     cc_treasuryBlacklist = Map.empty,
     cc_basePriceFeeds = Map.empty,
     cc_ohmToken = FANTOM_ERC20_GOHM,
     cc_ohmStartBlock = (Some FANTOM_START_BLOCK),
     cc_nativeToken = (Some NATIVE_FTM),
     cc_coolerClearinghouses = None,
     cc_blvRegistry = None,
     cc_bondManager = None,
     cc_migrationOffset = None,
     cc_treasuryOhmEquivalents = None,
     cc_stakingContracts = None,
     cc_univ3PositionManager = None,
     cc_liquidityHandlers = FANTOM_liquidityHandlers,
     cc_ownedLiquidityHandlers = FANTOM_ownedLiquidityHandlers \<rparr>"

lemmas FANTOM_defs = FANTOM_PROTOCOL_ADDRESSES_def FANTOM_names_def FANTOM_abbreviations_def FANTOM_univ2WftmGohm_def FANTOM_ownedLiquidityHandlers_def FANTOM_liquidityHandlers_def FANTOM_tokens_def FANTOM_def

end
