(* ===== verification/Chain_Polygon.thy ===== *)
theory Chain_Polygon
  imports Types
begin

text \<open>
  The configuration of Polygon (\<open>snapshot/chains/polygon.ts\<close>): constants, handlers,
      tokens. Constants that are
  addresses or blocks are abbreviations; a name that another chain's file uses too carries the
  chain in front. The RPC endpoints belong to the transport (\<open>rpcUrls\<close> in \<open>Rpc\<close>).
\<close>

abbreviation CROSS_CHAIN_POLYGON :: string where
  "CROSS_CHAIN_POLYGON \<equiv> addr ''0xe06efa3d9ee6923240ee1195a16ddd96b5cce8f7''"
abbreviation POLYGON_ERC20_DAI :: string where
  "POLYGON_ERC20_DAI \<equiv> addr ''0x8f3Cf7ad23Cd3CaDbD9735AFf958023239c6A063''"
abbreviation POLYGON_ERC20_FRAX :: string where
  "POLYGON_ERC20_FRAX \<equiv> addr ''0x45c32fA6DF82ead1e2EF74d17b76547EDdFaFF89''"
abbreviation POLYGON_ERC20_GOHM :: string where
  "POLYGON_ERC20_GOHM \<equiv> addr ''0xd8cA34fd379d9ca3C6Ee3b3905678320F5b45195''"
abbreviation ERC20_KLIMA :: string where
  "ERC20_KLIMA \<equiv> addr ''0x4e78011ce80ee02d2c3e649fb657e45898257815''"
abbreviation ERC20_KLIMA_STAKED :: string where
  "ERC20_KLIMA_STAKED \<equiv> addr ''0xb0C22d8D350C67420f06F48936654f567C73E8C8''"
abbreviation ERC20_SYN :: string where
  "ERC20_SYN \<equiv> addr ''0x50B728D8D964fd00C2d0AAD81718b71311feF68a''"
abbreviation POLYGON_ERC20_USDC :: string where
  "POLYGON_ERC20_USDC \<equiv> addr ''0x2791Bca1f2de4661ED88A30C99A7a9449Aa84174''"
abbreviation POLYGON_ERC20_WETH :: string where
  "POLYGON_ERC20_WETH \<equiv> addr ''0x7ceB23fD6bC0adD59E62ac25578270cFf1b9f619''"
abbreviation LP_UNISWAP_V2_KLIMA_USDC :: string where
  "LP_UNISWAP_V2_KLIMA_USDC \<equiv> addr ''0x5786b267d35f9d011c4750e0b0ba584e1fdbead1''"
abbreviation LP_UNISWAP_V2_SYN_WETH :: string where
  "LP_UNISWAP_V2_SYN_WETH \<equiv> addr ''0x4a86c01d67965f8cb3d0aaa2c655705e64097c31''"
abbreviation LP_UNISWAP_V2_USDC_WETH :: string where
  "LP_UNISWAP_V2_USDC_WETH \<equiv> addr ''0x853ee4b2a13f8a742d64c8f088be7ba2131f670d''"
abbreviation LP_UNISWAP_V2_WETH_GOHM :: string where
  "LP_UNISWAP_V2_WETH_GOHM \<equiv> addr ''0x1549e0e8127d380080aab448b82d280433ce4030''"
abbreviation POLYGON_START_BLOCK :: nat where "POLYGON_START_BLOCK \<equiv> 23000000"
definition POLYGON_PROTOCOL_ADDRESSES :: "string list" where
  "POLYGON_PROTOCOL_ADDRESSES = [CROSS_CHAIN_POLYGON]"

definition POLYGON_names :: "string \<rightharpoonup> string" where
  "POLYGON_names = object_literal [
     (CROSS_CHAIN_POLYGON, ''Cross-Chain Polygon''),
     (POLYGON_ERC20_DAI, ''DAI''),
     (POLYGON_ERC20_FRAX, ''FRAX''),
     (POLYGON_ERC20_GOHM, ''Governance OHM''),
     (ERC20_KLIMA, ''KLIMA''),
     (ERC20_KLIMA_STAKED, ''Staked KLIMA''),
     (ERC20_SYN, ''Synapse''),
     (POLYGON_ERC20_USDC, ''USDC''),
     (POLYGON_ERC20_WETH, ''Wrapped ETH''),
     (LP_UNISWAP_V2_WETH_GOHM, ''UniswapV2 wETH-gOHM Liquidity Pool''),
     (LP_UNISWAP_V2_KLIMA_USDC, ''UniswapV2 KLIMA-USDC Liquidity Pool''),
     (LP_UNISWAP_V2_SYN_WETH, ''UniswapV2 SYN-wETH Liquidity Pool''),
     (LP_UNISWAP_V2_USDC_WETH, ''UniswapV2 USDC-wETH Liquidity Pool'')]"

definition POLYGON_univ2WethGohm :: "liquidity_handler" where
  "POLYGON_univ2WethGohm = Univ2 LP_UNISWAP_V2_WETH_GOHM [POLYGON_ERC20_GOHM,
      POLYGON_ERC20_WETH] (Some POLYGON_START_BLOCK)"

definition POLYGON_ownedLiquidityHandlers :: "liquidity_handler list" where
  "POLYGON_ownedLiquidityHandlers = [
     POLYGON_univ2WethGohm]"

definition POLYGON_liquidityHandlers :: "liquidity_handler list" where
  "POLYGON_liquidityHandlers = [
     Stable ''stable-usd'' [POLYGON_ERC20_DAI, POLYGON_ERC20_FRAX, POLYGON_ERC20_USDC] None,
     POLYGON_univ2WethGohm,
     Univ2 LP_UNISWAP_V2_KLIMA_USDC [ERC20_KLIMA, POLYGON_ERC20_USDC] (Some POLYGON_START_BLOCK),
     Univ2 LP_UNISWAP_V2_SYN_WETH [ERC20_SYN, POLYGON_ERC20_WETH] (Some POLYGON_START_BLOCK),
     Univ2 LP_UNISWAP_V2_USDC_WETH [POLYGON_ERC20_USDC, POLYGON_ERC20_WETH] (Some POLYGON_START_BLOCK),
     Remap ERC20_KLIMA_STAKED [ERC20_KLIMA_STAKED] ERC20_KLIMA None]"

definition POLYGON_tokens :: "token_definition list" where
  "POLYGON_tokens = [
     token POLYGON_ERC20_DAI ''Stable'' True False None (Some POLYGON_START_BLOCK) (Some 18) None None,
     token POLYGON_ERC20_FRAX ''Stable'' True False None (Some POLYGON_START_BLOCK) (Some 18) None None,
     token ERC20_KLIMA ''Volatile'' True False (Some (85 / 100)) (Some POLYGON_START_BLOCK) (Some 9) None None,
     token ERC20_KLIMA_STAKED ''Volatile'' True False (Some (85 / 100)) (Some POLYGON_START_BLOCK) (Some 9) None (Some True),
     token ERC20_SYN ''Volatile'' True False None (Some POLYGON_START_BLOCK) (Some 18) None None,
     token POLYGON_ERC20_USDC ''Stable'' True False None (Some POLYGON_START_BLOCK) (Some 6) None None,
     token POLYGON_ERC20_WETH ''Volatile'' True True None (Some POLYGON_START_BLOCK) (Some 18) None None,
     token POLYGON_ERC20_GOHM ''Volatile'' True False (Some 0) (Some POLYGON_START_BLOCK) (Some 18) None None,
     token LP_UNISWAP_V2_WETH_GOHM ''Protocol-Owned Liquidity'' True False None (Some POLYGON_START_BLOCK) (Some 18) None None]"

definition POLYGON :: "chain_config" where
  "POLYGON = \<lparr>
     cc_chainId = 137,
     cc_blockchain = ''Polygon'',
     cc_startBlock = POLYGON_START_BLOCK,
     cc_tokens = POLYGON_tokens,
     cc_names = POLYGON_names,
     cc_abbreviations = Map.empty,
     cc_protocolAddresses = POLYGON_PROTOCOL_ADDRESSES,
     cc_circulatingSupplyWallets = POLYGON_PROTOCOL_ADDRESSES,
     cc_treasuryBlacklist = Map.empty,
     cc_basePriceFeeds = Map.empty,
     cc_ohmToken = POLYGON_ERC20_GOHM,
     cc_ohmStartBlock = (Some POLYGON_START_BLOCK),
     cc_nativeToken = None,
     cc_coolerClearinghouses = None,
     cc_blvRegistry = None,
     cc_bondManager = None,
     cc_migrationOffset = None,
     cc_treasuryOhmEquivalents = None,
     cc_stakingContracts = None,
     cc_univ3PositionManager = None,
     cc_liquidityHandlers = POLYGON_liquidityHandlers,
     cc_ownedLiquidityHandlers = POLYGON_ownedLiquidityHandlers \<rparr>"

lemmas POLYGON_defs = POLYGON_PROTOCOL_ADDRESSES_def POLYGON_names_def POLYGON_univ2WethGohm_def POLYGON_ownedLiquidityHandlers_def POLYGON_liquidityHandlers_def POLYGON_tokens_def POLYGON_def

end
