(* ===== verification/Backfill.thy ===== *)
theory Backfill
  imports Ledger
begin

text \<open>
  The one-shot seeding of balances held before the indexed window
  (\<open>handlers/BackfillTokenBalances.ts\<close>). The two chain reads it makes go through cached RPC
  effects; they are the parameters \<open>readBalance\<close> (chain, token, wallet, block) and \<open>blockTime\<close>.
  A thrown error is a left value.
\<close>

definition BACKFILL_CHAINS :: "(nat \<times> nat) list" where
  "BACKFILL_CHAINS = [(1, 12000000), (137, 23000000), (250, 37320000), (8453, 13204827),
     (42161, 10950000), (80094, 799194)]"

definition NATIVE_TOKEN :: string where
  "NATIVE_TOKEN = ''0x0000000000000000000000000000000000000000''"

definition backfillEntry :: "nat \<Rightarrow> nat option" where
  "backfillEntry chainId = map_option snd (List.find (\<lambda>value. fst value = chainId) BACKFILL_CHAINS)"

record backfill_progress =
  bp_store :: store
  bp_seeded :: nat
  bp_skipped :: nat

type_synonym balance_reader = "nat \<Rightarrow> string \<Rightarrow> string \<Rightarrow> nat \<Rightarrow> int"

text \<open>The body of the inner loop: one protocol wallet of one token.\<close>

definition seedWallet :: "balance_reader \<Rightarrow> nat \<Rightarrow> string \<Rightarrow> nat \<Rightarrow> nat \<Rightarrow> nat \<Rightarrow> backfill_progress \<Rightarrow>
    string \<Rightarrow> backfill_progress" where
  "seedWallet readBalance chainId tokenAddress readAtBlock blockNumber blockTimestamp p wallet =
     (let seed = readBalance chainId tokenAddress wallet readAtBlock in
      if seed = 0 then p \<lparr> bp_skipped := bp_skipped p + 1 \<rparr>
      else (let tokenLower = addr tokenAddress; walletLower = addr wallet;
                key = id3 chainId tokenLower walletLower;
                s = bp_store p;
                newBalance = balanceAt s key + seed;
                updateId = key @ ''-backfill'';
                s1 = s \<lparr> st_TokenBalanceUpdate := tset updateId
                  \<lparr> TokenBalanceUpdate_id = updateId, TokenBalanceUpdate_chainId = chainId,
                    TokenBalanceUpdate_tokenAddress = tokenLower,
                    TokenBalanceUpdate_walletAddress = walletLower,
                    TokenBalanceUpdate_delta = seed, TokenBalanceUpdate_balance = newBalance,
                    TokenBalanceUpdate_block = blockNumber,
                    TokenBalanceUpdate_timestamp = blockTimestamp \<rparr> (st_TokenBalanceUpdate s) \<rparr>;
                s2 = s1 \<lparr> st_TokenBalance := tset key
                  \<lparr> TokenBalance_id = key, TokenBalance_chainId = chainId,
                    TokenBalance_tokenAddress = tokenLower,
                    TokenBalance_walletAddress = walletLower,
                    TokenBalance_balance = newBalance,
                    TokenBalance_updatedAtBlock = blockNumber \<rparr> (st_TokenBalance s1) \<rparr>
            in p \<lparr> bp_store := s2, bp_seeded := bp_seeded p + 1 \<rparr>))"

text \<open>The body of the outer loop: one configured token.\<close>

definition seedToken :: "balance_reader \<Rightarrow> nat \<Rightarrow> string list \<Rightarrow> nat \<Rightarrow> nat \<Rightarrow> nat \<Rightarrow>
    backfill_progress \<Rightarrow> token_definition \<Rightarrow> backfill_progress" where
  "seedToken readBalance chainId wallets readAtBlock blockNumber blockTimestamp p tokenDef =
     (if td_address tokenDef = NATIVE_TOKEN then p \<lparr> bp_skipped := bp_skipped p + 1 \<rparr>
      else if \<not> isActive (td_startBlock tokenDef) readAtBlock
      then p \<lparr> bp_skipped := bp_skipped p + 1 \<rparr>
      else foldl (seedWallet readBalance chainId (td_address tokenDef) readAtBlock blockNumber
        blockTimestamp) p wallets)"

definition runBackfill :: "configs \<Rightarrow> balance_reader \<Rightarrow> (nat \<Rightarrow> nat \<Rightarrow> nat) \<Rightarrow> nat \<Rightarrow> nat \<Rightarrow> store \<Rightarrow>
    string + (nat \<times> nat) \<times> store" where
  "runBackfill cfgs readBalance blockTime chainId blockNumber s =
     (case backfillEntry chainId of
        None \<Rightarrow> Inl (''BackfillTokenBalances: unsupported chain '' @ nat_str chainId)
      | Some startBlock \<Rightarrow>
          if blockNumber < startBlock
          then Inl (''BackfillTokenBalances on chain '' @ nat_str chainId @
            '' fired before startBlock: '' @ nat_str blockNumber @ '' < '' @ nat_str startBlock)
          else (case cfgs chainId of
              None \<Rightarrow> Inl (''BackfillTokenBalances: no chain config for '' @ nat_str chainId)
            | Some config \<Rightarrow>
                (let readAtBlock = (if startBlock > 0 then startBlock - 1 else startBlock);
                     blockTimestamp = blockTime chainId blockNumber;
                     p = foldl (seedToken readBalance chainId (cc_protocolAddresses config)
                           readAtBlock blockNumber blockTimestamp)
                         \<lparr> bp_store = s, bp_seeded = 0, bp_skipped = 0 \<rparr> (cc_tokens config);
                     s' = bp_store p;
                     key = nat_str chainId
                 in Inr ((bp_seeded p, bp_skipped p),
                   s' \<lparr> st_BackfillSentinel := tset key
                     \<lparr> BackfillSentinel_id = key, BackfillSentinel_chainId = chainId,
                       BackfillSentinel_seededAtBlock = readAtBlock,
                       BackfillSentinel_firedAtBlock = blockNumber,
                       BackfillSentinel_seeded = bp_seeded p,
                       BackfillSentinel_skipped = bp_skipped p \<rparr> (st_BackfillSentinel s') \<rparr>))))"

text \<open>The block filter of the handler and its body: the sentinel stops a second run.\<close>

definition backfillFires :: "nat \<Rightarrow> nat \<Rightarrow> bool" where
  "backfillFires chainId blockNumber = (case backfillEntry chainId of None \<Rightarrow> False
     | Some startBlock \<Rightarrow> startBlock \<le> blockNumber \<and> blockNumber \<le> startBlock)"

definition handleBackfillBlock :: "configs \<Rightarrow> balance_reader \<Rightarrow> (nat \<Rightarrow> nat \<Rightarrow> nat) \<Rightarrow> nat \<Rightarrow> nat \<Rightarrow>
    store \<Rightarrow> string + store" where
  "handleBackfillBlock cfgs readBalance blockTime chainId blockNumber s =
     (case tget (st_BackfillSentinel s) (nat_str chainId) of
        Some _ \<Rightarrow> Inr s
      | None \<Rightarrow> (case runBackfill cfgs readBalance blockTime chainId blockNumber s of
          Inl e \<Rightarrow> Inl e | Inr (_, s') \<Rightarrow> Inr s'))"

section \<open>The loops as a tally\<close>

text \<open>The pairs the nested loops visit, in their order.\<close>

definition seedPairs :: "chain_config \<Rightarrow> nat \<Rightarrow> (string \<times> string) list" where
  "seedPairs config readAtBlock = concat (map (\<lambda>d. if td_address d = NATIVE_TOKEN \<or>
       \<not> isActive (td_startBlock d) readAtBlock then []
     else map (\<lambda>w. (td_address d, w)) (cc_protocolAddresses config)) (cc_tokens config))"

lemma balanceAt_seedWallet:
  "balanceAt (bp_store (seedWallet f c t r b ts p w)) k =
     balanceAt (bp_store p) k + (if tokenBalanceId c t w = k then f c t w r else 0)"
  by (simp add: seedWallet_def Let_def balanceAt_def tokenBalanceId_def)

interpretation seeds: tally "\<lambda>p. balanceAt (bp_store p)"
  "\<lambda>p (t, w). seedWallet f c t r b ts p w"
  "\<lambda>p k. case p of (t, w) \<Rightarrow> if tokenBalanceId c t w = k then f c t w r else 0" for f c r b ts
  by unfold_locales (auto simp: balanceAt_seedWallet)

lemma seedWallets_pairs:
  "foldl (seedWallet f c t r b ts) p ws =
     foldl (\<lambda>p (t, w). seedWallet f c t r b ts p w) p (map (\<lambda>w. (t, w)) ws)"
  by (induction ws arbitrary: p) simp_all

lemma balanceAt_seedTokens:
  "balanceAt (bp_store (foldl (seedToken f c (cc_protocolAddresses config) r b ts) p ds)) k =
     balanceAt (bp_store (foldl (\<lambda>p (t, w). seedWallet f c t r b ts p w) p
       (concat (map (\<lambda>d. if td_address d = NATIVE_TOKEN \<or> \<not> isActive (td_startBlock d) r then []
          else map (\<lambda>w. (td_address d, w)) (cc_protocolAddresses config)) ds)))) k"
proof (induction ds arbitrary: p)
  case (Cons d ds)
  have skip: "balanceAt (bp_store (foldl (\<lambda>p (t, w). seedWallet f c t r b ts p w)
      (p \<lparr>bp_skipped := n\<rparr>) xs)) k =
    balanceAt (bp_store (foldl (\<lambda>p (t, w). seedWallet f c t r b ts p w) p xs)) k" for p n xs
    by (simp add: seeds.total_run)
  show ?case using Cons by (simp add: seedToken_def seedWallets_pairs skip)
qed simp

lemma seed_sum_single:
  assumes "distinct (map (\<lambda>(t, w). tokenBalanceId c t w) ps)" "(t, w) \<in> set ps"
  shows "(\<Sum>p\<leftarrow>ps. (\<lambda>(t', w'). if tokenBalanceId c t' w' = tokenBalanceId c t w
     then f c t' w' r else 0) p) = (f c t w r :: int)"
  using assms
proof (induction ps)
  case (Cons p ps)
  show ?case
  proof (cases "p = (t, w)")
    case True
    then have "\<forall>q \<in> set ps. (\<lambda>(t', w'). tokenBalanceId c t' w') q \<noteq> tokenBalanceId c t w"
      using Cons.prems(1) by force
    then have "(\<Sum>p\<leftarrow>ps. (\<lambda>(t', w'). if tokenBalanceId c t' w' = tokenBalanceId c t w
       then f c t' w' r else 0) p) = (\<Sum>p\<leftarrow>ps. 0)"
      by (intro arg_cong [of _ _ sum_list] map_cong) (auto split: prod.splits)
    then show ?thesis using True by simp
  next
    case False
    then have "(t, w) \<in> set ps" using Cons.prems by simp
    moreover from this have "(\<lambda>(t', w'). tokenBalanceId c t' w') p \<noteq> tokenBalanceId c t w"
      using Cons.prems(1) by force
    ultimately show ?thesis using Cons by (cases p) simp
  qed
qed simp

section \<open>Properties\<close>

text \<open>What a run of the seeding leaves: every balance plus the seeds of its pairs.\<close>

lemma runBackfill_sum:
  assumes "backfillEntry c = Some start" "start \<le> b" "cfgs c = Some config"
  shows "\<exists>result s'. runBackfill cfgs f time c b s = Inr (result, s')
    \<and> (\<forall>k. balanceAt s' k = balanceAt s k + (\<Sum>p\<leftarrow>seedPairs config (start - 1).
          (\<lambda>(t', w'). if tokenBalanceId c t' w' = k then f c t' w' (start - 1) else 0) p))"
proof -
  let ?p0 = "\<lparr> bp_store = s, bp_seeded = 0, bp_skipped = 0 \<rparr>"
  let ?p = "foldl (seedToken f c (cc_protocolAddresses config) (start - 1) b (time c b)) ?p0
    (cc_tokens config)"
  have bal: "balanceAt (bp_store ?p) k = balanceAt s k + (\<Sum>p\<leftarrow>seedPairs config (start - 1).
      (\<lambda>(t', w'). if tokenBalanceId c t' w' = k then f c t' w' (start - 1) else 0) p)" for k
    by (simp only: balanceAt_seedTokens seeds.total_run seedPairs_def backfill_progress.simps)
  have start: "(if start > 0 then start - 1 else start) = start - 1" by simp
  show ?thesis using assms bal
    by (simp add: runBackfill_def Let_def start balanceAt_def)
qed

lemma runBackfill_seeds:
  assumes "backfillEntry c = Some start" "start \<le> b" "cfgs c = Some config"
    and "distinct (map (\<lambda>(t, w). tokenBalanceId c t w) (seedPairs config (start - 1)))"
    and "(t, w) \<in> set (seedPairs config (start - 1))"
  shows "\<exists>result s'. runBackfill cfgs f time c b s = Inr (result, s')
    \<and> balanceAt s' (tokenBalanceId c t w) = balanceAt s (tokenBalanceId c t w) + f c t w (start - 1)
    \<and> (\<forall>k. k \<notin> (\<lambda>(t, w). tokenBalanceId c t w) ` set (seedPairs config (start - 1)) \<longrightarrow>
         balanceAt s' k = balanceAt s k)"
proof -
  let ?sum = "\<lambda>k. \<Sum>p\<leftarrow>seedPairs config (start - 1).
      (\<lambda>(t', w'). if tokenBalanceId c t' w' = k then f c t' w' (start - 1) else 0) p"
  have "?sum k = 0" if "k \<notin> (\<lambda>(t, w). tokenBalanceId c t w) ` set (seedPairs config (start - 1))" for k
  proof -
    have "?sum k = (\<Sum>p\<leftarrow>seedPairs config (start - 1). 0)"
      using that by (intro arg_cong [of _ _ sum_list] map_cong) (auto split: prod.splits)
    then show ?thesis by (simp only: sum_list_0)
  qed
  then show ?thesis
    using runBackfill_sum [where f = f and time = time and s = s and cfgs = cfgs and c = c, OF assms(1-3)]
      seed_sum_single [OF assms(4,5), of f "start - 1"] by fastforce
qed

text \<open>
  C21: the seeding adds, to every pair of an active token and a protocol wallet, exactly the
  balance the wallet held in the block before the window, and changes no other row: together
  with the ledger's deltas a row becomes the balance before the window plus the movements
  inside it. Pairs must be configured once (a pair configured twice would be seeded twice).
\<close>

theorem backfill_adds_seed_once:
  assumes "backfillEntry c = Some start" "start \<le> b" "cfgs c = Some config"
    and "distinct (map (\<lambda>(t, w). tokenBalanceId c t w) (seedPairs config (start - 1)))"
    and "(t, w) \<in> set (seedPairs config (start - 1))"
  shows "\<exists>result s'. runBackfill cfgs f time c b s = Inr (result, s')
    \<and> balanceAt s' (tokenBalanceId c t w) = balanceAt s (tokenBalanceId c t w) + f c t w (start - 1)
    \<and> (\<forall>k. k \<notin> (\<lambda>(t, w). tokenBalanceId c t w) ` set (seedPairs config (start - 1)) \<longrightarrow>
         balanceAt s' k = balanceAt s k)"
  using assms by (rule runBackfill_seeds)

text \<open>
  A second run changes nothing. Once the handler has run on a chain, running it again, on
  this or any later block, leaves the store as it is; a failed run leaves no sentinel, so it is
  retried.
\<close>

lemma backfill_idempotent:
  assumes "handleBackfillBlock cfgs f time c b s = Inr s'"
  shows "handleBackfillBlock cfgs f' time' c b' s' = Inr s'"
  using assms
  by (auto simp: handleBackfillBlock_def runBackfill_def Let_def split: option.splits sum.splits
      if_splits)

text \<open>
  The handler never fails where it fires. On the one block its filter lets through, the
  run returns, whenever the chain has a configuration.
\<close>

lemma backfill_fires_safely:
  assumes "backfillFires c b" "cfgs c \<noteq> None"
  shows "\<exists>s'. handleBackfillBlock cfgs f time c b s = Inr s'
    \<and> tget (st_BackfillSentinel s') (nat_str c) \<noteq> None"
  using assms
  by (auto simp: backfillFires_def handleBackfillBlock_def runBackfill_def Let_def
      split: option.splits)

section \<open>Concrete runs\<close>

definition sample_backfill_config :: chain_config where
  "sample_backfill_config = blank_config \<lparr> cc_protocolAddresses := [''0xa1'', ''0xa2''],
     cc_tokens := [token ''0xT1'' ''Stable'' True False None None None None None,
       token ''0xT2'' ''Stable'' True False None (Some 13000000) None None None] \<rparr>"

definition sample_backfill_configs :: configs where
  "sample_backfill_configs c = (if c = 1 then Some sample_backfill_config else None)"

lemma sample_seedPairs:
  "seedPairs sample_backfill_config 11999999 = [(''0xt1'', ''0xa1''), (''0xt1'', ''0xa2'')]"
  by (simp add: seedPairs_def sample_backfill_config_def blank_config_def token_def addr_def
      addr_eval NATIVE_TOKEN_def isActive_def)

lemma sample_backfill_entry: "backfillEntry 1 = Some 12000000"
  by (simp add: backfillEntry_def BACKFILL_CHAINS_def)

theorem backfill_adds_seed_once_witness:
  "\<exists>result s'. runBackfill sample_backfill_configs (\<lambda>c t w b. if w = ''0xa1'' then 42 else 0)
     (\<lambda>c b. 0) 1 12000000 empty_store = Inr (result, s')
   \<and> balanceAt s' (tokenBalanceId 1 ''0xt1'' ''0xa1'') = 42"
proof -
  have "tokenBalanceId 1 ''0xt1'' ''0xa1'' \<noteq> tokenBalanceId 1 ''0xt1'' ''0xa2''"
    by (simp add: tokenBalanceId_inject same_def addr_def addr_eval)
  then show ?thesis
    using backfill_adds_seed_once [OF sample_backfill_entry, of 12000000 sample_backfill_configs
      sample_backfill_config "''0xt1''" "''0xa1''"
      "\<lambda>c t w b. if w = ''0xa1'' then 42 else 0" "\<lambda>c b. 0" empty_store]
    by (auto simp: sample_backfill_configs_def sample_seedPairs balanceAt_def empty_store_def)
qed

end
