(* ===== verification/Chains.thy ===== *)
theory Chains
  imports Chain_Ethereum Chain_Arbitrum Chain_Base Chain_Berachain Chain_Fantom Chain_Polygon Backfill
    Pricing_Properties
begin

text \<open>
  The deployed configurations together (\<open>snapshot/chains/index.ts\<close>): what they guarantee to the
  components that are parametrised by a configuration, and what those components then do on the
  chains they run on.
\<close>

definition CHAIN_CONFIGS :: configs where
  "CHAIN_CONFIGS = [1 \<mapsto> ETHEREUM, 42161 \<mapsto> ARBITRUM, 80094 \<mapsto> BERACHAIN, 8453 \<mapsto> BASE, 137 \<mapsto> POLYGON,
     250 \<mapsto> FANTOM]"

lemma CHAIN_CONFIGS_eval:
  "CHAIN_CONFIGS 1 = Some ETHEREUM" "CHAIN_CONFIGS 42161 = Some ARBITRUM" "CHAIN_CONFIGS 80094 = Some BERACHAIN"
  "CHAIN_CONFIGS 8453 = Some BASE" "CHAIN_CONFIGS 137 = Some POLYGON" "CHAIN_CONFIGS 250 = Some FANTOM"
  by (simp_all add: CHAIN_CONFIGS_def)

lemma CHAIN_CONFIGS_cases:
  "CHAIN_CONFIGS c = Some config \<Longrightarrow> (c, config) \<in> {(1, ETHEREUM), (42161, ARBITRUM), (80094, BERACHAIN),
     (8453, BASE), (137, POLYGON), (250, FANTOM)}"
  by (auto simp: CHAIN_CONFIGS_def split: if_splits)

section \<open>Evaluating addresses\<close>

lemma lower_hex:
  "lower_char (CHR ''0'') = CHR ''0''" "lower_char (CHR ''1'') = CHR ''1''" "lower_char (CHR ''2'') = CHR ''2''"
  "lower_char (CHR ''3'') = CHR ''3''" "lower_char (CHR ''4'') = CHR ''4''" "lower_char (CHR ''5'') = CHR ''5''"
  "lower_char (CHR ''6'') = CHR ''6''" "lower_char (CHR ''7'') = CHR ''7''" "lower_char (CHR ''8'') = CHR ''8''"
  "lower_char (CHR ''9'') = CHR ''9''" "lower_char (CHR ''a'') = CHR ''a''" "lower_char (CHR ''b'') = CHR ''b''"
  "lower_char (CHR ''c'') = CHR ''c''" "lower_char (CHR ''d'') = CHR ''d''" "lower_char (CHR ''e'') = CHR ''e''"
  "lower_char (CHR ''f'') = CHR ''f''" "lower_char (CHR ''A'') = CHR ''a''" "lower_char (CHR ''B'') = CHR ''b''"
  "lower_char (CHR ''C'') = CHR ''c''" "lower_char (CHR ''D'') = CHR ''d''" "lower_char (CHR ''E'') = CHR ''e''"
  "lower_char (CHR ''F'') = CHR ''f''" "lower_char (CHR ''x'') = CHR ''x''"
  by (simp_all add: lower_char_def char_of_letters)

lemma hex_digits:
  "is_hex (CHR ''0'')" "is_hex (CHR ''1'')" "is_hex (CHR ''2'')" "is_hex (CHR ''3'')" "is_hex (CHR ''4'')"
  "is_hex (CHR ''5'')" "is_hex (CHR ''6'')" "is_hex (CHR ''7'')" "is_hex (CHR ''8'')" "is_hex (CHR ''9'')"
  "is_hex (CHR ''a'')" "is_hex (CHR ''b'')" "is_hex (CHR ''c'')" "is_hex (CHR ''d'')" "is_hex (CHR ''e'')"
  "is_hex (CHR ''f'')"
  by (simp_all add: is_hex_def is_digit_def)

lemmas addr_lits = addr_def toLowerCase_def list.map lower_hex
lemmas bytes32_lits = bytes32_def hex_digits

section \<open>Well-formed configurations\<close>

text \<open>\<open>0x\<close> and \<open>n\<close> hexadecimal digits in lower case.\<close>

definition lowerHex :: "nat \<Rightarrow> string \<Rightarrow> bool" where
  "lowerHex n s \<longleftrightarrow> length s = n + 2 \<and> take 2 s = ''0x'' \<and> list_all is_hex (drop 2 s) \<and> toLowerCase s = s"

definition handlerOk :: "liquidity_handler \<Rightarrow> bool" where
  "handlerOk h \<longleftrightarrow> list_all (lowerHex 40) (lh_tokens h) \<and> lh_tokens h \<noteq> [] \<and>
     (case h of
        Univ2 _ ts _ \<Rightarrow> length ts = 2 \<and> distinct ts
      | Univ3 _ ts _ \<Rightarrow> length ts = 2 \<and> distinct ts
      | Univ3Quoter _ _ ts _ \<Rightarrow> length ts = 2 \<and> distinct ts
      | Kodiak _ _ _ _ ts _ \<Rightarrow> length ts = 2 \<and> distinct ts
      | Balancer poolId _ ts _ \<Rightarrow> lowerHex 64 poolId \<and> 2 \<le> length ts \<and> distinct ts
      | Curve _ _ _ coins decimals _ \<Rightarrow> length coins = length decimals
      | _ \<Rightarrow> True)"

definition tokenOk :: "token_definition \<Rightarrow> bool" where
  "tokenOk d \<longleftrightarrow> (lowerHex 40 (td_address d) \<or> lowerHex 64 (td_address d)) \<and> td_decimals d \<le> 18"

definition walletsOk :: "string list \<Rightarrow> bool" where
  "walletsOk ws \<longleftrightarrow> ws \<noteq> [] \<and> distinct ws \<and> list_all (\<lambda>w. lowerHex 40 w \<and> w \<noteq> ZERO_ADDRESS) ws"

definition configOk :: "chain_config \<Rightarrow> bool" where
  "configOk config \<longleftrightarrow> distinct (map td_address (cc_tokens config)) \<and> list_all tokenOk (cc_tokens config)
     \<and> walletsOk (cc_protocolAddresses config)
     \<and> list_all handlerOk (cc_liquidityHandlers config @ cc_ownedLiquidityHandlers config)"

lemmas wf_defs = configOk_def tokenOk_def walletsOk_def handlerOk_def lowerHex_def token_def ZERO_ADDRESS_def

lemma base_ok: "configOk BASE"
  by (simp add: BASE_defs wf_defs addr_lits hex_digits)

lemma polygon_ok: "configOk POLYGON"
  by (simp add: POLYGON_defs wf_defs addr_lits hex_digits)

lemma fantom_ok: "configOk FANTOM"
  by (simp add: FANTOM_defs wf_defs addr_lits hex_digits)

lemma berachain_ok: "configOk BERACHAIN"
  by (simp add: BERACHAIN_defs wf_defs addr_lits bytes32_lits)

lemma arbitrum_ok: "configOk ARBITRUM"
  by (simp add: ARBITRUM_defs wf_defs addr_lits bytes32_lits)

lemma ethereum_tokens_ok:
  "distinct (map td_address (cc_tokens ETHEREUM))" "list_all tokenOk (cc_tokens ETHEREUM)"
  by (simp_all add: ETHEREUM_defs wf_defs addr_lits hex_digits)

lemma ethereum_wallets_ok: "walletsOk (cc_protocolAddresses ETHEREUM)"
  by (simp add: ETHEREUM_defs wf_defs addr_lits hex_digits)

lemma ethereum_handlers_ok:
  "list_all handlerOk (cc_liquidityHandlers ETHEREUM @ cc_ownedLiquidityHandlers ETHEREUM)"
  by (simp add: ETHEREUM_defs wf_defs addr_lits bytes32_lits)

lemma configs_ok: "CHAIN_CONFIGS c = Some config \<Longrightarrow> configOk config"
  using CHAIN_CONFIGS_cases [of c config] base_ok polygon_ok fantom_ok berachain_ok arbitrum_ok
    ethereum_tokens_ok ethereum_wallets_ok ethereum_handlers_ok by (auto simp: configOk_def)

lemma lowerHex_no_dash: "lowerHex n s \<Longrightarrow> CHR ''-'' \<notin> set s"
proof
  assume "lowerHex n s" "CHR ''-'' \<in> set s"
  moreover from this have "set s = set (take 2 s) \<union> set (drop 2 s)"
    by (metis append_take_drop_id set_append)
  ultimately have "is_hex (CHR ''-'')" by (auto simp: lowerHex_def list_all_iff)
  then show False by (simp add: is_hex_def is_digit_def)
qed

lemma lowerHex_addr: "lowerHex n s \<Longrightarrow> addr s = s"
  by (simp add: lowerHex_def addr_def)

lemma configured_token:
  "CHAIN_CONFIGS c = Some config \<Longrightarrow> d \<in> set (cc_tokens config) \<Longrightarrow>
     CHR ''-'' \<notin> set (td_address d) \<and> addr (td_address d) = td_address d"
  using configs_ok [of c config] lowerHex_no_dash lowerHex_addr
  by (auto simp: configOk_def list_all_iff tokenOk_def)

lemma configured_wallet:
  "CHAIN_CONFIGS c = Some config \<Longrightarrow> w \<in> set (cc_protocolAddresses config) \<Longrightarrow>
     CHR ''-'' \<notin> set w \<and> addr w = w \<and> w \<noteq> ZERO_ADDRESS"
  using configs_ok [of c config] lowerHex_no_dash lowerHex_addr
  by (auto simp: configOk_def walletsOk_def list_all_iff)



section \<open>The ledger on the deployed chains\<close>


section \<open>The seeding on the deployed chains\<close>

lemma distinct_pairs:
  assumes "distinct ts" "distinct ws"
  shows "distinct (concat (map (\<lambda>t. if P t then [] else map (Pair t) ws) ts))"
  using assms by (induction ts) (auto simp: distinct_map inj_on_def)

lemma seedPairs_map:
  "seedPairs config b = concat (map (\<lambda>d. if td_address d = NATIVE_TOKEN \<or> \<not> isActive (td_startBlock d) b then []
     else map (Pair (td_address d)) (cc_protocolAddresses config)) (cc_tokens config))"
  by (simp add: seedPairs_def)

lemma distinct_seedPairs:
  assumes "distinct (map td_address ds)" "distinct ws"
  shows "distinct (concat (map (\<lambda>d. if td_address d = NATIVE_TOKEN \<or> \<not> isActive (td_startBlock d) b then []
     else map (Pair (td_address d)) ws) ds))"
  using assms by (induction ds) (auto simp: distinct_map inj_on_def)

lemma deployed_seed_ids:
  assumes "CHAIN_CONFIGS c = Some config"
  shows "distinct (map (\<lambda>(t, w). tokenBalanceId c t w) (seedPairs config b))"
proof -
  have "distinct (seedPairs config b)"
    using configs_ok [OF assms] distinct_seedPairs unfolding seedPairs_map configOk_def walletsOk_def by blast
  moreover have "inj_on (\<lambda>(t, w). tokenBalanceId c t w) (set (seedPairs config b))"
  proof (rule inj_onI)
    fix p q assume pq: "p \<in> set (seedPairs config b)" "q \<in> set (seedPairs config b)"
      "(case p of (t, w) \<Rightarrow> tokenBalanceId c t w) = (case q of (t, w) \<Rightarrow> tokenBalanceId c t w)"
    have pair: "CHR ''-'' \<notin> set (fst r) \<and> addr (fst r) = fst r \<and> addr (snd r) = snd r"
      if "r \<in> set (seedPairs config b)" for r
      using that configured_token [OF assms] configured_wallet [OF assms]
      by (auto simp: seedPairs_map split: if_splits)
    show "p = q" using pq(3) pair [OF pq(1)] pair [OF pq(2)]
      by (auto simp: tokenBalanceId_inject same_def prod_eq_iff split: prod.splits)
  qed
  ultimately show ?thesis by (simp add: distinct_map)
qed

text \<open>On every deployed chain the seeding adds to each pair it visits, once, the balance before
  the window.\<close>

theorem deployed_backfill:
  assumes "CHAIN_CONFIGS c = Some config" "backfillEntry c = Some start" "start \<le> b"
    and "(t, w) \<in> set (seedPairs config (start - 1))"
  shows "\<exists>result s'. runBackfill CHAIN_CONFIGS f time c b s = Inr (result, s')
    \<and> balanceAt s' (tokenBalanceId c t w) = balanceAt s (tokenBalanceId c t w) + f c t w (start - 1)"
  using runBackfill_seeds [where f = f and time = time and s = s and cfgs = CHAIN_CONFIGS and c = c, OF assms(2,3,1)
      deployed_seed_ids [OF assms(1), of "start - 1"] assms(4)] by blast

lemma seedPairs_evals:
  "seedPairs POLYGON (23000000 - 1) = []"
  "seedPairs FANTOM (37320000 - 1) = []"
  "seedPairs BASE (13204827 - 1) = []"
  "remdups (map fst (seedPairs ETHEREUM (12000000 - 1))) = [ERC20_FXS]"
  "length (remdups (map fst (seedPairs ARBITRUM (10950000 - 1)))) = 10"
  by (simp_all add: seedPairs_def POLYGON_defs FANTOM_defs BASE_defs ETHEREUM_defs ARBITRUM_defs token_def
      isActive_def NATIVE_TOKEN_def addr_lits bytes32_lits)



section \<open>Prices on Ethereum\<close>

lemma derive_loop_filter:
  "derive_loop env lookup t b cp ch sel hs = derive_loop env lookup t b cp ch sel (filter (\<lambda>h. matches h t) hs)"
proof (induction hs arbitrary: sel)
  case (Cons h hs)
  then show ?case by (cases "matches h t") (simp_all add: eligible_def)
qed simp

text \<open>A token whose only handler is a remap to an unlisted token has price zero.\<close>

lemma remap_to_unlisted:
  assumes "filter (\<lambda>h. matches h t) (cc_liquidityHandlers (pe_config env)) = [Remap i ts target None]"
    and "\<forall>h \<in> set (cc_liquidityHandlers (pe_config env)). \<not> matches h target"
  shows "withPricingCache (getPrice (Suc (Suc n)) env t b None) s = Some (Inr ZERO_RESULT, s)"
proof -
  note only = derive_loop_filter [of env _ t b None _ _ "cc_liquidityHandlers (pe_config env)", unfolded assms(1)]
  show ?thesis
    using derivePrice_unlisted [OF assms(2)]
    by (auto simp: withPricingCache_def cachedPricingLookup_def derivePrice_def [of _ _ t] Let_def only eligible_def
        handler_getPrice_def remap_getPrice_def handlerActive_def isActive_def priceKey_def pbind_def preturn_def
        ZERO_RESULT_def ZERO_def selectQuote_def nullish_def split: option.splits)
qed

definition auraVaults :: "string list" where
  "auraVaults = [AURA_VAULT_OHM_WETH, AURA_VAULT_OHM_DAI, AURA_VAULT_OHM_DAI_WETH, AURA_VAULT_OHM_WSTETH]"

lemma ethereum_handler_lists:
  "cc_liquidityHandlers ETHEREUM = ETHEREUM_liquidityHandlers_1 @ ETHEREUM_liquidityHandlers_2 @ ETHEREUM_liquidityHandlers_3"
  by (simp add: ETHEREUM_def)

lemma aura_handlers:
  "filter (\<lambda>h. matches h AURA_VAULT_OHM_WETH) (cc_liquidityHandlers ETHEREUM)
     = [Remap AURA_VAULT_OHM_WETH [AURA_VAULT_OHM_WETH] BPT_OHM_WETH None]"
  "filter (\<lambda>h. matches h AURA_VAULT_OHM_DAI) (cc_liquidityHandlers ETHEREUM)
     = [Remap AURA_VAULT_OHM_DAI [AURA_VAULT_OHM_DAI] BPT_OHM_DAI None]"
  "filter (\<lambda>h. matches h AURA_VAULT_OHM_DAI_WETH) (cc_liquidityHandlers ETHEREUM)
     = [Remap AURA_VAULT_OHM_DAI_WETH [AURA_VAULT_OHM_DAI_WETH] BPT_OHM_DAI_WETH None]"
  "filter (\<lambda>h. matches h AURA_VAULT_OHM_WSTETH) (cc_liquidityHandlers ETHEREUM)
     = [Remap AURA_VAULT_OHM_WSTETH [AURA_VAULT_OHM_WSTETH] BPT_OHM_WSTETH None]"
  by (simp_all add: ETHEREUM_defs matches_def same_def addr_lits bytes32_lits)

lemma bpt_unlisted:
  "list_all (\<lambda>h. \<not> matches h BPT_OHM_WETH \<and> \<not> matches h BPT_OHM_DAI \<and> \<not> matches h BPT_OHM_DAI_WETH
     \<and> \<not> matches h BPT_OHM_WSTETH) (cc_liquidityHandlers ETHEREUM)"
  by (simp add: ETHEREUM_defs matches_def same_def addr_lits bytes32_lits)

text \<open>C35: with the deployed configuration of Ethereum the four Aura vault tokens have price zero,
  whatever the chain and the store hold: each is remapped to the pool token of a Balancer pool, and no
  handler lists that pool token.\<close>

theorem aura_vaults_unpriced:
  assumes "pe_config env = ETHEREUM" "t \<in> set auraVaults"
  shows "withPricingCache (getPrice (Suc (Suc n)) env t b None) s = Some (Inr ZERO_RESULT, s)"
proof -
  have "\<forall>h \<in> set (cc_liquidityHandlers ETHEREUM). \<not> matches h target"
    if "target \<in> set [BPT_OHM_WETH, BPT_OHM_DAI, BPT_OHM_DAI_WETH, BPT_OHM_WSTETH]" for target
    using bpt_unlisted that unfolding list_all_iff by auto
  moreover have "\<exists>target \<in> set [BPT_OHM_WETH, BPT_OHM_DAI, BPT_OHM_DAI_WETH, BPT_OHM_WSTETH].
      filter (\<lambda>h. matches h t) (cc_liquidityHandlers ETHEREUM) = [Remap t [t] target None]"
    using assms(2) aura_handlers unfolding auraVaults_def by auto
  ultimately show ?thesis using remap_to_unlisted [of t env t "[t]"] assms(1) by auto
qed

theorem aura_vaults_unpriced_witness:
  "\<forall>env. withPricingCache (getPrice (Suc (Suc 0)) (env \<lparr> pe_config := ETHEREUM \<rparr>) AURA_VAULT_OHM_DAI 20000000 None) None
     = Some (Inr ZERO_RESULT, None)"
  by (intro allI aura_vaults_unpriced) (simp_all add: auraVaults_def)


lemma fxs_seeded: "(ERC20_FXS, DAO_WALLET) \<in> set (seedPairs ETHEREUM (12000000 - 1))"
  by (simp add: seedPairs_def ETHEREUM_defs token_def isActive_def NATIVE_TOKEN_def addr_lits bytes32_lits)

theorem deployed_backfill_witness:
  "\<exists>result s'. runBackfill CHAIN_CONFIGS (\<lambda>_ _ _ _. 5) (\<lambda>_ _. 0) 1 12000007 empty_store = Inr (result, s')
    \<and> balanceAt s' (tokenBalanceId 1 ERC20_FXS DAO_WALLET) = 5"
  using deployed_backfill [OF CHAIN_CONFIGS_eval(1), of 12000000 12000007 ERC20_FXS DAO_WALLET "\<lambda>_ _ _ _. 5" "\<lambda>_ _. 0" empty_store]
    fxs_seeded
  by (simp add: backfillEntry_def BACKFILL_CHAINS_def) (simp add: balanceAt_def empty_store_def)

end
