(* ===== verification/Contract_Helpers.thy ===== *)
theory Contract_Helpers
  imports Chain_Effects
begin

text \<open>
  The convenience reads of \<open>snapshot/contracts.ts\<close>, over the node of \<open>Chain_Effects\<close>; both caches
  they go through give the value of the call (\<open>Contract_Cache\<close>). Reads that the code starts
  together are made one after the other here; what they read does not depend on the order.
\<close>

definition getDecimals :: "'w node \<Rightarrow> string \<Rightarrow> nat \<Rightarrow> ('w, nat) io" where
  "getDecimals node tokenAddress blockNumber =
     io_bind (rpc node (nd_uint node) tokenAddress ''decimals'' [] (Some blockNumber)) (\<lambda>decimals. io_return (nat decimals))"

definition getBalancerPool :: "'w node \<Rightarrow> liquidity_handler \<Rightarrow> nat \<Rightarrow> ('w, (string list \<times> int list) option) io" where
  "getBalancerPool node handler blockNumber =
     (if \<not> isActive (lh_startBlock handler) blockNumber then io_return None
      else io_bind (rpc node (nd_poolTokens node) (lh_vault handler) ''getPoolTokens'' [Arg_String (lh_id handler)] (Some blockNumber))
        (\<lambda>(tokens, balances). io_return (Some (map addr tokens, balances))))"

text \<open>The first component of what \<open>getPool\<close> returns.\<close>

definition getBalancerPoolToken :: "'w node \<Rightarrow> liquidity_handler \<Rightarrow> nat \<Rightarrow> ('w, string option) io" where
  "getBalancerPoolToken node handler blockNumber =
     (if \<not> isActive (lh_startBlock handler) blockNumber then io_return None
      else io_bind (rpc node (nd_address node) (lh_vault handler) ''getPool'' [Arg_String (lh_id handler)] (Some blockNumber))
        (\<lambda>pool. io_return (Some (addr pool))))"

definition getBaseTokenRate :: "rounding \<Rightarrow> chain_config \<Rightarrow> 'w node \<Rightarrow> string \<Rightarrow> nat \<Rightarrow> ('w, bignumber option) io" where
  "getBaseTokenRate rnd config node tokenAddress blockNumber = (case cc_basePriceFeeds config (addr tokenAddress) of
       None \<Rightarrow> io_return None
     | Some priceFeed \<Rightarrow> if \<not> isActive (pf_startBlock priceFeed) blockNumber then io_return None
       else io_bind (rpc node (nd_uint node) (pf_address priceFeed) ''decimals'' [] (Some blockNumber)) (\<lambda>decimals.
         io_bind (rpc node (nd_uint node) (pf_address priceFeed) ''latestAnswer'' [] (Some blockNumber)) (\<lambda>answer.
         io_return (if answer \<le> 0 then None else Some (toDecimal rnd answer (nat decimals))))))"

definition getErc20RawBalance :: "'w node \<Rightarrow> string \<Rightarrow> string \<Rightarrow> nat \<Rightarrow> ('w, int) io" where
  "getErc20RawBalance node tokenAddress wallet blockNumber =
     rpc node (nd_uint node) tokenAddress ''balanceOf'' [Arg_String wallet] (Some blockNumber)"

definition getErc20DecimalBalance :: "rounding \<Rightarrow> 'w node \<Rightarrow> string \<Rightarrow> string \<Rightarrow> nat \<Rightarrow> ('w, bignumber) io" where
  "getErc20DecimalBalance rnd node tokenAddress wallet blockNumber =
     io_bind (getDecimals node tokenAddress blockNumber) (\<lambda>decimals.
     io_bind (rpc node (nd_uint node) tokenAddress ''balanceOf'' [Arg_String wallet] (Some blockNumber)) (\<lambda>balance.
     io_return (toDecimal rnd balance decimals)))"

definition getErc20TotalSupply :: "rounding \<Rightarrow> 'w node \<Rightarrow> string \<Rightarrow> nat \<Rightarrow> ('w, bignumber) io" where
  "getErc20TotalSupply rnd node tokenAddress blockNumber =
     io_bind (getDecimals node tokenAddress blockNumber) (\<lambda>decimals.
     io_bind (rpc node (nd_uint node) tokenAddress ''totalSupply'' [] (Some blockNumber)) (\<lambda>totalSupply.
     io_return (toDecimal rnd totalSupply decimals)))"

section \<open>What they read\<close>

lemma answers_uint: "reliable node view \<Longrightarrow> answers (rpc node (nd_uint node) a name args (Some b)) (cv_uint view (atBlock a name args b))"
  by (intro answers_rpc reliableD)

lemma answers_getDecimals:
  "reliable node view \<Longrightarrow> answers (getDecimals node t b) (map_option nat (cv_uint view (atBlock t ''decimals'' [] b)))"
  unfolding getDecimals_def
  by (rule answers_cong [OF answers_bind [OF answers_uint answers_return]]) (simp_all add: map_conv_bind_option o_def)

text \<open>Over a reliable node a balance is the raw balance scaled by the token's decimals, and a base
  rate is positive wherever there is one.\<close>

theorem helpers_read_the_chain:
  assumes "reliable node view"
  shows "answers (getErc20DecimalBalance rnd node t wallet b)
      (Option.bind (cv_uint view (atBlock t ''decimals'' [] b)) (\<lambda>d.
       map_option (\<lambda>x. toDecimal rnd x (nat d)) (cv_uint view (atBlock t ''balanceOf'' [Arg_String wallet] b))))"
  unfolding getErc20DecimalBalance_def
  by (rule answers_cong [OF answers_bind [OF answers_getDecimals [OF assms]
          answers_bind [OF answers_uint [OF assms] answers_return]]])
    (auto simp: map_conv_bind_option bind_map_option o_def split: option.splits)

lemma base_rate_positive:
  assumes "fst (getBaseTokenRate (\<lambda>q. q) config node t b w) = Inr (Some rate)"
  shows "bn_gt rate (Fin 0)"
  using assms
  by (auto simp: getBaseTokenRate_def io_bind_def io_return_def toDecimal_def split: option.splits if_splits sum.splits prod.splits)

end
