(* ===== verification/Position_Amounts.thy ===== *)
theory Position_Amounts
  imports Bignumber
begin

text \<open>
  The token amounts of a Uniswap V3 position (\<open>univ3PositionAmounts\<close> of \<open>snapshot/math.ts\<close>). The
  code computes with doubles: \<open>fl\<close> rounds an exact result to a double and may overflow,
  \<open>sqrtAtTick t\<close> is \<open>Math.sqrt(1.0001 ** t)\<close>, whose last bits are up to the engine.
\<close>

section \<open>The computation\<close>

fun rounded :: "(rat \<Rightarrow> bignumber) \<Rightarrow> bignumber \<Rightarrow> bignumber" where
  "rounded fl (Fin q) = fl q"
| "rounded fl x = x"

text \<open>\<open>BigInt(Math.max(0, Math.floor(x)))\<close> throws where \<open>x\<close> is NaN or positive infinity.\<close>

fun toAmount :: "bignumber \<Rightarrow> string + int" where
  "toAmount (Fin q) = Inr (max 0 \<lfloor>q\<rfloor>)"
| "toAmount NegInf = Inr 0"
| "toAmount x = Inl ''RangeError''"

definition univ3PositionAmounts :: "(rat \<Rightarrow> bignumber) \<Rightarrow> (int \<Rightarrow> bignumber) \<Rightarrow> int \<Rightarrow> int \<Rightarrow> int \<Rightarrow> int \<Rightarrow> string + int \<times> int" where
  "univ3PositionAmounts fl sqrtAtTick liquidity sqrtPriceX96 tickLower tickUpper =
     (let times = (\<lambda>x y. rounded fl (x * y)); over = (\<lambda>x y. rounded fl (bn_div (\<lambda>q. q) x y));
          minus = (\<lambda>x y. rounded fl (x - y));
          sqrtPrice = over (fl (of_int sqrtPriceX96)) (Fin (2 ^ 96));
          sqrtLower = sqrtAtTick tickLower; sqrtUpper = sqrtAtTick tickUpper; L = fl (of_int liquidity);
          (amount0Float, amount1Float) =
            (if bn_lte sqrtPrice sqrtLower then (times L (over (minus sqrtUpper sqrtLower) (times sqrtUpper sqrtLower)), Fin 0)
             else if bn_lte sqrtUpper sqrtPrice then (Fin 0, times L (minus sqrtUpper sqrtLower))
             else (times L (over (minus sqrtUpper sqrtPrice) (times sqrtUpper sqrtPrice)), times L (minus sqrtPrice sqrtLower)))
      in case toAmount amount0Float of Inl e \<Rightarrow> Inl e
         | Inr amount0 \<Rightarrow> (case toAmount amount1Float of Inl e \<Rightarrow> Inl e | Inr amount1 \<Rightarrow> Inr (amount0, amount1)))"

section \<open>How the amounts move with the price\<close>

text \<open>Over the price \<open>p\<close> clamped to the range, the position holds \<open>held0\<close> and \<open>held1\<close>.\<close>

definition held0 :: "rounding \<Rightarrow> rat \<Rightarrow> rat \<Rightarrow> rat \<Rightarrow> rat" where
  "held0 r L su p = r (L * r (r (su - p) / r (su * p)))"

definition held1 :: "rounding \<Rightarrow> rat \<Rightarrow> rat \<Rightarrow> rat \<Rightarrow> rat" where
  "held1 r L sl p = r (L * r (p - sl))"

definition clampTo :: "rat \<Rightarrow> rat \<Rightarrow> rat \<Rightarrow> rat" where "clampTo sl su p = max sl (min su p)"

lemma amounts_clamped:
  assumes "mono r" "r 0 = 0" "sqrtAtTick tickLower = Fin sl" "sqrtAtTick tickUpper = Fin su"
    and "0 < sl" "sl < su" "0 < r (su * sl)" "0 \<le> liquidity"
  shows "univ3PositionAmounts (\<lambda>q. Fin (r q)) sqrtAtTick liquidity sqrtPriceX96 tickLower tickUpper =
    (let p = clampTo sl su (r (r (of_int sqrtPriceX96) / 2 ^ 96))
     in Inr (max 0 \<lfloor>held0 r (r (of_int liquidity)) su p\<rfloor>, max 0 \<lfloor>held1 r (r (of_int liquidity)) sl p\<rfloor>))"
proof -
  have positive: "r (su * p) \<noteq> 0" if "sl \<le> p" for p
    using monoD [OF assms(1), of "su * sl" "su * p"] assms(5-7) that by fastforce
  show ?thesis
    using assms(2-6) positive [of sl] positive [of "r (r (of_int sqrtPriceX96) / 2 ^ 96)"]
    by (auto simp: univ3PositionAmounts_def Let_def bn_lte_def held0_def held1_def clampTo_def max_def min_def)
qed

lemma held_mono:
  assumes "mono r" "r 0 = 0" "0 < sl" "0 < r (su * sl)" "0 \<le> L" "sl \<le> p" "p \<le> p'" "p' \<le> su"
  shows "held0 r L su p' \<le> held0 r L su p" "held1 r L sl p \<le> held1 r L sl p'"
proof -
  have su: "0 < su" using assms(3,6-8) by linarith
  have pos: "0 < r (su * p)" using monoD [OF assms(1), of "su * sl" "su * p"] assms(4,6) su by fastforce
  have "r (su - p') / r (su * p') \<le> r (su - p) / r (su * p)"
  proof (rule frac_le)
    show "0 \<le> r (su - p)" using monoD [OF assms(1), of 0 "su - p"] assms(2,7,8) by simp
    show "r (su - p') \<le> r (su - p)" using monoD [OF assms(1)] assms(7) by simp
    show "0 < r (su * p)" by (rule pos)
    show "r (su * p) \<le> r (su * p')" using monoD [OF assms(1)] assms(7) su by simp
  qed
  then show "held0 r L su p' \<le> held0 r L su p"
    unfolding held0_def using assms(1,5) by (intro monoD [OF assms(1)] mult_left_mono monoD [OF assms(1)]) simp_all
  show "held1 r L sl p \<le> held1 r L sl p'"
    unfolding held1_def using assms(1,5,7) by (intro monoD [OF assms(1)] mult_left_mono monoD [OF assms(1)]) simp_all
qed

text \<open>C27: With any monotone rounding the amounts of a position are never negative and move with the
  price: as it rises token 0 is sold and token 1 is bought. Below its range the position holds
  no token 1, above it no token 0.\<close>

theorem position_amounts_follow_price:
  assumes "mono r" "r 0 = 0" "sqrtAtTick tickLower = Fin sl" "sqrtAtTick tickUpper = Fin su"
    and "0 < sl" "sl < su" "0 < r (su * sl)" "0 \<le> liquidity" "price \<le> price'"
    and "univ3PositionAmounts (\<lambda>q. Fin (r q)) sqrtAtTick liquidity price tickLower tickUpper = Inr (a0, a1)"
    and "univ3PositionAmounts (\<lambda>q. Fin (r q)) sqrtAtTick liquidity price' tickLower tickUpper = Inr (b0, b1)"
  shows "0 \<le> b0 \<and> b0 \<le> a0 \<and> 0 \<le> a1 \<and> a1 \<le> b1
    \<and> \<not> (r (r (of_int price) / 2 ^ 96) \<le> sl \<and> a1 \<noteq> 0) \<and> \<not> (su \<le> r (r (of_int price') / 2 ^ 96) \<and> b0 \<noteq> 0)"
proof -
  let ?p = "r (r (of_int price) / 2 ^ 96)" and ?p' = "r (r (of_int price') / 2 ^ 96)" and ?L = "r (of_int liquidity)"
  note amounts = amounts_clamped [OF assms(1-8)]
  have L: "0 \<le> ?L" using monoD [OF assms(1), of 0 "of_int liquidity"] assms(2,8) by simp
  have "r (of_int price) \<le> r (of_int price')" using monoD [OF assms(1)] assms(9) by simp
  then have "?p \<le> ?p'" by (intro monoD [OF assms(1)]) (simp add: divide_right_mono)
  then have clamp: "sl \<le> clampTo sl su ?p" "clampTo sl su ?p \<le> clampTo sl su ?p'" "clampTo sl su ?p' \<le> su"
    using assms(6) by (auto simp: clampTo_def)
  note held = held_mono [OF assms(1,2,5,7) L clamp]
  have ab: "a0 = max 0 \<lfloor>held0 r ?L su (clampTo sl su ?p)\<rfloor>" "a1 = max 0 \<lfloor>held1 r ?L sl (clampTo sl su ?p)\<rfloor>"
      "b0 = max 0 \<lfloor>held0 r ?L su (clampTo sl su ?p')\<rfloor>" "b1 = max 0 \<lfloor>held1 r ?L sl (clampTo sl su ?p')\<rfloor>"
    using amounts [of price] amounts [of price'] assms(10,11) by (simp_all add: Let_def)
  have "b0 \<le> a0" "a1 \<le> b1" unfolding ab using floor_mono [OF held(1)] floor_mono [OF held(2)] by linarith+
  moreover have "0 \<le> b0" "0 \<le> a1" unfolding ab by simp_all
  moreover have "a1 = 0" if "?p \<le> sl"
  proof -
    have "clampTo sl su ?p = sl" using that assms(6) by (simp add: clampTo_def)
    then show ?thesis unfolding ab using assms(2) by (simp add: held1_def)
  qed
  moreover have "b0 = 0" if "su \<le> ?p'"
  proof -
    have "clampTo sl su ?p' = su" using that assms(6) by (simp add: clampTo_def)
    then show ?thesis unfolding ab using assms(2) by (simp add: held0_def)
  qed
  ultimately show ?thesis by blast
qed

definition sample_sqrt :: "int \<Rightarrow> bignumber" where "sample_sqrt t = (if t < 0 then Fin (1 / 2) else Fin 2)"

lemma sample_amounts:
  "univ3PositionAmounts Fin sample_sqrt 1000 0 (- 1) 1 = Inr (1500, 0)"
  "univ3PositionAmounts Fin sample_sqrt 1000 (2 ^ 96) (- 1) 1 = Inr (500, 500)"
  by (simp_all add: univ3PositionAmounts_def sample_sqrt_def Let_def bn_lte_def)

theorem position_amounts_follow_price_witness:
  "univ3PositionAmounts Fin sample_sqrt 1000 0 (- 1) 1 = Inr (1500, 0)
   \<and> univ3PositionAmounts Fin sample_sqrt 1000 (2 ^ 96) (- 1) 1 = Inr (500, 500)
   \<and> (0 :: int) \<le> 500 \<and> (500 :: int) \<le> 1500 \<and> (0 :: int) \<le> 0 \<and> (0 :: int) \<le> 500"
  using position_amounts_follow_price [of "\<lambda>q. q" sample_sqrt "- 1" "1 / 2" 1 2 1000 0 "2 ^ 96" 1500 0 500 500] sample_amounts
  by (simp add: sample_sqrt_def mono_def)

end
