(* ===== verification/Startup.thy ===== *)
theory Startup
  imports Rpc "HOL-Library.AList"
begin

text \<open>
  Starting the indexer (\<open>apps/indexer/src/validate-env.ts\<close> and \<open>start-envio.ts\<close>): the environment is
  completed and checked, then the Envio process is spawned and its end decides the exit of this
  process. The environment is the list of its entries. \<open>protocol\<close> is \<open>new URL(value).protocol\<close>
  (\<open>None\<close> where it throws), \<open>fl\<close> rounds a number literal to a double.
\<close>

section \<open>Checking the environment\<close>

type_synonym env = "(string \<times> string) list"

definition REQUIRED_ENV_VARS :: "string list" where
  "REQUIRED_ENV_VARS = [''ENVIO_API_TOKEN'', ''ENVIO_PG_HOST'', ''ENVIO_PG_PORT'', ''ENVIO_PG_USER'',
     ''ENVIO_PG_PASSWORD'', ''ENVIO_PG_DATABASE'', ''ENVIO_PG_SSL_MODE'', ''HASURA_GRAPHQL_ENDPOINT'',
     ''HASURA_GRAPHQL_ADMIN_SECRET'', ''ENVIO_ARBITRUM_RPC_URL'', ''ENVIO_BERACHAIN_RPC_URL'',
     ''ENVIO_BASE_RPC_URL'', ''ENVIO_POLYGON_RPC_URL'', ''ENVIO_FANTOM_RPC_URL'', ''ENVIO_ETHEREUM_RPC_URL'']"

definition URL_ENV_VARS :: "string list" where
  "URL_ENV_VARS = [''HASURA_GRAPHQL_ENDPOINT'', ''ENVIO_ARBITRUM_RPC_URL'', ''ENVIO_BERACHAIN_RPC_URL'',
     ''ENVIO_BASE_RPC_URL'', ''ENVIO_POLYGON_RPC_URL'', ''ENVIO_FANTOM_RPC_URL'', ''ENVIO_ETHEREUM_RPC_URL'']"

definition POSITIVE_INTEGER_ENV_VARS :: "string list" where "POSITIVE_INTEGER_ENV_VARS = [''ENVIO_PG_PORT'']"

definition OPTIONAL_POSITIVE_INTEGER_ENV_VARS :: "string list" where
  "OPTIONAL_POSITIVE_INTEGER_ENV_VARS = [''ENVIO_INDEXER_PORT'', ''PORT'']"

definition isBlank :: "string option \<Rightarrow> bool" where
  "isBlank v \<longleftrightarrow> (case v of None \<Rightarrow> True | Some text \<Rightarrow> trim text = [])"

definition isUrl :: "(string \<Rightarrow> string option) \<Rightarrow> string \<Rightarrow> bool" where
  "isUrl protocol url \<longleftrightarrow> protocol url = Some ''http:'' \<or> protocol url = Some ''https:''"

definition isPositiveInteger :: "(rat \<Rightarrow> bignumber) \<Rightarrow> string \<Rightarrow> bool" where
  "isPositiveInteger fl text \<longleftrightarrow> positiveInteger (numberOf fl text) \<noteq> None"

definition isRailwayRuntime :: "env \<Rightarrow> bool" where
  "isRailwayRuntime env \<longleftrightarrow> list_ex (\<lambda>(key, v). take 8 key = ''RAILWAY_'' \<and> \<not> isBlank (Some v)) env"

text \<open>The checks in order, each with the message it throws.\<close>

definition validateIndexerEnv :: "(string \<Rightarrow> string option) \<Rightarrow> (rat \<Rightarrow> bignumber) \<Rightarrow> env \<Rightarrow> string option" where
  "validateIndexerEnv protocol fl env =
     (let get = map_of env;
          missing = filter (\<lambda>name. isBlank (get name)) REQUIRED_ENV_VARS;
          invalidUrls = filter (\<lambda>name. \<not> isUrl protocol (nullish (get name) [])) URL_ENV_VARS;
          invalidIntegers = filter (\<lambda>name. \<not> isPositiveInteger fl (nullish (get name) [])) POSITIVE_INTEGER_ENV_VARS;
          invalidOptionalIntegers = filter (\<lambda>name. \<not> isBlank (get name) \<and>
            \<not> isPositiveInteger fl (nullish (get name) [])) OPTIONAL_POSITIVE_INTEGER_ENV_VARS
      in if missing \<noteq> [] then Some (''Missing required environment variables: '' @ joinWith '', '' missing)
         else if invalidUrls \<noteq> [] then Some (''Invalid URL environment variables: '' @ joinWith '', '' invalidUrls)
         else if invalidIntegers \<noteq> []
         then Some (''Invalid positive integer environment variables: '' @ joinWith '', '' invalidIntegers)
         else if invalidOptionalIntegers \<noteq> []
         then Some (''Invalid positive integer environment variables: '' @ joinWith '', '' invalidOptionalIntegers)
         else if isRailwayRuntime env \<and> \<not> isBlank (get ''ENVIO_PG_SCHEMA'')
         then Some ''ENVIO_PG_SCHEMA must not be set on Railway; Envio must use its default schema.''
         else if isRailwayRuntime env \<and> isBlank (get ''PORT'') then Some ''PORT must be set when running on Railway.''
         else if \<not> isBlank (get ''PORT'') \<and> \<not> isBlank (get ''ENVIO_INDEXER_PORT'')
           \<and> get ''PORT'' \<noteq> get ''ENVIO_INDEXER_PORT''
         then Some ''ENVIO_INDEXER_PORT must match PORT when PORT is set.''
         else None)"

section \<open>Spawning Envio\<close>

definition prepareIndexerEnv :: "env \<Rightarrow> env" where
  "prepareIndexerEnv env = (case map_option trim (map_of env ''PORT'') of
       None \<Rightarrow> env
     | Some railwayPort \<Rightarrow> if isBlank (map_of env ''ENVIO_INDEXER_PORT'') \<and> railwayPort \<noteq> []
         then AList.update ''ENVIO_INDEXER_PORT'' railwayPort env else env)"

definition hasResetFlag :: "string list \<Rightarrow> bool" where
  "hasResetFlag args \<longleftrightarrow> ''-r'' \<in> set args \<or> ''--reset'' \<in> set args"

definition resolveEnvioArgs :: "string list \<Rightarrow> env \<Rightarrow> string list" where
  "resolveEnvioArgs args env = (let resolvedArgs = (if args = [] then [''start''] else args) in
     if \<not> isRailwayRuntime env \<or> hd resolvedArgs \<noteq> ''start'' \<or> hasResetFlag resolvedArgs then resolvedArgs
     else resolvedArgs @ [''-r''])"

datatype startup = Refused string | Checked | Spawned "string list" env

definition runIndexerStartup :: "(string \<Rightarrow> string option) \<Rightarrow> (rat \<Rightarrow> bignumber) \<Rightarrow> string list \<Rightarrow> env \<Rightarrow> startup" where
  "runIndexerStartup protocol fl args env = (let preparedEnv = prepareIndexerEnv env in
     case validateIndexerEnv protocol fl preparedEnv of
       Some message \<Rightarrow> Refused message
     | None \<Rightarrow> if args \<noteq> [] \<and> hd args = ''check'' then Checked
         else Spawned (resolveEnvioArgs args preparedEnv) preparedEnv)"

text \<open>What the child process reports, and what this process does about it.\<close>

datatype child_event = Child_Error "string option" string | Child_Exit "int option" "string option"
datatype exit_action = Log_Error string | Exit int | Kill_Self string

definition formatEnvioSpawnError :: "string option \<Rightarrow> string \<Rightarrow> string" where
  "formatEnvioSpawnError code message = (if code = Some ''ENOENT''
     then ''Failed to start envio: envio binary was not found in PATH ('' @ message @ '')''
     else ''Failed to start envio: '' @ (case code of None \<Rightarrow> '''' | Some c \<Rightarrow> if c = '''' then '''' else c @ '': '') @ message)"

fun attachEnvioChildHandlers :: "child_event \<Rightarrow> exit_action list" where
  "attachEnvioChildHandlers (Child_Error code message) = [Log_Error (formatEnvioSpawnError code message), Exit 1]"
| "attachEnvioChildHandlers (Child_Exit code (Some signal)) = [Kill_Self signal]"
| "attachEnvioChildHandlers (Child_Exit code None) = [Exit (nullish code 1)]"

section \<open>What the start-up guarantees\<close>

text \<open>The environment Envio needs: everything required is there, ports are numbers, and on Railway
  the schema is the default one and the indexer listens on the port Railway routes to.\<close>

definition envReady :: "(string \<Rightarrow> string option) \<Rightarrow> (rat \<Rightarrow> bignumber) \<Rightarrow> env \<Rightarrow> bool" where
  "envReady protocol fl env \<longleftrightarrow>
     list_all (\<lambda>name. \<not> isBlank (map_of env name)) REQUIRED_ENV_VARS
     \<and> list_all (\<lambda>name. isUrl protocol (nullish (map_of env name) [])) URL_ENV_VARS
     \<and> isPositiveInteger fl (nullish (map_of env ''ENVIO_PG_PORT'') [])
     \<and> (isBlank (map_of env ''ENVIO_INDEXER_PORT'')
         \<or> isPositiveInteger fl (nullish (map_of env ''ENVIO_INDEXER_PORT'') []))
     \<and> (if isRailwayRuntime env then isBlank (map_of env ''ENVIO_PG_SCHEMA'') \<and> \<not> isBlank (map_of env ''PORT'') else True)
     \<and> (isBlank (map_of env ''PORT'') \<or> map_of env ''ENVIO_INDEXER_PORT'' = map_of env ''PORT''
         \<and> isPositiveInteger fl (nullish (map_of env ''PORT'') []))"

lemma trim_trim [simp]: "trim (trim s) = trim s"
proof -
  let ?t = "dropWhile isSpace (rev (dropWhile isSpace s))"
  have "dropWhile isSpace (rev ?t) = rev ?t"
  proof (cases ?t rule: rev_cases)
    case (snoc ys y)
    have "\<not> isSpace y"
    proof
      assume y: "isSpace y"
      obtain zs where "rev (dropWhile isSpace s) = zs @ ?t"
        by (metis takeWhile_dropWhile_id)
      then have "rev (rev (dropWhile isSpace s)) = rev (zs @ ys @ [y])" using snoc by simp
      then have "dropWhile isSpace s = y # rev ys @ rev zs" by simp
      then show False using y hd_dropWhile [of isSpace s] by (metis list.distinct(1) list.sel(1))
    qed
    then show ?thesis using snoc by simp
  next
    case Nil
    then show ?thesis by (metis dropWhile.simps(1) rev.simps(1))
  qed
  then show ?thesis by (simp add: trim_def dropWhile_idem)
qed

lemma prepared_port:
  "\<not> isBlank (map_of (prepareIndexerEnv env) ''PORT'') \<Longrightarrow> \<not> isBlank (map_of (prepareIndexerEnv env) ''ENVIO_INDEXER_PORT'')"
  by (auto simp: prepareIndexerEnv_def isBlank_def update_conv' split: option.splits if_splits)

lemma filter_none: "filter P xs = [] \<longleftrightarrow> list_all (\<lambda>x. \<not> P x) xs"
  by (simp add: filter_empty_conv list_all_iff)

lemma validateIndexerEnv_None:
  assumes "isBlank (map_of env ''PORT'') \<or> \<not> isBlank (map_of env ''ENVIO_INDEXER_PORT'')"
  shows "validateIndexerEnv protocol fl env = None \<longleftrightarrow> envReady protocol fl env"
  using assms unfolding validateIndexerEnv_def envReady_def Let_def filter_none
  by (auto simp: POSITIVE_INTEGER_ENV_VARS_def OPTIONAL_POSITIVE_INTEGER_ENV_VARS_def split: if_splits)

lemma prepared_lookup:
  "name \<noteq> ''ENVIO_INDEXER_PORT'' \<Longrightarrow> map_of (prepareIndexerEnv env) name = map_of env name"
  by (auto simp: prepareIndexerEnv_def update_conv' split: option.splits)

text \<open>C26: Envio is spawned exactly when the completed environment is ready for it, unless only the
  check was asked for. It gets that environment, which differs from the given one at most in the
  indexer's port, and on Railway a start always resets.\<close>

theorem startup_spawns_iff_ready:
  "runIndexerStartup protocol fl args env = Spawned args' env' \<longleftrightarrow>
     envReady protocol fl env' \<and> env' = prepareIndexerEnv env \<and> args' = resolveEnvioArgs args env'
     \<and> \<not> (args \<noteq> [] \<and> hd args = ''check'')
     \<and> (\<forall>name. name \<noteq> ''ENVIO_INDEXER_PORT'' \<longrightarrow> map_of env' name = map_of env name)
     \<and> \<not> (isRailwayRuntime env' \<and> hd args' = ''start'' \<and> \<not> hasResetFlag args')"
proof -
  have valid: "validateIndexerEnv protocol fl (prepareIndexerEnv env) = None \<longleftrightarrow> envReady protocol fl (prepareIndexerEnv env)"
    using prepared_port by (intro validateIndexerEnv_None) blast
  have reset: "\<not> (isRailwayRuntime e \<and> hd (resolveEnvioArgs args e) = ''start'' \<and> \<not> hasResetFlag (resolveEnvioArgs args e))" for e
    by (auto simp: resolveEnvioArgs_def Let_def hasResetFlag_def)
  show ?thesis
    using valid reset prepared_lookup [of _ env]
    by (auto simp: runIndexerStartup_def Let_def split: option.splits if_splits)
qed

text \<open>A port with blanks around it passes every check of its own, but the trimmed copy the
  completion makes of it is then refused as a different port.\<close>

theorem padded_port_refused:
  assumes "map_of env ''PORT'' = Some port" "trim port \<noteq> []" "trim port \<noteq> port"
    and "isBlank (map_of env ''ENVIO_INDEXER_PORT'')"
  shows "\<exists>message. runIndexerStartup protocol fl args env = Refused message"
proof -
  have port: "map_of (prepareIndexerEnv env) ''PORT'' = Some port"
      "map_of (prepareIndexerEnv env) ''ENVIO_INDEXER_PORT'' = Some (trim port)"
    using assms by (simp_all add: prepareIndexerEnv_def update_conv')
  then have "\<not> envReady protocol fl (prepareIndexerEnv env)" using assms(2,3) by (auto simp: envReady_def isBlank_def)
  then have "validateIndexerEnv protocol fl (prepareIndexerEnv env) \<noteq> None"
    using port assms(2) by (subst validateIndexerEnv_None) (auto simp: isBlank_def)
  then show ?thesis by (auto simp: runIndexerStartup_def Let_def)
qed

definition sample_indexer_env :: env where
  "sample_indexer_env = map (\<lambda>name. (name, ''https://x'')) (remdups (REQUIRED_ENV_VARS)) @ [(''PORT'', '' 8080'')]"

theorem padded_port_refused_witness:
  "\<exists>message. runIndexerStartup (\<lambda>_. Some ''https:'') Fin [] sample_indexer_env = Refused message"
  by (rule padded_port_refused [of _ "'' 8080''"])
    (simp_all add: sample_indexer_env_def REQUIRED_ENV_VARS_def trim_def isSpace_def isBlank_def)

definition ready_env :: env where "ready_env = map (\<lambda>name. (name, ''5432'')) REQUIRED_ENV_VARS"

lemma ready_env_ready: "envReady (\<lambda>_. Some ''https:'') Fin ready_env" "prepareIndexerEnv ready_env = ready_env"
    "resolveEnvioArgs [] ready_env = [''start'']"
proof -
  have "numberOf Fin ''5432'' = Fin 5432"
    by (simp add: numberOf_def trim_def isSpace_def parseDecimal_def splitAt_def parseExponent_def parseRadix_def
        radixDigit_def lower_char_def nullish_def)
  then show "envReady (\<lambda>_. Some ''https:'') Fin ready_env"
    by (simp add: envReady_def ready_env_def REQUIRED_ENV_VARS_def URL_ENV_VARS_def isBlank_def isUrl_def
        trim_def isSpace_def isRailwayRuntime_def isPositiveInteger_def nullish_def positiveInteger_def)
  show "prepareIndexerEnv ready_env = ready_env" "resolveEnvioArgs [] ready_env = [''start'']"
    by (simp_all add: prepareIndexerEnv_def ready_env_def REQUIRED_ENV_VARS_def resolveEnvioArgs_def isRailwayRuntime_def)
qed

theorem startup_spawns_iff_ready_witness:
  "runIndexerStartup (\<lambda>_. Some ''https:'') Fin [] ready_env = Spawned [''start''] ready_env"
  unfolding startup_spawns_iff_ready using ready_env_ready by (simp add: ready_env_def isRailwayRuntime_def REQUIRED_ENV_VARS_def)

end
