(* ===== verification/S3_Store.thy ===== *)
theory S3_Store
  imports Artifact_Store Timeouts
begin

text \<open>
  The store of the deployed publisher: \<open>S3ArtifactStore\<close> of
  \<open>apps/metrics-publisher/src/artifact-store.ts\<close>, over the S3 client. The client is third-party
  code: \<open>s3_send\<close> maps a bucket, a command and the state of the world to what the promise settles
  to before its timer and to the world afterwards. Endpoint, region and credentials only go to the
  client's constructor. What the service documents is the hypothesis \<open>s3_service\<close>; with it the
  store is shown to be the in-memory store the other theories reason about.
\<close>

section \<open>Commands and responses\<close>

text \<open>An upload has its key and body and the conditions \<open>IfNoneMatch\<close> and \<open>IfMatch\<close>; a deletion its
  \<open>IfMatch\<close>; a listing its prefix and continuation token.\<close>

datatype s3_command =
  Put_Object string string "string option" "string option"
| Get_Object string
| Delete_Object string "string option"
| List_Objects string "string option"

datatype js_error = Js_Error string string | Not_An_Error

text \<open>\<open>sr_body\<close> is what \<open>transformToString\<close> of the body settles to, if there is a body.\<close>

record s3_response =
  sr_body :: "(js_error + string) option option"
  sr_etag :: "string option"
  sr_contents :: "string option list option"
  sr_nextToken :: "string option"

record 'w s3_store =
  s3_send :: "string \<Rightarrow> s3_command \<Rightarrow> 'w \<Rightarrow> (js_error + s3_response) option \<times> 'w"
  s3_bucket :: string
  s3_requestTimeoutMs :: "int option"

text \<open>\<open>error instanceof NoSuchKey\<close> implies that name.\<close>

fun isNotFoundError :: "js_error \<Rightarrow> bool" where
  "isNotFoundError (Js_Error name message) \<longleftrightarrow> name = ''NoSuchKey'' \<or> name = ''NotFound''"
| "isNotFoundError Not_An_Error \<longleftrightarrow> False"

fun isConditionalWriteFailure :: "js_error \<Rightarrow> bool" where
  "isConditionalWriteFailure (Js_Error name message) \<longleftrightarrow>
     name = ''PreconditionFailed'' \<or> name = ''ConditionalRequestConflict'' \<or> name = ''NotModified''"
| "isConditionalWriteFailure Not_An_Error \<longleftrightarrow> False"

section \<open>The operations\<close>

definition withS3Timeout :: "'w s3_store \<Rightarrow> (js_error + 'a) option \<Rightarrow> string \<Rightarrow> js_error + 'a" where
  "withS3Timeout store race operationName =
     withTimeout Js_Error race operationName (nullish (s3_requestTimeoutMs store) DEFAULT_EXTERNAL_REQUEST_TIMEOUT_MS)"

definition s3Call :: "'w s3_store \<Rightarrow> s3_command \<Rightarrow> string \<Rightarrow> 'w \<Rightarrow> (js_error + s3_response) \<times> 'w" where
  "s3Call store command operationName w =
     (case s3_send store (s3_bucket store) command w of (race, w') \<Rightarrow> (withS3Timeout store race operationName, w'))"

definition s3_putJson :: "'w s3_store \<Rightarrow> codec \<Rightarrow> string \<Rightarrow> document \<Rightarrow> 'w \<Rightarrow> (js_error + unit) \<times> 'w" where
  "s3_putJson store codec key value w =
     (case s3Call store (Put_Object key (serializeJson codec value) None None) (''S3 PutObject '' @ key) w of
        (Inl e, w') \<Rightarrow> (Inl e, w')
      | (Inr _, w') \<Rightarrow> (Inr (), w'))"

text \<open>A thrown \<open>ArtifactNotFoundError\<close> is \<open>No_Artifact\<close>; \<open>parse\<close> is \<open>JSON.parse\<close>.\<close>

datatype store_failure = No_Artifact string | Failure js_error

definition readFailure :: "string \<Rightarrow> js_error \<Rightarrow> store_failure" where
  "readFailure key error = (if isNotFoundError error then No_Artifact key else Failure error)"

definition s3_getJsonWithMetadata :: "'w s3_store \<Rightarrow> (string \<Rightarrow> document option) \<Rightarrow> string \<Rightarrow> 'w \<Rightarrow>
    (store_failure + document \<times> string option) \<times> 'w" where
  "s3_getJsonWithMetadata store parse key w =
     (case s3Call store (Get_Object key) (''S3 GetObject '' @ key) w of
        (Inl e, w') \<Rightarrow> (Inl (readFailure key e), w')
      | (Inr response, w') \<Rightarrow> (case sr_body response of
          None \<Rightarrow> (Inl (Failure (Js_Error ''Error'' (''Artifact '' @ key @ '' had no response body.''))), w')
        | Some bodyRead \<Rightarrow> (case withS3Timeout store bodyRead (''S3 GetObject body '' @ key) of
            Inl e \<Rightarrow> (Inl (readFailure key e), w')
          | Inr body \<Rightarrow> (case parse body of
              None \<Rightarrow> (Inl (Failure (Js_Error ''SyntaxError'' ''JSON'')), w')
            | Some value \<Rightarrow> (Inr (value, sr_etag response), w')))))"

definition s3_getJson :: "'w s3_store \<Rightarrow> (string \<Rightarrow> document option) \<Rightarrow> string \<Rightarrow> 'w \<Rightarrow> (store_failure + document) \<times> 'w" where
  "s3_getJson store parse key w = apfst (map_sum id fst) (s3_getJsonWithMetadata store parse key w)"

text \<open>The two conditional uploads and the conditional deletion share their error handling.\<close>

definition conditionally :: "(js_error + s3_response) \<times> 'w \<Rightarrow> (js_error + bool) \<times> 'w" where
  "conditionally outcome = (case outcome of
       (Inr _, w') \<Rightarrow> (Inr True, w')
     | (Inl e, w') \<Rightarrow> (if isConditionalWriteFailure e then Inr False else Inl e, w'))"

definition s3_putJsonIfAbsent :: "'w s3_store \<Rightarrow> codec \<Rightarrow> string \<Rightarrow> document \<Rightarrow> 'w \<Rightarrow> (js_error + bool) \<times> 'w" where
  "s3_putJsonIfAbsent store codec key value w =
     conditionally (s3Call store (Put_Object key (serializeJson codec value) (Some ''*'') None) (''S3 PutObject '' @ key) w)"

definition s3_putJsonIfMatch :: "'w s3_store \<Rightarrow> codec \<Rightarrow> string \<Rightarrow> document \<Rightarrow> string \<Rightarrow> 'w \<Rightarrow> (js_error + bool) \<times> 'w" where
  "s3_putJsonIfMatch store codec key value etagValue w =
     conditionally (s3Call store (Put_Object key (serializeJson codec value) None (Some etagValue)) (''S3 PutObject '' @ key) w)"

definition s3_deleteJson :: "'w s3_store \<Rightarrow> string \<Rightarrow> 'w \<Rightarrow> (js_error + unit) \<times> 'w" where
  "s3_deleteJson store key w = (case s3Call store (Delete_Object key None) (''S3 DeleteObject '' @ key) w of
       (Inl e, w') \<Rightarrow> (Inl e, w')
     | (Inr _, w') \<Rightarrow> (Inr (), w'))"

definition s3_deleteJsonIfMatch :: "'w s3_store \<Rightarrow> string \<Rightarrow> string \<Rightarrow> 'w \<Rightarrow> (js_error + bool) \<times> 'w" where
  "s3_deleteJsonIfMatch store key etagValue w =
     conditionally (s3Call store (Delete_Object key (Some etagValue)) (''S3 DeleteObject '' @ key) w)"

text \<open>The loop of \<open>listKeys\<close> ends only when a response carries no token; \<open>None\<close> is a listing that
  never ends.\<close>

definition listedKeys :: "s3_response \<Rightarrow> string list" where
  "listedKeys response = List.map_filter id (nullish (sr_contents response) [])"

partial_function (option) s3_pages :: "'w s3_store \<Rightarrow> string \<Rightarrow> string list \<Rightarrow> string option \<Rightarrow> 'w \<Rightarrow>
    ((js_error + string list) \<times> 'w) option" where
  "s3_pages store prefix keys continuationToken w =
     (case s3Call store (List_Objects prefix continuationToken) (''S3 ListObjectsV2 '' @ prefix) w of (outcome, w') \<Rightarrow>
        (case outcome of
           Inl e \<Rightarrow> Some (Inl e, w')
         | Inr response \<Rightarrow> (case sr_nextToken response of
             None \<Rightarrow> Some (Inr (keys @ listedKeys response), w')
           | Some token \<Rightarrow> s3_pages store prefix (keys @ listedKeys response) (Some token) w')))"

definition s3_listKeys :: "'w s3_store \<Rightarrow> string \<Rightarrow> 'w \<Rightarrow> ((js_error + string list) \<times> 'w) option" where
  "s3_listKeys store prefix w = s3_pages store prefix [] None w"

section \<open>What the service documents\<close>

text \<open>
  \<open>objects w\<close> is what the bucket holds in the world \<open>w\<close>, \<open>tag\<close> the entity tag of a body and
  \<open>place\<close> the number of keys before a continuation token. A call is refused for one of the
  documented reasons, accepted, or lost: its answer does not come in time or is an error of another
  kind. A lost call may or may not have taken effect. For a conditional call on an absent key
  documentation and implementations differ; both answers are allowed here.
\<close>

fun refusals :: "(string \<Rightarrow> string) \<Rightarrow> (string \<rightharpoonup> string) \<Rightarrow> s3_command \<Rightarrow> string set" where
  "refusals tag bucket (Put_Object key body ifNoneMatch ifMatch) =
     (if ifNoneMatch \<noteq> None \<and> bucket key \<noteq> None then {''PreconditionFailed''}
      else case ifMatch of None \<Rightarrow> {} | Some t \<Rightarrow> (case bucket key of
          None \<Rightarrow> {''PreconditionFailed'', ''NoSuchKey''}
        | Some old \<Rightarrow> if tag old = t then {} else {''PreconditionFailed''}))"
| "refusals tag bucket (Get_Object key) = (if bucket key = None then {''NoSuchKey''} else {})"
| "refusals tag bucket (Delete_Object key ifMatch) =
     (case ifMatch of None \<Rightarrow> {} | Some t \<Rightarrow> (case bucket key of
          None \<Rightarrow> {''PreconditionFailed'', ''NoSuchKey''}
        | Some old \<Rightarrow> if tag old = t then {} else {''PreconditionFailed''}))"
| "refusals tag bucket (List_Objects prefix token) = {}"

fun accepts :: "(string \<Rightarrow> string) \<Rightarrow> (string \<rightharpoonup> string) \<Rightarrow> s3_command \<Rightarrow> bool" where
  "accepts tag bucket (Delete_Object key ifMatch) \<longleftrightarrow>
     bucket key = None \<or> refusals tag bucket (Delete_Object key ifMatch) = {}"
| "accepts tag bucket command \<longleftrightarrow> refusals tag bucket command = {}"

fun effect :: "s3_command \<Rightarrow> (string \<rightharpoonup> string) \<Rightarrow> (string \<rightharpoonup> string)" where
  "effect (Put_Object key body ifNoneMatch ifMatch) bucket = bucket(key \<mapsto> body)"
| "effect (Delete_Object key ifMatch) bucket = bucket(key := None)"
| "effect (Get_Object key) bucket = bucket"
| "effect (List_Objects prefix token) bucket = bucket"

abbreviation codes :: "string \<Rightarrow> nat list" where "codes \<equiv> map of_char"

definition isListing :: "(string \<rightharpoonup> string) \<Rightarrow> string \<Rightarrow> string list \<Rightarrow> bool" where
  "isListing bucket prefix keys \<longleftrightarrow> distinct keys \<and> sorted (map codes keys)
     \<and> set keys = {key. startsWith key prefix \<and> bucket key \<noteq> None}"

definition lost :: "(js_error + 'a) option \<Rightarrow> bool" where
  "lost race \<longleftrightarrow> (case race of None \<Rightarrow> True
     | Some (Inl e) \<Rightarrow> \<not> isNotFoundError e \<and> \<not> isConditionalWriteFailure e | Some (Inr _) \<Rightarrow> False)"

fun responds :: "(string \<Rightarrow> string) \<Rightarrow> (string option \<Rightarrow> nat) \<Rightarrow> (string \<rightharpoonup> string) \<Rightarrow> s3_command \<Rightarrow> s3_response \<Rightarrow> bool" where
  "responds tag place bucket (Get_Object key) response \<longleftrightarrow>
     (\<exists>bodyRead. sr_body response = Some bodyRead \<and> (lost bodyRead \<or> bodyRead = map_option Inr (bucket key)))
     \<and> sr_etag response = map_option tag (bucket key)"
| "responds tag place bucket (List_Objects prefix token) response \<longleftrightarrow>
     (\<forall>keys. isListing bucket prefix keys \<longrightarrow> (\<exists>n > 0. listedKeys response = take n (drop (place token) keys)
        \<and> (if place token + n < length keys
           then \<exists>next'. sr_nextToken response = Some next' \<and> place (Some next') = place token + n
           else sr_nextToken response = None)))"
| "responds tag place bucket command response \<longleftrightarrow> True"

definition s3_service :: "'w s3_store \<Rightarrow> ('w \<Rightarrow> string \<rightharpoonup> string) \<Rightarrow> (string \<Rightarrow> string) \<Rightarrow> (string option \<Rightarrow> nat) \<Rightarrow> bool" where
  "s3_service store objects tag place \<longleftrightarrow> place None = 0 \<and> (\<forall>command w race w'.
     s3_send store (s3_bucket store) command w = (race, w') \<longrightarrow>
       (\<exists>response. race = Some (Inr response) \<and> accepts tag (objects w) command
          \<and> responds tag place (objects w) command response \<and> objects w' = effect command (objects w))
       \<or> (\<exists>name message. race = Some (Inl (Js_Error name message)) \<and> name \<in> refusals tag (objects w) command
          \<and> objects w' = objects w)
       \<or> lost race \<and> (objects w' = objects w
          \<or> accepts tag (objects w) command \<and> objects w' = effect command (objects w)))"

section \<open>The store as its clients see it\<close>

text \<open>The calls a client makes. A conditional call names the document whose tag the client read
  before; what a read returns includes whether its tag is that of the document. The publisher
  does not look at the answer of a conditional deletion.\<close>

datatype store_call =
  Read string
| Write string document
| Write_If_Absent string document
| Write_If_Tagged string document document
| Remove string
| Remove_If_Tagged string document
| Listing string

datatype store_reply = Found document bool | Missing | Finished | Accepted bool | Keys "string list"

fun memoryCall :: "codec \<Rightarrow> store_call \<Rightarrow> memory_store \<Rightarrow> store_reply \<times> memory_store" where
  "memoryCall codec (Read key) s = (case getJsonWithMetadata codec s key of
     None \<Rightarrow> Missing | Some (value, t) \<Rightarrow> Found value (t = Some (etag codec value)), s)"
| "memoryCall codec (Write key value) s = (Finished, putJson key value s)"
| "memoryCall codec (Write_If_Absent key value) s = apfst Accepted (putJsonIfAbsent key value s)"
| "memoryCall codec (Write_If_Tagged key value old) s = apfst Accepted (putJsonIfMatch codec key value (etag codec old) s)"
| "memoryCall codec (Remove key) s = (Finished, deleteJson key s)"
| "memoryCall codec (Remove_If_Tagged key old) s = (Finished, snd (deleteJsonIfMatch codec key (etag codec old) s))"
| "memoryCall codec (Listing prefix) s = (Keys (listKeys s prefix), s)"

fun memoryRun :: "codec \<Rightarrow> store_call list \<Rightarrow> memory_store \<Rightarrow> store_reply list \<times> memory_store" where
  "memoryRun codec [] s = ([], s)"
| "memoryRun codec (call # calls) s = (case memoryCall codec call s of (reply, s') \<Rightarrow>
     apfst ((#) reply) (memoryRun codec calls s'))"

fun readReply :: "codec \<Rightarrow> (string \<Rightarrow> string) \<Rightarrow> store_failure + document \<times> string option \<Rightarrow> js_error + store_reply" where
  "readReply codec tag (Inl (No_Artifact key)) = Inr Missing"
| "readReply codec tag (Inl (Failure e)) = Inl e"
| "readReply codec tag (Inr (value, t)) = Inr (Found value (t = Some (tag (serializeJson codec value))))"

fun s3Operation :: "'w s3_store \<Rightarrow> codec \<Rightarrow> (string \<Rightarrow> document option) \<Rightarrow> (string \<Rightarrow> string) \<Rightarrow> store_call \<Rightarrow> 'w \<Rightarrow>
    ((js_error + store_reply) \<times> 'w) option" where
  "s3Operation store codec parse tag (Read key) w =
     Some (apfst (readReply codec tag) (s3_getJsonWithMetadata store parse key w))"
| "s3Operation store codec parse tag (Write key value) w =
     Some (apfst (map_sum id (\<lambda>_. Finished)) (s3_putJson store codec key value w))"
| "s3Operation store codec parse tag (Write_If_Absent key value) w =
     Some (apfst (map_sum id Accepted) (s3_putJsonIfAbsent store codec key value w))"
| "s3Operation store codec parse tag (Write_If_Tagged key value old) w =
     Some (apfst (map_sum id Accepted) (s3_putJsonIfMatch store codec key value (tag (serializeJson codec old)) w))"
| "s3Operation store codec parse tag (Remove key) w =
     Some (apfst (map_sum id (\<lambda>_. Finished)) (s3_deleteJson store key w))"
| "s3Operation store codec parse tag (Remove_If_Tagged key old) w =
     Some (apfst (map_sum id (\<lambda>_. Finished)) (s3_deleteJsonIfMatch store key (tag (serializeJson codec old)) w))"
| "s3Operation store codec parse tag (Listing prefix) w =
     map_option (apfst (map_sum id Keys)) (s3_listKeys store prefix w)"

text \<open>A run of calls stops at the first that throws.\<close>

fun s3Run :: "'w s3_store \<Rightarrow> codec \<Rightarrow> (string \<Rightarrow> document option) \<Rightarrow> (string \<Rightarrow> string) \<Rightarrow> store_call list \<Rightarrow> 'w \<Rightarrow>
    (store_reply list \<times> js_error option \<times> 'w) option" where
  "s3Run store codec parse tag [] w = Some ([], None, w)"
| "s3Run store codec parse tag (call # calls) w = (case s3Operation store codec parse tag call w of
     None \<Rightarrow> None
   | Some (Inl e, w') \<Rightarrow> Some ([], Some e, w')
   | Some (Inr reply, w') \<Rightarrow> map_option (apfst ((#) reply)) (s3Run store codec parse tag calls w'))"

text \<open>The bucket holds the texts of the documents of a memory store; \<open>documents\<close> are the documents
  in play, on which printing is undone by parsing and tags are as good as those of the memory
  store.\<close>

definition mirrors :: "codec \<Rightarrow> document set \<Rightarrow> (string \<rightharpoonup> string) \<Rightarrow> memory_store \<Rightarrow> bool" where
  "mirrors codec documents bucket s \<longleftrightarrow> bucket = map_option (serializeJson codec) \<circ> getJson s
     \<and> (\<forall>key value. getJson s key = Some value \<longrightarrow> value \<in> documents) \<and> distinct (map fst (ms_objects s))"

definition faithful :: "codec \<Rightarrow> (string \<Rightarrow> document option) \<Rightarrow> (string \<Rightarrow> string) \<Rightarrow> document set \<Rightarrow> bool" where
  "faithful codec parse tag documents \<longleftrightarrow> (\<forall>v \<in> documents. parse (serializeJson codec v) = Some v)
     \<and> (\<forall>v \<in> documents. \<forall>v' \<in> documents.
          tag (serializeJson codec v) = tag (serializeJson codec v') \<longleftrightarrow> etag codec v = etag codec v')"

fun documentsOf :: "store_call \<Rightarrow> document set" where
  "documentsOf (Write key value) = {value}"
| "documentsOf (Write_If_Absent key value) = {value}"
| "documentsOf (Write_If_Tagged key value old) = {value, old}"
| "documentsOf (Remove_If_Tagged key old) = {old}"
| "documentsOf call = {}"

section \<open>The store of the deployment is the in-memory store\<close>

lemma withS3Timeout_cases:
  assumes "withS3Timeout store race operation = r"
  shows "race = Some r \<or> (\<exists>e. r = Inl e \<and> \<not> isNotFoundError e \<and> \<not> isConditionalWriteFailure e)"
  using withTimeout_cases [OF assms [unfolded withS3Timeout_def]] by auto

lemma s3Call_cases:
  assumes "s3_service store objects tag place" "s3Call store command operation w = (r, w')"
  obtains (accepted) response where "r = Inr response" "accepts tag (objects w) command"
      "responds tag place (objects w) command response" "objects w' = effect command (objects w)"
  | (refused) name message where "r = Inl (Js_Error name message)" "name \<in> refusals tag (objects w) command"
      "objects w' = objects w"
  | (failed) e where "r = Inl e" "\<not> isNotFoundError e" "\<not> isConditionalWriteFailure e"
      "objects w' = objects w \<or> accepts tag (objects w) command \<and> objects w' = effect command (objects w)"
proof -
  obtain race where race: "s3_send store (s3_bucket store) command w = (race, w')" "withS3Timeout store race operation = r"
    using assms(2) by (auto simp: s3Call_def split: prod.splits)
  have service: "(\<exists>response. race = Some (Inr response) \<and> accepts tag (objects w) command
          \<and> responds tag place (objects w) command response \<and> objects w' = effect command (objects w))
       \<or> (\<exists>name message. race = Some (Inl (Js_Error name message)) \<and> name \<in> refusals tag (objects w) command
          \<and> objects w' = objects w)
       \<or> lost race \<and> (objects w' = objects w
          \<or> accepts tag (objects w) command \<and> objects w' = effect command (objects w))"
    using assms(1) race(1) unfolding s3_service_def by blast
  show ?thesis
  proof (cases "\<exists>e. r = Inl e \<and> \<not> isNotFoundError e \<and> \<not> isConditionalWriteFailure e")
    case True
    then show ?thesis using service failed by blast
  next
    case False
    then have "race = Some r" using withS3Timeout_cases [OF race(2)] by blast
    moreover from this have "\<not> lost race" using False by (auto simp: lost_def split: sum.splits)
    ultimately show ?thesis using service accepted refused by blast
  qed
qed

lemma mirrors_put:
  "mirrors codec documents bucket s \<Longrightarrow> value \<in> documents \<Longrightarrow>
     mirrors codec documents (bucket(key \<mapsto> serializeJson codec value)) (putJson key value s)"
  by (auto simp: mirrors_def putJson_def getJson_def update_conv' distinct_update fun_eq_iff split: if_splits)

lemma mirrors_delete:
  "mirrors codec documents bucket s \<Longrightarrow> mirrors codec documents (bucket(key := None)) (deleteJson key s)"
  by (auto simp: mirrors_def deleteJson_def getJson_def delete_conv' distinct_delete fun_eq_iff split: if_splits)

lemma mirrorsD:
  assumes "mirrors codec documents bucket s"
  shows "bucket key = map_option (serializeJson codec) (getJson s key)"
    and "getJson s key = Some value \<Longrightarrow> value \<in> documents"
  using assms by (auto simp: mirrors_def)

lemma codes_inject: "inj codes"
  by (metis injI list.inj_map_strong of_char_eq_iff)

lemma listing_unique:
  assumes "mirrors codec documents bucket s" shows "isListing bucket prefix (listKeys s prefix)"
proof -
  have "key \<in> set (map fst (ms_objects s)) \<longleftrightarrow> bucket key \<noteq> None" for key
    using mirrorsD(1) [OF assms, of key] by (simp add: getJson_def map_of_eq_None_iff)
  moreover have "distinct (map fst (ms_objects s))" using assms by (simp add: mirrors_def)
  ultimately show ?thesis by (auto simp: isListing_def listKeys_def)
qed

lemma s3_pages_listing:
  assumes "s3_service store objects tag place" "isListing (objects w) prefix listing"
    and "keys = take (place token) listing" "place token \<le> length listing"
  shows "\<exists>r w'. s3_pages store prefix keys token w = Some (r, w') \<and> objects w' = objects w
    \<and> (r = Inr listing \<or> isl r)"
  using assms(2-4)
proof (induction "length listing - place token" arbitrary: keys token w rule: less_induct)
  case less
  obtain r w' where call: "s3Call store (List_Objects prefix token) (''S3 ListObjectsV2 '' @ prefix) w = (r, w')"
    by fastforce
  show ?case
    using assms(1) call
  proof (cases rule: s3Call_cases)
    case (accepted response)
    then obtain n where n: "n > 0" "listedKeys response = take n (drop (place token) listing)"
      "if place token + n < length listing
       then \<exists>next'. sr_nextToken response = Some next' \<and> place (Some next') = place token + n
       else sr_nextToken response = None"
      using less(2) by auto
    have keys: "keys @ listedKeys response = take (place token + n) listing"
      using n(2) less(3) by (simp add: take_add)
    show ?thesis
    proof (cases "place token + n < length listing")
      case True
      then obtain next' where next': "sr_nextToken response = Some next'" "place (Some next') = place token + n"
        using n(3) by auto
      have "length listing - place (Some next') < length listing - place token" using True n(1) next'(2) by simp
      then have "\<exists>r w''. s3_pages store prefix (keys @ listedKeys response) (Some next') w' = Some (r, w'')
          \<and> objects w'' = objects w' \<and> (r = Inr listing \<or> isl r)"
        using less(1) [of "Some next'" w' "keys @ listedKeys response"] less(2) keys next'(2) accepted(4) True by simp
      then show ?thesis using call accepted(1,4) next'(1) by (simp add: s3_pages.simps)
    next
      case False
      then show ?thesis using call accepted(1,4) n(3) keys by (simp add: s3_pages.simps)
    qed
  next
    case (refused name message)
    then show ?thesis using call by (simp add: s3_pages.simps)
  next
    case (failed e)
    then show ?thesis using call by (auto simp: s3_pages.simps)
  qed
qed

text \<open>What a call to the deployed store may do: give the in-memory store's reply and follow its
  change, or throw with the change made or not.\<close>

definition follows :: "codec \<Rightarrow> document set \<Rightarrow> (string \<rightharpoonup> string) \<Rightarrow> store_call \<Rightarrow> memory_store \<Rightarrow>
    js_error + store_reply \<Rightarrow> bool" where
  "follows codec documents bucket call s r \<longleftrightarrow> (case memoryCall codec call s of (reply, s') \<Rightarrow>
     (case r of Inr reply' \<Rightarrow> reply' = reply \<and> mirrors codec documents bucket s'
      | Inl e \<Rightarrow> mirrors codec documents bucket s \<or> mirrors codec documents bucket s'))"

lemma follows_read:
  assumes "s3_service store objects tag place" "faithful codec parse tag documents" "mirrors codec documents (objects w) s"
  shows "\<exists>r w'. s3Operation store codec parse tag (Read key) w = Some (r, w')
    \<and> follows codec documents (objects w') (Read key) s r"
proof -
  obtain r w' where call: "s3Call store (Get_Object key) (''S3 GetObject '' @ key) w = (r, w')" by fastforce
  note lookup = mirrorsD(1) [OF assms(3), of key]
  show ?thesis
    using assms(1) call
  proof (cases rule: s3Call_cases)
    case (accepted response)
    then obtain doc where v: "getJson s key = Some doc" "objects w key = Some (serializeJson codec doc)"
      using lookup by (cases "getJson s key") auto
    then obtain bodyRead where body: "sr_body response = Some bodyRead"
      "lost bodyRead \<or> bodyRead = Some (Inr (serializeJson codec doc))"
      "sr_etag response = Some (tag (serializeJson codec doc))"
      using accepted(3) by auto
    have parse: "parse (serializeJson codec doc) = Some doc"
      using assms(2) mirrorsD(2) [OF assms(3) v(1)] by (simp add: faithful_def)
    have body_text: "(\<exists>e. withS3Timeout store bodyRead name = Inl e \<and> \<not> isNotFoundError e)
        \<or> withS3Timeout store bodyRead name = Inr (serializeJson codec doc)" for name
      using body(2) withS3Timeout_cases [of store bodyRead name, OF refl]
      by (cases bodyRead) (auto simp: lost_def split: sum.splits)
    show ?thesis
      using call accepted(1,4) body(1,3) v parse body_text [of "''S3 GetObject body '' @ key"] assms(3)
      by (auto simp: s3_getJsonWithMetadata_def readFailure_def follows_def getJsonWithMetadata_lookup)
  next
    case (refused name message)
    then show ?thesis using call lookup assms(3)
      by (auto simp: s3_getJsonWithMetadata_def readFailure_def follows_def getJsonWithMetadata_lookup split: if_splits)
  next
    case (failed e)
    then show ?thesis using call assms(3)
      by (auto simp: s3_getJsonWithMetadata_def readFailure_def follows_def)
  qed
qed

lemma faithful_tags:
  assumes "faithful codec parse tag documents" "mirrors codec documents bucket s" "old \<in> documents"
    and "getJson s key = Some doc"
  shows "tag (serializeJson codec doc) = tag (serializeJson codec old) \<longleftrightarrow> etag codec doc = etag codec old"
  using assms(1,3) mirrorsD(2) [OF assms(2,4)] by (simp add: faithful_def)

lemmas memory_defs = putJsonIfAbsent_def putJsonIfMatch_def deleteJsonIfMatch_def getJson_def [symmetric]

lemma follows_write:
  assumes "s3_service store objects tag place" "mirrors codec documents (objects w) s" "doc \<in> documents"
  shows "\<exists>r w'. s3Operation store codec parse tag (Write key doc) w = Some (r, w')
      \<and> follows codec documents (objects w') (Write key doc) s r"
    and "\<exists>r w'. s3Operation store codec parse tag (Write_If_Absent key doc) w = Some (r, w')
      \<and> follows codec documents (objects w') (Write_If_Absent key doc) s r"
proof -
  note put = mirrors_put [OF assms(2,3), of key] and lookup = mirrorsD(1) [OF assms(2), of key]
  obtain r w' where call: "s3Call store (Put_Object key (serializeJson codec doc) None None) (''S3 PutObject '' @ key) w = (r, w')"
    by fastforce
  from assms(1) call show "\<exists>r w'. s3Operation store codec parse tag (Write key doc) w = Some (r, w')
      \<and> follows codec documents (objects w') (Write key doc) s r"
    by (cases rule: s3Call_cases) (use call put assms(2) in \<open>auto simp: s3_putJson_def follows_def\<close>)
  obtain r w' where call: "s3Call store (Put_Object key (serializeJson codec doc) (Some ''*'') None)
      (''S3 PutObject '' @ key) w = (r, w')"
    by fastforce
  from assms(1) call show "\<exists>r w'. s3Operation store codec parse tag (Write_If_Absent key doc) w = Some (r, w')
      \<and> follows codec documents (objects w') (Write_If_Absent key doc) s r"
    by (cases rule: s3Call_cases)
      (use call put lookup assms(2) in \<open>auto simp: s3_putJsonIfAbsent_def conditionally_def follows_def memory_defs
         split: if_splits\<close>)
qed

lemma follows_write_if_tagged:
  assumes "s3_service store objects tag place" "faithful codec parse tag documents"
    and "mirrors codec documents (objects w) s" "doc \<in> documents" "old \<in> documents"
  shows "\<exists>r w'. s3Operation store codec parse tag (Write_If_Tagged key doc old) w = Some (r, w')
      \<and> follows codec documents (objects w') (Write_If_Tagged key doc old) s r"
proof -
  obtain r w' where call: "s3Call store (Put_Object key (serializeJson codec doc) None
      (Some (tag (serializeJson codec old)))) (''S3 PutObject '' @ key) w = (r, w')"
    by fastforce
  from assms(1) call show ?thesis
    by (cases rule: s3Call_cases)
      (use call mirrors_put [OF assms(3,4), of key] mirrorsD(1) [OF assms(3), of key] assms(3)
          faithful_tags [OF assms(2,3,5), of key] in
        \<open>auto simp: s3_putJsonIfMatch_def conditionally_def follows_def memory_defs split: if_splits option.splits\<close>)
qed

lemma follows_remove:
  assumes "s3_service store objects tag place" "mirrors codec documents (objects w) s"
  shows "\<exists>r w'. s3Operation store codec parse tag (Remove key) w = Some (r, w')
      \<and> follows codec documents (objects w') (Remove key) s r"
proof -
  obtain r w' where call: "s3Call store (Delete_Object key None) (''S3 DeleteObject '' @ key) w = (r, w')"
    by fastforce
  from assms(1) call show ?thesis
    by (cases rule: s3Call_cases)
      (use call mirrors_delete [OF assms(2), of key] assms(2) in \<open>auto simp: s3_deleteJson_def follows_def\<close>)
qed

lemma follows_remove_if_tagged:
  assumes "s3_service store objects tag place" "faithful codec parse tag documents"
    and "mirrors codec documents (objects w) s" "old \<in> documents"
  shows "\<exists>r w'. s3Operation store codec parse tag (Remove_If_Tagged key old) w = Some (r, w')
      \<and> follows codec documents (objects w') (Remove_If_Tagged key old) s r"
proof -
  obtain r w' where call: "s3Call store (Delete_Object key (Some (tag (serializeJson codec old))))
      (''S3 DeleteObject '' @ key) w = (r, w')"
    by fastforce
  have absent: "objects w key = None \<Longrightarrow> (objects w)(key := None) = objects w" by (simp add: fun_eq_iff)
  from assms(1) call show ?thesis
    by (cases rule: s3Call_cases)
      (use call absent mirrors_delete [OF assms(3), of key] mirrorsD(1) [OF assms(3), of key] assms(3)
          faithful_tags [OF assms(2,3,4), of key] in
        \<open>auto simp: s3_deleteJsonIfMatch_def conditionally_def follows_def memory_defs split: if_splits option.splits\<close>)
qed

lemma follows_listing:
  assumes "s3_service store objects tag place" "mirrors codec documents (objects w) s"
  shows "\<exists>r w'. s3Operation store codec parse tag (Listing prefix) w = Some (r, w')
      \<and> follows codec documents (objects w') (Listing prefix) s r"
proof -
  have "place None = 0" using assms(1) by (simp add: s3_service_def)
  then obtain r w' where "s3_pages store prefix [] None w = Some (r, w')" "objects w' = objects w"
      "r = Inr (listKeys s prefix) \<or> isl r"
    using s3_pages_listing [OF assms(1) listing_unique [OF assms(2), of prefix], of "[]" None] by force
  then show ?thesis using assms(2) by (auto simp: s3_listKeys_def follows_def isl_def)
qed

lemma s3_follows:
  assumes "s3_service store objects tag place" "faithful codec parse tag documents"
    and "mirrors codec documents (objects w) s" "documentsOf call \<subseteq> documents"
  shows "\<exists>r w'. s3Operation store codec parse tag call w = Some (r, w') \<and> follows codec documents (objects w') call s r"
  using assms(4) follows_read [OF assms(1-3)] follows_write [OF assms(1,3)] follows_write_if_tagged [OF assms(1-3)]
    follows_remove [OF assms(1,3)] follows_remove_if_tagged [OF assms(1-3)] follows_listing [OF assms(1,3)]
  by (cases call) (simp_all del: s3Operation.simps)

definition runFollows :: "codec \<Rightarrow> document set \<Rightarrow> (string \<rightharpoonup> string) \<Rightarrow> store_call list \<Rightarrow> memory_store \<Rightarrow>
    store_reply list \<Rightarrow> js_error option \<Rightarrow> bool" where
  "runFollows codec documents bucket calls s replies failure \<longleftrightarrow>
     replies = take (length replies) (fst (memoryRun codec calls s))
     \<and> (if failure = None
        then length replies = length calls \<and> mirrors codec documents bucket (snd (memoryRun codec calls s))
        else length replies < length calls \<and> (\<exists>n \<in> {length replies, Suc (length replies)}.
          mirrors codec documents bucket (snd (memoryRun codec (take n calls) s))))"

lemma runFollows_Cons:
  assumes "runFollows codec documents bucket calls s' replies failure" "memoryCall codec call s = (reply, s')"
  shows "runFollows codec documents bucket (call # calls) s (reply # replies) failure"
  using assms by (auto simp: runFollows_def simp del: memoryCall.simps split: if_splits)

lemma s3_run_follows:
  assumes "s3_service store objects tag place" "faithful codec parse tag documents"
    and "mirrors codec documents (objects w) s" "(\<Union>call \<in> set calls. documentsOf call) \<subseteq> documents"
  shows "\<exists>replies failure w'. s3Run store codec parse tag calls w = Some (replies, failure, w')
    \<and> runFollows codec documents (objects w') calls s replies failure"
  using assms(3,4)
proof (induction calls arbitrary: w s)
  case (Cons call calls)
  obtain r w' where step: "s3Operation store codec parse tag call w = Some (r, w')"
      "follows codec documents (objects w') call s r"
    using s3_follows [OF assms(1,2) Cons(2), of call] Cons(3) by auto
  obtain reply s' where memory: "memoryCall codec call s = (reply, s')" by fastforce
  show ?case
  proof (cases r)
    case (Inl e)
    then show ?thesis using step memory
      by (auto simp: follows_def runFollows_def simp del: s3Operation.simps memoryCall.simps)
  next
    case (Inr reply')
    then have "reply' = reply" "mirrors codec documents (objects w') s'"
      using step(2) memory by (auto simp: follows_def simp del: memoryCall.simps)
    moreover from this(2) obtain replies failure w'' where
      "s3Run store codec parse tag calls w' = Some (replies, failure, w'')"
      "runFollows codec documents (objects w'') calls s' replies failure"
      using Cons(1) [of w' s'] Cons(3) by auto
    ultimately show ?thesis using step(1) Inr runFollows_Cons [OF _ memory]
      by (auto simp del: s3Operation.simps)
  qed
qed (simp add: runFollows_def)


text \<open>The in-memory store answers a conditional upload to an absent key with \<open>False\<close>; a service that
  answers it with \<open>NoSuchKey\<close> makes the deployed store throw.\<close>

lemma s3_putJsonIfMatch_absent:
  assumes "s3_send store (s3_bucket store) (Put_Object key (serializeJson codec doc) None (Some t)) w =
      (Some (Inl (Js_Error ''NoSuchKey'' message)), w')"
    and "\<forall>n. s3_requestTimeoutMs store = Some n \<longrightarrow> n > 0"
  shows "s3_putJsonIfMatch store codec key doc t w = (Inl (Js_Error ''NoSuchKey'' message), w')"
  using assms by (cases "s3_requestTimeoutMs store") (simp_all add: s3_putJsonIfMatch_def s3Call_def conditionally_def
      withS3Timeout_def withTimeout_def validateTimeoutMs_def DEFAULT_EXTERNAL_REQUEST_TIMEOUT_MS_def nullish_def)

section \<open>A small service\<close>

text \<open>It lists one key at a time, its tags are the bodies and every third call is lost.\<close>

lemma isListing_inject:
  assumes "isListing bucket prefix keys" "isListing bucket prefix keys'" shows "keys = keys'"
proof -
  have "map codes keys = map codes keys'"
    using assms by (intro sorted_distinct_set_unique) (auto simp: isListing_def distinct_map
        intro: inj_on_subset [OF codes_inject])
  then show ?thesis using inj_map_eq_map [OF codes_inject] by blast
qed

definition sampleListing :: "(string \<times> string) list \<Rightarrow> string \<Rightarrow> string list" where
  "sampleListing bucket prefix = sort_key codes (remdups (filter (\<lambda>key. startsWith key prefix) (map fst bucket)))"

lemma isListing_sample: "isListing (map_of bucket) prefix (sampleListing bucket prefix)"
proof -
  have "map_of bucket key \<noteq> None \<longleftrightarrow> key \<in> fst ` set bucket" for key by (simp add: map_of_eq_None_iff)
  then show ?thesis by (auto simp: isListing_def sampleListing_def)
qed

definition samplePlace :: "string option \<Rightarrow> nat" where "samplePlace token = case_option 0 str_nat token"

fun sampleResponse :: "(string \<times> string) list \<Rightarrow> s3_command \<Rightarrow> s3_response" where
  "sampleResponse bucket (Get_Object key) = \<lparr> sr_body = Some (map_option Inr (map_of bucket key)),
     sr_etag = map_of bucket key, sr_contents = None, sr_nextToken = None \<rparr>"
| "sampleResponse bucket (List_Objects prefix token) =
     (let keys = sampleListing bucket prefix; n = samplePlace token
      in \<lparr> sr_body = None, sr_etag = None, sr_contents = Some (map Some (take 1 (drop n keys))),
           sr_nextToken = (if n + 1 < length keys then Some (nat_str (n + 1)) else None) \<rparr>)"
| "sampleResponse bucket command = \<lparr> sr_body = None, sr_etag = None, sr_contents = None, sr_nextToken = None \<rparr>"

fun sampleChange :: "s3_command \<Rightarrow> (string \<times> string) list \<Rightarrow> (string \<times> string) list" where
  "sampleChange (Put_Object key body ifNoneMatch ifMatch) bucket = AList.update key body bucket"
| "sampleChange (Delete_Object key ifMatch) bucket = AList.delete key bucket"
| "sampleChange command bucket = bucket"

definition sample_s3 :: "((string \<times> string) list \<times> nat) s3_store" where
  "sample_s3 = \<lparr> s3_send = (\<lambda>_ command (bucket, n).
       if n mod 3 = 2 then (None, (bucket, n + 1))
       else if accepts (\<lambda>body. body) (map_of bucket) command
       then (Some (Inr (sampleResponse bucket command)), (sampleChange command bucket, n + 1))
       else (Some (Inl (Js_Error (case command of Get_Object key \<Rightarrow> ''NoSuchKey'' | _ \<Rightarrow> ''PreconditionFailed'') '''')), (bucket, n + 1))),
     s3_bucket = ''b'', s3_requestTimeoutMs = None \<rparr>"

lemma sampleChange_effect: "map_of (sampleChange command bucket) = effect command (map_of bucket)"
  by (cases command) (auto simp: update_conv' delete_conv')

lemma sample_refused:
  "\<not> accepts tag bucket command \<Longrightarrow>
     (case command of Get_Object key \<Rightarrow> ''NoSuchKey'' | _ \<Rightarrow> ''PreconditionFailed'') \<in> refusals tag bucket command"
  by (cases command) (auto split: if_splits option.splits)

lemma sample_responds: "accepts (\<lambda>body. body) (map_of bucket) command \<Longrightarrow>
    responds (\<lambda>body. body) samplePlace (map_of bucket) command (sampleResponse bucket command)"
proof (cases command)
  case (List_Objects prefix token)
  have "listedKeys (sampleResponse bucket command) = take 1 (drop (samplePlace token) (sampleListing bucket prefix))"
    by (simp add: List_Objects listedKeys_def Let_def map_filter_def)
  then show ?thesis using isListing_inject [OF _ isListing_sample]
    by (auto simp: List_Objects Let_def samplePlace_def str_nat_nat_str intro!: exI [of _ 1])
qed (auto split: if_splits)

lemma sample_service: "s3_service sample_s3 (map_of \<circ> fst) (\<lambda>body. body) samplePlace"
  by (auto simp: s3_service_def sample_s3_def samplePlace_def lost_def sampleChange_effect sample_responds sample_refused
      split: if_splits)

definition text_codec :: codec where
  "text_codec = \<lparr> cd_stringify = (\<lambda>d. case d of Schema_Doc s \<Rightarrow> s | _ \<Rightarrow> ''''), cd_sha256 = (\<lambda>s. s), cd_byteLength = length \<rparr>"

definition text_parse :: "string \<Rightarrow> document option" where "text_parse s = Some (Schema_Doc (butlast s))"

lemma text_faithful: "faithful text_codec text_parse (\<lambda>body. body) (range Schema_Doc)"
  by (auto simp: faithful_def text_codec_def text_parse_def serializeJson_def etag_def)


end
