(* ===== verification/Deployment.thy ===== *)
theory Deployment
  imports S3_Store Publish_Serve Rpc
begin

text \<open>
  How the publisher and the API are set up from their environment (\<open>publishMetricsArtifactsFromEnv\<close>
  in \<open>publisher.ts\<close>, \<open>apps/metrics-api/src/config.ts\<close>) and the API's reader of the bucket
  (\<open>apps/metrics-api/src/artifact-store.ts\<close>). \<open>env name\<close> is the value of a variable, \<open>fl\<close> rounds a
  number literal to a double.
\<close>

section \<open>Settings of the publisher\<close>

definition andThen :: "'e + 'a \<Rightarrow> ('a \<Rightarrow> 'e + 'b) \<Rightarrow> 'e + 'b" where
  "andThen r f = (case r of Inl e \<Rightarrow> Inl e | Inr x \<Rightarrow> f x)"

lemma andThen_Inr: "andThen r f = Inr y \<longleftrightarrow> (\<exists>x. r = Inr x \<and> f x = Inr y)"
  by (auto simp: andThen_def split: sum.splits)

record s3_settings =
  ss_bucket :: string
  ss_endpoint :: string
  ss_region :: string
  ss_accessKeyId :: string
  ss_secretAccessKey :: string
  ss_requestTimeoutMs :: "int option"

definition s3SettingsFromEnv :: "(string \<rightharpoonup> string) \<Rightarrow> int option \<Rightarrow> string + s3_settings" where
  "s3SettingsFromEnv env requestTimeoutMs =
     andThen (requiredEnv env ''ARTIFACT_BUCKET'') (\<lambda>bucket.
     andThen (requiredEnv env ''ARTIFACT_ENDPOINT'') (\<lambda>endpoint.
     andThen (requiredEnv env ''ARTIFACT_REGION'') (\<lambda>region.
     andThen (requiredEnv env ''ARTIFACT_ACCESS_KEY_ID'') (\<lambda>accessKeyId.
     andThen (requiredEnv env ''ARTIFACT_SECRET_ACCESS_KEY'') (\<lambda>secretAccessKey.
       Inr \<lparr> ss_bucket = bucket, ss_endpoint = endpoint, ss_region = region, ss_accessKeyId = accessKeyId,
         ss_secretAccessKey = secretAccessKey, ss_requestTimeoutMs = requestTimeoutMs \<rparr>)))))"

definition createArtifactStoreFromEnv :: "(string \<rightharpoonup> string) \<Rightarrow> int \<Rightarrow> string + s3_settings" where
  "createArtifactStoreFromEnv env requestTimeoutMs = s3SettingsFromEnv env (Some requestTimeoutMs)"

record source_settings =
  sr_endpoint :: string
  sr_adminSecret :: string
  sr_requestTimeoutMs :: int

definition createMetricsSourceFromEnv :: "(string \<rightharpoonup> string) \<Rightarrow> int \<Rightarrow> string + source_settings" where
  "createMetricsSourceFromEnv env requestTimeoutMs =
     andThen (requiredEnv env ''HASURA_GRAPHQL_ENDPOINT'') (\<lambda>endpoint.
     andThen (requiredEnv env ''HASURA_GRAPHQL_ADMIN_SECRET'') (\<lambda>adminSecret.
       Inr \<lparr> sr_endpoint = endpoint, sr_adminSecret = adminSecret, sr_requestTimeoutMs = requestTimeoutMs \<rparr>))"

definition parseOptionalPositiveIntegerEnv :: "(rat \<Rightarrow> bignumber) \<Rightarrow> (string \<rightharpoonup> string) \<Rightarrow> string \<Rightarrow> int \<Rightarrow> string + int" where
  "parseOptionalPositiveIntegerEnv fl env name defaultValue = (case optionalEnv env name of
       None \<Rightarrow> Inr defaultValue
     | Some text \<Rightarrow> (case positiveInteger (numberOf fl text) of
         None \<Rightarrow> Inl (name @ '' must be a positive integer.'') | Some n \<Rightarrow> Inr (int n)))"

text \<open>\<open>lockTtlMs\<close> is any number here, NaN included; \<open>publishMetricsArtifacts\<close> refuses it when it is not
  a positive integer.\<close>

record publisher_settings =
  ps_publicStartDate :: "string option"
  ps_startDate :: "string option"
  ps_endDate :: "string option"
  ps_source :: source_settings
  ps_store :: s3_settings
  ps_lockTtlMs :: "bignumber option"
  ps_deploymentId :: string

definition publishMetricsArtifactsFromEnv :: "(rat \<Rightarrow> bignumber) \<Rightarrow> (string \<rightharpoonup> string) \<Rightarrow> string + publisher_settings" where
  "publishMetricsArtifactsFromEnv fl env =
     andThen (parseOptionalPositiveIntegerEnv fl env ''PUBLISHER_REQUEST_TIMEOUT_MS'' DEFAULT_EXTERNAL_REQUEST_TIMEOUT_MS)
       (\<lambda>requestTimeoutMs.
     andThen (createMetricsSourceFromEnv env requestTimeoutMs) (\<lambda>source.
     andThen (createArtifactStoreFromEnv env requestTimeoutMs) (\<lambda>store.
     andThen (resolvePublisherDeploymentId env) (\<lambda>deploymentId.
       Inr \<lparr> ps_publicStartDate = optionalEnv env ''PUBLISHER_PUBLIC_START_DATE'',
         ps_startDate = optionalEnv env ''PUBLISHER_START_DATE'', ps_endDate = optionalEnv env ''PUBLISHER_END_DATE'',
         ps_source = source, ps_store = store,
         ps_lockTtlMs = map_option (numberOf fl) (optionalEnv env ''PUBLISHER_LOCK_TTL_MS''),
         ps_deploymentId = deploymentId \<rparr>))))"

section \<open>Settings of the API\<close>

definition metricsApiPortFromEnv :: "(rat \<Rightarrow> bignumber) \<Rightarrow> (string \<rightharpoonup> string) \<Rightarrow> string + nat" where
  "metricsApiPortFromEnv fl env =
     (let text = nullish (env ''PORT'') (nullish (env ''METRICS_API_PORT'') ''3000'')
      in case positiveInteger (numberOf fl text) of
           None \<Rightarrow> Inl ''PORT or METRICS_API_PORT must be a valid TCP port.''
         | Some port \<Rightarrow> if port > 65535 then Inl ''PORT or METRICS_API_PORT must be a valid TCP port.'' else Inr port)"

definition createArtifactReaderFromEnv :: "(string \<rightharpoonup> string) \<Rightarrow> string + s3_settings" where
  "createArtifactReaderFromEnv env = s3SettingsFromEnv env None"

definition metricsApiConfigFromEnv :: "(rat \<Rightarrow> bignumber) \<Rightarrow> (string \<rightharpoonup> string) \<Rightarrow> string + nat \<times> s3_settings" where
  "metricsApiConfigFromEnv fl env =
     (case positiveInteger (numberOf fl (nullish (env ''METRICS_API_MAX_RANGE_DAYS'') ''366'')) of
        None \<Rightarrow> Inl ''METRICS_API_MAX_RANGE_DAYS must be a positive integer.''
      | Some maxRangeDays \<Rightarrow> andThen (createArtifactReaderFromEnv env) (\<lambda>reader. Inr (maxRangeDays, reader)))"

text \<open>\<open>connect\<close> is the constructor of the S3 client.\<close>

definition s3Of :: "(s3_settings \<Rightarrow> string \<Rightarrow> s3_command \<Rightarrow> 'w \<Rightarrow> (js_error + s3_response) option \<times> 'w) \<Rightarrow>
    s3_settings \<Rightarrow> 'w s3_store" where
  "s3Of connect settings = \<lparr> s3_send = connect (settings \<lparr> ss_requestTimeoutMs := None \<rparr>), s3_bucket = ss_bucket settings,
     s3_requestTimeoutMs = ss_requestTimeoutMs settings \<rparr>"

section \<open>The API's reader\<close>

text \<open>Nothing bounds the wait here: \<open>None\<close> is a read that never settles.\<close>

fun readerFailure :: "js_error \<Rightarrow> read_error" where
  "readerFailure (Js_Error name message) =
     (if isNotFoundError (Js_Error name message) then Artifact_Not_Found else Read_Failure message)"
| "readerFailure Not_An_Error = Read_Failure ''unknown''"

definition reader_getJson :: "'w s3_store \<Rightarrow> (string \<Rightarrow> document option) \<Rightarrow> string \<Rightarrow> 'w \<Rightarrow>
    (read_error + document) option \<times> 'w" where
  "reader_getJson store parse key w = (case s3_send store (s3_bucket store) (Get_Object key) w of
       (None, w') \<Rightarrow> (None, w')
     | (Some (Inl e), w') \<Rightarrow> (Some (Inl (readerFailure e)), w')
     | (Some (Inr response), w') \<Rightarrow> (case sr_body response of
           None \<Rightarrow> Some (Inl (Read_Failure (''Artifact '' @ key @ '' had no response body.'')))
         | Some None \<Rightarrow> None
         | Some (Some (Inl e)) \<Rightarrow> Some (Inl (readerFailure e))
         | Some (Some (Inr body)) \<Rightarrow> (case parse body of
             None \<Rightarrow> Some (Inl (Read_Failure ''JSON'')) | Some document \<Rightarrow> Some (Inr document)), w'))"

section \<open>What the API reads is what the publisher wrote\<close>

lemma s3SettingsFromEnv_same:
  assumes "\<forall>name. startsWith name ''ARTIFACT_'' \<longrightarrow> env name = env' name"
    and "s3SettingsFromEnv env t = Inr a" "s3SettingsFromEnv env' t' = Inr b"
  shows "b = a \<lparr> ss_requestTimeoutMs := t' \<rparr>"
proof -
  have "requiredEnv env' name = requiredEnv env name" if "startsWith name ''ARTIFACT_''" for name
    using assms(1) that by (simp add: requiredEnv_def)
  then show ?thesis using assms(2,3)
    by (auto simp: s3SettingsFromEnv_def andThen_Inr startsWith_def)
qed

lemma s3Of_same:
  assumes "b = a \<lparr> ss_requestTimeoutMs := t \<rparr>" "s3_service (s3Of connect a) objects tag place"
  shows "s3_service (s3Of connect b) objects tag place"
  using assms by (simp add: s3_service_def s3Of_def)

lemma readerFailure_lost:
  "\<not> isNotFoundError e \<Longrightarrow> \<exists>message. readerFailure e = Read_Failure message"
  by (cases e) auto

lemma reader_follows:
  assumes "s3_service store objects tag place" "faithful codec parse tag documents"
    and "mirrors codec documents (objects w) s" "reader_getJson store parse key w = (Some r, w')"
  shows "objects w' = objects w \<and> (r = storeReader s key \<or> (\<exists>message. r = Inl (Read_Failure message)))"
proof -
  obtain race w1 where race: "s3_send store (s3_bucket store) (Get_Object key) w = (race, w1)" by fastforce
  note lookup = mirrorsD(1) [OF assms(3), of key]
  have parses: "getJson s key = Some doc \<Longrightarrow> parse (serializeJson codec doc) = Some doc" for doc
    using assms(2) mirrorsD(2) [OF assms(3)] by (simp add: faithful_def)
  let ?command = "Get_Object key"
  have service: "(\<exists>response. race = Some (Inr response) \<and> accepts tag (objects w) ?command
          \<and> responds tag place (objects w) ?command response \<and> objects w1 = effect ?command (objects w))
       \<or> (\<exists>name message. race = Some (Inl (Js_Error name message)) \<and> name \<in> refusals tag (objects w) ?command
          \<and> objects w1 = objects w)
       \<or> lost race \<and> (objects w1 = objects w
          \<or> accepts tag (objects w) ?command \<and> objects w1 = effect ?command (objects w))"
    using assms(1) race unfolding s3_service_def by blast
  have "(\<exists>response bodyRead doc. race = Some (Inr response) \<and> getJson s key = Some doc \<and> objects w1 = objects w
        \<and> sr_body response = Some bodyRead \<and> (lost bodyRead \<or> bodyRead = Some (Inr (serializeJson codec doc))))
      \<or> (\<exists>message. race = Some (Inl (Js_Error ''NoSuchKey'' message)) \<and> getJson s key = None \<and> objects w1 = objects w)
      \<or> lost race \<and> objects w1 = objects w"
    using service lookup by (cases "getJson s key") auto
  then consider (answered) response bodyRead doc where "race = Some (Inr response)" "getJson s key = Some doc"
      "objects w1 = objects w" "sr_body response = Some bodyRead"
      "lost bodyRead \<or> bodyRead = Some (Inr (serializeJson codec doc))"
    | (absent) message where "race = Some (Inl (Js_Error ''NoSuchKey'' message))" "getJson s key = None" "objects w1 = objects w"
    | (lost) "lost race" "objects w1 = objects w"
    by blast
  then show ?thesis
  proof cases
    case answered
    then show ?thesis using race assms(4) parses [of doc] readerFailure_lost
      by (auto simp: reader_getJson_def storeReader_def lost_def split: option.splits sum.splits)
  next
    case absent
    then show ?thesis using race assms(4) by (auto simp: reader_getJson_def storeReader_def)
  next
    case lost
    then show ?thesis using race assms(4) readerFailure_lost
      by (auto simp: reader_getJson_def lost_def split: option.splits sum.splits)
  qed
qed


definition sample_env :: "string \<rightharpoonup> string" where
  "sample_env = map_of [(''ARTIFACT_BUCKET'', ''b''), (''ARTIFACT_ENDPOINT'', ''e''), (''ARTIFACT_REGION'', ''r''),
     (''ARTIFACT_ACCESS_KEY_ID'', ''k''), (''ARTIFACT_SECRET_ACCESS_KEY'', '' s ''), (''HASURA_GRAPHQL_ENDPOINT'', ''h''),
     (''HASURA_GRAPHQL_ADMIN_SECRET'', ''a''), (''INDEXER_DEPLOYMENT_ID'', ''build-1'')]"

definition sample_s3_settings :: s3_settings where
  "sample_s3_settings = \<lparr> ss_bucket = ''b'', ss_endpoint = ''e'', ss_region = ''r'', ss_accessKeyId = ''k'',
     ss_secretAccessKey = ''s'', ss_requestTimeoutMs = None \<rparr>"

abbreviation sample_connect :: "s3_settings \<Rightarrow> string \<Rightarrow> s3_command \<Rightarrow> (string \<times> string) list \<times> nat \<Rightarrow>
    (js_error + s3_response) option \<times> (string \<times> string) list \<times> nat" where
  "sample_connect \<equiv> \<lambda>_. s3_send sample_s3"

lemma sample_connected: "s3_service (s3Of sample_connect settings) (map_of \<circ> fst) (\<lambda>body. body) samplePlace"
  using sample_service by (simp add: s3_service_def s3Of_def sample_s3_def)

lemma default_days: "positiveInteger (numberOf Fin ''366'') = Some 366"
  by (simp add: numberOf_def trim_def isSpace_def parseDecimal_def splitAt_def parseExponent_def parseRadix_def
      radixDigit_def lower_char_def nullish_def positiveInteger_def)

lemma sample_settings:
  "publishMetricsArtifactsFromEnv Fin sample_env = Inr \<lparr> ps_publicStartDate = None, ps_startDate = None, ps_endDate = None,
     ps_source = \<lparr> sr_endpoint = ''h'', sr_adminSecret = ''a'', sr_requestTimeoutMs = 60000 \<rparr>,
     ps_store = sample_s3_settings \<lparr> ss_requestTimeoutMs := Some 60000 \<rparr>, ps_lockTtlMs = None, ps_deploymentId = ''build-1'' \<rparr>"
  "metricsApiConfigFromEnv Fin sample_env = Inr (366, sample_s3_settings)"
  by (simp_all add: publishMetricsArtifactsFromEnv_def metricsApiConfigFromEnv_def createMetricsSourceFromEnv_def
      createArtifactStoreFromEnv_def createArtifactReaderFromEnv_def s3SettingsFromEnv_def andThen_def requiredEnv_def
      optionalEnv_def resolvePublisherDeploymentId_def parseOptionalPositiveIntegerEnv_def sample_env_def
      DEFAULT_EXTERNAL_REQUEST_TIMEOUT_MS_def trim_def isSpace_def nullish_def default_days sample_s3_settings_def)

abbreviation sample_run_store :: "((string \<times> string) list \<times> nat) s3_store" where
  "sample_run_store \<equiv> s3Of sample_connect (sample_s3_settings \<lparr> ss_requestTimeoutMs := Some 60000 \<rparr>)"

lemma sample_s3_run:
  "s3Run sample_run_store text_codec text_parse (\<lambda>body. body) [Write ''a'' (Schema_Doc ''1'')] ([], 0)
     = Some ([Finished], None, [(''a'', ''1'' @ [CHR 0x0A])], 1)"
  "reader_getJson (s3Of sample_connect sample_s3_settings) text_parse ''a'' ([(''a'', ''1'' @ [CHR 0x0A])], 1)
     = (Some (Inr (Schema_Doc ''1'')), [(''a'', ''1'' @ [CHR 0x0A])], 2)"
  by (simp_all add: s3_putJson_def s3Call_def withS3Timeout_def withTimeout_def validateTimeoutMs_def s3Of_def
      sample_s3_def sample_s3_settings_def serializeJson_def text_codec_def reader_getJson_def text_parse_def)


end
