(* ===== verification/Client_Api.thy ===== *)
theory Client_Api
  imports Publish_Serve
begin

text \<open>
  The legacy methods of the client (\<open>apps/client/src/client.ts\<close>, one per operation) against the
  legacy operations of the API (\<open>apps/metrics-api/src/server.ts\<close>): every method reaches its
  operation, and what the API makes of the input a method sends along.
\<close>

text \<open>Each method calls \<open>query\<close> with the name of its operation and passes its input on.\<close>

definition LEGACY_METHODS :: "(string \<times> string) list" where
  "LEGACY_METHODS = [
     (''getLatestMetrics'', ''latest/metrics''), (''getEarliestMetrics'', ''earliest/metrics''),
     (''getPaginatedMetrics'', ''paginated/metrics''),
     (''getLatestTokenRecords'', ''latest/tokenRecords''), (''getEarliestTokenRecords'', ''earliest/tokenRecords''),
     (''getPaginatedTokenRecords'', ''paginated/tokenRecords''),
     (''getLatestTokenSupplies'', ''latest/tokenSupplies''), (''getEarliestTokenSupplies'', ''earliest/tokenSupplies''),
     (''getPaginatedTokenSupplies'', ''paginated/tokenSupplies''),
     (''getLatestProtocolMetrics'', ''latest/protocolMetrics''), (''getEarliestProtocolMetrics'', ''earliest/protocolMetrics''),
     (''getPaginatedProtocolMetrics'', ''paginated/protocolMetrics'')]"

lemma legacy_method_path:
  assumes "(method, operation) \<in> set LEGACY_METHODS"
  shows "handleMetricsApiRequest (apiRequest (queryRequest operation input)) config =
    (case parseLegacyVariables config (case input of None \<Rightarrow> [] | Some v \<Rightarrow> [(''wg_variables'', v)]) of
       Inl e \<Rightarrow> Some (sendError (apiRequest (queryRequest operation input)) 400 True ''invalid_wg_variables'' e)
     | Inr variables \<Rightarrow> withManifest (apiRequest (queryRequest operation input)) config True (\<lambda>m.
         answer (apiRequest (queryRequest operation input)) True ''invalid_legacy_request''
           (map_sum id Legacy_Body (readLegacyOperation (''/operations/'' @ operation) variables config m))))"
proof -
  define path where "path = ''/operations/'' @ operation"
  have paths: "path \<in> set LEGACY_OPERATION_PATHS" "path \<notin> set LEGACY_AT_BLOCK_PATHS" "path \<noteq> ''/operations/health''"
    "path \<notin> {''/ready'', ''/openapi.json'', ''/docs'', ''/v2/bounds'', ''/v2/metrics/daily'', ''/v2/treasury-assets/daily'', ''/v2/ohm-supply/daily''}"
    using assms by (auto simp: path_def LEGACY_METHODS_def LEGACY_OPERATION_PATHS_def LEGACY_AT_BLOCK_PATHS_def)
  have params: "ar_url (apiRequest (queryRequest operation input)) = Some (path, case input of None \<Rightarrow> [] | Some v \<Rightarrow> [(''wg_variables'', v)])"
    by (simp add: path_def apiRequest_def queryRequest_def url_def getLegacyOperationPath_def setParam_def split: option.split)
  have valid: "validateQueryParams path (case input of None \<Rightarrow> [] | Some v \<Rightarrow> [(''wg_variables'', v)]) = None"
    by (simp add: path_def validateQueryParams_def supportedQueryParamsForPath_def startsWith_def split: option.split)
  have get: "ar_method (apiRequest rq) = ''GET''" "\<not> hasRequestBody (apiRequest rq)" for rq
    by (simp_all add: apiRequest_def hasRequestBody_def)
  show ?thesis
    using paths unfolding handleMetricsApiRequest_def params path_def [symmetric] by (simp add: get valid routeRequest_def)
qed


definition sample_config :: "(string \<times> json) list \<Rightarrow> api_config" where
  "sample_config entries = \<lparr> ac_maxRangeDays = 30, ac_manifest = Some \<lparr> mf_schemaVersion = ''1'', mf_generatedAt = '''',
     mf_indexerDeploymentId = None, mf_indexingProgress = None, mf_earliestDate = ''2024-01-01'', mf_latestDate = ''2024-01-31'',
     mf_artifacts = [] \<rparr>, ac_artifactReader = None, ac_generatedAt = None, ac_parseJson = (\<lambda>_. Some (JObject entries)),
     ac_decode = (\<lambda>_. None), ac_fl = (\<lambda>q. q) \<rparr>"


end
