(* ===== verification/Parity_Scripts.thy ===== *)
theory Parity_Scripts
  imports Metrics_Source Bignumber
begin

text \<open>
  The parity scripts, which compare the indexer with the service it replaces: day by day and field
  by field (\<open>scripts/parity-diff.ts\<close>) and, for one day, pair by pair of wallet and token
  (\<open>scripts/parity-records.ts\<close>). The answers of the two endpoints are parameters. \<open>fl\<close> rounds a
  sum or a difference to a double, \<open>number\<close> is \<open>Number(text)\<close> and \<open>numText\<close> is \<open>String(x)\<close>.
\<close>

section \<open>Arguments\<close>

text \<open>Arguments come in pairs \<open>--key value\<close>; a pair without a key is skipped, the last one of a key
  counts.\<close>

definition optionKey :: "string \<Rightarrow> string" where
  "optionKey text = (if take 2 text = ''--'' then drop 2 text else text)"

fun pairArgs :: "string list \<Rightarrow> (string \<times> string) list \<Rightarrow> (string \<times> string) list" where
  "pairArgs (key # v # rest) options =
     pairArgs rest (if optionKey key = [] then options else AList.update (optionKey key) v options)"
| "pairArgs _ options = options"

record cli_args =
  ca_startDate :: string
  ca_endDate :: string
  ca_envioUrl :: string
  ca_treasuryUrl :: string
  ca_tolerance :: bignumber
  ca_includeRecords :: bool

definition parseArgs :: "(string \<Rightarrow> bignumber) \<Rightarrow> string list \<Rightarrow> string + cli_args" where
  "parseArgs number argv = (let m = map_of (pairArgs argv []);
        args = (\<lambda>start until. \<lparr> ca_startDate = start, ca_endDate = until, ca_envioUrl = nullish (m ''envio'') [],
          ca_treasuryUrl = nullish (m ''treasury'') [], ca_tolerance = number (nullish (m ''tolerance'') ''0''),
          ca_includeRecords = (m ''include-records'' = Some ''true'') \<rparr>);
        given = (\<lambda>name. case m name of None \<Rightarrow> None | Some v \<Rightarrow> if v = [] then None else Some v)
     in case given ''date'' of Some date \<Rightarrow> Inr (args date date)
        | None \<Rightarrow> (case (given ''start'', given ''end'') of
            (Some start, Some until) \<Rightarrow> Inr (args start until)
          | _ \<Rightarrow> Inl ''Pass either --date YYYY-MM-DD or --start YYYY-MM-DD --end YYYY-MM-DD''))"

record cli =
  cl_date :: string
  cl_envioUrl :: string
  cl_treasuryUrl :: string
  cl_top :: bignumber
  cl_filterLiquid :: bool

definition parseRecordArgs :: "(string \<Rightarrow> bignumber) \<Rightarrow> string list \<Rightarrow> string + cli" where
  "parseRecordArgs number argv = (let m = map_of (pairArgs argv []) in
     if nullish (m ''date'') [] = [] then Inl ''Pass --date YYYY-MM-DD''
     else Inr \<lparr> cl_date = nullish (m ''date'') [], cl_envioUrl = nullish (m ''envio'') [],
       cl_treasuryUrl = nullish (m ''treasury'') [], cl_top = number (nullish (m ''top'') ''30''),
       cl_filterLiquid = (m ''only-liquid'' \<noteq> Some ''false'') \<rparr>)"

section \<open>Daily metrics\<close>

definition METRIC_FIELDS :: "string list" where
  "METRIC_FIELDS = [''ohmIndex'', ''ohmApy'', ''ohmTotalSupply'', ''ohmCirculatingSupply'', ''ohmFloatingSupply'',
     ''ohmBackedSupply'', ''gOhmBackedSupply'', ''ohmPrice'', ''gOhmPrice'', ''marketCap'', ''sOhmCirculatingSupply'',
     ''sOhmTotalValueLocked'', ''treasuryMarketValue'', ''treasuryLiquidBacking'',
     ''treasuryLiquidBackingPerOhmFloating'', ''treasuryLiquidBackingPerOhmBacked'',
     ''treasuryLiquidBackingPerGOhmBacked'']"

text \<open>A row: its date and the fields it has, absent ones counting as 0.\<close>

type_synonym metric_row = "string \<times> (string \<rightharpoonup> rat)"

text \<open>The answer of an endpoint: its status and, if the body has them, the rows.\<close>

definition fetchEnvio :: "nat \<times> string \<times> metric_row list option \<Rightarrow> string + metric_row list" where
  "fetchEnvio response = (case response of (status, text, body) \<Rightarrow>
     if \<not> (200 \<le> status \<and> status \<le> 299) then Inl (''Envio fetch failed: '' @ nat_str status @ '' '' @ text)
     else Inr (nullish body []))"

definition dateOffset :: "string \<Rightarrow> string \<Rightarrow> string + int" where
  "dateOffset startDate endDate = (case (lenientDate startDate, lenientDate endDate) of
     (Inr a, Inr b) \<Rightarrow> Inr (max 1 (b - a + 1)) | _ \<Rightarrow> Inl ''NaN'')"

definition fetchTreasury :: "nat \<times> string \<times> metric_row list option \<Rightarrow> string \<Rightarrow> string \<Rightarrow> string + metric_row list" where
  "fetchTreasury response startDate endDate = (case response of (status, text, body) \<Rightarrow>
     if \<not> (200 \<le> status \<and> status \<le> 299) then Inl (''Treasury fetch failed: '' @ nat_str status @ '' '' @ text)
     else Inr (filter (\<lambda>(date, _). \<not> strLess date startDate \<and> \<not> strLess endDate date) (nullish body [])))"

text \<open>One line of the report, as its five columns; \<open>new Map(rows.map(..))\<close> keeps the last row of a
  date.\<close>

type_synonym line = "string list"

definition byDate :: "metric_row list \<Rightarrow> string \<rightharpoonup> (string \<rightharpoonup> rat)" where
  "byDate rows = map_of (rev rows)"

definition fieldDiff :: "(rat \<Rightarrow> rat) \<Rightarrow> (string \<rightharpoonup> rat) \<Rightarrow> (string \<rightharpoonup> rat) \<Rightarrow> string \<Rightarrow> rat" where
  "fieldDiff fl envio treasury field = \<bar>fl (nullish (envio field) 0 - nullish (treasury field) 0)\<bar>"

definition fieldLines :: "(rat \<Rightarrow> rat) \<Rightarrow> (rat \<Rightarrow> string) \<Rightarrow> bignumber \<Rightarrow> string \<Rightarrow> (string \<rightharpoonup> rat) \<Rightarrow> (string \<rightharpoonup> rat) \<Rightarrow> line list" where
  "fieldLines fl numText tolerance date envio treasury =
     List.map_filter (\<lambda>field. let diff = fieldDiff fl envio treasury field in
       if bn_gt (Fin diff) tolerance
       then Some [date, field, numText (nullish (envio field) 0), numText (nullish (treasury field) 0), numText diff]
       else None) METRIC_FIELDS"

definition dateLines :: "(rat \<Rightarrow> rat) \<Rightarrow> (rat \<Rightarrow> string) \<Rightarrow> bignumber \<Rightarrow> metric_row list \<Rightarrow> metric_row list \<Rightarrow> string \<Rightarrow> line list" where
  "dateLines fl numText tolerance envioRows treasuryRows date = (case (byDate envioRows date, byDate treasuryRows date) of
       (Some envio, Some treasury) \<Rightarrow> fieldLines fl numText tolerance date envio treasury
     | (None, _) \<Rightarrow> [[date, ''_meta'', '''', ''1'', ''MISSING'']]
     | (Some _, None) \<Rightarrow> [[date, ''_meta'', ''1'', '''', ''MISSING'']])"

definition diffRows :: "(rat \<Rightarrow> rat) \<Rightarrow> (rat \<Rightarrow> string) \<Rightarrow> metric_row list \<Rightarrow> metric_row list \<Rightarrow> bignumber \<Rightarrow> line list" where
  "diffRows fl numText envioRows treasuryRows tolerance =
     (let allDates = sort_key (map (of_char :: char \<Rightarrow> nat)) (remdups (map fst envioRows @ map fst treasuryRows))
      in [''date'', ''field'', ''envio'', ''treasury'', ''diff'']
           # concat (map (dateLines fl numText tolerance envioRows treasuryRows) allDates))"

text \<open>The exit code of the script.\<close>

definition parityDiff :: "(rat \<Rightarrow> rat) \<Rightarrow> (rat \<Rightarrow> string) \<Rightarrow> string + cli_args \<Rightarrow> nat \<times> string \<times> metric_row list option \<Rightarrow>
    nat \<times> string \<times> metric_row list option \<Rightarrow> nat \<times> line list" where
  "parityDiff fl numText arguments envioResponse treasuryResponse = (case arguments of
       Inl _ \<Rightarrow> (1, [])
     | Inr args \<Rightarrow> if ca_envioUrl args = [] \<or> ca_treasuryUrl args = [] then (1, [])
         else (case (fetchEnvio envioResponse, fetchTreasury treasuryResponse (ca_startDate args) (ca_endDate args)) of
             (Inr envioRows, Inr treasuryRows) \<Rightarrow>
               (let out = diffRows fl numText envioRows treasuryRows (ca_tolerance args)
                in (if length out > 1 then 2 else 0, out))
           | _ \<Rightarrow> (1, [])))"

lemma dom_byDate: "dom (byDate rows) = fst ` set rows"
  by (simp add: byDate_def dom_map_of_conv_image_fst)

text \<open>Two maps agree on their keys and, key by key, on \<open>P\<close>.\<close>

lemma all_keys_both:
  "(\<forall>k \<in> dom m \<union> dom m'. \<exists>a b. m k = Some a \<and> m' k = Some b \<and> P a b) \<longleftrightarrow>
     dom m = dom m' \<and> (\<forall>k a b. m k = Some a \<and> m' k = Some b \<longrightarrow> P a b)"
  (is "?l \<longleftrightarrow> ?r")
proof
  assume ?l
  then have "dom m = dom m'" by (auto simp: dom_def)
  moreover have "P a b" if "m k = Some a" "m' k = Some b" for k a b
    using \<open>?l\<close> [rule_format, of k] that by auto
  ultimately show ?r by blast
next
  assume r: ?r
  show ?l
  proof
    fix k assume "k \<in> dom m \<union> dom m'"
    then obtain a b where "m k = Some a" "m' k = Some b" using r by blast
    then show "\<exists>a b. m k = Some a \<and> m' k = Some b \<and> P a b" using r by blast
  qed
qed

lemma fieldLines_Nil:
  "fieldLines fl numText tolerance date envio treasury = [] \<longleftrightarrow>
     list_all (\<lambda>field. \<not> bn_gt (Fin (fieldDiff fl envio treasury field)) tolerance) METRIC_FIELDS"
  by (auto simp: fieldLines_def List.map_filter_def filter_empty_conv list_all_iff Let_def split: if_splits)

lemma dateLines_Nil:
  "dateLines fl numText tolerance envioRows treasuryRows date = [] \<longleftrightarrow>
     (\<exists>envio treasury. byDate envioRows date = Some envio \<and> byDate treasuryRows date = Some treasury
        \<and> fieldLines fl numText tolerance date envio treasury = [])"
  by (auto simp: dateLines_def split: option.splits)

lemma diffRows_header:
  "length (diffRows fl numText envioRows treasuryRows tolerance) > 1 \<longleftrightarrow>
     \<not> (fst ` set envioRows = fst ` set treasuryRows
        \<and> (\<forall>date envio treasury. byDate envioRows date = Some envio \<and> byDate treasuryRows date = Some treasury \<longrightarrow>
             list_all (\<lambda>field. \<not> bn_gt (Fin (fieldDiff fl envio treasury field)) tolerance) METRIC_FIELDS))"
proof -
  let ?days = "fst ` set envioRows \<union> fst ` set treasuryRows"
  have "length (diffRows fl numText envioRows treasuryRows tolerance) > 1 \<longleftrightarrow>
      \<not> (\<forall>date \<in> ?days. dateLines fl numText tolerance envioRows treasuryRows date = [])"
    by (auto simp: diffRows_def Let_def)
  also have "(\<forall>date \<in> ?days. dateLines fl numText tolerance envioRows treasuryRows date = []) \<longleftrightarrow>
      fst ` set envioRows = fst ` set treasuryRows
        \<and> (\<forall>date envio treasury. byDate envioRows date = Some envio \<and> byDate treasuryRows date = Some treasury \<longrightarrow>
             list_all (\<lambda>field. \<not> bn_gt (Fin (fieldDiff fl envio treasury field)) tolerance) METRIC_FIELDS)"
    unfolding dateLines_Nil fieldLines_Nil dom_byDate [symmetric] by (rule all_keys_both)
  finally show ?thesis .
qed

text \<open>C40: The comparison passes exactly when both sides have the same days and no field of a day
  differs by more than the tolerance.\<close>

theorem parity_passes_iff:
  "fst (parityDiff fl numText arguments envioResponse treasuryResponse) = 0 \<longleftrightarrow>
     (\<exists>args envioRows treasuryRows. arguments = Inr args \<and> ca_envioUrl args \<noteq> [] \<and> ca_treasuryUrl args \<noteq> []
        \<and> fetchEnvio envioResponse = Inr envioRows
        \<and> fetchTreasury treasuryResponse (ca_startDate args) (ca_endDate args) = Inr treasuryRows
        \<and> fst ` set envioRows = fst ` set treasuryRows
        \<and> (\<forall>date envio treasury. byDate envioRows date = Some envio \<and> byDate treasuryRows date = Some treasury \<longrightarrow>
             list_all (\<lambda>field. \<not> bn_gt (Fin (fieldDiff fl envio treasury field)) (ca_tolerance args)) METRIC_FIELDS))"
  using diffRows_header [of fl numText]
  by (auto simp: parityDiff_def Let_def split: sum.splits if_splits)

text \<open>A tolerance that does not parse as a number turns the comparison of fields off: it passes as
  soon as both sides have the same days, whatever their figures.\<close>

theorem unreadable_tolerance_passes:
  assumes "number (nullish (map_of (pairArgs argv []) ''tolerance'') ''0'') = NaN" "parseArgs number argv = Inr args"
    and "ca_envioUrl args \<noteq> []" "ca_treasuryUrl args \<noteq> []" "fetchEnvio envioResponse = Inr envioRows"
    and "fetchTreasury treasuryResponse (ca_startDate args) (ca_endDate args) = Inr treasuryRows"
    and "fst ` set envioRows = fst ` set treasuryRows"
  shows "fst (parityDiff fl numText (parseArgs number argv) envioResponse treasuryResponse) = 0"
proof -
  have "ca_tolerance args = NaN" using assms(1,2) by (auto simp: parseArgs_def Let_def split: option.splits)
  moreover have "\<not> bn_gt x NaN" for x by (cases x) simp_all
  ultimately have "\<not> 1 < length (diffRows fl numText envioRows treasuryRows (ca_tolerance args))"
    using assms(7) unfolding diffRows_header by (simp add: list_all_iff)
  then show ?thesis using assms(2-6) by (simp add: parityDiff_def Let_def)
qed

definition sample_day :: "rat \<Rightarrow> nat \<times> string \<times> metric_row list option" where
  "sample_day price = (200, '''', Some [(''2024-01-01'', [''ohmPrice'' \<mapsto> price])])"

definition sample_argv :: "string \<Rightarrow> string list" where
  "sample_argv tolerance = [''--date'', ''2024-01-01'', ''--envio'', ''e'', ''--treasury'', ''t'', ''--tolerance'', tolerance]"

lemma sample_args:
  "parseArgs number (sample_argv tolerance) = Inr \<lparr> ca_startDate = ''2024-01-01'', ca_endDate = ''2024-01-01'',
     ca_envioUrl = ''e'', ca_treasuryUrl = ''t'', ca_tolerance = number tolerance, ca_includeRecords = False \<rparr>"
  "map_of (pairArgs (sample_argv tolerance) []) ''tolerance'' = Some tolerance"
  by (simp_all add: parseArgs_def sample_argv_def optionKey_def)

lemma sample_fetched:
  "fetchEnvio (sample_day p) = Inr [(''2024-01-01'', [''ohmPrice'' \<mapsto> p])]"
  "fetchTreasury (sample_day p) ''2024-01-01'' ''2024-01-01'' = Inr [(''2024-01-01'', [''ohmPrice'' \<mapsto> p])]"
  by (simp_all add: fetchEnvio_def fetchTreasury_def sample_day_def strLess_def)

theorem unreadable_tolerance_passes_witness:
  "fst (parityDiff (\<lambda>x. x) (\<lambda>_. '''') (parseArgs (\<lambda>_. NaN) (sample_argv ''1%'')) (sample_day 10) (sample_day 99)) = 0"
  by (rule unreadable_tolerance_passes [OF _ sample_args(1) _ _ sample_fetched(1),
        where treasuryRows = "[(''2024-01-01'', [''ohmPrice'' \<mapsto> 99])]"]) (simp_all add: sample_fetched sample_args)

theorem parity_passes_iff_witness:
  "fst (parityDiff (\<lambda>x. x) (\<lambda>_. '''') (parseArgs (\<lambda>_. Fin 1) (sample_argv ''1'')) (sample_day 10) (sample_day 11)) = 0
   \<and> fst (parityDiff (\<lambda>x. x) (\<lambda>_. '''') (parseArgs (\<lambda>_. Fin 1) (sample_argv ''1'')) (sample_day 10) (sample_day 12)) \<noteq> 0"
  unfolding parity_passes_iff sample_args
  by (simp add: sample_fetched byDate_def fieldDiff_def METRIC_FIELDS_def)

section \<open>Token records of a day\<close>

text \<open>A row as an endpoint gives it; the comparison brings both sides into one shape.\<close>

record raw_record =
  rd_date :: string
  rd_block :: raw_value
  rd_chainId :: "nat option"
  rd_blockchain :: "string option"
  rd_tokenAddress :: string
  rd_token :: string
  rd_sourceAddress :: string
  rd_source :: string
  rd_rate :: raw_value
  rd_balance :: raw_value
  rd_multiplier :: raw_value
  rd_value :: raw_value
  rd_valueExcludingOhm :: raw_value
  rd_isLiquid :: bool
  rd_category :: "string option"

record parity_row =
  pr_date :: string
  pr_block :: rat
  pr_chainId :: "nat option"
  pr_blockchain :: string
  pr_tokenAddress :: string
  pr_token :: string
  pr_sourceAddress :: string
  pr_source :: string
  pr_rate :: rat
  pr_balance :: rat
  pr_multiplier :: rat
  pr_value :: rat
  pr_valueExcludingOhm :: rat
  pr_isLiquid :: bool
  pr_category :: string

definition CHAIN_NAME_TO_ID :: "string \<rightharpoonup> nat" where
  "CHAIN_NAME_TO_ID = map_of [(''Ethereum'', 1), (''Mainnet'', 1), (''Polygon'', 137), (''Fantom'', 250),
     (''Base'', 8453), (''Arbitrum'', 42161), (''Berachain'', 80094)]"

definition normaliseRow :: "(rat \<Rightarrow> rat) \<Rightarrow> raw_record \<Rightarrow> parity_row" where
  "normaliseRow fl raw = (let blockchain = nullish (rd_blockchain raw) [] in
     \<lparr> pr_date = rd_date raw, pr_block = toNumber fl (rd_block raw),
       pr_chainId = (case rd_chainId raw of Some n \<Rightarrow> Some n | None \<Rightarrow> CHAIN_NAME_TO_ID blockchain),
       pr_blockchain = blockchain, pr_tokenAddress = toLowerCase (rd_tokenAddress raw), pr_token = rd_token raw,
       pr_sourceAddress = toLowerCase (rd_sourceAddress raw), pr_source = rd_source raw,
       pr_rate = toNumber fl (rd_rate raw), pr_balance = toNumber fl (rd_balance raw),
       pr_multiplier = toNumber fl (rd_multiplier raw), pr_value = toNumber fl (rd_value raw),
       pr_valueExcludingOhm = toNumber fl (rd_valueExcludingOhm raw), pr_isLiquid = rd_isLiquid raw,
       pr_category = nullish (rd_category raw) [] \<rparr>)"

text \<open>\<open>send offset\<close> is the answer to the page at an offset: its status and, if there, its rows.\<close>

definition fetchEnvioRecords :: "(rat \<Rightarrow> rat) \<Rightarrow> (nat \<Rightarrow> nat \<times> raw_record list option) \<Rightarrow> (string + parity_row list) option" where
  "fetchEnvioRecords fl send = pages 1000 (\<lambda>offset. case send offset of (status, body) \<Rightarrow>
     if \<not> (200 \<le> status \<and> status \<le> 299) then Inl (''Envio fetch failed: '' @ nat_str status)
     else Inr (map_option (map (normaliseRow fl)) body)) [] 0"

definition fetchTreasuryRecords :: "(rat \<Rightarrow> rat) \<Rightarrow> nat \<times> raw_record list option \<Rightarrow> string \<Rightarrow> string + parity_row list" where
  "fetchTreasuryRecords fl response date = (case response of (status, body) \<Rightarrow>
     if \<not> (200 \<le> status \<and> status \<le> 299) then Inl (''Treasury fetch failed: '' @ nat_str status)
     else Inr (filter (\<lambda>row. pr_date row = date) (map (normaliseRow fl) (nullish body []))))"

datatype chain_key = Chain_Number nat | Chain_Text string

definition chainKey :: "parity_row \<Rightarrow> chain_key" where
  "chainKey row = (case pr_chainId row of Some n \<Rightarrow> Chain_Number n | None \<Rightarrow> Chain_Text (pr_blockchain row))"

definition latestBlockPerChain :: "parity_row list \<Rightarrow> chain_key \<rightharpoonup> rat" where
  "latestBlockPerChain rows = foldl (\<lambda>latest row.
     if pr_block row > nullish (latest (chainKey row)) 0 then latest(chainKey row \<mapsto> pr_block row) else latest) Map.empty rows"

record aggregated =
  ag_blockchain :: string
  ag_source :: string
  ag_token :: string
  ag_value :: rat
  ag_valueExcludingOhm :: rat
  ag_isLiquid :: bool
  ag_rowCount :: nat

type_synonym pair_key = "chain_key \<times> string \<times> string"

definition pairKeyOf :: "parity_row \<Rightarrow> pair_key" where
  "pairKeyOf row = (chainKey row, pr_sourceAddress row, pr_tokenAddress row)"

definition addRow :: "(rat \<Rightarrow> rat) \<Rightarrow> parity_row \<Rightarrow> (pair_key \<times> aggregated) list \<Rightarrow> (pair_key \<times> aggregated) list" where
  "addRow fl row agg = (case map_of agg (pairKeyOf row) of
       Some existing \<Rightarrow> AList.update (pairKeyOf row) (existing \<lparr> ag_value := fl (ag_value existing + pr_value row),
         ag_valueExcludingOhm := fl (ag_valueExcludingOhm existing + pr_valueExcludingOhm row),
         ag_rowCount := ag_rowCount existing + 1, ag_isLiquid := ag_isLiquid existing \<or> pr_isLiquid row \<rparr>) agg
     | None \<Rightarrow> AList.update (pairKeyOf row) \<lparr> ag_blockchain = pr_blockchain row, ag_source = pr_source row,
         ag_token = pr_token row, ag_value = pr_value row, ag_valueExcludingOhm = pr_valueExcludingOhm row,
         ag_isLiquid = pr_isLiquid row, ag_rowCount = 1 \<rparr> agg)"

definition aggregateAtLatestBlock :: "(rat \<Rightarrow> rat) \<Rightarrow> parity_row list \<Rightarrow> (pair_key \<times> aggregated) list" where
  "aggregateAtLatestBlock fl rows = (let latest = latestBlockPerChain rows in
     foldl (\<lambda>agg row. if Some (pr_block row) \<noteq> latest (chainKey row) then agg else addRow fl row agg) [] rows)"

definition sumLiquidValue :: "(rat \<Rightarrow> rat) \<Rightarrow> (aggregated \<Rightarrow> rat) \<Rightarrow> aggregated list \<Rightarrow> rat" where
  "sumLiquidValue fl field rows = foldl (\<lambda>total row. if ag_isLiquid row then fl (total + field row) else total) 0 rows"

datatype presence = Both_Sides | Envio_Only | Treasury_Only

record divergence =
  dv_blockchain :: string
  dv_source :: string
  dv_token :: string
  dv_envioValue :: rat
  dv_treasuryValue :: rat
  dv_diff :: rat
  dv_presence :: presence

definition eitherSide :: "(aggregated \<Rightarrow> 'b) \<Rightarrow> 'b \<Rightarrow> aggregated option \<Rightarrow> aggregated option \<Rightarrow> 'b" where
  "eitherSide f d e t = nullish (map_option f e) (nullish (map_option f t) d)"

definition divergenceOf :: "(rat \<Rightarrow> rat) \<Rightarrow> bool \<Rightarrow> aggregated option \<Rightarrow> aggregated option \<Rightarrow> divergence option" where
  "divergenceOf fl filterLiquid e t =
     (let eV = nullish (map_option ag_valueExcludingOhm e) 0; tV = nullish (map_option ag_valueExcludingOhm t) 0;
          diff = fl (eV - tV)
      in if filterLiquid \<and> \<not> eitherSide ag_isLiquid False e t then None
         else if \<bar>diff\<bar> < fl (1 / 100) then None
         else Some \<lparr> dv_blockchain = eitherSide ag_blockchain [] e t, dv_source = eitherSide ag_source [] e t,
           dv_token = eitherSide ag_token [] e t, dv_envioValue = eV, dv_treasuryValue = tV, dv_diff = diff,
           dv_presence = (if e \<noteq> None \<and> t \<noteq> None then Both_Sides else if e \<noteq> None then Envio_Only else Treasury_Only) \<rparr>)"

definition pairKeys :: "(pair_key \<times> aggregated) list \<Rightarrow> (pair_key \<times> aggregated) list \<Rightarrow> pair_key list" where
  "pairKeys envio treasury = map fst envio @ filter (\<lambda>k. k \<notin> fst ` set envio) (map fst treasury)"

definition divergences :: "(rat \<Rightarrow> rat) \<Rightarrow> bool \<Rightarrow> (pair_key \<times> aggregated) list \<Rightarrow> (pair_key \<times> aggregated) list \<Rightarrow> divergence list" where
  "divergences fl filterLiquid envio treasury = sort_key (\<lambda>d. - \<bar>dv_diff d\<bar>)
     (List.map_filter (\<lambda>key. divergenceOf fl filterLiquid (map_of envio key) (map_of treasury key)) (pairKeys envio treasury))"

definition totalDiff :: "(rat \<Rightarrow> rat) \<Rightarrow> divergence list \<Rightarrow> rat" where
  "totalDiff fl ds = foldl (\<lambda>s d. fl (s + dv_diff d)) 0 ds"

text \<open>\<open>slice(0, count)\<close> of a list: fractions are cut off, a negative count leaves out the end.\<close>

fun sliceTo :: "bignumber \<Rightarrow> 'a list \<Rightarrow> 'a list" where
  "sliceTo (Fin q) xs = (let n = (if q < 0 then \<lceil>q\<rceil> else \<lfloor>q\<rfloor>) in
     if n < 0 then take (length xs - nat (- n)) xs else take (nat n) xs)"
| "sliceTo PosInf xs = xs"
| "sliceTo NegInf xs = []"
| "sliceTo NaN xs = []"

definition quoted :: "string \<Rightarrow> string" where
  "quoted s = CHR 0x22 # map (\<lambda>c. if c = CHR 0x22 then CHR 0x27 else c) s @ [CHR 0x22]"

fun presenceText :: "presence \<Rightarrow> string" where
  "presenceText Both_Sides = ''both''"
| "presenceText Envio_Only = ''envio-only''"
| "presenceText Treasury_Only = ''treasury-only''"

text \<open>The printed report and the exit code (\<open>main\<close>). \<open>toFixed\<close> prints a number with two digits,
  \<open>bnText\<close> a number as a template literal does; \<open>None\<close> is a run that never ends.\<close>

definition divergenceLine :: "(rat \<Rightarrow> string) \<Rightarrow> nat \<Rightarrow> divergence \<Rightarrow> string" where
  "divergenceLine toFixed idx d = joinWith '','' [nat_str (idx + 1), dv_blockchain d, quoted (dv_source d),
     quoted (dv_token d), toFixed (dv_envioValue d), toFixed (dv_treasuryValue d), toFixed (dv_diff d),
     presenceText (dv_presence d)]"

definition drilldownReport :: "(rat \<Rightarrow> rat) \<Rightarrow> (rat \<Rightarrow> string) \<Rightarrow> (bignumber \<Rightarrow> string) \<Rightarrow> cli \<Rightarrow>
    parity_row list \<Rightarrow> parity_row list \<Rightarrow> string list" where
  "drilldownReport fl toFixed bnText args envioRows treasuryRows =
     (let envioByPair = aggregateAtLatestBlock fl envioRows;
          treasuryByPair = aggregateAtLatestBlock fl treasuryRows;
          liquid = (\<lambda>field agg. sumLiquidValue fl field (map snd agg));
          envioLB = liquid ag_valueExcludingOhm envioByPair; treasuryLB = liquid ag_valueExcludingOhm treasuryByPair;
          envioMV = liquid ag_value envioByPair; treasuryMV = liquid ag_value treasuryByPair;
          ds = divergences fl (cl_filterLiquid args) envioByPair treasuryByPair
      in [''# Parity drill-down for '' @ cl_date args,
          ''# Envio rows: '' @ nat_str (length envioRows) @ '', unique pairs: '' @ nat_str (length envioByPair),
          ''# Treasury rows: '' @ nat_str (length treasuryRows) @ '', unique pairs: '' @ nat_str (length treasuryByPair),
          '''', ''## Aggregate (liquid only, sum across latest-block-per-pair)'',
          ''liquidBacking (valueExcludingOhm): envio='' @ toFixed envioLB @ '' treasury='' @ toFixed treasuryLB
            @ '' diff='' @ toFixed (fl (envioLB - treasuryLB)),
          ''liquidValue   (value)            : envio='' @ toFixed envioMV @ '' treasury='' @ toFixed treasuryMV
            @ '' diff='' @ toFixed (fl (envioMV - treasuryMV)),
          '''', ''## Top '' @ bnText (cl_top args) @ '' divergences by |diff| (liquid-only=''
            @ (if cl_filterLiquid args then ''true'' else ''false'') @ '')'',
          ''rank,blockchain,source,token,envio_xohm,treasury_xohm,diff,presence'']
         @ map (\<lambda>(idx, d). divergenceLine toFixed idx d) (List.enumerate 0 (sliceTo (cl_top args) ds))
         @ ['''', ''## Diff total across '' @ nat_str (length ds) @ '' divergent pairs: '' @ toFixed (totalDiff fl ds),
            ''## (For sanity: should approximate aggregate liquidBacking diff above.)''])"

definition parityRecords :: "(rat \<Rightarrow> rat) \<Rightarrow> (rat \<Rightarrow> string) \<Rightarrow> (bignumber \<Rightarrow> string) \<Rightarrow> string + cli \<Rightarrow>
    (string + parity_row list) option \<Rightarrow> string + parity_row list \<Rightarrow> (nat \<times> string list) option" where
  "parityRecords fl toFixed bnText parsed fetchedEnvio fetchedTreasury = (case parsed of
       Inl _ \<Rightarrow> Some (1, [])
     | Inr args \<Rightarrow> if cl_envioUrl args = [] \<or> cl_treasuryUrl args = [] then Some (1, [])
         else (case (fetchedEnvio, fetchedTreasury) of
             (Some (Inr envioRows), Inr treasuryRows) \<Rightarrow>
               Some (0, drilldownReport fl toFixed bnText args envioRows treasuryRows)
           | (None, Inr _) \<Rightarrow> None
           | _ \<Rightarrow> Some (1, [])))"

section \<open>What the drill-down adds up to\<close>

lemma distinct_addRow: "distinct (map fst agg) \<Longrightarrow> distinct (map fst (addRow fl row agg))"
  by (simp add: addRow_def distinct_update split: option.split)

lemma distinct_aggregate: "distinct (map fst (aggregateAtLatestBlock fl rows))"
proof -
  have "distinct (map fst (foldl (\<lambda>agg row. if Some (pr_block row) \<noteq> latest (chainKey row) then agg else addRow fl row agg) agg rows))"
    if "distinct (map fst agg)" for latest agg
    using that by (induction rows arbitrary: agg) (auto simp: distinct_addRow)
  then show ?thesis by (simp add: aggregateAtLatestBlock_def Let_def)
qed

text \<open>What a pair contributes to the liquid total of one side.\<close>

definition liquidAt :: "(pair_key \<times> aggregated) list \<Rightarrow> pair_key \<Rightarrow> rat" where
  "liquidAt agg key = (case map_of agg key of None \<Rightarrow> 0
     | Some a \<Rightarrow> if ag_isLiquid a then ag_valueExcludingOhm a else 0)"

lemma sumLiquid_sum:
  "sumLiquidValue (\<lambda>x. x) field rows = (\<Sum>row\<leftarrow>rows. if ag_isLiquid row then field row else 0)"
proof -
  have "foldl (\<lambda>total row. if ag_isLiquid row then total + field row else total) c rows
      = c + (\<Sum>row\<leftarrow>rows. if ag_isLiquid row then field row else 0)" for c :: rat
    by (induction rows arbitrary: c) (simp_all add: add.assoc)
  then show ?thesis by (simp add: sumLiquidValue_def)
qed

lemma sumLiquid_keys:
  assumes "distinct (map fst agg)" "finite K" "fst ` set agg \<subseteq> K"
  shows "sumLiquidValue (\<lambda>x. x) ag_valueExcludingOhm (map snd agg) = sum (liquidAt agg) K"
proof -
  have "sumLiquidValue (\<lambda>x. x) ag_valueExcludingOhm (map snd agg) = (\<Sum>p\<leftarrow>agg. liquidAt agg (fst p))"
    unfolding sumLiquid_sum map_map o_def
    using assms(1) by (intro arg_cong [where f = sum_list] map_cong refl) (auto simp: liquidAt_def)
  also have "\<dots> = sum (liquidAt agg) (fst ` set agg)"
    using assms(1) by (simp add: sum_list_distinct_conv_sum_set distinct_map sum.reindex)
  also have "\<dots> = sum (liquidAt agg) K"
    using assms(2,3) by (intro sum.mono_neutral_left) (auto simp: liquidAt_def map_of_eq_None_iff [symmetric] split: option.splits)
  finally show ?thesis .
qed

lemma totalDiff_sum: "totalDiff (\<lambda>x. x) ds = (\<Sum>d\<leftarrow>ds. dv_diff d)"
proof -
  have "foldl (\<lambda>s d. s + dv_diff d) c ds = c + (\<Sum>d\<leftarrow>ds. dv_diff d)" for c :: rat
    by (induction ds arbitrary: c) (simp_all add: add.assoc)
  then show ?thesis by (simp add: totalDiff_def)
qed

lemma sum_list_sort_key: "(\<Sum>x\<leftarrow>sort_key k xs. g x :: rat) = (\<Sum>x\<leftarrow>xs. g x)"
proof -
  have "sum_mset (image_mset g (mset (sort_key k xs))) = sum_mset (image_mset g (mset xs))" by simp
  then show ?thesis by (metis mset_map sum_mset_sum_list)
qed

lemma sum_list_map_filter: "(\<Sum>d\<leftarrow>List.map_filter F xs. g d :: rat) = (\<Sum>x\<leftarrow>xs. case F x of None \<Rightarrow> 0 | Some d \<Rightarrow> g d)"
  by (induction xs) (auto simp: List.map_filter_def split: option.splits)

lemma sum_skipped:
  "(\<Sum>x\<leftarrow>xs. if F x = None then c else 0 :: rat) = c * (of_nat (length xs) - of_nat (length (List.map_filter F xs)))"
  by (induction xs) (auto simp: List.map_filter_def algebra_simps)

lemma sum_list_bound:
  assumes "\<forall>x \<in> set xs. \<bar>f x - g x\<bar> \<le> h x"
  shows "\<bar>(\<Sum>x\<leftarrow>xs. f x) - (\<Sum>x\<leftarrow>xs. g x)\<bar> \<le> (\<Sum>x\<leftarrow>xs. h x :: rat)"
  using assms
proof (induction xs)
  case (Cons x xs)
  then have "\<bar>f x - g x\<bar> \<le> h x" "\<bar>(\<Sum>x\<leftarrow>xs. f x) - (\<Sum>x\<leftarrow>xs. g x)\<bar> \<le> (\<Sum>x\<leftarrow>xs. h x)" by simp_all
  then show ?case unfolding abs_le_iff by simp
qed simp

lemma divergence_close:
  assumes "\<And>e t. map_of envio k = Some e \<Longrightarrow> map_of treasury k = Some t \<Longrightarrow> ag_isLiquid e = ag_isLiquid t"
  shows "\<bar>(case divergenceOf (\<lambda>x. x) True (map_of envio k) (map_of treasury k) of None \<Rightarrow> 0 | Some d \<Rightarrow> dv_diff d)
      - (liquidAt envio k - liquidAt treasury k)\<bar>
    \<le> (if divergenceOf (\<lambda>x. x) True (map_of envio k) (map_of treasury k) = None then 1 / 100 else 0)"
proof (cases "map_of envio k")
  case None
  then show ?thesis
    by (cases "map_of treasury k") (simp_all add: divergenceOf_def Let_def liquidAt_def eitherSide_def)
next
  case (Some e)
  show ?thesis
  proof (cases "map_of treasury k")
    case None
    then show ?thesis using Some by (simp add: divergenceOf_def Let_def liquidAt_def eitherSide_def)
  next
    case t: (Some t)
    then have "ag_isLiquid e = ag_isLiquid t" using assms Some by blast
    then show ?thesis using Some t abs_minus_commute [of "ag_valueExcludingOhm t" "ag_valueExcludingOhm e"]
      by (simp add: divergenceOf_def Let_def liquidAt_def eitherSide_def)
  qed
qed

lemma sum_pairKeys:
  assumes "distinct (map fst envio)" "distinct (map fst treasury)"
  shows "(\<Sum>k\<leftarrow>pairKeys envio treasury. f k :: rat) = sum f (fst ` set envio \<union> fst ` set treasury)"
proof -
  have "distinct (pairKeys envio treasury)" using assms by (auto simp: pairKeys_def)
  then have "(\<Sum>k\<leftarrow>pairKeys envio treasury. f k) = sum f (set (pairKeys envio treasury))"
    by (rule sum_list_distinct_conv_sum_set)
  also have "set (pairKeys envio treasury) = fst ` set envio \<union> fst ` set treasury" by (auto simp: pairKeys_def)
  finally show ?thesis .
qed

text \<open>The differences listed by the drill-down add up to the difference of the liquid totals, up to
  one cent for every pair left out as too small, provided both sides agree on which of the pairs
  they share are liquid. The sums are exact here.\<close>

theorem drilldown_accounts_for_total:
  assumes "envio = aggregateAtLatestBlock (\<lambda>x. x) envioRows" "treasury = aggregateAtLatestBlock (\<lambda>x. x) treasuryRows"
    and "\<And>k e t. map_of envio k = Some e \<Longrightarrow> map_of treasury k = Some t \<Longrightarrow> ag_isLiquid e = ag_isLiquid t"
  shows "\<bar>totalDiff (\<lambda>x. x) (divergences (\<lambda>x. x) True envio treasury)
      - (sumLiquidValue (\<lambda>x. x) ag_valueExcludingOhm (map snd envio)
         - sumLiquidValue (\<lambda>x. x) ag_valueExcludingOhm (map snd treasury))\<bar>
    \<le> 1 / 100 * (of_nat (length (pairKeys envio treasury)) - of_nat (length (divergences (\<lambda>x. x) True envio treasury)))"
proof -
  let ?F = "\<lambda>k. divergenceOf (\<lambda>x. x) True (map_of envio k) (map_of treasury k)"
  let ?K = "fst ` set envio \<union> fst ` set treasury"
  note distinct = distinct_aggregate [of "\<lambda>x. x" envioRows, folded assms(1)] distinct_aggregate [of "\<lambda>x. x" treasuryRows, folded assms(2)]
  have total: "totalDiff (\<lambda>x. x) (divergences (\<lambda>x. x) True envio treasury)
      = (\<Sum>k\<leftarrow>pairKeys envio treasury. case ?F k of None \<Rightarrow> 0 | Some d \<Rightarrow> dv_diff d)"
    by (simp add: totalDiff_sum divergences_def sum_list_sort_key sum_list_map_filter)
  have "sumLiquidValue (\<lambda>x. x) ag_valueExcludingOhm (map snd envio)
      - sumLiquidValue (\<lambda>x. x) ag_valueExcludingOhm (map snd treasury) = sum (liquidAt envio) ?K - sum (liquidAt treasury) ?K"
    using sumLiquid_keys [OF distinct(1), of ?K] sumLiquid_keys [OF distinct(2), of ?K] by simp
  also have "\<dots> = (\<Sum>k\<leftarrow>pairKeys envio treasury. liquidAt envio k - liquidAt treasury k)"
    using sum_pairKeys [OF distinct, of "\<lambda>k. liquidAt envio k - liquidAt treasury k"] by (simp add: sum_subtractf)
  finally have liquid: "sumLiquidValue (\<lambda>x. x) ag_valueExcludingOhm (map snd envio)
      - sumLiquidValue (\<lambda>x. x) ag_valueExcludingOhm (map snd treasury)
      = (\<Sum>k\<leftarrow>pairKeys envio treasury. liquidAt envio k - liquidAt treasury k)" .
  have skipped: "(\<Sum>k\<leftarrow>pairKeys envio treasury. if ?F k = None then 1 / 100 else 0 :: rat)
      = 1 / 100 * (of_nat (length (pairKeys envio treasury)) - of_nat (length (divergences (\<lambda>x. x) True envio treasury)))"
    unfolding divergences_def length_sort by (rule sum_skipped)
  show ?thesis unfolding total liquid skipped [symmetric]
    by (rule sum_list_bound) (use divergence_close assms(3) in blast)
qed

definition sample_record :: "rat \<Rightarrow> rat \<Rightarrow> parity_row" where
  "sample_record block v = normaliseRow (\<lambda>x. x) \<lparr> rd_date = ''2024-01-01'', rd_block = Raw_Number block, rd_chainId = None,
     rd_blockchain = Some ''Base'', rd_tokenAddress = ''0xA'', rd_token = ''A'', rd_sourceAddress = ''0xW'', rd_source = ''W'',
     rd_rate = Raw_Number 1, rd_balance = Raw_Numeric v, rd_multiplier = Raw_Null, rd_value = Raw_Numeric v,
     rd_valueExcludingOhm = Raw_Numeric v, rd_isLiquid = True, rd_category = None \<rparr>"

lemma sample_aggregates:
  "map (\<lambda>(k, a). (k, ag_valueExcludingOhm a, ag_isLiquid a))
     (aggregateAtLatestBlock (\<lambda>x. x) [sample_record 7 2, sample_record 9 5, sample_record 9 1])
     = [((Chain_Number 8453, ''0xw'', ''0xa''), 6, True)]"
  "map (\<lambda>(k, a). (k, ag_valueExcludingOhm a, ag_isLiquid a)) (aggregateAtLatestBlock (\<lambda>x. x) [sample_record 9 4])
     = [((Chain_Number 8453, ''0xw'', ''0xa''), 4, True)]"
  by (simp_all add: aggregateAtLatestBlock_def latestBlockPerChain_def sample_record_def normaliseRow_def addRow_def
      chainKey_def pairKeyOf_def CHAIN_NAME_TO_ID_def Let_def addr_eval)

abbreviation sample_envio :: "(pair_key \<times> aggregated) list" where
  "sample_envio \<equiv> aggregateAtLatestBlock (\<lambda>x. x) [sample_record 7 2, sample_record 9 5, sample_record 9 1]"

abbreviation sample_treasury :: "(pair_key \<times> aggregated) list" where
  "sample_treasury \<equiv> aggregateAtLatestBlock (\<lambda>x. x) [sample_record 9 4]"

theorem drilldown_accounts_for_total_witness:
  "\<bar>totalDiff (\<lambda>x. x) (divergences (\<lambda>x. x) True sample_envio sample_treasury)
      - (sumLiquidValue (\<lambda>x. x) ag_valueExcludingOhm (map snd sample_envio)
         - sumLiquidValue (\<lambda>x. x) ag_valueExcludingOhm (map snd sample_treasury))\<bar>
    \<le> 1 / 100 * (of_nat (length (pairKeys sample_envio sample_treasury))
      - of_nat (length (divergences (\<lambda>x. x) True sample_envio sample_treasury)))"
proof (rule drilldown_accounts_for_total [OF refl refl])
  fix k e t
  assume "map_of sample_envio k = Some e" "map_of sample_treasury k = Some t"
  then show "ag_isLiquid e = ag_isLiquid t"
    using sample_aggregates by (auto simp: map_eq_Cons_conv split: if_splits)
qed

end
