(* ===== verification/Address_Audit.thy ===== *)
theory Address_Audit
  imports Rpc Artifact_Store
begin

text \<open>
  The audit of the configured addresses (\<open>scripts/audit-addresses.ts\<close>): the address constants are
  read off the text of the chain files, each is probed on its chain, and what does not look like the
  token its name promises is reported. What the chain answers is a parameter, \<open>checksum\<close> is viem's
  \<open>getAddress\<close>. The lemmas show that the reader finds exactly the constants of a file that declares
  them, and what is reported.
\<close>

section \<open>Reading the constants\<close>

record audit_entry =
  ae_chain :: string
  ae_varName :: string
  ae_address :: string

definition inRange :: "nat \<Rightarrow> nat \<Rightarrow> char \<Rightarrow> bool" where
  "inRange a b c \<longleftrightarrow> a \<le> (of_char c :: nat) \<and> (of_char c :: nat) \<le> b"

definition isUpperChar :: "char \<Rightarrow> bool" where "isUpperChar = inRange 65 90"
definition isNameChar :: "char \<Rightarrow> bool" where "isNameChar c \<longleftrightarrow> isUpperChar c \<or> inRange 48 57 c \<or> c = CHR ''_''"
definition isHexChar :: "char \<Rightarrow> bool" where "isHexChar c \<longleftrightarrow> inRange 48 57 c \<or> inRange 97 102 c \<or> inRange 65 70 c"

definition isHexAddress :: "string \<Rightarrow> bool" where
  "isHexAddress s \<longleftrightarrow> length s = 42 \<and> take 2 s = ''0x'' \<and> list_all isHexChar (drop 2 s)"

definition afterText :: "string \<Rightarrow> string \<Rightarrow> string option" where
  "afterText part s = (if startsWith s part then Some (drop (length part) s) else None)"

text \<open>The pattern at the beginning of a line: the name, the address and the number of characters
  matched.\<close>

definition matchConst :: "string \<Rightarrow> (string \<times> string \<times> nat) option" where
  "matchConst s = Option.bind (afterText ''const'' s) (\<lambda>r. let r1 = dropWhile isSpace r; name = takeWhile isNameChar r1 in
     if r = r1 \<or> name = [] \<or> \<not> isUpperChar (hd name) then None
     else Option.bind (afterText ''='' (dropWhile isSpace (drop (length name) r1))) (\<lambda>r2.
       Option.bind (afterText (''addr('' @ [CHR 0x22]) (dropWhile isSpace r2)) (\<lambda>r3. let address = take 42 r3 in
       if \<not> isHexAddress address then None
       else Option.bind (afterText (CHR 0x22 # '')'') (drop 42 r3)) (\<lambda>r4.
         Option.bind (afterText '';'' (dropWhile isSpace r4)) (\<lambda>rest.
         Some (name, address, length s - length rest))))))"

text \<open>\<open>re.exec\<close> in a loop: the search goes on after a match; \<open>skip\<close> counts the characters of the match
  still to be passed.\<close>

fun scanConsts :: "nat \<Rightarrow> bool \<Rightarrow> string \<Rightarrow> (string \<times> string) list" where
  "scanConsts skip atStart [] = []"
| "scanConsts (Suc skip) atStart (c # cs) = scanConsts skip (c = CHR 0x0A \<or> c = CHR 0x0D) cs"
| "scanConsts 0 atStart (c # cs) = (case (if atStart then matchConst (c # cs) else None) of
     None \<Rightarrow> scanConsts 0 (c = CHR 0x0A \<or> c = CHR 0x0D) cs
   | Some (name, address, n) \<Rightarrow> (name, address) # scanConsts (n - 1) False cs)"

definition parseChainFile :: "string \<Rightarrow> string \<Rightarrow> audit_entry list" where
  "parseChainFile chain src = map (\<lambda>(name, address). \<lparr>ae_chain = chain, ae_varName = name, ae_address = address\<rparr>)
     (scanConsts 0 True src)"

section \<open>Probing a chain\<close>

datatype probe = Erc20 string string nat | Contract | Empty | Probe_Error string

text \<open>What the chain says of an address: the three reads (\<open>None\<close> where one fails) and the code, or the
  message of a failed read.\<close>

record answers_at =
  aa_name :: "string option"
  aa_symbol :: "string option"
  aa_decimals :: "nat option"
  aa_code :: "string + string option"

definition probeToken :: "(string \<Rightarrow> string + string) \<Rightarrow> (string \<Rightarrow> answers_at) \<Rightarrow> string \<Rightarrow> probe" where
  "probeToken checksum client address = (case checksum address of
     Inl message \<Rightarrow> Probe_Error (take 100 message)
   | Inr a \<Rightarrow> (case (aa_name (client a), aa_symbol (client a), aa_decimals (client a)) of
       (Some name, Some symbol, Some decimals) \<Rightarrow> Erc20 name symbol decimals
     | _ \<Rightarrow> (case aa_code (client a) of
         Inl message \<Rightarrow> Probe_Error (take 100 message)
       | Inr code \<Rightarrow> if code \<noteq> None \<and> code \<noteq> Some '''' \<and> code \<noteq> Some ''0x'' then Contract else Empty)))"

text \<open>Splitting at runs of underscores and at each underscore differ only in empty parts, which the
  length test drops.\<close>

definition looksConsistent :: "string \<Rightarrow> string \<Rightarrow> bool" where
  "looksConsistent varName symbol = (let sym = toLowerCase symbol in
     list_ex (\<lambda>t. t \<notin> {''erc20'', ''lp'', ''v1'', ''v2'', ''v3''} \<and> (containsText sym t \<or> containsText t sym))
       (filter (\<lambda>t. 2 \<le> length t) (splitOn CHR ''_'' (toLowerCase varName))))"

datatype audit_issue = No_Bytecode audit_entry | Not_Probed audit_entry string | Mismatch audit_entry string

definition issueOf :: "audit_entry \<Rightarrow> probe \<Rightarrow> audit_issue option" where
  "issueOf e p = (case p of
     Empty \<Rightarrow> Some (No_Bytecode e)
   | Probe_Error reason \<Rightarrow> Some (Not_Probed e reason)
   | Contract \<Rightarrow> None
   | Erc20 name symbol decimals \<Rightarrow> if looksConsistent (ae_varName e) symbol then None else Some (Mismatch e symbol))"

definition AUDITED_CHAINS :: "string list" where
  "AUDITED_CHAINS = [''ethereum'', ''arbitrum'', ''base'', ''polygon'', ''fantom'', ''berachain'']"

definition auditedChain :: "string \<Rightarrow> string option" where
  "auditedChain f = (if length f \<ge> 3 \<and> drop (length f - 3) f = ''.ts'' \<and> f \<noteq> ''index.ts'' \<and> f \<noteq> ''rpc.ts''
       \<and> take (length f - 3) f \<in> set AUDITED_CHAINS
     then Some (take (length f - 3) f) else None)"

text \<open>The issues the script prints for a directory of chain files, given as names and texts.\<close>

definition auditAddresses :: "(string \<Rightarrow> string + string) \<Rightarrow> (string \<Rightarrow> string \<Rightarrow> answers_at) \<Rightarrow> (string \<times> string) list \<Rightarrow> audit_issue list" where
  "auditAddresses checksum client files =
     (let allEntries = concat (map (\<lambda>(f, src). case auditedChain f of None \<Rightarrow> [] | Some chain \<Rightarrow> parseChainFile chain src) files)
      in List.map_filter (\<lambda>e. issueOf e (probeToken checksum (client (ae_chain e)) (ae_address e))) allEntries)"

section \<open>What the audit finds\<close>

text \<open>A constant as the chain files declare it.\<close>

definition declareConst :: "string \<times> string \<Rightarrow> string" where
  "declareConst p = ''const '' @ fst p @ '' = addr('' @ [CHR 0x22] @ snd p @ [CHR 0x22] @ '');'' @ [CHR 0x0A]"

definition isConstName :: "string \<Rightarrow> bool" where
  "isConstName name \<longleftrightarrow> name \<noteq> [] \<and> isUpperChar (hd name) \<and> list_all isNameChar name"

lemma afterText_append [simp]: "afterText part (part @ s) = Some s"
  by (simp add: afterText_def startsWith_def)

lemma afterText_Cons: "afterText (c # part) (c # s) = afterText part s" "afterText [] s = Some s"
  by (simp_all add: afterText_def startsWith_def)

lemma nameChar_space: "isNameChar c \<Longrightarrow> \<not> isSpace c"
  by (auto simp: isNameChar_def isUpperChar_def inRange_def isSpace_def)

lemma takeWhile_name: "list_all isNameChar n \<Longrightarrow> takeWhile isNameChar (n @ CHR '' '' # s) = n"
  by (induction n) (simp_all add: isNameChar_def isUpperChar_def inRange_def)

lemma matchConst_declared:
  assumes "isConstName (fst p)" "isHexAddress (snd p)"
  shows "matchConst (declareConst p @ s) = Some (fst p, snd p, length (declareConst p) - 1)"
proof -
  have addr: "length (snd p) = 42" using assms(2) by (simp add: isHexAddress_def)
  have id: "dropWhile isSpace (fst p @ t) = fst p @ t" "fst p \<noteq> []" "isUpperChar (hd (fst p))" for t
    using assms(1) nameChar_space by (cases "fst p", auto simp: isConstName_def)+
  have space: "isSpace CHR '' ''" "\<not> isSpace CHR ''=''" "\<not> isSpace CHR ''a''" "\<not> isSpace CHR '';''"
    by (simp_all add: isSpace_def)
  show ?thesis
    using assms takeWhile_name [of "fst p"]
    by (simp add: matchConst_def declareConst_def afterText_Cons Let_def id addr space isConstName_def)
qed

lemma scan_skip: "scanConsts (length a) b (a @ s) = scanConsts 0 (if a = [] then b else last a = CHR 0x0A \<or> last a = CHR 0x0D) s"
  by (induction a arbitrary: b) auto

text \<open>The reader finds exactly the constants of a file that declares them line by line.\<close>

theorem declared_consts_found:
  assumes "\<forall>p \<in> set ds. isConstName (fst p) \<and> isHexAddress (snd p)"
  shows "map (\<lambda>e. (ae_varName e, ae_address e)) (parseChainFile chain (concat (map declareConst ds))) = ds"
proof -
  have "scanConsts 0 True (concat (map declareConst ds)) = ds"
    using assms
  proof (induction ds)
    case (Cons p ds)
    obtain c cs where d: "declareConst p = c # (cs @ [CHR '';'']) @ [CHR 0x0A]" by (auto simp: declareConst_def)
    have "length (declareConst p) - 1 = length (c # cs @ [CHR '';''])" by (simp add: d)
    then show ?case
      using Cons matchConst_declared [of p "concat (map declareConst ds)"] scan_skip [of "cs @ [CHR '';'']" False "CHR 0x0A # concat (map declareConst ds)"]
      by (simp add: d)
  qed simp
  then show ?thesis by (simp add: parseChainFile_def comp_def case_prod_beta)
qed

lemma sample_consts_found:
  "map (\<lambda>e. (ae_varName e, ae_address e)) (parseChainFile ''base''
     (concat (map declareConst [(''ERC20_OHM'', ''0x060cb087a9730e13aa191f31a6d86bff8dfcdcc0'')])))
   = [(''ERC20_OHM'', ''0x060cb087a9730e13aa191f31a6d86bff8dfcdcc0'')]"
  by (rule declared_consts_found) (simp add: isConstName_def isHexAddress_def isNameChar_def isUpperChar_def isHexChar_def inRange_def)

text \<open>The symbol comparison accepts a token whose symbol is empty under every name that has a part to
  compare, and rejects a token under the name of another.\<close>

lemma empty_symbol_accepted: "looksConsistent ''ERC20_DAI'' '''' \<and> \<not> looksConsistent ''ERC20_DAI'' ''USDT''"
  by code_simp

end
