(* ===== verification/Release.thy ===== *)
theory Release
  imports Deployment
begin

text \<open>
  The release tooling of the client package (\<open>apps/client/scripts/ci-release.ts\<close> and
  \<open>release-check.ts\<close>): the version checks, the changelog section that becomes the release notes, and
  every command of the two scripts. What the executed programs (\<open>npm\<close>, \<open>git\<close>, \<open>gh\<close>, \<open>pnpm\<close>) answer,
  given the programs run before, is a parameter, as are \<open>JSON.parse\<close>, the environment and the files read.
  A script runs over a state that records what it executed, printed and wrote; a throw ends it with the
  message. The lemmas show what a check that passes has established.
\<close>

section \<open>Versions\<close>

definition isLabelChar :: "char \<Rightarrow> bool" where
  "isLabelChar c \<longleftrightarrow> (let n = of_char c :: nat in 48 \<le> n \<and> n \<le> 57 \<or> 65 \<le> n \<and> n \<le> 90 \<or> 97 \<le> n \<and> n \<le> 122 \<or> n = 45)"

definition isDigit :: "char \<Rightarrow> bool" where "isDigit c \<longleftrightarrow> 48 \<le> (of_char c :: nat) \<and> (of_char c :: nat) \<le> 57"

text \<open>\<open>0\<close> or digits without a leading zero.\<close>

definition isNumericId :: "string \<Rightarrow> bool" where
  "isNumericId s \<longleftrightarrow> s = ''0'' \<or> s \<noteq> [] \<and> list_all isDigit s \<and> hd s \<noteq> CHR ''0''"

definition isIdList :: "string \<Rightarrow> bool" where
  "isIdList s \<longleftrightarrow> list_all (\<lambda>part. part \<noteq> [] \<and> list_all isLabelChar part) (splitOn CHR ''.'' s)"

text \<open>\<open>SEMVER_PATTERN\<close>: the first plus ends the version proper, the first dash before it ends the
  three numbers.\<close>

definition isSemver :: "string \<Rightarrow> bool" where
  "isSemver s = (let (version, build) = splitAt (\<lambda>c. c = CHR ''+'') s; (core, pre) = splitAt (\<lambda>c. c = CHR ''-'') version
     in length (splitOn CHR ''.'' core) = 3 \<and> list_all isNumericId (splitOn CHR ''.'' core)
        \<and> (case pre of None \<Rightarrow> True | Some p \<Rightarrow> isIdList p) \<and> (case build of None \<Rightarrow> True | Some b \<Rightarrow> isIdList b))"

text \<open>The message of \<open>fail\<close>.\<close>

definition failMessage :: "string \<Rightarrow> string" where "failMessage message = ''[client release] '' @ message"

definition packageName :: string where "packageName = ''@olympusdao/treasury-subgraph-client''"

record package_json =
  pj_name :: "string option"
  pj_version :: "string option"
  pj_dependencies :: "string list"
  pj_peerDependencies :: "string list"

definition readPackage :: "package_json \<Rightarrow> string + string" where
  "readPackage package = (if pj_name package \<noteq> Some packageName
     then Inl (failMessage (''Unexpected package name: '' @ nullish (pj_name package) ''(missing)''))
     else case pj_version package of None \<Rightarrow> Inl (failMessage ''Package version is missing.'')
       | Some version \<Rightarrow> if trim version = [] then Inl (failMessage ''Package version is missing.'')
           else if \<not> isSemver version then Inl (failMessage (''Package version must be valid semver: '' @ version)) else Inr version)"

definition tagForVersion :: "string \<Rightarrow> string" where
  "tagForVersion version = ''treasury-subgraph-client-v'' @ version"

section \<open>The changelog\<close>

text \<open>What may follow the bracket of a heading: blanks, or a dash between blanks and some text on
  the same line, which the dot of the pattern keeps free of carriage returns.\<close>

definition isLineEnd :: "char \<Rightarrow> bool" where "isLineEnd c \<longleftrightarrow> c = CHR 0x0A \<or> c = CHR 0x0D"

definition isHeadingText :: "string \<Rightarrow> bool" where
  "isHeadingText s \<longleftrightarrow> s \<noteq> [] \<and> isSpace (hd s)
     \<and> (if trim s = [] then list_ex (\<lambda>c. \<not> isLineEnd c) (tl s) else list_all (\<lambda>c. \<not> isLineEnd c) (trim s))"

definition isHeadingEnd :: "string \<Rightarrow> bool" where
  "isHeadingEnd s \<longleftrightarrow> list_all isSpace s
     \<or> (isSpace (hd s) \<and> (case dropWhile isSpace s of [] \<Rightarrow> False | c # r \<Rightarrow> c = CHR ''-'' \<and> isHeadingText r))"

definition headingVersion :: "string \<Rightarrow> string option" where
  "headingVersion text = (if take 4 text \<noteq> ''## ['' then None
     else (case splitAt (\<lambda>c. c = CHR '']'') (drop 4 text) of
         (_, None) \<Rightarrow> None
       | (name, Some rest) \<Rightarrow> if isHeadingEnd rest then Some name else None))"

definition withoutV :: "string \<Rightarrow> string" where
  "withoutV s = (if s \<noteq> [] \<and> hd s = CHR ''v'' then tl s else s)"

definition isChangelogReleaseHeading :: "string \<Rightarrow> bool" where
  "isChangelogReleaseHeading text = (case headingVersion text of None \<Rightarrow> False | Some name \<Rightarrow> isSemver (withoutV name))"

definition isHeadingOf :: "string \<Rightarrow> string \<Rightarrow> bool" where
  "isHeadingOf version text = (case headingVersion text of None \<Rightarrow> False
     | Some name \<Rightarrow> name = version \<or> name = CHR ''v'' # version)"

definition joinLines :: "string list \<Rightarrow> string" where "joinLines = joinWith [CHR 0x0A]"

text \<open>The lines from the first heading of the version to the next release heading.\<close>

definition sectionLines :: "string \<Rightarrow> string list \<Rightarrow> string list option" where
  "sectionLines version texts = (case dropWhile (\<lambda>text. \<not> isHeadingOf version text) texts of
       [] \<Rightarrow> None
     | heading # rest \<Rightarrow> Some (heading # takeWhile (\<lambda>text. \<not> isChangelogReleaseHeading text) rest))"

definition changelogLines :: "string \<Rightarrow> string list" where
  "changelogLines text = map (\<lambda>l. if l \<noteq> [] \<and> last l = CHR 0x0D then butlast l else l) (butlast (splitOn CHR 0x0A text))
     @ [last (splitOn CHR 0x0A text)]"

definition readChangelogSection :: "string \<Rightarrow> string \<Rightarrow> string + string" where
  "readChangelogSection changelog version = (case sectionLines version (changelogLines changelog) of
       None \<Rightarrow> Inl (failMessage (''Missing changelog section for '' @ packageName @ ''@'' @ version
         @ ''. Expected heading like \"## [v'' @ version @ '']\".''))
     | Some texts \<Rightarrow> Inr (trim (joinLines texts)))"

section \<open>What a script does\<close>

text \<open>A program that is run gives its output or fails with a status, an error code, its error output
  and a message; the answer may depend on the programs run before it. The type \<open>pack_summary\<close> is what the
  scripts read from the output of \<open>npm pack --json\<close>.\<close>

record command_error =
  ce_status :: "nat option"
  ce_code :: string
  ce_stderr :: string
  ce_message :: string

record pack_summary =
  ps_filename :: "string option"
  ps_files :: "string list"

record release_world =
  rw_env :: "string \<rightharpoonup> string"
  rw_cwd :: string
  rw_node :: string
  rw_package :: package_json
  rw_packageJsonPath :: string
  rw_changelog :: string
  rw_exec :: "string list list \<Rightarrow> string list \<Rightarrow> command_error + string"
  rw_exists :: "string list list \<Rightarrow> string \<Rightarrow> bool"
  rw_parseJson :: "string \<Rightarrow> json option"
  rw_parsePack :: "string \<Rightarrow> pack_summary list option"

record release_state =
  rs_commands :: "string list list"
  rs_console :: "string list"
  rs_files :: "(string \<times> string) list"
  rs_directories :: "string list"

type_synonym 'a script = "release_world \<Rightarrow> release_state \<Rightarrow> (string + 'a) \<times> release_state"

definition finish :: "'a \<Rightarrow> 'a script" where "finish x w s = (Inr x, s)"

definition fail :: "string \<Rightarrow> 'a script" where "fail message w s = (Inl (failMessage message), s)"

definition raise :: "string \<Rightarrow> 'a script" where "raise message w s = (Inl message, s)"

definition thenDo :: "'a script \<Rightarrow> ('a \<Rightarrow> 'b script) \<Rightarrow> 'b script" where
  "thenDo m f w s = (case m w s of (Inl e, s') \<Rightarrow> (Inl e, s') | (Inr x, s') \<Rightarrow> f x w s')"

lemma thenDo_Inr: "thenDo m f w s = (Inr y, t) \<longleftrightarrow> (\<exists>x s'. m w s = (Inr x, s') \<and> f x w s' = (Inr y, t))"
  by (auto simp: thenDo_def split: prod.splits sum.splits)

lemma script_simps [simp]: "finish x w s = (r, t) \<longleftrightarrow> r = Inr x \<and> t = s" "fail m w s \<noteq> (Inr y, t)" "raise m w s \<noteq> (Inr y, t)"
  by (auto simp: finish_def fail_def raise_def)

text \<open>\<open>execFileSync\<close>, the failure caught.\<close>

definition execute :: "string list \<Rightarrow> (command_error + string) script" where
  "execute command w s = (Inr (rw_exec w (rs_commands s) command), s\<lparr>rs_commands := rs_commands s @ [command]\<rparr>)"

definition capture :: "string list \<Rightarrow> string script" where
  "capture command = thenDo (execute command) (\<lambda>r. case r of Inl e \<Rightarrow> raise (ce_message e) | Inr output \<Rightarrow> finish output)"

definition run :: "string list \<Rightarrow> unit script" where
  "run command = thenDo (capture command) (\<lambda>_. finish ())"

definition packageVersion :: "string script" where
  "packageVersion w s = (readPackage (rw_package w), s)"

definition writeFileSync :: "string \<Rightarrow> string \<Rightarrow> unit script" where
  "writeFileSync path content w s = (Inr (), s\<lparr>rs_files := rs_files s @ [(path, content)]\<rparr>)"

definition mkdirSync :: "string \<Rightarrow> unit script" where
  "mkdirSync path w s = (Inr (), s\<lparr>rs_directories := rs_directories s @ [path]\<rparr>)"

definition isThere :: "string \<Rightarrow> bool script" where
  "isThere path w s = (Inr (rw_exists w (rs_commands s) path), s)"

definition setGithubOutput :: "(string \<times> string) list \<Rightarrow> unit script" where
  "setGithubOutput entries w s = (let texts = map (\<lambda>(key, v). key @ ''='' @ v) entries in
     case rw_env w ''GITHUB_OUTPUT'' of
       Some outputPath \<Rightarrow> if trim outputPath \<noteq> [] then writeFileSync outputPath (joinLines texts @ [CHR 0x0A]) w s
           else (Inr (), s\<lparr>rs_console := rs_console s @ texts\<rparr>)
     | None \<Rightarrow> (Inr (), s\<lparr>rs_console := rs_console s @ texts\<rparr>))"

text \<open>\<open>process.env.NAME?.trim()\<close>, required.\<close>

definition envOr :: "string \<Rightarrow> string script" where
  "envOr name w s = (case map_option trim (rw_env w name) of None \<Rightarrow> fail (name @ '' is required.'') w s
     | Some v \<Rightarrow> if v = [] then fail (name @ '' is required.'') w s else (Inr v, s))"

section \<open>Checks against npm and git\<close>

definition isNpmRegistryNotFoundError :: "command_error \<Rightarrow> bool" where
  "isNpmRegistryNotFoundError e \<longleftrightarrow> ce_code e = ''E404'' \<or> containsText (ce_stderr e) ''E404''
     \<or> containsText (ce_stderr e) ''404'' \<or> containsText (ce_message e) ''E404''"

definition wrongVersion :: "string \<Rightarrow> string \<Rightarrow> unit script" where
  "wrongVersion expected version w s =
     fail (''Expected version '' @ expected @ '', but '' @ rw_packageJsonPath w @ '' contains '' @ version) w s"

definition assertExpectedVersion :: "unit script" where
  "assertExpectedVersion = thenDo (envOr ''EXPECTED_VERSION'') (\<lambda>expected. thenDo packageVersion (\<lambda>version.
     if expected \<noteq> version then wrongVersion expected version
     else setGithubOutput [(''version'', version), (''tag'', tagForVersion version)]))"

definition parseJson :: "string \<Rightarrow> json script" where
  "parseJson output w s = (case rw_parseJson w output of None \<Rightarrow> raise ''SyntaxError'' w s | Some v \<Rightarrow> (Inr v, s))"

definition publishedVersions :: "json \<Rightarrow> json list" where
  "publishedVersions versions = (case versions of JArray vs \<Rightarrow> vs | v \<Rightarrow> [v])"

definition assertVersionNotPublished :: "unit script" where
  "assertVersionNotPublished = thenDo packageVersion (\<lambda>version.
     thenDo (execute [''npm'', ''view'', packageName, ''versions'', ''--json'']) (\<lambda>r.
     thenDo (case r of Inr output \<Rightarrow> finish (trim output)
         | Inl e \<Rightarrow> if isNpmRegistryNotFoundError e then finish ''[]'' else raise (ce_message e)) (\<lambda>output.
     thenDo (parseJson output) (\<lambda>versions.
       if JString version \<in> set (publishedVersions versions)
       then fail (packageName @ ''@'' @ version @ '' is already published on npm.'') else finish ()))))"

fun valueContainsVersion :: "string \<Rightarrow> json \<Rightarrow> bool" where
  "valueContainsVersion version (JString s) \<longleftrightarrow>
     s = version \<or> s = packageName @ ''@'' @ version \<or> containsText s (packageName @ ''@'' @ version)"
| "valueContainsVersion version (JArray vs) \<longleftrightarrow> list_ex (valueContainsVersion version) vs"
| "valueContainsVersion version (JObject kvs) \<longleftrightarrow> list_ex (\<lambda>kv. valueContainsVersion version (snd kv)) kvs"
| "valueContainsVersion version _ \<longleftrightarrow> False"

definition assertVersionNotStaged :: "unit script" where
  "assertVersionNotStaged = thenDo packageVersion (\<lambda>version.
     thenDo (capture [''npm'', ''stage'', ''list'', packageName, ''--json'']) (\<lambda>output.
       if trim output = [] then finish ()
       else thenDo (parseJson (trim output)) (\<lambda>staged.
         if valueContainsVersion version staged
         then fail (packageName @ ''@'' @ version @ '' is already staged on npm.'') else finish ())))"

text \<open>Only the status 2 of \<open>git ls-remote --exit-code\<close> says that the tag is absent.\<close>

definition assertReleaseTagDoesNotExist :: "unit script" where
  "assertReleaseTagDoesNotExist = thenDo packageVersion (\<lambda>version. let tag = tagForVersion version in
     thenDo (execute [''git'', ''ls-remote'', ''--exit-code'', ''--tags'', ''origin'', ''refs/tags/'' @ tag]) (\<lambda>r.
       case r of Inr _ \<Rightarrow> fail (''Tag '' @ tag @ '' already exists on origin.'')
       | Inl e \<Rightarrow> if startsWith (ce_message e) ''[client release]'' \<or> ce_status e \<noteq> Some 2 then raise (ce_message e)
           else finish ()))"

definition preflight :: "unit script" where
  "preflight = thenDo assertExpectedVersion (\<lambda>_. thenDo assertVersionNotPublished (\<lambda>_.
     thenDo assertVersionNotStaged (\<lambda>_. assertReleaseTagDoesNotExist)))"

definition validateReleaseInputs :: "unit script" where
  "validateReleaseInputs = thenDo assertExpectedVersion (\<lambda>_. thenDo assertVersionNotPublished (\<lambda>_.
     assertReleaseTagDoesNotExist))"

section \<open>Releasing\<close>

definition createGitTag :: "unit script" where
  "createGitTag = thenDo packageVersion (\<lambda>version. let tag = tagForVersion version in
     thenDo (run [''git'', ''config'', ''user.name'', ''github-actions[bot]'']) (\<lambda>_.
     thenDo (run [''git'', ''config'', ''user.email'', ''41898282+github-actions[bot]@users.noreply.github.com'']) (\<lambda>_.
     thenDo (run [''git'', ''tag'', ''-a'', tag, ''-m'', ''Release '' @ packageName @ ''@'' @ version]) (\<lambda>_.
     run [''git'', ''push'', ''origin'', ''refs/tags/'' @ tag]))))"

definition requireThere :: "string \<Rightarrow> string \<Rightarrow> unit script" where
  "requireThere what path = thenDo (isThere path) (\<lambda>there. if there then finish () else fail (what @ path))"

definition createGithubRelease :: "unit script" where
  "createGithubRelease = thenDo (envOr ''TARBALL_PATH'') (\<lambda>tarball. thenDo (envOr ''PACK_JSON_PATH'') (\<lambda>packJson.
     thenDo (envOr ''RELEASE_NOTES_PATH'') (\<lambda>notes.
     thenDo (requireThere ''Missing packed tarball: '' tarball) (\<lambda>_.
     thenDo (requireThere ''Missing npm pack metadata: '' packJson) (\<lambda>_.
     thenDo (requireThere ''Missing GitHub release notes: '' notes) (\<lambda>_.
     thenDo packageVersion (\<lambda>version.
     run [''gh'', ''release'', ''create'', tagForVersion version, tarball, packJson, ''--title'',
          packageName @ ''@'' @ version, ''--notes-file'', notes, ''--verify-tag''])))))))"

text \<open>\<open>resolve\<close> of \<open>node:path\<close>: the second path if it is absolute, otherwise the two joined under the
  working directory; dots and empty parts are removed.\<close>

fun normalSegments :: "string list \<Rightarrow> string list \<Rightarrow> string list" where
  "normalSegments acc [] = rev acc"
| "normalSegments acc (p # ps) = (if p = '''' \<or> p = ''.'' then normalSegments acc ps
     else if p = ''..'' then normalSegments (drop 1 acc) ps else normalSegments (p # acc) ps)"

definition resolve :: "string \<Rightarrow> string \<Rightarrow> string \<Rightarrow> string" where
  "resolve cwd base path = (let under = (\<lambda>root p. if startsWith p ''/'' then p else root @ ''/'' @ p) in
     CHR ''/'' # concat (case normalSegments [] (splitOn CHR ''/'' (under (under cwd base) path)) of
         [] \<Rightarrow> [] | p # ps \<Rightarrow> p # map (\<lambda>q. CHR ''/'' # q) ps))"

definition parsePack :: "string \<Rightarrow> pack_summary list script" where
  "parsePack output w s = (case rw_parsePack w output of None \<Rightarrow> raise ''SyntaxError'' w s | Some v \<Rightarrow> (Inr v, s))"

definition workingDirectory :: "string script" where "workingDirectory w s = (Inr (rw_cwd w), s)"

definition pack :: "unit script" where
  "pack = thenDo (envOr ''PACK_DESTINATION'') (\<lambda>destination. thenDo (envOr ''NPM_CACHE_DIR'') (\<lambda>cache.
     thenDo (mkdirSync destination) (\<lambda>_. thenDo workingDirectory (\<lambda>cwd.
     let packJsonPath = resolve cwd destination ''client-pack.json'' in
     thenDo (capture [''npm'', ''pack'', ''--json'', ''--ignore-scripts'', ''--pack-destination'', destination, ''--cache'', cache])
     (\<lambda>output. thenDo (writeFileSync packJsonPath output) (\<lambda>_. thenDo (parsePack output) (\<lambda>parsed.
     case parsed of
       summary # _ \<Rightarrow> (case ps_filename summary of
           Some filename \<Rightarrow> if trim filename = [] then fail ''npm pack did not return a tarball filename.''
             else (let tarball = resolve cwd destination filename in
               thenDo (requireThere ''npm pack did not create expected tarball: '' tarball) (\<lambda>_.
               setGithubOutput [(''filename'', filename), (''tarball'', tarball), (''pack_json'', packJsonPath)]))
         | None \<Rightarrow> fail ''npm pack did not return a tarball filename.'')
     | [] \<Rightarrow> fail ''npm pack did not return a tarball filename.'')))))))"

definition changelogSection :: "string \<Rightarrow> string script" where
  "changelogSection version w s = (readChangelogSection (rw_changelog w) version, s)"

definition writeReleaseNotes :: "unit script" where
  "writeReleaseNotes = thenDo (envOr ''RELEASE_NOTES_PATH'') (\<lambda>outputPath. thenDo packageVersion (\<lambda>version.
     thenDo (changelogSection version) (\<lambda>part.
     writeFileSync outputPath (joinLines [''Package: `'' @ packageName @ ''@'' @ version @ ''`'', '''',
       ''https://www.npmjs.com/package/@olympusdao/treasury-subgraph-client'', '''',
       ''This GitHub release records the source commit and packed artifact produced by CI.'', '''',
       ''## Changelog'', '''', part, '''']))))"

text \<open>The command line of \<open>ci-release.ts\<close>.\<close>

definition ciRelease :: "string option \<Rightarrow> unit script" where
  "ciRelease command = (
     if command = Some ''resolve'' then assertExpectedVersion
     else if command = Some ''preflight'' then preflight
     else if command = Some ''validate'' then validateReleaseInputs
     else if command = Some ''pack'' then pack
     else if command = Some ''notes'' then writeReleaseNotes
     else if command = Some ''tag'' then createGitTag
     else if command = Some ''github-release'' then createGithubRelease
     else fail (''Unknown ci-release command: '' @ nullish command ''(missing)''))"

section \<open>The release check\<close>

text \<open>The version pattern of \<open>release-check.ts\<close>, which is not \<open>SEMVER_PATTERN\<close>.\<close>

definition isConcreteVersion :: "string \<Rightarrow> bool" where
  "isConcreteVersion s = (let (core, label) = splitAt (\<lambda>c. c = CHR ''-'' \<or> c = CHR ''+'') s in
     length (splitOn CHR ''.'' core) = 3 \<and> list_all (\<lambda>p. p \<noteq> [] \<and> list_all isDigit p) (splitOn CHR ''.'' core)
     \<and> (case label of None \<Rightarrow> True | Some r \<Rightarrow> r \<noteq> [] \<and> list_all (\<lambda>c. isLabelChar c \<or> c = CHR ''.'') r))"

definition loadPackage :: "package_json script" where "loadPackage w s = (Inr (rw_package w), s)"

definition assertPackageMetadata :: "unit script" where
  "assertPackageMetadata = thenDo loadPackage (\<lambda>packageJson.
     if pj_name packageJson \<noteq> Some packageName
       then fail (''Unexpected package name: '' @ nullish (pj_name packageJson) ''(missing)'')
     else if (case pj_version packageJson of None \<Rightarrow> True | Some v \<Rightarrow> \<not> isConcreteVersion v)
       then fail (''Package version must be a concrete semver version, got: '' @ nullish (pj_version packageJson) ''(missing)'')
     else if pj_dependencies packageJson \<noteq> []
       then fail ''Client package should not publish runtime dependencies without an explicit release-process update.''
     else if pj_peerDependencies packageJson \<noteq> []
       then fail ''Client package should not publish peer dependencies without an explicit release-process update.''
     else finish ())"

text \<open>\<open>Number.parseInt(text, 10)\<close>: leading blanks, a sign and the digits that follow.\<close>

fun digitsValue :: "int \<Rightarrow> string \<Rightarrow> int" where
  "digitsValue acc [] = acc"
| "digitsValue acc (c # cs) = (if isDigit c then digitsValue (10 * acc + int (of_char c - 48)) cs else acc)"

definition parseInt10 :: "string \<Rightarrow> int option" where
  "parseInt10 s = (let t = dropWhile isSpace s;
       (negative, u) = (case t of c # r \<Rightarrow> if c = CHR ''-'' then (True, r) else if c = CHR ''+'' then (False, r) else (False, t)
                        | [] \<Rightarrow> (False, []))
     in case u of c # _ \<Rightarrow> if isDigit c then Some (if negative then - digitsValue 0 u else digitsValue 0 u) else None
        | [] \<Rightarrow> None)"

definition nodeVersion :: "string script" where "nodeVersion w s = (Inr (rw_node w), s)"

definition assertNodeVersion :: "unit script" where
  "assertNodeVersion = thenDo nodeVersion (\<lambda>version. case parseInt10 (hd (splitOn CHR ''.'' version)) of
       None \<Rightarrow> fail (''Node.js 24+ is required for release checks, got '' @ version)
     | Some major \<Rightarrow> if major < 24 then fail (''Node.js 24+ is required for release checks, got '' @ version) else finish ())"

definition assertNpmSupportsStagedPublishing :: "unit script" where
  "assertNpmSupportsStagedPublishing = thenDo (capture [''npm'', ''--version'']) (\<lambda>output.
     let version = trim output; parts = map parseInt10 (splitOn CHR ''.'' version);
       unsupported = fail (''npm 11.15.0+ is required for staged publishing, got '' @ version)
     in case (hd parts, (if length parts < 2 then Some 0 else parts ! 1)) of
          (Some major, Some minor) \<Rightarrow> if major < 11 \<or> major = 11 \<and> minor < 15 then unsupported else finish ()
        | _ \<Rightarrow> unsupported)"

definition assertCleanGitTree :: "unit script" where
  "assertCleanGitTree = thenDo (capture [''git'', ''status'', ''--porcelain'']) (\<lambda>status.
     if trim status \<noteq> [] then fail ''Cannot release from a dirty git tree. Commit or stash changes before publishing.''
     else finish ())"

definition isAllowedPath :: "string \<Rightarrow> bool" where
  "isAllowedPath path \<longleftrightarrow> path = ''package.json'' \<or> path = ''CHANGELOG.md'' \<or> path = ''openapi.json''
     \<or> startsWith path ''dist/''"

text \<open>\<open>parsed[0]?.files ?? []\<close>.\<close>

definition packedFiles :: "pack_summary list \<Rightarrow> string list" where
  "packedFiles parsed = (case parsed of [] \<Rightarrow> [] | summary # _ \<Rightarrow> ps_files summary)"

definition assertPackAllowlist :: "string \<Rightarrow> unit script" where
  "assertPackAllowlist npmCacheDir =
     thenDo (capture [''npm'', ''pack'', ''--dry-run'', ''--json'', ''--ignore-scripts'', ''--cache'', npmCacheDir]) (\<lambda>packOutput.
     thenDo (parsePack packOutput) (\<lambda>parsed.
       let files = packedFiles parsed;
         disallowed = filter (\<lambda>path. \<not> isAllowedPath path) files
       in if files = [] then fail ''npm pack dry run did not report any files.''
          else if disallowed \<noteq> [] then fail (''npm package includes files outside the allowlist: '' @ joinWith '', '' disallowed)
          else finish ()))"

definition releaseCheck :: "string \<Rightarrow> unit script" where
  "releaseCheck npmCacheDir = thenDo assertPackageMetadata (\<lambda>_. thenDo assertNodeVersion (\<lambda>_.
     thenDo assertNpmSupportsStagedPublishing (\<lambda>_. thenDo assertCleanGitTree (\<lambda>_.
     thenDo (run [''pnpm'', ''install'', ''--frozen-lockfile'']) (\<lambda>_. thenDo (run [''pnpm'', ''run'', ''build'']) (\<lambda>_.
     thenDo (run [''pnpm'', ''run'', ''test'']) (\<lambda>_. thenDo assertCleanGitTree (\<lambda>_.
     thenDo (run [''pnpm'', ''audit'', ''--audit-level'', ''moderate'']) (\<lambda>_. assertPackAllowlist npmCacheDir)))))))))"

section \<open>What a passing check has established\<close>

abbreviation ran :: "release_state \<Rightarrow> string list \<Rightarrow> release_state" where
  "ran s command \<equiv> s\<lparr>rs_commands := rs_commands s @ [command]\<rparr>"

lemma execute_Inr: "execute command w s = (Inr r, t) \<longleftrightarrow> rw_exec w (rs_commands s) command = r \<and> t = ran s command"
  by (auto simp: execute_def)

lemma capture_Inr: "capture command w s = (Inr output, t)
    \<longleftrightarrow> rw_exec w (rs_commands s) command = Inr output \<and> t = ran s command"
  by (auto simp: capture_def thenDo_Inr execute_Inr split: sum.splits)

lemma run_Inr: "run command w s = (Inr u, t)
    \<longleftrightarrow> (\<exists>output. rw_exec w (rs_commands s) command = Inr output) \<and> t = ran s command"
  by (auto simp: run_def thenDo_Inr capture_Inr)

lemma packageVersion_Inr: "packageVersion w s = (Inr v, t) \<longleftrightarrow> readPackage (rw_package w) = Inr v \<and> t = s"
  by (auto simp: packageVersion_def)

lemma parseJson_Inr: "parseJson output w s = (Inr v, t) \<longleftrightarrow> rw_parseJson w output = Some v \<and> t = s"
  by (auto simp: parseJson_def split: option.splits)

lemma parsePack_Inr: "parsePack output w s = (Inr v, t) \<longleftrightarrow> rw_parsePack w output = Some v \<and> t = s"
  by (auto simp: parsePack_def split: option.splits)

lemma envOr_Inr: "envOr name w s = (Inr v, t) \<longleftrightarrow> map_option trim (rw_env w name) = Some v \<and> v \<noteq> [] \<and> t = s"
  by (auto simp: envOr_def split: option.splits)

lemma setGithubOutput_commands: "\<exists>t. setGithubOutput entries w s = (Inr (), t) \<and> rs_commands t = rs_commands s"
  by (auto simp: setGithubOutput_def writeFileSync_def Let_def split: option.splits)

lemmas script_Inr = thenDo_Inr execute_Inr capture_Inr run_Inr packageVersion_Inr parseJson_Inr parsePack_Inr envOr_Inr

lemma readPackage_semver: "readPackage package = Inr v \<Longrightarrow> isSemver v \<and> v \<noteq> [] \<and> pj_name package = Some packageName \<and> pj_version package = Some v"
  by (auto simp: readPackage_def trim_def split: if_splits option.splits)

lemma trim_not_empty: "c \<in> set v \<Longrightarrow> \<not> isSpace c \<Longrightarrow> trim v \<noteq> []"
  unfolding trim_def by (auto simp: dropWhile_eq_Nil_conv) (metis set_dropWhileD dropWhile_eq_Nil_conv takeWhile_dropWhile_id Un_iff set_append set_takeWhileD)

lemma splitOn_hd_set: "set (hd (splitOn sep s)) \<subseteq> set s"
  by (induction s) (auto split: list.splits)

lemma splitAt_set: "splitAt P s = (a, b) \<Longrightarrow> set a \<subseteq> set s"
  by (auto simp: splitAt_def split: list.splits dest: set_takeWhileD)

lemma isNumericId_hd: "isNumericId p \<Longrightarrow> p \<noteq> [] \<and> \<not> isSpace (hd p)"
  by (cases p) (auto simp: isNumericId_def isDigit_def isSpace_def)

lemma isSemver_trim:
  assumes "isSemver v"
  shows "trim v \<noteq> []"
proof -
  obtain a b where ab: "splitAt (\<lambda>c. c = CHR ''+'') v = (a, b)" by fastforce
  obtain core pre where core: "splitAt (\<lambda>c. c = CHR ''-'') a = (core, pre)" by fastforce
  have ids: "length (splitOn CHR ''.'' core) = 3" "list_all isNumericId (splitOn CHR ''.'' core)"
    using assms by (simp_all add: isSemver_def ab core)
  define p where "p = hd (splitOn CHR ''.'' core)"
  have "isNumericId p" using ids by (cases "splitOn CHR ''.'' core") (auto simp: p_def)
  then have "hd p \<in> set p" "\<not> isSpace (hd p)" using isNumericId_hd by auto
  moreover have "set p \<subseteq> set v" using splitOn_hd_set splitAt_set [OF core] splitAt_set [OF ab] unfolding p_def by blast
  ultimately show ?thesis using trim_not_empty by blast
qed

lemma readPackage_valid: "pj_name package = Some packageName \<Longrightarrow> pj_version package = Some v \<Longrightarrow> isSemver v
    \<Longrightarrow> readPackage package = Inr v"
  by (simp add: readPackage_def isSemver_trim)

text \<open>What a releasable version is: the expected one, that of the package, absent from the answers of
  \<open>npm view\<close> and \<open>npm stage list\<close>, its tag absent on the remote.\<close>

definition npmView :: "string list" where "npmView = [''npm'', ''view'', packageName, ''versions'', ''--json'']"
definition npmStage :: "string list" where "npmStage = [''npm'', ''stage'', ''list'', packageName, ''--json'']"
definition lsRemote :: "string \<Rightarrow> string list" where
  "lsRemote v = [''git'', ''ls-remote'', ''--exit-code'', ''--tags'', ''origin'', ''refs/tags/'' @ tagForVersion v]"

definition notPublished :: "release_world \<Rightarrow> string list list \<Rightarrow> string \<Rightarrow> bool" where
  "notPublished w before v \<longleftrightarrow> (\<exists>output versions. (case rw_exec w before npmView of Inr out \<Rightarrow> output = trim out
         | Inl e \<Rightarrow> isNpmRegistryNotFoundError e \<and> output = ''[]'')
     \<and> rw_parseJson w output = Some versions \<and> JString v \<notin> set (publishedVersions versions))"

definition notStaged :: "release_world \<Rightarrow> string list list \<Rightarrow> string \<Rightarrow> bool" where
  "notStaged w before v \<longleftrightarrow> (\<exists>out. rw_exec w before npmStage = Inr out
     \<and> (trim out = [] \<or> (\<exists>staged. rw_parseJson w (trim out) = Some staged \<and> \<not> valueContainsVersion v staged)))"

definition tagIsFree :: "release_world \<Rightarrow> string list list \<Rightarrow> string \<Rightarrow> bool" where
  "tagIsFree w before v \<longleftrightarrow> (\<exists>e. rw_exec w before (lsRemote v) = Inl e \<and> ce_status e = Some 2
     \<and> \<not> startsWith (ce_message e) ''[client release]'')"

lemma setGithubOutput_Inr: "setGithubOutput es w s = (Inr u, t) \<longleftrightarrow> t = snd (setGithubOutput es w s)"
  using setGithubOutput_commands [of es w s] by auto

lemma wrongVersion_Inr: "wrongVersion a b w s \<noteq> (Inr u, t)"
  by (simp add: wrongVersion_def)

lemma assertExpectedVersion_Inr:
  "assertExpectedVersion w s = (Inr u, t) \<longleftrightarrow>
     (\<exists>v. map_option trim (rw_env w ''EXPECTED_VERSION'') = Some v \<and> readPackage (rw_package w) = Inr v
        \<and> t = snd (setGithubOutput [(''version'', v), (''tag'', tagForVersion v)] w s))"
    (is "?l \<longleftrightarrow> (\<exists>v. ?r v)")
proof
  assume ?l
  then obtain e v where "map_option trim (rw_env w ''EXPECTED_VERSION'') = Some e" "readPackage (rw_package w) = Inr v"
    and "(if e \<noteq> v then wrongVersion e v else setGithubOutput [(''version'', v), (''tag'', tagForVersion v)]) w s = (Inr u, t)"
    unfolding assertExpectedVersion_def by (simp only: script_Inr) blast
  then have "?r v" by (cases "e = v") (simp_all add: wrongVersion_Inr setGithubOutput_Inr [of _ w s u t, symmetric])
  then show "\<exists>v. ?r v" by blast
next
  assume "\<exists>v. ?r v"
  then obtain v where v: "?r v" by blast
  have "(if v \<noteq> v then wrongVersion v v else setGithubOutput [(''version'', v), (''tag'', tagForVersion v)]) w s = (Inr u, t)"
    using v setGithubOutput_Inr [of _ w s u t] by (simp only: refl not_True_eq_False if_False)
  moreover have "v \<noteq> []" using v readPackage_semver by blast
  ultimately show ?l unfolding assertExpectedVersion_def using v by (simp only: script_Inr) blast
qed

lemma assertVersionNotPublished_Inr: "readPackage (rw_package w) = Inr v \<Longrightarrow>
    assertVersionNotPublished w s = (Inr u, t) \<longleftrightarrow> notPublished w (rs_commands s) v \<and> t = ran s npmView"
  by (auto simp: assertVersionNotPublished_def script_Inr notPublished_def npmView_def split: sum.splits if_splits)

lemma assertVersionNotStaged_Inr: "readPackage (rw_package w) = Inr v \<Longrightarrow>
    assertVersionNotStaged w s = (Inr u, t) \<longleftrightarrow> notStaged w (rs_commands s) v \<and> t = ran s npmStage"
  by (auto simp: assertVersionNotStaged_def script_Inr notStaged_def npmStage_def split: if_splits)

lemma assertReleaseTagDoesNotExist_Inr: "readPackage (rw_package w) = Inr v \<Longrightarrow>
    assertReleaseTagDoesNotExist w s = (Inr u, t) \<longleftrightarrow> tagIsFree w (rs_commands s) v \<and> t = ran s (lsRemote v)"
  by (auto simp: assertReleaseTagDoesNotExist_def script_Inr tagIsFree_def lsRemote_def Let_def split: sum.splits if_splits)

text \<open>The preflight of a release passes exactly for a package with the right name whose version is
  valid, is the expected one, is in neither answer of npm and has no tag on the remote yet; then it has
  announced this version and tag.\<close>

theorem preflight_passes_iff:
  "preflight w s = (Inr u, t) \<longleftrightarrow>
     (\<exists>v commands. map_option trim (rw_env w ''EXPECTED_VERSION'') = Some v
        \<and> pj_name (rw_package w) = Some packageName \<and> pj_version (rw_package w) = Some v \<and> isSemver v
        \<and> commands = rs_commands s
        \<and> notPublished w commands v
        \<and> notStaged w (commands @ [npmView]) v
        \<and> tagIsFree w (commands @ [npmView, npmStage]) v
        \<and> t = (snd (setGithubOutput [(''version'', v), (''tag'', tagForVersion v)] w s))
                \<lparr>rs_commands := commands @ [npmView, npmStage, lsRemote v]\<rparr>)"
    (is "?l \<longleftrightarrow> (\<exists>v commands. ?r v commands)")
proof -
  have same: "rs_commands (snd (setGithubOutput es w s)) = rs_commands s" for es
    using setGithubOutput_commands [of es w s] by auto
  have "?l \<longleftrightarrow> (\<exists>v. readPackage (rw_package w) = Inr v \<and> ?r v (rs_commands s))"
    by (auto simp: preflight_def thenDo_Inr assertExpectedVersion_Inr assertVersionNotPublished_Inr
        assertVersionNotStaged_Inr assertReleaseTagDoesNotExist_Inr same dest: readPackage_semver)
  also have "\<dots> \<longleftrightarrow> (\<exists>v commands. ?r v commands)"
    using readPackage_valid [of "rw_package w"] by blast
  finally show ?thesis .
qed

text \<open>The changelog section of a version starts at the first heading of the version and ends before
  the next heading of a release, or with the file.\<close>

theorem changelog_section_exact:
  "sectionLines version texts = Some part \<longleftrightarrow>
     (\<exists>before heading body rest. texts = before @ part @ rest \<and> part = heading # body
        \<and> isHeadingOf version heading
        \<and> list_all (\<lambda>text. \<not> isHeadingOf version text) before
        \<and> list_all (\<lambda>text. \<not> isChangelogReleaseHeading text) body
        \<and> (rest = [] \<or> isChangelogReleaseHeading (hd rest)))"
    (is "?l \<longleftrightarrow> ?r")
proof
  assume l: ?l
  then obtain heading tail where split: "dropWhile (\<lambda>text. \<not> isHeadingOf version text) texts = heading # tail"
    and part: "part = heading # takeWhile (\<lambda>text. \<not> isChangelogReleaseHeading text) tail"
    by (auto simp: sectionLines_def split: list.splits)
  show ?r
  proof (intro exI conjI)
    show "texts = takeWhile (\<lambda>text. \<not> isHeadingOf version text) texts @ part
        @ dropWhile (\<lambda>text. \<not> isChangelogReleaseHeading text) tail"
      using takeWhile_dropWhile_id [of "\<lambda>text. \<not> isHeadingOf version text" texts] by (simp add: split part)
    show "isHeadingOf version heading" using hd_dropWhile [of "\<lambda>text. \<not> isHeadingOf version text" texts] by (simp add: split)
    show "list_all (\<lambda>text. \<not> isHeadingOf version text) (takeWhile (\<lambda>text. \<not> isHeadingOf version text) texts)"
      by (auto simp: list_all_iff dest: set_takeWhileD)
    show "list_all (\<lambda>text. \<not> isChangelogReleaseHeading text) (takeWhile (\<lambda>text. \<not> isChangelogReleaseHeading text) tail)"
      by (auto simp: list_all_iff dest: set_takeWhileD)
    show "dropWhile (\<lambda>text. \<not> isChangelogReleaseHeading text) tail = []
        \<or> isChangelogReleaseHeading (hd (dropWhile (\<lambda>text. \<not> isChangelogReleaseHeading text) tail))"
      using hd_dropWhile by blast
  qed (rule part)
next
  assume ?r
  then obtain before heading body rest where t: "texts = before @ (heading # body) @ rest" "part = heading # body"
    "isHeadingOf version heading" "\<forall>x \<in> set before. \<not> isHeadingOf version x"
    "\<forall>x \<in> set body. \<not> isChangelogReleaseHeading x" "rest = [] \<or> isChangelogReleaseHeading (hd rest)"
    unfolding list_all_iff append_Cons [symmetric] by (metis append.assoc)
  have "dropWhile (\<lambda>text. \<not> isHeadingOf version text) texts = heading # body @ rest"
    using t(3,4) by (simp add: t(1) dropWhile_append2)
  moreover have "takeWhile (\<lambda>text. \<not> isChangelogReleaseHeading text) (body @ rest) = body"
    using t(5,6) by (cases rest) (simp_all add: takeWhile_append2)
  ultimately show ?l by (simp add: sectionLines_def t(2))
qed

text \<open>The commands of a release check, and what each check has established when it passes.\<close>

definition gitStatus :: "string list" where "gitStatus = [''git'', ''status'', ''--porcelain'']"

definition npmPack :: "string \<Rightarrow> string list" where
  "npmPack npmCacheDir = [''npm'', ''pack'', ''--dry-run'', ''--json'', ''--ignore-scripts'', ''--cache'', npmCacheDir]"

definition checkCommands :: "string \<Rightarrow> string list list" where
  "checkCommands npmCacheDir = [[''npm'', ''--version''], gitStatus, [''pnpm'', ''install'', ''--frozen-lockfile''],
     [''pnpm'', ''run'', ''build''], [''pnpm'', ''run'', ''test''], gitStatus,
     [''pnpm'', ''audit'', ''--audit-level'', ''moderate''], npmPack npmCacheDir]"

lemma assertPackageMetadata_Inr: "assertPackageMetadata w s = (Inr u, t) \<longleftrightarrow> t = s
    \<and> pj_name (rw_package w) = Some packageName
    \<and> (\<exists>v. pj_version (rw_package w) = Some v \<and> isConcreteVersion v)
    \<and> pj_dependencies (rw_package w) = [] \<and> pj_peerDependencies (rw_package w) = []"
  by (auto simp: assertPackageMetadata_def script_Inr loadPackage_def split: option.splits if_splits)

lemma assertNodeVersion_Inr: "assertNodeVersion w s = (Inr u, t) \<longleftrightarrow> t = s
    \<and> (\<exists>major. parseInt10 (hd (splitOn CHR ''.'' (rw_node w))) = Some major \<and> 24 \<le> major)"
  by (auto simp: assertNodeVersion_def script_Inr nodeVersion_def split: option.splits if_splits)

lemma assertNpm_Inr: "assertNpmSupportsStagedPublishing w s = (Inr u, t) \<Longrightarrow> t = ran s [''npm'', ''--version'']
    \<and> (\<exists>out. rw_exec w (rs_commands s) [''npm'', ''--version''] = Inr out)"
  by (auto simp: assertNpmSupportsStagedPublishing_def script_Inr Let_def split: option.splits if_splits)

lemma assertCleanGitTree_Inr: "assertCleanGitTree w s = (Inr u, t) \<longleftrightarrow> t = ran s gitStatus
    \<and> (\<exists>status. rw_exec w (rs_commands s) gitStatus = Inr status \<and> trim status = [])"
  by (auto simp: assertCleanGitTree_def script_Inr gitStatus_def split: if_splits)

lemma assertPackAllowlist_Inr: "assertPackAllowlist npmCacheDir w s = (Inr u, t) \<Longrightarrow> t = ran s (npmPack npmCacheDir)
    \<and> (\<exists>packed parsed. rw_exec w (rs_commands s) (npmPack npmCacheDir) = Inr packed
        \<and> rw_parsePack w packed = Some parsed \<and> packedFiles parsed \<noteq> []
        \<and> list_all isAllowedPath (packedFiles parsed))"
  by (auto simp: assertPackAllowlist_def script_Inr npmPack_def Let_def filter_empty_conv list_all_iff split: if_splits)

text \<open>A release check that passes has run its eight commands in this order, each successfully: the
  metadata names a version and no dependencies, the tree was clean before the build and after the tests,
  and the packed files are the three named ones and the distribution.\<close>

theorem release_check_establishes:
  assumes "releaseCheck npmCacheDir w s = (Inr u, t)"
  shows "\<exists>status1 status2 packed parsed v.
     pj_version (rw_package w) = Some v \<and> isConcreteVersion v
     \<and> pj_dependencies (rw_package w) = [] \<and> pj_peerDependencies (rw_package w) = []
     \<and> rs_commands t = rs_commands s @ checkCommands npmCacheDir
     \<and> (\<forall>n < length (checkCommands npmCacheDir). \<exists>output.
          rw_exec w (rs_commands s @ take n (checkCommands npmCacheDir)) (checkCommands npmCacheDir ! n) = Inr output)
     \<and> rw_exec w (rs_commands s @ take 1 (checkCommands npmCacheDir)) gitStatus = Inr status1 \<and> trim status1 = []
     \<and> rw_exec w (rs_commands s @ take 5 (checkCommands npmCacheDir)) gitStatus = Inr status2 \<and> trim status2 = []
     \<and> rw_exec w (rs_commands s @ take 7 (checkCommands npmCacheDir)) (npmPack npmCacheDir) = Inr packed
     \<and> rw_parsePack w packed = Some parsed \<and> packedFiles parsed \<noteq> [] \<and> list_all isAllowedPath (packedFiles parsed)"
  using assms
  apply (clarsimp simp: releaseCheck_def thenDo_Inr run_Inr assertPackageMetadata_Inr assertNodeVersion_Inr
     assertCleanGitTree_Inr dest!: assertNpm_Inr assertPackAllowlist_Inr)
  apply (simp add: checkCommands_def All_less_Suc numeral_eq_Suc)
  done

section \<open>A release on sample answers\<close>

definition samplePackage :: package_json where
  "samplePackage = \<lparr>pj_name = Some packageName, pj_version = Some ''1.2.3'', pj_dependencies = [], pj_peerDependencies = []\<rparr>"

text \<open>\<open>1.2.2\<close> is published, the given version is staged, the tag is free, the tree is clean.\<close>

definition sampleExec :: "string list list \<Rightarrow> string list \<Rightarrow> command_error + string" where
  "sampleExec before command = (if take 1 command = [''git''] \<and> command ! 1 = ''ls-remote''
     then Inl \<lparr>ce_status = Some 2, ce_code = '''', ce_stderr = '''', ce_message = ''Command failed''\<rparr>
     else if command = [''npm'', ''--version''] then Inr ''11.16.0''
     else if take 2 command = [''npm'', ''view''] then Inr ''published'' else if take 2 command = [''npm'', ''stage''] then Inr ''staged''
     else if take 2 command = [''npm'', ''pack''] then Inr ''packed'' else Inr '''')"

definition sampleWorld :: "string \<Rightarrow> release_world" where
  "sampleWorld staged = \<lparr>rw_env = [''EXPECTED_VERSION'' \<mapsto> '' 1.2.3''], rw_cwd = ''/repo'', rw_node = ''24.1.0'',
     rw_package = samplePackage, rw_packageJsonPath = ''/repo/package.json'', rw_changelog = '''',
     rw_exec = sampleExec, rw_exists = (\<lambda>_ _. True),
     rw_parseJson = (\<lambda>output. if output = ''published'' then Some (JArray [JString ''1.2.2''])
        else Some (JArray [JObject [(''id'', JString (packageName @ ''@'' @ staged))]])),
     rw_parsePack = (\<lambda>_. Some [\<lparr>ps_filename = Some ''client.tgz'', ps_files = [''package.json'', ''dist/index.js'']\<rparr>])\<rparr>"

definition freshState :: release_state where
  "freshState = \<lparr>rs_commands = [], rs_console = [], rs_files = [], rs_directories = []\<rparr>"

lemma sample_preflight: "fst (preflight (sampleWorld ''1.2.2'') freshState) = Inr ()
    \<and> rs_console (snd (preflight (sampleWorld ''1.2.2'') freshState))
      = [''version=1.2.3'', ''tag=treasury-subgraph-client-v1.2.3'']"
  by code_simp

lemma release_check_establishes_witness:
  "isConcreteVersion ''1.2.3'' \<and> (\<exists>t. releaseCheck ''/tmp'' (sampleWorld ''1.2.2'') freshState = (Inr (), t))"
proof -
  have "releaseCheck ''/tmp'' (sampleWorld ''1.2.2'') freshState
      = (Inr (), snd (releaseCheck ''/tmp'' (sampleWorld ''1.2.2'') freshState))" (is "_ = (_, ?t)")
    by code_simp
  from release_check_establishes [OF this] this show ?thesis
    by (auto simp: sampleWorld_def samplePackage_def)
qed

lemma containsText_prefix: "containsText (part @ s) part"
  unfolding containsText_def list_ex_iff by (rule bexI [of _ 0]) auto

text \<open>A version is taken for staged when its digits begin a staged version, so the preflight of
  1.2.3 stops while 1.2.30 is staged.\<close>

theorem staged_prefix_refused:
  assumes "readPackage (rw_package w) = Inr v" "rw_exec w (rs_commands s) npmStage = Inr output" "trim output \<noteq> []"
    and "rw_parseJson w (trim output) = Some (JArray (JString (packageName @ ''@'' @ v @ suffix) # rest))"
  shows "fst (assertVersionNotStaged w s) = Inl (failMessage (packageName @ ''@'' @ v @ '' is already staged on npm.''))"
proof -
  have "valueContainsVersion v (JArray (JString (packageName @ ''@'' @ v @ suffix) # rest))"
    using containsText_prefix [of "packageName @ ''@'' @ v" suffix] by simp
  then show ?thesis
    using assms by (simp add: assertVersionNotStaged_def thenDo_def packageVersion_def capture_def execute_def finish_def
        parseJson_def fail_def npmStage_def)
qed

lemma staged_prefix_refused_witness:
  "fst (assertVersionNotStaged (sampleWorld ''1.2.30''\<lparr>rw_parseJson := \<lambda>_. Some (JArray [JString (packageName @ ''@'' @ ''1.2.3'' @ ''0'')])\<rparr>) freshState)
     = Inl (failMessage (packageName @ ''@'' @ ''1.2.3'' @ '' is already staged on npm.''))"
proof (rule staged_prefix_refused)
  show "readPackage (rw_package (sampleWorld ''1.2.30''\<lparr>rw_parseJson := \<lambda>_. Some (JArray [JString (packageName @ ''@'' @ ''1.2.3'' @ ''0'')])\<rparr>)) = Inr ''1.2.3''"
    by code_simp
  show "rw_exec (sampleWorld ''1.2.30''\<lparr>rw_parseJson := \<lambda>_. Some (JArray [JString (packageName @ ''@'' @ ''1.2.3'' @ ''0'')])\<rparr>) (rs_commands freshState) npmStage = Inr ''staged''"
    by code_simp
  show "trim ''staged'' \<noteq> []" by code_simp
  show "rw_parseJson (sampleWorld ''1.2.30''\<lparr>rw_parseJson := \<lambda>_. Some (JArray [JString (packageName @ ''@'' @ ''1.2.3'' @ ''0'')])\<rparr>) (trim ''staged'')
      = Some (JArray (JString (packageName @ ''@'' @ ''1.2.3'' @ ''0'') # []))"
    by simp
qed

text \<open>The two version checks disagree.\<close>

lemma version_checks_disagree:
  "isConcreteVersion ''01.2.3'' \<and> \<not> isSemver ''01.2.3''" "isSemver ''1.2.3-rc.1+build'' \<and> \<not> isConcreteVersion ''1.2.3-rc.1+build''"
  by code_simp+

lemma sample_changelog: "readChangelogSection (joinLines [''# Changelog'', ''## [v1.2.3] - 2025-01-01'', ''Fixed.'', '''', ''## [1.2.2]'', ''Old.'']) ''1.2.3''
    = Inr (joinLines [''## [v1.2.3] - 2025-01-01'', ''Fixed.''])"
  by code_simp

end
