(* ===== verification/Spec2Isabelle.thy ===== *)
theory Spec2Isabelle
  imports Pool_Events Balancer_Events Pricing_Cycles Snapshot_Totals Publish_Sample Source_Properties
    Chain_Effects Chains Contract_Helpers Position_Amounts Startup Deployment Client_Api Parity_Scripts Address_Audit Release
begin

text \<open>
  Verification of the Olympus protocol metrics indexer (TypeScript, \<open>apps/\<close> and \<open>packages/\<close>).

  The program has four parts. The indexer (\<open>apps/indexer\<close>) follows six chains: event handlers keep a
  ledger of token balances, supplies, pools, staking positions and bond auctions in an entity
  store; every eight hours a block handler turns the store, the chain and a price for each token
  into rows of treasury assets and OHM supply and updates one global row per day. The publisher
  (\<open>apps/metrics-publisher\<close>) reads those rows page by page through GraphQL, writes one document
  per month and kind into an object store under the prefix of its deployment, and keeps a
  manifest; a lock document keeps two runs apart. The API (\<open>apps/metrics-api\<close>) answers requests
  from the manifest and the documents. The client (\<open>apps/client\<close>) splits long ranges into
  requests and joins the answers.

  Theories and sources.

  \<^item> \<open>Prelude\<close>, \<open>Bignumber\<close>, \<open>Calendar\<close>: strings, decimal numbers, maps; \<open>bignumber.js\<close> values with
    their infinities and NaN; \<open>Date\<close> on UTC days. \<open>Types\<close>, \<open>Records\<close>: \<open>snapshot/types.ts\<close>,
    \<open>math.ts\<close>, \<open>records.ts\<close>. \<open>Entities\<close>: the tables of \<open>schema.graphql\<close> as a record of maps.
  \<^item> \<open>Ledger\<close> (\<open>Erc20Transfers.ts\<close>, \<open>Lender.ts\<close>), \<open>Backfill\<close> (\<open>BackfillTokenBalances.ts\<close>),
    \<open>Pool_Events\<close> (\<open>Univ2Pools\<close>, \<open>Univ3Pools\<close>, \<open>SOhmV3\<close>, \<open>BophadesKernel\<close>, \<open>KodiakLps\<close>,
    \<open>Staking\<close>), \<open>Balancer_Events\<close> (\<open>BalancerPools.ts\<close>), \<open>Bonds\<close> (\<open>BondManager\<close>,
    \<open>GnosisEasyAuction\<close>, \<open>GnosisAuctions\<close>): one definition per handler, from the store to the
    store, and per filter.
  \<^item> \<open>Pricing_Monad\<close>, \<open>Pricing_Handlers\<close>, \<open>Pricing\<close> (\<open>pricing/*.ts\<close>): price lookups as computations
    over the memo cache that may throw or run out of fuel; \<open>Pricing_Properties\<close> and
    \<open>Pricing_Cycles\<close> hold their theorems and concrete markets.
  \<^item> \<open>Snapshot_Env\<close>, \<open>Snapshot_Rows\<close>, \<open>Snapshot_Protocols\<close>, \<open>Snapshot\<close> (\<open>BlockHandlers.ts\<close> and the
    modules it calls), \<open>Global_Metrics\<close> (\<open>snapshot/global.ts\<close>); theorems in
    \<open>Snapshot_Properties\<close> and \<open>Snapshot_Totals\<close>.
  \<^item> \<open>Rpc\<close>, \<open>Contract_Cache\<close>, \<open>Chain_Effects\<close> (\<open>snapshot/rpc-client.ts\<close>, \<open>contract-cache.ts\<close>,
    \<open>effects/index.ts\<close>): retries, rate limits, the two read caches and every effect, over a node
    that may fail.
  \<^item> \<open>Chain_Ethereum\<close>, \<open>Chain_Arbitrum\<close>, \<open>Chain_Base\<close>, \<open>Chain_Berachain\<close>, \<open>Chain_Fantom\<close>,
    \<open>Chain_Polygon\<close> (\<open>snapshot/chains/*.ts\<close>): the deployed configurations as data; \<open>Chains\<close> checks
    them and applies the general theorems to them.
  \<^item> \<open>Contract_Helpers\<close> (\<open>snapshot/contracts.ts\<close>) and \<open>Position_Amounts\<close> (\<open>univ3PositionAmounts\<close> of
    \<open>math.ts\<close>): reads over the same node, and the floating-point amounts of a Uniswap V3 position.
  \<^item> \<open>Date_Ranges\<close>, \<open>Artifact_Types\<close> (\<open>packages/metrics-artifacts\<close>), \<open>Metrics_Source\<close>, \<open>Timeouts\<close>,
    \<open>Artifact_Store\<close>, \<open>S3_Store\<close>, \<open>Publisher_Lock\<close>, \<open>Publisher\<close> (\<open>apps/metrics-publisher\<close>), \<open>Api\<close>
    (\<open>apps/metrics-api\<close>), \<open>Client\<close> (\<open>apps/client\<close>); \<open>Publish_Serve\<close>, \<open>Publish_Sample\<close>,
    \<open>Source_Properties\<close> and \<open>Client_Api\<close> hold the theorems that span them.
  \<^item> \<open>Startup\<close> (\<open>validate-env.ts\<close>, \<open>start-envio.ts\<close>) and \<open>Deployment\<close> (the environment of the publisher
    and of the API, \<open>config.ts\<close> and the API's reader): from environment variables to running parts.
  \<^item> \<open>Parity_Scripts\<close>, \<open>Address_Audit\<close> (\<open>scripts\<close>) and \<open>Release\<close> (\<open>apps/client/scripts\<close>): the developers' checks.

  What the theorems show.  The ledger moves a balance by exactly what the transfers say, also
  for the deployed configurations; supplies do not go negative; the event filters drop nothing
  that matters; the seeding counts every balance once. A price is the quote with the most
  liquidity; lookups return under the cache and may not without it. A snapshot ends, its rows
  are well-formed and the global row of a day is the sum of the stored chain rows after any
  history. The effects give what the chain holds through any transient failures, so the snapshot
  may be modelled over functions of the block; the caches never serve a read the value of
  another. Publisher runs exclude each other, leave a manifest that describes the store and
  publish what the source holds; a client reads it back day by day, however its range is split.
  The S3 store behaves as the in-memory store the publisher is verified over, and an API set up
  for the same bucket reads what the publisher stored. The indexer starts exactly in an environment
  that is ready for it; the parity check passes exactly when both sides agree.

  State and effects.  Entities are maps from ids; an assignment to a row is a record update of the
  row in the map. Locks, caches and promises are step relations or explicit states over which
  calls of any number of runs interleave. A throw is \<open>Inl\<close>. Interfaces are locales (the store of
  documents, the memo table, the deposit of amounts) with interpretations on the model.

  Bounds and fuel.  Price lookups take fuel: \<open>enoughFuel\<close> counts the keys a configuration can
  ask, each of which is computed at most once per cache, and the theorems show that this much or
  more gives the same result. Paging is a \<open>partial_function\<close>, since a source that never runs dry
  keeps it going; its theorem shows that it returns. The retry loop ends after six attempts and is a
  \<open>function\<close> with a measure. Amounts are unbounded integers, as \<open>bigint\<close> is. Prices are exact
  rationals with \<open>bignumber.js\<close> division rounded to 20 places by a parameter; floating-point
  arithmetic of the publisher and of the APY goes through a rounding parameter.

  Parameters.  What contracts answer, the viem client, the clock, the GraphQL database, the S3
  client, \<open>JSON.parse\<close>, SHA-256, \<open>fetch\<close>, the URL parser, the programs the release scripts run and
  the rounding of doubles are arguments of the definitions that use them.

  Not modelled.  Logging; contract interface descriptions (\<open>snapshot/abis\<close>); the OpenAPI document
  and the JSON schemas, which are constants; the sockets and signal handlers of the two
  \<open>cli.ts\<close>; three scripts that print chain reads at one block; the effect of an S3 command that
  arrives after its timeout; the event library that calls the handlers. Price lookups of one
  snapshot run one after the other (promises are awaited in program order there), and the snapshot
  takes the amounts of Uniswap V3 positions as a parameter, which \<open>Position_Amounts\<close> computes.
\<close>

end
